(* ===== verification/DexPrelude.thy ===== *)
theory DexPrelude
  imports Complex_Main "HOL-Library.Monad_Syntax"
begin

text \<open>
  Shared vocabulary of the development: errors as values, the named collections of
  rewrite rules the component theories extend, and generic facts on lists, searches and
  rounding that more than one component needs.

  A thrown exception of the TypeScript code is a value of \<open>js_error\<close>: the class of the
  exception and its message. A method that may throw returns \<open>js_error + 'a\<close>; sequencing
  such methods is \<open>res_bind\<close>, running one over a list in order is \<open>res_map\<close>.
\<close>

named_theorems dex_defs \<open>definitions unfolded when an operation is evaluated\<close>
named_theorems bn_finite \<open>results of the numeric library on finite arguments\<close>

section \<open>Exceptions as values\<close>

datatype js_error =
    JsError string
  | BadRequest string

type_synonym 'a res = "js_error + 'a"

fun res_bind :: "'a res \<Rightarrow> ('a \<Rightarrow> 'b res) \<Rightarrow> 'b res" where
  "res_bind (Inl e) f = Inl e"
| "res_bind (Inr a) f = f a"

fun res_map :: "('a \<Rightarrow> 'b res) \<Rightarrow> 'a list \<Rightarrow> 'b list res" where
  "res_map f [] = Inr []"
| "res_map f (x # xs) =
     res_bind (f x) (\<lambda>y. res_bind (res_map f xs) (\<lambda>ys. Inr (y # ys)))"

lemma res_bind_Inr_iff [simp]:
  "res_bind m f = Inr b \<longleftrightarrow> (\<exists>a. m = Inr a \<and> f a = Inr b)"
  by (cases m) auto

lemma res_bind_Inl_iff:
  "res_bind m f = Inl e \<longleftrightarrow> m = Inl e \<or> (\<exists>a. m = Inr a \<and> f a = Inl e)"
  by (cases m) auto

lemma res_map_Inr_length: "res_map f xs = Inr ys \<Longrightarrow> length ys = length xs"
  by (induction xs arbitrary: ys) auto

lemma res_map_Inr_iff:
  "res_map f xs = Inr ys \<longleftrightarrow> list_all2 (\<lambda>x y. f x = Inr y) xs ys"
proof (induction xs arbitrary: ys)
  case Nil
  then show ?case by auto
next
  case (Cons x xs)
  then show ?case by (cases ys) auto
qed

section \<open>Lists\<close>

text \<open>\<open>Array.prototype.find\<close> is \<open>List.find\<close>; these facts read its result.\<close>

lemma find_Some_set: "List.find P xs = Some x \<Longrightarrow> x \<in> set xs \<and> P x"
  by (induction xs) (auto split: if_splits)

lemma find_None_iff': "List.find P xs = None \<longleftrightarrow> (\<forall>x\<in>set xs. \<not> P x)"
  by (induction xs) auto

lemma ex_find: "x \<in> set xs \<Longrightarrow> P x \<Longrightarrow> \<exists>y. List.find P xs = Some y"
  by (induction xs) auto

text \<open>The first maximum of a list, as a left-to-right scan with a strict comparison finds it.\<close>

lemma foldl_append_single: "foldl (\<lambda>acc x. acc @ [f x]) ys xs = ys @ map f xs"
  by (induction xs arbitrary: ys) auto

lemma foldl_plus_sum:
  fixes a :: "'a::comm_monoid_add"
  shows "foldl (\<lambda>acc x. acc + f x) a xs = a + sum_list (map f xs)"
  by (induction xs arbitrary: a) (auto simp: add.assoc)

section \<open>Rounding half away from zero\<close>

text \<open>
  \<open>half_up\<close> is the rounding mode ROUND_HALF_UP: to the nearest integer, a tie away from
  zero. \<open>round_dp n\<close> rounds to \<open>n\<close> decimal places in that mode.
\<close>

definition half_up :: "rat \<Rightarrow> int" where
  "half_up x = (if 0 \<le> x then \<lfloor>x + 1/2\<rfloor> else - \<lfloor>1/2 - x\<rfloor>)"

definition round_dp :: "nat \<Rightarrow> rat \<Rightarrow> rat" where
  "round_dp n x = of_int (half_up (x * 10 ^ n)) / 10 ^ n"

lemma half_up_of_int [simp]: "half_up (of_int z) = z"
proof (cases "0 \<le> z")
  case True
  then show ?thesis by (simp add: half_up_def floor_eq_iff)
next
  case False
  have "\<lfloor>1/2 - rat_of_int z\<rfloor> = - z" by (simp add: floor_eq_iff)
  with False show ?thesis by (simp add: half_up_def)
qed

lemma half_up_numeral [simp]: "half_up (numeral k) = numeral k" "half_up 0 = 0" "half_up 1 = 1"
  using half_up_of_int [of "numeral k"] half_up_of_int [of 0] half_up_of_int [of 1] by simp_all

lemma half_up_of_nat [simp]: "half_up (of_nat n) = int n"
  using half_up_of_int [of "int n"] by simp

lemma half_up_nonneg: "0 \<le> x \<Longrightarrow> 0 \<le> half_up x"
  by (simp add: half_up_def)

lemma half_up_mono: "x \<le> y \<Longrightarrow> half_up x \<le> half_up y"
proof -
  assume le: "x \<le> y"
  consider "0 \<le> x" | "x < 0" "0 \<le> y" | "y < 0" by linarith
  then show ?thesis
  proof cases
    case 1
    with le show ?thesis by (simp add: half_up_def floor_mono)
  next
    case 2
    then have "- \<lfloor>1/2 - x\<rfloor> \<le> 0" "0 \<le> \<lfloor>y + 1/2\<rfloor>" by simp_all
    then have "- \<lfloor>1/2 - x\<rfloor> \<le> \<lfloor>y + 1/2\<rfloor>" by (rule order_trans)
    with 2 show ?thesis by (simp add: half_up_def)
  next
    case 3
    with le have "\<lfloor>1/2 - y\<rfloor> \<le> \<lfloor>1/2 - x\<rfloor>" by (intro floor_mono) simp
    with 3 le show ?thesis by (simp add: half_up_def)
  qed
qed

lemma half_up_le_int: "x \<le> of_int z \<Longrightarrow> half_up x \<le> z"
  using half_up_mono [of x "of_int z"] by simp

lemma half_up_ge_int: "of_int z \<le> x \<Longrightarrow> z \<le> half_up x"
  using half_up_mono [of "of_int z" x] by simp

lemma half_up_error: "\<bar>of_int (half_up x) - x\<bar> \<le> 1/2"
proof (cases "0 \<le> x")
  case True
  have "of_int \<lfloor>x + 1/2\<rfloor> \<le> x + 1/2" "x + 1/2 < of_int \<lfloor>x + 1/2\<rfloor> + 1"
    using floor_correct [of "x + 1/2"] by simp_all
  then show ?thesis using True by (simp only: half_up_def if_True abs_le_iff) linarith
next
  case False
  have "of_int \<lfloor>1/2 - x\<rfloor> \<le> 1/2 - x" "1/2 - x < of_int \<lfloor>1/2 - x\<rfloor> + 1"
    using floor_correct [of "1/2 - x"] by simp_all
  then show ?thesis using False
    by (simp only: half_up_def if_False abs_le_iff of_int_minus) linarith
qed

lemma round_dp_of_int [simp]: "round_dp n (of_int z) = of_int z"
proof -
  have "rat_of_int z * 10 ^ n = of_int (z * 10 ^ n)" by simp
  then show ?thesis by (simp only: round_dp_def half_up_of_int) simp
qed

lemma round_dp_0 [simp]: "round_dp n 0 = 0" and round_dp_1 [simp]: "round_dp n 1 = 1"
  using round_dp_of_int [of n 0] round_dp_of_int [of n 1] by simp_all

lemma round_dp_mono: "x \<le> y \<Longrightarrow> round_dp n x \<le> round_dp n y"
  by (simp add: round_dp_def divide_right_mono half_up_mono)

lemma round_dp_nonneg: "0 \<le> x \<Longrightarrow> 0 \<le> round_dp n x"
  using round_dp_mono [of 0 x n] by simp

lemma round_dp_le_int: "x \<le> of_int z \<Longrightarrow> round_dp n x \<le> of_int z"
  using round_dp_mono [of x "of_int z" n] by simp

lemma round_dp_ge_int: "of_int z \<le> x \<Longrightarrow> of_int z \<le> round_dp n x"
  using round_dp_mono [of "of_int z" x n] by simp

lemma round_dp_error: "\<bar>round_dp n x - x\<bar> \<le> 1 / (2 * 10 ^ n)"
proof -
  have "round_dp n x - x = (of_int (half_up (x * 10 ^ n)) - x * 10 ^ n) / 10 ^ n"
    by (simp add: round_dp_def field_simps)
  then have "\<bar>round_dp n x - x\<bar> = \<bar>of_int (half_up (x * 10 ^ n)) - x * 10 ^ n\<bar> / 10 ^ n"
    by (simp add: abs_divide)
  also have "\<dots> \<le> (1/2) / 10 ^ n"
    by (intro divide_right_mono half_up_error) simp
  finally show ?thesis by (simp add: field_simps)
qed

lemma round_dp_scaled_error: "0 < c \<Longrightarrow> \<bar>round_dp n y / c - y / c\<bar> \<le> 1 / (2 * 10 ^ n) / c"
  using divide_right_mono [OF round_dp_error [of n y], of c]
  by (simp add: abs_divide diff_divide_distrib [symmetric])

lemma reciprocal_error:
  fixes p q x a b :: rat
  assumes "0 < x" "\<bar>p - x\<bar> \<le> a" "\<bar>q - 1 / x\<bar> \<le> b"
  shows "\<bar>p * q - 1\<bar> \<le> x * b + a / x + a * b"
proof -
  have "p * q - 1 = (p - x) * (q - 1 / x) + x * (q - 1 / x) + (p - x) / x"
    using assms(1) by (simp add: field_simps)
  moreover have "\<bar>(p - x) * (q - 1 / x)\<bar> \<le> a * b"
    unfolding abs_mult using assms by (intro mult_mono) auto
  moreover have "\<bar>x * (q - 1 / x)\<bar> \<le> x * b"
    unfolding abs_mult using assms by (simp add: mult_left_mono)
  moreover have "\<bar>(p - x) / x\<bar> \<le> a / x"
    using assms unfolding abs_divide by (simp add: divide_right_mono)
  ultimately show ?thesis by linarith
qed

lemma nth_concat_uniform:
  assumes "\<And>x. x \<in> set xss \<Longrightarrow> length x = k" "i < length xss" "j < k"
  shows "concat xss ! (k * i + j) = xss ! i ! j"
  using assms
proof (induction xss arbitrary: i)
  case (Cons x xss)
  show ?case
  proof (cases i)
    case 0
    then show ?thesis using Cons by (simp add: nth_append)
  next
    case (Suc i')
    then have "concat (x # xss) ! (k * i + j) = concat xss ! (k * i' + j)"
      using Cons.prems(1) [of x] by (simp add: nth_append add.assoc)
    then show ?thesis using Cons Suc by simp
  qed
qed simp

lemma length_concat_uniform:
  "(\<And>x. x \<in> set xss \<Longrightarrow> length x = k) \<Longrightarrow> length (concat xss) = k * length xss"
  by (induction xss) auto

lemma res_map_Inr_map: "(\<And>x. x \<in> set xs \<Longrightarrow> f x = Inr (g x)) \<Longrightarrow> res_map f xs = Inr (map g xs)"
  by (induction xs) auto

lemma half_up_round_error: "\<bar>of_int (half_up (round_dp 20 x)) - x\<bar> \<le> 51 / 100"
proof -
  have "\<bar>round_dp 20 x - x\<bar> \<le> 1 / (2 * 10 ^ 20)" by (rule round_dp_error)
  then show ?thesis using half_up_error [of "round_dp 20 x"] unfolding abs_le_iff by simp
qed

lemma within_trans:
  fixes x y z :: rat
  shows "\<bar>x - y\<bar> \<le> a \<Longrightarrow> \<bar>y - z\<bar> \<le> b \<Longrightarrow> \<bar>x - z\<bar> \<le> a + b"
  using abs_triangle_ineq [of "x - y" "y - z"] by simp

end
