(* ===== verification/JsNumber.thy ===== *)
theory JsNumber
  imports DexPrelude "HOL-Library.Log_Nat"
begin

text \<open>
  The \<open>number\<close> type of JavaScript: IEEE 754 binary64. A finite number is the rational it
  denotes; an operation computes the exact result and rounds it to 53 significant bits,
  to nearest with ties to even (\<open>fl64\<close>). Results are assumed to stay inside the normal
  exponent range, which holds for the fees, percentages, epochs and weeks computed here.
  Counters and epochs are integers below \<open>2 ^ 53\<close>, on which sums, differences and products
  are exact; they are \<open>int\<close> in the model, and a quotient of two of them goes through
  \<open>fl64\<close> before it is truncated, as \<open>Math.floor (a / b)\<close> does.
\<close>

section \<open>Rounding to nearest, ties to even\<close>

definition rne :: "rat \<Rightarrow> int" where
  "rne y = (let f = \<lfloor>y\<rfloor>; d = y - of_int f in
     if d < 1/2 then f else if 1/2 < d then f + 1 else if even f then f else f + 1)"

lemma rne_of_int [simp]: "rne (of_int z) = z"
  by (simp add: rne_def)

lemma rne_cases: "rne y = \<lfloor>y\<rfloor> \<or> (rne y = \<lfloor>y\<rfloor> + 1 \<and> 1/2 \<le> y - of_int \<lfloor>y\<rfloor>)"
  by (auto simp: rne_def Let_def)

lemma rne_error: "\<bar>of_int (rne y) - y\<bar> \<le> 1/2"
proof -
  have "of_int \<lfloor>y\<rfloor> \<le> y" "y < of_int \<lfloor>y\<rfloor> + 1" using floor_correct [of y] by simp_all
  then show ?thesis by (simp add: rne_def Let_def abs_le_iff)
qed

lemma rne_le_int: "y \<le> of_int z \<Longrightarrow> rne y \<le> z"
proof -
  assume le: "y \<le> of_int z"
  then have "\<lfloor>y\<rfloor> \<le> z" by (simp add: floor_le_iff)
  show ?thesis
  proof (cases "\<lfloor>y\<rfloor> = z")
    case True
    with le have "y = of_int z" using of_int_floor_le [of y] by simp
    then show ?thesis by simp
  next
    case False
    with \<open>\<lfloor>y\<rfloor> \<le> z\<close> rne_cases [of y] show ?thesis by auto
  qed
qed

lemma rne_ge_int: "of_int z \<le> y \<Longrightarrow> z \<le> rne y"
  using rne_cases [of y] le_floor_iff [of z y] by auto

section \<open>The binary exponent\<close>

text \<open>\<open>ilog2 x\<close> is the integer \<open>k\<close> with \<open>2 ^ k \<le> x < 2 ^ (k + 1)\<close>, for \<open>0 < x\<close>.\<close>

definition ilog2 :: "rat \<Rightarrow> int" where
  "ilog2 x = (case quotient_of x of (p, q) \<Rightarrow>
     let k = bitlen p - bitlen q in if 2 powi k \<le> x then k else k - 1)"

lemma bitlen_bounds':
  assumes "0 < p"
  shows "2 powi (bitlen p - 1) \<le> rat_of_int p" "rat_of_int p < 2 powi (bitlen p)"
proof -
  have b: "2 ^ nat (bitlen p - 1) \<le> p \<and> p < 2 ^ nat (bitlen p)"
    using bitlen_bounds [OF assms] .
  have pos: "1 \<le> bitlen p" using assms bitlen_eq_zero_iff [of p] bitlen_nonneg [of p] by linarith
  have "rat_of_int (2 ^ nat (bitlen p - 1)) \<le> of_int p" using b of_int_le_iff by blast
  then show "2 powi (bitlen p - 1) \<le> rat_of_int p" using pos by (simp add: power_int_def)
  have "rat_of_int p < of_int (2 ^ nat (bitlen p))" using b of_int_less_iff by blast
  then show "rat_of_int p < 2 powi (bitlen p)" using pos by (simp add: power_int_def)
qed

lemma ilog2_bounds:
  assumes "0 < x"
  shows "2 powi (ilog2 x) \<le> x" "x < 2 powi (ilog2 x + 1)"
proof -
  obtain p q where pq: "quotient_of x = (p, q)" by (cases "quotient_of x")
  have q: "0 < q" using quotient_of_denom_pos [OF pq] .
  have x: "x = of_int p / of_int q" using quotient_of_div [OF pq] .
  have p: "0 < p" using assms x q by (simp add: zero_less_divide_iff)
  let ?k = "bitlen p - bitlen q"
  have up: "x < 2 powi (?k + 1)"
  proof -
    have "of_int p < (2::rat) powi (bitlen p)" using bitlen_bounds' (2) [OF p] .
    also have "\<dots> = 2 powi (?k + 1) * 2 powi (bitlen q - 1)"
      by (simp flip: power_int_add)
    also have "\<dots> \<le> 2 powi (?k + 1) * of_int q"
      using bitlen_bounds' (1) [OF q] by (intro mult_left_mono) simp_all
    finally show ?thesis using q x by (simp add: divide_less_eq)
  qed
  have low: "2 powi (?k - 1) \<le> x"
  proof -
    have "(2::rat) powi (?k - 1) * of_int q \<le> 2 powi (?k - 1) * 2 powi (bitlen q)"
      using bitlen_bounds' (2) [OF q] by (intro mult_left_mono) simp_all
    also have "\<dots> = 2 powi (bitlen p - 1)" by (simp flip: power_int_add)
    also have "\<dots> \<le> of_int p" using bitlen_bounds' (1) [OF p] .
    finally show ?thesis using q x by (simp add: le_divide_eq)
  qed
  show "2 powi (ilog2 x) \<le> x" using low by (auto simp: ilog2_def pq Let_def)
  show "x < 2 powi (ilog2 x + 1)" using up by (auto simp: ilog2_def pq Let_def not_le)
qed

section \<open>Rounding to 53 bits\<close>

definition fl64 :: "rat \<Rightarrow> rat" where
  "fl64 x = (if x = 0 then 0
     else let e = ilog2 \<bar>x\<bar> - 52 in sgn x * (of_int (rne (\<bar>x\<bar> / 2 powi e)) * 2 powi e))"

lemma fl64_0 [simp]: "fl64 0 = 0"
  by (simp add: fl64_def)

lemma fl64_pos: "0 < x \<Longrightarrow>
  fl64 x = of_int (rne (x / 2 powi (ilog2 x - 52))) * 2 powi (ilog2 x - 52)"
  by (simp add: fl64_def Let_def)

lemma fl64_minus: "fl64 (- x) = - fl64 x"
  by (simp add: fl64_def Let_def sgn_minus)

lemma powi_2_int: "e \<le> 0 \<Longrightarrow> \<exists>m. (rat_of_int n) / 2 powi e = of_int m"
  by (rule exI [of _ "n * 2 ^ nat (- e)"]) (simp add: power_int_def field_simps)

lemma powi_2_less: "(2::rat) powi a < 2 powi b \<longleftrightarrow> a < b"
  by (meson leD linorder_not_less one_le_numeral one_less_numeral_iff power_int_increasing
      power_int_strict_increasing semiring_norm(76))

lemma ilog2_less: "0 < x \<Longrightarrow> x < 2 powi b \<Longrightarrow> ilog2 x < b"
  using ilog2_bounds(1) [of x] powi_2_less [of "ilog2 x" b] by linarith

lemma ilog2_ge: "0 < x \<Longrightarrow> 2 powi b \<le> x \<Longrightarrow> b \<le> ilog2 x"
  using ilog2_bounds(2) [of x] powi_2_less [of b "ilog2 x + 1"] by linarith

lemma fl64_scaled_ge: "0 < x \<Longrightarrow> 2 ^ 52 \<le> x / 2 powi (ilog2 x - 52)"
proof -
  assume x: "0 < x"
  have "(2::rat) ^ 52 * 2 powi (ilog2 x - 52) = 2 powi (52 + (ilog2 x - 52))"
    by (subst power_int_add) (simp_all add: power_int_def)
  also have "\<dots> \<le> x" using ilog2_bounds(1) [OF x] by simp
  finally show ?thesis by (simp add: le_divide_eq)
qed

lemma fl64_nonneg: "0 \<le> x \<Longrightarrow> 0 \<le> fl64 x"
  by (cases "x = 0") (auto simp: fl64_pos intro!: mult_nonneg_nonneg rne_ge_int)

text \<open>A rounded quotient stays on its side of every integer up to \<open>2 ^ 53\<close>.\<close>

lemma fl64_small_le:
  assumes "0 < x" "x \<le> of_int n" "x < 2 ^ 53"
  shows "fl64 x \<le> of_int n"
proof -
  let ?e = "ilog2 x - 52"
  have "ilog2 x < 53" using ilog2_less [of x 53] assms by (simp add: power_int_def)
  then obtain m where m: "rat_of_int n / 2 powi ?e = of_int m" using powi_2_int [of ?e n] by auto
  have "x / 2 powi ?e \<le> of_int m" unfolding m [symmetric]
    using assms(2) by (intro divide_right_mono) simp_all
  then have "rne (x / 2 powi ?e) \<le> m" by (rule rne_le_int)
  then have "rat_of_int (rne (x / 2 powi ?e)) * 2 powi ?e \<le> of_int m * 2 powi ?e"
    by (intro mult_right_mono) simp_all
  also have "\<dots> = of_int n" unfolding m [symmetric] by simp
  finally show ?thesis using assms(1) by (simp add: fl64_pos)
qed

lemma fl64_ge_int:
  assumes "0 \<le> n" "n \<le> 2 ^ 53" "of_int n \<le> x"
  shows "of_int n \<le> fl64 x"
proof (cases "0 < x")
  case False
  then show ?thesis using assms by (cases "x = 0") auto
next
  case True
  let ?e = "ilog2 x - 52"
  show ?thesis
  proof (cases "?e \<le> 0")
    case True
    then obtain m where m: "rat_of_int n / 2 powi ?e = of_int m" using powi_2_int [of ?e n] by auto
    have "of_int m \<le> x / 2 powi ?e" unfolding m [symmetric]
      using assms(3) by (intro divide_right_mono) simp_all
    then have "m \<le> rne (x / 2 powi ?e)" by (rule rne_ge_int)
    then have "of_int m * 2 powi ?e \<le> rat_of_int (rne (x / 2 powi ?e)) * 2 powi ?e"
      by (intro mult_right_mono) simp_all
    moreover have "of_int m * 2 powi ?e = rat_of_int n" unfolding m [symmetric] by simp
    ultimately show ?thesis using \<open>0 < x\<close> by (simp add: fl64_pos)
  next
    case False
    have "rat_of_int (2 ^ 52) \<le> x / 2 powi ?e" using fl64_scaled_ge [OF \<open>0 < x\<close>] by simp
    then have "2 ^ 52 \<le> rne (x / 2 powi ?e)" by (rule rne_ge_int)
    then have r: "rat_of_int (2 ^ 52) \<le> of_int (rne (x / 2 powi ?e))" by (simp only: of_int_le_iff)
    have "(2::rat) powi 1 \<le> 2 powi ?e" using False by (intro power_int_increasing) simp_all
    then have "(2::rat) ^ 52 * 2 \<le> of_int (rne (x / 2 powi ?e)) * 2 powi ?e"
      using r by (intro mult_mono) simp_all
    moreover have "rat_of_int n \<le> of_int (2 ^ 53)" using assms(2) by (simp only: of_int_le_iff)
    ultimately show ?thesis using \<open>0 < x\<close> by (simp add: fl64_pos)
  qed
qed

lemma fl64_of_int:
  assumes "\<bar>n\<bar> < 2 ^ 53"
  shows "fl64 (of_int n) = of_int n"
proof -
  have pos: "fl64 (of_int n) = of_int n" if n: "0 < n" "n < 2 ^ 53" for n :: int
  proof (rule antisym)
    have "rat_of_int n < of_int (2 ^ 53)" using n(2) by (simp only: of_int_less_iff)
    then show "fl64 (of_int n) \<le> of_int n" using n by (intro fl64_small_le) simp_all
    show "rat_of_int n \<le> fl64 (of_int n)" using n by (intro fl64_ge_int) simp_all
  qed
  consider "n = 0" | "0 < n" | "n < 0" by linarith
  then show ?thesis
  proof cases
    case 3
    then have "fl64 (of_int (- n)) = of_int (- n)" using assms by (intro pos) auto
    then show ?thesis by (simp add: fl64_minus)
  qed (use assms pos in auto)
qed

lemma fl64_le_int:
  assumes "0 \<le> x" "x \<le> of_int n" "n < 2 ^ 53"
  shows "fl64 x \<le> of_int n"
proof (cases "x = 0")
  case True
  then show ?thesis using assms by simp
next
  case False
  have "rat_of_int n < of_int (2 ^ 53)" using assms(3) by (simp only: of_int_less_iff)
  then show ?thesis using assms False by (intro fl64_small_le) simp_all
qed

lemma fl64_error: "0 \<le> x \<Longrightarrow> \<bar>fl64 x - x\<bar> \<le> x / 2 ^ 53"
proof (cases "x = 0")
  case False
  assume "0 \<le> x"
  with False have x: "0 < x" by simp
  let ?e = "ilog2 x - 52"
  have "fl64 x - x = (of_int (rne (x / 2 powi ?e)) - x / 2 powi ?e) * 2 powi ?e"
    using x by (simp add: fl64_pos left_diff_distrib)
  then have "\<bar>fl64 x - x\<bar> = \<bar>of_int (rne (x / 2 powi ?e)) - x / 2 powi ?e\<bar> * 2 powi ?e"
    by (simp add: abs_mult)
  also have "\<dots> \<le> (1/2) * 2 powi ?e" by (intro mult_right_mono rne_error) simp
  also have "\<dots> = 2 powi (ilog2 x) / 2 ^ 53"
    by (simp add: power_int_diff)
  also have "\<dots> \<le> x / 2 ^ 53" using ilog2_bounds(1) [OF x] by (intro divide_right_mono) simp_all
  finally show ?thesis .
qed simp

section \<open>Numbers that may be NaN or infinite\<close>

text \<open>
  Where the code divides by a number that can be zero, a value is a \<open>jsnum\<close>. The sign of
  zero is not kept: no operation modelled here divides by a negative zero.
\<close>

datatype jsnum = JNum rat | JInf | JNegInf | JNaN

abbreviation jint :: "int \<Rightarrow> jsnum" where
  "jint z \<equiv> JNum (of_int z)"

fun js_neg :: "jsnum \<Rightarrow> jsnum" where
  "js_neg (JNum x) = JNum (- x)"
| "js_neg JInf = JNegInf"
| "js_neg JNegInf = JInf"
| "js_neg JNaN = JNaN"

fun js_add :: "jsnum \<Rightarrow> jsnum \<Rightarrow> jsnum" where
  "js_add (JNum x) (JNum y) = JNum (fl64 (x + y))"
| "js_add JNaN _ = JNaN"
| "js_add _ JNaN = JNaN"
| "js_add JInf JNegInf = JNaN"
| "js_add JNegInf JInf = JNaN"
| "js_add JInf _ = JInf"
| "js_add JNegInf _ = JNegInf"
| "js_add _ JInf = JInf"
| "js_add _ JNegInf = JNegInf"

definition js_sub :: "jsnum \<Rightarrow> jsnum \<Rightarrow> jsnum" where
  "js_sub a b = js_add a (js_neg b)"

definition js_signed_inf :: "rat \<Rightarrow> jsnum" where
  "js_signed_inf s = (if s = 0 then JNaN else if 0 < s then JInf else JNegInf)"

fun js_sgn :: "jsnum \<Rightarrow> rat" where
  "js_sgn (JNum x) = sgn x"
| "js_sgn JInf = 1"
| "js_sgn JNegInf = -1"
| "js_sgn JNaN = 0"

definition js_mul :: "jsnum \<Rightarrow> jsnum \<Rightarrow> jsnum" where
  "js_mul a b = (case (a, b) of
     (JNum x, JNum y) \<Rightarrow> JNum (fl64 (x * y)) | _ \<Rightarrow> js_signed_inf (js_sgn a * js_sgn b))"

fun js_div :: "jsnum \<Rightarrow> jsnum \<Rightarrow> jsnum" where
  "js_div (JNum x) (JNum y) = (if y = 0 then js_signed_inf (sgn x) else JNum (fl64 (x / y)))"
| "js_div (JNum x) JInf = JNum 0"
| "js_div (JNum x) JNegInf = JNum 0"
| "js_div JInf (JNum y) = (if y < 0 then JNegInf else JInf)"
| "js_div JNegInf (JNum y) = (if y < 0 then JInf else JNegInf)"
| "js_div _ _ = JNaN"

text \<open>\<open>Math.floor\<close> and \<open>Math.trunc\<close>.\<close>

fun js_floor :: "jsnum \<Rightarrow> jsnum" where
  "js_floor (JNum x) = jint \<lfloor>x\<rfloor>"
| "js_floor v = v"

fun js_trunc :: "jsnum \<Rightarrow> jsnum" where
  "js_trunc (JNum x) = jint (if 0 \<le> x then \<lfloor>x\<rfloor> else \<lceil>x\<rceil>)"
| "js_trunc v = v"

lemma js_sub_int: "\<bar>a - b\<bar> < 2 ^ 53 \<Longrightarrow> js_sub (jint a) (jint b) = jint (a - b)"
  using fl64_of_int [of "a - b"] by (simp add: js_sub_def)

lemma js_add_int: "\<bar>a + b\<bar> < 2 ^ 53 \<Longrightarrow> js_add (jint a) (jint b) = jint (a + b)"
  using fl64_of_int [of "a + b"] by simp

lemma js_mul_int: "\<bar>a * b\<bar> < 2 ^ 53 \<Longrightarrow> js_mul (jint a) (jint b) = jint (a * b)"
  using fl64_of_int [of "a * b"] by (simp add: js_mul_def)

section \<open>Truncated quotients of safe integers\<close>

lemma floor_fl64_div:
  assumes "0 \<le> a" "a < 2 ^ 53" "0 < b"
  shows "\<lfloor>fl64 (of_int a / of_int b)\<rfloor> = a div b"
proof -
  let ?x = "rat_of_int a / of_int b"
  have x: "0 \<le> ?x" using assms by simp
  have q: "a div b \<le> a" using assms zdiv_mono2 [of a 1 b] by simp
  have "a div b * b \<le> a" using assms pos_mod_sign [of b a] div_mult_mod_eq [of a b] by linarith
  then have "of_int (a div b) \<le> ?x"
    using assms by (simp add: le_divide_eq flip: of_int_mult)
  then have low: "of_int (a div b) \<le> fl64 ?x"
    using assms q by (intro fl64_ge_int) (auto simp: pos_imp_zdiv_nonneg_iff)
  have "a = a div b * b + a mod b" by simp
  with pos_mod_bound [OF assms(3), of a] have "a < a div b * b + 1 * b" by linarith
  then have "a < (a div b + 1) * b" by (simp only: distrib_right)
  then have "a + 1 \<le> (a div b + 1) * b" by simp
  then have "rat_of_int (a + 1) \<le> of_int ((a div b + 1) * b)" by (simp only: of_int_le_iff)
  then have "?x + 1 / of_int b \<le> of_int (a div b + 1)"
    using assms by (simp add: add_divide_distrib [symmetric] divide_le_eq)
  moreover have "fl64 ?x < ?x + 1 / of_int b"
  proof -
    have "fl64 ?x \<le> ?x + ?x / 2 ^ 53" using fl64_error [OF x] by (simp add: abs_le_iff)
    moreover have "?x / 2 ^ 53 < 1 / of_int b"
    proof -
      have "rat_of_int a < of_int (2 ^ 53)" using assms(2) by (simp only: of_int_less_iff)
      then show ?thesis using assms(3) by (simp add: field_simps)
    qed
    ultimately show ?thesis by linarith
  qed
  ultimately have "fl64 ?x < of_int (a div b + 1)" by linarith
  with low show ?thesis by (intro floor_unique) simp_all
qed

lemma js_floor_div_eq:
  "0 \<le> a \<Longrightarrow> a < 2 ^ 53 \<Longrightarrow> 0 < b \<Longrightarrow> js_floor (js_div (jint a) (jint b)) = jint (a div b)"
  by (simp add: floor_fl64_div)

lemma js_trunc_div_eq:
  "0 \<le> a \<Longrightarrow> a < 2 ^ 53 \<Longrightarrow> 0 < b \<Longrightarrow> js_trunc (js_div (jint a) (jint b)) = jint (a div b)"
  using floor_fl64_div [of a b] fl64_nonneg [of "of_int a / of_int b"] by simp

lemma abs_factor:
  fixes w x k :: rat
  assumes "\<bar>w - x\<bar> \<le> x / k"
  shows "x * (1 - 1 / k) \<le> w" "w \<le> x * (1 + 1 / k)"
  using assms by (simp_all only: abs_le_iff right_diff_distrib distrib_left) simp_all

lemma fl64_factor:
  assumes "0 \<le> x"
  shows "x * (1 - 1 / 2 ^ 53) \<le> fl64 x" "fl64 x \<le> x * (1 + 1 / 2 ^ 53)"
  using abs_factor [OF fl64_error [OF assms]] by simp_all

text \<open>Three roundings of a non-negative number stay within \<open>2 ^ -50\<close> of it, relatively.\<close>

lemma three_roundings:
  fixes x :: rat
  assumes "0 \<le> x" "x * (1 - 1 / 2 ^ 53) \<le> y" "y \<le> x * (1 + 1 / 2 ^ 53)"
    "y * (1 - 1 / 2 ^ 53) \<le> z" "z \<le> y * (1 + 1 / 2 ^ 53)"
    "z * (1 - 1 / 2 ^ 52) \<le> w" "w \<le> z * (1 + 1 / 2 ^ 52)"
  shows "x * (1 - 1 / 2 ^ 50) \<le> w" "w \<le> x * (1 + 1 / 2 ^ 50)"
proof -
  have "x * (1 - 1 / 2 ^ 50) \<le> x * ((1 - 1 / 2 ^ 53) * (1 - 1 / 2 ^ 53) * (1 - 1 / 2 ^ 52))"
    using assms(1) by (intro mult_left_mono) simp_all
  also have "\<dots> = x * (1 - 1 / 2 ^ 53) * (1 - 1 / 2 ^ 53) * (1 - 1 / 2 ^ 52)" by (simp only: mult.assoc)
  also have "\<dots> \<le> y * (1 - 1 / 2 ^ 53) * (1 - 1 / 2 ^ 52)"
    using assms(2) by (intro mult_right_mono) simp_all
  also have "\<dots> \<le> z * (1 - 1 / 2 ^ 52)" using assms(4) by (intro mult_right_mono) simp_all
  finally show "x * (1 - 1 / 2 ^ 50) \<le> w" using assms(6) by simp
  have "w \<le> z * (1 + 1 / 2 ^ 52)" by (rule assms(7))
  also have "\<dots> \<le> y * (1 + 1 / 2 ^ 53) * (1 + 1 / 2 ^ 52)"
    using assms(5) by (intro mult_right_mono) simp_all
  also have "\<dots> \<le> x * (1 + 1 / 2 ^ 53) * (1 + 1 / 2 ^ 53) * (1 + 1 / 2 ^ 52)"
    using assms(3) by (intro mult_right_mono) simp_all
  also have "\<dots> = x * ((1 + 1 / 2 ^ 53) * (1 + 1 / 2 ^ 53) * (1 + 1 / 2 ^ 52))" by (simp only: mult.assoc)
  also have "\<dots> \<le> x * (1 + 1 / 2 ^ 50)"
    using assms(1) by (intro mult_left_mono) simp_all
  finally show "w \<le> x * (1 + 1 / 2 ^ 50)" .
qed

end
