(* ===== verification/BigNumber.thy ===== *)
theory BigNumber
  imports JsNumber
begin

text \<open>
  The interface of the decimal arithmetic library \<open>bignumber.js\<close>, which is not part of the
  repository. Its operations are an argument of every definition that calls one (the record
  \<open>bignumber\<close>), and \<open>bignumber_lib\<close> names what the code relies on: the documented results
  on finite operands, with the library's default configuration (\<open>DECIMAL_PLACES\<close> 20,
  \<open>ROUNDING_MODE\<close> ROUND_HALF_UP; \<open>main.ts\<close> only sets \<open>EXPONENTIAL_AT\<close>, the format of
  \<open>toString\<close>), and the few facts on Infinity the code uses.

  A value is a finite decimal, an infinity or NaN. A string amount of the code is modelled
  by the value it denotes, so \<open>new BigNumber(s)\<close> of a string and \<open>toFixed()\<close> are both the
  identity; \<open>toFixed(dp)\<close> is \<open>bn_fixed dp\<close>. A JavaScript number enters through \<open>bn_number\<close>.
\<close>

section \<open>Values and operations\<close>

datatype bn = Fin rat | PosInf | NegInf | NotANum

record bignumber =
  bn_plus :: "bn \<Rightarrow> bn \<Rightarrow> bn"
  bn_minus :: "bn \<Rightarrow> bn \<Rightarrow> bn"
  bn_times :: "bn \<Rightarrow> bn \<Rightarrow> bn"
  bn_div :: "bn \<Rightarrow> bn \<Rightarrow> bn"
  bn_pow :: "bn \<Rightarrow> nat \<Rightarrow> bn"
  bn_integer :: "bn \<Rightarrow> bn"
  bn_fixed :: "nat \<Rightarrow> bn \<Rightarrow> bn"
  bn_less :: "bn \<Rightarrow> bn \<Rightarrow> bool"
  bn_greater :: "bn \<Rightarrow> bn \<Rightarrow> bool"
  bn_equal :: "bn \<Rightarrow> bn \<Rightarrow> bool"
  bn_positive :: "bn \<Rightarrow> bool"
  bn_number :: "rat \<Rightarrow> bn"

abbreviation bn_of_int :: "int \<Rightarrow> bn" where
  "bn_of_int z \<equiv> Fin (of_int z)"

text \<open>A JavaScript number, possibly NaN or infinite, as an operand.\<close>

fun bn_of_js :: "bignumber \<Rightarrow> jsnum \<Rightarrow> bn" where
  "bn_of_js B (JNum x) = bn_number B x"
| "bn_of_js B JInf = PosInf"
| "bn_of_js B JNegInf = NegInf"
| "bn_of_js B JNaN = NotANum"

text \<open>The literal \<open>1e-d\<close>.\<close>

definition dec_unit :: "nat \<Rightarrow> bn" where
  "dec_unit d = Fin (1 / 10 ^ d)"

section \<open>What the code relies on\<close>

locale bignumber_lib =
  fixes B :: bignumber
  assumes plus_fin: "bn_plus B (Fin x) (Fin y) = Fin (x + y)"
    and minus_fin: "bn_minus B (Fin x) (Fin y) = Fin (x - y)"
    and times_fin: "bn_times B (Fin x) (Fin y) = Fin (x * y)"
    and div_fin: "y \<noteq> 0 \<Longrightarrow> bn_div B (Fin x) (Fin y) = Fin (round_dp 20 (x / y))"
    and div_zero: "0 < x \<Longrightarrow> bn_div B (Fin x) (Fin 0) = PosInf"
    and div_zero_zero: "bn_div B (Fin 0) (Fin 0) = NotANum"
    and pow_fin: "bn_pow B (Fin x) n = Fin (x ^ n)"
    and integer_fin: "bn_integer B (Fin x) = bn_of_int (half_up x)"
    and fixed_fin: "bn_fixed B d (Fin x) = Fin (round_dp d x)"
    and less_fin: "bn_less B (Fin x) (Fin y) \<longleftrightarrow> x < y"
    and greater_fin: "bn_greater B (Fin x) (Fin y) \<longleftrightarrow> y < x"
    and equal_fin: "bn_equal B (Fin x) (Fin y) \<longleftrightarrow> x = y"
    and positive_fin: "bn_positive B (Fin x) \<longleftrightarrow> 0 \<le> x"
    and plus_inf: "bn_plus B PosInf (Fin y) = PosInf"
    and integer_inf: "bn_integer B PosInf = PosInf"
    and greater_inf_fin: "bn_greater B PosInf (Fin y)"
    and not_greater_inf: "\<not> bn_greater B v PosInf"
    and equal_inf_fin: "\<not> bn_equal B PosInf (Fin y)"
    and number_int: "\<bar>z\<bar> < 2 ^ 53 \<Longrightarrow> bn_number B (of_int z) = bn_of_int z"
    and number_fin: "\<exists>y. bn_number B x = Fin y"
    and number_mono: "x \<le> y \<Longrightarrow> bn_number B x = Fin x' \<Longrightarrow> bn_number B y = Fin y' \<Longrightarrow> x' \<le> y'"
    and number_error: "bn_number B x = Fin y \<Longrightarrow> \<bar>y - x\<bar> \<le> \<bar>x\<bar> / 2 ^ 52"
begin

lemmas finite_ops [bn_finite] =
  plus_fin minus_fin times_fin div_fin div_zero div_zero_zero pow_fin integer_fin fixed_fin
  less_fin greater_fin equal_fin positive_fin

lemma number_numeral: "numeral k < (2::int) ^ 53 \<Longrightarrow> bn_number B (numeral k) = Fin (numeral k)"
  using number_int [of "numeral k"] by simp

lemma number_0: "bn_number B 0 = Fin 0" and number_1: "bn_number B 1 = Fin 1"
  using number_int [of 0] number_int [of 1] by simp_all

text \<open>A number between two safe integers is between them after conversion.\<close>

lemma number_between:
  assumes "of_int a \<le> x" "x \<le> of_int b" "\<bar>a\<bar> < 2 ^ 53" "\<bar>b\<bar> < 2 ^ 53"
  obtains y where "bn_number B x = Fin y" "of_int a \<le> y" "y \<le> of_int b"
proof -
  obtain y where y: "bn_number B x = Fin y" using number_fin by blast
  have "of_int a \<le> y" using number_mono [OF assms(1) number_int [OF assms(3)] y] .
  moreover have "y \<le> of_int b" using number_mono [OF assms(2) y number_int [OF assms(4)]] .
  ultimately show ?thesis using y that by blast
qed

lemma number_factor:
  assumes "0 \<le> x" "bn_number B x = Fin y"
  shows "x * (1 - 1 / 2 ^ 52) \<le> y" "y \<le> x * (1 + 1 / 2 ^ 52)"
  using abs_factor [of y x "2 ^ 52"] number_error [OF assms(2)] assms(1) by simp_all

lemma div_error:
  assumes "y \<noteq> 0" "bn_div B (Fin x) (Fin y) = Fin q"
  shows "\<bar>q - x / y\<bar> \<le> 1 / (2 * 10 ^ 20)"
  using assms round_dp_error [of 20 "x / y"] by (simp add: div_fin)

lemma div_nonneg: "0 \<le> x \<Longrightarrow> 0 < y \<Longrightarrow> bn_div B (Fin x) (Fin y) = Fin q \<Longrightarrow> 0 \<le> q"
  by (auto simp: div_fin intro: round_dp_nonneg)

end

section \<open>The interface has an implementation\<close>

text \<open>
  Exact rational arithmetic rounded as documented satisfies the interface; the extended
  operands follow IEEE 754, as the library does. Witnesses evaluate with this instance.
\<close>

fun ext_plus :: "bn \<Rightarrow> bn \<Rightarrow> bn" where
  "ext_plus (Fin x) (Fin y) = Fin (x + y)"
| "ext_plus NotANum _ = NotANum"
| "ext_plus _ NotANum = NotANum"
| "ext_plus PosInf NegInf = NotANum"
| "ext_plus NegInf PosInf = NotANum"
| "ext_plus PosInf _ = PosInf"
| "ext_plus NegInf _ = NegInf"
| "ext_plus _ PosInf = PosInf"
| "ext_plus _ NegInf = NegInf"

fun ext_uminus :: "bn \<Rightarrow> bn" where
  "ext_uminus (Fin x) = Fin (- x)"
| "ext_uminus PosInf = NegInf"
| "ext_uminus NegInf = PosInf"
| "ext_uminus NotANum = NotANum"

definition ext_inf :: "rat \<Rightarrow> bn" where
  "ext_inf s = (if s = 0 then NotANum else if 0 < s then PosInf else NegInf)"

fun ext_sgn :: "bn \<Rightarrow> rat" where
  "ext_sgn (Fin x) = sgn x"
| "ext_sgn PosInf = 1"
| "ext_sgn NegInf = -1"
| "ext_sgn NotANum = 0"

definition ext_times :: "bn \<Rightarrow> bn \<Rightarrow> bn" where
  "ext_times a b = (case (a, b) of (Fin x, Fin y) \<Rightarrow> Fin (x * y) | _ \<Rightarrow> ext_inf (ext_sgn a * ext_sgn b))"

fun ext_div :: "bn \<Rightarrow> bn \<Rightarrow> bn" where
  "ext_div (Fin x) (Fin y) = (if y = 0 then ext_inf (sgn x) else Fin (round_dp 20 (x / y)))"
| "ext_div (Fin x) PosInf = Fin 0"
| "ext_div (Fin x) NegInf = Fin 0"
| "ext_div PosInf (Fin y) = (if y < 0 then NegInf else PosInf)"
| "ext_div NegInf (Fin y) = (if y < 0 then PosInf else NegInf)"
| "ext_div _ _ = NotANum"

fun ext_pow :: "bn \<Rightarrow> nat \<Rightarrow> bn" where
  "ext_pow (Fin x) n = Fin (x ^ n)"
| "ext_pow v 0 = Fin 1"
| "ext_pow NegInf n = (if even n then PosInf else NegInf)"
| "ext_pow v n = v"

fun ext_map :: "(rat \<Rightarrow> rat) \<Rightarrow> bn \<Rightarrow> bn" where
  "ext_map f (Fin x) = Fin (f x)"
| "ext_map f v = v"

fun ext_less :: "bn \<Rightarrow> bn \<Rightarrow> bool" where
  "ext_less (Fin x) (Fin y) = (x < y)"
| "ext_less NegInf (Fin y) = True"
| "ext_less NegInf PosInf = True"
| "ext_less (Fin x) PosInf = True"
| "ext_less _ _ = False"

definition bn_js :: bignumber where
  "bn_js = \<lparr>bn_plus = ext_plus, bn_minus = (\<lambda>a b. ext_plus a (ext_uminus b)),
     bn_times = ext_times, bn_div = ext_div, bn_pow = ext_pow,
     bn_integer = ext_map (\<lambda>x. of_int (half_up x)),
     bn_fixed = (\<lambda>d. ext_map (round_dp d)),
     bn_less = ext_less, bn_greater = (\<lambda>a b. ext_less b a),
     bn_equal = (\<lambda>a b. a = b \<and> a \<noteq> NotANum),
     bn_positive = (\<lambda>a. case a of Fin x \<Rightarrow> 0 \<le> x | PosInf \<Rightarrow> True | _ \<Rightarrow> False),
     bn_number = Fin\<rparr>"

lemma not_ext_less_inf: "\<not> ext_less PosInf v"
  by (cases v) auto

interpretation js: bignumber_lib bn_js
  by unfold_locales
    (auto simp: bn_js_def ext_times_def ext_inf_def sgn_if not_ext_less_inf)

end
