(* ===== verification/DexModels.thy ===== *)
theory DexModels
  imports BigNumber
begin

text \<open>
  The data the services exchange and the values they read from outside: tokens, pairs and
  reserves (\<open>src/modules/tokens/models\<close>, \<open>src/modules/pair/models\<close>), the configuration
  (\<open>src/config\<close>), the transactions handed to the wallet (\<open>src/models/transaction.model.ts\<close>)
  and a view of the chain.

  An amount, reserve or price is the \<open>bn\<close> its string denotes. The configuration and the
  chain view are arguments: a service call reads contract storage through the ABI services
  and sees one state of it; a read that is rejected rejects the whole call, which then has
  no result to speak of.
\<close>

section \<open>Constants of \<open>src/config/default.json\<close> that no environment overrides\<close>

definition SWAP_FEE_PERCENT_BASE_POINTS :: int where
  "SWAP_FEE_PERCENT_BASE_POINTS = 100000"

definition FEES_COLLECTOR_CUT :: int where
  "FEES_COLLECTOR_CUT = 50000"

definition MAX_PENALTY_PERCENT :: int where
  "MAX_PENALTY_PERCENT = 10000"

definition EPOCHS_IN_WEEK :: int where
  "EPOCHS_IN_WEEK = 7"

section \<open>Configuration that depends on the environment\<close>

text \<open>
  \<open>gas\<close> looks a gas limit up by its dotted key; \<open>MAX_SWAP_SPREAD\<close> and the token
  identifiers differ between networks; \<open>scAddr\<close> is the address table of \<open>scAddress\<close>.
\<close>

record dex_config =
  EGLDIdentifier :: string
  chainID :: string
  gas :: "string \<Rightarrow> int"
  MAX_SWAP_SPREAD :: rat
  tokenProviderUSD :: string
  USDC_TOKEN_ID :: string
  scAddr :: "string \<Rightarrow> string"

section \<open>Tokens and pairs\<close>

record esdt_token =
  tokIdentifier :: string
  decimals :: nat

record pair_info =
  reserves0 :: bn
  reserves1 :: bn
  totalSupply :: bn

record pair_model =
  address :: string
  firstToken :: esdt_token
  secondToken :: esdt_token
  info :: pair_info
  totalFeePercent :: rat

record input_token =
  tokenID :: string
  nonce :: int
  amount :: bn

section \<open>Transactions\<close>

text \<open>
  A transaction is the call the code describes to the contract builder of
  \<open>@multiversx/sdk-core\<close>: receiving contract, endpoint, typed arguments, token payments,
  native value, gas limit, chain. How the builder encodes a call is the library's affair.
\<close>

datatype typed_value =
    BytesUTF8 string
  | BytesHexAddress string
  | AddressV string
  | BigUInt bn
  | U64V bn
  | U32V int
  | BooleanV bool
  | TokenIdentifierV string
  | BytesHex string
  | EnumV int
  | U16V bn

record payment =
  payToken :: string
  payNonce :: int
  payAmount :: bn

record transaction =
  receiver :: string
  endpoint :: string
  endpointArgs :: "typed_value list"
  payments :: "payment list"
  nativeValue :: "bn option"
  withSender :: "string option"
  gasLimit :: int
  txChainID :: string

definition fungible :: "string \<Rightarrow> bn \<Rightarrow> payment" where
  "fungible t a = \<lparr>payToken = t, payNonce = 0, payAmount = a\<rparr>"

text \<open>A call with no payment, value or explicit sender.\<close>

definition contract_call ::
  "dex_config \<Rightarrow> string \<Rightarrow> string \<Rightarrow> typed_value list \<Rightarrow> int \<Rightarrow> transaction" where
  "contract_call cfg sc f args g =
     \<lparr>receiver = sc, endpoint = f, endpointArgs = args, payments = [], nativeValue = None,
      withSender = None, gasLimit = g, txChainID = chainID cfg\<rparr>"

section \<open>What the services read from the chain\<close>

text \<open>
  One field per getter of \<open>WrapAbiService\<close>, \<open>RouterAbiService\<close>, \<open>PairAbiService\<close>,
  \<open>TokenService.getTokenMetadata\<close>, \<open>ContextGetterService\<close> and \<open>MXProxyService\<close>;
  \<open>usdcDataPrice\<close> is the USDC quote of \<open>MXDataApiService\<close>, a JavaScript number;
  \<open>None\<close> is \<open>undefined\<close>.
\<close>

record pair_metadata =
  mdAddress :: string
  mdFirstTokenID :: string
  mdSecondTokenID :: string

record chain_view =
  wrappedEgldTokenID :: string
  wrapContract :: "string \<Rightarrow> string"
  routerContract :: string
  pairsAddress :: "string list"
  pairsMetadata :: "pair_metadata list"
  routerOwner :: string
  firstTokenID :: "string \<Rightarrow> string"
  secondTokenID :: "string \<Rightarrow> string"
  lpTokenID :: "string \<Rightarrow> string option"
  pairInfoMetadata :: "string \<Rightarrow> pair_info"
  firstTokenReserve :: "string \<Rightarrow> bn"
  secondTokenReserve :: "string \<Rightarrow> bn"
  pairTotalSupply :: "string \<Rightarrow> bn"
  pairTotalFeePercent :: "string \<Rightarrow> rat"
  pairSpecialFeePercent :: "string \<Rightarrow> rat"
  pairState :: "string \<Rightarrow> string"
  trustedSwapPairs :: "string \<Rightarrow> string list"
  initialLiquidityAdder :: "string \<Rightarrow> string"
  lockingScAddress :: "string \<Rightarrow> string option"
  unlockEpoch :: "string \<Rightarrow> int option"
  lockingDeadlineEpoch :: "string \<Rightarrow> int option"
  currentEpoch :: int
  tokenMetadata :: "string \<Rightarrow> esdt_token"
  usdcDataPrice :: rat

end
