(* ===== verification/PairUtils.thy ===== *)
theory PairUtils
  imports DexModels
begin

text \<open>
  The constant-product formulas of \<open>src/modules/pair/pair.utils.ts\<close>: quoting an equivalent
  amount, the output of a swap for a given input, the input for a given output, the share of
  the reserves a liquidity position stands for, and the test that two USD values differ by
  more than the allowed spread.
\<close>

section \<open>The formulas\<close>

definition quote :: "bignumber \<Rightarrow> bn \<Rightarrow> bn \<Rightarrow> bn \<Rightarrow> bn" where
  "quote B tokenInAmount tokenInReserves tokenOutReserves =
     (if bn_equal B tokenInReserves (Fin 0) then Fin 0
      else bn_div B (bn_times B tokenInAmount tokenOutReserves) tokenInReserves)"

text \<open>\<open>SWAP_FEE_PERCENT_BASE_POINTS - fee * SWAP_FEE_PERCENT_BASE_POINTS\<close>, in doubles.\<close>

definition fee_complement :: "rat \<Rightarrow> rat" where
  "fee_complement fee =
     fl64 (of_int SWAP_FEE_PERCENT_BASE_POINTS - fl64 (fee * of_int SWAP_FEE_PERCENT_BASE_POINTS))"

definition getAmountOut :: "bignumber \<Rightarrow> bn \<Rightarrow> bn \<Rightarrow> bn \<Rightarrow> rat \<Rightarrow> bn" where
  "getAmountOut B tokenInAmount tokenInReserves tokenOutReserves fee =
     (let amountInWithFee = bn_times B tokenInAmount (bn_number B (fee_complement fee));
          numerator = bn_times B amountInWithFee tokenOutReserves;
          denominator = bn_plus B
            (bn_times B tokenInReserves (bn_number B (of_int SWAP_FEE_PERCENT_BASE_POINTS)))
            amountInWithFee
      in bn_integer B (bn_div B numerator denominator))"

definition getAmountIn :: "bignumber \<Rightarrow> bn \<Rightarrow> bn \<Rightarrow> bn \<Rightarrow> rat \<Rightarrow> bn" where
  "getAmountIn B tokenOutAmount tokenInReserves tokenOutReserves fee =
     (if bn_less B tokenOutReserves tokenOutAmount then bn_integer B (bn_number B 0)
      else
       let numerator = bn_times B (bn_times B tokenInReserves tokenOutAmount)
             (bn_number B (of_int SWAP_FEE_PERCENT_BASE_POINTS));
           denominator = bn_times B (bn_minus B tokenOutReserves tokenOutAmount)
             (bn_number B (fee_complement fee))
       in bn_integer B (bn_plus B (bn_div B numerator denominator) (bn_number B 1)))"

definition getTokenForGivenPosition :: "bignumber \<Rightarrow> bn \<Rightarrow> bn \<Rightarrow> bn \<Rightarrow> bn" where
  "getTokenForGivenPosition B liquidity tokenReserves totalSupply' =
     (if totalSupply' = Fin 0 then bn_number B 0
      else bn_integer B (bn_div B (bn_times B liquidity tokenReserves) totalSupply'))"

definition isSpreadTooBig :: "bignumber \<Rightarrow> dex_config \<Rightarrow> bn \<Rightarrow> bn \<Rightarrow> bool" where
  "isSpreadTooBig B cfg amountInUSD amountOutUSD \<longleftrightarrow>
     bn_less B amountOutUSD
       (bn_times B amountInUSD (bn_number B (fl64 (1 - MAX_SWAP_SPREAD cfg)))) \<or>
     bn_less B amountInUSD
       (bn_times B amountOutUSD (bn_number B (fl64 (1 - MAX_SWAP_SPREAD cfg))))"

section \<open>The fee in doubles\<close>

text \<open>A fee below 100 percent leaves a positive share of the input.\<close>

definition valid_fee :: "rat \<Rightarrow> bool" where
  "valid_fee fee \<longleftrightarrow> 0 \<le> fee \<and> fee \<le> 99999 / 100000"

lemma fee_complement_bounds:
  assumes "valid_fee fee"
  shows "1 \<le> fee_complement fee" "fee_complement fee \<le> 100000"
proof -
  let ?f = "fl64 (fee * 100000)"
  have "?f \<le> of_int 99999" using assms by (intro fl64_le_int) (auto simp: valid_fee_def)
  moreover have "0 \<le> ?f" using assms by (intro fl64_nonneg) (simp add: valid_fee_def)
  ultimately have "of_int 1 \<le> 100000 - ?f" "0 \<le> 100000 - ?f" "100000 - ?f \<le> of_int 100000"
    by simp_all
  then have "of_int 1 \<le> fl64 (100000 - ?f)" "fl64 (100000 - ?f) \<le> of_int 100000"
    by (auto intro!: fl64_ge_int fl64_le_int simp del: of_int_1 of_int_numeral)
  then show "1 \<le> fee_complement fee" "fee_complement fee \<le> 100000"
    by (simp_all add: fee_complement_def SWAP_FEE_PERCENT_BASE_POINTS_def)
qed

section \<open>Facts about the formulas, for any library with the documented behaviour\<close>

context bignumber_lib begin

lemma fee_number:
  assumes "valid_fee fee"
  obtains k where "bn_number B (fee_complement fee) = Fin k" "1 \<le> k" "k \<le> 100000"
proof (rule number_between [of 1 "fee_complement fee" 100000])
  fix y assume "bn_number B (fee_complement fee) = Fin y" "of_int 1 \<le> y" "y \<le> of_int 100000"
  then show thesis by (intro that) simp_all
qed (use fee_complement_bounds [OF assms] in auto)

lemma base_number: "bn_number B (of_int SWAP_FEE_PERCENT_BASE_POINTS) = Fin 100000"
  using number_int [of 100000] by (simp add: SWAP_FEE_PERCENT_BASE_POINTS_def)

lemma getAmountOut_fin:
  assumes "bn_number B (fee_complement fee) = Fin k" "1 \<le> k" "0 \<le> a" "0 < rin"
  shows "getAmountOut B (Fin a) (Fin rin) (Fin rout) fee =
    bn_of_int (half_up (round_dp 20 (a * k * rout / (rin * 100000 + a * k))))"
proof -
  have "0 \<le> a * k" using assms by simp
  then have "rin * 100000 + a * k \<noteq> 0" using assms by linarith
  then show ?thesis
    by (simp add: getAmountOut_def base_number assms(1) bn_finite)
qed

lemma getAmountIn_fin:
  assumes "bn_number B (fee_complement fee) = Fin k" "1 \<le> k" "out < rout"
  shows "getAmountIn B (Fin out) (Fin rin) (Fin rout) fee =
    bn_of_int (half_up (round_dp 20 (rin * out * 100000 / ((rout - out) * k)) + 1))"
  using assms
  by (simp add: getAmountIn_def base_number number_1 bn_finite)

lemma swap_quotient_le:
  fixes a k rin rout :: rat
  assumes "0 \<le> a" "1 \<le> k" "0 < rin" "0 \<le> rout"
  shows "a * k * rout / (rin * 100000 + a * k) \<le> rout" "0 \<le> a * k * rout / (rin * 100000 + a * k)"
proof -
  have ak: "0 \<le> a * k" using assms by simp
  then have pos: "0 < rin * 100000 + a * k" using assms by linarith
  have "0 \<le> rin * 100000 * rout" using assms by simp
  then have "a * k * rout \<le> rout * (rin * 100000 + a * k)" by (simp add: algebra_simps)
  then show "a * k * rout / (rin * 100000 + a * k) \<le> rout"
    using pos by (simp add: divide_le_eq)
  show "0 \<le> a * k * rout / (rin * 100000 + a * k)"
    using ak pos assms(4) by simp
qed

lemma swap_quotient_mono:
  fixes a b k rin rout :: rat
  assumes "0 \<le> a" "a \<le> b" "1 \<le> k" "0 < rin" "0 \<le> rout"
  shows "a * k * rout / (rin * 100000 + a * k) \<le> b * k * rout / (rin * 100000 + b * k)"
proof -
  have "0 \<le> a * k" "0 \<le> b * k" using assms by simp_all
  then have pos: "0 < rin * 100000 + a * k" "0 < rin * 100000 + b * k" using assms by linarith+
  have "a * (k * rout * rin * 100000) \<le> b * (k * rout * rin * 100000)"
    using assms by (intro mult_right_mono) auto
  then have "a * k * rout * (rin * 100000 + b * k) \<le> b * k * rout * (rin * 100000 + a * k)"
    by (simp add: algebra_simps)
  then show ?thesis using pos by (simp add: divide_le_eq le_divide_eq mult.commute)
qed

lemma getAmountOut_bounds:
  assumes "valid_fee fee" "0 \<le> a" "0 < rin" "0 \<le> rout"
  obtains z where "getAmountOut B (Fin a) (Fin rin) (bn_of_int rout) fee = bn_of_int z"
    "0 \<le> z" "z \<le> rout"
proof -
  obtain k where k: "bn_number B (fee_complement fee) = Fin k" "1 \<le> k"
    using fee_number [OF assms(1)] by blast
  let ?q = "a * k * of_int rout / (rin * 100000 + a * k)"
  have q: "?q \<le> of_int rout" "0 \<le> ?q"
    using swap_quotient_le [of a k rin "of_int rout"] assms k(2) by auto
  have "half_up (round_dp 20 ?q) \<le> rout" using q by (intro half_up_le_int round_dp_le_int)
  moreover have "0 \<le> half_up (round_dp 20 ?q)" using q by (intro half_up_nonneg round_dp_nonneg)
  ultimately show ?thesis
    using that getAmountOut_fin [OF k assms(2,3)] by blast
qed

lemma getAmountOut_mono:
  assumes "valid_fee fee" "0 \<le> a" "a \<le> b" "0 < rin" "0 \<le> rout"
    "getAmountOut B (Fin a) (Fin rin) (Fin rout) fee = Fin x"
    "getAmountOut B (Fin b) (Fin rin) (Fin rout) fee = Fin y"
  shows "x \<le> y"
proof -
  obtain k where k: "bn_number B (fee_complement fee) = Fin k" "1 \<le> k"
    using fee_number [OF assms(1)] by blast
  have "half_up (round_dp 20 (a * k * rout / (rin * 100000 + a * k)))
      \<le> half_up (round_dp 20 (b * k * rout / (rin * 100000 + b * k)))"
    using swap_quotient_mono [of a b k rin rout] assms k(2) by (intro half_up_mono round_dp_mono) auto
  then show ?thesis
    using assms getAmountOut_fin [OF k, of a rin rout] getAmountOut_fin [OF k, of b rin rout] by auto
qed

text \<open>The quoted input is at least the exact one: adding one before rounding covers both roundings.\<close>

lemma getAmountIn_ge_exact:
  assumes "valid_fee fee" "0 \<le> out" "out < rout" "0 \<le> rin"
  obtains k z where "bn_number B (fee_complement fee) = Fin k" "1 \<le> k"
    "getAmountIn B (Fin out) (Fin rin) (Fin rout) fee = bn_of_int z"
    "rin * out * 100000 / ((rout - out) * k) \<le> of_int z"
proof -
  obtain k where k: "bn_number B (fee_complement fee) = Fin k" "1 \<le> k"
    using fee_number [OF assms(1)] by blast
  let ?x = "rin * out * 100000 / ((rout - out) * k)"
  let ?z = "half_up (round_dp 20 ?x + 1)"
  have "?x - 1 / (2 * 10 ^ 20) \<le> round_dp 20 ?x"
    using round_dp_error [of 20 ?x] unfolding abs_le_iff by linarith
  moreover have "round_dp 20 ?x + 1 - 1/2 \<le> of_int ?z"
    using half_up_error [of "round_dp 20 ?x + 1"] unfolding abs_le_iff by linarith
  ultimately have "?x \<le> of_int ?z" by simp
  then show ?thesis using that k getAmountIn_fin [OF k assms(3)] by blast
qed

lemma getAmountIn_buys:
  assumes fee: "valid_fee fee" and out: "0 \<le> out" "out < rout" and rin: "0 < rin"
    and inp: "getAmountIn B (bn_of_int out) (bn_of_int rin) (bn_of_int rout) fee = bn_of_int a"
    and got: "getAmountOut B (bn_of_int a) (bn_of_int rin) (bn_of_int rout) fee = bn_of_int b"
  shows "out \<le> b"
proof -
  obtain k z where k: "bn_number B (fee_complement fee) = Fin k" "1 \<le> k"
    and "getAmountIn B (bn_of_int out) (bn_of_int rin) (bn_of_int rout) fee = bn_of_int z"
    and ge: "of_int rin * of_int out * 100000 / ((of_int rout - of_int out) * k) \<le> rat_of_int z"
    using getAmountIn_ge_exact [OF fee, of "of_int out" "of_int rout" "of_int rin"] out rin by auto
  then have z: "z = a" using inp by simp
  have a: "0 \<le> rat_of_int a"
  proof (rule order_trans [OF _ ge [unfolded z]])
    show "0 \<le> of_int rin * of_int out * 100000 / ((of_int rout - of_int out) * k)"
      using out rin k(2) by (intro divide_nonneg_nonneg mult_nonneg_nonneg) simp_all
  qed
  have pos: "0 < (of_int rout - of_int out) * k" using out(2) k(2) by simp
  have "of_int rin * of_int out * 100000 \<le> of_int a * ((of_int rout - of_int out) * k)"
    using ge [unfolded z] pos by (simp add: divide_le_eq)
  then have "of_int out * (of_int rin * 100000 + of_int a * k) \<le> of_int a * k * rat_of_int rout"
    by (simp add: algebra_simps)
  moreover have "0 \<le> rat_of_int a * k" using a k(2) by simp
  then have "0 < rat_of_int rin * 100000 + of_int a * k" using rin by (simp add: add_pos_nonneg)
  ultimately have "of_int out \<le> of_int a * k * of_int rout / (of_int rin * 100000 + of_int a * k)"
    by (simp add: le_divide_eq)
  then have "out \<le> half_up (round_dp 20 (of_int a * k * of_int rout / (of_int rin * 100000 + of_int a * k)))"
    by (intro half_up_ge_int round_dp_ge_int)
  then show ?thesis
    using got getAmountOut_fin [OF k a, of "of_int rin" "of_int rout"] rin by simp
qed

lemma getTokenForGivenPosition_bounds:
  assumes "0 \<le> liq" "liq \<le> supply" "0 \<le> reserve"
  obtains z where
    "getTokenForGivenPosition B (bn_of_int liq) (bn_of_int reserve) (bn_of_int supply) = bn_of_int z"
    "0 \<le> z" "z \<le> reserve"
proof (cases "supply = 0")
  case True
  then show ?thesis using that [of 0] assms by (simp add: getTokenForGivenPosition_def number_0)
next
  case False
  let ?q = "of_int liq * of_int reserve / rat_of_int supply"
  have s: "0 < rat_of_int supply" using False assms by simp
  have "rat_of_int liq * of_int reserve \<le> of_int supply * of_int reserve"
    using assms by (intro mult_right_mono) simp_all
  then have q: "?q \<le> of_int reserve" using s by (simp add: divide_le_eq mult.commute)
  have q0: "0 \<le> ?q" using assms s by simp
  show ?thesis
  proof (rule that [of "half_up (round_dp 20 ?q)"])
    show "getTokenForGivenPosition B (bn_of_int liq) (bn_of_int reserve) (bn_of_int supply)
        = bn_of_int (half_up (round_dp 20 ?q))"
      using False by (simp add: getTokenForGivenPosition_def bn_finite)
    show "0 \<le> half_up (round_dp 20 ?q)" using q0 by (intro half_up_nonneg round_dp_nonneg)
    show "half_up (round_dp 20 ?q) \<le> reserve" using q by (intro half_up_le_int round_dp_le_int)
  qed
qed

end

section \<open>Properties\<close>

lemma fee_complement_0: "fee_complement 0 = 100000"
  using fl64_of_int [of 100000] by (simp add: fee_complement_def SWAP_FEE_PERCENT_BASE_POINTS_def)

text \<open>
  A swap never pays out more than the pair holds and never a negative amount, and a
  larger input never yields a smaller output.
\<close>

theorem getAmountOut_bounded_monotone:
  assumes "bignumber_lib B" "valid_fee fee" "0 \<le> a" "a \<le> b" "0 < rin" "0 \<le> rout"
  shows "\<exists>x y. getAmountOut B (bn_of_int a) (bn_of_int rin) (bn_of_int rout) fee = bn_of_int x \<and>
    getAmountOut B (bn_of_int b) (bn_of_int rin) (bn_of_int rout) fee = bn_of_int y \<and>
    0 \<le> x \<and> x \<le> y \<and> y \<le> rout"
proof -
  obtain x where x: "getAmountOut B (bn_of_int a) (bn_of_int rin) (bn_of_int rout) fee = bn_of_int x" "0 \<le> x"
    using bignumber_lib.getAmountOut_bounds [OF assms(1,2), of "of_int a" "of_int rin" rout] assms by auto
  obtain y where y: "getAmountOut B (bn_of_int b) (bn_of_int rin) (bn_of_int rout) fee = bn_of_int y" "y \<le> rout"
    using bignumber_lib.getAmountOut_bounds [OF assms(1,2), of "of_int b" "of_int rin" rout] assms by auto
  have "rat_of_int x \<le> of_int y"
    using bignumber_lib.getAmountOut_mono [OF assms(1,2), of "of_int a" "of_int b" "of_int rin" "of_int rout"
        "of_int x" "of_int y"] assms x y by simp
  then show ?thesis using x y by auto
qed

theorem getAmountOut_bounded_monotone_witness:
  "\<exists>x y. getAmountOut bn_js (bn_of_int 100) (bn_of_int 100) (bn_of_int 100) 0 = bn_of_int x \<and>
    getAmountOut bn_js (bn_of_int 300) (bn_of_int 100) (bn_of_int 100) 0 = bn_of_int y \<and>
    0 \<le> x \<and> x \<le> y \<and> y \<le> 100"
  by (rule getAmountOut_bounded_monotone) (use js.bignumber_lib_axioms in \<open>auto simp: valid_fee_def\<close>)

text \<open>
  Swapping the input \<open>getAmountIn\<close> quotes for an output buys at least that output on the
  same reserves and fee: adding one unit before rounding covers the fee in doubles, the 20
  decimal places of the division and both roundings.
\<close>

theorem getAmountIn_buys_output:
  assumes "bignumber_lib B" "valid_fee fee" "0 \<le> out" "out < rout" "0 < rin"
  shows "\<exists>a b. getAmountIn B (bn_of_int out) (bn_of_int rin) (bn_of_int rout) fee = bn_of_int a \<and>
    getAmountOut B (bn_of_int a) (bn_of_int rin) (bn_of_int rout) fee = bn_of_int b \<and> out \<le> b"
proof -
  have o: "0 \<le> rat_of_int out" "rat_of_int out < of_int rout" "0 \<le> rat_of_int rin" using assms by simp_all
  obtain k a where a: "getAmountIn B (bn_of_int out) (bn_of_int rin) (bn_of_int rout) fee = bn_of_int a"
    and k: "1 \<le> k" and ge: "of_int rin * of_int out * 100000 / ((of_int rout - of_int out) * k) \<le> rat_of_int a"
    using bignumber_lib.getAmountIn_ge_exact [OF assms(1,2) o] by blast
  have "0 \<le> rat_of_int rin * of_int out * 100000 / ((of_int rout - of_int out) * k)"
    using o k by simp
  then have "0 \<le> rat_of_int a" using ge by (rule order_trans)
  then obtain b where b: "getAmountOut B (bn_of_int a) (bn_of_int rin) (bn_of_int rout) fee = bn_of_int b"
    using bignumber_lib.getAmountOut_bounds [OF assms(1,2), of "of_int a" "of_int rin" rout] assms by auto
  then show ?thesis
    using a bignumber_lib.getAmountIn_buys [OF assms a b] by blast
qed

theorem getAmountIn_buys_output_witness:
  "\<exists>a b. getAmountIn bn_js (bn_of_int 50) (bn_of_int 100) (bn_of_int 100) 0 = bn_of_int a \<and>
    getAmountOut bn_js (bn_of_int a) (bn_of_int 100) (bn_of_int 100) 0 = bn_of_int b \<and> 50 \<le> b"
  by (rule getAmountIn_buys_output) (use js.bignumber_lib_axioms in \<open>auto simp: valid_fee_def\<close>)

text \<open>
  The output quote is rounded to the nearest unit, not down, so it can exceed what the
  constant product allows: with reserves 3 and 2 and no fee, an input of 1 is quoted an
  output of 1 (the exact value is 1/2), which would leave reserves 4 and 1.
\<close>

theorem getAmountOut_rounds_up:
  "getAmountOut bn_js (bn_of_int 1) (bn_of_int 3) (bn_of_int 2) 0 = bn_of_int 1 \<and>
   (3 + 1) * (2 - 1) < 3 * (2::int)"
proof -
  have "(1/2::rat) * 10 ^ 20 = of_int 50000000000000000000" by simp
  then have "round_dp 20 (1/2) = 1/2" by (simp only: round_dp_def half_up_of_int) simp
  then have "half_up (round_dp 20 (1/2)) = 1" by (simp only:) (simp add: half_up_def)
  then show ?thesis
    using js.getAmountOut_fin [of 0 100000 1 3 2] js.number_int [of 100000]
    by (simp add: fee_complement_0)
qed

text \<open>
  A liquidity position within the supply stands for at most the reserves of each token,
  and the two shares are computed without an error even when nothing has been supplied yet.
\<close>

theorem getTokenForGivenPosition_within_reserves:
  assumes "bignumber_lib B" "0 \<le> liquidity" "liquidity \<le> supply" "0 \<le> reserve"
  shows "\<exists>z. getTokenForGivenPosition B (bn_of_int liquidity) (bn_of_int reserve) (bn_of_int supply) = bn_of_int z
    \<and> 0 \<le> z \<and> z \<le> reserve"
  using bignumber_lib.getTokenForGivenPosition_bounds [OF assms] by blast

theorem getTokenForGivenPosition_within_reserves_witness:
  "\<exists>z. getTokenForGivenPosition bn_js (bn_of_int 7) (bn_of_int 100) (bn_of_int 9) = bn_of_int z
    \<and> 0 \<le> z \<and> z \<le> 100"
  by (rule getTokenForGivenPosition_within_reserves) (use js.bignumber_lib_axioms in auto)

end
