(* ===== verification/GraphService.thy ===== *)
theory GraphService
  imports DexModels
begin

text \<open>
  The token graph of \<open>src/modules/auto-router/services/graph.service.ts\<close> and its search for
  all routes between two tokens. \<open>adjList\<close> is a JavaScript \<open>Map\<close>: an association list in
  insertion order with distinct keys. The recursive search mutates three objects, the visited
  map, the current path and the list of results, which are the fields of the state \<open>dfs\<close>.

  The search recurses at most once per key of the graph, so \<open>Suc (length adjList)\<close> calls deep;
  that is the fuel \<open>getAllPaths\<close> starts with, and \<open>getAllPathsUtil_run\<close> shows it is enough.
\<close>

section \<open>The graph\<close>

type_synonym graph = "(string \<times> string list) list"

definition addEdge :: "string \<Rightarrow> string \<Rightarrow> graph \<Rightarrow> graph" where
  "addEdge u v adjList =
     (case map_of adjList u of
        None \<Rightarrow> adjList @ [(u, [v])]
      | Some node \<Rightarrow> map (\<lambda>(k, ns). if k = u then (k, ns @ [v]) else (k, ns)) adjList)"

fun addPairs :: "pair_model list \<Rightarrow> graph \<Rightarrow> graph" where
  "addPairs [] g = g"
| "addPairs (pair # pairs) g =
     addPairs pairs
       (addEdge (tokIdentifier (secondToken pair)) (tokIdentifier (firstToken pair))
         (addEdge (tokIdentifier (firstToken pair)) (tokIdentifier (secondToken pair)) g))"

definition newGraph :: "pair_model list \<Rightarrow> graph" where
  "newGraph pairs = addPairs pairs []"

text \<open>The static fields of the class: the shared instance and the number of pairs it was built from.\<close>

record graph_static =
  pairsLength :: nat
  instanceGraph :: "graph option"

definition getInstance :: "pair_model list \<Rightarrow> graph_static \<Rightarrow> graph \<times> graph_static" where
  "getInstance pairs st =
     (case instanceGraph st of
        Some g \<Rightarrow>
          if pairsLength st \<noteq> length pairs
          then (newGraph pairs, \<lparr>pairsLength = length pairs, instanceGraph = Some (newGraph pairs)\<rparr>)
          else (g, st)
      | None \<Rightarrow> (newGraph pairs, \<lparr>pairsLength = length pairs, instanceGraph = Some (newGraph pairs)\<rparr>))"

section \<open>The search\<close>

record dfs =
  isVisited :: "string \<rightharpoonup> bool"
  localPathList :: "string list"
  foundPaths :: "string list list"

text \<open>\<open>xs.splice(xs.indexOf(x), 1)\<close>: index \<open>-1\<close> removes the last element.\<close>

definition spliceFirst :: "'a \<Rightarrow> 'a list \<Rightarrow> 'a list" where
  "spliceFirst x xs = (if x \<in> set xs then remove1 x xs else butlast xs)"

fun getAllPathsUtil :: "graph \<Rightarrow> string \<Rightarrow> nat \<Rightarrow> string \<Rightarrow> dfs \<Rightarrow> dfs option"
and visitAdjNodes :: "graph \<Rightarrow> string \<Rightarrow> nat \<Rightarrow> string list \<Rightarrow> dfs \<Rightarrow> dfs option" where
  "getAllPathsUtil g destination 0 node s = None"
| "getAllPathsUtil g destination (Suc fuel) node s =
     (if node = destination then Some (s\<lparr>foundPaths := foundPaths s @ [localPathList s]\<rparr>)
      else
       let s1 = s\<lparr>isVisited := (isVisited s)(node \<mapsto> True)\<rparr> in
       case map_of g node of
         None \<Rightarrow> Some s1
       | Some adjNodes \<Rightarrow>
           (case visitAdjNodes g destination fuel adjNodes s1 of
              None \<Rightarrow> None
            | Some s2 \<Rightarrow> Some (s2\<lparr>isVisited := (isVisited s2)(node \<mapsto> False)\<rparr>)))"
| "visitAdjNodes g destination fuel [] s = Some s"
| "visitAdjNodes g destination fuel (adjNode # rest) s =
     (if isVisited s adjNode = Some False then
        (case getAllPathsUtil g destination fuel adjNode
                (s\<lparr>localPathList := localPathList s @ [adjNode]\<rparr>) of
           None \<Rightarrow> None
         | Some s' \<Rightarrow>
             visitAdjNodes g destination fuel rest
               (s'\<lparr>localPathList := spliceFirst adjNode (localPathList s')\<rparr>))
      else visitAdjNodes g destination fuel rest s)"

definition initialDfs :: "graph \<Rightarrow> string \<Rightarrow> dfs" where
  "initialDfs g source =
     \<lparr>isVisited = map_of (map (\<lambda>(v, ns). (v, False)) g), localPathList = [source], foundPaths = []\<rparr>"

definition getAllPaths :: "graph \<Rightarrow> string \<Rightarrow> string \<Rightarrow> string list list option" where
  "getAllPaths g source destination =
     map_option foundPaths
       (getAllPathsUtil g destination (Suc (length g)) source (initialDfs g source))"

section \<open>What a route is\<close>

definition edge :: "graph \<Rightarrow> string \<Rightarrow> string \<Rightarrow> bool" where
  "edge g u v \<longleftrightarrow> (\<exists>ns. map_of g u = Some ns \<and> v \<in> set ns)"

definition nodes :: "graph \<Rightarrow> string set" where
  "nodes g = fst ` set g"

text \<open>A simple route: from source to destination along edges, no token twice.\<close>

definition route :: "graph \<Rightarrow> string \<Rightarrow> string \<Rightarrow> string list \<Rightarrow> bool" where
  "route g source destination p \<longleftrightarrow>
     p \<noteq> [] \<and> hd p = source \<and> last p = destination \<and> distinct p \<and> successively (edge g) p"

definition closed_graph :: "graph \<Rightarrow> bool" where
  "closed_graph g \<longleftrightarrow> (\<forall>(u, ns) \<in> set g. set ns \<subseteq> nodes g)"

text \<open>The routes below a node that avoid a set of tokens, as a recursive enumeration.\<close>

fun routes_from :: "graph \<Rightarrow> string \<Rightarrow> nat \<Rightarrow> string set \<Rightarrow> string \<Rightarrow> string list list" where
  "routes_from g d 0 V node = []"
| "routes_from g d (Suc n) V node =
     (if node = d then [[d]]
      else concat (map (\<lambda>a. if a \<in> nodes g \<and> a \<notin> insert node V
                           then map ((#) node) (routes_from g d n (insert node V) a) else [])
             (case map_of g node of None \<Rightarrow> [] | Some ns \<Rightarrow> ns)))"

section \<open>The search computes the enumeration\<close>

lemma map_of_nodes: "map_of g u = Some ns \<Longrightarrow> u \<in> nodes g"
  unfolding nodes_def by (force dest: map_of_SomeD)

lemma nodes_map_of: "u \<in> nodes g \<Longrightarrow> \<exists>ns. map_of g u = Some ns"
  unfolding nodes_def by (force simp: map_of_eq_None_iff dest: weak_map_of_SomeI)

lemma routes_from_hd: "p \<in> set (routes_from g d n V node) \<Longrightarrow> p = node # tl p"
  by (induction n arbitrary: V node p) (auto split: if_splits)

lemma routes_from_hd': "p \<in> set (routes_from g d n V node) \<Longrightarrow> hd p = node"
  by (subst routes_from_hd) auto

lemma map_cong_tl:
  "map (\<lambda>p. l @ a # tl p) (routes_from g d n V a) = map ((@) l) (routes_from g d n V a)"
proof (rule map_cong [OF refl])
  fix p assume "p \<in> set (routes_from g d n V a)"
  then have "p = a # tl p" by (rule routes_from_hd)
  then show "l @ a # tl p = l @ p" by simp
qed

definition visited :: "dfs \<Rightarrow> string set" where
  "visited s = {x. isVisited s x = Some True}"

definition unvisited :: "dfs \<Rightarrow> string set" where
  "unvisited s = {x. isVisited s x = Some False}"

lemma visited_upd [simp]:
  "visited (s\<lparr>isVisited := (isVisited s)(x \<mapsto> True)\<rparr>) = insert x (visited s)"
  "unvisited (s\<lparr>isVisited := (isVisited s)(x \<mapsto> True)\<rparr>) = unvisited s - {x}"
  "visited (s\<lparr>localPathList := l\<rparr>) = visited s" "visited (s\<lparr>foundPaths := ps\<rparr>) = visited s"
  "unvisited (s\<lparr>localPathList := l\<rparr>) = unvisited s" "unvisited (s\<lparr>foundPaths := ps\<rparr>) = unvisited s"
  by (auto simp: visited_def unvisited_def)

text \<open>The state the search may be in when it enters a node or a list of neighbours.\<close>

definition dfs_ok :: "graph \<Rightarrow> dfs \<Rightarrow> bool" where
  "dfs_ok g s \<longleftrightarrow> dom (isVisited s) = nodes g"

lemma dfs_ok_upd [simp]:
  "dfs_ok g (s\<lparr>localPathList := l\<rparr>) = dfs_ok g s" "dfs_ok g (s\<lparr>foundPaths := ps\<rparr>) = dfs_ok g s"
  by (simp_all add: dfs_ok_def)

lemma dfs_ok_not_visited:
  "dfs_ok g s \<Longrightarrow> isVisited s a = Some False \<longleftrightarrow> a \<in> nodes g \<and> a \<notin> visited s"
proof -
  assume "dfs_ok g s"
  then have "a \<in> nodes g \<longleftrightarrow> (\<exists>y. isVisited s a = Some y)" by (simp add: dfs_ok_def dom_def set_eq_iff)
  then show ?thesis by (cases "isVisited s a") (auto simp: visited_def)
qed

lemma spliceFirst_last: "a \<notin> set l \<Longrightarrow> spliceFirst a (l @ [a]) = l"
  by (simp add: spliceFirst_def remove1_append)

lemma finite_unvisited: "dfs_ok g s \<Longrightarrow> finite (unvisited s)"
  by (rule finite_subset [of _ "nodes g"]) (auto simp: dfs_ok_def unvisited_def nodes_def dom_def)

text \<open>Induction over the fuel; the neighbours of a node are an inner induction.\<close>

lemma visitAdjNodes_run:
  assumes util: "\<And>node s. dfs_ok g s \<Longrightarrow> isVisited s node = Some False \<Longrightarrow>
      card (unvisited s) < n \<or> (node = d \<and> 0 < n) \<Longrightarrow> set (localPathList s) \<subseteq> insert node (visited s) \<Longrightarrow>
      getAllPathsUtil g d n node s = Some (s\<lparr>foundPaths := foundPaths s @
        map (\<lambda>p. localPathList s @ tl p) (routes_from g d n (visited s) node)\<rparr>)"
    and "dfs_ok g s" "card (unvisited s) < n" "set (localPathList s) \<subseteq> visited s"
  shows "visitAdjNodes g d n adj s = Some (s\<lparr>foundPaths := foundPaths s @
    concat (map (\<lambda>a. if a \<in> nodes g \<and> a \<notin> visited s
      then map ((@) (localPathList s)) (routes_from g d n (visited s) a) else []) adj)\<rparr>)"
  using assms(2-)
proof (induction adj arbitrary: s)
  case Nil
  then show ?case by simp
next
  case (Cons a rest)
  show ?case
  proof (cases "isVisited s a = Some False")
    case False
    then have "\<not> (a \<in> nodes g \<and> a \<notin> visited s)"
      using Cons.prems(1) dfs_ok_not_visited by blast
    with False Cons.IH [OF Cons.prems] show ?thesis by auto
  next
    case True
    have a: "a \<in> nodes g" "a \<notin> visited s" using True Cons.prems dfs_ok_not_visited by auto
    have notin: "a \<notin> set (localPathList s)" using a Cons.prems by auto
    let ?s = "s\<lparr>localPathList := localPathList s @ [a]\<rparr>"
    let ?ps = "map ((@) (localPathList s)) (routes_from g d n (visited s) a)"
    have "getAllPathsUtil g d n a ?s = Some (?s\<lparr>foundPaths := foundPaths ?s @
        map (\<lambda>p. localPathList ?s @ tl p) (routes_from g d n (visited ?s) a)\<rparr>)"
      by (rule util) (use Cons.prems True in auto)
    then have call: "getAllPathsUtil g d n a ?s = Some (?s\<lparr>foundPaths := foundPaths s @ ?ps\<rparr>)"
      by (simp add: map_cong_tl)
    have "visitAdjNodes g d n (a # rest) s = visitAdjNodes g d n rest (s\<lparr>foundPaths := foundPaths s @ ?ps\<rparr>)"
      using True by (simp add: call spliceFirst_last [OF notin])
    also have "\<dots> = Some (s\<lparr>foundPaths := (foundPaths s @ ?ps) @
      concat (map (\<lambda>a. if a \<in> nodes g \<and> a \<notin> visited s
        then map ((@) (localPathList s)) (routes_from g d n (visited s) a) else []) rest)\<rparr>)"
      using Cons.IH [of "s\<lparr>foundPaths := foundPaths s @ ?ps\<rparr>"] Cons.prems by (simp cong: if_cong)
    also have "\<dots> = Some (s\<lparr>foundPaths := foundPaths s @
      concat (map (\<lambda>a. if a \<in> nodes g \<and> a \<notin> visited s
        then map ((@) (localPathList s)) (routes_from g d n (visited s) a) else []) (a # rest))\<rparr>)"
      using a by simp
    finally show ?thesis .
  qed
qed

lemma getAllPathsUtil_run:
  assumes "dfs_ok g s" "isVisited s node = Some False"
    "card (unvisited s) < n \<or> (node = d \<and> 0 < n)" "set (localPathList s) \<subseteq> insert node (visited s)"
  shows "getAllPathsUtil g d n node s = Some (s\<lparr>foundPaths := foundPaths s @
    map (\<lambda>p. localPathList s @ tl p) (routes_from g d n (visited s) node)\<rparr>)"
  using assms
proof (induction n arbitrary: node s)
  case 0
  then show ?case by simp
next
  case (Suc n)
  show ?case
  proof (cases "node = d")
    case True
    then show ?thesis by simp
  next
    case False
    obtain ns where ns: "map_of g node = Some ns"
      using Suc.prems dfs_ok_not_visited nodes_map_of by blast
    let ?s1 = "s\<lparr>isVisited := (isVisited s)(node \<mapsto> True)\<rparr>"
    have mem: "node \<in> unvisited s" using Suc.prems by (simp add: unvisited_def)
    have "card (unvisited ?s1) < n"
      using Suc.prems False mem finite_unvisited [OF Suc.prems(1)] card_Suc_Diff1 [of "unvisited s" node]
      by simp
    moreover have "dfs_ok g ?s1" using Suc.prems by (auto simp: dfs_ok_def)
    ultimately have run: "visitAdjNodes g d n ns ?s1 = Some (?s1\<lparr>foundPaths := foundPaths ?s1 @
      concat (map (\<lambda>a. if a \<in> nodes g \<and> a \<notin> visited ?s1
        then map ((@) (localPathList ?s1)) (routes_from g d n (visited ?s1) a) else []) ns)\<rparr>)"
      using Suc.prems by (intro visitAdjNodes_run Suc.IH) auto
    have restored: "((isVisited s)(node \<mapsto> True))(node \<mapsto> False) = isVisited s"
      using Suc.prems(2) by (simp add: fun_upd_idem)
    show ?thesis
      using False ns run restored
      by (simp add: map_concat comp_def if_distrib [of "map _"] cong: if_cong)
  qed
qed

section \<open>The enumeration is exactly the simple routes\<close>

lemma route_self [simp]: "route g d d p \<longleftrightarrow> p = [d]"
  unfolding route_def by (cases p) (auto split: if_splits)

lemma route_Cons:
  "node \<noteq> d \<Longrightarrow> route g node d p \<longleftrightarrow>
     (\<exists>a q. p = node # q \<and> edge g node a \<and> route g a d q \<and> node \<notin> set q)"
  unfolding route_def
  by (cases p) (auto simp: successively_Cons neq_Nil_conv)

lemma routes_from_iff:
  assumes "node \<notin> V"
  shows "p \<in> set (routes_from g d n V node) \<longleftrightarrow>
    route g node d p \<and> set p \<inter> V = {} \<and> set (tl p) \<subseteq> nodes g \<and> length p \<le> n"
  using assms
proof (induction n arbitrary: node V p)
  case 0
  then show ?case by (auto simp: route_def)
next
  case (Suc n)
  show ?case
  proof (cases "node = d")
    case True
    then show ?thesis using Suc.prems by auto
  next
    case False
    have "p \<in> set (routes_from g d (Suc n) V node) \<longleftrightarrow>
      (\<exists>a q. p = node # q \<and> edge g node a \<and> a \<in> nodes g \<and> a \<notin> insert node V \<and>
        q \<in> set (routes_from g d n (insert node V) a))"
      using False by (cases "map_of g node") (auto simp: edge_def split: if_splits)
    also have "\<dots> \<longleftrightarrow> (\<exists>a q. p = node # q \<and> edge g node a \<and> a \<in> nodes g \<and> a \<notin> insert node V \<and>
        route g a d q \<and> set q \<inter> insert node V = {} \<and> set (tl q) \<subseteq> nodes g \<and> length q \<le> n)"
      using Suc.IH [of _ "insert node V"] by (simp cong: conj_cong)
    also have "\<dots> \<longleftrightarrow> (\<exists>a q. p = node # q \<and> edge g node a \<and> route g a d q \<and> node \<notin> set q \<and>
        set q \<inter> V = {} \<and> set q \<subseteq> nodes g \<and> length q \<le> n)"
    proof (rule iff_exI, rule iff_exI, rule conj_cong [OF refl], rule conj_cong [OF refl])
      fix a q
      have "q = a # tl q" if "route g a d q" using that by (cases q) (auto simp: route_def)
      then have "route g a d q \<Longrightarrow> set q = insert a (set (tl q))" by (metis list.simps(15))
      then show "(a \<in> nodes g \<and> a \<notin> insert node V \<and> route g a d q \<and> set q \<inter> insert node V = {} \<and>
          set (tl q) \<subseteq> nodes g \<and> length q \<le> n) =
        (route g a d q \<and> node \<notin> set q \<and> set q \<inter> V = {} \<and> set q \<subseteq> nodes g \<and> length q \<le> n)"
        by (cases "route g a d q") auto
    qed
    also have "\<dots> \<longleftrightarrow> route g node d p \<and> set p \<inter> V = {} \<and> set (tl p) \<subseteq> nodes g \<and> length p \<le> Suc n"
      using Suc.prems route_Cons [OF False] by auto
    finally show ?thesis .
  qed
qed

lemma edge_nodes: "closed_graph g \<Longrightarrow> edge g u v \<Longrightarrow> v \<in> nodes g"
  unfolding closed_graph_def edge_def by (fastforce dest: map_of_SomeD)

lemma successively_nodes:
  "closed_graph g \<Longrightarrow> successively (edge g) p \<Longrightarrow> set (tl p) \<subseteq> nodes g"
proof (induction p rule: induct_list012)
  case (3 x y zs)
  then show ?case using edge_nodes [of g x y] by auto
qed auto

lemma route_length: "closed_graph g \<Longrightarrow> route g s d p \<Longrightarrow> length p \<le> Suc (length g)"
proof -
  assume "closed_graph g" and r: "route g s d p"
  then have "set (tl p) \<subseteq> nodes g" by (auto simp: route_def intro: subsetD [OF successively_nodes])
  moreover have "finite (nodes g)" by (simp add: nodes_def)
  ultimately have "card (set (tl p)) \<le> card (nodes g)" by (rule card_mono [rotated])
  also have "\<dots> \<le> length g" unfolding nodes_def by (metis card_length length_map list.set_map)
  finally show ?thesis using r by (simp add: route_def distinct_card distinct_tl)
qed

lemma getAllPaths_eq:
  assumes "source \<in> nodes g"
  shows "getAllPaths g source d = Some (routes_from g d (Suc (length g)) {} source)"
proof -
  let ?s = "initialDfs g source"
  have vis: "isVisited ?s x = (if x \<in> nodes g then Some False else None)" for x
    unfolding initialDfs_def nodes_def by (induction g) auto
  have ok: "dfs_ok g ?s" by (auto simp: dfs_ok_def dom_def vis)
  have "unvisited ?s = nodes g" "visited ?s = {}" by (auto simp: unvisited_def visited_def vis)
  moreover have "card (nodes g) \<le> length g"
    unfolding nodes_def by (metis card_length length_map list.set_map)
  ultimately have "getAllPathsUtil g d (Suc (length g)) source ?s = Some (?s\<lparr>foundPaths := foundPaths ?s @
      map (\<lambda>p. localPathList ?s @ tl p) (routes_from g d (Suc (length g)) {} source)\<rparr>)"
    using getAllPathsUtil_run [OF ok, of source "Suc (length g)" d] assms vis
    by (simp add: initialDfs_def)
  moreover have "map (\<lambda>p. source # tl p) (routes_from g d (Suc (length g)) {} source)
      = routes_from g d (Suc (length g)) {} source"
    using map_cong_tl [of "[]" source g d] by (simp del: routes_from.simps add: map_idI)
  ultimately show ?thesis
    by (simp del: getAllPathsUtil.simps routes_from.simps add: getAllPaths_def initialDfs_def)
qed

lemma getAllPaths_run:
  assumes "closed_graph g"
  obtains ps where "getAllPaths g source d = Some ps" "\<And>p. p \<in> set ps \<longleftrightarrow> route g source d p"
    "ps = routes_from g d (Suc (length g)) {} source \<or> source \<notin> nodes g \<and> (ps = [] \<or> ps = [[source]])"
proof (cases "source \<in> nodes g")
  case True
  have "p \<in> set (routes_from g d (Suc (length g)) {} source) \<longleftrightarrow> route g source d p" for p
    using routes_from_iff [of source "{}" p g d "Suc (length g)"] route_length [OF assms, of source d p]
      successively_nodes [OF assms, of p]
    by (auto simp: route_def simp del: routes_from.simps)
  then show ?thesis using that getAllPaths_eq [OF True] by blast
next
  case False
  then have none: "map_of g source = None" using map_of_nodes by fastforce
  show ?thesis
  proof (cases "source = d")
    case True
    then show ?thesis
      using False by (intro that [of "[[source]]"]) (auto simp: getAllPaths_def initialDfs_def)
  next
    case neq: False
    then have "\<not> route g source d p" for p
      using none by (auto simp: route_Cons edge_def)
    then show ?thesis
      using neq none False by (intro that [of "[]"]) (auto simp: getAllPaths_def initialDfs_def)
  qed
qed

section \<open>The graph built from the pairs\<close>

definition pair_trades :: "pair_model \<Rightarrow> string \<Rightarrow> string \<Rightarrow> bool" where
  "pair_trades pair u v \<longleftrightarrow>
     (u = tokIdentifier (firstToken pair) \<and> v = tokIdentifier (secondToken pair)) \<or>
     (u = tokIdentifier (secondToken pair) \<and> v = tokIdentifier (firstToken pair))"

lemma map_of_addEdge:
  "map_of (addEdge u v g) x =
     (if x = u then Some ((case map_of g u of None \<Rightarrow> [] | Some ns \<Rightarrow> ns) @ [v]) else map_of g x)"
proof -
  have "map_of (map (\<lambda>(k, ns). if k = u then (k, ns @ [v]) else (k, ns)) g) x =
      (case map_of g x of None \<Rightarrow> None | Some ns \<Rightarrow> Some (if x = u then ns @ [v] else ns))" for g
    by (induction g) (auto split: option.splits)
  then show ?thesis
    by (auto simp: addEdge_def map_add_def split: option.splits)
qed

lemma edge_addEdge [simp]: "edge (addEdge u v g) x y \<longleftrightarrow> edge g x y \<or> (x = u \<and> y = v)"
  by (cases "map_of g u") (auto simp: edge_def map_of_addEdge)

lemma nodes_map_of_iff: "u \<in> nodes g \<longleftrightarrow> map_of g u \<noteq> None"
  using map_of_nodes nodes_map_of by fastforce

lemma nodes_addEdge [simp]: "nodes (addEdge u v g) = insert u (nodes g)"
  by (auto simp: nodes_map_of_iff map_of_addEdge split: if_splits)

lemma edge_addPairs:
  "edge (addPairs pairs g) u v \<longleftrightarrow> edge g u v \<or> (\<exists>pair\<in>set pairs. pair_trades pair u v)"
  by (induction pairs arbitrary: g) (auto simp: pair_trades_def)

lemma edge_newGraph: "edge (newGraph pairs) u v \<longleftrightarrow> (\<exists>pair\<in>set pairs. pair_trades pair u v)"
  by (simp add: newGraph_def edge_addPairs) (simp add: edge_def)

definition keyed :: "graph \<Rightarrow> bool" where
  "keyed g \<longleftrightarrow> distinct (map fst g)"

lemma keyed_addEdge: "keyed g \<Longrightarrow> keyed (addEdge u v g)"
proof -
  have "map fst (map (\<lambda>(k, ns). if k = u then (k, ns @ [v]) else (k, ns)) g) = map fst g"
    by (induction g) auto
  then show "keyed g \<Longrightarrow> keyed (addEdge u v g)"
    unfolding keyed_def addEdge_def
    by (auto split: option.splits simp del: map_map simp: map_of_eq_None_iff)
qed

lemma keyed_newGraph: "keyed (newGraph pairs)"
proof -
  have "keyed g \<Longrightarrow> keyed (addPairs pairs g)" for g
    by (induction pairs arbitrary: g) (auto simp: keyed_addEdge)
  then show ?thesis by (simp add: newGraph_def keyed_def)
qed

lemma keyed_closed:
  assumes "keyed g" "\<And>u v. edge g u v \<Longrightarrow> v \<in> nodes g"
  shows "closed_graph g"
  unfolding closed_graph_def using assms
  by (auto simp: keyed_def edge_def)

lemma closed_newGraph: "closed_graph (newGraph pairs)"
proof (rule keyed_closed [OF keyed_newGraph])
  fix u v assume "edge (newGraph pairs) u v"
  then have "edge (newGraph pairs) v u" by (auto simp: edge_newGraph pair_trades_def)
  then show "v \<in> nodes (newGraph pairs)" by (auto simp: edge_def intro: map_of_nodes)
qed

text \<open>When no two pairs trade the same tokens, no neighbour is listed twice.\<close>

definition pair_tokens :: "pair_model \<Rightarrow> string set" where
  "pair_tokens p = {tokIdentifier (firstToken p), tokIdentifier (secondToken p)}"

definition distinct_pairs :: "pair_model list \<Rightarrow> bool" where
  "distinct_pairs pairs \<longleftrightarrow>
     distinct (map pair_tokens pairs) \<and>
     (\<forall>p\<in>set pairs. tokIdentifier (firstToken p) \<noteq> tokIdentifier (secondToken p))"

definition distinct_adj :: "graph \<Rightarrow> bool" where
  "distinct_adj g \<longleftrightarrow> (\<forall>u ns. map_of g u = Some ns \<longrightarrow> distinct ns)"

lemma distinct_adjD: "distinct_adj g \<Longrightarrow> map_of g u = Some ns \<Longrightarrow> distinct ns"
  unfolding distinct_adj_def by blast

lemma distinct_adj_addEdge:
  assumes "distinct_adj g" "\<not> edge g u v"
  shows "distinct_adj (addEdge u v g)"
  unfolding distinct_adj_def
proof (intro allI impI)
  fix x ns assume new: "map_of (addEdge u v g) x = Some ns"
  show "distinct ns"
  proof (cases "x = u")
    case False
    then show ?thesis using new distinct_adjD [OF assms(1), of x ns] by (simp add: map_of_addEdge)
  next
    case True
    show ?thesis
    proof (cases "map_of g u")
      case None
      then show ?thesis using True new by (auto simp: map_of_addEdge)
    next
      case (Some ms)
      then have "distinct (ms @ [v])"
        using distinct_adjD [OF assms(1) Some] assms(2) by (simp add: edge_def)
      moreover have "ns = ms @ [v]" using True new Some by (simp add: map_of_addEdge)
      ultimately show ?thesis by simp
    qed
  qed
qed

lemma distinct_adj_addPairs:
  "distinct_adj g \<Longrightarrow> distinct_pairs pairs \<Longrightarrow>
   (\<And>p u v. p \<in> set pairs \<Longrightarrow> pair_trades p u v \<Longrightarrow> \<not> edge g u v) \<Longrightarrow> distinct_adj (addPairs pairs g)"
proof (induction pairs arbitrary: g)
  case Nil
  then show ?case by simp
next
  case (Cons p pairs)
  let ?a = "tokIdentifier (firstToken p)" and ?b = "tokIdentifier (secondToken p)"
  have ab: "?a \<noteq> ?b" using Cons.prems by (simp add: distinct_pairs_def)
  have "distinct_adj (addEdge ?b ?a (addEdge ?a ?b g))"
    using Cons.prems(1) Cons.prems(3) [of p] ab
    by (intro distinct_adj_addEdge) (auto simp: pair_trades_def)
  then show ?case
  proof (simp, intro Cons.IH)
    show "distinct_pairs pairs" using Cons.prems(2) by (simp add: distinct_pairs_def)
    fix q u v assume q: "q \<in> set pairs" "pair_trades q u v"
    have "pair_tokens q \<noteq> pair_tokens p"
      using Cons.prems(2) q(1) unfolding distinct_pairs_def by (metis distinct.simps(2) image_eqI list.simps(9) set_map)
    moreover have "{u, v} = pair_tokens q"
      using q(2) unfolding pair_trades_def pair_tokens_def by (metis insert_commute)
    ultimately have "{u, v} \<noteq> {?a, ?b}" unfolding pair_tokens_def by metis
    with q show "\<not> edge (addEdge ?b ?a (addEdge ?a ?b g)) u v"
      using Cons.prems(3) [of q u v] by auto
  qed
qed

lemma distinct_adj_newGraph: "distinct_pairs pairs \<Longrightarrow> distinct_adj (newGraph pairs)"
  unfolding newGraph_def
  by (rule distinct_adj_addPairs) (auto simp: distinct_adj_def edge_def)

lemma distinct_routes_from: "distinct_adj g \<Longrightarrow> distinct (routes_from g d n V node)"
proof (induction n arbitrary: V node)
  case (Suc n)
  let ?f = "\<lambda>a. if a \<in> nodes g \<and> a \<notin> insert node V
    then map ((#) node) (routes_from g d n (insert node V) a) else []"
  have one: "distinct (?f a)" for a using Suc by (simp add: distinct_map)
  have two: "a = b" if "p \<in> set (?f a)" "p \<in> set (?f b)" for a b p
    using that by (auto split: if_splits dest!: routes_from_hd')
  have "distinct (concat (map ?f ns))" if "distinct ns" for ns
    using that
  proof (induction ns)
    case (Cons b ns)
    have "False" if "p \<in> set (?f b)" "a \<in> set ns" "p \<in> set (?f a)" for p a
      using two [OF that(1,3)] that(2) Cons.prems by simp
    then have "set (?f b) \<inter> set (concat (map ?f ns)) = {}"
      by (simp only: set_concat set_map) blast
    moreover have "distinct (concat (map ?f ns))" using Cons by simp
    ultimately show ?case
      unfolding list.map concat.simps distinct_append using one [of b] by blast
  qed simp
  then have "map_of g node = Some ns \<Longrightarrow> distinct (concat (map ?f ns))" for ns
    using distinct_adjD [OF Suc.prems] by blast
  then show ?case by (cases "map_of g node") simp_all
qed simp

section \<open>The shared instance\<close>

text \<open>The static state after a history of calls of \<open>getInstance\<close>, the latest list of pairs first.\<close>

definition initial_static :: graph_static where
  "initial_static = \<lparr>pairsLength = 0, instanceGraph = None\<rparr>"

inductive static_after :: "pair_model list list \<Rightarrow> graph_static \<Rightarrow> bool" where
  start: "static_after [] initial_static"
| call: "static_after hist st \<Longrightarrow> static_after (pairs # hist) (snd (getInstance pairs st))"

inductive_cases static_after_ConsE: "static_after (pairs # hist) st"

lemma static_after_inv:
  "static_after hist st \<Longrightarrow> instanceGraph st = Some g \<Longrightarrow>
     \<exists>ps\<in>set hist. g = newGraph ps \<and> pairsLength st = length ps"
proof (induction arbitrary: g rule: static_after.induct)
  case start
  then show ?case by (simp add: initial_static_def)
next
  case (call hist st pairs)
  show ?case
  proof (cases "\<exists>g. instanceGraph st = Some g \<and> pairsLength st = length pairs")
    case True
    then show ?thesis using call by (auto simp: getInstance_def)
  next
    case False
    then have "snd (getInstance pairs st) = \<lparr>pairsLength = length pairs, instanceGraph = Some (newGraph pairs)\<rparr>"
      by (auto simp: getInstance_def split: option.splits)
    then show ?thesis using call.prems by simp
  qed
qed

section \<open>Properties\<close>

text \<open>
  C1. The search of a graph built from the active pairs always returns, and the paths it
  returns between two tokens are exactly the simple routes: no route is missed and nothing
  else is returned.
\<close>

theorem getAllPaths_simple_routes:
  "\<exists>ps. getAllPaths (newGraph pairs) source destination = Some ps \<and>
     (\<forall>p. p \<in> set ps \<longleftrightarrow> route (newGraph pairs) source destination p)"
  using getAllPaths_run [OF closed_newGraph] by metis

text \<open>
  When no two pairs trade the same two tokens, no path is returned twice.
\<close>

theorem getAllPaths_no_duplicates:
  assumes "distinct_pairs pairs"
  shows "\<exists>ps. getAllPaths (newGraph pairs) source destination = Some ps \<and> distinct ps"
  using getAllPaths_run [OF closed_newGraph, of pairs source destination]
    distinct_routes_from [OF distinct_adj_newGraph [OF assms]]
  by (metis distinct.simps(1) distinct_singleton)

text \<open>A pair record that only fixes the tokens and the address.\<close>

definition demo_pair :: "string \<Rightarrow> string \<Rightarrow> string \<Rightarrow> pair_model" where
  "demo_pair addr t u =
     \<lparr>address = addr, firstToken = \<lparr>tokIdentifier = t, decimals = 18\<rparr>,
      secondToken = \<lparr>tokIdentifier = u, decimals = 18\<rparr>,
      info = \<lparr>reserves0 = Fin 100, reserves1 = Fin 100, totalSupply = Fin 100\<rparr>,
      totalFeePercent = 0\<rparr>"

theorem getAllPaths_no_duplicates_witness:
  "\<exists>ps. getAllPaths (newGraph [demo_pair ''p1'' ''A'' ''B'', demo_pair ''p2'' ''B'' ''C'']) ''A'' ''C''
     = Some ps \<and> distinct ps"
  by (rule getAllPaths_no_duplicates)
    (simp add: distinct_pairs_def pair_tokens_def demo_pair_def doubleton_eq_iff)

text \<open>
  Whatever the history of calls, the graph \<open>getInstance\<close> serves was built from a list of
  pairs seen in the history or passed now, and that list has as many pairs as the one passed.
\<close>

theorem getInstance_same_length:
  assumes "static_after hist st"
  shows "\<exists>ps\<in>set (pairs # hist). fst (getInstance pairs st) = newGraph ps \<and> length ps = length pairs"
proof (cases "instanceGraph st")
  case None
  then show ?thesis by (simp add: getInstance_def)
next
  case (Some g)
  with static_after_inv [OF assms] obtain ps
    where "ps \<in> set hist" "g = newGraph ps" "pairsLength st = length ps" by blast
  then show ?thesis using Some by (auto simp: getInstance_def)
qed

theorem getInstance_same_length_witness:
  "\<exists>ps\<in>set [[demo_pair ''p1'' ''A'' ''B'']].
     fst (getInstance [demo_pair ''p1'' ''A'' ''B''] initial_static) = newGraph ps \<and> length ps = 1"
  using getInstance_same_length [OF static_after.start, of "[demo_pair ''p1'' ''A'' ''B'']"] by simp

text \<open>
  The number of pairs is all \<open>getInstance\<close> compares: after one pair has been replaced
  by another, it serves the old graph, whose routes use a token no current pair trades and
  miss the route that exists.
\<close>

theorem getInstance_stale:
  "let old = [demo_pair ''p1'' ''A'' ''B'']; new = [demo_pair ''p2'' ''A'' ''C''];
       g = fst (getInstance new (snd (getInstance old initial_static)))
   in getAllPaths g ''A'' ''B'' = Some [[''A'', ''B'']] \<and> \<not> route (newGraph new) ''A'' ''B'' [''A'', ''B'']
     \<and> getAllPaths g ''A'' ''C'' = Some [] \<and> route (newGraph new) ''A'' ''C'' [''A'', ''C'']"
proof -
  let ?old = "[demo_pair ''p1'' ''A'' ''B'']" and ?new = "[demo_pair ''p2'' ''A'' ''C'']"
  have g: "fst (getInstance ?new (snd (getInstance ?old initial_static))) = newGraph ?old"
    by (simp add: getInstance_def initial_static_def)
  have "newGraph ?old = [(''A'', [''B'']), (''B'', [''A''])]"
    by (simp add: newGraph_def addEdge_def demo_pair_def)
  then show ?thesis
    unfolding Let_def g
    by (simp add: getAllPaths_def initialDfs_def spliceFirst_def route_def edge_newGraph
        pair_trades_def demo_pair_def)
qed

end
