(* ===== verification/TokenConverters.thy ===== *)
theory TokenConverters
  imports DexModels
begin

text \<open>
  \<open>src/utils/token.converters.ts\<close> and \<open>src/utils/token.type.compare.ts\<close>: denominated
  amounts and their USD value, the identifier of a single token of a collection
  (\<open>TICKER-random-nonce\<close>, the nonce in even-length hexadecimal) and its two parsers, the
  classification of a token object, and the weaker of two listing types.

  Identifiers are strings of ASCII characters. A nonce is a natural number below \<open>2 ^ 53\<close>.
\<close>

section \<open>Amounts\<close>

definition denominateAmount :: "bignumber \<Rightarrow> bn \<Rightarrow> nat \<Rightarrow> bn" where
  "denominateAmount B tokenAmount decs = bn_times B tokenAmount (dec_unit decs)"

definition computeValueUSD :: "bignumber \<Rightarrow> bn \<Rightarrow> nat \<Rightarrow> bn \<Rightarrow> bn" where
  "computeValueUSD B amt decs priceUSD = bn_times B (denominateAmount B amt decs) priceUSD"

context bignumber_lib begin

lemma denominateAmount_fin [bn_finite]:
  "denominateAmount B (Fin x) d = Fin (x / 10 ^ d)"
  by (simp add: denominateAmount_def dec_unit_def times_fin)

lemma computeValueUSD_fin [bn_finite]:
  "computeValueUSD B (Fin x) d (Fin p) = Fin (x / 10 ^ d * p)"
  by (simp add: computeValueUSD_def denominateAmount_fin times_fin)

end

section \<open>Token identifiers\<close>

definition hex_digit :: "nat \<Rightarrow> char" where
  "hex_digit n = (if n < 10 then char_of (48 + n) else char_of (87 + n))"

text \<open>\<open>Number.prototype.toString(16)\<close> of a natural number.\<close>

fun toString16 :: "nat \<Rightarrow> string" where
  "toString16 n = (if n < 16 then [hex_digit n] else toString16 (n div 16) @ [hex_digit (n mod 16)])"

declare toString16.simps [simp del]

definition decimalToHex :: "nat \<Rightarrow> string" where
  "decimalToHex d = (let h = toString16 d in if length h mod 2 \<noteq> 0 then ''0'' @ h else h)"

text \<open>\<open>String.prototype.split\<close> with a one-character separator.\<close>

fun split_on :: "char \<Rightarrow> string \<Rightarrow> string list" where
  "split_on c [] = [[]]"
| "split_on c (x # xs) =
     (if x = c then [] # split_on c xs
      else case split_on c xs of [] \<Rightarrow> [[x]] | w # ws \<Rightarrow> (x # w) # ws)"

text \<open>An index past the end of an array reads \<open>undefined\<close>, which a template prints by name.\<close>

definition js_index :: "'a list \<Rightarrow> nat \<Rightarrow> 'a option" where
  "js_index xs i = (if i < length xs then Some (xs ! i) else None)"

definition template_of :: "string option \<Rightarrow> string" where
  "template_of v = (case v of None \<Rightarrow> ''undefined'' | Some s \<Rightarrow> s)"

definition tokenCollection :: "string \<Rightarrow> string" where
  "tokenCollection tid =
     (let split = split_on (CHR ''-'') tid
      in template_of (js_index split 0) @ ''-'' @ template_of (js_index split 1))"

text \<open>
  \<open>parseInt(s, 16)\<close>: leading white space, a sign and a \<open>0x\<close> prefix are skipped, then the
  longest prefix of hexadecimal digits is read; \<open>None\<close> is NaN.
\<close>

definition hex_value :: "char \<Rightarrow> nat option" where
  "hex_value c = (let n = of_char c in
     if 48 \<le> n \<and> n \<le> 57 then Some (n - 48)
     else if 97 \<le> n \<and> n \<le> 102 then Some (n - 87)
     else if 65 \<le> n \<and> n \<le> 70 then Some (n - 55) else None)"

fun read_hex :: "nat \<Rightarrow> string \<Rightarrow> nat" where
  "read_hex acc [] = acc"
| "read_hex acc (c # cs) =
     (case hex_value c of None \<Rightarrow> acc | Some v \<Rightarrow> read_hex (16 * acc + v) cs)"

definition is_space :: "char \<Rightarrow> bool" where
  "is_space c \<longleftrightarrow> (let n = of_char c :: nat in n = 32 \<or> (9 \<le> n \<and> n \<le> 13) \<or> n = 160)"

definition strip_0x :: "string \<Rightarrow> string" where
  "strip_0x s = (if take 2 s = ''0x'' \<or> take 2 s = ''0X'' then drop 2 s else s)"

definition parse_digits16 :: "string \<Rightarrow> int option" where
  "parse_digits16 s = (case s of [] \<Rightarrow> None
     | c # cs \<Rightarrow> (if hex_value c = None then None else Some (int (read_hex 0 s))))"

definition parseInt16 :: "string \<Rightarrow> int option" where
  "parseInt16 s =
     (let t = dropWhile is_space s in
      case t of
        [] \<Rightarrow> None
      | c # cs \<Rightarrow>
          if c = CHR ''-'' then map_option uminus (parse_digits16 (strip_0x cs))
          else if c = CHR ''+'' then parse_digits16 (strip_0x cs)
          else parse_digits16 (strip_0x t))"

definition tokenNonce :: "string \<Rightarrow> int option" where
  "tokenNonce tid = parseInt16 (template_of (js_index (split_on (CHR ''-'') tid) 2))"

definition tokenIdentifier :: "string \<Rightarrow> nat \<Rightarrow> string" where
  "tokenIdentifier tid tokNonce = tid @ ''-'' @ decimalToHex tokNonce"

subsection \<open>Splitting\<close>

lemma split_on_no: "c \<notin> set xs \<Longrightarrow> split_on c xs = [xs]"
  by (induction xs) auto

lemma split_on_nonempty: "split_on c xs \<noteq> []"
  by (induction xs) (auto split: list.splits)

lemma split_on_append: "c \<notin> set xs \<Longrightarrow> split_on c (xs @ c # ys) = xs # split_on c ys"
  by (induction xs) auto

subsection \<open>Reading back hexadecimal digits\<close>

lemma hex_value_digit: "n < 16 \<Longrightarrow> hex_value (hex_digit n) = Some n"
  by (auto simp: hex_value_def hex_digit_def Let_def)

lemma toString16_digits: "\<forall>c \<in> set (toString16 n). \<exists>v<16. c = hex_digit v"
proof (induction n rule: toString16.induct)
  case (1 n)
  then show ?case
    by (subst toString16.simps) (auto intro: exI [of _ n] exI [of _ "n mod 16"])
qed

lemma read_hex_append:
  "\<forall>c \<in> set xs. hex_value c \<noteq> None \<Longrightarrow> read_hex acc (xs @ ys) = read_hex (read_hex acc xs) ys"
  by (induction xs arbitrary: acc) auto

lemma toString16_hex: "c \<in> set (toString16 n) \<Longrightarrow> hex_value c \<noteq> None"
  using toString16_digits [of n] hex_value_digit by fastforce

lemma read_toString16: "read_hex 0 (toString16 n) = n"
proof (induction n rule: toString16.induct)
  case (1 n)
  show ?case
  proof (cases "n < 16")
    case True
    then show ?thesis by (simp add: toString16.simps [of n] hex_value_digit)
  next
    case False
    have "read_hex 0 (toString16 (n div 16) @ [hex_digit (n mod 16)])
        = read_hex (read_hex 0 (toString16 (n div 16))) [hex_digit (n mod 16)]"
      by (rule read_hex_append) (use toString16_hex in blast)
    also have "\<dots> = n" using 1 False by (simp add: hex_value_digit)
    finally show ?thesis using False by (simp add: toString16.simps [of n])
  qed
qed

lemma hex_char_facts:
  assumes "hex_value c \<noteq> None"
  shows "c \<noteq> CHR ''-''" "c \<noteq> CHR ''+''" "c \<noteq> CHR ''x''" "c \<noteq> CHR ''X''" "\<not> is_space c"
  using assms by (auto simp: hex_value_def is_space_def Let_def split: if_splits)

lemma parseInt16_hex:
  assumes "s \<noteq> []" "\<forall>c \<in> set s. hex_value c \<noteq> None"
  shows "parseInt16 s = Some (int (read_hex 0 s))"
proof -
  obtain c cs where s: "s = c # cs" using assms(1) by (cases s) auto
  have c: "hex_value c \<noteq> None" using assms s by simp
  have "strip_0x s = s"
    using assms(2) hex_char_facts(3,4) s by (cases cs) (auto simp: strip_0x_def)
  then show ?thesis
    using c hex_char_facts [OF c] s by (simp add: parseInt16_def parse_digits16_def)
qed

lemma decimalToHex_props:
  "decimalToHex d \<noteq> []" "\<forall>c \<in> set (decimalToHex d). hex_value c \<noteq> None"
  "read_hex 0 (decimalToHex d) = d" "even (length (decimalToHex d))"
proof -
  have zero: "hex_value (CHR ''0'') = Some 0" by (simp add: hex_value_def)
  have ne: "toString16 d \<noteq> []" by (subst toString16.simps) simp
  then show "decimalToHex d \<noteq> []" by (simp add: decimalToHex_def Let_def)
  show "\<forall>c \<in> set (decimalToHex d). hex_value c \<noteq> None"
    using toString16_hex zero by (auto simp: decimalToHex_def Let_def)
  show "read_hex 0 (decimalToHex d) = d"
    using zero by (simp add: decimalToHex_def Let_def read_toString16)
  show "even (length (decimalToHex d))" by (auto simp: decimalToHex_def Let_def)
qed

section \<open>Token classes\<close>

text \<open>The fields the type guards look at; \<open>None\<close> is \<open>undefined\<close>.\<close>

record token_object =
  objIdentifier :: "string option"
  objCollection :: "string option"
  objDecimals :: "nat option"

definition isEsdtToken :: "token_object \<Rightarrow> bool" where
  "isEsdtToken t \<longleftrightarrow> objIdentifier t \<noteq> None \<and> objCollection t = None"

definition isNftCollection :: "token_object \<Rightarrow> bool" where
  "isNftCollection t \<longleftrightarrow> objIdentifier t = None \<and> objCollection t \<noteq> None"

definition isNftToken :: "token_object \<Rightarrow> bool" where
  "isNftToken t \<longleftrightarrow> objIdentifier t \<noteq> None \<and> objCollection t \<noteq> None"

definition isEsdtTokenValid :: "token_object \<Rightarrow> bool" where
  "isEsdtTokenValid t \<longleftrightarrow>
     \<not> (objIdentifier t = None \<or> objIdentifier t = Some [] \<or> objDecimals t = None \<or> objDecimals t = Some 0)"

definition isNftCollectionValid :: "token_object \<Rightarrow> bool" where
  "isNftCollectionValid t \<longleftrightarrow> \<not> (objDecimals t = None \<or> objDecimals t = Some 0)"

section \<open>The weaker of two listing types\<close>

text \<open>A \<open>switch\<close> on the first type; a type it does not know falls through to \<open>undefined\<close>.\<close>

definition leastType :: "string \<Rightarrow> string \<Rightarrow> string option" where
  "leastType typeA typeB =
     (if typeA = ''Core'' then Some typeB
      else if typeA = ''Ecosystem'' then
        (if typeB = ''Core'' then Some typeA else Some typeB)
      else if typeA = ''Community'' then
        (if typeB = ''Core'' \<or> typeB = ''Ecosystem'' then Some typeA else Some typeB)
      else if typeA = ''Jungle-Community'' then
        (if typeB = ''Core'' \<or> typeB = ''Ecosystem'' \<or> typeB = ''Community''
         then Some ''Community'' else Some typeB)
      else if typeA = ''Experimental'' then
        (if typeB = ''Core'' \<or> typeB = ''Ecosystem'' \<or> typeB = ''Community''
            \<or> typeB = ''Jungle-Community''
         then Some typeA else Some typeB)
      else if typeA = ''Jungle-Experimental'' then
        (if typeB = ''Core'' \<or> typeB = ''Ecosystem'' \<or> typeB = ''Community''
            \<or> typeB = ''Jungle-Community'' \<or> typeB = ''Experimental''
         then Some ''Experimental'' else Some typeB)
      else if typeA = ''Jungle'' then
        (if typeB = ''Core'' \<or> typeB = ''Ecosystem'' \<or> typeB = ''Community''
            \<or> typeB = ''Jungle-Community'' \<or> typeB = ''Experimental''
            \<or> typeB = ''Jungle-Experimental''
         then Some ''Experimental'' else Some typeB)
      else if typeA = ''Unlisted'' then Some typeA
      else None)"

text \<open>The listing types from the strongest to the weakest, as the \<open>switch\<close> orders them.\<close>

definition plain_types :: "string list" where
  "plain_types = [''Core'', ''Ecosystem'', ''Community'', ''Experimental'', ''Unlisted'']"

fun type_rank :: "string list \<Rightarrow> string \<Rightarrow> nat" where
  "type_rank [] t = 0"
| "type_rank (x # xs) t = (if x = t then 0 else Suc (type_rank xs t))"

end
