(* ===== verification/AutoRouterCompute.thy ===== *)
theory AutoRouterCompute
  imports PairUtils GraphService TokenConverters
begin

text \<open>
  \<open>src/modules/auto-router/services/auto-router.compute.service.ts\<close>: the amounts along every
  candidate route, forwards from a fixed input or backwards from a fixed output, the choice of
  the best route and the pair addresses it goes through.

  An amount array is built by \<open>push\<close> (at the end) or \<open>unshift\<close> (at the front); the string
  \<open>'Infinity'\<close> that marks an unreachable output is the value \<open>PosInf\<close>. In
  \<open>getBestAmountAndIndex\<close> the arrays are distinct objects, so \<open>amounts.indexOf(amount)\<close> is the
  position the loop is at.
\<close>

section \<open>Operations\<close>

datatype swap_type = FixedInput | FixedOutput

record best_swap_route =
  tokenRoute :: "string list"
  intermediaryAmounts :: "bn list"
  addressRoute :: "string list"
  bestResult :: bn

definition getPairByTokens :: "pair_model list \<Rightarrow> string \<Rightarrow> string \<Rightarrow> pair_model option" where
  "getPairByTokens pairs tokenIn tokenOut =
     List.find (\<lambda>pair.
       (tokenIn = tokIdentifier (firstToken pair) \<and> tokenOut = tokIdentifier (secondToken pair)) \<or>
       (tokenIn = tokIdentifier (secondToken pair) \<and> tokenOut = tokIdentifier (firstToken pair))) pairs"

definition getOrderedReserves :: "string \<Rightarrow> pair_model \<Rightarrow> bn \<times> bn" where
  "getOrderedReserves tokenInID pair =
     (if tokenInID = tokIdentifier (firstToken pair)
      then (reserves0 (info pair), reserves1 (info pair))
      else (reserves1 (info pair), reserves0 (info pair)))"

text \<open>One hop: \<open>getAmountOut\<close> and \<open>getAmountIn\<close> on the reserves in the hop's direction.\<close>

definition hopOut :: "bignumber \<Rightarrow> pair_model \<Rightarrow> string \<Rightarrow> bn \<Rightarrow> bn" where
  "hopOut B pair tokenInID amt =
     (case getOrderedReserves tokenInID pair of (tokenInReserves, tokenOutReserves) \<Rightarrow>
        getAmountOut B amt tokenInReserves tokenOutReserves (totalFeePercent pair))"

definition hopIn :: "bignumber \<Rightarrow> pair_model \<Rightarrow> string \<Rightarrow> bn \<Rightarrow> bn" where
  "hopIn B pair tokenInID amt =
     (case getOrderedReserves tokenInID pair of (tokenInReserves, tokenOutReserves) \<Rightarrow>
        getAmountIn B amt tokenInReserves tokenOutReserves (totalFeePercent pair))"

fun pathAmountsFixedInput ::
  "bignumber \<Rightarrow> pair_model list \<Rightarrow> string list \<Rightarrow> bn list \<Rightarrow> bn list" where
  "pathAmountsFixedInput B pairs (tokenInID # tokenOutID # path) pathAmounts =
     (case getPairByTokens pairs tokenInID tokenOutID of
        None \<Rightarrow> pathAmountsFixedInput B pairs (tokenOutID # path) pathAmounts
      | Some pair \<Rightarrow>
          pathAmountsFixedInput B pairs (tokenOutID # path)
            (pathAmounts @ [hopOut B pair tokenInID (last pathAmounts)]))"
| "pathAmountsFixedInput B pairs path pathAmounts = pathAmounts"

definition computeIntermediaryAmountsFixedInput ::
  "bignumber \<Rightarrow> string list list \<Rightarrow> pair_model list \<Rightarrow> bn \<Rightarrow> bn list list" where
  "computeIntermediaryAmountsFixedInput B paths pairs initialAmountIn =
     map (\<lambda>path. pathAmountsFixedInput B pairs path [initialAmountIn]) paths"

text \<open>The loop runs from the end of the path to its start: it walks the reversed path.\<close>

fun pathAmountsFixedOutput ::
  "bignumber \<Rightarrow> pair_model list \<Rightarrow> string list \<Rightarrow> bn list \<Rightarrow> bn list" where
  "pathAmountsFixedOutput B pairs (tokenOutID # tokenInID # path) pathAmounts =
     (case getPairByTokens pairs tokenInID tokenOutID of
        None \<Rightarrow> pathAmountsFixedOutput B pairs (tokenInID # path) pathAmounts
      | Some pair \<Rightarrow>
          let amountIn = (if hd pathAmounts = PosInf then Fin 0
                          else hopIn B pair tokenInID (hd pathAmounts))
          in pathAmountsFixedOutput B pairs (tokenInID # path)
               ((if bn_equal B amountIn (Fin 0) then PosInf else amountIn) # pathAmounts))"
| "pathAmountsFixedOutput B pairs path pathAmounts = pathAmounts"

definition computeIntermediaryAmountsFixedOutput ::
  "bignumber \<Rightarrow> string list list \<Rightarrow> pair_model list \<Rightarrow> bn \<Rightarrow> bn list list" where
  "computeIntermediaryAmountsFixedOutput B paths pairs fixedAmountOut =
     map (\<lambda>path. pathAmountsFixedOutput B pairs (rev path) [fixedAmountOut]) paths"

text \<open>The loop of \<open>getBestAmountAndIndex\<close>, at position \<open>i\<close> with the best amount so far.\<close>

fun bestScan :: "bignumber \<Rightarrow> swap_type \<Rightarrow> nat \<Rightarrow> bn list list \<Rightarrow> bn \<times> int \<Rightarrow> bn \<times> int" where
  "bestScan B swapType i [] (bestAmount, index) = (bestAmount, index)"
| "bestScan B FixedInput i (amt # amounts) (bestAmount, index) =
     bestScan B FixedInput (Suc i) amounts
       (if bn_less B bestAmount (last amt) then (last amt, int i) else (bestAmount, index))"
| "bestScan B FixedOutput i (amt # amounts) (bestAmount, index) =
     bestScan B FixedOutput (Suc i) amounts
       (if bn_greater B bestAmount (hd amt) then (hd amt, int i) else (bestAmount, index))"

definition getBestAmountAndIndex :: "bignumber \<Rightarrow> bn list list \<Rightarrow> swap_type \<Rightarrow> bn \<times> int" where
  "getBestAmountAndIndex B amounts swapType =
     bestScan B swapType 0 amounts
       (case swapType of FixedInput \<Rightarrow> Fin 0 | FixedOutput \<Rightarrow> PosInf, - 1)"

fun getAddressRoute :: "pair_model list \<Rightarrow> string list \<Rightarrow> string list" where
  "getAddressRoute pairs (t # u # tokensRoute) =
     (case getPairByTokens pairs t u of
        None \<Rightarrow> getAddressRoute pairs (u # tokensRoute)
      | Some pair \<Rightarrow> address pair # getAddressRoute pairs (u # tokensRoute))"
| "getAddressRoute pairs tokensRoute = []"

definition computeBestSwapRoute ::
  "bignumber \<Rightarrow> string list list \<Rightarrow> pair_model list \<Rightarrow> bn \<Rightarrow> swap_type \<Rightarrow> best_swap_route res" where
  "computeBestSwapRoute B paths pairs amt swapType =
     (let amounts = (case swapType of
            FixedInput \<Rightarrow> computeIntermediaryAmountsFixedInput B paths pairs amt
          | FixedOutput \<Rightarrow> computeIntermediaryAmountsFixedOutput B paths pairs amt);
          (bestAmount, pathIndex) = getBestAmountAndIndex B amounts swapType
      in if pathIndex = - 1 then Inl (BadRequest ''No route found'')
         else Inr \<lparr>tokenRoute = paths ! nat pathIndex,
                   intermediaryAmounts = amounts ! nat pathIndex,
                   addressRoute = getAddressRoute pairs (paths ! nat pathIndex),
                   bestResult = bestAmount\<rparr>)"

definition computeFeeDenom :: "bignumber \<Rightarrow> rat \<Rightarrow> bn \<Rightarrow> nat \<Rightarrow> bn" where
  "computeFeeDenom B feePercent amt decs =
     denominateAmount B (bn_times B amt (bn_number B feePercent)) decs"

definition computePriceImpactPercent :: "bignumber \<Rightarrow> bn \<Rightarrow> bn \<Rightarrow> bn" where
  "computePriceImpactPercent B reserves amt =
     bn_times B (bn_div B amt reserves) (bn_number B 100)"

section \<open>Pairs and routes\<close>

text \<open>A pair in service: positive integer reserves and a fee below 100 percent.\<close>

definition valid_pair :: "pair_model \<Rightarrow> bool" where
  "valid_pair pair \<longleftrightarrow> valid_fee (totalFeePercent pair) \<and>
     (\<exists>r0 r1. reserves0 (info pair) = bn_of_int r0 \<and> reserves1 (info pair) = bn_of_int r1 \<and>
        0 < r0 \<and> 0 < r1)"

lemma getPairByTokens_eq: "getPairByTokens pairs u v = List.find (\<lambda>pair. pair_trades pair u v) pairs"
  unfolding getPairByTokens_def pair_trades_def by (rule refl)

lemma getPairByTokens_Some:
  "getPairByTokens pairs u v = Some pair \<Longrightarrow> pair \<in> set pairs \<and> pair_trades pair u v"
  unfolding getPairByTokens_eq by (rule find_Some_set)

lemma getPairByTokens_edge:
  "edge (newGraph pairs) u v \<Longrightarrow> \<exists>pair. getPairByTokens pairs u v = Some pair"
  unfolding edge_newGraph getPairByTokens_eq
  using ex_find [of _ pairs "\<lambda>pair. pair_trades pair u v"] by blast

lemma valid_reserves:
  assumes "valid_pair pair"
  obtains rin rout where "getOrderedReserves u pair = (bn_of_int rin, bn_of_int rout)" "0 < rin" "0 < rout"
proof -
  obtain r0 r1 where r: "reserves0 (info pair) = bn_of_int r0" "reserves1 (info pair) = bn_of_int r1"
    "0 < r0" "0 < r1"
    using assms by (auto simp: valid_pair_def)
  show ?thesis
  proof (cases "u = tokIdentifier (firstToken pair)")
    case True
    then show ?thesis using r that [of r0 r1] by (simp add: getOrderedReserves_def)
  next
    case False
    then show ?thesis using r that [of r1 r0] by (simp add: getOrderedReserves_def)
  qed
qed

text \<open>Every hop of a route of the graph has a pair.\<close>

definition hops :: "pair_model list \<Rightarrow> string list \<Rightarrow> bool" where
  "hops pairs path \<longleftrightarrow> successively (\<lambda>u v. getPairByTokens pairs u v \<noteq> None) path"

lemma hops_Cons [simp]:
  "hops pairs (u # v # path) \<longleftrightarrow> getPairByTokens pairs u v \<noteq> None \<and> hops pairs (v # path)"
  "hops pairs [u]" "hops pairs []"
  by (simp_all add: hops_def)

lemma route_hops: "route (newGraph pairs) s d p \<Longrightarrow> hops pairs p"
  unfolding route_def hops_def
  using successively_mono [of "edge (newGraph pairs)" p "\<lambda>u v. getPairByTokens pairs u v \<noteq> None"]
    getPairByTokens_edge [of pairs] by blast

lemma length_pathAmountsFixedInput:
  "hops pairs path \<Longrightarrow> path \<noteq> [] \<Longrightarrow>
   length (pathAmountsFixedInput B pairs path acc) = length acc + (length path - 1)"
  by (induction B pairs path acc rule: pathAmountsFixedInput.induct) auto

lemma length_getAddressRoute:
  "hops pairs path \<Longrightarrow> path \<noteq> [] \<Longrightarrow> length (getAddressRoute pairs path) = length path - 1"
  by (induction pairs path rule: getAddressRoute.induct) auto

lemma getAddressRoute_addresses: "set (getAddressRoute pairs path) \<subseteq> address ` set pairs"
  by (induction pairs path rule: getAddressRoute.induct)
    (auto split: option.splits dest!: getPairByTokens_Some)

text \<open>The final output along a path, as a function of the amount that enters it.\<close>

fun outAlong :: "bignumber \<Rightarrow> pair_model list \<Rightarrow> string list \<Rightarrow> bn \<Rightarrow> bn" where
  "outAlong B pairs (u # v # path) a =
     (case getPairByTokens pairs u v of
        None \<Rightarrow> outAlong B pairs (v # path) a
      | Some pair \<Rightarrow> outAlong B pairs (v # path) (hopOut B pair u a))"
| "outAlong B pairs path a = a"

lemma last_pathAmountsFixedInput:
  "acc \<noteq> [] \<Longrightarrow> last (pathAmountsFixedInput B pairs path acc) = outAlong B pairs path (last acc)"
  by (induction B pairs path acc rule: pathAmountsFixedInput.induct) (auto split: option.splits)

lemma pathAmountsFixedInput_append:
  "acc \<noteq> [] \<Longrightarrow> \<exists>zs. pathAmountsFixedInput B pairs path acc = acc @ zs"
  by (induction B pairs path acc rule: pathAmountsFixedInput.induct) (auto split: option.splits)

text \<open>The first input along a reversed path, as a function of the amount to be bought.\<close>

definition inStep :: "bignumber \<Rightarrow> pair_model \<Rightarrow> string \<Rightarrow> bn \<Rightarrow> bn" where
  "inStep B pair u a =
     (let amountIn = (if a = PosInf then Fin 0 else hopIn B pair u a)
      in if bn_equal B amountIn (Fin 0) then PosInf else amountIn)"

fun inAlong :: "bignumber \<Rightarrow> pair_model list \<Rightarrow> string list \<Rightarrow> bn \<Rightarrow> bn" where
  "inAlong B pairs (v # u # path) a =
     (case getPairByTokens pairs u v of
        None \<Rightarrow> inAlong B pairs (u # path) a
      | Some pair \<Rightarrow> inAlong B pairs (u # path) (inStep B pair u a))"
| "inAlong B pairs path a = a"

lemma hd_pathAmountsFixedOutput:
  "acc \<noteq> [] \<Longrightarrow> hd (pathAmountsFixedOutput B pairs path acc) = inAlong B pairs path (hd acc)"
  by (induction B pairs path acc rule: pathAmountsFixedOutput.induct)
    (auto simp: inStep_def Let_def split: option.splits)

section \<open>The scan finds the first optimum\<close>

text \<open>
  The two directions share one contract: a strict comparison \<open>better\<close> and the value \<open>key\<close> a
  candidate is judged by. A scan that replaces the best so far by a strictly better candidate
  ends at the first candidate that no other beats.
\<close>

fun scan :: "('v \<Rightarrow> 'v \<Rightarrow> bool) \<Rightarrow> nat \<Rightarrow> 'v list \<Rightarrow> 'v \<times> int \<Rightarrow> 'v \<times> int" where
  "scan better i [] (b, k) = (b, k)"
| "scan better i (v # vs) (b, k) =
     scan better (Suc i) vs (if better v b then (v, int i) else (b, k))"

locale best_scan =
  fixes better :: "'v \<Rightarrow> 'v \<Rightarrow> bool"
    and dom_ok :: "'v \<Rightarrow> bool"
  assumes irrefl: "dom_ok v \<Longrightarrow> \<not> better v v"
    and trans: "dom_ok u \<Longrightarrow> dom_ok v \<Longrightarrow> dom_ok w \<Longrightarrow> better u v \<Longrightarrow> better v w \<Longrightarrow> better u w"
    and neg_trans: "dom_ok u \<Longrightarrow> dom_ok v \<Longrightarrow> dom_ok w \<Longrightarrow> better u w \<Longrightarrow> better u v \<or> better v w"
begin

lemma found_Suc:
  assumes "j < length vs" "b' = vs ! j" "k' = int (Suc i + j)" "better b' b" "better b' v"
    "\<forall>m<j. better b' (vs ! m)"
  shows "\<exists>j<length (v # vs). b' = (v # vs) ! j \<and> k' = int (i + j) \<and> better b' b \<and>
    (\<forall>m<j. better b' ((v # vs) ! m))"
  using assms by (intro exI [of _ "Suc j"]) (auto simp: nth_Cons split: nat.splits)

lemma scan_inv:
  assumes "scan better i vs (b, k) = (b', k')" "dom_ok b" "\<forall>v\<in>set vs. dom_ok v"
  shows "dom_ok b' \<and> (\<forall>v\<in>set vs. \<not> better v b') \<and> \<not> better b b' \<and>
    ((b', k') = (b, k) \<or>
     (\<exists>j<length vs. b' = vs ! j \<and> k' = int (i + j) \<and> better b' b \<and> (\<forall>m<j. better b' (vs ! m))))"
  using assms
proof (induction vs arbitrary: i b k)
  case Nil
  then show ?case by (simp add: irrefl)
next
  case (Cons v vs)
  show ?case
  proof (cases "better v b")
    case False
    have IH: "dom_ok b' \<and> (\<forall>v\<in>set vs. \<not> better v b') \<and> \<not> better b b' \<and>
      ((b', k') = (b, k) \<or> (\<exists>j<length vs. b' = vs ! j \<and> k' = int (Suc i + j) \<and> better b' b \<and>
        (\<forall>m<j. better b' (vs ! m))))"
      by (rule Cons.IH) (use Cons.prems False in auto)
    have "better b' v" if "better b' b" using neg_trans [of b' v b] that False IH Cons.prems by auto
    moreover have "\<not> better v b'"
    proof
      assume "better v b'"
      then have "better v b \<or> better b b'" using neg_trans [of v b b'] IH Cons.prems by auto
      with False IH show False by blast
    qed
    moreover have "(b', k') = (b, k) \<or> (\<exists>j<length (v # vs). b' = (v # vs) ! j \<and> k' = int (i + j) \<and>
        better b' b \<and> (\<forall>m<j. better b' ((v # vs) ! m)))"
      using IH calculation(1) found_Suc by blast
    ultimately show ?thesis using IH by auto
  next
    case True
    have IH: "dom_ok b' \<and> (\<forall>v\<in>set vs. \<not> better v b') \<and> \<not> better v b' \<and>
      ((b', k') = (v, int i) \<or> (\<exists>j<length vs. b' = vs ! j \<and> k' = int (Suc i + j) \<and> better b' v \<and>
        (\<forall>m<j. better b' (vs ! m))))"
      by (rule Cons.IH) (use Cons.prems True in auto)
    have "\<not> better b b'"
    proof
      assume "better b b'"
      then have "better v b'" using trans [of v b b'] True IH Cons.prems by auto
      with IH show False by blast
    qed
    moreover have "better b' b" if "better b' v" using trans [of b' v b] that True IH Cons.prems by auto
    moreover have "\<exists>j<length (v # vs). b' = (v # vs) ! j \<and> k' = int (i + j) \<and>
        better b' b \<and> (\<forall>m<j. better b' ((v # vs) ! m))"
    proof (cases "(b', k') = (v, int i)")
      case True
      then show ?thesis using \<open>better v b\<close> by (intro exI [of _ 0]) simp
    next
      case False
      then show ?thesis using IH calculation(2) found_Suc by blast
    qed
    ultimately show ?thesis using IH by auto
  qed
qed

end

lemma bestScan_input:
  "bestScan B FixedInput i amounts (b, k) = scan (\<lambda>v b. bn_less B b v) i (map last amounts) (b, k)"
  by (induction amounts arbitrary: i b k) auto

lemma bestScan_output:
  "bestScan B FixedOutput i amounts (b, k) = scan (\<lambda>v b. bn_greater B b v) i (map hd amounts) (b, k)"
  by (induction amounts arbitrary: i b k) auto

definition is_fin :: "bn \<Rightarrow> bool" where
  "is_fin v \<longleftrightarrow> (\<exists>x. v = Fin x)"

definition is_fin_or_inf :: "bn \<Rightarrow> bool" where
  "is_fin_or_inf v \<longleftrightarrow> v = PosInf \<or> is_fin v"

sublocale bignumber_lib \<subseteq> max_scan: best_scan "\<lambda>v b. bn_less B b v" is_fin
  by unfold_locales (auto simp: is_fin_def less_fin)

sublocale bignumber_lib \<subseteq> min_scan: best_scan "\<lambda>v b. bn_greater B b v" is_fin_or_inf
  by unfold_locales
    (auto simp: is_fin_or_inf_def is_fin_def greater_fin greater_inf_fin not_greater_inf)

section \<open>Amounts along a route\<close>

context bignumber_lib begin

lemma hopOut_int:
  assumes "valid_pair pair" "0 \<le> a"
  obtains z where "hopOut B pair u (bn_of_int a) = bn_of_int z" "0 \<le> z"
proof -
  obtain rin rout where r: "getOrderedReserves u pair = (bn_of_int rin, bn_of_int rout)" "0 < rin" "0 < rout"
    using valid_reserves [OF assms(1)] by blast
  have "valid_fee (totalFeePercent pair)" using assms(1) by (simp add: valid_pair_def)
  then obtain z where "getAmountOut B (bn_of_int a) (bn_of_int rin) (bn_of_int rout) (totalFeePercent pair) = bn_of_int z"
    "0 \<le> z"
    using getAmountOut_bounds [of "totalFeePercent pair" "of_int a" "of_int rin" rout] assms(2) r by auto
  then show ?thesis using that r(1) by (simp add: hopOut_def)
qed

lemma hopOut_mono:
  assumes "valid_pair pair" "0 \<le> a" "a \<le> b"
    "hopOut B pair u (bn_of_int a) = bn_of_int x" "hopOut B pair u (bn_of_int b) = bn_of_int y"
  shows "x \<le> y"
proof -
  obtain rin rout where r: "getOrderedReserves u pair = (bn_of_int rin, bn_of_int rout)" "0 < rin" "0 < rout"
    using valid_reserves [OF assms(1)] by blast
  have "rat_of_int x \<le> of_int y"
    using getAmountOut_mono [of "totalFeePercent pair" "of_int a" "of_int b" "of_int rin" "of_int rout"
        "of_int x" "of_int y"]
      assms r by (simp add: hopOut_def valid_pair_def)
  then show ?thesis by simp
qed

lemma outAlong_int:
  assumes "\<forall>pair\<in>set pairs. valid_pair pair" "0 \<le> a"
  obtains z where "outAlong B pairs path (bn_of_int a) = bn_of_int z" "0 \<le> z"
proof -
  have "0 \<le> a \<Longrightarrow> \<exists>z\<ge>0. outAlong B pairs path (bn_of_int a) = bn_of_int z" for a
  proof (induction path arbitrary: a rule: induct_list012)
    case (3 u v path)
    show ?case
    proof (cases "getPairByTokens pairs u v")
      case None
      then show ?thesis using "3.IH"(2) "3.prems" by simp
    next
      case (Some pair)
      then have "valid_pair pair" using getPairByTokens_Some assms(1) by blast
      then obtain z where z: "hopOut B pair u (bn_of_int a) = bn_of_int z" "0 \<le> z"
        using hopOut_int "3.prems" by blast
      then show ?thesis using "3.IH"(2) [OF z(2)] Some by simp
    qed
  qed auto
  then show ?thesis using that assms(2) by blast
qed

lemma outAlong_mono:
  assumes valid: "\<forall>pair\<in>set pairs. valid_pair pair" and "0 \<le> a" "a \<le> b"
    "outAlong B pairs path (bn_of_int a) = bn_of_int x" "outAlong B pairs path (bn_of_int b) = bn_of_int y"
  shows "x \<le> y"
  using assms(2-)
proof (induction path arbitrary: a b rule: induct_list012)
  case (3 u v path)
  show ?case
  proof (cases "getPairByTokens pairs u v")
    case None
    then show ?thesis using "3.IH"(2) [of a b] "3.prems" by simp
  next
    case (Some pair)
    then have p: "valid_pair pair" using getPairByTokens_Some valid by blast
    obtain a' where a': "hopOut B pair u (bn_of_int a) = bn_of_int a'" "0 \<le> a'"
      using hopOut_int [OF p] "3.prems" by blast
    obtain b' where b': "hopOut B pair u (bn_of_int b) = bn_of_int b'" "0 \<le> b'"
      using hopOut_int [OF p, of b] "3.prems" by auto
    have "a' \<le> b'" using hopOut_mono [OF p] "3.prems" a' b' by blast
    then show ?thesis using "3.IH"(2) [OF a'(2), of b'] "3.prems" Some a' b' by simp
  qed
qed auto

text \<open>One hop backwards: unreachable, or a positive input that buys the output.\<close>

lemma inStep_cases:
  assumes "valid_pair pair" "0 \<le> out"
  shows "inStep B pair u (bn_of_int out) = PosInf \<or>
    (\<exists>a b. inStep B pair u (bn_of_int out) = bn_of_int a \<and> 0 < a \<and>
       hopOut B pair u (bn_of_int a) = bn_of_int b \<and> out \<le> b)"
proof -
  obtain rin rout where r: "getOrderedReserves u pair = (bn_of_int rin, bn_of_int rout)" "0 < rin" "0 < rout"
    using valid_reserves [OF assms(1)] by blast
  let ?fee = "totalFeePercent pair"
  have fee: "valid_fee ?fee" using assms(1) by (simp add: valid_pair_def)
  obtain k where k: "bn_number B (fee_complement ?fee) = Fin k" "1 \<le> k" using fee_number [OF fee] by blast
  have hop: "hopIn B pair u (bn_of_int out) = getAmountIn B (bn_of_int out) (bn_of_int rin) (bn_of_int rout) ?fee"
    by (simp add: hopIn_def r(1))
  consider "rout < out" | "out = rout" | "out < rout" by linarith
  then show ?thesis
  proof cases
    case 1
    then have "hopIn B pair u (bn_of_int out) = Fin 0"
      by (simp add: hop getAmountIn_def less_fin number_0 integer_fin)
    then show ?thesis by (simp add: inStep_def equal_fin)
  next
    case 2
    have pos: "0 < rat_of_int rin * of_int rout * 100000" using r by simp
    have "hopIn B pair u (bn_of_int out) =
        bn_integer B (bn_plus B (bn_div B (Fin (of_int rin * of_int rout * 100000)) (Fin 0)) (Fin 1))"
      unfolding hop using k
      by (simp add: 2 getAmountIn_def less_fin base_number number_1 times_fin minus_fin)
    also have "\<dots> = PosInf" by (simp only: div_zero [OF pos] plus_inf integer_inf)
    finally have "hopIn B pair u (bn_of_int out) = PosInf" .
    then show ?thesis by (simp add: inStep_def equal_inf_fin)
  next
    case 3
    let ?x = "rat_of_int rin * of_int out * 100000 / ((of_int rout - of_int out) * k)"
    let ?a = "half_up (round_dp 20 ?x + 1)"
    have inp: "hopIn B pair u (bn_of_int out) = bn_of_int ?a"
      using getAmountIn_fin [OF k, of "of_int out" "of_int rout"] 3 by (simp add: hop)
    have "0 \<le> ?x" using 3 assms(2) r k(2) by simp
    then have "rat_of_int 1 \<le> round_dp 20 ?x + 1" using round_dp_nonneg [of ?x 20] by simp
    then have a: "0 < ?a" using half_up_ge_int [of 1 "round_dp 20 ?x + 1"] by simp
    obtain b where b: "hopOut B pair u (bn_of_int ?a) = bn_of_int b"
      using hopOut_int [OF assms(1), of ?a] a by auto
    have "out \<le> b"
      using getAmountIn_buys [OF fee assms(2) 3 r(2)] inp b by (simp add: hop hopOut_def r(1))
    then show ?thesis using inp a b by (auto simp: inStep_def equal_fin)
  qed
qed

lemma inStep_inf [simp]: "inStep B pair u PosInf = PosInf"
  by (simp add: inStep_def equal_fin)

end

lemma inAlong_snoc:
  "inAlong B pairs (xs @ [v, u]) a =
     (case getPairByTokens pairs u v of None \<Rightarrow> inAlong B pairs (xs @ [v]) a
      | Some pair \<Rightarrow> inStep B pair u (inAlong B pairs (xs @ [v]) a))"
proof (induction xs arbitrary: a rule: induct_list012)
  case 1
  then show ?case by (simp split: option.split)
next
  case (2 x)
  then show ?case by (auto split: option.splits)
next
  case (3 x y zs)
  show ?case using "3.IH"(2) by (simp split: option.splits)
qed

context bignumber_lib begin

lemma inAlong_dom:
  assumes "\<forall>pair\<in>set pairs. valid_pair pair" "0 \<le> out"
  shows "inAlong B pairs path (bn_of_int out) = PosInf \<or> (\<exists>a\<ge>0. inAlong B pairs path (bn_of_int out) = bn_of_int a)"
proof -
  have inf: "inAlong B pairs path PosInf = PosInf" for path
    by (induction path rule: induct_list012) (auto split: option.splits)
  show ?thesis using assms(2)
  proof (induction path arbitrary: out rule: induct_list012)
    case (3 v u path)
    show ?case
    proof (cases "getPairByTokens pairs u v")
      case None
      then show ?thesis using "3.IH"(2) "3.prems" by simp
    next
      case (Some pair)
      then have "valid_pair pair" using getPairByTokens_Some assms(1) by blast
      from inStep_cases [OF this "3.prems", of u] show ?thesis
      proof
        assume "inStep B pair u (bn_of_int out) = PosInf"
        then show ?thesis using Some inf by simp
      next
        assume "\<exists>a b. inStep B pair u (bn_of_int out) = bn_of_int a \<and> 0 < a \<and>
          hopOut B pair u (bn_of_int a) = bn_of_int b \<and> out \<le> b"
        then obtain a where a: "inStep B pair u (bn_of_int out) = bn_of_int a" "0 \<le> a" by auto
        then show ?thesis using Some "3.IH"(2) [OF a(2)] by simp
      qed
    qed
  qed auto
qed

lemma inAlong_buys:
  assumes valid: "\<forall>pair\<in>set pairs. valid_pair pair" and "0 \<le> out"
    "inAlong B pairs (rev path) (bn_of_int out) = bn_of_int a"
  shows "\<exists>b. outAlong B pairs path (bn_of_int a) = bn_of_int b \<and> out \<le> b"
  using assms(3)
proof (induction path arbitrary: a rule: induct_list012)
  case (3 u v path)
  have snoc: "inAlong B pairs (rev (u # v # path)) (bn_of_int out) =
     (case getPairByTokens pairs u v of None \<Rightarrow> inAlong B pairs (rev (v # path)) (bn_of_int out)
      | Some pair \<Rightarrow> inStep B pair u (inAlong B pairs (rev (v # path)) (bn_of_int out)))"
    using inAlong_snoc [of B pairs "rev path" v u] by (simp split: option.split)
  show ?case
  proof (cases "getPairByTokens pairs u v")
    case None
    then have "inAlong B pairs (rev (v # path)) (bn_of_int out) = bn_of_int a"
      using "3.prems" snoc by simp
    from "3.IH"(2) [OF this] None show ?thesis by simp
  next
    case (Some pair)
    then have p: "valid_pair pair" using getPairByTokens_Some valid by blast
    obtain c where c: "inAlong B pairs (rev (v # path)) (bn_of_int out) = bn_of_int c" "0 \<le> c"
      using inAlong_dom [OF valid assms(2), of "rev (v # path)"] "3.prems" Some snoc by auto
    have step: "inStep B pair u (bn_of_int c) = bn_of_int a" using "3.prems" Some snoc c by simp
    then obtain b where b: "hopOut B pair u (bn_of_int a) = bn_of_int b" "c \<le> b"
      using inStep_cases [OF p c(2), of u] by auto
    obtain e where e: "outAlong B pairs (v # path) (bn_of_int c) = bn_of_int e" "out \<le> e"
      using "3.IH"(2) [OF c(1)] by blast
    obtain f where f: "outAlong B pairs (v # path) (bn_of_int b) = bn_of_int f"
      using outAlong_int [OF valid, of b] b c by auto
    have "e \<le> f" using outAlong_mono [OF valid c(2) b(2) e(1) f] .
    then show ?thesis using Some b f e by auto
  qed
qed auto

end

text \<open>The amounts and addresses of a route, hop by hop.\<close>

lemma amounts_chain:
  "hops pairs path \<Longrightarrow> acc \<noteq> [] \<Longrightarrow> Suc i < length path \<Longrightarrow>
   \<exists>pair. getPairByTokens pairs (path ! i) (path ! Suc i) = Some pair \<and>
     getAddressRoute pairs path ! i = address pair \<and>
     pathAmountsFixedInput B pairs path acc ! (length acc + i) =
       hopOut B pair (path ! i) (pathAmountsFixedInput B pairs path acc ! (length acc - 1 + i))"
proof (induction B pairs path acc arbitrary: i rule: pathAmountsFixedInput.induct)
  case (1 B pairs u v path acc)
  then obtain pair where pair: "getPairByTokens pairs u v = Some pair" by auto
  let ?acc = "acc @ [hopOut B pair u (last acc)]"
  obtain zs where zs: "pathAmountsFixedInput B pairs (v # path) ?acc = ?acc @ zs"
    using pathAmountsFixedInput_append by blast
  show ?case
  proof (cases i)
    case 0
    then show ?thesis using pair zs "1.prems"(2) by (simp add: nth_append last_conv_nth)
  next
    case (Suc j)
    then show ?thesis using "1.IH"(2) [OF pair, of j] "1.prems" pair by (cases "length acc") auto
  qed
qed auto

section \<open>The best route\<close>

lemma computeBest_input:
  "getBestAmountAndIndex B (computeIntermediaryAmountsFixedInput B ps pairs a) FixedInput = (v, k) \<Longrightarrow>
   computeBestSwapRoute B ps pairs a FixedInput =
     (if k = - 1 then Inl (BadRequest ''No route found'')
      else Inr \<lparr>tokenRoute = ps ! nat k,
                intermediaryAmounts = computeIntermediaryAmountsFixedInput B ps pairs a ! nat k,
                addressRoute = getAddressRoute pairs (ps ! nat k), bestResult = v\<rparr>)"
  by (simp add: computeBestSwapRoute_def)

lemma computeBest_output:
  "getBestAmountAndIndex B (computeIntermediaryAmountsFixedOutput B ps pairs a) FixedOutput = (v, k) \<Longrightarrow>
   computeBestSwapRoute B ps pairs a FixedOutput =
     (if k = - 1 then Inl (BadRequest ''No route found'')
      else Inr \<lparr>tokenRoute = ps ! nat k,
                intermediaryAmounts = computeIntermediaryAmountsFixedOutput B ps pairs a ! nat k,
                addressRoute = getAddressRoute pairs (ps ! nat k), bestResult = v\<rparr>)"
  by (simp add: computeBestSwapRoute_def)

lemma amounts_nth:
  "j < length ps \<Longrightarrow> computeIntermediaryAmountsFixedInput B ps pairs a ! j
     = pathAmountsFixedInput B pairs (ps ! j) [a]"
  "j < length ps \<Longrightarrow> computeIntermediaryAmountsFixedOutput B ps pairs a ! j
     = pathAmountsFixedOutput B pairs (rev (ps ! j)) [a]"
  by (simp_all add: computeIntermediaryAmountsFixedInput_def computeIntermediaryAmountsFixedOutput_def)

lemma getBest_input:
  "getBestAmountAndIndex B (computeIntermediaryAmountsFixedInput B ps pairs a) FixedInput =
     scan (\<lambda>v b. bn_less B b v) 0 (map (\<lambda>p. outAlong B pairs p a) ps) (Fin 0, - 1)"
  by (simp add: getBestAmountAndIndex_def computeIntermediaryAmountsFixedInput_def bestScan_input
      comp_def last_pathAmountsFixedInput)

lemma getBest_output:
  "getBestAmountAndIndex B (computeIntermediaryAmountsFixedOutput B ps pairs a) FixedOutput =
     scan (\<lambda>v b. bn_greater B b v) 0 (map (\<lambda>p. inAlong B pairs (rev p) a) ps) (PosInf, - 1)"
  by (simp add: getBestAmountAndIndex_def computeIntermediaryAmountsFixedOutput_def bestScan_output
      comp_def hd_pathAmountsFixedOutput)

context bignumber_lib begin

lemma fixedInput_scan:
  assumes valid: "\<forall>pair\<in>set pairs. valid_pair pair" and a: "0 \<le> a"
    and best: "getBestAmountAndIndex B (computeIntermediaryAmountsFixedInput B ps pairs (bn_of_int a)) FixedInput = (v, k)"
  shows "\<forall>p\<in>set ps. \<not> bn_less B v (outAlong B pairs p (bn_of_int a))"
    "(v, k) = (Fin 0, - 1) \<or> (\<exists>j<length ps. k = int j \<and> v = outAlong B pairs (ps ! j) (bn_of_int a) \<and>
       bn_less B (Fin 0) v \<and> (\<forall>m<j. bn_less B (outAlong B pairs (ps ! m) (bn_of_int a)) v))"
proof -
  let ?vs = "map (\<lambda>p. outAlong B pairs p (bn_of_int a)) ps"
  have ok: "\<forall>v\<in>set ?vs. is_fin v" using outAlong_int [OF valid a] by (auto simp: is_fin_def)
  have inv: "is_fin v \<and> (\<forall>w\<in>set ?vs. \<not> bn_less B v w) \<and> \<not> bn_less B v (Fin 0) \<and>
    ((v, k) = (Fin 0, - 1) \<or> (\<exists>j<length ?vs. v = ?vs ! j \<and> k = int (0 + j) \<and> bn_less B (Fin 0) v \<and>
      (\<forall>m<j. bn_less B (?vs ! m) v)))"
    using best ok by (intro max_scan.scan_inv) (auto simp: getBest_input is_fin_def)
  show "\<forall>p\<in>set ps. \<not> bn_less B v (outAlong B pairs p (bn_of_int a))" using inv by auto
  show "(v, k) = (Fin 0, - 1) \<or> (\<exists>j<length ps. k = int j \<and> v = outAlong B pairs (ps ! j) (bn_of_int a) \<and>
      bn_less B (Fin 0) v \<and> (\<forall>m<j. bn_less B (outAlong B pairs (ps ! m) (bn_of_int a)) v))"
    using inv by auto
qed

lemma fixedInput_best:
  assumes valid: "\<forall>pair\<in>set pairs. valid_pair pair" and a: "0 \<le> a"
    and r: "computeBestSwapRoute B ps pairs (bn_of_int a) FixedInput = Inr r"
  obtains x where "tokenRoute r \<in> set ps" "bestResult r = bn_of_int x" "0 < x"
    "outAlong B pairs (tokenRoute r) (bn_of_int a) = bn_of_int x"
    "intermediaryAmounts r = pathAmountsFixedInput B pairs (tokenRoute r) [bn_of_int a]"
    "addressRoute r = getAddressRoute pairs (tokenRoute r)"
    "\<And>p. p \<in> set ps \<Longrightarrow> \<exists>y\<le>x. outAlong B pairs p (bn_of_int a) = bn_of_int y"
proof -
  obtain v k where best: "getBestAmountAndIndex B
      (computeIntermediaryAmountsFixedInput B ps pairs (bn_of_int a)) FixedInput = (v, k)"
    by fastforce
  then have "k \<noteq> - 1" using r by (auto simp: computeBest_input)
  then obtain j where j: "j < length ps" "k = int j" "v = outAlong B pairs (ps ! j) (bn_of_int a)"
    "bn_less B (Fin 0) v"
    using fixedInput_scan(2) [OF valid a best] by auto
  obtain x where x: "v = bn_of_int x" using outAlong_int [OF valid a] j(3) by metis
  have r': "tokenRoute r = ps ! j" "addressRoute r = getAddressRoute pairs (ps ! j)" "bestResult r = v"
    "intermediaryAmounts r = pathAmountsFixedInput B pairs (ps ! j) [bn_of_int a]"
    using r j(1,2) by (auto simp: computeBest_input [OF best] amounts_nth)
  show ?thesis
  proof (rule that [of x])
    show "0 < x" using j(4) x by (simp add: less_fin)
    fix p assume "p \<in> set ps"
    then have "\<not> bn_less B v (outAlong B pairs p (bn_of_int a))"
      using fixedInput_scan(1) [OF valid a best] by blast
    then show "\<exists>y\<le>x. outAlong B pairs p (bn_of_int a) = bn_of_int y"
      using outAlong_int [OF valid a, of p] x by (metis less_fin not_le of_int_less_iff)
  qed (use j x r' in simp_all)
qed

lemma fixedInput_none:
  assumes valid: "\<forall>pair\<in>set pairs. valid_pair pair" and a: "0 \<le> a"
  shows "computeBestSwapRoute B ps pairs (bn_of_int a) FixedInput = Inl (BadRequest ''No route found'') \<longleftrightarrow>
    (\<forall>p\<in>set ps. outAlong B pairs p (bn_of_int a) = Fin 0)"
proof -
  obtain v k where best: "getBestAmountAndIndex B
      (computeIntermediaryAmountsFixedInput B ps pairs (bn_of_int a)) FixedInput = (v, k)"
    by fastforce
  note scan = fixedInput_scan [OF valid a best]
  have "computeBestSwapRoute B ps pairs (bn_of_int a) FixedInput = Inl (BadRequest ''No route found'')
      \<longleftrightarrow> k = - 1"
    by (simp add: computeBest_input [OF best])
  also have "\<dots> \<longleftrightarrow> (\<forall>p\<in>set ps. outAlong B pairs p (bn_of_int a) = Fin 0)"
  proof
    assume "k = - 1"
    then have "v = Fin 0" using scan(2) by auto
    then show "\<forall>p\<in>set ps. outAlong B pairs p (bn_of_int a) = Fin 0"
      using scan(1) outAlong_int [OF valid a] by (metis antisym_conv3 less_fin not_le of_int_0 of_int_less_iff)
  next
    assume "\<forall>p\<in>set ps. outAlong B pairs p (bn_of_int a) = Fin 0"
    then show "k = - 1" using scan(2) by (auto simp: less_fin)
  qed
  finally show ?thesis .
qed

lemma fixedOutput_best:
  assumes valid: "\<forall>pair\<in>set pairs. valid_pair pair" and out: "0 \<le> out"
    and r: "computeBestSwapRoute B ps pairs (bn_of_int out) FixedOutput = Inr r"
  obtains x where "tokenRoute r \<in> set ps" "bestResult r = bn_of_int x" "0 \<le> x"
    "inAlong B pairs (rev (tokenRoute r)) (bn_of_int out) = bn_of_int x"
    "intermediaryAmounts r = pathAmountsFixedOutput B pairs (rev (tokenRoute r)) [bn_of_int out]"
    "addressRoute r = getAddressRoute pairs (tokenRoute r)"
    "\<And>p y. p \<in> set ps \<Longrightarrow> inAlong B pairs (rev p) (bn_of_int out) = bn_of_int y \<Longrightarrow> x \<le> y"
proof -
  let ?vs = "map (\<lambda>p. inAlong B pairs (rev p) (bn_of_int out)) ps"
  obtain v k where best: "getBestAmountAndIndex B
      (computeIntermediaryAmountsFixedOutput B ps pairs (bn_of_int out)) FixedOutput = (v, k)"
    by fastforce
  have ok: "\<forall>v\<in>set ?vs. is_fin_or_inf v"
    using inAlong_dom [OF valid out] by (auto simp: is_fin_or_inf_def is_fin_def)
  have inv: "is_fin_or_inf v \<and> (\<forall>w\<in>set ?vs. \<not> bn_greater B v w) \<and> \<not> bn_greater B v PosInf \<and>
    ((v, k) = (PosInf, - 1) \<or> (\<exists>j<length ?vs. v = ?vs ! j \<and> k = int (0 + j) \<and> bn_greater B PosInf v \<and>
      (\<forall>m<j. bn_greater B (?vs ! m) v)))"
    using best ok by (intro min_scan.scan_inv) (auto simp: getBest_output is_fin_or_inf_def)
  have "k \<noteq> - 1" using r by (auto simp: computeBest_output [OF best])
  then obtain j where j: "j < length ps" "k = int j" "v = inAlong B pairs (rev (ps ! j)) (bn_of_int out)"
    "bn_greater B PosInf v"
    using inv by auto
  obtain x where x: "v = bn_of_int x" "0 \<le> x"
    using inAlong_dom [OF valid out, of "rev (ps ! j)"] j(3,4) not_greater_inf by metis
  have r': "tokenRoute r = ps ! j" "addressRoute r = getAddressRoute pairs (ps ! j)" "bestResult r = v"
    "intermediaryAmounts r = pathAmountsFixedOutput B pairs (rev (ps ! j)) [bn_of_int out]"
    using r j(1,2) by (auto simp: computeBest_output [OF best] amounts_nth)
  show ?thesis
  proof (rule that [of x])
    fix p y assume "p \<in> set ps" "inAlong B pairs (rev p) (bn_of_int out) = bn_of_int y"
    then have "\<not> bn_greater B v (bn_of_int y)" using inv by force
    then show "x \<le> y" using x by (simp add: greater_fin)
  qed (use j x r' in simp_all)
qed

end

section \<open>Properties\<close>

definition demo_pairs :: "pair_model list" where
  "demo_pairs = [demo_pair ''p1'' ''A'' ''B'', demo_pair ''p2'' ''B'' ''C'']"

lemma demo_facts:
  "\<forall>pair\<in>set demo_pairs. valid_pair pair"
  "getAllPaths (newGraph demo_pairs) ''A'' ''B'' = Some [[''A'', ''B'']]"
proof -
  have one: "Fin 100 = bn_of_int 100" by simp
  have "valid_pair (demo_pair x t u)" for x t u
    unfolding valid_pair_def demo_pair_def valid_fee_def
    by (simp add: one del: of_int_numeral bn.inject) (rule exI [of _ 100], simp)
  then show "\<forall>pair\<in>set demo_pairs. valid_pair pair" by (simp add: demo_pairs_def)
  have "newGraph demo_pairs = [(''A'', [''B'']), (''B'', [''A'', ''C'']), (''C'', [''B''])]"
    by (simp add: newGraph_def addEdge_def demo_pair_def demo_pairs_def)
  then show "getAllPaths (newGraph demo_pairs) ''A'' ''B'' = Some [[''A'', ''B'']]"
    by (simp add: getAllPaths_def initialDfs_def spliceFirst_def)
qed

text \<open>Both reserves of the demo pairs are 100 and the fee is 0: 100 units buy 50, 50 buy 33.\<close>

lemma demo_hop:
  "hopOut bn_js (demo_pair x t u) v (bn_of_int a) =
     bn_of_int (half_up (round_dp 20 (of_int a * 100 / (100 + of_int a))))" if "0 \<le> a"
proof -
  have "of_int a * 100000 * 100 / (100 * 100000 + of_int a * 100000) = (of_int a * 100 / (100 + of_int a) :: rat)"
    using that by (simp add: field_simps)
  then show ?thesis
    using js.getAmountOut_fin [of 0 100000 "of_int a" 100 100] js.number_int [of 100000] that
    by (simp add: hopOut_def getOrderedReserves_def demo_pair_def fee_complement_0)
qed

lemma demo_first_hop:
  "outAlong bn_js demo_pairs [''A'', ''B''] (bn_of_int 100) = bn_of_int 50"
  "pathAmountsFixedInput bn_js demo_pairs [''A'', ''B''] [bn_of_int 100] = [bn_of_int 100, bn_of_int 50]"
proof -
  have pair: "getPairByTokens demo_pairs ''A'' ''B'' = Some (demo_pair ''p1'' ''A'' ''B'')"
    by (simp add: getPairByTokens_def demo_pairs_def) (simp add: demo_pair_def)
  have "hopOut bn_js (demo_pair ''p1'' ''A'' ''B'') ''A'' (bn_of_int 100) = bn_of_int 50"
    using demo_hop [of 100 "''p1''" "''A''" "''B''" "''A''"] round_dp_of_int [of 20 50] by simp
  then show "outAlong bn_js demo_pairs [''A'', ''B''] (bn_of_int 100) = bn_of_int 50"
    "pathAmountsFixedInput bn_js demo_pairs [''A'', ''B''] [bn_of_int 100] = [bn_of_int 100, bn_of_int 50]"
    using pair by simp_all
qed

lemma demo_addresses: "getAddressRoute demo_pairs [''A'', ''B''] = [''p1'']"
  by (simp add: getPairByTokens_def demo_pairs_def) (simp add: demo_pair_def)

definition demo_route :: best_swap_route where
  "demo_route = \<lparr>tokenRoute = [''A'', ''B''], intermediaryAmounts = [bn_of_int 100, bn_of_int 50],
     addressRoute = [''p1''], bestResult = bn_of_int 50\<rparr>"

lemma demo_best:
  "computeBestSwapRoute bn_js [[''A'', ''B'']] demo_pairs (bn_of_int 100) FixedInput = Inr demo_route"
proof -
  have "getBestAmountAndIndex bn_js
      (computeIntermediaryAmountsFixedInput bn_js [[''A'', ''B'']] demo_pairs (bn_of_int 100)) FixedInput
      = (bn_of_int 50, 0)"
    unfolding getBest_input by (simp add: demo_first_hop(1) js.less_fin del: outAlong.simps of_int_numeral)
  from computeBest_input [OF this] show ?thesis
    by (simp add: amounts_nth demo_first_hop(2) demo_addresses demo_route_def
        del: pathAmountsFixedInput.simps getAddressRoute.simps of_int_numeral)
qed

text \<open>
  C2. The route chosen for a fixed input is a simple route of the token graph, its result is
  what the swap along it yields, and no simple route between the two tokens yields more.
\<close>

theorem fixedInput_route_is_best:
  assumes "bignumber_lib B" "\<forall>pair\<in>set pairs. valid_pair pair" "0 \<le> a"
    "getAllPaths (newGraph pairs) s d = Some ps"
    "computeBestSwapRoute B ps pairs (bn_of_int a) FixedInput = Inr r"
  shows "route (newGraph pairs) s d (tokenRoute r) \<and>
    (\<exists>x>0. bestResult r = bn_of_int x \<and> outAlong B pairs (tokenRoute r) (bn_of_int a) = bn_of_int x \<and>
      (\<forall>p. route (newGraph pairs) s d p \<longrightarrow> (\<exists>y\<le>x. outAlong B pairs p (bn_of_int a) = bn_of_int y)))"
proof -
  have "\<forall>p. p \<in> set ps \<longleftrightarrow> route (newGraph pairs) s d p"
    using assms(4) getAllPaths_run [OF closed_newGraph, of pairs s d] by (metis option.inject)
  then show ?thesis
    using bignumber_lib.fixedInput_best [OF assms(1,2,3,5)] by metis
qed

theorem fixedInput_route_is_best_witness:
  "route (newGraph demo_pairs) ''A'' ''B'' [''A'', ''B''] \<and>
    (\<exists>x>0. bn_of_int 50 = bn_of_int x \<and>
      outAlong bn_js demo_pairs [''A'', ''B''] (bn_of_int 100) = bn_of_int x \<and>
      (\<forall>p. route (newGraph demo_pairs) ''A'' ''B'' p \<longrightarrow>
        (\<exists>y\<le>x. outAlong bn_js demo_pairs p (bn_of_int 100) = bn_of_int y)))"
  using fixedInput_route_is_best [OF js.bignumber_lib_axioms demo_facts(1) _ demo_facts(2) demo_best]
  by (simp add: demo_route_def del: outAlong.simps of_int_numeral)

text \<open>
  A fixed-input search fails with \<open>No route found\<close> exactly when no simple route between
  the two tokens yields a positive output.
\<close>

theorem fixedInput_no_route:
  assumes "bignumber_lib B" "\<forall>pair\<in>set pairs. valid_pair pair" "0 \<le> a"
    "getAllPaths (newGraph pairs) s d = Some ps"
  shows "computeBestSwapRoute B ps pairs (bn_of_int a) FixedInput = Inl (BadRequest ''No route found'') \<longleftrightarrow>
    (\<forall>p. route (newGraph pairs) s d p \<longrightarrow> outAlong B pairs p (bn_of_int a) = Fin 0)"
proof -
  have "\<forall>p. p \<in> set ps \<longleftrightarrow> route (newGraph pairs) s d p"
    using assms(4) getAllPaths_run [OF closed_newGraph, of pairs s d] by (metis option.inject)
  then show ?thesis using bignumber_lib.fixedInput_none [OF assms(1,2,3), of ps] by blast
qed

theorem fixedInput_no_route_witness:
  "computeBestSwapRoute bn_js [[''A'', ''B'']] demo_pairs (bn_of_int 0) FixedInput
     = Inl (BadRequest ''No route found'') \<longleftrightarrow>
    (\<forall>p. route (newGraph demo_pairs) ''A'' ''B'' p \<longrightarrow>
       outAlong bn_js demo_pairs p (bn_of_int 0) = Fin 0)"
  by (rule fixedInput_no_route [OF js.bignumber_lib_axioms demo_facts(1) _ demo_facts(2)]) simp

text \<open>
  C3. The route chosen for a fixed output is a simple route; its result is the input the
  backward computation along it asks for, no simple route with a finite input asks for less,
  and swapping that input forwards along the route buys at least the requested output.
\<close>

theorem fixedOutput_route_is_best:
  assumes "bignumber_lib B" "\<forall>pair\<in>set pairs. valid_pair pair" "0 \<le> out"
    "getAllPaths (newGraph pairs) s d = Some ps"
    "computeBestSwapRoute B ps pairs (bn_of_int out) FixedOutput = Inr r"
  shows "route (newGraph pairs) s d (tokenRoute r) \<and>
    (\<exists>x\<ge>0. bestResult r = bn_of_int x \<and>
      (\<forall>p y. route (newGraph pairs) s d p \<and> inAlong B pairs (rev p) (bn_of_int out) = bn_of_int y
         \<longrightarrow> x \<le> y) \<and>
      (\<exists>b\<ge>out. outAlong B pairs (tokenRoute r) (bn_of_int x) = bn_of_int b))"
proof -
  have paths: "\<forall>p. p \<in> set ps \<longleftrightarrow> route (newGraph pairs) s d p"
    using assms(4) getAllPaths_run [OF closed_newGraph, of pairs s d] by (metis option.inject)
  obtain x where x: "tokenRoute r \<in> set ps" "bestResult r = bn_of_int x" "0 \<le> x"
    "inAlong B pairs (rev (tokenRoute r)) (bn_of_int out) = bn_of_int x"
    "\<And>p y. p \<in> set ps \<Longrightarrow> inAlong B pairs (rev p) (bn_of_int out) = bn_of_int y \<Longrightarrow> x \<le> y"
    using bignumber_lib.fixedOutput_best [OF assms(1,2,3,5)] by metis
  obtain b where "outAlong B pairs (tokenRoute r) (bn_of_int x) = bn_of_int b" "out \<le> b"
    using bignumber_lib.inAlong_buys [OF assms(1,2,3) x(4)] by blast
  then show ?thesis using x paths by blast
qed

lemma demo_route_output:
  "computeBestSwapRoute bn_js [[''A'', ''B'']] demo_pairs (bn_of_int 50) FixedOutput =
     Inr \<lparr>tokenRoute = [''A'', ''B''], intermediaryAmounts = [bn_of_int 101, bn_of_int 50],
       addressRoute = [''p1''], bestResult = bn_of_int 101\<rparr>"
proof -
  have pair: "getPairByTokens demo_pairs ''A'' ''B'' = Some (demo_pair ''p1'' ''A'' ''B'')"
    by (simp add: getPairByTokens_def demo_pairs_def) (simp add: demo_pair_def)
  have "hopIn bn_js (demo_pair ''p1'' ''A'' ''B'') ''A'' (bn_of_int 50) = bn_of_int 101"
    using js.getAmountIn_fin [of 0 100000 50 100 100] js.number_int [of 100000] round_dp_of_int [of 20 100]
    by (simp add: hopIn_def getOrderedReserves_def demo_pair_def fee_complement_0)
  then have path: "pathAmountsFixedOutput bn_js demo_pairs [''B'', ''A''] [bn_of_int 50] = [bn_of_int 101, bn_of_int 50]"
    "inAlong bn_js demo_pairs [''B'', ''A''] (bn_of_int 50) = bn_of_int 101"
    using pair by (simp_all add: js.equal_fin inStep_def)
  have "getBestAmountAndIndex bn_js
      (computeIntermediaryAmountsFixedOutput bn_js [[''A'', ''B'']] demo_pairs (bn_of_int 50)) FixedOutput
      = (bn_of_int 101, 0)"
    unfolding getBest_output
    by (simp add: path(2) js.greater_inf_fin del: inAlong.simps of_int_numeral)
  from computeBest_output [OF this] show ?thesis
    by (simp add: amounts_nth path(1) demo_addresses
        del: pathAmountsFixedOutput.simps getAddressRoute.simps of_int_numeral)
qed

theorem fixedOutput_route_is_best_witness:
  "route (newGraph demo_pairs) ''A'' ''B'' [''A'', ''B''] \<and>
    (\<exists>x\<ge>0. bn_of_int 101 = bn_of_int x \<and>
      (\<forall>p y. route (newGraph demo_pairs) ''A'' ''B'' p \<and>
         inAlong bn_js demo_pairs (rev p) (bn_of_int 50) = bn_of_int y \<longrightarrow> x \<le> y) \<and>
      (\<exists>b\<ge>50. outAlong bn_js demo_pairs [''A'', ''B''] (bn_of_int x) = bn_of_int b))"
  using fixedOutput_route_is_best
    [OF js.bignumber_lib_axioms demo_facts(1) _ demo_facts(2) demo_route_output]
  by (simp del: outAlong.simps of_int_numeral)

text \<open>
  The amounts of a chosen fixed-input route start with the input, have one entry per
  token and follow hop by hop from \<open>getAmountOut\<close> on the first pair that trades the two
  tokens; the address route lists exactly those pairs, one per hop.
\<close>

theorem fixedInput_amounts_per_hop:
  assumes "bignumber_lib B" "\<forall>pair\<in>set pairs. valid_pair pair" "0 \<le> a"
    "getAllPaths (newGraph pairs) s d = Some ps"
    "computeBestSwapRoute B ps pairs (bn_of_int a) FixedInput = Inr r"
  shows "length (intermediaryAmounts r) = length (tokenRoute r) \<and>
    length (addressRoute r) = length (tokenRoute r) - 1 \<and>
    hd (intermediaryAmounts r) = bn_of_int a \<and> last (intermediaryAmounts r) = bestResult r \<and>
    (\<forall>i. Suc i < length (tokenRoute r) \<longrightarrow>
      (\<exists>pair. getPairByTokens pairs (tokenRoute r ! i) (tokenRoute r ! Suc i) = Some pair \<and>
        addressRoute r ! i = address pair \<and>
        intermediaryAmounts r ! Suc i = hopOut B pair (tokenRoute r ! i) (intermediaryAmounts r ! i)))"
proof -
  have paths: "\<forall>p. p \<in> set ps \<longleftrightarrow> route (newGraph pairs) s d p"
    using assms(4) getAllPaths_run [OF closed_newGraph, of pairs s d] by (metis option.inject)
  obtain x where r: "tokenRoute r \<in> set ps" "bestResult r = bn_of_int x"
    "outAlong B pairs (tokenRoute r) (bn_of_int a) = bn_of_int x"
    "intermediaryAmounts r = pathAmountsFixedInput B pairs (tokenRoute r) [bn_of_int a]"
    "addressRoute r = getAddressRoute pairs (tokenRoute r)"
    using bignumber_lib.fixedInput_best [OF assms(1,2,3,5)] by metis
  have hops: "hops pairs (tokenRoute r)" "tokenRoute r \<noteq> []"
    using r(1) paths route_hops by (auto simp: route_def)
  obtain zs where zs: "intermediaryAmounts r = bn_of_int a # zs"
    using pathAmountsFixedInput_append [of "[bn_of_int a]" B pairs "tokenRoute r"] r(4) by auto
  have "last (intermediaryAmounts r) = bestResult r"
    using last_pathAmountsFixedInput [of "[bn_of_int a]" B pairs "tokenRoute r"] r by simp
  moreover have "hd (intermediaryAmounts r) = bn_of_int a" using zs by simp
  moreover have "length (intermediaryAmounts r) = length (tokenRoute r)"
    using length_pathAmountsFixedInput [OF hops] hops(2) r(4) by (cases "tokenRoute r") auto
  moreover have "length (addressRoute r) = length (tokenRoute r) - 1"
    using length_getAddressRoute [OF hops] r(5) by simp
  ultimately show ?thesis
    using amounts_chain [OF hops(1), of "[bn_of_int a]" _ B] r(4,5) by simp
qed

theorem fixedInput_amounts_per_hop_witness:
  "length (intermediaryAmounts demo_route) = length (tokenRoute demo_route)"
  using fixedInput_amounts_per_hop [OF js.bignumber_lib_axioms demo_facts(1) _ demo_facts(2) demo_best]
  by simp

end
