(* ===== verification/PairService.thy ===== *)
theory PairService
  imports PairUtils TokenConverters
begin

text \<open>
  \<open>src/modules/pair/services/pair.service.ts\<close> and the prices of the two tokens of a pair in
  terms of each other (\<open>pair.compute.service.ts\<close>): quotes by pair address with EGLD read as
  its wrapped token, liquidity positions, the search for the pair of an LP token with its
  cache, membership and ownership tests, and the locked-tokens information.
\<close>

section \<open>Data\<close>

record liquidity_position =
  firstTokenAmount :: bn
  secondTokenAmount :: bn

record locked_tokens_info =
  lkScAddress :: string
  lkUnlockEpoch :: int
  lkDeadlineEpoch :: int

section \<open>Tokens of a pair\<close>

definition getFirstToken :: "chain_view \<Rightarrow> string \<Rightarrow> esdt_token" where
  "getFirstToken V pairAddress = tokenMetadata V (firstTokenID V pairAddress)"

definition getSecondToken :: "chain_view \<Rightarrow> string \<Rightarrow> esdt_token" where
  "getSecondToken V pairAddress = tokenMetadata V (secondTokenID V pairAddress)"

definition getLpToken :: "chain_view \<Rightarrow> string \<Rightarrow> esdt_token option" where
  "getLpToken V pairAddress = map_option (tokenMetadata V) (lpTokenID V pairAddress)"

text \<open>Every service reads the native token as its wrapped form.\<close>

definition wrapIfEGLD :: "dex_config \<Rightarrow> chain_view \<Rightarrow> string \<Rightarrow> string" where
  "wrapIfEGLD cfg V tid = (if tid = EGLDIdentifier cfg then wrappedEgldTokenID V else tid)"

section \<open>Quotes\<close>

definition pairAmountOut ::
  "bignumber \<Rightarrow> dex_config \<Rightarrow> chain_view \<Rightarrow> string \<Rightarrow> string \<Rightarrow> bn \<Rightarrow> bn" where
  "pairAmountOut B cfg V pairAddress tokenInID amt =
     (let pairInfo = pairInfoMetadata V pairAddress;
          fee = pairTotalFeePercent V pairAddress;
          tokenIn = wrapIfEGLD cfg V tokenInID
      in if tokenIn = firstTokenID V pairAddress
           then getAmountOut B amt (reserves0 pairInfo) (reserves1 pairInfo) fee
         else if tokenIn = secondTokenID V pairAddress
           then getAmountOut B amt (reserves1 pairInfo) (reserves0 pairInfo) fee
         else Fin 0)"

definition pairAmountIn ::
  "bignumber \<Rightarrow> dex_config \<Rightarrow> chain_view \<Rightarrow> string \<Rightarrow> string \<Rightarrow> bn \<Rightarrow> bn" where
  "pairAmountIn B cfg V pairAddress tokenOutID amt =
     (let pairInfo = pairInfoMetadata V pairAddress;
          fee = pairTotalFeePercent V pairAddress;
          tokenOut = wrapIfEGLD cfg V tokenOutID
      in if tokenOut = firstTokenID V pairAddress
           then getAmountIn B amt (reserves1 pairInfo) (reserves0 pairInfo) fee
         else if tokenOut = secondTokenID V pairAddress
           then getAmountIn B amt (reserves0 pairInfo) (reserves1 pairInfo) fee
         else Fin 0)"

definition getEquivalentForLiquidity ::
  "bignumber \<Rightarrow> dex_config \<Rightarrow> chain_view \<Rightarrow> string \<Rightarrow> string \<Rightarrow> bn \<Rightarrow> bn" where
  "getEquivalentForLiquidity B cfg V pairAddress tokenInID amt =
     (let pairInfo = pairInfoMetadata V pairAddress;
          tokenIn = wrapIfEGLD cfg V tokenInID
      in if tokenIn = firstTokenID V pairAddress
           then quote B amt (reserves0 pairInfo) (reserves1 pairInfo)
         else if tokenIn = secondTokenID V pairAddress
           then quote B amt (reserves1 pairInfo) (reserves0 pairInfo)
         else Fin 0)"

definition getLiquidityPosition ::
  "bignumber \<Rightarrow> chain_view \<Rightarrow> string \<Rightarrow> bn \<Rightarrow> liquidity_position" where
  "getLiquidityPosition B V pairAddress amt =
     (let pairInfo = pairInfoMetadata V pairAddress in
      \<lparr>firstTokenAmount = getTokenForGivenPosition B amt (reserves0 pairInfo) (totalSupply pairInfo),
       secondTokenAmount = getTokenForGivenPosition B amt (reserves1 pairInfo) (totalSupply pairInfo)\<rparr>)"

section \<open>Prices within a pair\<close>

definition computeFirstTokenPrice :: "bignumber \<Rightarrow> dex_config \<Rightarrow> chain_view \<Rightarrow> string \<Rightarrow> bn" where
  "computeFirstTokenPrice B cfg V pairAddress =
     (let firstToken = getFirstToken V pairAddress;
          secondToken = getSecondToken V pairAddress;
          firstTokenPrice = getEquivalentForLiquidity B cfg V pairAddress
            (tokIdentifier firstToken) (Fin (10 ^ decimals firstToken))
      in bn_times B firstTokenPrice (dec_unit (decimals secondToken)))"

definition computeSecondTokenPrice :: "bignumber \<Rightarrow> dex_config \<Rightarrow> chain_view \<Rightarrow> string \<Rightarrow> bn" where
  "computeSecondTokenPrice B cfg V pairAddress =
     (let firstToken = getFirstToken V pairAddress;
          secondToken = getSecondToken V pairAddress;
          secondTokenPrice = getEquivalentForLiquidity B cfg V pairAddress
            (tokIdentifier secondToken) (Fin (10 ^ decimals secondToken))
      in bn_times B secondTokenPrice (dec_unit (decimals firstToken)))"

text \<open>A \<open>switch\<close> without a default: another token's price is \<open>undefined\<close>.\<close>

definition getTokenPrice ::
  "bignumber \<Rightarrow> dex_config \<Rightarrow> chain_view \<Rightarrow> string \<Rightarrow> string \<Rightarrow> bn option" where
  "getTokenPrice B cfg V pairAddress tid =
     (if tid = firstTokenID V pairAddress then Some (computeFirstTokenPrice B cfg V pairAddress)
      else if tid = secondTokenID V pairAddress
        then Some (computeSecondTokenPrice B cfg V pairAddress)
      else None)"

section \<open>Searches\<close>

text \<open>
  The cache maps an LP token to the stored address, \<open>Some None\<close> being a stored \<open>null\<close>; a
  \<open>null\<close> or empty entry is falsy, so it is looked up again. Expiry is not modelled.
\<close>

type_synonym lp_cache = "string \<rightharpoonup> string option"

fun indexLp :: "chain_view \<Rightarrow> string \<Rightarrow> string list \<Rightarrow> string option" where
  "indexLp V tid [] = None"
| "indexLp V tid (pairAddress # rest) =
     (if lpTokenID V pairAddress = Some tid then Some pairAddress else indexLp V tid rest)"

definition getPairAddressByLpTokenID ::
  "chain_view \<Rightarrow> string \<Rightarrow> lp_cache \<Rightarrow> string option \<times> lp_cache" where
  "getPairAddressByLpTokenID V tid cache =
     (case cache tid of
        Some (Some cachedValue) \<Rightarrow>
          if cachedValue \<noteq> [] then (Some cachedValue, cache)
          else (let r = indexLp V tid (pairsAddress V) in (r, cache(tid \<mapsto> r)))
      | _ \<Rightarrow> (let r = indexLp V tid (pairsAddress V) in (r, cache(tid \<mapsto> r))))"

fun anyPairToken :: "chain_view \<Rightarrow> string \<Rightarrow> string list \<Rightarrow> bool" where
  "anyPairToken V tid [] = False"
| "anyPairToken V tid (pairAddress # rest) =
     (if tid = firstTokenID V pairAddress \<or> tid = secondTokenID V pairAddress
        \<or> Some tid = lpTokenID V pairAddress then True
      else anyPairToken V tid rest)"

definition isPairEsdtToken :: "chain_view \<Rightarrow> string \<Rightarrow> bool" where
  "isPairEsdtToken V tid = anyPairToken V tid (pairsAddress V)"

definition requireOwner :: "chain_view \<Rightarrow> string \<Rightarrow> unit res" where
  "requireOwner V sender =
     (if routerOwner V \<noteq> sender then Inl (JsError ''You are not the owner.'') else Inr ())"

definition getLockedTokensInfo :: "chain_view \<Rightarrow> string \<Rightarrow> locked_tokens_info option" where
  "getLockedTokensInfo V pairAddress =
     (case (lockingScAddress V pairAddress, unlockEpoch V pairAddress, lockingDeadlineEpoch V pairAddress) of
        (Some sc, Some unlock, Some deadline) \<Rightarrow>
          if deadline \<le> currentEpoch V then None
          else Some \<lparr>lkScAddress = sc, lkUnlockEpoch = unlock, lkDeadlineEpoch = deadline\<rparr>
      | _ \<Rightarrow> None)"

section \<open>Facts\<close>

text \<open>A pair of two different tokens, neither of them the native one, with integer reserves.\<close>

definition sound_pair :: "dex_config \<Rightarrow> chain_view \<Rightarrow> string \<Rightarrow> int \<Rightarrow> int \<Rightarrow> bool" where
  "sound_pair cfg V pair r0 r1 \<longleftrightarrow>
     firstTokenID V pair \<noteq> secondTokenID V pair \<and>
     firstTokenID V pair \<noteq> EGLDIdentifier cfg \<and> secondTokenID V pair \<noteq> EGLDIdentifier cfg \<and>
     (\<forall>t. tokIdentifier (tokenMetadata V t) = t) \<and>
     reserves0 (pairInfoMetadata V pair) = bn_of_int r0 \<and>
     reserves1 (pairInfoMetadata V pair) = bn_of_int r1 \<and> 0 < r0 \<and> 0 < r1"

lemma indexLp_Some:
  "indexLp V tid ps = Some a \<longleftrightarrow>
   (\<exists>i<length ps. ps ! i = a \<and> lpTokenID V a = Some tid \<and> (\<forall>j<i. lpTokenID V (ps ! j) \<noteq> Some tid))"
proof (induction ps)
  case (Cons p ps)
  show ?case
  proof (cases "lpTokenID V p = Some tid")
    case True
    then show ?thesis by (auto intro!: exI [of _ "0::nat"]) (metis nth_Cons_0 not_gr_zero)
  next
    case False
    have "(\<exists>i<length (p # ps). (p # ps) ! i = a \<and> lpTokenID V a = Some tid \<and>
        (\<forall>j<i. lpTokenID V ((p # ps) ! j) \<noteq> Some tid)) \<longleftrightarrow>
      (\<exists>i<length ps. ps ! i = a \<and> lpTokenID V a = Some tid \<and> (\<forall>j<i. lpTokenID V (ps ! j) \<noteq> Some tid))"
      using False by (auto simp: Ex_less_Suc2 All_less_Suc2)
    then show ?thesis using Cons False by simp
  qed
qed simp

lemma indexLp_None: "indexLp V tid ps = None \<longleftrightarrow> (\<forall>p\<in>set ps. lpTokenID V p \<noteq> Some tid)"
  by (induction ps) auto

lemma anyPairToken_iff:
  "anyPairToken V tid ps \<longleftrightarrow>
   (\<exists>p\<in>set ps. tid = firstTokenID V p \<or> tid = secondTokenID V p \<or> lpTokenID V p = Some tid)"
  by (induction ps) auto

context bignumber_lib begin

lemma quote_fin:
  assumes "rin \<noteq> 0"
  shows "quote B (Fin a) (Fin rin) (Fin rout) = Fin (round_dp 20 (a * rout / rin))"
  using assms by (simp add: quote_def equal_fin times_fin div_fin)

lemma token_prices_fin:
  assumes "sound_pair cfg V pair r0 r1"
  defines "d0 \<equiv> decimals (getFirstToken V pair)" and "d1 \<equiv> decimals (getSecondToken V pair)"
  shows "computeFirstTokenPrice B cfg V pair = Fin (round_dp 20 (10 ^ d0 * of_int r1 / of_int r0) / 10 ^ d1)"
    "computeSecondTokenPrice B cfg V pair = Fin (round_dp 20 (10 ^ d1 * of_int r0 / of_int r1) / 10 ^ d0)"
proof -
  have ids: "tokIdentifier (getFirstToken V pair) = firstTokenID V pair"
      "tokIdentifier (getSecondToken V pair) = secondTokenID V pair"
      "wrapIfEGLD cfg V (firstTokenID V pair) = firstTokenID V pair"
      "wrapIfEGLD cfg V (secondTokenID V pair) = secondTokenID V pair"
      "firstTokenID V pair \<noteq> secondTokenID V pair" "r0 \<noteq> 0" "r1 \<noteq> 0"
    using assms(1) by (auto simp: sound_pair_def getFirstToken_def getSecondToken_def wrapIfEGLD_def)
  show "computeFirstTokenPrice B cfg V pair = Fin (round_dp 20 (10 ^ d0 * of_int r1 / of_int r0) / 10 ^ d1)"
    "computeSecondTokenPrice B cfg V pair = Fin (round_dp 20 (10 ^ d1 * of_int r0 / of_int r1) / 10 ^ d0)"
    using assms(1) ids
    by (simp_all add: computeFirstTokenPrice_def computeSecondTokenPrice_def getEquivalentForLiquidity_def
        Let_def sound_pair_def quote_fin dec_unit_def times_fin d0_def d1_def)
qed

end

section \<open>A concrete pair\<close>

definition demo_cfg :: dex_config where
  "demo_cfg = \<lparr>EGLDIdentifier = ''EGLD'', chainID = ''1'', gas = \<lambda>_. 0,
     MAX_SWAP_SPREAD = 1 / 20, tokenProviderUSD = ''WEGLD'', USDC_TOKEN_ID = ''USDC'', scAddr = \<lambda>k. k\<rparr>"

definition demo_view :: chain_view where
  "demo_view = \<lparr>wrappedEgldTokenID = ''WEGLD'', wrapContract = \<lambda>_. ''wrapper'', routerContract = ''router'',
     pairsAddress = [''pair''], pairsMetadata = [\<lparr>mdAddress = ''pair'', mdFirstTokenID = ''WEGLD'', mdSecondTokenID = ''MEX''\<rparr>],
     routerOwner = ''owner'', firstTokenID = \<lambda>_. ''WEGLD'', secondTokenID = \<lambda>_. ''MEX'',
     lpTokenID = \<lambda>_. Some ''EGLDMEX'',
     pairInfoMetadata = \<lambda>_. \<lparr>reserves0 = bn_of_int 1000, reserves1 = bn_of_int 4000, totalSupply = bn_of_int 500\<rparr>,
     firstTokenReserve = \<lambda>_. bn_of_int 1000, secondTokenReserve = \<lambda>_. bn_of_int 4000,
     pairTotalSupply = \<lambda>_. bn_of_int 500,
     pairTotalFeePercent = \<lambda>_. 0, pairSpecialFeePercent = \<lambda>_. 0, pairState = \<lambda>_. ''Active'',
     trustedSwapPairs = \<lambda>_. [], initialLiquidityAdder = \<lambda>_. ''adder'', lockingScAddress = \<lambda>_. None,
     unlockEpoch = \<lambda>_. None, lockingDeadlineEpoch = \<lambda>_. None, currentEpoch = 5,
     tokenMetadata = \<lambda>t. \<lparr>tokIdentifier = t, decimals = 2\<rparr>, usdcDataPrice = 1\<rparr>"

lemma demo_sound: "sound_pair demo_cfg demo_view p 1000 4000"
  by (simp add: sound_pair_def demo_view_def demo_cfg_def)

section \<open>Properties\<close>

text \<open>
  C5. The two quotes of a pair agree through the service, in both directions: paying what
  \<open>getAmountIn\<close> asks for an amount of one token is quoted at least that amount by
  \<open>getAmountOut\<close> for the other token.
\<close>

theorem pair_quotes_agree:
  assumes "bignumber_lib B" "sound_pair cfg V pair r0 r1" "valid_fee (pairTotalFeePercent V pair)"
    "0 \<le> out" "out < r1" "0 \<le> out'" "out' < r0"
  shows "(\<exists>a b. pairAmountIn B cfg V pair (secondTokenID V pair) (bn_of_int out) = bn_of_int a \<and>
      pairAmountOut B cfg V pair (firstTokenID V pair) (bn_of_int a) = bn_of_int b \<and> out \<le> b) \<and>
    (\<exists>a b. pairAmountIn B cfg V pair (firstTokenID V pair) (bn_of_int out') = bn_of_int a \<and>
      pairAmountOut B cfg V pair (secondTokenID V pair) (bn_of_int a) = bn_of_int b \<and> out' \<le> b)"
proof -
  have s: "wrapIfEGLD cfg V (firstTokenID V pair) = firstTokenID V pair"
      "wrapIfEGLD cfg V (secondTokenID V pair) = secondTokenID V pair"
      "secondTokenID V pair \<noteq> firstTokenID V pair" "0 < r0" "0 < r1"
      "reserves0 (pairInfoMetadata V pair) = bn_of_int r0" "reserves1 (pairInfoMetadata V pair) = bn_of_int r1"
    using assms(2) by (auto simp: sound_pair_def wrapIfEGLD_def)
  have o: "0 \<le> rat_of_int out" "rat_of_int out < of_int r1" "0 \<le> rat_of_int r0"
      "0 \<le> rat_of_int out'" "rat_of_int out' < of_int r0" "0 \<le> rat_of_int r1"
    using assms(4-7) s(4,5) by simp_all
  obtain k a where a: "getAmountIn B (bn_of_int out) (bn_of_int r0) (bn_of_int r1) (pairTotalFeePercent V pair) = bn_of_int a"
      and k: "1 \<le> k" and ge: "of_int r0 * of_int out * 100000 / ((of_int r1 - of_int out) * k) \<le> rat_of_int a"
    using bignumber_lib.getAmountIn_ge_exact [OF assms(1,3) o(1-3)] by blast
  obtain k' a' where a': "getAmountIn B (bn_of_int out') (bn_of_int r1) (bn_of_int r0) (pairTotalFeePercent V pair) = bn_of_int a'"
      and k': "1 \<le> k'" and ge': "of_int r1 * of_int out' * 100000 / ((of_int r0 - of_int out') * k') \<le> rat_of_int a'"
    using bignumber_lib.getAmountIn_ge_exact [OF assms(1,3) o(4-6)] by blast
  have "0 \<le> rat_of_int r0 * of_int out * 100000 / ((of_int r1 - of_int out) * k)"
    "0 \<le> rat_of_int r1 * of_int out' * 100000 / ((of_int r0 - of_int out') * k')"
    using assms(4-7) s(4,5) k k' by simp_all
  then have pos: "0 \<le> rat_of_int a" "0 \<le> rat_of_int a'" using ge ge' by (blast intro: order_trans)+
  obtain b where b: "getAmountOut B (bn_of_int a) (bn_of_int r0) (bn_of_int r1) (pairTotalFeePercent V pair) = bn_of_int b"
    using bignumber_lib.getAmountOut_bounds [OF assms(1,3) pos(1), of "of_int r0" r1] s(4,5) by auto
  obtain b' where b': "getAmountOut B (bn_of_int a') (bn_of_int r1) (bn_of_int r0) (pairTotalFeePercent V pair) = bn_of_int b'"
    using bignumber_lib.getAmountOut_bounds [OF assms(1,3) pos(2), of "of_int r1" r0] s(4,5) by auto
  have "out \<le> b" "out' \<le> b'"
    using bignumber_lib.getAmountIn_buys [OF assms(1,3,4,5) s(4) a b]
      bignumber_lib.getAmountIn_buys [OF assms(1,3,6,7) s(5) a' b'] by simp_all
  then show ?thesis
    using a b a' b' s by (simp add: pairAmountIn_def pairAmountOut_def)
qed

theorem pair_quotes_agree_witness:
  "\<exists>a b. pairAmountIn bn_js demo_cfg demo_view ''pair'' ''MEX'' (bn_of_int 100) = bn_of_int a \<and>
     pairAmountOut bn_js demo_cfg demo_view ''pair'' ''WEGLD'' (bn_of_int a) = bn_of_int b \<and> 100 \<le> b"
  using pair_quotes_agree [OF js.bignumber_lib_axioms demo_sound, of "''pair''" 100 0]
  by (simp add: demo_view_def valid_fee_def)

text \<open>
  The prices of the two tokens of a pair are reciprocal up to the 20 decimal places of
  the divisions: with \<open>x\<close> the exact first price, their product differs from 1 by at most
  half a unit of the 20th place times \<open>10 ^ -d0 * x + 10 ^ -d1 / x\<close>, plus the product of
  both roundings.
\<close>

theorem pair_prices_reciprocal:
  assumes "bignumber_lib B" "sound_pair cfg V pair r0 r1"
  defines "d0 \<equiv> decimals (getFirstToken V pair)" and "d1 \<equiv> decimals (getSecondToken V pair)"
  defines "x \<equiv> 10 ^ d0 * of_int r1 / of_int r0 / 10 ^ d1" and "u \<equiv> 1 / (2 * 10 ^ 20) :: rat"
  shows "\<exists>p q. computeFirstTokenPrice B cfg V pair = Fin p \<and> computeSecondTokenPrice B cfg V pair = Fin q \<and>
    0 \<le> p \<and> 0 \<le> q \<and> \<bar>p * q - 1\<bar> \<le> x * (u / 10 ^ d0) + u / 10 ^ d1 / x + u / 10 ^ d1 * (u / 10 ^ d0)"
proof -
  let ?p = "round_dp 20 (10 ^ d0 * of_int r1 / of_int r0) / 10 ^ d1"
  let ?q = "round_dp 20 (10 ^ d1 * of_int r0 / of_int r1) / 10 ^ d0"
  have r: "0 < r0" "0 < r1" using assms(2) by (simp_all add: sound_pair_def)
  have x: "0 < x" "10 ^ d1 * of_int r0 / of_int r1 / 10 ^ d0 = 1 / x"
    using r by (simp_all add: x_def mult.commute)
  have e: "\<bar>?p - x\<bar> \<le> u / 10 ^ d1" "\<bar>?q - 1 / x\<bar> \<le> u / 10 ^ d0"
    unfolding x(2) [symmetric] unfolding x_def u_def by (rule round_dp_scaled_error; simp)+
  have "\<bar>?p * ?q - 1\<bar> \<le> x * (u / 10 ^ d0) + u / 10 ^ d1 / x + u / 10 ^ d1 * (u / 10 ^ d0)"
    by (rule reciprocal_error [OF x(1) e])
  moreover have "0 \<le> ?p" "0 \<le> ?q"
    using r by (auto intro!: divide_nonneg_nonneg round_dp_nonneg)
  ultimately show ?thesis
    using bignumber_lib.token_prices_fin [OF assms(1,2)] by (auto simp: d0_def d1_def)
qed

theorem pair_prices_reciprocal_witness:
  "\<exists>p q. computeFirstTokenPrice bn_js demo_cfg demo_view ''pair'' = Fin p \<and>
     computeSecondTokenPrice bn_js demo_cfg demo_view ''pair'' = Fin q \<and> 0 \<le> p \<and> 0 \<le> q"
  using pair_prices_reciprocal [OF js.bignumber_lib_axioms demo_sound, of "''pair''"] by blast

text \<open>
  The pair of an LP token is the first pair of the router's list whose LP token it is;
  once found it is answered from the cache whatever the chain says later, while a search
  without a result is repeated every time.
\<close>

theorem lp_token_search:
  assumes "cache tid = None" "\<forall>p\<in>set (pairsAddress V). p \<noteq> []"
  shows "case getPairAddressByLpTokenID V tid cache of (r, cache') \<Rightarrow>
    (case r of
       Some a \<Rightarrow> (\<exists>i<length (pairsAddress V). pairsAddress V ! i = a \<and> lpTokenID V a = Some tid \<and>
           (\<forall>j<i. lpTokenID V (pairsAddress V ! j) \<noteq> Some tid)) \<and>
         (\<forall>V'. getPairAddressByLpTokenID V' tid cache' = (Some a, cache'))
     | None \<Rightarrow> (\<forall>p\<in>set (pairsAddress V). lpTokenID V p \<noteq> Some tid) \<and>
         (\<forall>V'. fst (getPairAddressByLpTokenID V' tid cache') = indexLp V' tid (pairsAddress V')))"
proof (cases "indexLp V tid (pairsAddress V)")
  case None
  then show ?thesis
    using assms indexLp_None [of V tid "pairsAddress V"] by (simp add: getPairAddressByLpTokenID_def Let_def)
next
  case (Some a)
  then have i: "\<exists>i<length (pairsAddress V). pairsAddress V ! i = a \<and> lpTokenID V a = Some tid \<and>
      (\<forall>j<i. lpTokenID V (pairsAddress V ! j) \<noteq> Some tid)" by (simp add: indexLp_Some)
  then have "a \<noteq> []" using assms(2) nth_mem by blast
  then show ?thesis using assms(1) Some i by (simp add: getPairAddressByLpTokenID_def Let_def)
qed

theorem lp_token_search_witness:
  "getPairAddressByLpTokenID demo_view ''EGLDMEX'' (\<lambda>_. None) = (Some ''pair'', [''EGLDMEX'' \<mapsto> Some ''pair'']) \<and>
   (\<forall>V'. getPairAddressByLpTokenID V' ''EGLDMEX'' [''EGLDMEX'' \<mapsto> Some ''pair''] =
     (Some ''pair'', [''EGLDMEX'' \<mapsto> Some ''pair'']))"
proof -
  have r: "getPairAddressByLpTokenID demo_view ''EGLDMEX'' (\<lambda>_. None) =
      (Some ''pair'', [''EGLDMEX'' \<mapsto> Some ''pair''])"
    by (simp add: getPairAddressByLpTokenID_def demo_view_def Let_def)
  have "\<forall>p\<in>set (pairsAddress demo_view). p \<noteq> []" by (simp add: demo_view_def)
  from lp_token_search [of "\<lambda>_. None" "''EGLDMEX''", OF refl this, unfolded r]
  show ?thesis using r by simp
qed

end
