(* ===== verification/TokenPrice.thy ===== *)
theory TokenPrice
  imports PairService
begin

text \<open>
  The price of a token in EGLD and in USD, derived through the pairs it trades in
  (\<open>getEgldPriceInUSD\<close>, \<open>computeTokenPriceDerivedEGLD\<close> and \<open>computeTokenPriceDerivedUSD\<close> of
  \<open>src/modules/tokens/services/token.compute.service.ts\<close>).

  The search is recursive and threads one mutable array, the pairs it must not visit again;
  the model returns the array. The recursion takes fuel: \<open>None\<close> is running out of it, and
  \<open>Suc (length (pairsMetadata V))\<close> is always enough, because every call that recurses
  first adds a pair to the array. The loop over the pairs of a token is \<open>priceLoop\<close>, which
  takes the recursive call as an argument.
\<close>

section \<open>The search\<close>

definition EGLDDecimals :: nat where
  "EGLDDecimals = 18"

definition getEgldPriceInUSD :: "bignumber \<Rightarrow> dex_config \<Rightarrow> chain_view \<Rightarrow> bn" where
  "getEgldPriceInUSD B cfg V = computeFirstTokenPrice B cfg V (scAddr cfg ''WEGLD_USDC'')"

text \<open>The pairs of a token, only the active ones when there are several and one is active.\<close>

definition tokenPairs :: "chain_view \<Rightarrow> string \<Rightarrow> pair_metadata list" where
  "tokenPairs V tid =
     (let ps = filter (\<lambda>p. mdFirstTokenID p = tid \<or> mdSecondTokenID p = tid) (pairsMetadata V)
      in if 1 < length ps \<and> (\<exists>p\<in>set ps. pairState V (mdAddress p) = ''Active'')
         then filter (\<lambda>p. pairState V (mdAddress p) = ''Active'') ps else ps)"

definition egldLocked :: "bignumber \<Rightarrow> bn \<Rightarrow> nat \<Rightarrow> bn \<Rightarrow> bn" where
  "egldLocked B reserves decs derived =
     bn_integer B (bn_times B (bn_times B (bn_times B reserves (dec_unit decs)) derived)
       (Fin (10 ^ EGLDDecimals)))"

text \<open>One side of a pair: the other token's derived price, then the comparison with the best so far.\<close>

definition priceSide ::
  "bignumber \<Rightarrow> (string \<Rightarrow> pair_metadata list \<Rightarrow> (bn \<times> pair_metadata list) option)
   \<Rightarrow> string \<Rightarrow> bn \<Rightarrow> nat \<Rightarrow> bn \<Rightarrow> bn \<times> bn \<times> pair_metadata list
   \<Rightarrow> (bn \<times> bn \<times> pair_metadata list) option" where
  "priceSide B derive otherToken reserves decs price st =
     (case st of (largest, priceSoFar, notToVisit) \<Rightarrow>
        case derive otherToken notToVisit of
          None \<Rightarrow> None
        | Some (derived, notToVisit') \<Rightarrow>
            let locked = egldLocked B reserves decs derived in
            if bn_greater B locked largest
            then Some (locked, bn_times B price derived, notToVisit')
            else Some (largest, priceSoFar, notToVisit'))"

definition pricePair ::
  "bignumber \<Rightarrow> dex_config \<Rightarrow> chain_view
   \<Rightarrow> (string \<Rightarrow> pair_metadata list \<Rightarrow> (bn \<times> pair_metadata list) option)
   \<Rightarrow> string \<Rightarrow> pair_metadata \<Rightarrow> bn \<times> bn \<times> pair_metadata list
   \<Rightarrow> (bn \<times> bn \<times> pair_metadata list) option" where
  "pricePair B cfg V derive tid pair st =
     (if bn_greater B (pairTotalSupply V (mdAddress pair)) (Fin 0) then
        Option.bind
          (if mdFirstTokenID pair = tid then
             priceSide B derive (mdSecondTokenID pair) (secondTokenReserve V (mdAddress pair))
               (decimals (getSecondToken V (mdAddress pair)))
               (computeFirstTokenPrice B cfg V (mdAddress pair)) st
           else Some st)
          (\<lambda>st'. if mdSecondTokenID pair = tid then
             priceSide B derive (mdFirstTokenID pair) (firstTokenReserve V (mdAddress pair))
               (decimals (getFirstToken V (mdAddress pair)))
               (computeSecondTokenPrice B cfg V (mdAddress pair)) st'
           else Some st')
      else Some st)"

fun priceLoop ::
  "bignumber \<Rightarrow> dex_config \<Rightarrow> chain_view
   \<Rightarrow> (string \<Rightarrow> pair_metadata list \<Rightarrow> (bn \<times> pair_metadata list) option)
   \<Rightarrow> string \<Rightarrow> pair_metadata list \<Rightarrow> bn \<times> bn \<times> pair_metadata list
   \<Rightarrow> (bn \<times> bn \<times> pair_metadata list) option" where
  "priceLoop B cfg V derive tid [] st = Some st"
| "priceLoop B cfg V derive tid (pair # rest) st =
     Option.bind (pricePair B cfg V derive tid pair st) (priceLoop B cfg V derive tid rest)"

fun derivedEGLD ::
  "bignumber \<Rightarrow> dex_config \<Rightarrow> chain_view \<Rightarrow> nat \<Rightarrow> string \<Rightarrow> pair_metadata list
   \<Rightarrow> (bn \<times> pair_metadata list) option" where
  "derivedEGLD B cfg V 0 tid notToVisit = None"
| "derivedEGLD B cfg V (Suc fuel) tid notToVisit =
     (if tid = tokenProviderUSD cfg then Some (Fin 1, notToVisit)
      else
        let pairs = filter (\<lambda>p. List.find (\<lambda>q. mdAddress q = mdAddress p) notToVisit = None)
              (tokenPairs V tid);
            notToVisit' = notToVisit @ pairs
        in if tid = USDC_TOKEN_ID cfg
           then Some (bn_div B (Fin 1) (getEgldPriceInUSD B cfg V), notToVisit')
           else map_option (\<lambda>(largest, priceSoFar, nv). (priceSoFar, nv))
             (priceLoop B cfg V (derivedEGLD B cfg V fuel) tid pairs (Fin 0, Fin 0, notToVisit')))"

definition computeTokenPriceDerivedEGLD ::
  "bignumber \<Rightarrow> dex_config \<Rightarrow> chain_view \<Rightarrow> string \<Rightarrow> pair_metadata list \<Rightarrow> (bn \<times> pair_metadata list) option" where
  "computeTokenPriceDerivedEGLD B cfg V tid notToVisit =
     derivedEGLD B cfg V (Suc (length (pairsMetadata V))) tid notToVisit"

definition computeTokenPriceDerivedUSD :: "bignumber \<Rightarrow> dex_config \<Rightarrow> chain_view \<Rightarrow> string \<Rightarrow> bn option" where
  "computeTokenPriceDerivedUSD B cfg V tid =
     map_option (\<lambda>(derived, nv). bn_times B (bn_times B derived (getEgldPriceInUSD B cfg V))
         (bn_number B (usdcDataPrice V)))
       (computeTokenPriceDerivedEGLD B cfg V tid [])"

section \<open>Fuel\<close>

text \<open>The pairs that may still be visited.\<close>

definition unvisitedPairs :: "chain_view \<Rightarrow> pair_metadata list \<Rightarrow> pair_metadata list" where
  "unvisitedPairs V nv = filter (\<lambda>p. mdAddress p \<notin> mdAddress ` set nv) (pairsMetadata V)"

text \<open>A recursive call that answers, and only adds to the array it is given.\<close>

definition answers ::
  "chain_view \<Rightarrow> nat \<Rightarrow> (string \<Rightarrow> pair_metadata list \<Rightarrow> (bn \<times> pair_metadata list) option) \<Rightarrow> bool" where
  "answers V n derive \<longleftrightarrow> (\<forall>t nv. length (unvisitedPairs V nv) < n \<longrightarrow>
     (\<exists>p nv'. derive t nv = Some (p, nv') \<and> set nv \<subseteq> set nv'))"

lemma tokenPairs_sub: "set (tokenPairs V tid) \<subseteq> set (pairsMetadata V)"
  by (auto simp: tokenPairs_def Let_def)

lemma unvisitedPairs_mono: "set nv \<subseteq> set nv' \<Longrightarrow> length (unvisitedPairs V nv') \<le> length (unvisitedPairs V nv)"
proof -
  assume "set nv \<subseteq> set nv'"
  then have "unvisitedPairs V nv' = filter (\<lambda>p. mdAddress p \<notin> mdAddress ` set nv') (unvisitedPairs V nv)"
    by (auto simp: unvisitedPairs_def intro!: filter_cong)
  then show ?thesis by simp
qed

lemma unvisitedPairs_less:
  assumes "set nv \<subseteq> set nv'" "p \<in> set (pairsMetadata V)" "p \<in> set nv'" "mdAddress p \<notin> mdAddress ` set nv"
  shows "length (unvisitedPairs V nv') < length (unvisitedPairs V nv)"
proof -
  have eq: "unvisitedPairs V nv' = filter (\<lambda>p. mdAddress p \<notin> mdAddress ` set nv') (unvisitedPairs V nv)"
    using assms(1) by (auto simp: unvisitedPairs_def intro!: filter_cong)
  have "p \<in> set (unvisitedPairs V nv)" using assms by (simp add: unvisitedPairs_def)
  then show ?thesis unfolding eq using assms(3) by (intro length_filter_less [of p]) auto
qed

lemma answersD:
  "answers V n derive \<Longrightarrow> length (unvisitedPairs V nv) < n \<Longrightarrow>
   \<exists>p nv'. derive t nv = Some (p, nv') \<and> set nv \<subseteq> set nv'"
  by (simp add: answers_def)

lemma priceSide_answers:
  assumes "answers V n derive" "length (unvisitedPairs V nv) < n"
  shows "\<exists>l' p' nv'. priceSide B derive t r d pr (l, p, nv) = Some (l', p', nv') \<and> set nv \<subseteq> set nv'"
proof -
  obtain q nv' where "derive t nv = Some (q, nv')" "set nv \<subseteq> set nv'"
    using answersD [OF assms, of t] by blast
  then show ?thesis by (simp add: priceSide_def Let_def)
qed

lemma pricePair_answers:
  assumes "answers V n derive" "length (unvisitedPairs V nv) < n"
  shows "\<exists>l' p' nv'. pricePair B cfg V derive tid pair (l, p, nv) = Some (l', p', nv') \<and> set nv \<subseteq> set nv'"
proof -
  let ?a = "if mdFirstTokenID pair = tid then
       priceSide B derive (mdSecondTokenID pair) (secondTokenReserve V (mdAddress pair))
         (decimals (getSecondToken V (mdAddress pair))) (computeFirstTokenPrice B cfg V (mdAddress pair)) (l, p, nv)
     else Some (l, p, nv)"
  have "\<exists>l1 p1 nv1. ?a = Some (l1, p1, nv1) \<and> set nv \<subseteq> set nv1"
    by (cases "mdFirstTokenID pair = tid") (simp_all add: priceSide_answers [OF assms])
  then obtain l1 p1 nv1 where a: "?a = Some (l1, p1, nv1)" "set nv \<subseteq> set nv1" by blast
  have "length (unvisitedPairs V nv1) < n" using unvisitedPairs_mono [OF a(2)] assms(2) by (rule le_less_trans)
  from priceSide_answers [OF assms(1) this]
  obtain l2 p2 nv2 where b: "priceSide B derive (mdFirstTokenID pair) (firstTokenReserve V (mdAddress pair))
      (decimals (getFirstToken V (mdAddress pair))) (computeSecondTokenPrice B cfg V (mdAddress pair))
      (l1, p1, nv1) = Some (l2, p2, nv2)" "set nv1 \<subseteq> set nv2" by blast
  show ?thesis unfolding pricePair_def a(1) using a(2) b by auto
qed

lemma priceLoop_answers:
  assumes "answers V n derive" "length (unvisitedPairs V nv) < n"
  shows "\<exists>l' p' nv'. priceLoop B cfg V derive tid ps (l, p, nv) = Some (l', p', nv') \<and> set nv \<subseteq> set nv'"
  using assms(2)
proof (induction ps arbitrary: l p nv)
  case (Cons q ps)
  obtain l1 p1 nv1 where a: "pricePair B cfg V derive tid q (l, p, nv) = Some (l1, p1, nv1)" "set nv \<subseteq> set nv1"
    using pricePair_answers [OF assms(1) Cons.prems] by blast
  have "length (unvisitedPairs V nv1) < n" using unvisitedPairs_mono [OF a(2)] Cons.prems by (rule le_less_trans)
  from Cons.IH [OF this, of l1 p1] a show ?case by auto
qed simp

lemma derivedEGLD_answers: "answers V n (derivedEGLD B cfg V n)"
proof (induction n)
  case 0
  then show ?case by (simp add: answers_def)
next
  case (Suc n)
  show ?case unfolding answers_def
  proof (intro allI impI)
    fix tid nv
    assume less: "length (unvisitedPairs V nv) < Suc n"
    let ?pairs = "filter (\<lambda>p. List.find (\<lambda>q. mdAddress q = mdAddress p) nv = None) (tokenPairs V tid)"
    show "\<exists>p nv'. derivedEGLD B cfg V (Suc n) tid nv = Some (p, nv') \<and> set nv \<subseteq> set nv'"
    proof (cases "?pairs = []")
      case True
      then show ?thesis by (simp only: derivedEGLD.simps Let_def True) auto
    next
      case False
      then obtain p where p: "p \<in> set ?pairs" by (cases ?pairs) auto
      have fresh: "mdAddress p \<notin> mdAddress ` set nv" using p by (auto simp: find_None_iff')
      have "p \<in> set (pairsMetadata V)" using p tokenPairs_sub by auto
      then have "length (unvisitedPairs V (nv @ ?pairs)) < length (unvisitedPairs V nv)"
        using p fresh by (intro unvisitedPairs_less) auto
      then have "length (unvisitedPairs V (nv @ ?pairs)) < n" using less by simp
      from priceLoop_answers [OF Suc this, of B cfg tid ?pairs "Fin 0" "Fin 0"]
      show ?thesis by (simp only: derivedEGLD.simps Let_def) auto
    qed
  qed
qed

text \<open>More fuel does not change an answer.\<close>

definition extends ::
  "(string \<Rightarrow> pair_metadata list \<Rightarrow> (bn \<times> pair_metadata list) option) \<Rightarrow>
   (string \<Rightarrow> pair_metadata list \<Rightarrow> (bn \<times> pair_metadata list) option) \<Rightarrow> bool" where
  "extends f g \<longleftrightarrow> (\<forall>t nv r. f t nv = Some r \<longrightarrow> g t nv = Some r)"

lemma extendsD: "extends f g \<Longrightarrow> f t nv = Some r \<Longrightarrow> g t nv = Some r"
  unfolding extends_def by blast

lemma priceSide_extends:
  assumes "extends f g" "priceSide B f t r d pr st = Some st'"
  shows "priceSide B g t r d pr st = Some st'"
proof -
  obtain l p nv where st: "st = (l, p, nv)" by (cases st) auto
  with assms(2) obtain q where q: "f t nv = Some q" by (cases "f t nv") (auto simp: priceSide_def)
  then show ?thesis using assms(2) extendsD [OF assms(1) q] st by (simp add: priceSide_def)
qed

lemma pricePair_extends:
  assumes "extends f g" "pricePair B cfg V f tid pair st = Some st'"
  shows "pricePair B cfg V g tid pair st = Some st'"
  using assms(2)
  by (cases "mdFirstTokenID pair = tid"; cases "mdSecondTokenID pair = tid")
    (auto simp: pricePair_def dest!: priceSide_extends [OF assms(1)]
      split: if_splits Option.bind_split_asm)

lemma priceLoop_extends:
  assumes "extends f g"
  shows "priceLoop B cfg V f tid ps st = Some st' \<Longrightarrow> priceLoop B cfg V g tid ps st = Some st'"
proof (induction ps arbitrary: st)
  case (Cons p ps)
  then obtain st1 where "pricePair B cfg V f tid p st = Some st1" "priceLoop B cfg V f tid ps st1 = Some st'"
    by (auto simp: bind_eq_Some_conv)
  then show ?case using Cons.IH pricePair_extends [OF assms] by simp
qed simp

lemma derivedEGLD_extends: "extends (derivedEGLD B cfg V n) (derivedEGLD B cfg V (Suc n))"
proof (induction n)
  case 0
  then show ?case by (simp add: extends_def)
next
  case (Suc n)
  show ?case unfolding extends_def
  proof (intro allI impI)
    fix tid nv r
    assume r: "derivedEGLD B cfg V (Suc n) tid nv = Some r"
    let ?pairs = "filter (\<lambda>p. List.find (\<lambda>q. mdAddress q = mdAddress p) nv = None) (tokenPairs V tid)"
    let ?loop = "\<lambda>n. priceLoop B cfg V (derivedEGLD B cfg V n) tid ?pairs (Fin 0, Fin 0, nv @ ?pairs)"
    show "derivedEGLD B cfg V (Suc (Suc n)) tid nv = Some r"
    proof (cases "tid = tokenProviderUSD cfg \<or> tid = USDC_TOKEN_ID cfg")
      case True
      then show ?thesis using r by (simp only: derivedEGLD.simps Let_def split: if_splits) auto
    next
      case False
      have eq: "derivedEGLD B cfg V (Suc k) tid nv
          = map_option (\<lambda>(largest, priceSoFar, nv). (priceSoFar, nv)) (?loop k)" for k
        using False by (simp only: derivedEGLD.simps Let_def) simp
      obtain st where st: "?loop n = Some st" "r = (case st of (largest, priceSoFar, nv) \<Rightarrow> (priceSoFar, nv))"
        using r unfolding eq by auto
      show ?thesis unfolding eq priceLoop_extends [OF Suc st(1)] using st(2) by (cases st) simp
    qed
  qed
qed

lemma derivedEGLD_mono:
  "n \<le> m \<Longrightarrow> derivedEGLD B cfg V n tid nv = Some r \<Longrightarrow> derivedEGLD B cfg V m tid nv = Some r"
proof (induction m rule: dec_induct)
  case (step m)
  then show ?case using extendsD [OF derivedEGLD_extends] by blast
qed

section \<open>Properties\<close>

text \<open>
  C4. The recursive price search terminates for every token and every set of pairs and
  states: one level more than the number of listed pairs is enough fuel, more fuel gives the
  same answer, and the array of visited pairs only grows.
\<close>

theorem price_search_terminates:
  "\<exists>p nv'. computeTokenPriceDerivedEGLD B cfg V tid nv = Some (p, nv') \<and> set nv \<subseteq> set nv' \<and>
    (\<forall>extra. derivedEGLD B cfg V (Suc (length (pairsMetadata V) + extra)) tid nv = Some (p, nv'))"
proof -
  let ?n = "Suc (length (pairsMetadata V))"
  have "length (unvisitedPairs V nv) < ?n" by (simp add: unvisitedPairs_def less_Suc_eq_le)
  from answersD [OF derivedEGLD_answers this, of B cfg tid]
  obtain p nv' where r: "derivedEGLD B cfg V ?n tid nv = Some (p, nv')" "set nv \<subseteq> set nv'" by blast
  have "derivedEGLD B cfg V (Suc (length (pairsMetadata V) + extra)) tid nv = Some (p, nv')" for extra
    by (rule derivedEGLD_mono [OF _ r(1)]) simp
  then show ?thesis using r by (auto simp: computeTokenPriceDerivedEGLD_def)
qed

lemma derivedEGLD_provider: "derivedEGLD B cfg V (Suc n) (tokenProviderUSD cfg) nv = Some (Fin 1, nv)"
  by simp

text \<open>
  A token that trades in one pair only, as its first token against the provider token,
  has exactly that pair's price when the pair has liquidity, and price zero when it has none;
  a token in no pair has price zero; the provider token has price one.
\<close>

theorem price_of_direct_pair:
  assumes "bignumber_lib B" "tid \<noteq> tokenProviderUSD cfg" "tid \<noteq> USDC_TOKEN_ID cfg"
    "tokenPairs V tid = [\<lparr>mdAddress = pair, mdFirstTokenID = tid, mdSecondTokenID = tokenProviderUSD cfg\<rparr>]"
    "pairTotalSupply V pair = bn_of_int supply" "secondTokenReserve V pair = bn_of_int reserve"
    "decimals (getSecondToken V pair) \<le> EGLDDecimals" "0 < reserve"
    "computeFirstTokenPrice B cfg V pair = Fin price"
    "other \<noteq> tokenProviderUSD cfg" "other \<noteq> USDC_TOKEN_ID cfg" "tokenPairs V other = []"
  shows "map_option fst (computeTokenPriceDerivedEGLD B cfg V tid []) = Some (Fin (if 0 < supply then price else 0)) \<and>
    map_option fst (computeTokenPriceDerivedEGLD B cfg V other []) = Some (Fin 0) \<and>
    map_option fst (computeTokenPriceDerivedEGLD B cfg V (tokenProviderUSD cfg) []) = Some (Fin 1)"
proof -
  let ?p = "\<lparr>mdAddress = pair, mdFirstTokenID = tid, mdSecondTokenID = tokenProviderUSD cfg\<rparr>"
  let ?d = "decimals (getSecondToken V pair)"
  have "?p \<in> set (tokenPairs V tid)" using assms(4) by simp
  then have "0 < length (pairsMetadata V)" using tokenPairs_sub by (metis length_pos_if_in_set subset_iff)
  then obtain n where n: "length (pairsMetadata V) = Suc n" using gr0_implies_Suc by blast
  have locked: "egldLocked B (bn_of_int reserve) ?d (Fin 1) = bn_of_int (reserve * 10 ^ (EGLDDecimals - ?d))"
  proof -
    have "(10::rat) ^ EGLDDecimals = 10 ^ ?d * 10 ^ (EGLDDecimals - ?d)"
      using assms(7) by (simp flip: power_add)
    then have "rat_of_int reserve / 10 ^ ?d * 10 ^ EGLDDecimals = of_int (reserve * 10 ^ (EGLDDecimals - ?d))"
      by simp
    then show ?thesis
      by (simp add: egldLocked_def dec_unit_def bignumber_lib.times_fin [OF assms(1)]
          bignumber_lib.integer_fin [OF assms(1)] del: of_int_mult of_int_power)
  qed
  have "0 < reserve * 10 ^ (EGLDDecimals - ?d)" using assms(8) by simp
  then have gt: "bn_greater B (bn_of_int (reserve * 10 ^ (EGLDDecimals - ?d))) (Fin 0)"
    by (simp add: bignumber_lib.greater_fin [OF assms(1)] del: of_int_mult of_int_power)
  have "map_option fst (computeTokenPriceDerivedEGLD B cfg V tid []) = Some (Fin (if 0 < supply then price else 0))"
    using assms(2,3,5,6,9) gt
    by (simp add: computeTokenPriceDerivedEGLD_def n Let_def assms(4) pricePair_def priceSide_def locked
        bignumber_lib.greater_fin [OF assms(1)] bignumber_lib.times_fin [OF assms(1)]
        del: of_int_mult of_int_power)
  moreover have "map_option fst (computeTokenPriceDerivedEGLD B cfg V other []) = Some (Fin 0)"
    using assms(10-12) by (simp add: computeTokenPriceDerivedEGLD_def Let_def)
  ultimately show ?thesis by (simp add: computeTokenPriceDerivedEGLD_def)
qed

text \<open>A market with one pair, MEX against the provider token.\<close>

definition demo_market :: chain_view where
  "demo_market = demo_view\<lparr>
     pairsMetadata := [\<lparr>mdAddress = ''pair'', mdFirstTokenID = ''MEX'', mdSecondTokenID = ''WEGLD''\<rparr>],
     firstTokenID := \<lambda>_. ''MEX'', secondTokenID := \<lambda>_. ''WEGLD''\<rparr>"

theorem price_of_direct_pair_witness:
  "map_option fst (computeTokenPriceDerivedEGLD bn_js demo_cfg demo_market ''MEX'' []) = Some (Fin 4) \<and>
   map_option fst (computeTokenPriceDerivedEGLD bn_js demo_cfg demo_market ''LAND'' []) = Some (Fin 0)"
proof -
  have sound: "sound_pair demo_cfg demo_market ''pair'' 1000 4000"
    by (simp add: sound_pair_def demo_market_def demo_view_def demo_cfg_def)
  have dec: "decimals (getFirstToken demo_market p) = 2" "decimals (getSecondToken demo_market p) = 2" for p
    by (simp_all add: getFirstToken_def getSecondToken_def demo_market_def demo_view_def)
  have "round_dp 20 400 = 400" using round_dp_of_int [of 20 400] by simp
  then have price: "computeFirstTokenPrice bn_js demo_cfg demo_market ''pair'' = Fin 4"
    using js.token_prices_fin(1) [OF sound] by (simp add: dec)
  have pairs: "tokenPairs demo_market ''MEX'' =
      [\<lparr>mdAddress = ''pair'', mdFirstTokenID = ''MEX'', mdSecondTokenID = tokenProviderUSD demo_cfg\<rparr>]"
    "tokenPairs demo_market ''LAND'' = []"
    by (simp_all add: tokenPairs_def demo_market_def demo_view_def demo_cfg_def)
  show ?thesis
    using price_of_direct_pair [OF js.bignumber_lib_axioms _ _ pairs(1) _ _ _ _ price _ _ pairs(2), of 500 4000]
    by (simp add: dec EGLDDecimals_def) (simp add: demo_market_def demo_view_def demo_cfg_def)
qed

end
