(* ===== verification/PairCompute.thy ===== *)
theory PairCompute
  imports TokenPrice
begin

text \<open>
  \<open>src/modules/pair/services/pair.compute.service.ts\<close>: USD prices of a pair's tokens and of its
  LP token, the value locked in it, volumes and fees from the analytics store, the fees yield,
  the listing type, the value locked for ever by the first liquidity, and whether farms use
  the pair. The liquidity position in USD of \<open>pair.service.ts\<close> is here because it needs the
  USD prices.

  The price search always answers (\<open>price_search_terminates\<close>), so \<open>tokenPriceUSD\<close> reads its
  answer; the branch for no answer is never taken.
\<close>

section \<open>What the service reads besides the chain\<close>

record analytics_view =
  isAWSTimestreamRead :: bool
  aggregatedValue :: "string \<Rightarrow> string \<Rightarrow> string \<Rightarrow> bn"
  esdtTokenType :: "string \<Rightarrow> string"
  farmAddressesV2 :: "string list"
  farmingTokenIDOf :: "string \<Rightarrow> string"
  stakingProxyAddresses :: "string list"
  stakingProxyPair :: "string \<Rightarrow> string"
  accountDeployedAt :: "string \<Rightarrow> int option"

section \<open>USD prices\<close>

definition tokenPriceUSD :: "bignumber \<Rightarrow> dex_config \<Rightarrow> chain_view \<Rightarrow> string \<Rightarrow> bn" where
  "tokenPriceUSD B cfg V tid =
     (case computeTokenPriceDerivedUSD B cfg V tid of Some p \<Rightarrow> p | None \<Rightarrow> NotANum)"

text \<open>\<open>Number.prototype.toFixed()\<close> without digits, of a number below \<open>10 ^ 21\<close>.\<close>

definition number_toFixed :: "rat \<Rightarrow> bn" where
  "number_toFixed x = bn_of_int (half_up x)"

definition computeFirstTokenPriceUSD :: "bignumber \<Rightarrow> dex_config \<Rightarrow> chain_view \<Rightarrow> string \<Rightarrow> bn" where
  "computeFirstTokenPriceUSD B cfg V pairAddress =
     (if firstTokenID V pairAddress = USDC_TOKEN_ID cfg then number_toFixed (usdcDataPrice V)
      else if secondTokenID V pairAddress = USDC_TOKEN_ID cfg then
        bn_times B (computeFirstTokenPrice B cfg V pairAddress) (bn_number B (usdcDataPrice V))
      else tokenPriceUSD B cfg V (firstTokenID V pairAddress))"

definition computeSecondTokenPriceUSD :: "bignumber \<Rightarrow> dex_config \<Rightarrow> chain_view \<Rightarrow> string \<Rightarrow> bn" where
  "computeSecondTokenPriceUSD B cfg V pairAddress =
     (if secondTokenID V pairAddress = USDC_TOKEN_ID cfg then bn_number B (usdcDataPrice V)
      else if firstTokenID V pairAddress = USDC_TOKEN_ID cfg then
        bn_times B (computeSecondTokenPrice B cfg V pairAddress) (bn_number B (usdcDataPrice V))
      else tokenPriceUSD B cfg V (secondTokenID V pairAddress))"

text \<open>The USD value of the two amounts of a position.\<close>

definition positionValueUSD ::
  "bignumber \<Rightarrow> dex_config \<Rightarrow> chain_view \<Rightarrow> string \<Rightarrow> liquidity_position \<Rightarrow> bn" where
  "positionValueUSD B cfg V pairAddress pos =
     bn_plus B
       (computeValueUSD B (firstTokenAmount pos) (decimals (getFirstToken V pairAddress))
         (computeFirstTokenPriceUSD B cfg V pairAddress))
       (computeValueUSD B (secondTokenAmount pos) (decimals (getSecondToken V pairAddress))
         (computeSecondTokenPriceUSD B cfg V pairAddress))"

definition getLiquidityPositionUSD ::
  "bignumber \<Rightarrow> dex_config \<Rightarrow> chain_view \<Rightarrow> string \<Rightarrow> bn \<Rightarrow> bn" where
  "getLiquidityPositionUSD B cfg V pairAddress amt =
     positionValueUSD B cfg V pairAddress (getLiquidityPosition B V pairAddress amt)"

definition computeLpTokenPriceUSD :: "bignumber \<Rightarrow> dex_config \<Rightarrow> chain_view \<Rightarrow> string \<Rightarrow> bn option" where
  "computeLpTokenPriceUSD B cfg V pairAddress =
     (case getLpToken V pairAddress of
        None \<Rightarrow> None
      | Some lpToken \<Rightarrow>
          Some (positionValueUSD B cfg V pairAddress
            (getLiquidityPosition B V pairAddress (Fin (10 ^ decimals lpToken)))))"

section \<open>Locked value\<close>

definition computeFirstTokenLockedValueUSD :: "bignumber \<Rightarrow> dex_config \<Rightarrow> chain_view \<Rightarrow> string \<Rightarrow> bn" where
  "computeFirstTokenLockedValueUSD B cfg V pairAddress =
     bn_times B (bn_times B (firstTokenReserve V pairAddress)
       (dec_unit (decimals (getFirstToken V pairAddress))))
       (computeFirstTokenPriceUSD B cfg V pairAddress)"

definition computeSecondTokenLockedValueUSD :: "bignumber \<Rightarrow> dex_config \<Rightarrow> chain_view \<Rightarrow> string \<Rightarrow> bn" where
  "computeSecondTokenLockedValueUSD B cfg V pairAddress =
     bn_times B (bn_times B (secondTokenReserve V pairAddress)
       (dec_unit (decimals (getSecondToken V pairAddress))))
       (computeSecondTokenPriceUSD B cfg V pairAddress)"

definition computeLockedValueUSD :: "bignumber \<Rightarrow> dex_config \<Rightarrow> chain_view \<Rightarrow> string \<Rightarrow> bn" where
  "computeLockedValueUSD B cfg V pairAddress =
     bn_plus B (computeFirstTokenLockedValueUSD B cfg V pairAddress)
       (computeSecondTokenLockedValueUSD B cfg V pairAddress)"

definition computePermanentLockedValueUSD ::
  "bignumber \<Rightarrow> dex_config \<Rightarrow> chain_view \<Rightarrow> string \<Rightarrow> bn \<Rightarrow> bn \<Rightarrow> bn" where
  "computePermanentLockedValueUSD B cfg V pairAddress amount1 amount2 =
     (let firstToken = getFirstToken V pairAddress;
          secondToken = getSecondToken V pairAddress;
          firstPriceUSD = computeFirstTokenPriceUSD B cfg V pairAddress;
          secondPriceUSD = computeSecondTokenPriceUSD B cfg V pairAddress;
          minimumAmount = (if bn_less B amount1 amount2 then amount1 else amount2);
          minimumLiquidity = bn_number B 1000;
          firstDenom = denominateAmount B amount1 (decimals firstToken);
          secondDenom = denominateAmount B amount2 (decimals secondToken)
      in if bn_equal B minimumAmount amount1 then
           let minDenom = denominateAmount B minimumLiquidity (decimals firstToken) in
           if bn_greater B firstPriceUSD (Fin 0) then bn_times B minDenom firstPriceUSD
           else bn_times B (bn_times B minDenom (bn_div B secondDenom firstDenom)) secondPriceUSD
         else
           let minDenom = denominateAmount B minimumLiquidity (decimals secondToken) in
           if bn_greater B secondPriceUSD (Fin 0) then bn_times B minDenom secondPriceUSD
           else bn_times B (bn_times B minDenom (bn_div B firstDenom secondDenom)) firstPriceUSD)"

section \<open>Analytics\<close>

definition computeFirstTokenVolume :: "analytics_view \<Rightarrow> string \<Rightarrow> string \<Rightarrow> bn" where
  "computeFirstTokenVolume A pairAddress time =
     (if \<not> isAWSTimestreamRead A then Fin 0 else aggregatedValue A pairAddress ''firstTokenVolume'' time)"

definition computeSecondTokenVolume :: "analytics_view \<Rightarrow> string \<Rightarrow> string \<Rightarrow> bn" where
  "computeSecondTokenVolume A pairAddress time =
     (if \<not> isAWSTimestreamRead A then Fin 0 else aggregatedValue A pairAddress ''secondTokenVolume'' time)"

definition computeVolumeUSD :: "analytics_view \<Rightarrow> string \<Rightarrow> string \<Rightarrow> bn" where
  "computeVolumeUSD A pairAddress time =
     (if \<not> isAWSTimestreamRead A then Fin 0 else aggregatedValue A pairAddress ''volumeUSD'' time)"

definition computeFeesUSD :: "analytics_view \<Rightarrow> string \<Rightarrow> string \<Rightarrow> bn" where
  "computeFeesUSD A pairAddress time =
     (if \<not> isAWSTimestreamRead A then Fin 0 else aggregatedValue A pairAddress ''feesUSD'' time)"

definition computeFeesAPR ::
  "bignumber \<Rightarrow> dex_config \<Rightarrow> chain_view \<Rightarrow> analytics_view \<Rightarrow> string \<Rightarrow> bn" where
  "computeFeesAPR B cfg V A pairAddress =
     (let fees24h = computeFeesUSD A pairAddress ''24h'';
          lockedValueUSD = computeLockedValueUSD B cfg V pairAddress;
          totalFee = pairTotalFeePercent V pairAddress;
          specialFee = pairSpecialFeePercent V pairAddress;
          actualFees24h = bn_times B fees24h
            (bn_div B (bn_number B (fl64 (totalFee - specialFee))) (bn_number B totalFee))
      in bn_div B (bn_times B actualFees24h (bn_number B 365)) lockedValueUSD)"

definition computeTypeFromTokens :: "chain_view \<Rightarrow> analytics_view \<Rightarrow> string \<Rightarrow> string option" where
  "computeTypeFromTokens V A pairAddress =
     leastType (esdtTokenType A (firstTokenID V pairAddress)) (esdtTokenType A (secondTokenID V pairAddress))"

definition computeHasFarms :: "chain_view \<Rightarrow> analytics_view \<Rightarrow> string \<Rightarrow> bool" where
  "computeHasFarms V A pairAddress =
     (lpTokenID V pairAddress \<in> set (map (Some \<circ> farmingTokenIDOf A) (farmAddressesV2 A)))"

definition computeHasDualFarms :: "analytics_view \<Rightarrow> string \<Rightarrow> bool" where
  "computeHasDualFarms A pairAddress =
     (pairAddress \<in> set (map (stakingProxyPair A) (stakingProxyAddresses A)))"

definition computeDeployedAt :: "analytics_view \<Rightarrow> string \<Rightarrow> int option" where
  "computeDeployedAt A pairAddress = accountDeployedAt A pairAddress"

section \<open>Facts\<close>

text \<open>The pair's reserves agree in the two getters, and the token prices are finite and not negative.\<close>

definition priced_pair ::
  "bignumber \<Rightarrow> dex_config \<Rightarrow> chain_view \<Rightarrow> string \<Rightarrow> int \<Rightarrow> int \<Rightarrow> int \<Rightarrow> rat \<Rightarrow> rat \<Rightarrow> bool" where
  "priced_pair B cfg V pair r0 r1 supply p0 p1 \<longleftrightarrow>
     pairInfoMetadata V pair = \<lparr>reserves0 = bn_of_int r0, reserves1 = bn_of_int r1, totalSupply = bn_of_int supply\<rparr> \<and>
     firstTokenReserve V pair = bn_of_int r0 \<and> secondTokenReserve V pair = bn_of_int r1 \<and>
     0 \<le> r0 \<and> 0 \<le> r1 \<and> 0 < supply \<and>
     computeFirstTokenPriceUSD B cfg V pair = Fin p0 \<and> computeSecondTokenPriceUSD B cfg V pair = Fin p1 \<and>
     0 \<le> p0 \<and> 0 \<le> p1"

context bignumber_lib begin

lemma locked_value_fin:
  assumes "priced_pair B cfg V pair r0 r1 supply p0 p1"
  shows "computeLockedValueUSD B cfg V pair =
    Fin (of_int r0 / 10 ^ decimals (getFirstToken V pair) * p0 + of_int r1 / 10 ^ decimals (getSecondToken V pair) * p1)"
  using assms
  by (simp add: computeLockedValueUSD_def computeFirstTokenLockedValueUSD_def
      computeSecondTokenLockedValueUSD_def priced_pair_def dec_unit_def times_fin plus_fin)

lemma position_fin:
  assumes "priced_pair B cfg V pair r0 r1 supply p0 p1" "0 \<le> liq" "liq \<le> supply"
  obtains z0 z1 where "getLiquidityPosition B V pair (bn_of_int liq) =
      \<lparr>firstTokenAmount = bn_of_int z0, secondTokenAmount = bn_of_int z1\<rparr>"
    "0 \<le> z0" "z0 \<le> r0" "0 \<le> z1" "z1 \<le> r1"
    "z0 = half_up (round_dp 20 (of_int liq * of_int r0 / of_int supply))"
    "z1 = half_up (round_dp 20 (of_int liq * of_int r1 / of_int supply))"
proof -
  have s: "0 \<le> r0" "0 \<le> r1" "0 < supply"
    and pinfo: "pairInfoMetadata V pair =
      \<lparr>reserves0 = bn_of_int r0, reserves1 = bn_of_int r1, totalSupply = bn_of_int supply\<rparr>"
    using assms(1) by (simp_all add: priced_pair_def)
  have tok: "getTokenForGivenPosition B (bn_of_int liq) (bn_of_int r) (bn_of_int supply)
      = bn_of_int (half_up (round_dp 20 (of_int liq * of_int r / of_int supply)))" for r
    using s(3) by (simp add: getTokenForGivenPosition_def bn_finite)
  obtain z0 where z0: "getTokenForGivenPosition B (bn_of_int liq) (bn_of_int r0) (bn_of_int supply) = bn_of_int z0"
      "0 \<le> z0" "z0 \<le> r0"
    using getTokenForGivenPosition_bounds [OF assms(2,3) s(1)] by blast
  obtain z1 where z1: "getTokenForGivenPosition B (bn_of_int liq) (bn_of_int r1) (bn_of_int supply) = bn_of_int z1"
      "0 \<le> z1" "z1 \<le> r1"
    using getTokenForGivenPosition_bounds [OF assms(2,3) s(2)] by blast
  show ?thesis
    using that [of z0 z1] z0 z1 tok [of r0] tok [of r1] pinfo by (simp add: getLiquidityPosition_def)
qed

lemma position_value_fin:
  assumes "priced_pair B cfg V pair r0 r1 supply p0 p1"
  shows "positionValueUSD B cfg V pair \<lparr>firstTokenAmount = bn_of_int z0, secondTokenAmount = bn_of_int z1\<rparr> =
    Fin (of_int z0 / 10 ^ decimals (getFirstToken V pair) * p0 + of_int z1 / 10 ^ decimals (getSecondToken V pair) * p1)"
  using assms by (simp add: positionValueUSD_def priced_pair_def computeValueUSD_fin plus_fin)

end

section \<open>Properties\<close>

text \<open>
  The USD value of a liquidity position is never negative and never more than the value
  locked in the pair, and a position of the whole supply is worth exactly the locked value.
\<close>

theorem position_value_within_locked:
  assumes "bignumber_lib B" "priced_pair B cfg V pair r0 r1 supply p0 p1" "0 \<le> liq" "liq \<le> supply"
  shows "\<exists>v total whole. getLiquidityPositionUSD B cfg V pair (bn_of_int liq) = Fin v \<and>
    computeLockedValueUSD B cfg V pair = Fin total \<and>
    getLiquidityPositionUSD B cfg V pair (bn_of_int supply) = Fin whole \<and>
    0 \<le> v \<and> v \<le> total \<and> whole = total"
proof -
  let ?d0 = "10 ^ decimals (getFirstToken V pair) :: rat" and ?d1 = "10 ^ decimals (getSecondToken V pair) :: rat"
  have p: "0 \<le> p0" "0 \<le> p1" "0 < supply" using assms(2) by (simp_all add: priced_pair_def)
  obtain z0 z1 where z: "getLiquidityPosition B V pair (bn_of_int liq) =
      \<lparr>firstTokenAmount = bn_of_int z0, secondTokenAmount = bn_of_int z1\<rparr>"
    "0 \<le> z0" "z0 \<le> r0" "0 \<le> z1" "z1 \<le> r1"
    using bignumber_lib.position_fin [OF assms] by metis
  obtain w0 w1 where w: "getLiquidityPosition B V pair (bn_of_int supply) =
      \<lparr>firstTokenAmount = bn_of_int w0, secondTokenAmount = bn_of_int w1\<rparr>"
    "w0 = half_up (round_dp 20 (of_int supply * of_int r0 / of_int supply))"
    "w1 = half_up (round_dp 20 (of_int supply * of_int r1 / of_int supply))"
    using bignumber_lib.position_fin [OF assms(1,2), of "supply"] p(3) by (metis less_imp_le order_refl)
  have whole: "w0 = r0" "w1 = r1" using w(2,3) p(3) by simp_all
  have "of_int z0 / ?d0 * p0 \<le> of_int r0 / ?d0 * p0" "of_int z1 / ?d1 * p1 \<le> of_int r1 / ?d1 * p1"
    using z p by (auto intro!: mult_right_mono divide_right_mono)
  moreover have "0 \<le> of_int z0 / ?d0 * p0" "0 \<le> of_int z1 / ?d1 * p1"
    using z p by simp_all
  ultimately show ?thesis
    by (simp add: getLiquidityPositionUSD_def z(1) w(1) whole
        bignumber_lib.position_value_fin [OF assms(1,2)] bignumber_lib.locked_value_fin [OF assms(1,2)])
qed

text \<open>A pair of MEX and USDC; the market's other values are those of \<open>demo_view\<close>.\<close>

definition usdc_market :: "rat \<Rightarrow> string \<Rightarrow> string \<Rightarrow> chain_view" where
  "usdc_market price t1 t2 = demo_view\<lparr>firstTokenID := \<lambda>_. t1, secondTokenID := \<lambda>_. t2, usdcDataPrice := price\<rparr>"

lemma usdc_market_priced:
  "priced_pair bn_js demo_cfg (usdc_market 1 ''USDC'' ''MEX'') ''pair'' 1000 4000 500 1 (1 / 4)"
proof -
  have sound: "sound_pair demo_cfg (usdc_market 1 ''USDC'' ''MEX'') ''pair'' 1000 4000"
    by (simp add: sound_pair_def usdc_market_def demo_view_def demo_cfg_def)
  have dec: "decimals (getFirstToken (usdc_market 1 ''USDC'' ''MEX'') p) = 2"
    "decimals (getSecondToken (usdc_market 1 ''USDC'' ''MEX'') p) = 2" for p
    by (simp_all add: getFirstToken_def getSecondToken_def usdc_market_def demo_view_def)
  have "round_dp 20 25 = 25" using round_dp_of_int [of 20 25] by simp
  then have "computeSecondTokenPrice bn_js demo_cfg (usdc_market 1 ''USDC'' ''MEX'') ''pair'' = Fin (1 / 4)"
    using js.token_prices_fin(2) [OF sound] by (simp add: dec)
  then show ?thesis
    by (simp add: priced_pair_def computeFirstTokenPriceUSD_def computeSecondTokenPriceUSD_def
        number_toFixed_def js.number_1 js.times_fin)
      (simp add: usdc_market_def demo_view_def demo_cfg_def js.number_1 js.times_fin)
qed

theorem position_value_within_locked_witness:
  "\<exists>v total. getLiquidityPositionUSD bn_js demo_cfg (usdc_market 1 ''USDC'' ''MEX'') ''pair'' (bn_of_int 20) = Fin v \<and>
     computeLockedValueUSD bn_js demo_cfg (usdc_market 1 ''USDC'' ''MEX'') ''pair'' = Fin total \<and> v \<le> total"
  using position_value_within_locked [OF js.bignumber_lib_axioms usdc_market_priced, of 20] by auto

text \<open>
  The same external USDC quote is rounded to a whole dollar when USDC is the first token
  of the pair and kept exactly when it is the second: at 0.9998 the two prices are 1 and
  0.9998, and at 0.4 the first price is zero.
\<close>

theorem usdc_first_token_price_rounded:
  "computeFirstTokenPriceUSD bn_js demo_cfg (usdc_market (9998 / 10000) ''USDC'' ''MEX'') ''pair'' = Fin 1 \<and>
   computeSecondTokenPriceUSD bn_js demo_cfg (usdc_market (9998 / 10000) ''MEX'' ''USDC'') ''pair'' = Fin (9998 / 10000) \<and>
   computeFirstTokenPriceUSD bn_js demo_cfg (usdc_market (4 / 10) ''USDC'' ''MEX'') ''pair'' = Fin 0"
  by (simp add: computeFirstTokenPriceUSD_def computeSecondTokenPriceUSD_def usdc_market_def
      demo_cfg_def demo_view_def number_toFixed_def half_up_def bn_js_def floor_eq_iff)

end
