(* ===== verification/PairTransactions.thy ===== *)
theory PairTransactions
  imports PairCompute "HOL-Library.Multiset"
begin

text \<open>
  The transactions a user signs to work with a pair
  (\<open>src/modules/pair/services/pair.transactions.service.ts\<close>) and to wrap and unwrap the native
  token (\<open>src/modules/wrapping/services/wrap.transactions.service.ts\<close>).

  A token list of fewer than two elements makes the code read a property of \<open>undefined\<close>,
  the exception \<open>TypeError\<close>. \<open>validateTokens\<close> may also resolve to \<open>undefined\<close>, which is
  \<open>None\<close>: \<open>getTokensInOrder\<close> ends without a \<open>return\<close> for a token that is not the pair's.
\<close>

definition TypeError :: js_error where
  "TypeError = JsError ''TypeError''"

section \<open>Wrapping\<close>

definition wrapEgld :: "dex_config \<Rightarrow> chain_view \<Rightarrow> string \<Rightarrow> bn \<Rightarrow> transaction" where
  "wrapEgld cfg V sender amt =
     (contract_call cfg (wrapContract V sender) ''wrapEgld'' [] (gas cfg ''wrapeGLD''))
       \<lparr>nativeValue := Some amt\<rparr>"

definition unwrapEgld :: "dex_config \<Rightarrow> chain_view \<Rightarrow> string \<Rightarrow> bn \<Rightarrow> transaction" where
  "unwrapEgld cfg V sender amt =
     (contract_call cfg (wrapContract V sender) ''unwrapEgld'' [] (gas cfg ''wrapeGLD''))
       \<lparr>payments := [fungible (tokIdentifier (tokenMetadata V (wrappedEgldTokenID V))) amt]\<rparr>"

section \<open>Validation\<close>

type_synonym token_pair = "(input_token \<times> input_token) option"

definition wrappedInput :: "chain_view \<Rightarrow> input_token \<Rightarrow> input_token" where
  "wrappedInput V tok = \<lparr>tokenID = wrappedEgldTokenID V, nonce = nonce tok, amount = amount tok\<rparr>"

definition getTokensInOrder ::
  "chain_view \<Rightarrow> input_token \<Rightarrow> input_token \<Rightarrow> string \<Rightarrow> string \<Rightarrow> token_pair" where
  "getTokensInOrder V tok egld firstID secondID =
     (if tokenID tok = firstID then Some (tok, wrappedInput V egld)
      else if tokenID tok = secondID then Some (wrappedInput V egld, tok)
      else None)"

definition getTokensWithEGLD ::
  "dex_config \<Rightarrow> chain_view \<Rightarrow> input_token \<Rightarrow> input_token \<Rightarrow> string \<Rightarrow> string \<Rightarrow> token_pair res" where
  "getTokensWithEGLD cfg V t0 t1 firstID secondID =
     (if tokenID t0 = EGLDIdentifier cfg then Inr (getTokensInOrder V t1 t0 firstID secondID)
      else if tokenID t1 = EGLDIdentifier cfg then Inr (getTokensInOrder V t0 t1 firstID secondID)
      else Inl (JsError ''Invalid tokens with EGLD''))"

definition validateTokens ::
  "dex_config \<Rightarrow> chain_view \<Rightarrow> string \<Rightarrow> input_token list \<Rightarrow> token_pair res" where
  "validateTokens cfg V pairAddress tokens =
     (case tokens of
        t0 # t1 # _ \<Rightarrow>
          let firstID = firstTokenID V pairAddress; secondID = secondTokenID V pairAddress in
          if 0 < nonce t0 \<or> 0 < nonce t1 then Inl (JsError ''Only ESDT tokens allowed!'')
          else if tokenID t0 = EGLDIdentifier cfg \<or> tokenID t1 = EGLDIdentifier cfg
            then getTokensWithEGLD cfg V t0 t1 firstID secondID
          else if tokenID t0 = firstID \<and> tokenID t1 = secondID then Inr (Some (t0, t1))
          else if tokenID t1 = firstID \<and> tokenID t0 = secondID then Inr (Some (t1, t0))
          else Inl (JsError ''invalid tokens received'')
      | _ \<Rightarrow> Inl TypeError)"

text \<open>Destructuring the validated tokens: \<open>undefined\<close> is not iterable.\<close>

definition destructure :: "token_pair \<Rightarrow> (input_token \<times> input_token) res" where
  "destructure v = (case v of None \<Rightarrow> Inl TypeError | Some ab \<Rightarrow> Inr ab)"

section \<open>Liquidity\<close>

record add_liquidity_args =
  alPairAddress :: string
  alTokens :: "input_token list"
  alTolerance :: rat

record remove_liquidity_args =
  rlPairAddress :: string
  rlLiquidity :: bn
  rlLiquidityTokenID :: string
  rlTolerance :: rat

definition addInitialLiquidity ::
  "bignumber \<Rightarrow> dex_config \<Rightarrow> chain_view \<Rightarrow> string \<Rightarrow> add_liquidity_args \<Rightarrow> transaction res" where
  "addInitialLiquidity B cfg V sender args =
     (if sender \<noteq> initialLiquidityAdder V (alPairAddress args)
      then Inl (JsError ''Invalid sender address'')
      else
        res_bind (res_bind (validateTokens cfg V (alPairAddress args) (alTokens args)) destructure)
          (\<lambda>(first, second).
             let minimumAmount = (if bn_less B (amount first) (amount second)
                   then amount first else amount second) in
             if bn_less B minimumAmount (bn_number B 1000)
             then Inl (JsError ''First tokens needs to be greater than minimum liquidity'')
             else if bn_greater B (computePermanentLockedValueUSD B cfg V (alPairAddress args)
                     (amount first) (amount second)) (bn_number B 1)
             then Inl (JsError ''Permanent locked amount must be less than 1 USD'')
             else Inr ((contract_call cfg (alPairAddress args) ''addInitialLiquidity'' []
                    (gas cfg ''pairs.addLiquidity''))
                  \<lparr>payments := [fungible (tokenID first) (amount first), fungible (tokenID second) (amount second)],
                   withSender := Some sender\<rparr>)))"

text \<open>The minimum the contract may use or return: the amount less the tolerance, in doubles.\<close>

definition minAmount :: "bignumber \<Rightarrow> bn \<Rightarrow> rat \<Rightarrow> bn" where
  "minAmount B amt tolerance =
     bn_integer B (bn_times B amt (bn_number B (fl64 (1 - tolerance))))"

definition addLiquidity ::
  "bignumber \<Rightarrow> dex_config \<Rightarrow> chain_view \<Rightarrow> string \<Rightarrow> add_liquidity_args \<Rightarrow> transaction res" where
  "addLiquidity B cfg V sender args =
     res_bind (res_bind (validateTokens cfg V (alPairAddress args) (alTokens args)) destructure)
       (\<lambda>(first, second).
          Inr ((contract_call cfg (alPairAddress args) ''addLiquidity''
                 [BigUInt (minAmount B (amount first) (alTolerance args)),
                  BigUInt (minAmount B (amount second) (alTolerance args))]
                 (gas cfg ''pairs.addLiquidity''))
               \<lparr>payments := [fungible (tokenID first) (amount first), fungible (tokenID second) (amount second)],
                withSender := Some sender\<rparr>))"

text \<open>The \<open>switch\<close> both batches start with: wrap the first EGLD input found.\<close>

definition wrapInputs ::
  "dex_config \<Rightarrow> chain_view \<Rightarrow> string \<Rightarrow> input_token list \<Rightarrow> transaction list res" where
  "wrapInputs cfg V sender tokens =
     (case tokens of
        [] \<Rightarrow> Inl TypeError
      | t0 # rest \<Rightarrow>
          if tokenID t0 = EGLDIdentifier cfg then Inr [wrapEgld cfg V sender (amount t0)]
          else case rest of
            [] \<Rightarrow> Inl TypeError
          | t1 # _ \<Rightarrow>
              if tokenID t1 = EGLDIdentifier cfg then Inr [wrapEgld cfg V sender (amount t1)]
              else Inr [])"

definition addInitialLiquidityBatch ::
  "bignumber \<Rightarrow> dex_config \<Rightarrow> chain_view \<Rightarrow> string \<Rightarrow> add_liquidity_args \<Rightarrow> transaction list res" where
  "addInitialLiquidityBatch B cfg V sender args =
     res_bind (wrapInputs cfg V sender (alTokens args)) (\<lambda>ts.
     res_bind (addInitialLiquidity B cfg V sender args) (\<lambda>t. Inr (ts @ [t])))"

definition addLiquidityBatch ::
  "bignumber \<Rightarrow> dex_config \<Rightarrow> chain_view \<Rightarrow> string \<Rightarrow> add_liquidity_args \<Rightarrow> transaction list res" where
  "addLiquidityBatch B cfg V sender args =
     res_bind (wrapInputs cfg V sender (alTokens args)) (\<lambda>ts.
     res_bind (addLiquidity B cfg V sender args) (\<lambda>t. Inr (ts @ [t])))"

definition removeLiquidity ::
  "bignumber \<Rightarrow> dex_config \<Rightarrow> chain_view \<Rightarrow> string \<Rightarrow> remove_liquidity_args \<Rightarrow> transaction list" where
  "removeLiquidity B cfg V sender args =
     (let pos = getLiquidityPosition B V (rlPairAddress args) (rlLiquidity args);
          amount0Min = minAmount B (firstTokenAmount pos) (rlTolerance args);
          amount1Min = minAmount B (secondTokenAmount pos) (rlTolerance args);
          remove = (contract_call cfg (rlPairAddress args) ''removeLiquidity''
              [BigUInt amount0Min, BigUInt amount1Min] (gas cfg ''pairs.removeLiquidity''))
            \<lparr>payments := [fungible (rlLiquidityTokenID args) (rlLiquidity args)]\<rparr>
      in if wrappedEgldTokenID V = firstTokenID V (rlPairAddress args)
           then [remove, unwrapEgld cfg V sender amount0Min]
         else if wrappedEgldTokenID V = secondTokenID V (rlPairAddress args)
           then [remove, unwrapEgld cfg V sender amount1Min]
         else [remove])"

section \<open>Swaps\<close>

record swap_args =
  swPairAddress :: string
  swTokenInID :: string
  swAmountIn :: bn
  swTokenOutID :: string
  swAmountOut :: bn
  swTolerance :: rat

definition swapInputs :: "swap_args \<Rightarrow> input_token list" where
  "swapInputs args =
     [\<lparr>tokenID = swTokenInID args, nonce = 0, amount = NotANum\<rparr>,
      \<lparr>tokenID = swTokenOutID args, nonce = 0, amount = NotANum\<rparr>]"

text \<open>One call of a pair's swap endpoint.\<close>

definition swapCall ::
  "dex_config \<Rightarrow> string \<Rightarrow> string \<Rightarrow> string \<Rightarrow> bn \<Rightarrow> string \<Rightarrow> bn \<Rightarrow> int \<Rightarrow> transaction" where
  "swapCall cfg pairAddress f tokenIn amountIn tokenOut amountOut gasL =
     (contract_call cfg pairAddress f [BytesUTF8 tokenOut, BigUInt amountOut] gasL)
       \<lparr>payments := [fungible tokenIn amountIn]\<rparr>"

definition swapTokensFixedInput ::
  "bignumber \<Rightarrow> dex_config \<Rightarrow> chain_view \<Rightarrow> string \<Rightarrow> swap_args \<Rightarrow> transaction list res" where
  "swapTokensFixedInput B cfg V sender args =
     res_bind (validateTokens cfg V (swPairAddress args) (swapInputs args)) (\<lambda>_.
       let pair = swPairAddress args;
           wrappedTokenID = wrappedEgldTokenID V;
           amountOutMin = bn_integer B (bn_times B
             (bn_div B (Fin 1) (bn_plus B (Fin 1) (bn_number B (swTolerance args)))) (swAmountOut args));
           gasL = (if trustedSwapPairs V pair = [] then gas cfg ''pairs.swapTokensFixedInput.default''
                   else gas cfg ''pairs.swapTokensFixedInput.withFeeSwap'')
       in if swTokenInID args = EGLDIdentifier cfg then
            Inr [wrapEgld cfg V sender (swAmountIn args),
                 swapCall cfg pair ''swapTokensFixedInput'' wrappedTokenID (swAmountIn args)
                   (swTokenOutID args) amountOutMin gasL]
          else if swTokenOutID args = EGLDIdentifier cfg then
            Inr [swapCall cfg pair ''swapTokensFixedInput'' (swTokenInID args) (swAmountIn args)
                   wrappedTokenID amountOutMin gasL,
                 unwrapEgld cfg V sender amountOutMin]
          else
            Inr [swapCall cfg pair ''swapTokensFixedInput'' (swTokenInID args) (swAmountIn args)
                   (swTokenOutID args) amountOutMin gasL])"

definition swapTokensFixedOutput ::
  "bignumber \<Rightarrow> dex_config \<Rightarrow> chain_view \<Rightarrow> string \<Rightarrow> swap_args \<Rightarrow> transaction list res" where
  "swapTokensFixedOutput B cfg V sender args =
     res_bind (validateTokens cfg V (swPairAddress args) (swapInputs args)) (\<lambda>_.
       let pair = swPairAddress args;
           wrappedTokenID = wrappedEgldTokenID V;
           gasL = (if trustedSwapPairs V pair = [] then gas cfg ''pairs.swapTokensFixedOutput.default''
                   else gas cfg ''pairs.swapTokensFixedOutput.withFeeSwap'')
       in if swTokenInID args = EGLDIdentifier cfg then
            Inr [wrapEgld cfg V sender (swAmountIn args),
                 swapCall cfg pair ''swapTokensFixedOutput'' wrappedTokenID (swAmountIn args)
                   (swTokenOutID args) (swAmountOut args) gasL]
          else if swTokenOutID args = EGLDIdentifier cfg then
            Inr [swapCall cfg pair ''swapTokensFixedOutput'' (swTokenInID args) (swAmountIn args)
                   wrappedTokenID (swAmountOut args) gasL,
                 unwrapEgld cfg V sender (swAmountOut args)]
          else
            Inr [swapCall cfg pair ''swapTokensFixedOutput'' (swTokenInID args) (swAmountIn args)
                   (swTokenOutID args) (swAmountOut args) gasL])"

section \<open>Administration\<close>

definition whitelist :: "dex_config \<Rightarrow> string \<Rightarrow> string \<Rightarrow> transaction" where
  "whitelist cfg pair addr =
     contract_call cfg pair ''whitelist'' [AddressV addr] (gas cfg ''pairs.admin.whitelist'')"

definition removeWhitelist :: "dex_config \<Rightarrow> string \<Rightarrow> string \<Rightarrow> transaction" where
  "removeWhitelist cfg pair addr =
     contract_call cfg pair ''removeWhitelist'' [AddressV addr] (gas cfg ''pairs.admin.removeWhitelist'')"

definition addTrustedSwapPair :: "dex_config \<Rightarrow> string \<Rightarrow> string \<Rightarrow> string \<Rightarrow> string \<Rightarrow> transaction" where
  "addTrustedSwapPair cfg pair swapPair firstID secondID =
     contract_call cfg pair ''addTrustedSwapPair''
       [BytesHexAddress swapPair, BytesUTF8 firstID, BytesUTF8 secondID]
       (gas cfg ''pairs.admin.addTrustedSwapPair'')"

definition removeTrustedSwapPair :: "dex_config \<Rightarrow> string \<Rightarrow> string \<Rightarrow> string \<Rightarrow> transaction" where
  "removeTrustedSwapPair cfg pair firstID secondID =
     contract_call cfg pair ''removeTrustedSwapPair'' [BytesUTF8 firstID, BytesUTF8 secondID]
       (gas cfg ''pairs.admin.removeTrustedSwapPair'')"

definition pausePair :: "dex_config \<Rightarrow> string \<Rightarrow> transaction" where
  "pausePair cfg pair = contract_call cfg pair ''pause'' [] (gas cfg ''pairs.admin.pause'')"

definition resumePair :: "dex_config \<Rightarrow> string \<Rightarrow> transaction" where
  "resumePair cfg pair = contract_call cfg pair ''resume'' [] (gas cfg ''pairs.admin.resume'')"

definition setStateActiveNoSwaps :: "dex_config \<Rightarrow> string \<Rightarrow> transaction" where
  "setStateActiveNoSwaps cfg pair =
     contract_call cfg pair ''setStateActiveNoSwaps'' [] (gas cfg ''pairs.admin.setStateActiveNoSwaps'')"

definition setFeePercents :: "bignumber \<Rightarrow> dex_config \<Rightarrow> string \<Rightarrow> rat \<Rightarrow> rat \<Rightarrow> transaction" where
  "setFeePercents B cfg pair totalFee specialFee =
     contract_call cfg pair ''setFeePercents''
       [BigUInt (bn_number B totalFee), BigUInt (bn_number B specialFee)]
       (gas cfg ''pairs.admin.setFeePercents'')"

definition setLockingDeadlineEpoch :: "bignumber \<Rightarrow> dex_config \<Rightarrow> string \<Rightarrow> int \<Rightarrow> transaction" where
  "setLockingDeadlineEpoch B cfg pair newDeadline =
     contract_call cfg pair ''setLockingDeadlineEpoch'' [BigUInt (bn_number B (of_int newDeadline))]
       (gas cfg ''pairs.admin.setLockingDeadlineEpoch'')"

definition setUnlockEpoch :: "bignumber \<Rightarrow> dex_config \<Rightarrow> string \<Rightarrow> int \<Rightarrow> transaction" where
  "setUnlockEpoch B cfg pair newEpoch =
     contract_call cfg pair ''setUnlockEpoch'' [BigUInt (bn_number B (of_int newEpoch))]
       (gas cfg ''pairs.admin.setUnlockEpoch'')"

definition setLockingScAddress :: "dex_config \<Rightarrow> string \<Rightarrow> string \<Rightarrow> transaction" where
  "setLockingScAddress cfg pair newAddress =
     contract_call cfg pair ''setLockingScAddress'' [BytesHexAddress newAddress]
       (gas cfg ''pairs.admin.setLockingScAddress'')"

definition setupFeesCollector :: "bignumber \<Rightarrow> dex_config \<Rightarrow> string \<Rightarrow> transaction" where
  "setupFeesCollector B cfg pair =
     contract_call cfg pair ''setupFeesCollector''
       [AddressV (scAddr cfg ''feesCollector''), U64V (bn_number B (of_int FEES_COLLECTOR_CUT))]
       (gas cfg ''pairs.admin.setupFeesCollector'')"

section \<open>Facts\<close>

text \<open>A pair of two different tokens, one of them the wrapped native token.\<close>

definition egld_pair :: "dex_config \<Rightarrow> chain_view \<Rightarrow> string \<Rightarrow> bool" where
  "egld_pair cfg V pair \<longleftrightarrow>
     firstTokenID V pair \<noteq> secondTokenID V pair \<and>
     firstTokenID V pair \<noteq> EGLDIdentifier cfg \<and> secondTokenID V pair \<noteq> EGLDIdentifier cfg \<and>
     (wrappedEgldTokenID V = firstTokenID V pair \<or> wrappedEgldTokenID V = secondTokenID V pair)"

definition wrapInput :: "dex_config \<Rightarrow> chain_view \<Rightarrow> input_token \<Rightarrow> input_token" where
  "wrapInput cfg V t = t\<lparr>tokenID := wrapIfEGLD cfg V (tokenID t)\<rparr>"

lemma wrapInput_sel [simp]:
  "amount (wrapInput cfg V t) = amount t" "nonce (wrapInput cfg V t) = nonce t"
  "tokenID (wrapInput cfg V t) = wrapIfEGLD cfg V (tokenID t)"
  by (simp_all add: wrapInput_def)

lemma wrappedInput_eq: "tokenID t = EGLDIdentifier cfg \<Longrightarrow> wrappedInput V t = wrapInput cfg V t"
  by (cases t) (simp add: wrappedInput_def wrapInput_def wrapIfEGLD_def)

lemma wrapInput_id: "tokenID t \<noteq> EGLDIdentifier cfg \<Longrightarrow> wrapInput cfg V t = t"
  by (cases t) (simp add: wrapInput_def wrapIfEGLD_def)

text \<open>The reference: put the wrapped inputs in the order of the pair.\<close>

definition orderTokens ::
  "dex_config \<Rightarrow> chain_view \<Rightarrow> string \<Rightarrow> input_token \<Rightarrow> input_token \<Rightarrow> token_pair" where
  "orderTokens cfg V pair t0 t1 =
     (let a = wrapInput cfg V t0; b = wrapInput cfg V t1 in
      if tokenID a = firstTokenID V pair \<and> tokenID b = secondTokenID V pair then Some (a, b)
      else if tokenID b = firstTokenID V pair \<and> tokenID a = secondTokenID V pair then Some (b, a)
      else None)"

lemma validateTokens_order:
  assumes "egld_pair cfg V pair" "nonce t0 \<le> 0" "nonce t1 \<le> 0"
    "wrapIfEGLD cfg V (tokenID t0) \<noteq> wrapIfEGLD cfg V (tokenID t1)"
  shows "validateTokens cfg V pair (t0 # t1 # rest) =
    (if EGLDIdentifier cfg \<in> {tokenID t0, tokenID t1} then Inr (orderTokens cfg V pair t0 t1)
     else case orderTokens cfg V pair t0 t1 of
       Some ab \<Rightarrow> Inr (Some ab) | None \<Rightarrow> Inl (JsError ''invalid tokens received''))"
proof -
  consider (both) "tokenID t0 = EGLDIdentifier cfg" "tokenID t1 \<noteq> EGLDIdentifier cfg"
    | (other) "tokenID t0 \<noteq> EGLDIdentifier cfg" "tokenID t1 = EGLDIdentifier cfg"
    | (none) "tokenID t0 \<noteq> EGLDIdentifier cfg" "tokenID t1 \<noteq> EGLDIdentifier cfg"
    using assms(4) by metis
  then show ?thesis
  proof cases
    case both
    then show ?thesis
      using assms by (auto simp: validateTokens_def getTokensWithEGLD_def getTokensInOrder_def orderTokens_def
          egld_pair_def wrapIfEGLD_def wrapInput_id wrappedInput_eq)
  next
    case other
    then show ?thesis
      using assms by (auto simp: validateTokens_def getTokensWithEGLD_def getTokensInOrder_def orderTokens_def
          egld_pair_def wrapIfEGLD_def wrapInput_id wrappedInput_eq)
  next
    case none
    then show ?thesis
      using assms by (auto simp: validateTokens_def orderTokens_def egld_pair_def wrapIfEGLD_def wrapInput_id)
  qed
qed

context bignumber_lib begin

lemma complement_number:
  assumes "0 \<le> t" "t \<le> 1"
  obtains k where "bn_number B (fl64 (1 - t)) = Fin k" "0 \<le> k" "k \<le> 1"
proof (rule number_between [of 0 "fl64 (1 - t)" 1])
  show "of_int 0 \<le> fl64 (1 - t)" using assms by (simp add: fl64_nonneg)
  show "fl64 (1 - t) \<le> of_int 1" using assms by (intro fl64_le_int) simp_all
qed (use that in auto)

lemma minAmount_bounds:
  assumes "0 \<le> t" "t \<le> 1" "0 \<le> a"
  obtains m where "minAmount B (bn_of_int a) t = bn_of_int m" "0 \<le> m" "m \<le> a"
proof -
  obtain k where k: "bn_number B (fl64 (1 - t)) = Fin k" "0 \<le> k" "k \<le> 1"
    using complement_number [OF assms(1,2)] .
  have "of_int a * k \<le> of_int a" using k assms(3) by (simp add: mult_left_le)
  then have "half_up (of_int a * k) \<le> a" by (rule half_up_le_int)
  moreover have "0 \<le> half_up (of_int a * k)" using k assms(3) by (intro half_up_nonneg) simp
  moreover have "minAmount B (bn_of_int a) t = bn_of_int (half_up (of_int a * k))"
    by (simp add: minAmount_def k(1) times_fin integer_fin)
  ultimately show ?thesis using that by blast
qed

text \<open>The least output of a fixed-input swap.\<close>

lemma amountOutMin_bounds:
  assumes "0 \<le> tol" "tol \<le> 1" "0 \<le> out"
  obtains m k where "bn_number B tol = Fin k" "0 \<le> k" "k \<le> 1"
    "bn_integer B (bn_times B (bn_div B (Fin 1) (bn_plus B (Fin 1) (bn_number B tol))) (bn_of_int out)) = bn_of_int m"
    "0 \<le> m" "m \<le> out" "\<bar>of_int m - of_int out / (1 + k)\<bar> \<le> 1 / 2 + of_int out / (2 * 10 ^ 20)"
proof -
  obtain k where k: "bn_number B tol = Fin k" "0 \<le> k" "k \<le> 1"
    using number_between [of 0 tol 1] assms by auto
  let ?q = "round_dp 20 (1 / (1 + k))"
  have q: "0 \<le> ?q" "?q \<le> 1"
    using k round_dp_le_int [of "1 / (1 + k)" 1 20] by (auto intro!: round_dp_nonneg)
  have "?q * of_int out \<le> of_int out" using q assms(3) by (simp add: mult_left_le_one_le)
  then have le: "half_up (?q * of_int out) \<le> out" by (rule half_up_le_int)
  have nn: "0 \<le> half_up (?q * of_int out)" using q assms(3) by (intro half_up_nonneg) simp
  have "?q * of_int out - of_int out / (1 + k) = (?q - 1 / (1 + k)) * of_int out"
    by (simp add: left_diff_distrib)
  then have "\<bar>?q * of_int out - of_int out / (1 + k)\<bar> = \<bar>?q - 1 / (1 + k)\<bar> * of_int out"
    using assms(3) by (simp add: abs_mult)
  also have "\<dots> \<le> 1 / (2 * 10 ^ 20) * of_int out"
    using assms(3) by (intro mult_right_mono round_dp_error) simp
  finally have err: "\<bar>?q * of_int out - of_int out / (1 + k)\<bar> \<le> of_int out / (2 * 10 ^ 20)" by simp
  have "\<bar>of_int (half_up (?q * of_int out)) - of_int out / (1 + k)\<bar> \<le> 1 / 2 + of_int out / (2 * 10 ^ 20)"
    using half_up_error [of "?q * of_int out"] err by linarith
  moreover have "bn_integer B (bn_times B (bn_div B (Fin 1) (bn_plus B (Fin 1) (bn_number B tol))) (bn_of_int out))
      = bn_of_int (half_up (?q * of_int out))"
    using k by (simp add: plus_fin div_fin times_fin integer_fin)
  ultimately show ?thesis using that k le nn by blast
qed

end

section \<open>Properties\<close>

text \<open>
  For a pair with the wrapped native token, adding liquidity with two different inputs
  accepts EGLD for the wrapped token and the two inputs in either order: it succeeds exactly
  when the wrapped inputs are the pair's two tokens, then pays both amounts in the order
  of the pair and asks for minimums between zero and the amounts; every other pair of
  inputs is an error.
\<close>

theorem addLiquidity_pays_both_tokens:
  assumes "bignumber_lib B" "egld_pair cfg V (alPairAddress args)" "alTokens args = [t0, t1]"
    "nonce t0 \<le> 0" "nonce t1 \<le> 0" "wrapIfEGLD cfg V (tokenID t0) \<noteq> wrapIfEGLD cfg V (tokenID t1)"
    "amount t0 = bn_of_int a0" "amount t1 = bn_of_int a1" "0 \<le> a0" "0 \<le> a1"
    "0 \<le> alTolerance args" "alTolerance args \<le> 1"
  shows "case orderTokens cfg V (alPairAddress args) t0 t1 of
      None \<Rightarrow> (\<exists>e. addLiquidity B cfg V sender args = Inl e)
    | Some (a, b) \<Rightarrow> (\<exists>m n x y tx. addLiquidity B cfg V sender args = Inr tx \<and>
        receiver tx = alPairAddress args \<and> endpoint tx = ''addLiquidity'' \<and>
        payments tx = [fungible (firstTokenID V (alPairAddress args)) (bn_of_int x),
                       fungible (secondTokenID V (alPairAddress args)) (bn_of_int y)] \<and>
        endpointArgs tx = [BigUInt (bn_of_int m), BigUInt (bn_of_int n)] \<and>
        {#x, y#} = {#a0, a1#} \<and> 0 \<le> m \<and> m \<le> x \<and> 0 \<le> n \<and> n \<le> y)"
proof (cases "orderTokens cfg V (alPairAddress args) t0 t1")
  case None
  then show ?thesis
    using validateTokens_order [OF assms(2,4-6), of "[]"] assms(3)
    by (simp add: addLiquidity_def destructure_def)
next
  case (Some ab)
  then obtain a b where ab: "ab = (a, b)" "orderTokens cfg V (alPairAddress args) t0 t1 = Some (a, b)"
    by (cases ab) auto
  then have ids: "tokenID a = firstTokenID V (alPairAddress args)" "tokenID b = secondTokenID V (alPairAddress args)"
    and am: "(amount a, amount b) = (bn_of_int a0, bn_of_int a1) \<or> (amount a, amount b) = (bn_of_int a1, bn_of_int a0)"
    using assms(7,8) by (auto simp: orderTokens_def Let_def split: if_splits)
  then obtain x y where xy: "amount a = bn_of_int x" "amount b = bn_of_int y" "{#x, y#} = {#a0, a1#}" "0 \<le> x" "0 \<le> y"
    using assms(9,10) by (auto simp: add_mset_commute)
  obtain m where m: "minAmount B (bn_of_int x) (alTolerance args) = bn_of_int m" "0 \<le> m" "m \<le> x"
    using bignumber_lib.minAmount_bounds [OF assms(1,11,12) xy(4)] .
  obtain n where n: "minAmount B (bn_of_int y) (alTolerance args) = bn_of_int n" "0 \<le> n" "n \<le> y"
    using bignumber_lib.minAmount_bounds [OF assms(1,11,12) xy(5)] .
  show ?thesis
    using validateTokens_order [OF assms(2,4-6), of "[]"] assms(3) ab ids xy m n
    by (auto simp: addLiquidity_def destructure_def contract_call_def)
qed

definition demo_input :: "string \<Rightarrow> int \<Rightarrow> input_token" where
  "demo_input t a = \<lparr>tokenID = t, nonce = 0, amount = bn_of_int a\<rparr>"

lemma demo_egld_pair: "egld_pair demo_cfg demo_view p"
  by (simp add: egld_pair_def demo_cfg_def demo_view_def)

theorem addLiquidity_pays_both_tokens_witness:
  "\<exists>tx x y. addLiquidity bn_js demo_cfg demo_view ''alice''
      \<lparr>alPairAddress = ''pair'', alTokens = [demo_input ''MEX'' 7, demo_input ''EGLD'' 9], alTolerance = 0\<rparr> = Inr tx \<and>
    payments tx = [fungible ''WEGLD'' (bn_of_int x), fungible ''MEX'' (bn_of_int y)]"
proof -
  let ?args = "\<lparr>alPairAddress = ''pair'', alTokens = [demo_input ''MEX'' 7, demo_input ''EGLD'' 9], alTolerance = 0\<rparr>"
  have some: "\<exists>ab. orderTokens demo_cfg demo_view ''pair'' (demo_input ''MEX'' 7) (demo_input ''EGLD'' 9) = Some ab"
    by (simp add: orderTokens_def demo_input_def wrapIfEGLD_def demo_cfg_def demo_view_def)
  show ?thesis
    using addLiquidity_pays_both_tokens [OF js.bignumber_lib_axioms demo_egld_pair, of ?args
        "demo_input ''MEX'' 7" "demo_input ''EGLD'' 9" 7 9 "''alice''"] some
    by (fastforce simp: demo_input_def wrapIfEGLD_def demo_cfg_def demo_view_def)
qed

text \<open>
  C6. A fixed-input swap on such a pair is one call of the pair that pays the input and asks
  for the output, both in wrapped form, after wrapping exactly the input when it is EGLD
  and before unwrapping the asked minimum when the output is EGLD; the minimum is at most the quoted
  output and within rounding of it divided by one plus the tolerance.
\<close>

theorem swapTokensFixedInput_flow:
  assumes "bignumber_lib B" "egld_pair cfg V (swPairAddress args)"
    "orderTokens cfg V (swPairAddress args) (hd (swapInputs args)) (last (swapInputs args)) \<noteq> None"
    "swAmountOut args = bn_of_int out" "0 \<le> out" "0 \<le> swTolerance args" "swTolerance args \<le> 1"
  shows "\<exists>m k g. bn_number B (swTolerance args) = Fin k \<and> 0 \<le> m \<and> m \<le> out \<and>
    \<bar>of_int m - of_int out / (1 + k)\<bar> \<le> 1 / 2 + of_int out / (2 * 10 ^ 20) \<and>
    swapTokensFixedInput B cfg V sender args = Inr (
      (if swTokenInID args = EGLDIdentifier cfg then [wrapEgld cfg V sender (swAmountIn args)] else []) @
      [swapCall cfg (swPairAddress args) ''swapTokensFixedInput''
         (wrapIfEGLD cfg V (swTokenInID args)) (swAmountIn args)
         (wrapIfEGLD cfg V (swTokenOutID args)) (bn_of_int m) g] @
      (if swTokenOutID args = EGLDIdentifier cfg then [unwrapEgld cfg V sender (bn_of_int m)] else []))"
proof -
  obtain m k where mk: "bn_number B (swTolerance args) = Fin k" "0 \<le> k"
    "bn_integer B (bn_times B (bn_div B (Fin 1) (bn_plus B (Fin 1) (bn_number B (swTolerance args)))) (bn_of_int out)) = bn_of_int m"
    "0 \<le> m" "m \<le> out" "\<bar>of_int m - of_int out / (1 + k)\<bar> \<le> 1 / 2 + of_int out / (2 * 10 ^ 20)"
    using bignumber_lib.amountOutMin_bounds [OF assms(1,6,7,5)] by metis
  obtain t0 t1 where t: "swapInputs args = [t0, t1]" "tokenID t0 = swTokenInID args" "tokenID t1 = swTokenOutID args"
    "nonce t0 \<le> 0" "nonce t1 \<le> 0" by (simp add: swapInputs_def)
  then obtain ab where ab: "orderTokens cfg V (swPairAddress args) t0 t1 = Some ab" using assms(3) by auto
  then have ne: "wrapIfEGLD cfg V (tokenID t0) \<noteq> wrapIfEGLD cfg V (tokenID t1)"
    using assms(2) by (auto simp: orderTokens_def egld_pair_def Let_def split: if_splits)
  have valid: "validateTokens cfg V (swPairAddress args) (swapInputs args) = Inr (Some ab)"
    using validateTokens_order [OF assms(2) t(4,5) ne, of "[]"] ab t(1) by simp
  have "\<not> (swTokenInID args = EGLDIdentifier cfg \<and> swTokenOutID args = EGLDIdentifier cfg)"
    using ne t(2,3) by auto
  then show ?thesis
    using mk assms(4)
    by (intro exI [of _ m] exI [of _ k] exI [of _ "if trustedSwapPairs V (swPairAddress args) = []
          then gas cfg ''pairs.swapTokensFixedInput.default''
          else gas cfg ''pairs.swapTokensFixedInput.withFeeSwap''"])
      (auto simp: swapTokensFixedInput_def valid Let_def wrapIfEGLD_def)
qed

definition demo_swap :: "string \<Rightarrow> string \<Rightarrow> swap_args" where
  "demo_swap i out = \<lparr>swPairAddress = ''pair'', swTokenInID = i, swAmountIn = bn_of_int 10,
     swTokenOutID = out, swAmountOut = bn_of_int 30, swTolerance = 0\<rparr>"

theorem swapTokensFixedInput_flow_witness:
  "\<exists>m g. swapTokensFixedInput bn_js demo_cfg demo_view ''alice'' (demo_swap ''EGLD'' ''MEX'') =
     Inr [wrapEgld demo_cfg demo_view ''alice'' (bn_of_int 10),
          swapCall demo_cfg ''pair'' ''swapTokensFixedInput'' ''WEGLD'' (bn_of_int 10) ''MEX'' (bn_of_int m) g] \<and> m \<le> 30"
proof -
  have "orderTokens demo_cfg demo_view (swPairAddress (demo_swap ''EGLD'' ''MEX''))
      (hd (swapInputs (demo_swap ''EGLD'' ''MEX''))) (last (swapInputs (demo_swap ''EGLD'' ''MEX''))) \<noteq> None"
    by (simp add: orderTokens_def demo_swap_def swapInputs_def wrapIfEGLD_def demo_cfg_def demo_view_def)
  from swapTokensFixedInput_flow [OF js.bignumber_lib_axioms demo_egld_pair this, of 30 "''alice''"]
  show ?thesis by (auto simp: demo_swap_def wrapIfEGLD_def demo_cfg_def demo_view_def)
qed

text \<open>
  The check of the tokens lets an EGLD swap with a token the pair does not hold through:
  the same foreign token without EGLD is rejected, with EGLD the transactions are built, the
  first of which wraps the user's EGLD.
\<close>

theorem foreign_token_with_EGLD_accepted:
  "swapTokensFixedInput bn_js demo_cfg demo_view ''alice'' (demo_swap ''WEGLD'' ''LAND'')
     = Inl (JsError ''invalid tokens received'') \<and>
   (\<exists>swap. swapTokensFixedInput bn_js demo_cfg demo_view ''alice'' (demo_swap ''EGLD'' ''LAND'')
     = Inr [wrapEgld demo_cfg demo_view ''alice'' (bn_of_int 10), swap]) \<and>
   (\<exists>txs. swapTokensFixedOutput bn_js demo_cfg demo_view ''alice'' (demo_swap ''LAND'' ''EGLD'') = Inr txs)"
  by (simp add: swapTokensFixedInput_def swapTokensFixedOutput_def validateTokens_def getTokensWithEGLD_def
      getTokensInOrder_def demo_swap_def swapInputs_def demo_cfg_def demo_view_def Let_def)

end
