(* ===== verification/AutoRouterService.thy ===== *)
theory AutoRouterService
  imports AutoRouterCompute PairTransactions
begin

text \<open>
  \<open>src/modules/auto-router/services/auto-router.service.ts\<close> and
  \<open>auto-router.transactions.service.ts\<close>: the quote of a swap between any two tokens, directly
  or over several pairs, and the transactions that execute it.

  The state of the router is the cache of token paths and the graph singleton it is computed
  from; an entry of the cache is dropped when its ten minutes are over (\<open>expirePaths\<close>). The
  flag \<open>multiSwapStatus\<close> is read from the remote configuration. An optional amount is \<open>None\<close>
  when it is absent or empty, which is what the code tests.
\<close>

section \<open>Numbers back from the library\<close>

fun toNumber :: "bn \<Rightarrow> jsnum" where
  "toNumber (Fin x) = JNum (fl64 x)"
| "toNumber PosInf = JInf"
| "toNumber NegInf = JNegInf"
| "toNumber NotANum = JNaN"

text \<open>\<open>v > x\<close> on numbers; false when \<open>v\<close> is NaN.\<close>

fun js_above :: "jsnum \<Rightarrow> rat \<Rightarrow> bool" where
  "js_above (JNum v) x = (x < v)"
| "js_above JInf x = True"
| "js_above JNegInf x = False"
| "js_above JNaN x = False"

section \<open>Arguments and result\<close>

record auto_router_args =
  arTokenInID :: string
  arTokenOutID :: string
  arAmountIn :: "bn option"
  arAmountOut :: "bn option"
  arTolerance :: rat

record auto_route_model =
  armSwapType :: swap_type
  armTokenInID :: string
  armTokenOutID :: string
  armTokenInExchangeRate :: bn
  armTokenOutExchangeRate :: bn
  armTokenInExchangeRateDenom :: bn
  armTokenOutExchangeRateDenom :: bn
  armTokenInPriceUSD :: bn
  armTokenOutPriceUSD :: bn
  armAmountIn :: bn
  armAmountOut :: bn
  armIntermediaryAmounts :: "bn list"
  armTokenRoute :: "string list"
  armPairs :: "pair_model list"
  armTolerance :: rat
  armMaxPriceDeviationPercent :: rat
  armTokensPriceDeviationPercent :: "jsnum option"

text \<open>\<open>new BigNumber(undefined)\<close> is NaN.\<close>

definition given :: "bn option \<Rightarrow> bn" where
  "given a = (case a of Some v \<Rightarrow> v | None \<Rightarrow> NotANum)"

definition amount_at :: "bn list \<Rightarrow> nat \<Rightarrow> bn" where
  "amount_at xs i = given (js_index xs i)"

section \<open>Paths\<close>

record router_state =
  pathCache :: "string \<times> string \<rightharpoonup> string list list"
  graphStatic :: graph_static

text \<open>
  \<open>getOrSet\<close> on the key of the two tokens. The search always ends with the fuel of the model
  (\<open>getAllPaths_run\<close>), so the last branch is never taken.
\<close>

definition cachedAllPaths ::
  "pair_model list \<Rightarrow> string \<Rightarrow> string \<Rightarrow> router_state \<Rightarrow> string list list \<times> router_state" where
  "cachedAllPaths pairs source destination s =
     (case pathCache s (source, destination) of
        Some paths \<Rightarrow> (paths, s)
      | None \<Rightarrow>
          (case getInstance pairs (graphStatic s) of (g, gs) \<Rightarrow>
             (case getAllPaths g source destination of
                Some paths \<Rightarrow> (paths, \<lparr>pathCache = (pathCache s)((source, destination) \<mapsto> paths), graphStatic = gs\<rparr>)
              | None \<Rightarrow> ([], s\<lparr>graphStatic := gs\<rparr>))))"

definition expirePaths :: "string \<Rightarrow> string \<Rightarrow> router_state \<Rightarrow> router_state" where
  "expirePaths source destination s = s\<lparr>pathCache := (pathCache s)((source, destination) := None)\<rparr>"

definition getPair :: "chain_view \<Rightarrow> string \<Rightarrow> pair_model" where
  "getPair V pairAddress =
     \<lparr>address = pairAddress, firstToken = getFirstToken V pairAddress,
      secondToken = getSecondToken V pairAddress, info = pairInfoMetadata V pairAddress,
      totalFeePercent = pairTotalFeePercent V pairAddress\<rparr>"

definition getAllActivePairs :: "chain_view \<Rightarrow> pair_model list" where
  "getAllActivePairs V =
     map (getPair V) (filter (\<lambda>addr. pairState V addr = ''Active'') (pairsAddress V))"

definition toWrappedIfEGLD :: "dex_config \<Rightarrow> chain_view \<Rightarrow> string list \<Rightarrow> string list" where
  "toWrappedIfEGLD cfg V tokensIDs =
     map (\<lambda>t. if EGLDIdentifier cfg = t then wrappedEgldTokenID V else t) tokensIDs"

section \<open>Amounts and rates\<close>

definition setDefaultAmountInIfNeeded ::
  "bignumber \<Rightarrow> auto_router_args \<Rightarrow> esdt_token \<Rightarrow> bn option" where
  "setDefaultAmountInIfNeeded B args tokenInMetadata =
     (if arAmountOut args = None \<and> arAmountIn args = None
      then Some (bn_integer B (bn_pow B (Fin 10) (decimals tokenInMetadata)))
      else arAmountIn args)"

definition getSwapType :: "bn option \<Rightarrow> bn option \<Rightarrow> swap_type res" where
  "getSwapType amountIn amountOut =
     (if amountIn \<noteq> None \<and> amountOut \<noteq> None
        then Inl (JsError ''Can't have both fixedInput & fixedOutput'')
      else if amountIn \<noteq> None then Inr FixedInput
      else if amountOut \<noteq> None then Inr FixedOutput
      else Inl (JsError ''Can't get SWAP_TYPE''))"

definition isFixedInput :: "swap_type \<Rightarrow> bool" where
  "isFixedInput swapType = (swapType = FixedInput)"

definition addTolerance :: "bignumber \<Rightarrow> bn \<Rightarrow> rat \<Rightarrow> bn" where
  "addTolerance B amountIn tolerance =
     bn_integer B (bn_plus B amountIn (bn_times B amountIn (bn_number B tolerance)))"

definition calculateExchangeRate :: "bignumber \<Rightarrow> nat \<Rightarrow> nat \<Rightarrow> bn \<Rightarrow> bn \<Rightarrow> bn \<times> bn" where
  "calculateExchangeRate B tokenInDecimals tokenOutDecimals amountIn amountOut =
     (if amountIn = Fin 0 \<or> amountOut = Fin 0 then (Fin 0, Fin 0)
      else
        (bn_integer B (bn_div B (bn_times B (bn_pow B (Fin 10) tokenInDecimals) amountOut) amountIn),
         bn_integer B (bn_div B (bn_times B (bn_pow B (Fin 10) tokenOutDecimals) amountIn) amountOut)))"

definition indexed :: "(nat \<Rightarrow> 'a \<Rightarrow> 'b) \<Rightarrow> 'a list \<Rightarrow> 'b list" where
  "indexed f xs = map2 f [0..<length xs] xs"

definition getFeesDenom ::
  "bignumber \<Rightarrow> bn list \<Rightarrow> string list \<Rightarrow> pair_model list \<Rightarrow> bn list" where
  "getFeesDenom B amounts tokens pairs =
     indexed (\<lambda>index pair.
       computeFeeDenom B (totalFeePercent pair) (amount_at amounts index)
         (if Some (tokIdentifier (firstToken pair)) = js_index tokens index
          then decimals (firstToken pair) else decimals (secondToken pair))) pairs"

definition getPriceImpactPercents ::
  "bignumber \<Rightarrow> bn list \<Rightarrow> string list \<Rightarrow> pair_model list \<Rightarrow> bn list" where
  "getPriceImpactPercents B amounts tokens pairs =
     indexed (\<lambda>index pair.
       computePriceImpactPercent B
         (if Some (tokIdentifier (firstToken pair)) = js_index tokens (index + 1)
          then reserves0 (info pair) else reserves1 (info pair))
         (amount_at amounts (index + 1))) pairs"

fun getPairsRoute :: "string list \<Rightarrow> pair_model list \<Rightarrow> pair_model list" where
  "getPairsRoute [] pairs = []"
| "getPairsRoute (addr # addresses) pairs =
     (case List.find (\<lambda>pair. address pair = addr) pairs of
        Some pair \<Rightarrow> pair # getPairsRoute addresses pairs
      | None \<Rightarrow> getPairsRoute addresses pairs)"

text \<open>One hop of \<open>getTokenPriceDeviationPercent\<close>, then the loop, left at the first hop above the spread.\<close>

definition hopDeviation ::
  "bignumber \<Rightarrow> dex_config \<Rightarrow> chain_view \<Rightarrow> string \<Rightarrow> bn \<Rightarrow> string \<Rightarrow> bn \<Rightarrow> bn" where
  "hopDeviation B cfg V tokenInID amountIn tokenOutID amountOut =
     (let amountInUSD = computeValueUSD B amountIn (decimals (tokenMetadata V tokenInID))
            (tokenPriceUSD B cfg V tokenInID);
          amountOutUSD = computeValueUSD B amountOut (decimals (tokenMetadata V tokenOutID))
            (tokenPriceUSD B cfg V tokenOutID)
      in if bn_less B amountInUSD amountOutUSD
         then bn_minus B (Fin 1) (bn_div B amountInUSD amountOutUSD)
         else bn_minus B (Fin 1) (bn_div B amountOutUSD amountInUSD))"

fun getTokenPriceDeviationPercent ::
  "bignumber \<Rightarrow> dex_config \<Rightarrow> chain_view \<Rightarrow> string list \<Rightarrow> bn list \<Rightarrow> jsnum option" where
  "getTokenPriceDeviationPercent B cfg V (tokenInID # tokenOutID # tokens) amounts =
     (let priceDeviationPercent = toNumber (hopDeviation B cfg V tokenInID (amount_at amounts 0)
            tokenOutID (amount_at amounts 1))
      in if js_above priceDeviationPercent (MAX_SWAP_SPREAD cfg) then Some priceDeviationPercent
         else getTokenPriceDeviationPercent B cfg V (tokenOutID # tokens) (tl amounts))"
| "getTokenPriceDeviationPercent B cfg V tokens amounts = None"

section \<open>Quotes\<close>

definition singleSwap ::
  "bignumber \<Rightarrow> dex_config \<Rightarrow> chain_view \<Rightarrow> auto_router_args \<Rightarrow> string \<Rightarrow> string \<Rightarrow> pair_model
   \<Rightarrow> esdt_token \<Rightarrow> esdt_token \<Rightarrow> swap_type \<Rightarrow> auto_route_model res" where
  "singleSwap B cfg V args tokenInID tokenOutID pair tokenInMetadata tokenOutMetadata swapType =
     (let result = (if isFixedInput swapType
            then pairAmountOut B cfg V (address pair) tokenInID (given (arAmountIn args))
            else pairAmountIn B cfg V (address pair) tokenOutID (given (arAmountOut args)))
      in if result = Fin 0 then Inl (BadRequest ''Invalid amounts'')
      else
        let quotedIn = (if isFixedInput swapType then given (arAmountIn args) else result);
            amountOut = (if isFixedInput swapType then result else given (arAmountOut args));
            (tokenInExchangeRate, tokenOutExchangeRate) =
              calculateExchangeRate B (decimals tokenInMetadata) (decimals tokenOutMetadata) quotedIn amountOut;
            amountIn = (if \<not> isFixedInput swapType then addTolerance B quotedIn (arTolerance args) else quotedIn)
        in Inr \<lparr>armSwapType = swapType, armTokenInID = arTokenInID args, armTokenOutID = arTokenOutID args,
             armTokenInExchangeRate = tokenInExchangeRate, armTokenOutExchangeRate = tokenOutExchangeRate,
             armTokenInExchangeRateDenom = denominateAmount B tokenInExchangeRate (decimals tokenOutMetadata),
             armTokenOutExchangeRateDenom = denominateAmount B tokenOutExchangeRate (decimals tokenInMetadata),
             armTokenInPriceUSD = tokenPriceUSD B cfg V tokenInID,
             armTokenOutPriceUSD = tokenPriceUSD B cfg V tokenOutID,
             armAmountIn = amountIn, armAmountOut = amountOut,
             armIntermediaryAmounts = [amountIn, amountOut], armTokenRoute = [tokenInID, tokenOutID],
             armPairs = [pair], armTolerance = arTolerance args,
             armMaxPriceDeviationPercent = MAX_SWAP_SPREAD cfg,
             armTokensPriceDeviationPercent =
               getTokenPriceDeviationPercent B cfg V [tokenInID, tokenOutID] [amountIn, amountOut]\<rparr>)"

text \<open>A route of several pairs must not go through a pair with locked tokens.\<close>

definition lockedOnRoute :: "chain_view \<Rightarrow> string list \<Rightarrow> bool" where
  "lockedOnRoute V addresses =
     list_ex (\<lambda>addr. getLockedTokensInfo V addr \<noteq> None \<and> 1 < length addresses) addresses"

definition multiSwap ::
  "bignumber \<Rightarrow> dex_config \<Rightarrow> chain_view \<Rightarrow> auto_router_args \<Rightarrow> string \<Rightarrow> string \<Rightarrow> pair_model list
   \<Rightarrow> esdt_token \<Rightarrow> esdt_token \<Rightarrow> swap_type \<Rightarrow> router_state \<Rightarrow> auto_route_model res \<times> router_state" where
  "multiSwap B cfg V args tokenInID tokenOutID pairs tokenInMetadata tokenOutMetadata swapType s =
     (case cachedAllPaths pairs tokenInID tokenOutID s of (paths, s') \<Rightarrow>
       (res_bind
         (computeBestSwapRoute B paths pairs
           (if isFixedInput swapType then given (arAmountIn args) else given (arAmountOut args)) swapType)
         (\<lambda>swapRoute.
           if lockedOnRoute V (addressRoute swapRoute) then Inl (JsError ''No swap route found'')
           else
            let (tokenInExchangeRate, tokenOutExchangeRate) =
                  calculateExchangeRate B (decimals tokenInMetadata) (decimals tokenOutMetadata)
                    (if isFixedInput swapType then given (arAmountIn args) else bestResult swapRoute)
                    (if isFixedInput swapType then bestResult swapRoute else given (arAmountOut args))
            in Inr \<lparr>armSwapType = swapType, armTokenInID = arTokenInID args, armTokenOutID = arTokenOutID args,
                 armTokenInExchangeRate = tokenInExchangeRate, armTokenOutExchangeRate = tokenOutExchangeRate,
                 armTokenInExchangeRateDenom = denominateAmount B tokenInExchangeRate (decimals tokenOutMetadata),
                 armTokenOutExchangeRateDenom = denominateAmount B tokenOutExchangeRate (decimals tokenInMetadata),
                 armTokenInPriceUSD = tokenPriceUSD B cfg V tokenInID,
                 armTokenOutPriceUSD = tokenPriceUSD B cfg V tokenOutID,
                 armAmountIn = (case arAmountIn args of Some a \<Rightarrow> a
                    | None \<Rightarrow> addTolerance B (bestResult swapRoute) (arTolerance args)),
                 armAmountOut = (case arAmountOut args of Some a \<Rightarrow> a | None \<Rightarrow> bestResult swapRoute),
                 armIntermediaryAmounts = intermediaryAmounts swapRoute,
                 armTokenRoute = tokenRoute swapRoute,
                 armPairs = getPairsRoute (addressRoute swapRoute) pairs,
                 armTolerance = arTolerance args,
                 armMaxPriceDeviationPercent = MAX_SWAP_SPREAD cfg,
                 armTokensPriceDeviationPercent =
                   getTokenPriceDeviationPercent B cfg V (tokenRoute swapRoute) (intermediaryAmounts swapRoute)\<rparr>),
        s'))"

definition directPair :: "pair_model list \<Rightarrow> string \<Rightarrow> string \<Rightarrow> pair_model option" where
  "directPair pairs tokenInID tokenOutID =
     List.find (\<lambda>pair.
       (tokIdentifier (firstToken pair) = tokenInID \<and> tokIdentifier (secondToken pair) = tokenOutID) \<or>
       (tokIdentifier (firstToken pair) = tokenOutID \<and> tokIdentifier (secondToken pair) = tokenInID)) pairs"

definition swap ::
  "bignumber \<Rightarrow> dex_config \<Rightarrow> chain_view \<Rightarrow> bool \<Rightarrow> auto_router_args \<Rightarrow> router_state
   \<Rightarrow> auto_route_model res \<times> router_state" where
  "swap B cfg V multiSwapStatus args s =
     (if arAmountIn args \<noteq> None \<and> arAmountOut args \<noteq> None
      then (Inl (JsError ''Can't have both amountIn & amountOut''), s)
      else
        case toWrappedIfEGLD cfg V [arTokenInID args, arTokenOutID args] of
          [tokenInID, tokenOutID] \<Rightarrow>
            let pairs = getAllActivePairs V;
                tokenInMetadata = tokenMetadata V tokenInID;
                tokenOutMetadata = tokenMetadata V tokenOutID;
                args' = args\<lparr>arAmountIn := setDefaultAmountInIfNeeded B args tokenInMetadata\<rparr>
            in (case getSwapType (arAmountIn args') (arAmountOut args') of
                  Inl e \<Rightarrow> (Inl e, s)
                | Inr swapType \<Rightarrow>
                    if \<not> multiSwapStatus then
                      (case directPair pairs tokenInID tokenOutID of
                         Some pair \<Rightarrow>
                           (singleSwap B cfg V args' tokenInID tokenOutID pair tokenInMetadata tokenOutMetadata swapType, s)
                       | None \<Rightarrow> (Inl (JsError ''Multi swap disabled!''), s))
                    else multiSwap B cfg V args' tokenInID tokenOutID pairs tokenInMetadata tokenOutMetadata swapType s)
        | _ \<Rightarrow> (Inl TypeError, s))"

section \<open>Transactions\<close>

record multi_swap_args =
  msSwapType :: swap_type
  msTokenInID :: string
  msTokenOutID :: string
  msTokenRoute :: "string list"
  msIntermediaryAmounts :: "bn list"
  msAddressRoute :: "string list"
  msTolerance :: rat

text \<open>The string argument of a missing token of the route: building it from \<open>undefined\<close> throws.\<close>

definition token_at :: "string list \<Rightarrow> nat \<Rightarrow> string res" where
  "token_at xs i = (case js_index xs i of Some t \<Rightarrow> Inr t | None \<Rightarrow> Inl TypeError)"

definition intermediaryTolerance :: "multi_swap_args \<Rightarrow> rat" where
  "intermediaryTolerance args = fl64 (msTolerance args / of_nat (length (msAddressRoute args)))"

definition toleranceAmount :: "bignumber \<Rightarrow> multi_swap_args \<Rightarrow> nat \<Rightarrow> nat \<Rightarrow> bn" where
  "toleranceAmount B args index multiplier =
     bn_times B (amount_at (msIntermediaryAmounts args) (index + 1))
       (bn_number B (fl64 (of_nat multiplier * intermediaryTolerance args)))"

definition fixedInputAmount :: "bignumber \<Rightarrow> multi_swap_args \<Rightarrow> nat \<Rightarrow> bn" where
  "fixedInputAmount B args index =
     bn_integer B (bn_minus B (amount_at (msIntermediaryAmounts args) (index + 1))
       (toleranceAmount B args index (length (msAddressRoute args) - index)))"

definition fixedOutputAmount :: "bignumber \<Rightarrow> multi_swap_args \<Rightarrow> nat \<Rightarrow> bn" where
  "fixedOutputAmount B args index =
     bn_integer B (bn_plus B (amount_at (msIntermediaryAmounts args) (index + 1))
       (toleranceAmount B args index (length (msAddressRoute args) - index - 1)))"

definition pairSwap :: "multi_swap_args \<Rightarrow> string \<Rightarrow> (nat \<Rightarrow> bn) \<Rightarrow> nat \<Rightarrow> typed_value list res" where
  "pairSwap args f amt index =
     res_bind (token_at (msTokenRoute args) (index + 1)) (\<lambda>token.
       Inr [AddressV (msAddressRoute args ! index), BytesUTF8 f, BytesUTF8 token, BigUInt (amt index)])"

definition multiPairFixedInputSwaps :: "bignumber \<Rightarrow> multi_swap_args \<Rightarrow> typed_value list res" where
  "multiPairFixedInputSwaps B args =
     res_bind (res_map (pairSwap args ''swapTokensFixedInput'' (fixedInputAmount B args))
         [0..<length (msAddressRoute args)]) (\<lambda>swaps. Inr (concat swaps))"

definition multiPairFixedOutputSwaps :: "bignumber \<Rightarrow> multi_swap_args \<Rightarrow> typed_value list res" where
  "multiPairFixedOutputSwaps B args =
     res_bind (res_map (pairSwap args ''swapTokensFixedOutput'' (fixedOutputAmount B args))
         [0..<length (msAddressRoute args)]) (\<lambda>swaps. Inr (concat swaps))"

definition wrapIfNeeded :: "dex_config \<Rightarrow> chain_view \<Rightarrow> string \<Rightarrow> string \<Rightarrow> bn \<Rightarrow> transaction list" where
  "wrapIfNeeded cfg V sender tid amt =
     (if tid = EGLDIdentifier cfg then [wrapEgld cfg V sender amt] else [])"

definition unwrapIfNeeded :: "dex_config \<Rightarrow> chain_view \<Rightarrow> string \<Rightarrow> string \<Rightarrow> bn \<Rightarrow> transaction list" where
  "unwrapIfNeeded cfg V sender tid amt =
     (if tid = EGLDIdentifier cfg then [unwrapEgld cfg V sender amt] else [])"

definition multiPairSwap ::
  "bignumber \<Rightarrow> dex_config \<Rightarrow> chain_view \<Rightarrow> string \<Rightarrow> multi_swap_args \<Rightarrow> transaction list res" where
  "multiPairSwap B cfg V sender args =
     (let amounts = msIntermediaryAmounts args;
          wrap = wrapIfNeeded cfg V sender (msTokenInID args) (amount_at amounts 0);
          unwrap = unwrapIfNeeded cfg V sender (msTokenOutID args) (amount_at amounts (length amounts - 1));
          amountIn = bn_plus B (amount_at amounts 0)
            (bn_times B (amount_at amounts 0)
              (bn_number B (if msSwapType args = FixedOutput then msTolerance args else 0)));
          gasL = int (length (msAddressRoute args)) * gas cfg ''router.multiPairSwapMultiplier''
      in res_bind (if msSwapType args = FixedInput then multiPairFixedInputSwaps B args
                   else multiPairFixedOutputSwaps B args) (\<lambda>transactionArgs.
         res_bind (token_at (msTokenRoute args) 0) (\<lambda>token.
           Inr (wrap @
             [(contract_call cfg (routerContract V) ''multiPairSwap'' transactionArgs gasL)
                \<lparr>payments := [fungible token (bn_integer B amountIn)]\<rparr>] @ unwrap))))"

definition getTransactions ::
  "bignumber \<Rightarrow> dex_config \<Rightarrow> chain_view \<Rightarrow> string \<Rightarrow> auto_route_model \<Rightarrow> transaction list res" where
  "getTransactions B cfg V sender parent =
     (case armPairs parent of
        [pair] \<Rightarrow>
          (if armSwapType parent = FixedInput then
             swapTokensFixedInput B cfg V sender
               \<lparr>swPairAddress = address pair, swTokenInID = armTokenInID parent, swAmountIn = armAmountIn parent,
                swTokenOutID = armTokenOutID parent, swAmountOut = armAmountOut parent,
                swTolerance = armTolerance parent\<rparr>
           else
             swapTokensFixedOutput B cfg V sender
               \<lparr>swPairAddress = address pair, swTokenInID = armTokenInID parent, swAmountIn = armAmountIn parent,
                swTokenOutID = armTokenOutID parent, swAmountOut = armAmountOut parent,
                swTolerance = armTolerance parent\<rparr>)
      | _ \<Rightarrow>
          if (case armTokensPriceDeviationPercent parent of
                None \<Rightarrow> False | Some d \<Rightarrow> js_above d (armMaxPriceDeviationPercent parent))
          then Inl (JsError ''Spread too big!'')
          else multiPairSwap B cfg V sender
            \<lparr>msSwapType = armSwapType parent, msTokenInID = armTokenInID parent,
             msTokenOutID = armTokenOutID parent, msTokenRoute = armTokenRoute parent,
             msIntermediaryAmounts = armIntermediaryAmounts parent,
             msAddressRoute = map address (armPairs parent), msTolerance = armTolerance parent\<rparr>)"

section \<open>The path cache\<close>

text \<open>
  The router states a history of quotes can lead to, the latest list of active pairs first:
  a quote looks its tokens up, an entry expires.
\<close>

inductive router_after :: "pair_model list list \<Rightarrow> router_state \<Rightarrow> bool" where
  start: "router_after [] \<lparr>pathCache = Map.empty, graphStatic = initial_static\<rparr>"
| quoted: "router_after hist s \<Longrightarrow> router_after (pairs # hist) (snd (cachedAllPaths pairs src dst s))"
| expired: "router_after hist s \<Longrightarrow> router_after hist (expirePaths src dst s)"

lemma getAllPaths_newGraph:
  obtains paths where "getAllPaths (newGraph pairs) src dst = Some paths"
    "\<forall>p. p \<in> set paths \<longleftrightarrow> route (newGraph pairs) src dst p"
  using getAllPaths_run [OF closed_newGraph, of pairs src dst] by metis

text \<open>The two cases of a lookup.\<close>

lemma cachedAllPaths_hit:
  "pathCache s (src, dst) = Some paths \<Longrightarrow> cachedAllPaths pairs src dst s = (paths, s)"
  by (simp add: cachedAllPaths_def)

lemma cachedAllPaths_miss:
  assumes "pathCache s (src, dst) = None" "getInstance pairs (graphStatic s) = (newGraph ps, gs)"
  obtains paths where "getAllPaths (newGraph ps) src dst = Some paths"
    "\<forall>p. p \<in> set paths \<longleftrightarrow> route (newGraph ps) src dst p"
    "cachedAllPaths pairs src dst s =
      (paths, \<lparr>pathCache = (pathCache s)((src, dst) \<mapsto> paths), graphStatic = gs\<rparr>)"
proof -
  obtain paths where "getAllPaths (newGraph ps) src dst = Some paths"
    "\<forall>p. p \<in> set paths \<longleftrightarrow> route (newGraph ps) src dst p"
    by (rule getAllPaths_newGraph)
  then show ?thesis using assms that by (simp add: cachedAllPaths_def)
qed

text \<open>What a reachable state keeps: every cached list is the simple routes of the graph of a past list of pairs.\<close>

definition routes_of_past :: "pair_model list list \<Rightarrow> string \<Rightarrow> string \<Rightarrow> string list list \<Rightarrow> bool" where
  "routes_of_past hist src dst paths \<longleftrightarrow>
     (\<exists>ps\<in>set hist. \<forall>p. p \<in> set paths \<longleftrightarrow> route (newGraph ps) src dst p)"

definition router_inv :: "pair_model list list \<Rightarrow> router_state \<Rightarrow> bool" where
  "router_inv hist s \<longleftrightarrow>
     (\<forall>src dst paths. pathCache s (src, dst) = Some paths \<longrightarrow> routes_of_past hist src dst paths) \<and>
     (\<forall>g. instanceGraph (graphStatic s) = Some g \<longrightarrow>
        (\<exists>ps\<in>set hist. g = newGraph ps \<and> pairsLength (graphStatic s) = length ps))"

lemma getInstance_built:
  assumes "\<forall>g. instanceGraph st = Some g \<longrightarrow> (\<exists>ps\<in>set hist. g = newGraph ps \<and> pairsLength st = length ps)"
  obtains ps gs where "getInstance pairs st = (newGraph ps, gs)" "ps \<in> set (pairs # hist)"
    "instanceGraph gs = Some (newGraph ps)" "pairsLength gs = length ps"
proof (cases "\<exists>g. instanceGraph st = Some g \<and> pairsLength st = length pairs")
  case True
  then show ?thesis using assms that by (fastforce simp: getInstance_def)
next
  case False
  then have "getInstance pairs st = (newGraph pairs, \<lparr>pairsLength = length pairs, instanceGraph = Some (newGraph pairs)\<rparr>)"
    by (auto simp: getInstance_def split: option.splits)
  then show ?thesis using that [of pairs "\<lparr>pairsLength = length pairs, instanceGraph = Some (newGraph pairs)\<rparr>"]
    by simp
qed

lemma router_inv_quoted:
  assumes "router_inv hist s"
  shows "router_inv (pairs # hist) (snd (cachedAllPaths pairs src dst s)) \<and>
    routes_of_past (pairs # hist) src dst (fst (cachedAllPaths pairs src dst s))"
proof (cases "pathCache s (src, dst)")
  case (Some paths)
  then show ?thesis using assms
    by (auto simp: cachedAllPaths_hit router_inv_def routes_of_past_def)
next
  case None
  obtain ps gs where g: "getInstance pairs (graphStatic s) = (newGraph ps, gs)" "ps \<in> set (pairs # hist)"
    "instanceGraph gs = Some (newGraph ps)" "pairsLength gs = length ps"
    using getInstance_built [of "graphStatic s" hist pairs] assms unfolding router_inv_def by metis
  obtain paths where p: "\<forall>p. p \<in> set paths \<longleftrightarrow> route (newGraph ps) src dst p"
    "cachedAllPaths pairs src dst s = (paths, \<lparr>pathCache = (pathCache s)((src, dst) \<mapsto> paths), graphStatic = gs\<rparr>)"
    by (rule cachedAllPaths_miss [OF None g(1)])
  have "routes_of_past (pairs # hist) src dst paths"
    unfolding routes_of_past_def using p(1) g(2) by blast
  moreover have "routes_of_past (pairs # hist) a b q" if "pathCache s (a, b) = Some q" for a b q
    using assms that unfolding router_inv_def routes_of_past_def by (meson list.set_intros(2))
  ultimately show ?thesis using p(2) g(2-4) by (auto simp: router_inv_def)
qed

lemma router_after_inv: "router_after hist s \<Longrightarrow> router_inv hist s"
proof (induction rule: router_after.induct)
  case start
  then show ?case by (simp add: router_inv_def initial_static_def)
next
  case (quoted hist s pairs src dst)
  then show ?case using router_inv_quoted by blast
next
  case (expired hist s src dst)
  then show ?case by (simp add: router_inv_def expirePaths_def)
qed

section \<open>Pairs of a route\<close>






section \<open>A quote\<close>

lemma toWrappedIfEGLD_pair:
  "toWrappedIfEGLD cfg V [a, b] = [wrapIfEGLD cfg V a, wrapIfEGLD cfg V b]"
  by (auto simp: toWrappedIfEGLD_def wrapIfEGLD_def)

text \<open>With the feature on, a quote for a given input is \<open>multiSwap\<close> on the active pairs.\<close>

lemma swap_given_input:
  assumes "arAmountIn args = Some a" "arAmountOut args = None"
  shows "swap B cfg V True args s =
    multiSwap B cfg V args (wrapIfEGLD cfg V (arTokenInID args)) (wrapIfEGLD cfg V (arTokenOutID args))
      (getAllActivePairs V) (tokenMetadata V (wrapIfEGLD cfg V (arTokenInID args)))
      (tokenMetadata V (wrapIfEGLD cfg V (arTokenOutID args))) FixedInput s"
proof -
  have "args\<lparr>arAmountIn := Some a\<rparr> = args" using assms(1) by (cases args) simp
  then have "args\<lparr>arAmountIn := setDefaultAmountInIfNeeded B args tok\<rparr> = args" for tok
    by (simp only: setDefaultAmountInIfNeeded_def assms option.distinct simp_thms if_False)
  then show ?thesis
    by (simp add: swap_def toWrappedIfEGLD_pair getSwapType_def Let_def assms)
qed

definition fresh_paths :: "pair_model list \<Rightarrow> string \<Rightarrow> string \<Rightarrow> router_state \<Rightarrow> bool" where
  "fresh_paths pairs src dst s \<longleftrightarrow>
     (\<forall>p. p \<in> set (fst (cachedAllPaths pairs src dst s)) \<longleftrightarrow> route (newGraph pairs) src dst p)"

lemma fresh_paths_start:
  "fresh_paths pairs src dst \<lparr>pathCache = Map.empty, graphStatic = initial_static\<rparr>"
proof -
  let ?s = "\<lparr>pathCache = Map.empty, graphStatic = initial_static\<rparr>"
  have "getInstance pairs (graphStatic ?s) =
      (newGraph pairs, \<lparr>pairsLength = length pairs, instanceGraph = Some (newGraph pairs)\<rparr>)"
    by (simp add: getInstance_def initial_static_def)
  from cachedAllPaths_miss [OF _ this, of src dst] show ?thesis
    unfolding fresh_paths_def by (metis fst_conv router_state.select_convs(1))
qed

lemma lockedOnRoute_iff:
  "lockedOnRoute V addresses \<longleftrightarrow> 1 < length addresses \<and> (\<exists>addr\<in>set addresses. getLockedTokensInfo V addr \<noteq> None)"
  by (auto simp: lockedOnRoute_def list_ex_iff)





definition no_paths :: router_state where
  "no_paths = \<lparr>pathCache = Map.empty, graphStatic = initial_static\<rparr>"

definition demo_quote :: "string \<Rightarrow> string \<Rightarrow> auto_router_args" where
  "demo_quote a b = \<lparr>arTokenInID = a, arTokenOutID = b, arAmountIn = Some (bn_of_int 100),
     arAmountOut = None, arTolerance = 1 / 100\<rparr>"

lemma demo_active: "getAllActivePairs demo_view =
    [\<lparr>address = ''pair'', firstToken = \<lparr>tokIdentifier = ''WEGLD'', decimals = 2\<rparr>,
      secondToken = \<lparr>tokIdentifier = ''MEX'', decimals = 2\<rparr>,
      info = \<lparr>reserves0 = bn_of_int 1000, reserves1 = bn_of_int 4000, totalSupply = bn_of_int 500\<rparr>,
      totalFeePercent = 0\<rparr>]"
  by (simp add: getAllActivePairs_def getPair_def demo_view_def getFirstToken_def getSecondToken_def)

lemma demo_active_route:
  "\<forall>pair\<in>set (getAllActivePairs demo_view). valid_pair pair"
  "route (newGraph (getAllActivePairs demo_view)) ''WEGLD'' ''MEX'' [''WEGLD'', ''MEX'']"
  "outAlong bn_js (getAllActivePairs demo_view) [''WEGLD'', ''MEX''] (bn_of_int 100) \<noteq> Fin 0"
proof -
  show "\<forall>pair\<in>set (getAllActivePairs demo_view). valid_pair pair"
    unfolding demo_active valid_pair_def valid_fee_def
    by simp
  show "route (newGraph (getAllActivePairs demo_view)) ''WEGLD'' ''MEX'' [''WEGLD'', ''MEX'']"
    by (simp add: demo_active route_def edge_newGraph pair_trades_def)
  have "hopOut bn_js p ''WEGLD'' (bn_of_int 100) = bn_of_int (half_up (round_dp 20 (4000 / 11)))"
    if "p = hd (getAllActivePairs demo_view)" for p
    using js.getAmountOut_fin [of 0 100000 100 1000 4000] js.number_int [of 100000]
    by (simp add: that demo_active hopOut_def getOrderedReserves_def fee_complement_0)
  moreover have "300 \<le> half_up (round_dp 20 (4000 / 11))"
    using round_dp_mono [of 300 "4000 / 11" 20] round_dp_of_int [of 20 300] by (intro half_up_ge_int) simp
  ultimately show "outAlong bn_js (getAllActivePairs demo_view) [''WEGLD'', ''MEX''] (bn_of_int 100) \<noteq> Fin 0"
    by (simp add: demo_active getPairByTokens_def)
qed


text \<open>The state after a quote is the old one or that of one lookup.\<close>

lemma snd_swap:
  "snd (swap B cfg V st args s) = s \<or>
   (\<exists>a b. snd (swap B cfg V st args s) = snd (cachedAllPaths (getAllActivePairs V) a b s))"
proof -
  have "snd (multiSwap B cfg V args' a b pairs ti to' t s) = snd (cachedAllPaths pairs a b s)"
    for args' a b pairs ti to' t
    by (simp add: multiSwap_def split: prod.split)
  then show ?thesis
    unfolding swap_def toWrappedIfEGLD_pair Let_def by (fastforce split: sum.split option.split)
qed

text \<open>
  C12. Whatever the history of quotes and expiries of the path cache, every list of paths in
  the cache after the next quote is exactly the simple routes between its two tokens in the
  graph of one of the lists of active pairs seen so far, though not always the latest.
\<close>

theorem cached_paths_are_routes:
  assumes "router_after hist s"
  shows "\<exists>hist'. router_after hist' (snd (swap B cfg V multiSwapStatus args s)) \<and>
    set hist' \<subseteq> insert (getAllActivePairs V) (set hist) \<and>
    (\<forall>src dst paths. pathCache (snd (swap B cfg V multiSwapStatus args s)) (src, dst) = Some paths \<longrightarrow>
      (\<exists>ps\<in>set hist'. \<forall>p. p \<in> set paths \<longleftrightarrow> route (newGraph ps) src dst p))"
proof -
  obtain hist' where h: "router_after hist' (snd (swap B cfg V multiSwapStatus args s))"
    "set hist' \<subseteq> insert (getAllActivePairs V) (set hist)"
  proof (cases "snd (swap B cfg V multiSwapStatus args s) = s")
    case True
    then show ?thesis using assms that [of hist] by auto
  next
    case False
    then obtain a b where "snd (swap B cfg V multiSwapStatus args s) =
        snd (cachedAllPaths (getAllActivePairs V) a b s)" using snd_swap by metis
    then show ?thesis using router_after.quoted [OF assms] that [of "getAllActivePairs V # hist"] by simp
  qed
  then show ?thesis using router_after_inv [OF h(1)] unfolding router_inv_def routes_of_past_def by blast
qed

theorem cached_paths_are_routes_witness:
  "\<exists>hist'. router_after hist' (snd (swap bn_js demo_cfg demo_view True (demo_quote ''EGLD'' ''MEX'') no_paths)) \<and>
     set hist' \<subseteq> {getAllActivePairs demo_view}"
  using cached_paths_are_routes [OF router_after.start, of bn_js demo_cfg demo_view True "demo_quote ''EGLD'' ''MEX''"]
  unfolding no_paths_def by auto

context bignumber_lib begin

text \<open>The tolerance of a hop: \<open>multiplier / n\<close> of the swap's, up to rounding.\<close>

lemma toleranceAmount_fin:
  fixes multiplier :: nat
  assumes "amount_at (msIntermediaryAmounts args) (index + 1) = Fin a"
    "0 \<le> msTolerance args" "msAddressRoute args \<noteq> []"
  defines "x \<equiv> of_nat multiplier * msTolerance args / of_nat (length (msAddressRoute args))"
  obtains w where "toleranceAmount B args index multiplier = Fin (a * w)"
    "x * (1 - 1 / 2 ^ 50) \<le> w" "w \<le> x * (1 + 1 / 2 ^ 50)" "0 \<le> w"
proof -
  let ?n = "rat_of_nat (length (msAddressRoute args))" and ?k = "rat_of_nat multiplier"
  let ?t = "msTolerance args / ?n"
  have n: "0 < ?n" using assms(3) by simp
  have t: "0 \<le> ?t" using n assms(2) by simp
  have x: "x = ?k * ?t" "0 \<le> x" using n assms(2) by (simp_all add: x_def)
  define y where "y = ?k * fl64 ?t"
  have y: "x * (1 - 1 / 2 ^ 53) \<le> y" "y \<le> x * (1 + 1 / 2 ^ 53)"
    using mult_left_mono [OF fl64_factor(1) [OF t], of ?k] mult_left_mono [OF fl64_factor(2) [OF t], of ?k]
    by (simp_all add: y_def x(1) mult.assoc)
  have y0: "0 \<le> y" using fl64_nonneg [OF t] by (simp add: y_def)
  obtain w where w: "bn_number B (fl64 y) = Fin w" using number_fin by blast
  note z = fl64_factor [OF y0] and wz = number_factor [OF fl64_nonneg [OF y0] w]
  note b = three_roundings [OF x(2) y z wz]
  have "0 \<le> w" using b(1) x(2) mult_nonneg_nonneg [of x "1 - 1 / 2 ^ 50"] by simp
  moreover have "toleranceAmount B args index multiplier = Fin (a * w)"
    using assms(1) w by (simp add: toleranceAmount_def intermediaryTolerance_def times_fin y_def)
  ultimately show ?thesis using b that by blast
qed

end

definition swapOfHop :: "multi_swap_args \<Rightarrow> string \<Rightarrow> (nat \<Rightarrow> bn) \<Rightarrow> nat \<Rightarrow> typed_value list" where
  "swapOfHop args f amt i =
     [AddressV (msAddressRoute args ! i), BytesUTF8 f, BytesUTF8 (msTokenRoute args ! Suc i), BigUInt (amt i)]"

lemma hop_arguments:
  assumes "length (msTokenRoute args) = Suc (length (msAddressRoute args))"
  shows "multiPairFixedInputSwaps B args =
      Inr (concat (map (swapOfHop args ''swapTokensFixedInput'' (fixedInputAmount B args)) [0..<length (msAddressRoute args)]))"
    "multiPairFixedOutputSwaps B args =
      Inr (concat (map (swapOfHop args ''swapTokensFixedOutput'' (fixedOutputAmount B args)) [0..<length (msAddressRoute args)]))"
proof -
  have "pairSwap args f amt i = Inr (swapOfHop args f amt i)" if "i \<in> set [0..<length (msAddressRoute args)]" for f amt i
    using that assms by (simp add: pairSwap_def swapOfHop_def token_at_def js_index_def)
  then have eq: "res_map (pairSwap args f amt) [0..<length (msAddressRoute args)] =
      Inr (map (swapOfHop args f amt) [0..<length (msAddressRoute args)])" for f amt
    by (rule res_map_Inr_map)
  show "multiPairFixedInputSwaps B args =
      Inr (concat (map (swapOfHop args ''swapTokensFixedInput'' (fixedInputAmount B args)) [0..<length (msAddressRoute args)]))"
    "multiPairFixedOutputSwaps B args =
      Inr (concat (map (swapOfHop args ''swapTokensFixedOutput'' (fixedOutputAmount B args)) [0..<length (msAddressRoute args)]))"
    unfolding multiPairFixedInputSwaps_def multiPairFixedOutputSwaps_def by (simp_all add: eq)
qed

lemma length_swapOfHop: "length (swapOfHop args f amt i) = 4"
  by (simp add: swapOfHop_def)

lemma length_swapOfHops: "length (concat (map (swapOfHop args f amt) [0..<n])) = 4 * n"
  by (subst length_concat_uniform [of _ 4]) (auto simp: length_swapOfHop)

lemma slice_swapOfHops:
  assumes "i < n"
  shows "map (\<lambda>j. concat (map (swapOfHop args f amt) [0..<n]) ! (4 * i + j)) [0, 1, 2, 3] = swapOfHop args f amt i"
proof -
  have "concat (map (swapOfHop args f amt) [0..<n]) ! (4 * i + j) = swapOfHop args f amt i ! j"
    if "j < 4" for j
    using that assms by (subst nth_concat_uniform) (auto simp: length_swapOfHop)
  then have "map (\<lambda>j. concat (map (swapOfHop args f amt) [0..<n]) ! (4 * i + j)) [0, 1, 2, 3] =
      map (\<lambda>j. swapOfHop args f amt i ! j) [0, 1, 2, 3]"
  proof (intro map_cong refl)
    fix j :: nat assume eq: "\<And>j. j < 4 \<Longrightarrow> concat (map (swapOfHop args f amt) [0..<n]) ! (4 * i + j) = swapOfHop args f amt i ! j"
      and "j \<in> set [0, 1, 2, 3]"
    then show "concat (map (swapOfHop args f amt) [0..<n]) ! (4 * i + j) = swapOfHop args f amt i ! j"
      by (intro eq) auto
  qed
  then show ?thesis by (simp add: swapOfHop_def)
qed

text \<open>The share of the tolerance a hop gives up.\<close>

definition hopShare :: "multi_swap_args \<Rightarrow> nat \<Rightarrow> rat" where
  "hopShare args i =
     of_nat (length (msAddressRoute args) - i) * msTolerance args / of_nat (length (msAddressRoute args))"

lemma hopShare_le:
  assumes "0 \<le> msTolerance args" "msAddressRoute args \<noteq> []"
  shows "0 \<le> hopShare args i" "hopShare args i \<le> msTolerance args"
proof -
  have "msTolerance args * of_nat (length (msAddressRoute args) - i) \<le>
      msTolerance args * of_nat (length (msAddressRoute args))"
    using assms(1) by (intro mult_left_mono) simp_all
  then show "0 \<le> hopShare args i" "hopShare args i \<le> msTolerance args"
    using assms by (simp_all add: hopShare_def divide_le_eq mult.commute)
qed

context bignumber_lib begin

lemma fixedInputAmount_fin:
  assumes "amount_at (msIntermediaryAmounts args) (Suc i) = bn_of_int a" "0 \<le> a"
    "0 \<le> msTolerance args" "msTolerance args \<le> 1 / 2" "msAddressRoute args \<noteq> []"
  obtains m where "fixedInputAmount B args i = bn_of_int m" "0 \<le> m" "m \<le> a"
    "of_int a * (1 - hopShare args i * (1 + 1 / 2 ^ 50)) - 1 / 2 \<le> of_int m"
    "of_int m \<le> of_int a * (1 - hopShare args i * (1 - 1 / 2 ^ 50)) + 1 / 2"
proof -
  obtain w where w: "toleranceAmount B args i (length (msAddressRoute args) - i) = Fin (of_int a * w)"
    "hopShare args i * (1 - 1 / 2 ^ 50) \<le> w" "w \<le> hopShare args i * (1 + 1 / 2 ^ 50)" "0 \<le> w"
    using toleranceAmount_fin [of args i "of_int a" "length (msAddressRoute args) - i"] assms
    unfolding hopShare_def by auto
  have "w \<le> 1"
  proof -
    have "hopShare args i * (1 + 1 / 2 ^ 50) \<le> 1 / 2 * (1 + 1 / 2 ^ 50)"
      using hopShare_le [OF assms(3,5), of i] assms(4) by (intro mult_right_mono) simp_all
    then show ?thesis using w(3) by simp
  qed
  define v where "v = rat_of_int a * (1 - w)"
  have v: "0 \<le> v" "v \<le> of_int a"
    using \<open>w \<le> 1\<close> w(4) assms(2) by (simp_all add: v_def mult_left_le)
  have eq: "fixedInputAmount B args i = bn_of_int (half_up v)"
    using assms(1) w(1) by (simp add: fixedInputAmount_def minus_fin integer_fin v_def right_diff_distrib)
  have lo: "of_int a * (1 - hopShare args i * (1 + 1 / 2 ^ 50)) \<le> v"
    and hi: "v \<le> of_int a * (1 - hopShare args i * (1 - 1 / 2 ^ 50))"
    unfolding v_def using w(2,3) assms(2) by (intro mult_left_mono; simp)+
  have "\<bar>of_int (half_up v) - v\<bar> \<le> 1 / 2" by (rule half_up_error)
  then have "v - 1 / 2 \<le> of_int (half_up v)" "of_int (half_up v) \<le> v + 1 / 2"
    by (simp_all only: abs_le_iff) linarith+
  then show ?thesis
    using that [OF eq half_up_nonneg [OF v(1)] half_up_le_int [OF v(2)]] lo hi by linarith
qed

end

text \<open>
  The router call of a route of \<open>n\<close> pairs for a given input has four arguments per hop, in
  the order of the route: the pair, the endpoint, the token the hop buys and the least amount
  accepted, which lies between the quoted amount less the whole tolerance and the quoted amount:
  hop \<open>i\<close> gives up \<open>(n - i) / n\<close> of the tolerance, up to the rounding of the arithmetic.
\<close>

theorem fixed_input_hop_minimums:
  assumes "bignumber_lib B" "msAddressRoute args \<noteq> []"
    "length (msTokenRoute args) = Suc (length (msAddressRoute args))"
    "msIntermediaryAmounts args = map bn_of_int amounts" "length amounts = Suc (length (msAddressRoute args))"
    "\<forall>a\<in>set amounts. 0 \<le> a" "0 \<le> msTolerance args" "msTolerance args \<le> 1 / 2"
  shows "\<exists>swaps. multiPairFixedInputSwaps B args = Inr swaps \<and> length swaps = 4 * length (msAddressRoute args) \<and>
    (\<forall>i<length (msAddressRoute args). \<exists>m.
      map (\<lambda>j. swaps ! (4 * i + j)) [0, 1, 2, 3] =
        [AddressV (msAddressRoute args ! i), BytesUTF8 ''swapTokensFixedInput'',
         BytesUTF8 (msTokenRoute args ! Suc i), BigUInt (bn_of_int m)] \<and>
      0 \<le> m \<and> m \<le> amounts ! Suc i \<and>
      of_int (amounts ! Suc i) * (1 - hopShare args i * (1 + 1 / 2 ^ 50)) - 1 / 2 \<le> rat_of_int m)"
proof -
  let ?n = "length (msAddressRoute args)"
  let ?swaps = "concat (map (swapOfHop args ''swapTokensFixedInput'' (fixedInputAmount B args)) [0..<?n])"
  show ?thesis
  proof (intro exI [of _ ?swaps] conjI allI impI)
    show "multiPairFixedInputSwaps B args = Inr ?swaps" by (rule hop_arguments(1) [OF assms(3)])
    show "length ?swaps = 4 * ?n" by (rule length_swapOfHops)
    fix i assume i: "i < ?n"
    then have "amount_at (msIntermediaryAmounts args) (Suc i) = bn_of_int (amounts ! Suc i)"
      "0 \<le> amounts ! Suc i" using assms(4-6) by (simp_all add: amount_at_def js_index_def given_def)
    then obtain m where m: "fixedInputAmount B args i = bn_of_int m" "0 \<le> m" "m \<le> amounts ! Suc i"
      "of_int (amounts ! Suc i) * (1 - hopShare args i * (1 + 1 / 2 ^ 50)) - 1 / 2 \<le> rat_of_int m"
      using bignumber_lib.fixedInputAmount_fin [OF assms(1) _ _ assms(7,8,2)] by metis
    then show "\<exists>m. map (\<lambda>j. ?swaps ! (4 * i + j)) [0, 1, 2, 3] =
        [AddressV (msAddressRoute args ! i), BytesUTF8 ''swapTokensFixedInput'',
         BytesUTF8 (msTokenRoute args ! Suc i), BigUInt (bn_of_int m)] \<and>
      0 \<le> m \<and> m \<le> amounts ! Suc i \<and>
      of_int (amounts ! Suc i) * (1 - hopShare args i * (1 + 1 / 2 ^ 50)) - 1 / 2 \<le> rat_of_int m"
      unfolding slice_swapOfHops [OF i] swapOfHop_def by blast
  qed
qed

definition demo_route_args :: "swap_type \<Rightarrow> string \<Rightarrow> string \<Rightarrow> multi_swap_args" where
  "demo_route_args t a b = \<lparr>msSwapType = t, msTokenInID = a, msTokenOutID = b,
     msTokenRoute = [''WEGLD'', ''MEX'', ''USDC''],
     msIntermediaryAmounts = map bn_of_int [1000, 4000, 2000], msAddressRoute = [''p1'', ''p2''],
     msTolerance = 1 / 100\<rparr>"

theorem fixed_input_hop_minimums_witness:
  "\<exists>swaps. multiPairFixedInputSwaps bn_js (demo_route_args FixedInput ''EGLD'' ''USDC'') = Inr swaps \<and> length swaps = 8"
  using fixed_input_hop_minimums
    [OF js.bignumber_lib_axioms, of "demo_route_args FixedInput ''EGLD'' ''USDC''" "[1000, 4000, 2000]"]
  by (auto simp: demo_route_args_def)

lemma amount_at_map:
  "i < length amounts \<Longrightarrow> amount_at (map bn_of_int amounts) i = bn_of_int (amounts ! i)"
  by (simp add: amount_at_def js_index_def given_def)

text \<open>
  C13. A route of several pairs that ends in the native token unwraps the quoted amount, although
  the last hop only guarantees less: when the last hop's share of the tolerance is a unit or
  more, the least amount it accepts is below the amount the third transaction unwraps.
\<close>

theorem unwraps_more_than_guaranteed:
  assumes "bignumber_lib B" "msAddressRoute args \<noteq> []" "msSwapType args = FixedInput"
    "msTokenOutID args = EGLDIdentifier cfg"
    "length (msTokenRoute args) = Suc (length (msAddressRoute args))"
    "msIntermediaryAmounts args = map bn_of_int amounts" "length amounts = Suc (length (msAddressRoute args))"
    "0 \<le> msTolerance args" "msTolerance args \<le> 1 / 2"
    "of_nat (length (msAddressRoute args)) \<le> of_int (last amounts) * msTolerance args"
  shows "\<exists>wrap call m.
    multiPairSwap B cfg V sender args = Inr (wrap @ [call, unwrapEgld cfg V sender (bn_of_int (last amounts))]) \<and>
    endpointArgs call ! (4 * length (msAddressRoute args) - 1) = BigUInt (bn_of_int m) \<and> m < last amounts"
proof -
  let ?n = "length (msAddressRoute args)"
  obtain k where k: "?n = Suc k" using assms(2) by (cases "msAddressRoute args") auto
  have last: "last amounts = amounts ! Suc k" using assms(7) k by (simp add: last_conv_nth flip: length_0_conv)
  have n: "0 < rat_of_nat ?n" using k by simp
  have pos: "0 \<le> last amounts"
  proof (rule ccontr)
    assume "\<not> 0 \<le> last amounts"
    then have "of_int (last amounts) * msTolerance args \<le> 0" using assms(8) by (intro mult_nonpos_nonneg) simp_all
    then show False using assms(10) n by linarith
  qed
  have amt: "amount_at (msIntermediaryAmounts args) (Suc k) = bn_of_int (last amounts)"
    unfolding assms(6) last using assms(7) k by (simp add: amount_at_map)
  obtain m where m: "fixedInputAmount B args k = bn_of_int m"
    "of_int m \<le> of_int (last amounts) * (1 - hopShare args k * (1 - 1 / 2 ^ 50)) + 1 / 2"
    using bignumber_lib.fixedInputAmount_fin [OF assms(1) amt pos assms(8,9,2)] by metis
  have "1 \<le> of_int (last amounts) * hopShare args k"
    using assms(10) n by (simp add: hopShare_def k le_divide_eq)
  then have "1 - 1 / 2 ^ 50 \<le> of_int (last amounts) * hopShare args k * (1 - 1 / 2 ^ 50)"
    using mult_right_mono [of 1 _ "1 - 1 / 2 ^ 50 :: rat"] by simp
  then have "rat_of_int m < of_int (last amounts)"
    using m(2) unfolding right_diff_distrib mult.assoc by simp
  then have "m < last amounts" by simp
  let ?swaps = "concat (map (swapOfHop args ''swapTokensFixedInput'' (fixedInputAmount B args)) [0..<?n])"
  have slice: "map (\<lambda>j. ?swaps ! (4 * k + j)) [0, 1, 2, 3] =
      swapOfHop args ''swapTokensFixedInput'' (fixedInputAmount B args) k"
    by (rule slice_swapOfHops) (simp add: k)
  have "4 * k + 3 = 4 * ?n - 1" using k by simp
  then have arg: "?swaps ! (4 * ?n - 1) = BigUInt (bn_of_int m)"
    using slice m(1) by (simp add: swapOfHop_def)
  have final: "amount_at (msIntermediaryAmounts args) (length (msIntermediaryAmounts args) - 1) = bn_of_int (last amounts)"
    using amt assms(6,7) k by simp
  have head: "\<exists>t. token_at (msTokenRoute args) 0 = Inr t"
    using assms(5) by (simp add: token_at_def js_index_def)
  then obtain t where t: "token_at (msTokenRoute args) 0 = Inr t" by blast
  let ?call = "(contract_call cfg (routerContract V) ''multiPairSwap'' ?swaps
      (int ?n * gas cfg ''router.multiPairSwapMultiplier''))
    \<lparr>payments := [fungible t (bn_integer B (bn_plus B (amount_at (msIntermediaryAmounts args) 0)
      (bn_times B (amount_at (msIntermediaryAmounts args) 0) (bn_number B 0))))]\<rparr>"
  have "multiPairSwap B cfg V sender args =
      Inr (wrapIfNeeded cfg V sender (msTokenInID args) (amount_at (msIntermediaryAmounts args) 0) @
        [?call, unwrapEgld cfg V sender (bn_of_int (last amounts))])"
    unfolding multiPairSwap_def Let_def hop_arguments(1) [OF assms(5)] final
    by (simp add: assms(3,4) t unwrapIfNeeded_def)
  moreover have "endpointArgs ?call ! (4 * ?n - 1) = BigUInt (bn_of_int m)"
    using arg by (simp add: contract_call_def)
  ultimately show ?thesis using \<open>m < last amounts\<close> by blast
qed

theorem unwraps_more_than_guaranteed_witness:
  "\<exists>wrap call m. multiPairSwap bn_js demo_cfg demo_view ''alice'' (demo_route_args FixedInput ''USDT'' ''EGLD'') =
      Inr (wrap @ [call, unwrapEgld demo_cfg demo_view ''alice'' (bn_of_int 2000)]) \<and>
    endpointArgs call ! 7 = BigUInt (bn_of_int m) \<and> m < 2000"
  using unwraps_more_than_guaranteed [OF js.bignumber_lib_axioms, of "demo_route_args FixedInput ''USDT'' ''EGLD''"
      demo_cfg "[1000, 4000, 2000]" demo_view "''alice''"]
  by (simp add: demo_route_args_def) (simp add: demo_cfg_def)

text \<open>
  Quoting the native token against its wrapped form finds the route of one token and no
  pair: the quote promises the whole amount, and the transactions built from it wrap the amount
  and then call the router with an empty list of swaps, paying the amount to it.
\<close>

theorem wrapping_quoted_as_empty_route:
  assumes "bignumber_lib B" "\<forall>pair\<in>set (getAllActivePairs V). valid_pair pair"
    "arTokenInID args = EGLDIdentifier cfg" "arTokenOutID args = wrappedEgldTokenID V"
    "arAmountIn args = Some (bn_of_int a)" "arAmountOut args = None" "0 < a"
    "wrappedEgldTokenID V \<noteq> EGLDIdentifier cfg"
    "fresh_paths (getAllActivePairs V) (wrappedEgldTokenID V) (wrappedEgldTokenID V) s"
  shows "\<exists>m. fst (swap B cfg V True args s) = Inr m \<and> armPairs m = [] \<and>
    armTokenRoute m = [wrappedEgldTokenID V] \<and> armAmountOut m = bn_of_int a \<and>
    getTransactions B cfg V sender m =
      Inr [wrapEgld cfg V sender (bn_of_int a),
        (contract_call cfg (routerContract V) ''multiPairSwap'' [] 0)
          \<lparr>payments := [fungible (wrappedEgldTokenID V) (bn_of_int a)]\<rparr>]"
proof -
  let ?pairs = "getAllActivePairs V" and ?w = "wrappedEgldTokenID V"
  let ?paths = "fst (cachedAllPaths ?pairs ?w ?w s)"
  have ids: "wrapIfEGLD cfg V (arTokenInID args) = ?w" "wrapIfEGLD cfg V (arTokenOutID args) = ?w"
    using assms(3,4) by (simp_all add: wrapIfEGLD_def)
  have paths: "p \<in> set ?paths \<longleftrightarrow> p = [?w]" for p
    using assms(9) by (simp add: fresh_paths_def)
  have a: "0 \<le> a" using assms(7) by simp
  have "outAlong B ?pairs [?w] (bn_of_int a) \<noteq> Fin 0" using assms(7) by simp
  then have "computeBestSwapRoute B ?paths ?pairs (bn_of_int a) FixedInput \<noteq> Inl (BadRequest ''No route found'')"
    using bignumber_lib.fixedInput_none [OF assms(1,2) a, of ?paths] paths by blast
  then obtain r where r: "computeBestSwapRoute B ?paths ?pairs (bn_of_int a) FixedInput = Inr r"
    by (auto simp: computeBestSwapRoute_def Let_def split: prod.splits if_splits)
  obtain x where x: "tokenRoute r \<in> set ?paths" "bestResult r = bn_of_int x"
    "outAlong B ?pairs (tokenRoute r) (bn_of_int a) = bn_of_int x"
    "intermediaryAmounts r = pathAmountsFixedInput B ?pairs (tokenRoute r) [bn_of_int a]"
    "addressRoute r = getAddressRoute ?pairs (tokenRoute r)"
    using bignumber_lib.fixedInput_best [OF assms(1,2) a r] by metis
  have one: "tokenRoute r = [?w]" using x(1) paths by simp
  have r': "tokenRoute r = [?w]" "bestResult r = bn_of_int a" "intermediaryAmounts r = [bn_of_int a]"
    "addressRoute r = []"
    using x(2-5) by (simp_all add: one)
  have "\<exists>m. fst (swap B cfg V True args s) = Inr m"
    unfolding swap_given_input [OF assms(5,6)] ids
    using r assms(5) r'(4)
    by (cases "cachedAllPaths ?pairs ?w ?w s";
        cases "calculateExchangeRate B (decimals (tokenMetadata V ?w)) (decimals (tokenMetadata V ?w)) (bn_of_int a) (bestResult r)")
      (simp add: multiSwap_def isFixedInput_def given_def Let_def lockedOnRoute_iff)
  then obtain m where sw: "fst (swap B cfg V True args s) = Inr m" by blast
  then have "fst (multiSwap B cfg V args ?w ?w ?pairs (tokenMetadata V ?w) (tokenMetadata V ?w) FixedInput s) = Inr m"
    unfolding swap_given_input [OF assms(5,6)] ids .
  then have m: "armTokenRoute m = [?w]" "armIntermediaryAmounts m = [bn_of_int a]" "armPairs m = []"
    "armAmountOut m = bn_of_int a" "armSwapType m = FixedInput" "armTokenInID m = EGLDIdentifier cfg"
    "armTokenOutID m = ?w" "armTokensPriceDeviationPercent m = None"
    using r r' assms(3-6)
    by (auto simp: multiSwap_def isFixedInput_def given_def Let_def split: prod.splits if_splits)
  have "bn_integer B (bn_plus B (bn_of_int a) (bn_times B (bn_of_int a) (bn_number B 0))) = bn_of_int a"
    using bignumber_lib.number_0 [OF assms(1)] bignumber_lib.times_fin [OF assms(1)]
      bignumber_lib.plus_fin [OF assms(1)] bignumber_lib.integer_fin [OF assms(1)] by simp
  then have "getTransactions B cfg V sender m =
      Inr [wrapEgld cfg V sender (bn_of_int a),
        (contract_call cfg (routerContract V) ''multiPairSwap'' [] 0)
          \<lparr>payments := [fungible ?w (bn_of_int a)]\<rparr>]"
    using assms(8)
    by (simp add: getTransactions_def m multiPairSwap_def Let_def multiPairFixedInputSwaps_def
        token_at_def js_index_def amount_at_def given_def wrapIfNeeded_def unwrapIfNeeded_def)
  then show ?thesis using sw m by blast
qed

theorem wrapping_quoted_as_empty_route_witness:
  "\<exists>m. fst (swap bn_js demo_cfg demo_view True (demo_quote ''EGLD'' ''WEGLD'') no_paths) = Inr m \<and> armPairs m = []"
proof -
  have "fresh_paths ps a b no_paths" for ps a b using fresh_paths_start unfolding no_paths_def .
  from wrapping_quoted_as_empty_route [OF js.bignumber_lib_axioms demo_active_route(1) _ _ _ _ _ _ this,
      of "demo_quote ''EGLD'' ''WEGLD''" demo_cfg 100 "''alice''"]
  show ?thesis by (simp add: demo_quote_def demo_cfg_def demo_view_def) blast
qed

end
