(* ===== verification/Energy.thy ===== *)
theory Energy
  imports DexModels
begin

text \<open>
  The energy of a user and the penalty for unlocking energy-bearing tokens early
  (\<open>src/modules/energy/services/energy.compute.service.ts\<close> and \<open>energy.service.ts\<close>).

  \<open>EnergyType\<close> is an object the code updates in place and returns; the model returns the
  updated record. Epochs and percentages are integers; a quotient of two of them can be
  NaN, so a percentage is a \<open>jsnum\<close>. The lock options, the decoded token attributes and the
  contract's own penalty query are arguments.
\<close>

section \<open>Data\<close>

record energy_entry =
  enAmount :: bn
  lastUpdateEpoch :: int
  totalLockedTokens :: bn

record lock_option =
  lockEpochs :: int
  penaltyStartPercentage :: int

definition EPOCHS_IN_MONTH :: int where
  "EPOCHS_IN_MONTH = 30"

section \<open>Depletion\<close>

text \<open>The first \<open>if\<close> of the code has an expression statement as its body and no effect.\<close>

definition depleteUserEnergy :: "bignumber \<Rightarrow> energy_entry \<Rightarrow> int \<Rightarrow> energy_entry" where
  "depleteUserEnergy B energyEntry epoch =
     (if bn_positive B (totalLockedTokens energyEntry) \<and> 0 < lastUpdateEpoch energyEntry then
        if epoch \<le> lastUpdateEpoch energyEntry then energyEntry
        else
          let epochDiff = epoch - lastUpdateEpoch energyEntry;
              energyDecrease =
                bn_times B (totalLockedTokens energyEntry) (bn_number B (of_int epochDiff))
          in energyEntry\<lparr>enAmount := bn_minus B (enAmount energyEntry) energyDecrease\<rparr>
      else energyEntry)"

definition getUserEnergy ::
  "bignumber \<Rightarrow> (string \<Rightarrow> energy_entry) \<Rightarrow> (string \<Rightarrow> energy_entry) \<Rightarrow> int \<Rightarrow> string \<Rightarrow> bool
   \<Rightarrow> energy_entry" where
  "getUserEnergy B entryRaw entryForUser epoch userAddress vmQuery =
     (if vmQuery then entryRaw userAddress
      else depleteUserEnergy B (entryForUser userAddress) epoch)"

section \<open>Penalty\<close>

definition linearInterpolation :: "int \<Rightarrow> int \<Rightarrow> int \<Rightarrow> int \<Rightarrow> int \<Rightarrow> jsnum res" where
  "linearInterpolation minIn maxIn currentIn minOut maxOut =
     (if currentIn < minIn \<or> maxIn < currentIn then Inl (JsError ''Invalid values'')
      else
        let minOutWeighted = (maxIn - currentIn) * minOut;
            maxOutWeighted = (currentIn - minIn) * maxOut;
            inDiff = maxIn - minIn
        in Inr (js_trunc (js_div (jint (minOutWeighted + maxOutWeighted)) (jint inDiff))))"

text \<open>The loop over neighbouring options, left at the first interval that holds the epochs.\<close>

fun findInterval :: "lock_option list \<Rightarrow> int \<Rightarrow> (lock_option \<times> lock_option) option" where
  "findInterval (a # b # rest) epochs =
     (if lockEpochs a \<le> epochs \<and> epochs \<le> lockEpochs b then Some (a, b)
      else findInterval (b # rest) epochs)"
| "findInterval _ epochs = None"

definition zeroOption :: lock_option where
  "zeroOption = \<lparr>lockEpochs = 0, penaltyStartPercentage = 0\<rparr>"

definition computePenaltyPercentageFullUnlock :: "lock_option list \<Rightarrow> int \<Rightarrow> jsnum res" where
  "computePenaltyPercentageFullUnlock lockOptions lockEpochsRemaining =
     (if lockOptions = [] then Inl (JsError ''TypeError'')
      else if lockEpochs (last lockOptions) < lockEpochsRemaining
        then Inl (JsError ''Invalid lock epochs'')
      else
        let firstLockOption = hd lockOptions;
            (prevOption, nextOption) =
              (if lockEpochs firstLockOption < lockEpochsRemaining then
                 case findInterval lockOptions lockEpochsRemaining of
                   Some ab \<Rightarrow> ab | None \<Rightarrow> (zeroOption, zeroOption)
               else (zeroOption, firstLockOption))
        in linearInterpolation (lockEpochs prevOption) (lockEpochs nextOption) lockEpochsRemaining
             (penaltyStartPercentage prevOption) (penaltyStartPercentage nextOption))"

definition computePenaltyPercentagePartialUnlock ::
  "lock_option list \<Rightarrow> int \<Rightarrow> int \<Rightarrow> jsnum res" where
  "computePenaltyPercentagePartialUnlock lockOptions prevLockEpochs newLockEpochs =
     res_bind (computePenaltyPercentageFullUnlock lockOptions prevLockEpochs) (\<lambda>prevFull.
     res_bind (computePenaltyPercentageFullUnlock lockOptions newLockEpochs) (\<lambda>newPenalty.
       Inr (js_trunc (js_div
         (js_mul (js_sub prevFull newPenalty) (jint MAX_PENALTY_PERCENT))
         (js_sub (jint MAX_PENALTY_PERCENT) newPenalty)))))"

definition computePenaltyAmount ::
  "bignumber \<Rightarrow> lock_option list \<Rightarrow> bn \<Rightarrow> int \<Rightarrow> int \<Rightarrow> bn res" where
  "computePenaltyAmount B lockOptions tokenAmount prevLockEpochs newLockEpochs =
     res_bind
       (if newLockEpochs = 0 then computePenaltyPercentageFullUnlock lockOptions prevLockEpochs
        else computePenaltyPercentagePartialUnlock lockOptions prevLockEpochs newLockEpochs)
       (\<lambda>penaltyPercentage. Inr (bn_div B
          (bn_times B tokenAmount (bn_of_js B penaltyPercentage))
          (bn_number B (of_int MAX_PENALTY_PERCENT))))"

text \<open>\<open>%\<close> of JavaScript takes the sign of the dividend.\<close>

definition js_rem :: "int \<Rightarrow> int \<Rightarrow> int" where
  "js_rem a b = (if 0 \<le> a then a mod \<bar>b\<bar> else - ((- a) mod \<bar>b\<bar>))"

definition unlockEpochToStartOfMonth :: "int \<Rightarrow> int" where
  "unlockEpochToStartOfMonth epoch = epoch - js_rem epoch EPOCHS_IN_MONTH"

text \<open>
  \<open>tokenUnlockEpoch\<close> is the unlock epoch decoded from the token's attributes,
  \<open>abiPenalty\<close> the contract's answer to the penalty query.
\<close>

definition getPenaltyAmount ::
  "bignumber \<Rightarrow> lock_option list \<Rightarrow> (bn \<Rightarrow> int \<Rightarrow> int \<Rightarrow> bn) \<Rightarrow> int \<Rightarrow> bn \<Rightarrow> int \<Rightarrow> int \<Rightarrow> bool
   \<Rightarrow> bn res" where
  "getPenaltyAmount B lockOptions abiPenalty epoch inputAmount tokenUnlockEpoch newLockPeriod vmQuery =
     res_bind
       (if newLockPeriod \<noteq> 0 then
          if List.find (\<lambda>lockOption. lockEpochs lockOption = newLockPeriod) lockOptions = None
          then Inl (JsError ''Invalid new lock epochs'')
          else
            let tentativeNewUnlockEpoch = epoch + newLockPeriod;
                startOfMonthEpoch = unlockEpochToStartOfMonth tentativeNewUnlockEpoch;
                epochsDiffFromMonthStart = tentativeNewUnlockEpoch - startOfMonthEpoch
            in Inr (newLockPeriod - epochsDiffFromMonthStart)
        else Inr newLockPeriod)
       (\<lambda>newPeriod.
          let prevLockEpochs = tokenUnlockEpoch - epoch in
          if prevLockEpochs \<le> 0 then Inr (Fin 0)
          else if prevLockEpochs < newPeriod then Inl (JsError ''Invalid new lock epoch'')
          else if vmQuery then Inr (abiPenalty inputAmount prevLockEpochs newPeriod)
          else computePenaltyAmount B lockOptions inputAmount prevLockEpochs newPeriod)"

section \<open>Interpolation between two options\<close>

definition interp :: "int \<Rightarrow> int \<Rightarrow> int \<Rightarrow> int \<Rightarrow> int \<Rightarrow> int" where
  "interp x0 x1 e y0 y1 = ((x1 - e) * y0 + (e - x0) * y1) div (x1 - x0)"

lemma interp_bounds:
  assumes "x0 \<le> e" "e \<le> x1" "x0 < x1" "y0 \<le> y1"
  shows "y0 \<le> interp x0 x1 e y0 y1" "interp x0 x1 e y0 y1 \<le> y1"
proof -
  let ?n = "(x1 - e) * y0 + (e - x0) * y1"
  have "(e - x0) * y0 \<le> (e - x0) * y1" "(x1 - e) * y0 \<le> (x1 - e) * y1"
    using assms by (auto intro: mult_left_mono)
  moreover have "(x1 - x0) * y0 = (x1 - e) * y0 + (e - x0) * y0"
    "(x1 - x0) * y1 = (x1 - e) * y1 + (e - x0) * y1" by (simp_all add: algebra_simps)
  ultimately have n: "(x1 - x0) * y0 \<le> ?n" "?n \<le> (x1 - x0) * y1" by linarith+
  have d: "0 < x1 - x0" using assms by simp
  show "y0 \<le> interp x0 x1 e y0 y1"
    using zdiv_mono1 [OF n(1) d] d by (simp add: interp_def)
  show "interp x0 x1 e y0 y1 \<le> y1"
    using zdiv_mono1 [OF n(2) d] d by (simp add: interp_def)
qed

lemma interp_mono:
  assumes "e \<le> e'" "x0 < x1" "y0 \<le> y1"
  shows "interp x0 x1 e y0 y1 \<le> interp x0 x1 e' y0 y1"
proof -
  have "(e' - e) * y0 \<le> (e' - e) * y1" using assms by (intro mult_left_mono) auto
  then have "(x1 - e) * y0 + (e - x0) * y1 \<le> (x1 - e') * y0 + (e' - x0) * y1"
    by (simp add: algebra_simps)
  then show ?thesis using assms by (simp add: interp_def zdiv_mono1)
qed

lemma interp_ends:
  assumes "x0 < x1"
  shows "interp x0 x1 x0 y0 y1 = y0" "interp x0 x1 x1 y0 y1 = y1"
  using assms by (simp_all add: interp_def)

lemma linearInterpolation_eq:
  assumes "x0 \<le> e" "e \<le> x1" "x0 < x1" "x1 - x0 < 2 ^ 31" "0 \<le> y0" "y0 \<le> y1" "y1 < 2 ^ 20"
  shows "linearInterpolation x0 x1 e y0 y1 = Inr (jint (interp x0 x1 e y0 y1))"
proof -
  let ?n = "(x1 - e) * y0 + (e - x0) * y1"
  have "?n \<le> (x1 - e) * y1 + (e - x0) * y1" using assms by (simp add: mult_left_mono)
  also have "\<dots> = (x1 - x0) * y1" by (simp add: algebra_simps)
  also have "\<dots> \<le> 2 ^ 31 * 2 ^ 20" using assms by (intro mult_mono) auto
  finally have "?n < 2 ^ 53" by simp
  moreover have "0 \<le> ?n" using assms by simp
  ultimately have "js_trunc (js_div (jint ?n) (jint (x1 - x0))) = jint (?n div (x1 - x0))"
    using assms by (intro js_trunc_div_eq) auto
  moreover have "\<not> (e < x0 \<or> x1 < e)" using assms by simp
  ultimately show ?thesis by (simp only: linearInterpolation_def interp_def Let_def if_False)
qed

section \<open>The penalty curve over the options\<close>

text \<open>
  What the contract guarantees of its lock options: strictly increasing periods, penalties
  that do not decrease with the period and stay below 100 percent.
\<close>

definition option_step :: "lock_option \<Rightarrow> lock_option \<Rightarrow> bool" where
  "option_step a b \<longleftrightarrow> lockEpochs a < lockEpochs b \<and>
     penaltyStartPercentage a \<le> penaltyStartPercentage b"

definition valid_lock_options :: "lock_option list \<Rightarrow> bool" where
  "valid_lock_options opts \<longleftrightarrow> opts \<noteq> [] \<and> sorted_wrt option_step (zeroOption # opts) \<and>
     lockEpochs (last opts) < 2 ^ 31 \<and>
     penaltyStartPercentage (last opts) < MAX_PENALTY_PERCENT"

definition knots_curve :: "lock_option list \<Rightarrow> int \<Rightarrow> int" where
  "knots_curve ks e = (case findInterval ks e of
     None \<Rightarrow> 0
   | Some (a, b) \<Rightarrow> interp (lockEpochs a) (lockEpochs b) e
                     (penaltyStartPercentage a) (penaltyStartPercentage b))"

lemma findInterval_SomeD:
  "findInterval ks e = Some (a, b) \<Longrightarrow> sorted_wrt option_step ks \<Longrightarrow>
   a \<in> set ks \<and> b \<in> set ks \<and> option_step a b \<and> lockEpochs a \<le> e \<and> e \<le> lockEpochs b"
  by (induction ks e rule: findInterval.induct) (auto split: if_splits)

lemma findInterval_ex:
  "2 \<le> length ks \<Longrightarrow> lockEpochs (hd ks) \<le> e \<Longrightarrow> e \<le> lockEpochs (last ks) \<Longrightarrow>
   \<exists>a b. findInterval ks e = Some (a, b)"
proof (induction ks e rule: findInterval.induct)
  case (1 a b rest epochs)
  show ?case
  proof (cases "epochs \<le> lockEpochs b")
    case True
    with 1 show ?thesis by simp
  next
    case False
    with 1 have "rest \<noteq> []" by (cases rest) auto
    with 1 False show ?thesis by (cases rest) auto
  qed
qed auto

lemma step_last:
  "sorted_wrt option_step ks \<Longrightarrow> k \<in> set ks \<Longrightarrow>
   lockEpochs k \<le> lockEpochs (last ks) \<and> penaltyStartPercentage k \<le> penaltyStartPercentage (last ks)"
proof (induction ks)
  case (Cons a ks)
  show ?case
  proof (cases "ks = []")
    case False
    then have a: "option_step a (last ks)" using Cons.prems by auto
    show ?thesis
    proof (cases "k = a")
      case True
      then show ?thesis using a False by (simp add: option_step_def)
    next
      case k: False
      then show ?thesis using Cons False by simp
    qed
  qed (use Cons in simp)
qed simp

lemma step_hd:
  "sorted_wrt option_step ks \<Longrightarrow> k \<in> set ks \<Longrightarrow>
   lockEpochs (hd ks) \<le> lockEpochs k \<and> penaltyStartPercentage (hd ks) \<le> penaltyStartPercentage k"
  by (cases ks) (auto simp: option_step_def)

lemma knots_curve_bounds:
  assumes "sorted_wrt option_step ks" "2 \<le> length ks"
    "lockEpochs (hd ks) \<le> e" "e \<le> lockEpochs (last ks)"
  shows "penaltyStartPercentage (hd ks) \<le> knots_curve ks e"
    "knots_curve ks e \<le> penaltyStartPercentage (last ks)"
proof -
  obtain a b where ab: "findInterval ks e = Some (a, b)" using findInterval_ex assms by blast
  then have s: "a \<in> set ks" "b \<in> set ks" "option_step a b" "lockEpochs a \<le> e" "e \<le> lockEpochs b"
    using findInterval_SomeD assms(1) by blast+
  have "penaltyStartPercentage a \<le> knots_curve ks e" "knots_curve ks e \<le> penaltyStartPercentage b"
    using interp_bounds [OF s(4,5)] s(3) by (auto simp: knots_curve_def ab option_step_def)
  then show "penaltyStartPercentage (hd ks) \<le> knots_curve ks e"
    "knots_curve ks e \<le> penaltyStartPercentage (last ks)"
    using step_hd [OF assms(1) s(1)] step_last [OF assms(1) s(2)] by linarith+
qed

lemma knots_curve_mono:
  "sorted_wrt option_step ks \<Longrightarrow> 2 \<le> length ks \<Longrightarrow> lockEpochs (hd ks) \<le> e \<Longrightarrow> e \<le> e' \<Longrightarrow>
   e' \<le> lockEpochs (last ks) \<Longrightarrow> knots_curve ks e \<le> knots_curve ks e'"
proof (induction ks arbitrary: e)
  case (Cons a ks)
  then obtain b rest where ks: "ks = b # rest" by (cases ks) auto
  have ab: "option_step a b" using Cons.prems ks by simp
  have split: "knots_curve (a # ks) x =
      (if x \<le> lockEpochs b
       then interp (lockEpochs a) (lockEpochs b) x (penaltyStartPercentage a) (penaltyStartPercentage b)
       else knots_curve ks x)" if "lockEpochs a \<le> x" for x
    using that by (auto simp: knots_curve_def ks)
  show ?case
  proof (cases "e' \<le> lockEpochs b")
    case True
    then show ?thesis using Cons.prems ab split by (auto simp: option_step_def intro: interp_mono)
  next
    case False
    with Cons.prems ks have rest: "2 \<le> length ks" "e' \<le> lockEpochs (last ks)" "lockEpochs (hd ks) \<le> e'"
      by (cases rest; simp)+
    have sorted: "sorted_wrt option_step ks" using Cons.prems by simp
    show ?thesis
    proof (cases "e \<le> lockEpochs b")
      case True
      then have "knots_curve (a # ks) e \<le> penaltyStartPercentage (hd ks)"
        using Cons.prems ab split interp_bounds(2) by (auto simp: option_step_def ks)
      also have "\<dots> \<le> knots_curve ks e'" using knots_curve_bounds(1) [OF sorted rest(1,3,2)] .
      finally show ?thesis using False Cons.prems split by simp
    next
      case e: False
      then show ?thesis
        using False Cons.prems Cons.IH [OF sorted rest(1)] rest(2) split by (simp add: ks)
    qed
  qed
qed simp

lemma knots_curve_knot:
  "sorted_wrt option_step ks \<Longrightarrow> 2 \<le> length ks \<Longrightarrow> k \<in> set ks \<Longrightarrow>
   knots_curve ks (lockEpochs k) = penaltyStartPercentage k"
proof -
  assume ks: "sorted_wrt option_step ks" "2 \<le> length ks" "k \<in> set ks"
  have "lockEpochs (hd ks) \<le> lockEpochs k" "lockEpochs k \<le> lockEpochs (last ks)"
    using step_hd [OF ks(1,3)] step_last [OF ks(1,3)] by simp_all
  then obtain a b where ab: "findInterval ks (lockEpochs k) = Some (a, b)"
    using findInterval_ex [OF ks(2)] by blast
  then have s: "a \<in> set ks" "b \<in> set ks" "option_step a b"
      "lockEpochs a \<le> lockEpochs k" "lockEpochs k \<le> lockEpochs b"
    using findInterval_SomeD ks(1) by blast+
  have "k = a \<or> k = b"
    using ks(1,3) ab
    by (induction ks "lockEpochs k" rule: findInterval.induct) (fastforce simp: option_step_def split: if_splits)+
  then show ?thesis using s(3) interp_ends by (auto simp: knots_curve_def ab option_step_def)
qed

lemma fullUnlock_curve:
  assumes "valid_lock_options opts" "0 \<le> e" "e \<le> lockEpochs (last opts)"
  shows "computePenaltyPercentageFullUnlock opts e = Inr (jint (knots_curve (zeroOption # opts) e))"
    "0 \<le> knots_curve (zeroOption # opts) e"
    "knots_curve (zeroOption # opts) e \<le> penaltyStartPercentage (last opts)"
proof -
  let ?ks = "zeroOption # opts"
  obtain o1 os where opts: "opts = o1 # os" using assms(1) by (cases opts) (auto simp: valid_lock_options_def)
  have sorted: "sorted_wrt option_step ?ks" using assms(1) by (simp add: valid_lock_options_def)
  have len: "2 \<le> length ?ks" using opts by simp
  have ends: "lockEpochs (hd ?ks) \<le> e" "e \<le> lockEpochs (last ?ks)"
    using assms opts by (simp_all add: zeroOption_def)
  show "0 \<le> knots_curve ?ks e" "knots_curve ?ks e \<le> penaltyStartPercentage (last opts)"
    using knots_curve_bounds [OF sorted len ends] opts by (simp_all add: zeroOption_def)
  obtain a b where ab: "findInterval ?ks e = Some (a, b)" using findInterval_ex [OF len ends] by blast
  then have s: "a \<in> set ?ks" "b \<in> set ?ks" "option_step a b" "lockEpochs a \<le> e" "e \<le> lockEpochs b"
    using findInterval_SomeD sorted by blast+
  have pick: "(if lockEpochs (hd opts) < e
      then case findInterval opts e of Some ab \<Rightarrow> ab | None \<Rightarrow> (zeroOption, zeroOption)
      else (zeroOption, hd opts)) = (a, b)"
    using ab ends opts by (auto split: if_splits)
  have "lockEpochs a \<ge> 0" "penaltyStartPercentage a \<ge> 0"
    using step_hd [OF sorted s(1)] by (simp_all add: zeroOption_def)
  moreover have "lockEpochs b \<le> lockEpochs (last opts)"
      "penaltyStartPercentage b \<le> penaltyStartPercentage (last opts)"
    using step_last [OF sorted s(2)] opts by simp_all
  ultimately have "linearInterpolation (lockEpochs a) (lockEpochs b) e
      (penaltyStartPercentage a) (penaltyStartPercentage b) = Inr (jint (knots_curve ?ks e))"
    using s(3-5) assms(1) unfolding knots_curve_def ab
    by (simp only: option.case prod.case)
      (rule linearInterpolation_eq, auto simp: option_step_def valid_lock_options_def MAX_PENALTY_PERCENT_def)
  then show "computePenaltyPercentageFullUnlock opts e = Inr (jint (knots_curve ?ks e))"
    unfolding computePenaltyPercentageFullUnlock_def Let_def pick prod.case
    using assms(3) opts by simp
qed

lemma partialUnlock_eq:
  assumes "valid_lock_options opts" "0 \<le> new" "new \<le> prev" "prev \<le> lockEpochs (last opts)"
  defines "pn \<equiv> knots_curve (zeroOption # opts) new" and "pp \<equiv> knots_curve (zeroOption # opts) prev"
  shows "computePenaltyPercentagePartialUnlock opts prev new =
      Inr (jint ((pp - pn) * MAX_PENALTY_PERCENT div (MAX_PENALTY_PERCENT - pn)))"
    "0 \<le> pn" "pn \<le> pp" "pp < MAX_PENALTY_PERCENT"
proof -
  have sorted: "sorted_wrt option_step (zeroOption # opts)" and ne: "opts \<noteq> []"
    and top: "penaltyStartPercentage (last opts) < MAX_PENALTY_PERCENT"
    using assms(1) by (simp_all add: valid_lock_options_def)
  have new: "computePenaltyPercentageFullUnlock opts new = Inr (jint pn)" "0 \<le> pn"
    and prev: "computePenaltyPercentageFullUnlock opts prev = Inr (jint pp)"
      "pp \<le> penaltyStartPercentage (last opts)"
    using fullUnlock_curve [OF assms(1), of new] fullUnlock_curve [OF assms(1), of prev] assms(2-4)
    by (simp_all add: pn_def pp_def)
  show "0 \<le> pn" using new(2) .
  show pp: "pp < MAX_PENALTY_PERCENT" using prev(2) top by simp
  show mono: "pn \<le> pp"
    unfolding pn_def pp_def using assms(2-4) ne
    by (intro knots_curve_mono [OF sorted]) (simp_all add: zeroOption_def Suc_le_eq)
  have sub: "js_sub (jint pp) (jint pn) = jint (pp - pn)"
    "js_sub (jint MAX_PENALTY_PERCENT) (jint pn) = jint (MAX_PENALTY_PERCENT - pn)"
    using new(2) mono pp by (intro js_sub_int; simp add: MAX_PENALTY_PERCENT_def)+
  have "(pp - pn) * MAX_PENALTY_PERCENT \<le> 10000 * 10000"
    using new(2) mono pp by (intro mult_mono) (auto simp: MAX_PENALTY_PERCENT_def)
  moreover have nn: "0 \<le> (pp - pn) * MAX_PENALTY_PERCENT" using mono by (simp add: MAX_PENALTY_PERCENT_def)
  ultimately have small: "(pp - pn) * MAX_PENALTY_PERCENT < 2 ^ 53" by simp
  have mul: "js_mul (jint (pp - pn)) (jint MAX_PENALTY_PERCENT) = jint ((pp - pn) * MAX_PENALTY_PERCENT)"
    using nn small by (intro js_mul_int) simp
  have dv: "js_trunc (js_div (jint ((pp - pn) * MAX_PENALTY_PERCENT)) (jint (MAX_PENALTY_PERCENT - pn)))
      = jint ((pp - pn) * MAX_PENALTY_PERCENT div (MAX_PENALTY_PERCENT - pn))"
    using nn small mono pp by (intro js_trunc_div_eq) simp_all
  show "computePenaltyPercentagePartialUnlock opts prev new =
      Inr (jint ((pp - pn) * MAX_PENALTY_PERCENT div (MAX_PENALTY_PERCENT - pn)))"
    by (simp only: computePenaltyPercentagePartialUnlock_def prev new res_bind.simps sub mul dv)
qed

lemma unlock_percentage_bounds:
  fixes pn pp M :: int
  assumes "0 \<le> pn" "pn \<le> pp" "pp < M"
  shows "0 \<le> (pp - pn) * M div (M - pn)" "(pp - pn) * M div (M - pn) < M"
proof -
  have d: "0 < M - pn" using assms by simp
  show "0 \<le> (pp - pn) * M div (M - pn)" using assms d by (simp add: pos_imp_zdiv_nonneg_iff)
  have "(pp - pn) * M < (M - pn) * M" using assms by (intro mult_strict_right_mono) auto
  then have lt: "(pp - pn) * M < M * (M - pn)" by (simp add: mult.commute)
  show "(pp - pn) * M div (M - pn) < M"
  proof (rule ccontr)
    assume "\<not> ?thesis"
    then have "M * (M - pn) \<le> (pp - pn) * M div (M - pn) * (M - pn)"
      using d by (intro mult_right_mono) auto
    also have "\<dots> \<le> (pp - pn) * M"
      using div_mult_mod_eq [of "(pp - pn) * M" "M - pn"] pos_mod_sign [OF d, of "(pp - pn) * M"]
      by linarith
    finally show False using lt by simp
  qed
qed

lemma two_step_share:
  fixes p q M :: int
  assumes "q < M"
  shows "(M - p) * M \<le> (M - (p - q) * M div (M - q)) * (M - q)"
    "(M - (p - q) * M div (M - q)) * (M - q) < (M - p) * M + (M - q)"
proof -
  define r where "r = (p - q) * M div (M - q)"
  have d: "0 < M - q" using assms by simp
  have eq: "r * (M - q) + (p - q) * M mod (M - q) = (p - q) * M"
    unfolding r_def by (rule div_mult_mod_eq)
  moreover have "0 \<le> (p - q) * M mod (M - q)" "(p - q) * M mod (M - q) < M - q"
    using d by simp_all
  moreover have "(M - r) * (M - q) = (M - p) * M + ((p - q) * M - r * (M - q))"
    by (simp add: algebra_simps)
  ultimately have "(M - p) * M \<le> (M - r) * (M - q) \<and> (M - r) * (M - q) < (M - p) * M + (M - q)"
    by linarith
  then show "(M - p) * M \<le> (M - (p - q) * M div (M - q)) * (M - q)"
    "(M - (p - q) * M div (M - q)) * (M - q) < (M - p) * M + (M - q)"
    by (simp_all add: r_def)
qed

context bignumber_lib begin

lemma depleteUserEnergy_fin:
  assumes "totalLockedTokens en = Fin l" "enAmount en = Fin a" "0 \<le> l" "0 < lastUpdateEpoch en"
    "lastUpdateEpoch en \<le> ep" "ep < 2 ^ 53"
  shows "depleteUserEnergy B en ep =
    en\<lparr>enAmount := Fin (a - l * of_int (ep - lastUpdateEpoch en))\<rparr>"
proof (cases "ep = lastUpdateEpoch en")
  case True
  then show ?thesis using assms by (simp add: depleteUserEnergy_def)
next
  case False
  have "bn_number B (of_int (ep - lastUpdateEpoch en)) = bn_of_int (ep - lastUpdateEpoch en)"
    using assms by (intro number_int) simp
  then show ?thesis
    using assms False
    by (simp add: depleteUserEnergy_def Let_def bn_finite del: of_int_diff)
qed

lemma computePenaltyAmount_fin:
  assumes "valid_lock_options opts" "0 \<le> new" "new \<le> prev" "prev \<le> lockEpochs (last opts)"
  obtains p where "0 \<le> p" "p < MAX_PENALTY_PERCENT"
    "(if new = 0 then computePenaltyPercentageFullUnlock opts prev
      else computePenaltyPercentagePartialUnlock opts prev new) = Inr (jint p)"
    "computePenaltyAmount B opts (Fin a) prev new =
       Inr (Fin (round_dp 20 (a * of_int p / of_int MAX_PENALTY_PERCENT)))"
proof -
  note part = partialUnlock_eq [OF assms]
  note bounds = unlock_percentage_bounds [OF part(2-4)]
  obtain p where p: "0 \<le> p" "p < MAX_PENALTY_PERCENT"
    "(if new = 0 then computePenaltyPercentageFullUnlock opts prev
      else computePenaltyPercentagePartialUnlock opts prev new) = Inr (jint p)"
  proof (cases "new = 0")
    case True
    show ?thesis
      using that fullUnlock_curve [OF assms(1), of prev] part(4) assms True by auto
  next
    case False
    show ?thesis using that [OF bounds] part(1) False by simp
  qed
  have "bn_number B (of_int p) = bn_of_int p"
    "bn_number B (of_int MAX_PENALTY_PERCENT) = bn_of_int MAX_PENALTY_PERCENT"
    using p(1,2) by (intro number_int; simp add: MAX_PENALTY_PERCENT_def)+
  then show ?thesis
    using that [OF p] p(3)
    by (simp add: computePenaltyAmount_def times_fin div_fin MAX_PENALTY_PERCENT_def
        del: of_int_numeral)
qed

end

section \<open>Properties\<close>

text \<open>The options of the main network.\<close>

definition mainnet_options :: "lock_option list" where
  "mainnet_options = [\<lparr>lockEpochs = 360, penaltyStartPercentage = 4000\<rparr>,
     \<lparr>lockEpochs = 720, penaltyStartPercentage = 6000\<rparr>,
     \<lparr>lockEpochs = 1440, penaltyStartPercentage = 8000\<rparr>]"

lemma mainnet_options_valid: "valid_lock_options mainnet_options"
  by (simp add: valid_lock_options_def mainnet_options_def zeroOption_def option_step_def
      MAX_PENALTY_PERCENT_def)

text \<open>
  C7. Unlocking fully with \<open>e\<close> epochs left costs a percentage that is never negative, stays
  below 100 percent, does not decrease with the epochs left, and is exactly an option's
  percentage at that option's period; beyond the last option and below zero the
  computation throws.
\<close>

theorem fullUnlock_penalty_curve:
  assumes "valid_lock_options opts" "0 \<le> e" "e \<le> e'" "e' \<le> lockEpochs (last opts)"
  shows "(\<exists>p p'. computePenaltyPercentageFullUnlock opts e = Inr (jint p) \<and>
      computePenaltyPercentageFullUnlock opts e' = Inr (jint p') \<and>
      0 \<le> p \<and> p \<le> p' \<and> p' < MAX_PENALTY_PERCENT) \<and>
    (\<forall>opt\<in>set opts. computePenaltyPercentageFullUnlock opts (lockEpochs opt) =
      Inr (jint (penaltyStartPercentage opt))) \<and>
    (\<forall>x>lockEpochs (last opts). computePenaltyPercentageFullUnlock opts x =
      Inl (JsError ''Invalid lock epochs'')) \<and>
    (\<forall>x<0. computePenaltyPercentageFullUnlock opts x = Inl (JsError ''Invalid values''))"
proof (intro conjI ballI allI impI)
  let ?ks = "zeroOption # opts"
  have sorted: "sorted_wrt option_step ?ks" and ne: "opts \<noteq> []"
    and top: "penaltyStartPercentage (last opts) < MAX_PENALTY_PERCENT"
    using assms(1) by (simp_all add: valid_lock_options_def)
  have len: "2 \<le> length ?ks" using ne by (simp add: Suc_le_eq)
  have "knots_curve ?ks e \<le> knots_curve ?ks e'"
    using assms ne by (intro knots_curve_mono [OF sorted len]) (simp_all add: zeroOption_def)
  then show "\<exists>p p'. computePenaltyPercentageFullUnlock opts e = Inr (jint p) \<and>
      computePenaltyPercentageFullUnlock opts e' = Inr (jint p') \<and>
      0 \<le> p \<and> p \<le> p' \<and> p' < MAX_PENALTY_PERCENT"
    using fullUnlock_curve [OF assms(1), of e] fullUnlock_curve [OF assms(1), of e'] assms(2-4) top
    by auto
  show "computePenaltyPercentageFullUnlock opts (lockEpochs opt) = Inr (jint (penaltyStartPercentage opt))"
    if "opt \<in> set opts" for opt
    using fullUnlock_curve(1) [OF assms(1), of "lockEpochs opt"] step_hd [OF sorted, of opt]
      step_last [OF sorted, of opt] knots_curve_knot [OF sorted len, of opt] that ne
    by (simp add: zeroOption_def)
  show "computePenaltyPercentageFullUnlock opts x = Inl (JsError ''Invalid lock epochs'')"
    if "lockEpochs (last opts) < x" for x
    using that ne by (simp add: computePenaltyPercentageFullUnlock_def)
  show "computePenaltyPercentageFullUnlock opts x = Inl (JsError ''Invalid values'')"
    if x: "x < 0" for x
  proof -
    have "lockEpochs (last opts) > 0" "lockEpochs (hd opts) > 0"
      using sorted ne by (cases opts; simp add: option_step_def zeroOption_def)+
    then show ?thesis
      using x ne by (simp add: computePenaltyPercentageFullUnlock_def linearInterpolation_def zeroOption_def)
  qed
qed

theorem fullUnlock_penalty_curve_witness:
  "\<exists>p p'. computePenaltyPercentageFullUnlock mainnet_options 100 = Inr (jint p) \<and>
     computePenaltyPercentageFullUnlock mainnet_options 1000 = Inr (jint p') \<and>
     0 \<le> p \<and> p \<le> p' \<and> p' < MAX_PENALTY_PERCENT"
  by (rule conjunct1 [OF fullUnlock_penalty_curve [OF mainnet_options_valid]])
    (simp_all add: mainnet_options_def)

text \<open>
  C8. Reducing the lock and then unlocking fully is never dearer than unlocking fully at
  once, and cheaper by less than one basis point of what is left: of \<open>M\<close> basis points, the
  two steps together keep the share \<open>(M - p1) * (M - p2)\<close>, the single step \<open>(M - p) * M\<close>.
\<close>

theorem partial_then_full_unlock:
  assumes "valid_lock_options opts" "0 < new" "new \<le> prev" "prev \<le> lockEpochs (last opts)"
  shows "\<exists>p p1 p2. computePenaltyPercentageFullUnlock opts prev = Inr (jint p) \<and>
    computePenaltyPercentagePartialUnlock opts prev new = Inr (jint p1) \<and>
    computePenaltyPercentageFullUnlock opts new = Inr (jint p2) \<and>
    (MAX_PENALTY_PERCENT - p) * MAX_PENALTY_PERCENT \<le> (MAX_PENALTY_PERCENT - p1) * (MAX_PENALTY_PERCENT - p2) \<and>
    (MAX_PENALTY_PERCENT - p1) * (MAX_PENALTY_PERCENT - p2)
      < (MAX_PENALTY_PERCENT - p) * MAX_PENALTY_PERCENT + (MAX_PENALTY_PERCENT - p2)"
proof -
  let ?M = MAX_PENALTY_PERCENT
  let ?p = "knots_curve (zeroOption # opts) prev" and ?q = "knots_curve (zeroOption # opts) new"
  let ?r = "(?p - ?q) * ?M div (?M - ?q)"
  note part = partialUnlock_eq [OF assms(1) order_less_imp_le [OF assms(2)] assms(3,4)]
  have "?q < ?M" using part by linarith
  note two = two_step_share [OF this, of ?p]
  have full: "computePenaltyPercentageFullUnlock opts prev = Inr (jint ?p)"
    "computePenaltyPercentageFullUnlock opts new = Inr (jint ?q)"
    using fullUnlock_curve(1) [OF assms(1)] assms(2-4) by simp_all
  show ?thesis
  proof (intro exI conjI)
    show "(?M - ?p) * ?M \<le> (?M - ?r) * (?M - ?q)" using two(1) .
    show "(?M - ?r) * (?M - ?q) < (?M - ?p) * ?M + (?M - ?q)" using two(2) .
  qed (use full part(1) in simp_all)
qed

theorem partial_then_full_unlock_witness:
  "\<exists>p p1 p2. computePenaltyPercentageFullUnlock mainnet_options 1000 = Inr (jint p) \<and>
    computePenaltyPercentagePartialUnlock mainnet_options 1000 700 = Inr (jint p1) \<and>
    computePenaltyPercentageFullUnlock mainnet_options 700 = Inr (jint p2) \<and>
    (MAX_PENALTY_PERCENT - p) * MAX_PENALTY_PERCENT \<le> (MAX_PENALTY_PERCENT - p1) * (MAX_PENALTY_PERCENT - p2) \<and>
    (MAX_PENALTY_PERCENT - p1) * (MAX_PENALTY_PERCENT - p2)
      < (MAX_PENALTY_PERCENT - p) * MAX_PENALTY_PERCENT + (MAX_PENALTY_PERCENT - p2)"
  by (rule partial_then_full_unlock [OF mainnet_options_valid]) (simp_all add: mainnet_options_def)

lemma startOfMonth_bounds:
  assumes "0 \<le> x"
  shows "unlockEpochToStartOfMonth x \<le> x" "x < unlockEpochToStartOfMonth x + EPOCHS_IN_MONTH"
    "unlockEpochToStartOfMonth x mod EPOCHS_IN_MONTH = 0"
  using assms by (simp_all add: unlockEpochToStartOfMonth_def js_rem_def EPOCHS_IN_MONTH_def
      minus_mod_eq_mult_div)

text \<open>
  The penalty query never fails for a lock period the contract offers and a token that
  can be shortened to it, and the penalty is between nothing and the whole amount; an
  expired lock costs nothing; a period that is not offered, or is longer than what is left
  after aligning the new unlock epoch to the start of its month, is rejected.
\<close>

theorem getPenaltyAmount_cases:
  assumes "bignumber_lib B" "valid_lock_options opts" "\<forall>opt\<in>set opts. EPOCHS_IN_MONTH \<le> lockEpochs opt"
    "0 \<le> a" "0 \<le> epoch" "tokenEpoch - epoch \<le> lockEpochs (last opts)" "0 \<le> newPeriod"
  defines "offered \<equiv> newPeriod = 0 \<or> (\<exists>opt\<in>set opts. lockEpochs opt = newPeriod)"
    and "aligned \<equiv> (if newPeriod = 0 then 0 else unlockEpochToStartOfMonth (epoch + newPeriod) - epoch)"
  shows "if \<not> offered then
      getPenaltyAmount B opts abi epoch (bn_of_int a) tokenEpoch newPeriod False
        = Inl (JsError ''Invalid new lock epochs'')
    else if tokenEpoch \<le> epoch then
      getPenaltyAmount B opts abi epoch (bn_of_int a) tokenEpoch newPeriod False = Inr (Fin 0)
    else if tokenEpoch - epoch < aligned then
      getPenaltyAmount B opts abi epoch (bn_of_int a) tokenEpoch newPeriod False
        = Inl (JsError ''Invalid new lock epoch'')
    else \<exists>q. getPenaltyAmount B opts abi epoch (bn_of_int a) tokenEpoch newPeriod False = Inr (Fin q) \<and>
      0 \<le> q \<and> q \<le> of_int a"
proof -
  let ?run = "getPenaltyAmount B opts abi epoch (bn_of_int a) tokenEpoch newPeriod False"
  have find: "List.find (\<lambda>opt. lockEpochs opt = newPeriod) opts = None \<longleftrightarrow>
      \<not> (\<exists>opt\<in>set opts. lockEpochs opt = newPeriod)" by (auto simp: find_None_iff')
  have run: "?run = (if \<not> offered then Inl (JsError ''Invalid new lock epochs'')
      else if tokenEpoch \<le> epoch then Inr (Fin 0)
      else if tokenEpoch - epoch < aligned then Inl (JsError ''Invalid new lock epoch'')
      else computePenaltyAmount B opts (bn_of_int a) (tokenEpoch - epoch) aligned)"
    unfolding getPenaltyAmount_def find offered_def aligned_def by (simp add: Let_def)
  have "\<exists>q. computePenaltyAmount B opts (bn_of_int a) (tokenEpoch - epoch) aligned = Inr (Fin q) \<and>
      0 \<le> q \<and> q \<le> of_int a" if off: offered and le: "aligned \<le> tokenEpoch - epoch"
  proof -
    have al: "0 \<le> aligned"
      using off assms(3,5,7) startOfMonth_bounds(2) [of "epoch + newPeriod"]
      by (auto simp: offered_def aligned_def)
    obtain p where p: "0 \<le> p" "p < MAX_PENALTY_PERCENT"
      "computePenaltyAmount B opts (bn_of_int a) (tokenEpoch - epoch) aligned =
         Inr (Fin (round_dp 20 (of_int a * of_int p / of_int MAX_PENALTY_PERCENT)))"
      using bignumber_lib.computePenaltyAmount_fin [OF assms(1,2) al le assms(6)] by blast
    have "rat_of_int a * of_int p \<le> of_int a * of_int MAX_PENALTY_PERCENT"
      using p(1,2) assms(4) by (intro mult_left_mono) simp_all
    then have "rat_of_int a * of_int p / of_int MAX_PENALTY_PERCENT \<le> of_int a"
      by (simp add: divide_le_eq MAX_PENALTY_PERCENT_def)
    then have "round_dp 20 (of_int a * of_int p / of_int MAX_PENALTY_PERCENT) \<le> of_int a"
      by (rule round_dp_le_int)
    moreover have "0 \<le> round_dp 20 (of_int a * of_int p / of_int MAX_PENALTY_PERCENT)"
      using p(1) assms(4) by (intro round_dp_nonneg) (simp add: MAX_PENALTY_PERCENT_def)
    ultimately show ?thesis using p(3) by blast
  qed
  then show ?thesis using run by auto
qed

theorem getPenaltyAmount_cases_witness:
  "\<exists>q. getPenaltyAmount bn_js mainnet_options (\<lambda>_ _ _. NotANum) 10 (bn_of_int 1000) 1000 360 False = Inr (Fin q) \<and>
     0 \<le> q \<and> q \<le> of_int 1000"
  using getPenaltyAmount_cases [OF js.bignumber_lib_axioms mainnet_options_valid,
      of 1000 10 1000 360 "\<lambda>_ _ _. NotANum"]
  by (simp add: mainnet_options_def EPOCHS_IN_MONTH_def unlockEpochToStartOfMonth_def js_rem_def)

text \<open>
  Depleting a user's energy subtracts the locked tokens once for every epoch since the
  last update but leaves the epoch of the last update where it was, so depleting the result
  again at a later epoch subtracts the first stretch a second time.
\<close>

theorem depleteUserEnergy_twice:
  assumes "bignumber_lib B" "totalLockedTokens en = bn_of_int l" "enAmount en = bn_of_int a" "0 \<le> l"
    "0 < lastUpdateEpoch en" "lastUpdateEpoch en \<le> e1" "e1 \<le> e2" "e2 < 2 ^ 53"
  shows "depleteUserEnergy B en e1 = en\<lparr>enAmount := bn_of_int (a - l * (e1 - lastUpdateEpoch en))\<rparr> \<and>
    depleteUserEnergy B (depleteUserEnergy B en e1) e2 =
      en\<lparr>enAmount := bn_of_int (a - l * (e1 - lastUpdateEpoch en) - l * (e2 - lastUpdateEpoch en))\<rparr>"
proof -
  have one: "depleteUserEnergy B en e1 = en\<lparr>enAmount := bn_of_int (a - l * (e1 - lastUpdateEpoch en))\<rparr>"
    using bignumber_lib.depleteUserEnergy_fin [OF assms(1), of en "of_int l" "of_int a" e1] assms by simp
  show ?thesis
    using one bignumber_lib.depleteUserEnergy_fin [OF assms(1),
        of "en\<lparr>enAmount := bn_of_int (a - l * (e1 - lastUpdateEpoch en))\<rparr>" "of_int l" _ e2] assms
    by simp
qed

theorem depleteUserEnergy_twice_witness:
  "enAmount (depleteUserEnergy bn_js (depleteUserEnergy bn_js
      \<lparr>enAmount = bn_of_int 100, lastUpdateEpoch = 5, totalLockedTokens = bn_of_int 3\<rparr> 7) 9) = bn_of_int 82"
  using conjunct2 [OF depleteUserEnergy_twice [OF js.bignumber_lib_axioms,
      of "\<lparr>enAmount = bn_of_int 100, lastUpdateEpoch = 5, totalLockedTokens = bn_of_int 3\<rparr>" 3 100 7 9]]
  by simp

end
