(* ===== verification/WeekTimekeeping.thy ===== *)
theory WeekTimekeeping
  imports Energy
begin

text \<open>
  Weeks of a contract and the claim progress of a user:
  \<open>src/submodules/week-timekeeping/services/week-timekeeping.compute.service.ts\<close> and
  \<open>src/submodules/weekly-rewards-splitting/services/progress.compute.service.ts\<close>. The epoch
  in which the contract's first week starts is an argument; caching decorators are not
  modelled.
\<close>

section \<open>Weeks and epochs\<close>

definition ErrInvalidWeek :: js_error where
  "ErrInvalidWeek = JsError ''invalid week''"

definition ErrInvalidEpochLowerThanFirstWeekStartEpoch :: js_error where
  "ErrInvalidEpochLowerThanFirstWeekStartEpoch =
     JsError ''invalid epoch lower than firstWeekStartEpoch''"

definition computeWeekForEpoch :: "int \<Rightarrow> int \<Rightarrow> int res" where
  "computeWeekForEpoch firstWeekStartEpoch epoch =
     (if epoch < firstWeekStartEpoch then Inl ErrInvalidEpochLowerThanFirstWeekStartEpoch
      else Inr (\<lfloor>fl64 (of_int (epoch - firstWeekStartEpoch) / of_int EPOCHS_IN_WEEK)\<rfloor> + 1))"

definition computeStartEpochForWeek :: "int \<Rightarrow> int \<Rightarrow> int res" where
  "computeStartEpochForWeek firstWeekStartEpoch week =
     (if week \<le> 0 then Inl ErrInvalidWeek
      else Inr (firstWeekStartEpoch + (week - 1) * EPOCHS_IN_WEEK))"

definition computeEndEpochForWeek :: "int \<Rightarrow> int \<Rightarrow> int res" where
  "computeEndEpochForWeek firstWeekStartEpoch week =
     (if week \<le> 0 then Inl ErrInvalidWeek
      else res_bind (computeStartEpochForWeek firstWeekStartEpoch week)
        (\<lambda>startEpochForWeek. Inr (startEpochForWeek + EPOCHS_IN_WEEK - 1)))"

lemma computeWeekForEpoch_eq:
  assumes "first \<le> epoch" "epoch - first < 2 ^ 53"
  shows "computeWeekForEpoch first epoch = Inr ((epoch - first) div EPOCHS_IN_WEEK + 1)"
  using assms floor_fl64_div [of "epoch - first" EPOCHS_IN_WEEK]
  by (simp add: computeWeekForEpoch_def EPOCHS_IN_WEEK_def del: of_int_diff)

section \<open>Claim progress\<close>

record claim_progress =
  progWeek :: int
  progEnergy :: energy_entry

text \<open>The progress is updated in place; \<open>None\<close> is an \<open>undefined\<close> next-week energy.\<close>

definition advanceWeek ::
  "bignumber \<Rightarrow> claim_progress \<Rightarrow> energy_entry option \<Rightarrow> int \<Rightarrow> claim_progress" where
  "advanceWeek B progress nextWeekEnergy epochsInWeek =
     (let progress = progress\<lparr>progWeek := progWeek progress + 1\<rparr> in
      case nextWeekEnergy of
        Some energy \<Rightarrow> progress\<lparr>progEnergy := energy\<rparr>
      | None \<Rightarrow>
          let nextWeekEpoch = lastUpdateEpoch (progEnergy progress) + epochsInWeek
          in progress\<lparr>progEnergy := depleteUserEnergy B (progEnergy progress) nextWeekEpoch\<rparr>)"

context bignumber_lib begin

lemma advanceWeek_fin:
  assumes "totalLockedTokens (progEnergy p) = Fin l" "enAmount (progEnergy p) = Fin a" "0 \<le> l"
    "0 < lastUpdateEpoch (progEnergy p)" "0 \<le> n" "lastUpdateEpoch (progEnergy p) + n < 2 ^ 53"
  shows "advanceWeek B p None n =
    \<lparr>progWeek = progWeek p + 1, progEnergy = (progEnergy p)\<lparr>enAmount := Fin (a - l * of_int n)\<rparr>\<rparr>"
  using assms by (simp add: advanceWeek_def Let_def depleteUserEnergy_fin)

lemma advanceWeeks_fin:
  assumes "totalLockedTokens (progEnergy p) = Fin l" "enAmount (progEnergy p) = Fin a" "0 \<le> l"
    "0 < lastUpdateEpoch (progEnergy p)" "0 \<le> n" "lastUpdateEpoch (progEnergy p) + n < 2 ^ 53"
  shows "((\<lambda>p. advanceWeek B p None n) ^^ k) p =
    \<lparr>progWeek = progWeek p + int k,
     progEnergy = (progEnergy p)\<lparr>enAmount := Fin (a - of_nat k * (l * of_int n))\<rparr>\<rparr>"
proof (induction k)
  case 0
  have "(progEnergy p)\<lparr>enAmount := Fin a\<rparr> = progEnergy p" using assms(2) by (cases "progEnergy p") simp
  then show ?case by simp
next
  case (Suc k)
  let ?q = "\<lparr>progWeek = progWeek p + int k,
     progEnergy = (progEnergy p)\<lparr>enAmount := Fin (a - of_nat k * (l * of_int n))\<rparr>\<rparr>"
  have "advanceWeek B ?q None n = \<lparr>progWeek = progWeek ?q + 1,
     progEnergy = (progEnergy ?q)\<lparr>enAmount := Fin (a - of_nat k * (l * of_int n) - l * of_int n)\<rparr>\<rparr>"
    by (rule advanceWeek_fin) (use assms in simp_all)
  then show ?case using Suc by (simp add: algebra_simps)
qed

end

section \<open>Properties\<close>

text \<open>
  C9. The week of an epoch and the bounds of a week agree: an epoch at or after the first
  one lies in week \<open>w\<close> exactly when it is between that week's start and end epochs, weeks
  are numbered from 1, and earlier epochs and non-positive weeks are rejected.
\<close>

theorem week_of_epoch_iff_bounds:
  assumes "0 \<le> first" "first \<le> epoch" "epoch < 2 ^ 53"
  shows "\<exists>w start fin. computeWeekForEpoch first epoch = Inr w \<and> 1 \<le> w \<and>
    computeStartEpochForWeek first w = Inr start \<and> computeEndEpochForWeek first w = Inr fin \<and>
    start \<le> epoch \<and> epoch \<le> fin \<and>
    (\<forall>v s f. computeStartEpochForWeek first v = Inr s \<and> computeEndEpochForWeek first v = Inr f \<and>
       s \<le> epoch \<and> epoch \<le> f \<longrightarrow> v = w) \<and>
    (\<forall>e<first. computeWeekForEpoch first e = Inl ErrInvalidEpochLowerThanFirstWeekStartEpoch) \<and>
    (\<forall>v\<le>0. computeStartEpochForWeek first v = Inl ErrInvalidWeek \<and>
       computeEndEpochForWeek first v = Inl ErrInvalidWeek)"
proof -
  let ?w = "(epoch - first) div EPOCHS_IN_WEEK + 1"
  have week: "computeWeekForEpoch first epoch = Inr ?w"
    using assms by (intro computeWeekForEpoch_eq) auto
  have bounds: "computeStartEpochForWeek first v = Inr s \<and> computeEndEpochForWeek first v = Inr f \<longleftrightarrow>
      1 \<le> v \<and> s = first + (v - 1) * 7 \<and> f = first + (v - 1) * 7 + 6" for v s f
    by (auto simp: computeStartEpochForWeek_def computeEndEpochForWeek_def EPOCHS_IN_WEEK_def)
  have w: "1 \<le> ?w" "first + (?w - 1) * 7 \<le> epoch" "epoch \<le> first + (?w - 1) * 7 + 6"
    using assms by (simp_all add: EPOCHS_IN_WEEK_def pos_imp_zdiv_nonneg_iff)
  have unique: "v = ?w" if "first + (v - 1) * 7 \<le> epoch" "epoch \<le> first + (v - 1) * 7 + 6" for v
    using that by (simp add: EPOCHS_IN_WEEK_def)
  have uniq: "\<forall>v s f. computeStartEpochForWeek first v = Inr s \<and> computeEndEpochForWeek first v = Inr f \<and>
       s \<le> epoch \<and> epoch \<le> f \<longrightarrow> v = ?w"
  proof (intro allI impI)
    fix v s f
    assume h: "computeStartEpochForWeek first v = Inr s \<and> computeEndEpochForWeek first v = Inr f \<and>
       s \<le> epoch \<and> epoch \<le> f"
    then have "s = first + (v - 1) * 7" "f = first + (v - 1) * 7 + 6" using bounds [of v s f] by blast+
    with h show "v = ?w" by (intro unique) simp_all
  qed
  have errors: "\<forall>e<first. computeWeekForEpoch first e = Inl ErrInvalidEpochLowerThanFirstWeekStartEpoch"
    "\<forall>v\<le>0. computeStartEpochForWeek first v = Inl ErrInvalidWeek \<and>
       computeEndEpochForWeek first v = Inl ErrInvalidWeek"
    by (simp_all add: computeWeekForEpoch_def computeStartEpochForWeek_def computeEndEpochForWeek_def)
  have own: "computeStartEpochForWeek first ?w = Inr (first + (?w - 1) * 7) \<and>
      computeEndEpochForWeek first ?w = Inr (first + (?w - 1) * 7 + 6)"
    using w(1) bounds [of ?w] by blast
  show ?thesis
    by (intro exI [of _ ?w] exI [of _ "first + (?w - 1) * 7"] exI [of _ "first + (?w - 1) * 7 + 6"] conjI)
      (fact week w own [THEN conjunct1] own [THEN conjunct2] uniq errors)+
qed

theorem week_of_epoch_iff_bounds_witness:
  "\<exists>w. computeWeekForEpoch 10 31 = Inr w \<and> 1 \<le> w"
  using week_of_epoch_iff_bounds [of 10 31] by auto

text \<open>
  Advancing a claim by \<open>k\<close> weeks without new energy entries subtracts exactly
  \<open>k\<close> weeks of the locked tokens and adds \<open>k\<close> to the week: every step starts from the same
  update epoch, which makes up for depletion not moving it.
\<close>

theorem advanceWeek_iterated:
  assumes "bignumber_lib B" "totalLockedTokens (progEnergy p) = bn_of_int l"
    "enAmount (progEnergy p) = bn_of_int a" "0 \<le> l" "0 < lastUpdateEpoch (progEnergy p)"
    "lastUpdateEpoch (progEnergy p) < 2 ^ 52"
  shows "((\<lambda>p. advanceWeek B p None EPOCHS_IN_WEEK) ^^ k) p =
    \<lparr>progWeek = progWeek p + int k,
     progEnergy = (progEnergy p)\<lparr>enAmount := bn_of_int (a - int k * (l * EPOCHS_IN_WEEK))\<rparr>\<rparr>"
  using bignumber_lib.advanceWeeks_fin [OF assms(1-3), of EPOCHS_IN_WEEK k] assms(4-6)
  by (simp add: EPOCHS_IN_WEEK_def)

theorem advanceWeek_iterated_witness:
  "((\<lambda>p. advanceWeek bn_js p None EPOCHS_IN_WEEK) ^^ 3)
     \<lparr>progWeek = 4, progEnergy = \<lparr>enAmount = bn_of_int 100, lastUpdateEpoch = 20, totalLockedTokens = bn_of_int 2\<rparr>\<rparr>
   = \<lparr>progWeek = 7, progEnergy = \<lparr>enAmount = bn_of_int 58, lastUpdateEpoch = 20, totalLockedTokens = bn_of_int 2\<rparr>\<rparr>"
  using advanceWeek_iterated [OF js.bignumber_lib_axioms, of "\<lparr>progWeek = 4, progEnergy =
      \<lparr>enAmount = bn_of_int 100, lastUpdateEpoch = 20, totalLockedTokens = bn_of_int 2\<rparr>\<rparr>" 2 100 3]
  by (simp add: EPOCHS_IN_WEEK_def)

end
