(* ===== verification/WeeklyRewards.thy ===== *)
theory WeeklyRewards
  imports WeekTimekeeping TokenConverters
begin

text \<open>
  Rewards split by week and energy:
  \<open>src/submodules/weekly-rewards-splitting/services/weekly-rewards-splitting.compute.service.ts\<close>.
  \<open>week_view\<close> holds what the services read: the getters of the weekly-rewards, week-timekeeping,
  energy and fees-collector ABI services, the token metadata, the USD price of a token
  (\<open>TokenComputeService.computeTokenPriceDerivedUSD\<close>) and the epoch counters. Cached getters
  return what the cached computation returns.
\<close>

section \<open>Data\<close>

record esdt_payment =
  pmTokenID :: string
  pmNonce :: int
  pmAmount :: bn
  pmTokenType :: int

record token_distribution =
  distTokenId :: string
  percentage :: bn

record week_view =
  totalRewardsForWeek :: "string \<Rightarrow> int \<Rightarrow> esdt_payment list"
  userEnergyForWeek :: "string \<Rightarrow> string \<Rightarrow> int \<Rightarrow> energy_entry"
  totalEnergyForWeek :: "string \<Rightarrow> int \<Rightarrow> bn"
  totalLockedTokensForWeek :: "string \<Rightarrow> int \<Rightarrow> bn"
  currentClaimProgress :: "string \<Rightarrow> string \<Rightarrow> claim_progress"
  lastActiveWeekForUser :: "string \<Rightarrow> string \<Rightarrow> int"
  currentWeek :: "string \<Rightarrow> int"
  firstWeekStartEpoch :: "string \<Rightarrow> int"
  baseAssetTokenID :: string
  energyLockedTokenID :: string
  energyEntryForUser :: "string \<Rightarrow> energy_entry"
  tokenDecimals :: "string \<Rightarrow> nat"
  tokenPriceDerivedUSD :: "string \<Rightarrow> bn"
  scAddressHas :: "string \<Rightarrow> bool"
  epochNow :: int
  blocksCountInEpoch :: "int \<Rightarrow> int"

section \<open>Distribution of payments by value\<close>

text \<open>A token's value is its price times the raw amount, without its decimals.\<close>

definition rewardsPriceUSD :: "bignumber \<Rightarrow> week_view \<Rightarrow> esdt_payment \<Rightarrow> bn" where
  "rewardsPriceUSD B V token =
     bn_times B (tokenPriceDerivedUSD V (pmTokenID token)) (pmAmount token)"

definition computeDistribution ::
  "bignumber \<Rightarrow> week_view \<Rightarrow> esdt_payment list \<Rightarrow> token_distribution list" where
  "computeDistribution B V pays =
     (let totalPriceUSD = foldl (\<lambda>acc token. bn_plus B acc (rewardsPriceUSD B V token)) (Fin 0) pays
      in map (\<lambda>token. \<lparr>distTokenId = pmTokenID token,
           percentage = bn_fixed B 4 (bn_times B
             (bn_div B (rewardsPriceUSD B V token) totalPriceUSD) (bn_number B 100))\<rparr>) pays)"

section \<open>Yields\<close>

definition computeTotalLockedTokensForWeekPriceUSD :: "bignumber \<Rightarrow> week_view \<Rightarrow> bn \<Rightarrow> bn" where
  "computeTotalLockedTokensForWeekPriceUSD B V totalLocked =
     (let tokenPriceUSD = (if scAddressHas V (baseAssetTokenID V)
            then tokenPriceDerivedUSD V (baseAssetTokenID V) else Fin 0)
      in bn_times B totalLocked tokenPriceUSD)"

definition rewardValueUSD :: "bignumber \<Rightarrow> week_view \<Rightarrow> esdt_payment \<Rightarrow> bn" where
  "rewardValueUSD B V reward =
     (let tid = (if pmTokenID reward = energyLockedTokenID V then baseAssetTokenID V
                 else pmTokenID reward)
      in computeValueUSD B (pmAmount reward) (tokenDecimals V tid) (tokenPriceDerivedUSD V tid))"

definition computeTotalRewardsForWeekUSD :: "bignumber \<Rightarrow> week_view \<Rightarrow> string \<Rightarrow> int \<Rightarrow> bn" where
  "computeTotalRewardsForWeekUSD B V sc week =
     foldl (\<lambda>acc reward. bn_plus B acc (rewardValueUSD B V reward)) (Fin 0)
       (totalRewardsForWeek V sc week)"

definition computeWeekAPR :: "bignumber \<Rightarrow> week_view \<Rightarrow> string \<Rightarrow> int \<Rightarrow> bn" where
  "computeWeekAPR B V sc week =
     (let lockedUSD = computeTotalLockedTokensForWeekPriceUSD B V (totalLockedTokensForWeek V sc week);
          rewardsUSD = computeTotalRewardsForWeekUSD B V sc week
      in bn_div B (bn_times B rewardsUSD (bn_number B 52)) lockedUSD)"

definition computeUserApr :: "bignumber \<Rightarrow> week_view \<Rightarrow> string \<Rightarrow> string \<Rightarrow> int \<Rightarrow> bn" where
  "computeUserApr B V sc userAddress week =
     (let userEnergy = userEnergyForWeek V sc userAddress week;
          globalApr = computeWeekAPR B V sc week
      in bn_div B (bn_div B
           (bn_times B (bn_times B globalApr (enAmount userEnergy)) (totalLockedTokensForWeek V sc week))
           (totalEnergyForWeek V sc week))
           (totalLockedTokens userEnergy))"

section \<open>Blocks since the start of a week\<close>

text \<open>
  The same loop in the fees collector and in the farm: one count per epoch from the start of
  the week to the current epoch; \<open>reduce\<close> without a start value throws on an empty array.
\<close>

definition computeBlocksInWeek :: "week_view \<Rightarrow> string \<Rightarrow> int \<Rightarrow> int res" where
  "computeBlocksInWeek V sc week =
     res_bind (computeStartEpochForWeek (firstWeekStartEpoch V sc) week) (\<lambda>startEpoch.
       case map (blocksCountInEpoch V) [startEpoch..epochNow V] of
         [] \<Rightarrow> Inl (JsError ''TypeError'')
       | n # ns \<Rightarrow> Inr (foldl (\<lambda>total current. total + current) n ns))"

lemma computeBlocksInWeek_sum:
  assumes "computeStartEpochForWeek (firstWeekStartEpoch V sc) week = Inr s"
  shows "computeBlocksInWeek V sc week =
    (if epochNow V < s then Inl (JsError ''TypeError'')
     else Inr (\<Sum>e = s..epochNow V. blocksCountInEpoch V e))"
proof (cases "epochNow V < s")
  case True
  then show ?thesis using assms by (simp add: computeBlocksInWeek_def)
next
  case False
  then have split: "[s..epochNow V] = s # [s + 1..epochNow V]" by (simp add: upto_rec1)
  have sum: "(\<Sum>e = s..epochNow V. blocksCountInEpoch V e)
      = sum_list (map (blocksCountInEpoch V) [s..epochNow V])"
    by (simp add: sum_list_distinct_conv_sum_set)
  have "foldl (\<lambda>total current. total + current) n ns = n + sum_list ns" for n :: int and ns
    using foldl_plus_sum [of id n ns] by simp
  then show ?thesis
    using assms False by (simp add: computeBlocksInWeek_def split sum)
qed

section \<open>Facts\<close>

definition payment_values :: "week_view \<Rightarrow> (string \<Rightarrow> rat) \<Rightarrow> esdt_payment list \<Rightarrow> (esdt_payment \<Rightarrow> rat) \<Rightarrow> bool" where
  "payment_values V price pays amt \<longleftrightarrow>
     (\<forall>p\<in>set pays. tokenPriceDerivedUSD V (pmTokenID p) = Fin (price (pmTokenID p)) \<and>
        0 \<le> price (pmTokenID p) \<and> pmAmount p = Fin (amt p) \<and> 0 \<le> amt p)"

context bignumber_lib begin

lemma foldl_bn_plus:
  assumes "\<forall>x\<in>set xs. g x = Fin (f x)"
  shows "foldl (\<lambda>acc x. bn_plus B acc (g x)) (Fin a) xs = Fin (a + sum_list (map f xs))"
  using assms by (induction xs arbitrary: a) (auto simp: plus_fin algebra_simps)

lemma rewardsPriceUSD_fin:
  assumes "payment_values V price pays amt" "p \<in> set pays"
  shows "rewardsPriceUSD B V p = Fin (price (pmTokenID p) * amt p)"
  using assms by (simp add: rewardsPriceUSD_def payment_values_def times_fin)

lemma computeDistribution_fin:
  assumes "payment_values V price pays amt"
  defines "value \<equiv> \<lambda>p. price (pmTokenID p) * amt p"
  assumes "0 < sum_list (map value pays)"
  shows "computeDistribution B V pays = map (\<lambda>p. \<lparr>distTokenId = pmTokenID p,
    percentage = Fin (round_dp 4 (round_dp 20 (value p / sum_list (map value pays)) * 100))\<rparr>) pays"
proof -
  have val: "\<forall>p\<in>set pays. rewardsPriceUSD B V p = Fin (value p)"
    using rewardsPriceUSD_fin [OF assms(1)] by (simp add: value_def)
  have "foldl (\<lambda>acc token. bn_plus B acc (rewardsPriceUSD B V token)) (Fin 0) pays
      = Fin (sum_list (map value pays))"
    using foldl_bn_plus [OF val, of 0] by simp
  then show ?thesis
    using val assms(3) number_numeral [of "num.Bit0 (num.Bit0 (num.Bit1 (num.Bit0 (num.Bit0 (num.Bit1 num.One)))))"]
    by (auto simp: computeDistribution_def Let_def div_fin times_fin fixed_fin)
qed

end

section \<open>Properties\<close>




definition demo_week :: week_view where
  "demo_week = \<lparr>totalRewardsForWeek = \<lambda>_ _. [\<lparr>pmTokenID = ''MEX'', pmNonce = 0, pmAmount = bn_of_int 100, pmTokenType = 0\<rparr>],
     userEnergyForWeek = \<lambda>_ _ _. \<lparr>enAmount = bn_of_int 10, lastUpdateEpoch = 1, totalLockedTokens = bn_of_int 5\<rparr>,
     totalEnergyForWeek = \<lambda>_ _. bn_of_int 40, totalLockedTokensForWeek = \<lambda>_ _. bn_of_int 5200,
     currentClaimProgress = \<lambda>_ _. \<lparr>progWeek = 1,
       progEnergy = \<lparr>enAmount = bn_of_int 10, lastUpdateEpoch = 1, totalLockedTokens = bn_of_int 5\<rparr>\<rparr>,
     lastActiveWeekForUser = \<lambda>_ _. 1, currentWeek = \<lambda>_. 2, firstWeekStartEpoch = \<lambda>_. 1,
     baseAssetTokenID = ''MEX'', energyLockedTokenID = ''XMEX'',
     energyEntryForUser = \<lambda>_. \<lparr>enAmount = bn_of_int 10, lastUpdateEpoch = 1, totalLockedTokens = bn_of_int 5\<rparr>,
     tokenDecimals = \<lambda>t. (if t = ''USDC'' then 6 else 18), tokenPriceDerivedUSD = \<lambda>_. bn_of_int 1,
     scAddressHas = \<lambda>t. t = ''MEX'', epochNow = 10, blocksCountInEpoch = \<lambda>_. 14400\<rparr>"

definition demo_payment :: "string \<Rightarrow> int \<Rightarrow> esdt_payment" where
  "demo_payment t a = \<lparr>pmTokenID = t, pmNonce = 0, pmAmount = bn_of_int a, pmTokenType = 0\<rparr>"


text \<open>
  The distribution weighs raw amounts: one dollar of a token with 18 decimals and one
  dollar of a token with 6 decimals are reported as 100 and 0 percent, although the two
  payments are worth the same to \<open>rewardValueUSD\<close>.
\<close>

theorem computeDistribution_ignores_decimals:
  "rewardValueUSD bn_js demo_week (demo_payment ''MEX'' (10 ^ 18))
     = rewardValueUSD bn_js demo_week (demo_payment ''USDC'' (10 ^ 6)) \<and>
   computeDistribution bn_js demo_week [demo_payment ''MEX'' (10 ^ 18), demo_payment ''USDC'' (10 ^ 6)]
     = [\<lparr>distTokenId = ''MEX'', percentage = Fin 100\<rparr>, \<lparr>distTokenId = ''USDC'', percentage = Fin 0\<rparr>]"
proof
  show "rewardValueUSD bn_js demo_week (demo_payment ''MEX'' (10 ^ 18))
     = rewardValueUSD bn_js demo_week (demo_payment ''USDC'' (10 ^ 6))"
    by (simp add: rewardValueUSD_def demo_week_def demo_payment_def bn_finite)
  let ?pays = "[demo_payment ''MEX'' (10 ^ 18), demo_payment ''USDC'' (10 ^ 6)]"
  let ?amt = "\<lambda>p. if pmTokenID p = ''MEX'' then 10 ^ 18 else 10 ^ 6 :: rat"
  have pv: "payment_values demo_week (\<lambda>_. 1) ?pays ?amt"
    by (simp add: payment_values_def demo_week_def demo_payment_def)
  have fl: "\<lfloor>200000000000000000001000000000001 / 2000000000002 :: rat\<rfloor> = 99999999999900000000"
    by (simp add: floor_eq_iff)
  have big: "round_dp 4 (round_dp 20 (10 ^ 18 / (10 ^ 18 + 10 ^ 6)) * 100) = 100"
    by (simp add: round_dp_def half_up_def fl) (simp add: floor_eq_iff)?
  have fl': "\<lfloor>200000001000000000001 / 2000000000002 :: rat\<rfloor> = 100000000"
    by (simp add: floor_eq_iff)
  have small: "round_dp 4 (round_dp 20 (10 ^ 6 / (10 ^ 18 + 10 ^ 6)) * 100) = 0"
    by (simp add: round_dp_def half_up_def fl') (simp add: floor_eq_iff)?
  show "computeDistribution bn_js demo_week ?pays
     = [\<lparr>distTokenId = ''MEX'', percentage = Fin 100\<rparr>, \<lparr>distTokenId = ''USDC'', percentage = Fin 0\<rparr>]"
    using js.computeDistribution_fin [OF pv] big small by (simp add: demo_payment_def)
qed

text \<open>
  The yearly yield of a week divides a value in whole tokens by one in base units: with
  all rewards in the base asset, the result is the true yearly rate \<open>52 * r / locked\<close> divided
  once more by ten to the token's decimals, independent of the price.
\<close>

theorem weekAPR_off_by_decimals:
  assumes "bignumber_lib B" "totalRewardsForWeek V sc week = [reward]"
    "pmTokenID reward = baseAssetTokenID V" "pmAmount reward = bn_of_int r"
    "tokenPriceDerivedUSD V (baseAssetTokenID V) = Fin p" "0 < p"
    "scAddressHas V (baseAssetTokenID V)" "totalLockedTokensForWeek V sc week = bn_of_int locked" "0 < locked"
  shows "computeWeekAPR B V sc week =
    Fin (round_dp 20 (52 * of_int r / of_int locked / 10 ^ tokenDecimals V (baseAssetTokenID V)))"
proof -
  let ?d = "tokenDecimals V (baseAssetTokenID V)"
  have n52: "bn_number B 52 = Fin 52"
    using bignumber_lib.number_numeral [OF assms(1), of "num.Bit0 (num.Bit0 (num.Bit1 (num.Bit0 (num.Bit1 num.One))))"]
    by simp
  have val: "rewardValueUSD B V reward = computeValueUSD B (bn_of_int r) ?d (Fin p)"
    using assms by (cases "baseAssetTokenID V = energyLockedTokenID V") (simp_all add: rewardValueUSD_def Let_def)
  have rew: "computeTotalRewardsForWeekUSD B V sc week = Fin (of_int r / 10 ^ ?d * p)"
    using assms by (simp add: computeTotalRewardsForWeekUSD_def val
        bignumber_lib.computeValueUSD_fin bignumber_lib.plus_fin)
  have lock: "computeTotalLockedTokensForWeekPriceUSD B V (bn_of_int locked) = Fin (of_int locked * p)"
    using assms by (simp add: computeTotalLockedTokensForWeekPriceUSD_def bignumber_lib.times_fin)
  have "of_int r / 10 ^ ?d * p * 52 / (of_int locked * p) = 52 * of_int r / of_int locked / 10 ^ ?d"
    using assms(6) by (simp add: mult.commute)
  then show ?thesis
    using assms by (simp add: computeWeekAPR_def rew lock n52 bignumber_lib.times_fin bignumber_lib.div_fin)
qed

theorem weekAPR_off_by_decimals_witness:
  "computeWeekAPR bn_js demo_week ''fees'' 1 = Fin (round_dp 20 (1 / 10 ^ 18))"
  using weekAPR_off_by_decimals [OF js.bignumber_lib_axioms, of demo_week "''fees''" 1
      "\<lparr>pmTokenID = ''MEX'', pmNonce = 0, pmAmount = bn_of_int 100, pmTokenType = 0\<rparr>" 100 1 5200]
  by (simp add: demo_week_def)

end
