(* ===== verification/FeesCollector.thy ===== *)
theory FeesCollector
  imports WeeklyRewards
begin

text \<open>
  The fees collector: rewards of a user for a week, the fees accumulated in a week so far,
  the yearly yield of a user, and the week ranges shown for the contract and for a user
  (\<open>src/modules/fees-collector/services/fees-collector.compute.service.ts\<close> and
  \<open>fees-collector.service.ts\<close>).
\<close>

section \<open>Data\<close>

definition USER_MAX_CLAIM_WEEKS :: int where
  "USER_MAX_CLAIM_WEEKS = 4"

record fees_view =
  accumulatedFees :: "int \<Rightarrow> string \<Rightarrow> bn"
  allTokens :: "string list"
  feesLockedTokenID :: string
  lockedTokensPerBlock :: bn

record fees_collector_model =
  fcAddress :: string
  fcCurrentWeek :: int
  fcStartWeek :: int
  fcEndWeek :: int
  fcAllTokens :: "string list"

record user_fees_collector_model =
  ufcAddress :: string
  ufcUserAddress :: string
  ufcStartWeek :: int
  ufcEndWeek :: int
  ufcCurrentWeek :: int

record week_info =
  wiScAddress :: string
  wiUserAddress :: "string option"
  wiWeek :: int

section \<open>Compute service\<close>

definition weeklyPayment :: "bignumber \<Rightarrow> bn \<Rightarrow> bn \<Rightarrow> bn \<Rightarrow> bn" where
  "weeklyPayment B reward userEnergy totalEnergy =
     bn_div B (bn_times B reward userEnergy) totalEnergy"

fun rewardPayments :: "bignumber \<Rightarrow> bn \<Rightarrow> bn \<Rightarrow> esdt_payment list \<Rightarrow> esdt_payment list" where
  "rewardPayments B userEnergy totalEnergy [] = []"
| "rewardPayments B userEnergy totalEnergy (weeklyRewards # rest) =
     (let paymentAmount = weeklyPayment B (pmAmount weeklyRewards) userEnergy totalEnergy in
      if bn_greater B paymentAmount (Fin 0) then
        \<lparr>pmTokenID = pmTokenID weeklyRewards, pmNonce = 0,
         pmAmount = bn_integer B paymentAmount, pmTokenType = pmTokenType weeklyRewards\<rparr>
          # rewardPayments B userEnergy totalEnergy rest
      else rewardPayments B userEnergy totalEnergy rest)"

definition computeUserRewardsForWeek ::
  "bignumber \<Rightarrow> week_view \<Rightarrow> string \<Rightarrow> string \<Rightarrow> int \<Rightarrow> esdt_payment list" where
  "computeUserRewardsForWeek B V sc userAddress week =
     (let rewards = totalRewardsForWeek V sc week;
          userEnergy = userEnergyForWeek V sc userAddress week
      in if rewards = [] then []
         else if \<not> bn_greater B (enAmount userEnergy) (Fin 0) then []
         else rewardPayments B (enAmount userEnergy) (totalEnergyForWeek V sc week) rewards)"

definition computeUserRewardsDistributionForWeek ::
  "bignumber \<Rightarrow> week_view \<Rightarrow> string \<Rightarrow> string \<Rightarrow> int \<Rightarrow> token_distribution list" where
  "computeUserRewardsDistributionForWeek B V sc userAddress week =
     computeDistribution B V (computeUserRewardsForWeek B V sc userAddress week)"

definition computeAccumulatedFeesUntilNow ::
  "bignumber \<Rightarrow> week_view \<Rightarrow> fees_view \<Rightarrow> string \<Rightarrow> int \<Rightarrow> bn res" where
  "computeAccumulatedFeesUntilNow B V F sc week =
     res_bind (computeBlocksInWeek V sc week) (\<lambda>blocksInWeek.
       Inr (bn_times B (lockedTokensPerBlock F) (bn_number B (of_int blocksInWeek))))"

text \<open>\<open>None\<close> is an argument the caller left out; the user's energy is depleted to now.\<close>

definition computeUserRewardsAPR ::
  "bignumber \<Rightarrow> week_view \<Rightarrow> string \<Rightarrow> string \<Rightarrow> bn option \<Rightarrow> bn option \<Rightarrow> bn" where
  "computeUserRewardsAPR B V sc userAddress customEnergyAmount customLockedTokens =
     (if customEnergyAmount = Some (Fin 0) \<or> customLockedTokens = Some (Fin 0) then Fin 0
      else
        let lastWeek = currentWeek V sc - 1;
            baseToken = baseAssetTokenID V;
            userEnergy = depleteUserEnergy B (energyEntryForUser V userAddress) (epochNow V);
            totalRewardsUSD = computeTotalRewardsForWeekUSD B V sc lastWeek;
            totalEnergy = (case customEnergyAmount of
                None \<Rightarrow> totalEnergyForWeek V sc lastWeek
              | Some custom \<Rightarrow> bn_plus B
                  (bn_minus B (totalEnergyForWeek V sc lastWeek) (enAmount userEnergy)) custom);
            userLockedUSD = computeValueUSD B
              (case customLockedTokens of None \<Rightarrow> totalLockedTokens userEnergy | Some l \<Rightarrow> l)
              (tokenDecimals V baseToken) (tokenPriceDerivedUSD V baseToken);
            userRewardsUSD = bn_div B (bn_times B totalRewardsUSD
              (case customEnergyAmount of None \<Rightarrow> enAmount userEnergy | Some e \<Rightarrow> e)) totalEnergy
        in bn_times B (bn_div B (bn_times B userRewardsUSD (bn_number B 52)) userLockedUSD)
             (bn_number B 100))"

section \<open>Service\<close>

definition getAccumulatedFees ::
  "bignumber \<Rightarrow> week_view \<Rightarrow> fees_view \<Rightarrow> string \<Rightarrow> int \<Rightarrow> string list \<Rightarrow> esdt_payment list res" where
  "getAccumulatedFees B V F sc week tokens =
     res_bind (computeAccumulatedFeesUntilNow B V F sc week) (\<lambda>minted.
       Inr (map (\<lambda>token. \<lparr>pmTokenID = token, pmNonce = 0, pmAmount = accumulatedFees F week token,
              pmTokenType = 0\<rparr>) tokens
            @ [\<lparr>pmTokenID = ''Minted'' @ feesLockedTokenID F, pmNonce = 0, pmAmount = minted,
                pmTokenType = 0\<rparr>]))"

definition feesCollector :: "week_view \<Rightarrow> fees_view \<Rightarrow> string \<Rightarrow> fees_collector_model" where
  "feesCollector V F sc =
     \<lparr>fcAddress = sc, fcCurrentWeek = currentWeek V sc,
      fcStartWeek = currentWeek V sc - USER_MAX_CLAIM_WEEKS, fcEndWeek = currentWeek V sc,
      fcAllTokens = allTokens F\<rparr>"

definition userFeesCollector :: "week_view \<Rightarrow> string \<Rightarrow> string \<Rightarrow> user_fees_collector_model" where
  "userFeesCollector V sc userAddress =
     (let lastActive = lastActiveWeekForUser V sc userAddress;
          now = currentWeek V sc
      in \<lparr>ufcAddress = sc, ufcUserAddress = userAddress,
          ufcStartWeek = (if lastActive = 0 then now else max (now - USER_MAX_CLAIM_WEEKS) lastActive),
          ufcEndWeek = now - 1, ufcCurrentWeek = now\<rparr>)"

definition getWeeklyRewardsSplit :: "string \<Rightarrow> int \<Rightarrow> int \<Rightarrow> week_info list" where
  "getWeeklyRewardsSplit sc startWeek endWeek =
     map (\<lambda>week. \<lparr>wiScAddress = sc, wiUserAddress = None, wiWeek = week\<rparr>)
       (filter (\<lambda>week. \<not> week < 1) [startWeek..endWeek])"

definition getUserWeeklyRewardsSplit :: "string \<Rightarrow> string \<Rightarrow> int \<Rightarrow> int \<Rightarrow> week_info list" where
  "getUserWeeklyRewardsSplit sc userAddress startWeek endWeek =
     map (\<lambda>week. \<lparr>wiScAddress = sc, wiUserAddress = Some userAddress, wiWeek = week\<rparr>)
       (filter (\<lambda>week. \<not> week < 1) [startWeek..endWeek])"

definition getUserAccumulatedRewards ::
  "bignumber \<Rightarrow> week_view \<Rightarrow> fees_view \<Rightarrow> string \<Rightarrow> string \<Rightarrow> int \<Rightarrow> esdt_payment list res" where
  "getUserAccumulatedRewards B V F sc userAddress week =
     res_bind (getAccumulatedFees B V F sc week (allTokens F)) (\<lambda>fees.
       let progress = currentClaimProgress V sc userAddress in
       if progWeek progress = 0 \<or> enAmount (progEnergy progress) = Fin 0 then Inr []
       else
         let share = bn_div B (enAmount (progEnergy progress)) (totalEnergyForWeek V sc week)
         in Inr (map (\<lambda>payment. \<lparr>pmTokenID = pmTokenID payment, pmNonce = pmNonce payment,
              pmAmount = bn_integer B (bn_times B (pmAmount payment) share),
              pmTokenType = pmTokenType payment\<rparr>) fees))"

section \<open>Facts\<close>

definition integer_rewards :: "esdt_payment list \<Rightarrow> (esdt_payment \<Rightarrow> int) \<Rightarrow> bool" where
  "integer_rewards rewards amt \<longleftrightarrow> (\<forall>r\<in>set rewards. pmAmount r = bn_of_int (amt r) \<and> 0 \<le> amt r)"

definition exact_share :: "int \<Rightarrow> int \<Rightarrow> int \<Rightarrow> rat" where
  "exact_share a u e = round_dp 20 (of_int a * of_int u / of_int e)"

lemma exact_share_bounds:
  assumes "0 \<le> a" "0 \<le> u" "u \<le> e" "0 < e"
  shows "0 \<le> exact_share a u e" "exact_share a u e \<le> of_int a"
proof -
  have "rat_of_int a * of_int u \<le> of_int a * of_int e" using assms by (intro mult_left_mono) simp_all
  then have "rat_of_int a * of_int u / of_int e \<le> of_int a" using assms by (simp add: divide_le_eq)
  then show "exact_share a u e \<le> of_int a" unfolding exact_share_def by (rule round_dp_le_int)
  show "0 \<le> exact_share a u e" using assms by (auto simp: exact_share_def intro: round_dp_nonneg)
qed

context bignumber_lib begin

lemma rewardPayments_fin:
  assumes "integer_rewards rewards amt" "0 < e"
  shows "rewardPayments B (bn_of_int u) (bn_of_int e) rewards =
    map (\<lambda>r. \<lparr>pmTokenID = pmTokenID r, pmNonce = 0,
           pmAmount = bn_of_int (half_up (exact_share (amt r) u e)), pmTokenType = pmTokenType r\<rparr>)
      (filter (\<lambda>r. 0 < exact_share (amt r) u e) rewards)"
  using assms
  by (induction rewards)
    (simp_all add: integer_rewards_def weeklyPayment_def exact_share_def times_fin div_fin
      greater_fin integer_fin)

lemma computeUserRewardsForWeek_fin:
  assumes "integer_rewards (totalRewardsForWeek V sc week) amt"
    "enAmount (userEnergyForWeek V sc userAddress week) = bn_of_int u" "0 < u"
    "totalEnergyForWeek V sc week = bn_of_int e" "0 < e"
  shows "computeUserRewardsForWeek B V sc userAddress week =
    map (\<lambda>r. \<lparr>pmTokenID = pmTokenID r, pmNonce = 0,
           pmAmount = bn_of_int (half_up (exact_share (amt r) u e)), pmTokenType = pmTokenType r\<rparr>)
      (filter (\<lambda>r. 0 < exact_share (amt r) u e) (totalRewardsForWeek V sc week))"
  using assms rewardPayments_fin [OF assms(1,5), of u]
  by (simp add: computeUserRewardsForWeek_def greater_fin Let_def)

end

section \<open>Properties\<close>

text \<open>
  A user with a positive share of a week's energy is paid, for each reward of the week
  in order, the share of it rounded to the nearest unit, and nothing where the share is
  zero; each payment is between zero and the whole reward. Without energy there is no payment.
\<close>

theorem user_rewards_share:
  assumes "bignumber_lib B" "integer_rewards (totalRewardsForWeek V sc week) amt"
    "enAmount (userEnergyForWeek V sc userAddress week) = bn_of_int u" "u \<le> e"
    "totalEnergyForWeek V sc week = bn_of_int e" "0 < e"
  shows "(u \<le> 0 \<longrightarrow> computeUserRewardsForWeek B V sc userAddress week = []) \<and>
    (0 < u \<longrightarrow> computeUserRewardsForWeek B V sc userAddress week =
      map (\<lambda>r. \<lparr>pmTokenID = pmTokenID r, pmNonce = 0,
             pmAmount = bn_of_int (half_up (exact_share (amt r) u e)), pmTokenType = pmTokenType r\<rparr>)
        (filter (\<lambda>r. 0 < exact_share (amt r) u e) (totalRewardsForWeek V sc week)) \<and>
      (\<forall>r\<in>set (totalRewardsForWeek V sc week).
        0 \<le> half_up (exact_share (amt r) u e) \<and> half_up (exact_share (amt r) u e) \<le> amt r \<and>
        \<bar>of_int (half_up (exact_share (amt r) u e)) - of_int (amt r) * of_int u / rat_of_int e\<bar> \<le> 51/100))"
proof (intro conjI impI ballI)
  show "computeUserRewardsForWeek B V sc userAddress week = []" if "u \<le> 0"
    using assms that by (simp add: computeUserRewardsForWeek_def bignumber_lib.greater_fin Let_def)
next
  assume u: "0 < u"
  then show "computeUserRewardsForWeek B V sc userAddress week =
      map (\<lambda>r. \<lparr>pmTokenID = pmTokenID r, pmNonce = 0,
             pmAmount = bn_of_int (half_up (exact_share (amt r) u e)), pmTokenType = pmTokenType r\<rparr>)
        (filter (\<lambda>r. 0 < exact_share (amt r) u e) (totalRewardsForWeek V sc week))"
    by (intro bignumber_lib.computeUserRewardsForWeek_fin assms)
  fix r assume "r \<in> set (totalRewardsForWeek V sc week)"
  then have a: "0 \<le> amt r" using assms(2) by (simp add: integer_rewards_def)
  note b = exact_share_bounds [OF a order_less_imp_le [OF u] assms(4,6)]
  show "0 \<le> half_up (exact_share (amt r) u e)" using b(1) by (rule half_up_nonneg)
  show "half_up (exact_share (amt r) u e) \<le> amt r" using b(2) by (rule half_up_le_int)
  define x where "x = of_int (amt r) * of_int u / rat_of_int e"
  have "\<bar>exact_share (amt r) u e - x\<bar> \<le> 1 / (2 * 10 ^ 20)"
    using round_dp_error [of 20 x] by (simp add: exact_share_def x_def)
  then show "\<bar>of_int (half_up (exact_share (amt r) u e)) - of_int (amt r) * of_int u / rat_of_int e\<bar> \<le> 51/100"
    using half_up_error [of "exact_share (amt r) u e"] unfolding abs_le_iff x_def [symmetric] by simp
qed

theorem user_rewards_share_witness:
  "half_up (exact_share 100 10 40) \<le> 100 \<and>
   computeUserRewardsForWeek bn_js demo_week ''fees'' ''alice'' 1 \<noteq> []"
proof -
  have "integer_rewards (totalRewardsForWeek demo_week ''fees'' 1) (\<lambda>_. 100)"
    by (simp add: integer_rewards_def demo_week_def)
  from user_rewards_share [OF js.bignumber_lib_axioms this, of "''alice''" 10 40]
  show ?thesis by (simp add: demo_week_def exact_share_def round_dp_def half_up_def)
qed

text \<open>
  The reward shares are rounded to the nearest unit instead of down: two users who hold
  half of the energy each are both shown the whole of a reward of one unit.
\<close>

theorem user_rewards_overpaid:
  "let V = demo_week\<lparr>totalRewardsForWeek := \<lambda>_ _. [demo_payment ''MEX'' 1], totalEnergyForWeek := \<lambda>_ _. bn_of_int 20\<rparr>
   in computeUserRewardsForWeek bn_js V ''fees'' ''alice'' 1 = [demo_payment ''MEX'' 1] \<and>
      computeUserRewardsForWeek bn_js V ''fees'' ''bob'' 1 = [demo_payment ''MEX'' 1]"
proof -
  define V where "V = demo_week\<lparr>totalRewardsForWeek := \<lambda>_ _. [demo_payment ''MEX'' 1],
    totalEnergyForWeek := \<lambda>_ _. bn_of_int 20\<rparr>"
  have half: "exact_share 1 10 20 = 1 / 2"
    by (simp add: exact_share_def round_dp_def half_up_def) (simp add: floor_eq_iff)
  have "computeUserRewardsForWeek bn_js V ''fees'' user 1 = [demo_payment ''MEX'' 1]" for user
  proof -
    have "integer_rewards (totalRewardsForWeek V ''fees'' 1) (\<lambda>_. 1)"
      by (simp add: V_def integer_rewards_def demo_payment_def)
    from js.computeUserRewardsForWeek_fin [OF this, of user 10 20]
    show ?thesis by (simp add: V_def demo_week_def demo_payment_def half half_up_def)
  qed
  then show ?thesis unfolding Let_def V_def by blast
qed

text \<open>
  The fees of a week so far are the locked tokens per block times the blocks of every
  epoch from the start of the week to the current epoch, past the end of the week when it is
  over; a week that has not started and a week below one are errors.
\<close>

theorem accumulated_fees_until_now:
  assumes "bignumber_lib B" "lockedTokensPerBlock F = bn_of_int l"
    "\<forall>e. 0 \<le> blocksCountInEpoch V e" "(\<Sum>e = s..epochNow V. blocksCountInEpoch V e) < 2 ^ 53"
    "s = firstWeekStartEpoch V sc + (week - 1) * EPOCHS_IN_WEEK"
  shows "computeAccumulatedFeesUntilNow B V F sc week =
    (if week \<le> 0 then Inl ErrInvalidWeek
     else if epochNow V < s then Inl (JsError ''TypeError'')
     else Inr (bn_of_int (l * (\<Sum>e = s..epochNow V. blocksCountInEpoch V e))))"
proof (cases "week \<le> 0")
  case True
  then show ?thesis
    by (simp add: computeAccumulatedFeesUntilNow_def computeBlocksInWeek_def computeStartEpochForWeek_def)
next
  case False
  let ?n = "\<Sum>e = s..epochNow V. blocksCountInEpoch V e"
  have start: "computeStartEpochForWeek (firstWeekStartEpoch V sc) week = Inr s"
    using False assms(5) by (simp add: computeStartEpochForWeek_def)
  have "0 \<le> ?n" using assms(3) by (intro sum_nonneg) simp
  then have "bn_number B (of_int ?n) = bn_of_int ?n"
    using assms(4) by (intro bignumber_lib.number_int [OF assms(1)]) simp
  then show ?thesis
    using False assms(2)
    by (simp add: computeAccumulatedFeesUntilNow_def computeBlocksInWeek_sum [OF start]
        bignumber_lib.times_fin [OF assms(1)] del: of_int_sum)
qed

theorem accumulated_fees_until_now_witness:
  "computeAccumulatedFeesUntilNow bn_js demo_week
     \<lparr>accumulatedFees = \<lambda>_ _. Fin 0, allTokens = [], feesLockedTokenID = ''XMEX'', lockedTokensPerBlock = bn_of_int 2\<rparr>
     ''fees'' 2 = Inr (bn_of_int (2 * (3 * 14400)))"
proof -
  let ?F = "\<lparr>accumulatedFees = \<lambda>_ _. Fin 0, allTokens = [], feesLockedTokenID = ''XMEX'',
     lockedTokensPerBlock = bn_of_int 2\<rparr>"
  have eight: "{8..10::int} = {8, 9, 10}" by auto
  have sum: "(\<Sum>e = 8..epochNow demo_week. blocksCountInEpoch demo_week e) = 3 * 14400"
    by (simp add: demo_week_def eight)
  have view: "lockedTokensPerBlock ?F = bn_of_int 2" "\<forall>e. 0 \<le> blocksCountInEpoch demo_week e"
    "8 = firstWeekStartEpoch demo_week ''fees'' + (2 - 1) * EPOCHS_IN_WEEK" "epochNow demo_week = 10"
    by (simp_all add: demo_week_def EPOCHS_IN_WEEK_def)
  have "(\<Sum>e = 8..epochNow demo_week. blocksCountInEpoch demo_week e) < 2 ^ 53" unfolding sum by simp
  from accumulated_fees_until_now [OF js.bignumber_lib_axioms view(1,2) this view(3)]
  show ?thesis unfolding view(4) sum [unfolded view(4)] by simp
qed

end
