(* ===== verification/FarmCompute.thy ===== *)
theory FarmCompute
  imports PairCompute FeesCollector
begin

text \<open>
  The computations of the farms: \<open>src/modules/farm/base-module/services/farm.compute.service.ts\<close>
  and its versions \<open>v1.2\<close>, \<open>v1.3\<close> and \<open>v2\<close> (rewards of a position, locked values, yields,
  boosted rewards). \<open>farm_view\<close> has one field per getter of the farm's ABI service and of the
  context; \<open>getFarmedToken\<close> and \<open>getFarmingToken\<close> are the metadata of the farm's two tokens.

  A query of a \<open>null\<close> pair address throws when the contract is built (\<open>TypeError\<close>); the cached
  variants of the methods return what the computation returned when the entry was written.
\<close>

section \<open>Constants and state\<close>

definition BLOCKS_IN_YEAR :: int where
  "BLOCKS_IN_YEAR = 5256000"

definition BLOCKS_PER_WEEK :: int where
  "BLOCKS_PER_WEEK = 100800"

definition MAX_PERCENT :: int where
  "MAX_PERCENT = 10000"

record boosted_yields_factors =
  maxRewardsFactor :: bn
  userRewardsEnergy :: bn
  userRewardsFarm :: bn
  minEnergyAmount :: bn
  minFarmAmount :: bn

record farm_view =
  farmShard :: "string \<Rightarrow> int"
  shardCurrentBlockNonce :: "int \<Rightarrow> int"
  lastRewardBlockNonce :: "string \<Rightarrow> int"
  rewardsPerBlock :: "string \<Rightarrow> bn"
  produceRewardsEnabled :: "string \<Rightarrow> bool"
  divisionSafetyConstant :: "string \<Rightarrow> bn"
  farmTokenSupply :: "string \<Rightarrow> bn"
  rewardPerShare :: "string \<Rightarrow> bn"
  farmedTokenID :: "string \<Rightarrow> string"
  farmingTokenID :: "string \<Rightarrow> string"
  farmingTokenReserve :: "string \<Rightarrow> bn"
  lockedRewardAprMuliplier :: "string \<Rightarrow> int"
  pairContractAddress :: "string \<Rightarrow> string"
  boostedYieldsRewardsPercenatage :: "string \<Rightarrow> int"
  boostedYieldsFactors :: "string \<Rightarrow> boosted_yields_factors"
  accumulatedRewardsForWeek :: "string \<Rightarrow> int \<Rightarrow> bn option"
  undistributedBoostedRewards :: "string \<Rightarrow> bn"
  lastUndistributedBoostedRewardsCollectWeek :: "string \<Rightarrow> int"
  remainingBoostedRewardsToDistribute :: "string \<Rightarrow> int \<Rightarrow> bn"
  isScAddress :: "string \<Rightarrow> bool"
  farmTokenID :: "string \<Rightarrow> string"
  farmPenaltyPercent :: "string \<Rightarrow> rat"
  minimumFarmingEpochs :: "string \<Rightarrow> int"
  farmOwnerAddress :: "string \<Rightarrow> string"

record rewards_position =
  posFarmAddress :: string
  posLiquidity :: bn

section \<open>Base service\<close>

definition computeFarmedTokenPriceUSD ::
  "bignumber \<Rightarrow> dex_config \<Rightarrow> chain_view \<Rightarrow> farm_view \<Rightarrow> string \<Rightarrow> bn" where
  "computeFarmedTokenPriceUSD B cfg V F farm =
     (if isScAddress F (farmedTokenID F farm) then tokenPriceUSD B cfg V (farmedTokenID F farm)
      else tokenPriceUSD B cfg V (farmedTokenID F farm))"

text \<open>The pair of an LP token; \<open>null\<close> when there is none.\<close>

definition lpPair :: "chain_view \<Rightarrow> string \<Rightarrow> string option" where
  "lpPair V tid = fst (getPairAddressByLpTokenID V tid Map.empty)"

definition on_pair :: "chain_view \<Rightarrow> string \<Rightarrow> (string \<Rightarrow> 'a) \<Rightarrow> 'a res" where
  "on_pair V tid f = (case lpPair V tid of Some pair \<Rightarrow> Inr (f pair) | None \<Rightarrow> Inl (JsError ''TypeError''))"

definition computeFarmingTokenPriceUSD ::
  "bignumber \<Rightarrow> dex_config \<Rightarrow> chain_view \<Rightarrow> farm_view \<Rightarrow> string \<Rightarrow> bn option res" where
  "computeFarmingTokenPriceUSD B cfg V F farm =
     (let tid = farmingTokenID F farm in
      if isScAddress F tid then Inr (Some (tokenPriceUSD B cfg V tid))
      else on_pair V tid (computeLpTokenPriceUSD B cfg V))"

definition computeMintedRewards :: "bignumber \<Rightarrow> farm_view \<Rightarrow> string \<Rightarrow> bn" where
  "computeMintedRewards B F farm =
     (let currentNonce = shardCurrentBlockNonce F (farmShard F farm);
          lastNonce = lastRewardBlockNonce F farm
      in if lastNonce < currentNonce \<and> produceRewardsEnabled F farm
         then bn_times B (rewardsPerBlock F farm)
           (bn_minus B (bn_number B (of_int currentNonce)) (bn_number B (of_int lastNonce)))
         else Fin 0)"

text \<open>The body is shared by the versions, which differ in the minted rewards they pass.\<close>

definition rewardsForPosition ::
  "bignumber \<Rightarrow> farm_view \<Rightarrow> rewards_position \<Rightarrow> bn \<Rightarrow> bn \<Rightarrow> bn" where
  "rewardsForPosition B F position rewardPerShare' rewardIncrease =
     (let farm = posFarmAddress position;
          rewardPerShareIncrease = bn_integer B (bn_div B
            (bn_times B rewardIncrease (divisionSafetyConstant F farm)) (farmTokenSupply F farm));
          futureRewardPerShare = bn_plus B (rewardPerShare F farm) rewardPerShareIncrease
      in if bn_greater B futureRewardPerShare rewardPerShare'
         then bn_integer B (bn_div B
           (bn_times B (posLiquidity position) (bn_minus B futureRewardPerShare rewardPerShare'))
           (divisionSafetyConstant F farm))
         else Fin 0)"

definition computeFarmRewardsForPosition ::
  "bignumber \<Rightarrow> farm_view \<Rightarrow> rewards_position \<Rightarrow> bn \<Rightarrow> bn" where
  "computeFarmRewardsForPosition B F position rewardPerShare' =
     rewardsForPosition B F position rewardPerShare' (computeMintedRewards B F (posFarmAddress position))"

definition computeAnualRewardsUSD ::
  "bignumber \<Rightarrow> dex_config \<Rightarrow> chain_view \<Rightarrow> farm_view \<Rightarrow> string \<Rightarrow> bn" where
  "computeAnualRewardsUSD B cfg V F farm =
     (let farmedToken = tokenMetadata V (farmedTokenID F farm)
      in computeValueUSD B
           (bn_times B (rewardsPerBlock F farm) (bn_number B (of_int BLOCKS_IN_YEAR)))
           (decimals farmedToken) (tokenPriceUSD B cfg V (tokIdentifier farmedToken)))"

section \<open>Version 1.2\<close>

text \<open>The USD value of an amount of the farming token, a token of its own or an LP token.\<close>

definition farmingValueUSD ::
  "bignumber \<Rightarrow> dex_config \<Rightarrow> chain_view \<Rightarrow> farm_view \<Rightarrow> string \<Rightarrow> bn \<Rightarrow> bn res" where
  "farmingValueUSD B cfg V F farm amt =
     (let farmingToken = tokenMetadata V (farmingTokenID F farm) in
      if isScAddress F (tokIdentifier farmingToken)
      then Inr (computeValueUSD B amt (decimals farmingToken)
             (tokenPriceUSD B cfg V (tokIdentifier farmingToken)))
      else on_pair V (tokIdentifier farmingToken) (\<lambda>pair. getLiquidityPositionUSD B cfg V pair amt))"

definition computeFarmLockedValueUSD_v12 ::
  "bignumber \<Rightarrow> dex_config \<Rightarrow> chain_view \<Rightarrow> farm_view \<Rightarrow> string \<Rightarrow> bn res" where
  "computeFarmLockedValueUSD_v12 B cfg V F farm = farmingValueUSD B cfg V F farm (farmingTokenReserve F farm)"

definition computeUnlockedFarmingTokenReserve :: "bignumber \<Rightarrow> farm_view \<Rightarrow> string \<Rightarrow> bn" where
  "computeUnlockedFarmingTokenReserve B F farm =
     (let aprMultiplier = lockedRewardAprMuliplier F farm
      in bn_div B
           (bn_minus B (bn_times B (farmingTokenReserve F farm) (bn_number B (of_int aprMultiplier)))
             (farmTokenSupply F farm))
           (bn_number B (of_int (aprMultiplier - 1))))"

definition computeLockedFarmingTokenReserve :: "bignumber \<Rightarrow> farm_view \<Rightarrow> string \<Rightarrow> bn" where
  "computeLockedFarmingTokenReserve B F farm =
     bn_minus B (farmingTokenReserve F farm) (computeUnlockedFarmingTokenReserve B F farm)"

definition computeLockedFarmingTokenReserveUSD ::
  "bignumber \<Rightarrow> dex_config \<Rightarrow> chain_view \<Rightarrow> farm_view \<Rightarrow> string \<Rightarrow> bn res" where
  "computeLockedFarmingTokenReserveUSD B cfg V F farm =
     farmingValueUSD B cfg V F farm (computeLockedFarmingTokenReserve B F farm)"

definition computeUnlockedFarmingTokenReserveUSD ::
  "bignumber \<Rightarrow> dex_config \<Rightarrow> chain_view \<Rightarrow> farm_view \<Rightarrow> string \<Rightarrow> bn res" where
  "computeUnlockedFarmingTokenReserveUSD B cfg V F farm =
     farmingValueUSD B cfg V F farm (computeUnlockedFarmingTokenReserve B F farm)"

definition computeVirtualValueLockedUSD ::
  "bignumber \<Rightarrow> dex_config \<Rightarrow> chain_view \<Rightarrow> farm_view \<Rightarrow> string \<Rightarrow> bn res" where
  "computeVirtualValueLockedUSD B cfg V F farm =
     res_bind (computeLockedFarmingTokenReserveUSD B cfg V F farm) (\<lambda>lockedUSD.
     res_bind (computeUnlockedFarmingTokenReserveUSD B cfg V F farm) (\<lambda>unlockedUSD.
       Inr (bn_plus B (bn_times B lockedUSD (bn_number B (of_int (lockedRewardAprMuliplier F farm)))) unlockedUSD)))"

text \<open>The fee yield added when the farming token is an LP token; a NaN yield is left out.\<close>

definition addFeesAPR ::
  "bignumber \<Rightarrow> dex_config \<Rightarrow> chain_view \<Rightarrow> analytics_view \<Rightarrow> farm_view \<Rightarrow> string \<Rightarrow> bn \<Rightarrow> bn res" where
  "addFeesAPR B cfg V A F farm apr =
     res_bind
       (if farmedTokenID F farm \<noteq> farmingTokenID F farm
        then on_pair V (farmingTokenID F farm) (computeFeesAPR B cfg V A) else Inr (Fin 0))
       (\<lambda>feesAPR. Inr (if feesAPR = NotANum then apr else bn_plus B apr feesAPR))"

definition computeUnlockedRewardsAPR ::
  "bignumber \<Rightarrow> dex_config \<Rightarrow> chain_view \<Rightarrow> analytics_view \<Rightarrow> farm_view \<Rightarrow> string \<Rightarrow> bn res" where
  "computeUnlockedRewardsAPR B cfg V A F farm =
     (let totalRewardsPerYearUSD = computeAnualRewardsUSD B cfg V F farm in
      res_bind (computeVirtualValueLockedUSD B cfg V F farm) (\<lambda>virtualUSD.
      res_bind (computeUnlockedFarmingTokenReserveUSD B cfg V F farm) (\<lambda>unlockedUSD.
        let unlockedPercent = bn_div B unlockedUSD virtualUSD;
            distributedRewardsUSD = bn_times B totalRewardsPerYearUSD unlockedPercent
        in addFeesAPR B cfg V A F farm (bn_div B distributedRewardsUSD unlockedUSD))))"

definition computeLockedRewardsAPR ::
  "bignumber \<Rightarrow> dex_config \<Rightarrow> chain_view \<Rightarrow> analytics_view \<Rightarrow> farm_view \<Rightarrow> string \<Rightarrow> bn res" where
  "computeLockedRewardsAPR B cfg V A F farm =
     (let totalRewardsPerYearUSD = computeAnualRewardsUSD B cfg V F farm in
      res_bind (computeVirtualValueLockedUSD B cfg V F farm) (\<lambda>virtualUSD.
      res_bind (computeLockedFarmingTokenReserveUSD B cfg V F farm) (\<lambda>lockedUSD.
        let lockedPercent = bn_div B
              (bn_times B lockedUSD (bn_number B (of_int (lockedRewardAprMuliplier F farm)))) virtualUSD;
            distributedRewardsUSD = bn_times B totalRewardsPerYearUSD lockedPercent
        in addFeesAPR B cfg V A F farm (bn_div B distributedRewardsUSD lockedUSD))))"

section \<open>Version 1.3\<close>

definition computeFarmLockedValueUSD_v13 ::
  "bignumber \<Rightarrow> dex_config \<Rightarrow> chain_view \<Rightarrow> farm_view \<Rightarrow> string \<Rightarrow> bn res" where
  "computeFarmLockedValueUSD_v13 B cfg V F farm = farmingValueUSD B cfg V F farm (farmTokenSupply F farm)"

text \<open>Here a missing or empty pair address means no fee yield.\<close>

definition computeFarmAPR ::
  "bignumber \<Rightarrow> dex_config \<Rightarrow> chain_view \<Rightarrow> analytics_view \<Rightarrow> farm_view \<Rightarrow> string \<Rightarrow> bn res" where
  "computeFarmAPR B cfg V A F farm =
     res_bind (computeFarmLockedValueUSD_v13 B cfg V F farm) (\<lambda>supplyUSD.
       let apr = bn_div B (computeAnualRewardsUSD B cfg V F farm) supplyUSD;
           feesAPR = (if farmedTokenID F farm \<noteq> farmingTokenID F farm then
               (case lpPair V (farmingTokenID F farm) of
                  Some pair \<Rightarrow> if pair \<noteq> [] then computeFeesAPR B cfg V A pair else Fin 0
                | None \<Rightarrow> Fin 0)
             else Fin 0)
       in Inr (if feesAPR = NotANum then apr else bn_plus B apr feesAPR))"

section \<open>Version 2\<close>

definition computeFarmLockedValueUSD_v2 ::
  "bignumber \<Rightarrow> dex_config \<Rightarrow> chain_view \<Rightarrow> farm_view \<Rightarrow> string \<Rightarrow> bn" where
  "computeFarmLockedValueUSD_v2 B cfg V F farm =
     getLiquidityPositionUSD B cfg V (pairContractAddress F farm) (farmTokenSupply F farm)"

definition computeBaseRewards :: "bignumber \<Rightarrow> bn \<Rightarrow> int \<Rightarrow> bn" where
  "computeBaseRewards B totalFarmRewards boostedPercentage =
     (let boosted = bn_number B (of_int boostedPercentage) in
      if bn_positive B boosted then
        bn_minus B totalFarmRewards
          (bn_div B (bn_times B totalFarmRewards boosted) (bn_number B (of_int MAX_PERCENT)))
      else totalFarmRewards)"

definition computeFarmBaseAPR ::
  "bignumber \<Rightarrow> dex_config \<Rightarrow> chain_view \<Rightarrow> farm_view \<Rightarrow> string \<Rightarrow> bn" where
  "computeFarmBaseAPR B cfg V F farm =
     bn_div B
       (computeBaseRewards B (computeAnualRewardsUSD B cfg V F farm) (boostedYieldsRewardsPercenatage F farm))
       (computeFarmLockedValueUSD_v2 B cfg V F farm)"

definition computeMintedRewards_v2 :: "bignumber \<Rightarrow> farm_view \<Rightarrow> string \<Rightarrow> bn" where
  "computeMintedRewards_v2 B F farm =
     computeBaseRewards B (computeMintedRewards B F farm) (boostedYieldsRewardsPercenatage F farm)"

definition computeFarmRewardsForPosition_v2 ::
  "bignumber \<Rightarrow> farm_view \<Rightarrow> rewards_position \<Rightarrow> bn \<Rightarrow> bn" where
  "computeFarmRewardsForPosition_v2 B F position rewardPerShare' =
     rewardsForPosition B F position rewardPerShare' (computeMintedRewards_v2 B F (posFarmAddress position))"

text \<open>The cap of a user's boosted rewards over a number of blocks.\<close>

definition maxBoostedRewards :: "bignumber \<Rightarrow> farm_view \<Rightarrow> string \<Rightarrow> bn \<Rightarrow> bn \<Rightarrow> bn" where
  "maxBoostedRewards B F farm liquidity blocks =
     (let perBlock = bn_div B (bn_times B
            (bn_div B (bn_times B (rewardsPerBlock F farm)
                (bn_number B (of_int (boostedYieldsRewardsPercenatage F farm))))
              (bn_number B (of_int MAX_PERCENT))) liquidity) (farmTokenSupply F farm)
      in bn_times B (bn_times B (maxRewardsFactor (boostedYieldsFactors F farm)) perBlock) blocks)"

text \<open>The user's weighted share of a reward by energy and by farm tokens.\<close>

definition boostedReward ::
  "bignumber \<Rightarrow> farm_view \<Rightarrow> string \<Rightarrow> bn \<Rightarrow> bn \<Rightarrow> bn \<Rightarrow> bn \<Rightarrow> bn" where
  "boostedReward B F farm reward userEnergy totalEnergy liquidity =
     (let factors = boostedYieldsFactors F farm;
          byEnergy = bn_div B (bn_times B (bn_times B reward (userRewardsEnergy factors)) userEnergy) totalEnergy;
          byTokens = bn_div B (bn_times B (bn_times B reward (userRewardsFarm factors)) liquidity)
            (farmTokenSupply F farm)
      in bn_div B (bn_plus B byEnergy byTokens) (bn_plus B (userRewardsEnergy factors) (userRewardsFarm factors)))"

text \<open>\<open>a.comparedTo(b) < 1 ? a : b\<close>; a comparison with NaN is \<open>null\<close>, and \<open>null < 1\<close> holds.\<close>

definition capped :: "bignumber \<Rightarrow> bn \<Rightarrow> bn \<Rightarrow> bn" where
  "capped B a b = (if \<not> bn_greater B a b then a else b)"

definition hasBoost :: "bignumber \<Rightarrow> farm_view \<Rightarrow> string \<Rightarrow> bn \<Rightarrow> bn \<Rightarrow> bool" where
  "hasBoost B F farm energy liquidity \<longleftrightarrow>
     bn_greater B energy (minEnergyAmount (boostedYieldsFactors F farm)) \<and>
     bn_greater B liquidity (minFarmAmount (boostedYieldsFactors F farm))"

definition computeUserAccumulatedRewards ::
  "bignumber \<Rightarrow> week_view \<Rightarrow> farm_view \<Rightarrow> string \<Rightarrow> string \<Rightarrow> int \<Rightarrow> bn \<Rightarrow> bn res" where
  "computeUserAccumulatedRewards B W F farm userAddress week liquidity =
     res_bind (computeBlocksInWeek W farm week) (\<lambda>blocksInWeek.
       let energy = enAmount (userEnergyForWeek W farm userAddress week) in
       if \<not> hasBoost B F farm energy liquidity then Inr (Fin 0)
       else (case accumulatedRewardsForWeek F farm week of
               None \<Rightarrow> Inr (Fin 0)
             | Some totalRewards \<Rightarrow>
                 Inr (bn_integer B (capped B
                   (boostedReward B F farm totalRewards energy (totalEnergyForWeek W farm week) liquidity)
                   (maxBoostedRewards B F farm liquidity (bn_number B (of_int blocksInWeek)))))))"

fun boostedPayments ::
  "bignumber \<Rightarrow> farm_view \<Rightarrow> string \<Rightarrow> bn \<Rightarrow> bn \<Rightarrow> bn \<Rightarrow> esdt_payment list \<Rightarrow> esdt_payment list" where
  "boostedPayments B F farm energy totalEnergy liquidity [] = []"
| "boostedPayments B F farm energy totalEnergy liquidity (weeklyRewards # rest) =
     (let paymentAmount = capped B
            (boostedReward B F farm (pmAmount weeklyRewards) energy totalEnergy liquidity)
            (maxBoostedRewards B F farm liquidity (bn_number B (of_int BLOCKS_PER_WEEK)))
      in if bn_positive B paymentAmount then
           \<lparr>pmTokenID = pmTokenID weeklyRewards, pmNonce = 0, pmAmount = bn_integer B paymentAmount,
            pmTokenType = pmTokenType weeklyRewards\<rparr>
             # boostedPayments B F farm energy totalEnergy liquidity rest
         else boostedPayments B F farm energy totalEnergy liquidity rest)"

definition computeFarmUserRewardsForWeek ::
  "bignumber \<Rightarrow> week_view \<Rightarrow> farm_view \<Rightarrow> string \<Rightarrow> string \<Rightarrow> int \<Rightarrow> bn \<Rightarrow> esdt_payment list" where
  "computeFarmUserRewardsForWeek B W F farm userAddress week liquidity =
     (let energy = enAmount (userEnergyForWeek W farm userAddress week) in
      if \<not> hasBoost B F farm energy liquidity then []
      else boostedPayments B F farm energy (totalEnergyForWeek W farm week) liquidity
             (totalRewardsForWeek W farm week))"

text \<open>
  The cached variant: its key names the farm, the user and the week, but not the liquidity the
  rewards were computed for. The distribution is computed from what this method returns.
\<close>

type_synonym rewards_cache = "string \<times> string \<times> int \<rightharpoonup> esdt_payment list"

definition userRewardsForWeek ::
  "bignumber \<Rightarrow> week_view \<Rightarrow> farm_view \<Rightarrow> string \<Rightarrow> string \<Rightarrow> int \<Rightarrow> bn \<Rightarrow> rewards_cache
   \<Rightarrow> esdt_payment list \<times> rewards_cache" where
  "userRewardsForWeek B W F farm userAddress week liquidity cache =
     (case cache (farm, userAddress, week) of
        Some rewards \<Rightarrow> (rewards, cache)
      | None \<Rightarrow>
          let rewards = computeFarmUserRewardsForWeek B W F farm userAddress week liquidity
          in (rewards, cache((farm, userAddress, week) \<mapsto> rewards)))"

definition computeFarmUserRewardsDistributionForWeek ::
  "bignumber \<Rightarrow> week_view \<Rightarrow> farm_view \<Rightarrow> string \<Rightarrow> string \<Rightarrow> int \<Rightarrow> bn \<Rightarrow> rewards_cache
   \<Rightarrow> token_distribution list \<times> rewards_cache" where
  "computeFarmUserRewardsDistributionForWeek B W F farm userAddress week liquidity cache =
     (case userRewardsForWeek B W F farm userAddress week liquidity cache of
        (rewards, cache') \<Rightarrow> (computeDistribution B W rewards, cache'))"

definition computeOptimalEnergyPerLP ::
  "bignumber \<Rightarrow> week_view \<Rightarrow> farm_view \<Rightarrow> string \<Rightarrow> int \<Rightarrow> bn" where
  "computeOptimalEnergyPerLP B W F farm week =
     (let factors = boostedYieldsFactors F farm;
          u = maxRewardsFactor factors; a = userRewardsFarm factors; b = userRewardsEnergy factors;
          optimisationConstant = bn_div B (bn_minus B (bn_times B u (bn_plus B a b)) a) b
      in bn_integer B (bn_div B
           (bn_times B optimisationConstant (totalEnergyForWeek W farm week)) (farmTokenSupply F farm)))"

definition undistributedBoostedRewardsRaw :: "bignumber \<Rightarrow> farm_view \<Rightarrow> string \<Rightarrow> int \<Rightarrow> bn" where
  "undistributedBoostedRewardsRaw B F farm currentWeek' =
     (let firstWeek = lastUndistributedBoostedRewardsCollectWeek F farm + 1;
          lastWeek = currentWeek' - USER_MAX_CLAIM_WEEKS - 1
      in if lastWeek < firstWeek then undistributedBoostedRewards F farm
         else case map (remainingBoostedRewardsToDistribute F farm) [firstWeek..lastWeek] of
                r # rs \<Rightarrow> bn_plus B (undistributedBoostedRewards F farm) (foldl (bn_plus B) r rs)
              | [] \<Rightarrow> undistributedBoostedRewards F farm)"

definition undistributedBoostedRewardsOf :: "bignumber \<Rightarrow> farm_view \<Rightarrow> string \<Rightarrow> int \<Rightarrow> bn" where
  "undistributedBoostedRewardsOf B F farm currentWeek' =
     bn_integer B (undistributedBoostedRewardsRaw B F farm currentWeek')"

section \<open>Rewards of a position\<close>

text \<open>A farm in service: integer amounts, a positive supply and safety constant, safe block numbers.\<close>

definition sound_farm :: "farm_view \<Rightarrow> string \<Rightarrow> int \<Rightarrow> int \<Rightarrow> int \<Rightarrow> int \<Rightarrow> bool" where
  "sound_farm F farm S d r p \<longleftrightarrow>
     farmTokenSupply F farm = bn_of_int S \<and> divisionSafetyConstant F farm = bn_of_int d \<and>
     rewardPerShare F farm = bn_of_int r \<and> rewardsPerBlock F farm = bn_of_int p \<and>
     0 < S \<and> 0 < d \<and> 0 \<le> p \<and>
     0 \<le> lastRewardBlockNonce F farm \<and> lastRewardBlockNonce F farm < 2 ^ 53 \<and>
     0 \<le> shardCurrentBlockNonce F (farmShard F farm) \<and> shardCurrentBlockNonce F (farmShard F farm) < 2 ^ 53"

text \<open>The blocks the farm still has to pay for.\<close>

definition pendingBlocks :: "farm_view \<Rightarrow> string \<Rightarrow> int" where
  "pendingBlocks F farm =
     (if produceRewardsEnabled F farm
      then max 0 (shardCurrentBlockNonce F (farmShard F farm) - lastRewardBlockNonce F farm) else 0)"

lemma pendingBlocks_nonneg: "0 \<le> pendingBlocks F farm"
  by (simp add: pendingBlocks_def)

context bignumber_lib begin

lemma computeMintedRewards_fin:
  assumes "sound_farm F farm S d r p"
  shows "computeMintedRewards B F farm = bn_of_int (p * pendingBlocks F farm)"
  using assms
  by (auto simp: computeMintedRewards_def pendingBlocks_def sound_farm_def Let_def number_int minus_fin times_fin)

lemma rewardsForPosition_fin:
  assumes "sound_farm F (posFarmAddress pos) S d r p" "posLiquidity pos = bn_of_int l" "0 \<le> l"
    "r0 \<le> r" "0 \<le> minted"
  obtains m where "rewardsForPosition B F pos (bn_of_int r0) (Fin minted) = bn_of_int m" "0 \<le> m"
    "\<bar>of_int m - (of_int l * of_int (r - r0) / of_int d + minted * of_int l / of_int S)\<bar>
      \<le> 51 / 100 * (1 + of_int l / of_int d)"
proof -
  have S: "0 < rat_of_int S" and d: "0 < rat_of_int d" using assms(1) by (simp_all add: sound_farm_def)
  define x where "x = minted * of_int d / rat_of_int S"
  define inc where "inc = half_up (round_dp 20 x)"
  have x: "0 \<le> x" using S d assms(5) by (simp add: x_def)
  have inc: "0 \<le> inc" using round_dp_nonneg [OF x] unfolding inc_def by (rule half_up_nonneg)
  define diff where "diff = r + inc - r0"
  define y where "y = of_int l * of_int diff / rat_of_int d"
  have diff: "0 \<le> diff" using inc assms(4) by (simp add: diff_def)
  have y: "0 \<le> y" using diff d assms(3) by (simp add: y_def)
  define m where "m = half_up (round_dp 20 y)"
  have eq: "rewardsForPosition B F pos (bn_of_int r0) (Fin minted) = bn_of_int m"
  proof -
    have future: "bn_plus B (rewardPerShare F (posFarmAddress pos)) (bn_integer B (bn_div B
        (bn_times B (Fin minted) (divisionSafetyConstant F (posFarmAddress pos))) (farmTokenSupply F (posFarmAddress pos))))
      = bn_of_int (r + inc)"
      using assms(1) S by (simp add: sound_farm_def times_fin div_fin integer_fin plus_fin inc_def x_def)
    show ?thesis
    proof (cases "diff = 0")
      case True
      then show ?thesis
        unfolding rewardsForPosition_def Let_def future by (simp add: greater_fin diff_def m_def y_def)
    next
      case False
      then have "rat_of_int r0 < of_int (r + inc)" using diff unfolding diff_def by linarith
      then show ?thesis using assms(1,2) d
        unfolding rewardsForPosition_def Let_def future
        by (simp add: greater_fin minus_fin times_fin div_fin integer_fin sound_farm_def m_def y_def diff_def
            del: of_int_add flip: of_int_diff)
    qed
  qed
  have "\<bar>of_int m - y\<bar> \<le> 51 / 100" unfolding m_def by (rule half_up_round_error)
  moreover have "\<bar>y - (of_int l * of_int (r - r0) / of_int d + minted * of_int l / of_int S)\<bar>
      \<le> 51 / 100 * (of_int l / of_int d)"
  proof -
    have "y - (of_int l * of_int (r - r0) / of_int d + minted * of_int l / of_int S) = of_int l / of_int d * (of_int inc - x)"
      using d S by (simp add: y_def diff_def x_def field_simps)
    moreover have "\<bar>of_int l / of_int d * (of_int inc - x)\<bar> = of_int l / of_int d * \<bar>of_int inc - x\<bar>"
      using d assms(3) by (simp add: abs_mult)
    moreover have "of_int l / of_int d * \<bar>of_int inc - x\<bar> \<le> of_int l / of_int d * (51 / 100)"
      using d assms(3) half_up_round_error [of x] unfolding inc_def by (intro mult_left_mono) simp_all
    ultimately show ?thesis by simp
  qed
  ultimately have "\<bar>of_int m - (of_int l * of_int (r - r0) / of_int d + minted * of_int l / of_int S)\<bar>
      \<le> 51 / 100 * (1 + of_int l / of_int d)"
    using within_trans by (simp only: distrib_left mult_1_right)
  then show ?thesis using that eq half_up_nonneg [OF round_dp_nonneg [OF y]] unfolding m_def by blast
qed

end

text \<open>
  C14. The reward shown for a position is never negative and is, up to rounding, what the
  position has earned since it was opened (its amount times the growth of the reward per share)
  plus its part of the rewards of the blocks not yet accounted for.
\<close>

theorem position_reward_is_share:
  assumes "bignumber_lib B" "sound_farm F (posFarmAddress pos) S d r p"
    "posLiquidity pos = bn_of_int l" "0 \<le> l" "r0 \<le> r"
  shows "\<exists>m. computeFarmRewardsForPosition B F pos (bn_of_int r0) = bn_of_int m \<and> 0 \<le> m \<and>
    \<bar>of_int m - (of_int l * of_int (r - r0) / of_int d +
        of_int (p * pendingBlocks F (posFarmAddress pos)) * of_int l / rat_of_int S)\<bar>
      \<le> 51 / 100 * (1 + of_int l / of_int d)"
proof -
  have "0 \<le> rat_of_int (p * pendingBlocks F (posFarmAddress pos))"
    using assms(2) pendingBlocks_nonneg unfolding of_int_0_le_iff by (simp add: sound_farm_def)
  from bignumber_lib.rewardsForPosition_fin [OF assms(1-5) this]
  show ?thesis
    unfolding computeFarmRewardsForPosition_def bignumber_lib.computeMintedRewards_fin [OF assms(1,2)]
    by metis
qed

definition demo_factors :: boosted_yields_factors where
  "demo_factors = \<lparr>maxRewardsFactor = bn_of_int 2, userRewardsEnergy = bn_of_int 3, userRewardsFarm = bn_of_int 2,
     minEnergyAmount = bn_of_int 1, minFarmAmount = bn_of_int 10\<rparr>"

definition demo_farm :: farm_view where
  "demo_farm = \<lparr>farmShard = \<lambda>_. 1, shardCurrentBlockNonce = \<lambda>_. 110, lastRewardBlockNonce = \<lambda>_. 100,
     rewardsPerBlock = \<lambda>_. bn_of_int 50, produceRewardsEnabled = \<lambda>_. True,
     divisionSafetyConstant = \<lambda>_. bn_of_int 1000000, farmTokenSupply = \<lambda>_. bn_of_int 1000,
     rewardPerShare = \<lambda>_. bn_of_int 2000000, farmedTokenID = \<lambda>_. ''MEX'', farmingTokenID = \<lambda>_. ''EGLDMEX'',
     farmingTokenReserve = \<lambda>_. bn_of_int 800, lockedRewardAprMuliplier = \<lambda>_. 2, pairContractAddress = \<lambda>_. ''pair'',
     boostedYieldsRewardsPercenatage = \<lambda>_. 6000, boostedYieldsFactors = \<lambda>_. demo_factors,
     accumulatedRewardsForWeek = \<lambda>_ _. Some (bn_of_int 100), undistributedBoostedRewards = \<lambda>_. bn_of_int 7,
     lastUndistributedBoostedRewardsCollectWeek = \<lambda>_. 1,
     remainingBoostedRewardsToDistribute = \<lambda>_ week. bn_of_int week, isScAddress = \<lambda>_. False,
     farmTokenID = \<lambda>_. ''EGLDMEXF'', farmPenaltyPercent = \<lambda>_. 100, minimumFarmingEpochs = \<lambda>_. 3,
     farmOwnerAddress = \<lambda>_. ''owner''\<rparr>"

theorem position_reward_is_share_witness:
  "\<exists>m. computeFarmRewardsForPosition bn_js demo_farm \<lparr>posFarmAddress = ''farm'', posLiquidity = bn_of_int 100\<rparr>
      (bn_of_int 1000000) = bn_of_int m \<and> 0 \<le> m \<and> \<bar>rat_of_int m - 150\<bar> \<le> 1"
proof -
  have "sound_farm demo_farm ''farm'' 1000 1000000 2000000 50"
    by (simp add: sound_farm_def demo_farm_def)
  then have sound: "sound_farm demo_farm (posFarmAddress \<lparr>posFarmAddress = ''farm'', posLiquidity = bn_of_int 100\<rparr>)
      1000 1000000 2000000 50" by simp
  have "pendingBlocks demo_farm ''farm'' = 10" by (simp add: pendingBlocks_def demo_farm_def)
  then show ?thesis
    using position_reward_is_share [OF js.bignumber_lib_axioms sound, of 100 1000000]
    by (simp del: of_int_numeral) (elim exE, rule_tac x = m in exI, simp)
qed

section \<open>Reserves of a version 1.2 farm\<close>

text \<open>
  The unlocked and the locked reserve of a farm with locked rewards add up to its reserve,
  each is within it when the supply lies between the reserve and the reserve times the
  multiplier, and the supply is the unlocked reserve plus the multiplied locked one, up to the
  rounding of one division.
\<close>

theorem reserve_split:
  assumes "bignumber_lib B" "farmingTokenReserve F farm = bn_of_int R" "farmTokenSupply F farm = bn_of_int S"
    "lockedRewardAprMuliplier F farm = k" "1 < k" "k < 2 ^ 53" "R \<le> S" "S \<le> k * R"
  shows "\<exists>u l. computeUnlockedFarmingTokenReserve B F farm = Fin u \<and> computeLockedFarmingTokenReserve B F farm = Fin l \<and>
    u + l = of_int R \<and> 0 \<le> u \<and> u \<le> of_int R \<and> 0 \<le> l \<and> l \<le> of_int R \<and>
    \<bar>u + of_int k * l - of_int S\<bar> \<le> of_int (k - 1) / (2 * 10 ^ 20)"
proof -
  define x where "x = (of_int R * of_int k - of_int S) / rat_of_int (k - 1)"
  define u where "u = round_dp 20 x"
  have k: "0 < rat_of_int (k - 1)" using assms(5) by simp
  have unlocked: "computeUnlockedFarmingTokenReserve B F farm = Fin u"
    using assms k bignumber_lib.number_int [OF assms(1), of k] bignumber_lib.number_int [OF assms(1), of "k - 1"]
    by (simp add: computeUnlockedFarmingTokenReserve_def bignumber_lib.times_fin bignumber_lib.minus_fin
        bignumber_lib.div_fin u_def x_def del: of_int_diff)
  have locked: "computeLockedFarmingTokenReserve B F farm = Fin (of_int R - u)"
    using assms(2) by (simp add: computeLockedFarmingTokenReserve_def unlocked bignumber_lib.minus_fin [OF assms(1)])
  have "rat_of_int S \<le> of_int (k * R)" using assms(8) by (simp only: of_int_le_iff)
  then have x0: "0 \<le> x" unfolding x_def using k by (intro divide_nonneg_nonneg) (simp_all add: mult.commute)
  have "x \<le> of_int R"
    using k assms(7) by (simp add: x_def divide_le_eq right_diff_distrib)
  then have bounds: "0 \<le> u" "u \<le> of_int R"
    using round_dp_nonneg [OF x0] round_dp_le_int unfolding u_def by blast+
  have "u + of_int k * (of_int R - u) - of_int S = of_int (k - 1) * (x - u)"
    using k by (simp add: x_def field_simps)
  moreover have "\<bar>of_int (k - 1) * (x - u)\<bar> = of_int (k - 1) * \<bar>u - x\<bar>"
    using k by (simp add: abs_mult abs_minus_commute del: of_int_diff)
  moreover have "of_int (k - 1) * \<bar>u - x\<bar> \<le> of_int (k - 1) * (1 / (2 * 10 ^ 20))"
    using k round_dp_error [of 20 x] unfolding u_def by (intro mult_left_mono) simp_all
  ultimately have "\<bar>u + of_int k * (of_int R - u) - of_int S\<bar> \<le> of_int (k - 1) / (2 * 10 ^ 20)" by simp
  then show ?thesis using unlocked locked bounds by (intro exI [of _ u] exI [of _ "of_int R - u"]) simp
qed

theorem reserve_split_witness:
  "\<exists>u l. computeUnlockedFarmingTokenReserve bn_js demo_farm ''farm'' = Fin u \<and>
     computeLockedFarmingTokenReserve bn_js demo_farm ''farm'' = Fin l \<and> u + l = 800"
  using reserve_split [OF js.bignumber_lib_axioms, of demo_farm "''farm''" 800 1000 2]
  by (simp add: demo_farm_def del: of_int_numeral) (elim exE conjE, intro exI conjI, assumption+, simp)

section \<open>Boosted rewards\<close>

text \<open>Integer boost factors that are not all zero, and a user's part of the energy and the supply.\<close>

definition sound_boost :: "farm_view \<Rightarrow> string \<Rightarrow> int \<Rightarrow> int \<Rightarrow> int \<Rightarrow> int \<Rightarrow> int \<Rightarrow> bool" where
  "sound_boost F farm u a b p S \<longleftrightarrow>
     maxRewardsFactor (boostedYieldsFactors F farm) = bn_of_int u \<and>
     userRewardsEnergy (boostedYieldsFactors F farm) = bn_of_int a \<and>
     userRewardsFarm (boostedYieldsFactors F farm) = bn_of_int b \<and>
     rewardsPerBlock F farm = bn_of_int p \<and> farmTokenSupply F farm = bn_of_int S \<and>
     0 \<le> u \<and> 0 \<le> a \<and> 0 \<le> b \<and> 0 < a + b \<and> 0 \<le> p \<and> 0 < S \<and>
     0 \<le> boostedYieldsRewardsPercenatage F farm \<and> boostedYieldsRewardsPercenatage F farm \<le> MAX_PERCENT"

lemma share_le:
  fixes x y c :: rat
  assumes "0 \<le> c" "x \<le> y" "0 < y"
  shows "c * x / y \<le> c"
  using assms by (simp add: divide_le_eq mult_left_mono)

context bignumber_lib begin

lemma boostedReward_fin:
  assumes "sound_boost F farm u a b p S" "0 \<le> r" "0 \<le> e" "e \<le> E" "0 < E" "0 \<le> l" "l \<le> S"
  obtains v where "boostedReward B F farm (bn_of_int r) (bn_of_int e) (bn_of_int E) (bn_of_int l) = Fin v"
    "0 \<le> v" "v \<le> of_int r"
proof -
  define x where "x = round_dp 20 (of_int (r * a) * of_int e / of_int E)"
  define y where "y = round_dp 20 (of_int (r * b) * of_int l / of_int S)"
  note s = assms(1) [unfolded sound_boost_def]
  have ab: "0 < rat_of_int (a + b)" using s by simp
  have nonneg: "0 \<le> r * a" "0 \<le> r * b" using s assms(2) by simp_all
  have x: "0 \<le> x" "x \<le> of_int (r * a)"
  proof -
    have "0 \<le> of_int (r * a) * of_int e / rat_of_int E"
      using nonneg assms(3,5) by (intro divide_nonneg_nonneg mult_nonneg_nonneg) (simp_all del: of_int_mult)
    then show "0 \<le> x" unfolding x_def by (rule round_dp_nonneg)
    have "of_int (r * a) * of_int e / rat_of_int E \<le> of_int (r * a)"
      using nonneg assms(4,5) by (intro share_le) (simp_all del: of_int_mult)
    then show "x \<le> of_int (r * a)" unfolding x_def by (rule round_dp_le_int)
  qed
  have y: "0 \<le> y" "y \<le> of_int (r * b)"
  proof -
    have "0 \<le> of_int (r * b) * of_int l / rat_of_int S"
      using nonneg assms(6) s by (intro divide_nonneg_nonneg mult_nonneg_nonneg) (simp_all del: of_int_mult)
    then show "0 \<le> y" unfolding y_def by (rule round_dp_nonneg)
    have "of_int (r * b) * of_int l / rat_of_int S \<le> of_int (r * b)"
      using nonneg assms(7) s by (intro share_le) (simp_all del: of_int_mult)
    then show "y \<le> of_int (r * b)" unfolding y_def by (rule round_dp_le_int)
  qed
  define v where "v = round_dp 20 ((x + y) / of_int (a + b))"
  have "boostedReward B F farm (bn_of_int r) (bn_of_int e) (bn_of_int E) (bn_of_int l) = Fin v"
    using s assms(5) ab
    by (simp add: boostedReward_def Let_def times_fin div_fin plus_fin v_def x_def y_def)
  moreover have "0 \<le> v" unfolding v_def using x y ab by (intro round_dp_nonneg divide_nonneg_nonneg) simp_all
  moreover have "x + y \<le> of_int r * of_int (a + b)" using x y by (simp add: distrib_left)
  then have "v \<le> of_int r" unfolding v_def using ab by (intro round_dp_le_int) (simp add: divide_le_eq)
  ultimately show ?thesis using that by blast
qed

lemma maxBoostedRewards_fin:
  assumes "sound_boost F farm u a b p S" "0 \<le> l" "0 \<le> n"
  obtains c where "maxBoostedRewards B F farm (bn_of_int l) (bn_of_int n) = Fin c" "0 \<le> c"
proof -
  note s = assms(1) [unfolded sound_boost_def]
  let ?q = "boostedYieldsRewardsPercenatage F farm"
  have q: "bn_number B (of_int ?q) = bn_of_int ?q" using s by (intro number_int) (simp add: MAX_PERCENT_def)
  have m: "bn_number B (of_int MAX_PERCENT) = bn_of_int MAX_PERCENT" by (intro number_int) (simp add: MAX_PERCENT_def)
  have m0: "rat_of_int MAX_PERCENT \<noteq> 0" "0 \<le> rat_of_int MAX_PERCENT" by (simp_all add: MAX_PERCENT_def)
  define c1 where "c1 = round_dp 20 (of_int p * of_int ?q / of_int MAX_PERCENT)"
  define c2 where "c2 = round_dp 20 (c1 * of_int l / of_int S)"
  have c1: "0 \<le> c1" unfolding c1_def using s m0 by (intro round_dp_nonneg divide_nonneg_nonneg) simp_all
  then have c2: "0 \<le> c2" unfolding c2_def using s assms(2) by (intro round_dp_nonneg divide_nonneg_nonneg) simp_all
  have "maxBoostedRewards B F farm (bn_of_int l) (bn_of_int n) = Fin (of_int u * c2 * of_int n)"
    using s q m m0 by (simp add: maxBoostedRewards_def Let_def times_fin div_fin c1_def c2_def)
  moreover have "0 \<le> of_int u * c2 * of_int n" using c2 s assms(3) by simp
  ultimately show ?thesis using that by blast
qed

lemma boostedPayments_fin:
  assumes "sound_boost F farm u a b p S" "integer_rewards rewards amt" "0 \<le> e" "e \<le> E" "0 < E" "0 \<le> l" "l \<le> S"
    "maxBoostedRewards B F farm (bn_of_int l) (bn_number B (of_int BLOCKS_PER_WEEK)) = Fin c" "0 \<le> c"
  shows "list_all2 (\<lambda>pay r. pmTokenID pay = pmTokenID r \<and> pmNonce pay = 0 \<and> pmTokenType pay = pmTokenType r \<and>
      (\<exists>m. pmAmount pay = bn_of_int m \<and> 0 \<le> m \<and> m \<le> amt r \<and> of_int m \<le> c + 1 / 2))
    (boostedPayments B F farm (bn_of_int e) (bn_of_int E) (bn_of_int l) rewards) rewards"
  using assms(2)
proof (induction rewards)
  case (Cons r rewards)
  have r: "pmAmount r = bn_of_int (amt r)" "0 \<le> amt r" using Cons.prems by (simp_all add: integer_rewards_def)
  obtain v where v: "boostedReward B F farm (bn_of_int (amt r)) (bn_of_int e) (bn_of_int E) (bn_of_int l) = Fin v"
    "0 \<le> v" "v \<le> of_int (amt r)" by (rule boostedReward_fin [OF assms(1) r(2) assms(3-7)])
  define w where "w = min v c"
  have w: "capped B (Fin v) (Fin c) = Fin w" "0 \<le> w" "w \<le> of_int (amt r)" "w \<le> c"
    using v assms(9) by (auto simp: capped_def greater_fin w_def)
  have "of_int (half_up w) \<le> w + 1 / 2" using half_up_error [of w] unfolding abs_le_iff by linarith
  then have "of_int (half_up w) \<le> c + 1 / 2" using w(4) by linarith
  moreover have "integer_rewards rewards amt" using Cons.prems by (simp add: integer_rewards_def)
  ultimately show ?case
    using Cons.IH w(2) half_up_nonneg [OF w(2)] half_up_le_int [OF w(3)]
    by (simp add: r(1) v(1) assms(8) w(1) positive_fin integer_fin)
qed simp

end

text \<open>
  C15. A user above the minimum energy and the minimum farm amount is paid, for each reward of
  the week in order, an integer amount that is not negative and never more than the reward, nor
  (up to rounding) than the cap of the week; any other user is paid nothing.
\<close>

theorem boosted_rewards_capped:
  assumes "bignumber_lib B" "sound_boost F farm u a b p S"
    "integer_rewards (totalRewardsForWeek W farm week) amt"
    "enAmount (userEnergyForWeek W farm userAddress week) = bn_of_int e" "totalEnergyForWeek W farm week = bn_of_int E"
    "0 \<le> e" "e \<le> E" "0 < E" "0 \<le> l" "l \<le> S"
  shows "\<exists>c\<ge>0. maxBoostedRewards B F farm (bn_of_int l) (bn_number B (of_int BLOCKS_PER_WEEK)) = Fin c \<and>
    (if hasBoost B F farm (bn_of_int e) (bn_of_int l)
     then list_all2 (\<lambda>pay r. pmTokenID pay = pmTokenID r \<and> pmNonce pay = 0 \<and> pmTokenType pay = pmTokenType r \<and>
         (\<exists>m. pmAmount pay = bn_of_int m \<and> 0 \<le> m \<and> m \<le> amt r \<and> of_int m \<le> c + 1 / 2))
       (computeFarmUserRewardsForWeek B W F farm userAddress week (bn_of_int l)) (totalRewardsForWeek W farm week)
     else computeFarmUserRewardsForWeek B W F farm userAddress week (bn_of_int l) = [])"
proof -
  have blocks: "bn_number B (of_int BLOCKS_PER_WEEK) = bn_of_int BLOCKS_PER_WEEK"
    by (intro bignumber_lib.number_int [OF assms(1)]) (simp add: BLOCKS_PER_WEEK_def)
  have "0 \<le> BLOCKS_PER_WEEK" by (simp add: BLOCKS_PER_WEEK_def)
  from bignumber_lib.maxBoostedRewards_fin [OF assms(1,2,9) this]
  obtain c where c: "maxBoostedRewards B F farm (bn_of_int l) (bn_number B (of_int BLOCKS_PER_WEEK)) = Fin c" "0 \<le> c"
    unfolding blocks by metis
  from bignumber_lib.boostedPayments_fin [OF assms(1,2,3,6-10) c]
  show ?thesis using c assms(4,5) by (auto simp: computeFarmUserRewardsForWeek_def)
qed

lemma demo_boost:
  "sound_boost demo_farm ''farm'' 2 3 2 50 1000"
  "integer_rewards (totalRewardsForWeek demo_week ''farm'' 1) (\<lambda>_. 100)"
  "hasBoost bn_js demo_farm ''farm'' (bn_of_int 10) (bn_of_int 100)"
  by (simp_all add: sound_boost_def demo_farm_def demo_factors_def MAX_PERCENT_def integer_rewards_def
      demo_week_def hasBoost_def js.greater_fin)

lemma demo_boosted_payments:
  "computeFarmUserRewardsForWeek bn_js demo_week demo_farm ''farm'' ''alice'' 1 (bn_of_int 100) \<noteq> []"
proof -
  obtain c where c: "maxBoostedRewards bn_js demo_farm ''farm'' (bn_of_int 100) (bn_of_int BLOCKS_PER_WEEK) = Fin c" "0 \<le> c"
    by (rule js.maxBoostedRewards_fin [OF demo_boost(1), of 100 BLOCKS_PER_WEEK]) (simp_all add: BLOCKS_PER_WEEK_def)
  have "bn_number bn_js (of_int BLOCKS_PER_WEEK) = bn_of_int BLOCKS_PER_WEEK"
    by (intro js.number_int) (simp add: BLOCKS_PER_WEEK_def)
  with c(1) have c': "maxBoostedRewards bn_js demo_farm ''farm'' (bn_of_int 100) (bn_number bn_js (of_int BLOCKS_PER_WEEK)) = Fin c"
    by simp
  have "length (boostedPayments bn_js demo_farm ''farm'' (bn_of_int 10) (bn_of_int 40) (bn_of_int 100)
      (totalRewardsForWeek demo_week ''farm'' 1)) = length (totalRewardsForWeek demo_week ''farm'' 1)"
    by (rule list_all2_lengthD [OF js.boostedPayments_fin [OF demo_boost(1,2) _ _ _ _ _ c' c(2)]]) simp_all
  then have "boostedPayments bn_js demo_farm ''farm'' (bn_of_int 10) (bn_of_int 40) (bn_of_int 100)
      (totalRewardsForWeek demo_week ''farm'' 1) \<noteq> []"
    by (auto simp: demo_week_def)
  then show ?thesis using demo_boost(3)
    by (simp add: computeFarmUserRewardsForWeek_def demo_week_def Let_def)
qed

theorem boosted_rewards_capped_witness:
  "\<exists>c::rat. list_all2 (\<lambda>pay r. pmTokenID pay = pmTokenID r \<and> pmNonce pay = 0 \<and> pmTokenType pay = pmTokenType r \<and>
         (\<exists>m. pmAmount pay = bn_of_int m \<and> 0 \<le> m \<and> m \<le> 100 \<and> of_int m \<le> c + 1 / 2))
       (computeFarmUserRewardsForWeek bn_js demo_week demo_farm ''farm'' ''alice'' 1 (bn_of_int 100))
       (totalRewardsForWeek demo_week ''farm'' 1)"
  using boosted_rewards_capped [OF js.bignumber_lib_axioms demo_boost(1,2), of "''alice''" 10 40 100] demo_boost(3)
  by (auto simp: demo_week_def)

text \<open>
  The cache of a user's rewards forgets the liquidity they were computed for: after a
  lookup with too little liquidity the user is served no rewards until the entry expires,
  whatever liquidity the next lookup names.
\<close>

theorem rewards_cached_without_liquidity:
  assumes "\<not> bn_greater B l1 (minFarmAmount (boostedYieldsFactors F farm))" "cache (farm, userAddress, week) = None"
  shows "fst (userRewardsForWeek B W F farm userAddress week l2
    (snd (userRewardsForWeek B W F farm userAddress week l1 cache))) = []"
  using assms by (simp add: userRewardsForWeek_def computeFarmUserRewardsForWeek_def hasBoost_def Let_def)

theorem rewards_cached_without_liquidity_witness:
  "fst (userRewardsForWeek bn_js demo_week demo_farm ''farm'' ''alice'' 1 (bn_of_int 100)
     (snd (userRewardsForWeek bn_js demo_week demo_farm ''farm'' ''alice'' 1 (bn_of_int 5) Map.empty))) = [] \<and>
   fst (userRewardsForWeek bn_js demo_week demo_farm ''farm'' ''alice'' 1 (bn_of_int 100) Map.empty) \<noteq> []"
proof
  show "fst (userRewardsForWeek bn_js demo_week demo_farm ''farm'' ''alice'' 1 (bn_of_int 100)
     (snd (userRewardsForWeek bn_js demo_week demo_farm ''farm'' ''alice'' 1 (bn_of_int 5) Map.empty))) = []"
    by (rule rewards_cached_without_liquidity) (simp_all add: demo_farm_def demo_factors_def js.greater_fin)
  show "fst (userRewardsForWeek bn_js demo_week demo_farm ''farm'' ''alice'' 1 (bn_of_int 100) Map.empty) \<noteq> []"
    using demo_boosted_payments by (simp add: userRewardsForWeek_def Let_def)
qed

section \<open>Rewards left over from past weeks\<close>

context bignumber_lib begin

lemma foldl_plus_ints:
  "foldl (bn_plus B) (bn_of_int a) (map (\<lambda>x. bn_of_int (f x)) xs) = bn_of_int (a + (\<Sum>x\<leftarrow>xs. f x))"
proof (induction xs arbitrary: a)
  case (Cons x xs)
  have "bn_plus B (bn_of_int a) (bn_of_int (f x)) = bn_of_int (a + f x)" by (simp add: plus_fin)
  then show ?case using Cons.IH [of "a + f x"] by (simp add: add.assoc del: of_int_add)
qed simp

lemma undistributedBoostedRewardsRaw_sum:
  assumes "undistributedBoostedRewards F farm = bn_of_int z"
    "\<And>week. remainingBoostedRewardsToDistribute F farm week = bn_of_int (rest week)"
  shows "undistributedBoostedRewardsRaw B F farm w = bn_of_int
    (z + (\<Sum>week\<leftarrow>[lastUndistributedBoostedRewardsCollectWeek F farm + 1..w - USER_MAX_CLAIM_WEEKS - 1]. rest week))"
proof (cases "w - USER_MAX_CLAIM_WEEKS - 1 < lastUndistributedBoostedRewardsCollectWeek F farm + 1")
  case True
  then show ?thesis using assms(1) by (simp add: undistributedBoostedRewardsRaw_def Let_def)
next
  case False
  let ?a = "lastUndistributedBoostedRewardsCollectWeek F farm + 1" and ?b = "w - USER_MAX_CLAIM_WEEKS - 1"
  have ws: "[?a..?b] = ?a # [?a + 1..?b]" using False by (subst upto_rec1) simp_all
  have f: "remainingBoostedRewardsToDistribute F farm = (\<lambda>week. bn_of_int (rest week))"
    using assms(2) by (rule ext)
  show ?thesis
    using False foldl_plus_ints [of "rest ?a" rest "[?a + 1..?b]"]
    unfolding undistributedBoostedRewardsRaw_def Let_def ws
    by (simp add: assms(1) f plus_fin add.assoc)
qed

end

section \<open>The optimal energy\<close>

lemma balance_identity:
  fixes a b s e f u l k :: rat
  assumes "b \<noteq> 0" "e \<noteq> 0" "f \<noteq> 0" "s \<noteq> 0"
  shows "(a * l / f + b * (k * l) / e) / s - u * l / f = b * l / (e * s) * (k - (u * s - a) / b * e / f)"
  using assms by (simp add: field_simps)

text \<open>
  C16. At the energy the service calls optimal the two bounds of the boosted reward meet: for a
  user with \<open>l\<close> farm tokens and \<open>k * l\<close> energy, where \<open>k\<close> is the computed energy per token, the
  weighted share by energy and by tokens is the capped share \<open>u * l / S\<close>, up to the rounding of
  \<open>k\<close> to an integer.
\<close>

theorem optimal_energy_balances:
  assumes "bignumber_lib B" "maxRewardsFactor (boostedYieldsFactors F farm) = bn_of_int u"
    "userRewardsEnergy (boostedYieldsFactors F farm) = bn_of_int b"
    "userRewardsFarm (boostedYieldsFactors F farm) = bn_of_int a"
    "totalEnergyForWeek W farm week = bn_of_int E" "farmTokenSupply F farm = bn_of_int S"
    "0 \<le> a" "0 < b" "0 < E" "0 < S" "0 \<le> l"
  shows "\<exists>k. computeOptimalEnergyPerLP B W F farm week = bn_of_int k \<and>
    \<bar>(of_int a * of_int l / of_int S + of_int b * (of_int k * of_int l) / of_int E) / of_int (a + b)
       - of_int u * of_int l / rat_of_int S\<bar>
      \<le> of_int b * of_int l / (of_int E * of_int (a + b)) * (51 / 100 + of_int E / (of_int S * (2 * 10 ^ 20)))"
proof -
  have pos: "0 < rat_of_int b" "0 < rat_of_int E" "0 < rat_of_int S" "0 < rat_of_int (a + b)"
    using assms(7-10) by simp_all
  define c where "c = (of_int u * of_int (a + b) - of_int a) / rat_of_int b"
  define y where "y = round_dp 20 c * of_int E / rat_of_int S"
  define k where "k = half_up (round_dp 20 y)"
  have "computeOptimalEnergyPerLP B W F farm week = bn_of_int k"
    using assms pos
    by (simp add: computeOptimalEnergyPerLP_def Let_def bignumber_lib.times_fin bignumber_lib.plus_fin
        bignumber_lib.minus_fin bignumber_lib.div_fin bignumber_lib.integer_fin k_def y_def c_def)
  moreover have "\<bar>of_int k - c * of_int E / of_int S\<bar> \<le> 51 / 100 + of_int E / (of_int S * (2 * 10 ^ 20))"
  proof (rule within_trans)
    show "\<bar>of_int k - y\<bar> \<le> 51 / 100" unfolding k_def by (rule half_up_round_error)
    have "y - c * of_int E / of_int S = (round_dp 20 c - c) * (of_int E / of_int S)"
      by (simp add: y_def left_diff_distrib diff_divide_distrib)
    moreover have "\<bar>(round_dp 20 c - c) * (of_int E / of_int S)\<bar> = \<bar>round_dp 20 c - c\<bar> * (of_int E / of_int S)"
      using pos by (simp add: abs_mult)
    moreover have "\<bar>round_dp 20 c - c\<bar> * (of_int E / of_int S) \<le> 1 / (2 * 10 ^ 20) * (of_int E / of_int S)"
      using pos round_dp_error [of 20 c] by (intro mult_right_mono) simp_all
    ultimately show "\<bar>y - c * of_int E / of_int S\<bar> \<le> of_int E / (of_int S * (2 * 10 ^ 20))"
      by (simp add: mult.commute)
  qed
  moreover have "(of_int a * of_int l / of_int S + of_int b * (of_int k * of_int l) / of_int E) / of_int (a + b)
       - of_int u * of_int l / rat_of_int S =
      of_int b * of_int l / (of_int E * of_int (a + b)) * (of_int k - c * of_int E / of_int S)"
    unfolding c_def using pos by (intro balance_identity) simp_all
  moreover have "0 \<le> of_int b * of_int l / (of_int E * rat_of_int (a + b))"
    using pos assms(11) by (intro divide_nonneg_nonneg mult_nonneg_nonneg) simp_all
  ultimately show ?thesis
    by (intro exI [of _ k]) (simp only: abs_mult abs_of_nonneg mult_left_mono simp_thms)
qed

theorem optimal_energy_balances_witness:
  "\<exists>k. computeOptimalEnergyPerLP bn_js demo_week demo_farm ''farm'' 1 = bn_of_int k"
  using optimal_energy_balances [OF js.bignumber_lib_axioms, of demo_farm "''farm''" 2 3 2 demo_week 1 40 1000 100]
  by (auto simp: demo_farm_def demo_factors_def demo_week_def)

end
