(* ===== verification/ContractCalls.thy ===== *)
theory ContractCalls
  imports PairTransactions
begin

text \<open>
  The shapes of contract calls the transaction services share, over the builder calls of
  \<open>DexModels\<close>: an administrative call with arguments only, a call paid with one token or with
  several, and a call that names its sender. The check of the input tokens of farms and staking
  contracts is the same code in both services.
\<close>

section \<open>Payments\<close>

text \<open>\<open>TokenTransfer.metaEsdtFromBigInteger\<close>: the token, its nonce and the amount.\<close>

definition meta_esdt :: "string \<Rightarrow> int \<Rightarrow> bn \<Rightarrow> payment" where
  "meta_esdt tid n amt = \<lparr>payToken = tid, payNonce = n, payAmount = amt\<rparr>"

definition pay_input :: "input_token \<Rightarrow> payment" where
  "pay_input t = meta_esdt (tokenID t) (nonce t) (amount t)"

section \<open>Calls\<close>

definition paid_call ::
  "dex_config \<Rightarrow> string \<Rightarrow> string \<Rightarrow> typed_value list \<Rightarrow> payment list \<Rightarrow> int \<Rightarrow> transaction" where
  "paid_call cfg sc f args pays g = (contract_call cfg sc f args g)\<lparr>payments := pays\<rparr>"

definition sender_call ::
  "dex_config \<Rightarrow> string \<Rightarrow> string \<Rightarrow> string \<Rightarrow> typed_value list \<Rightarrow> payment list \<Rightarrow> int \<Rightarrow> transaction" where
  "sender_call cfg sender sc f args pays g =
     (paid_call cfg sc f args pays g)\<lparr>withSender := Some sender\<rparr>"

lemma contract_call_sel [simp]:
  "receiver (contract_call cfg sc f args g) = sc" "endpoint (contract_call cfg sc f args g) = f"
  "endpointArgs (contract_call cfg sc f args g) = args" "payments (contract_call cfg sc f args g) = []"
  "nativeValue (contract_call cfg sc f args g) = None" "withSender (contract_call cfg sc f args g) = None"
  "gasLimit (contract_call cfg sc f args g) = g" "txChainID (contract_call cfg sc f args g) = chainID cfg"
  by (simp_all add: contract_call_def)

lemma paid_call_sel [simp]:
  "receiver (paid_call cfg sc f args pays g) = sc" "endpoint (paid_call cfg sc f args pays g) = f"
  "endpointArgs (paid_call cfg sc f args pays g) = args" "payments (paid_call cfg sc f args pays g) = pays"
  "nativeValue (paid_call cfg sc f args pays g) = None" "withSender (paid_call cfg sc f args pays g) = None"
  "gasLimit (paid_call cfg sc f args pays g) = g" "txChainID (paid_call cfg sc f args pays g) = chainID cfg"
  by (simp_all add: paid_call_def)

lemma sender_call_sel [simp]:
  "receiver (sender_call cfg sender sc f args pays g) = sc" "endpoint (sender_call cfg sender sc f args pays g) = f"
  "endpointArgs (sender_call cfg sender sc f args pays g) = args"
  "payments (sender_call cfg sender sc f args pays g) = pays"
  "nativeValue (sender_call cfg sender sc f args pays g) = None"
  "withSender (sender_call cfg sender sc f args pays g) = Some sender"
  "gasLimit (sender_call cfg sender sc f args pays g) = g" "txChainID (sender_call cfg sender sc f args pays g) = chainID cfg"
  by (simp_all add: sender_call_def)

section \<open>Input tokens of farms and staking contracts\<close>

text \<open>The loop over the tokens after the first.\<close>

fun checkFarmTokens :: "string \<Rightarrow> input_token list \<Rightarrow> unit res" where
  "checkFarmTokens farmToken [] = Inr ()"
| "checkFarmTokens farmToken (inputToken # rest) =
     (if tokenID inputToken \<noteq> farmToken \<or> nonce inputToken = 0
      then Inl (JsError ''invalid farm token provided'') else checkFarmTokens farmToken rest)"

definition validateInputTokens :: "string \<Rightarrow> string \<Rightarrow> input_token list \<Rightarrow> unit res" where
  "validateInputTokens farmToken farmingToken tokens =
     (case tokens of
        [] \<Rightarrow> Inl TypeError
      | first # rest \<Rightarrow>
          if tokenID first \<noteq> farmingToken \<or> 0 < nonce first
          then Inl (JsError ''invalid farming token provided'')
          else checkFarmTokens farmToken rest)"

lemma checkFarmTokens_Inr:
  "checkFarmTokens farmToken ts = Inr () \<longleftrightarrow> (\<forall>t\<in>set ts. tokenID t = farmToken \<and> nonce t \<noteq> 0)"
  by (induction ts) auto

lemma validateInputTokens_Inr:
  "validateInputTokens farmToken farmingToken tokens = Inr () \<longleftrightarrow>
   (\<exists>t ts. tokens = t # ts \<and> tokenID t = farmingToken \<and> nonce t \<le> 0 \<and>
     (\<forall>u\<in>set ts. tokenID u = farmToken \<and> nonce u \<noteq> 0))"
  by (cases tokens) (auto simp: validateInputTokens_def checkFarmTokens_Inr)

end
