(* ===== verification/RouterTransactions.thy ===== *)
theory RouterTransactions
  imports AutoRouterService FarmCompute ContractCalls
begin

text \<open>
  The transactions of the router (\<open>src/modules/router/services/router.transactions.service.ts\<close>):
  creating, upgrading and removing pairs, the administration of the router, and the enabling of
  swaps by the user who locked the initial liquidity of a pair.

  \<open>router_view\<close> holds the getters of \<open>RouterAbiService\<close> the service uses beyond those of the chain
  view. The attributes of a locked token are decoded by \<open>@multiversx/sdk-exchange\<close>; the model takes
  the decoded record.
\<close>

record swap_enable_config =
  lockedTokenID :: string
  minLockedTokenValue :: bn
  minLockPeriodEpochs :: int

record router_view =
  commonTokensForUserPairs :: "string list"
  enableSwapByUserConfig :: "string \<Rightarrow> swap_enable_config"

record locked_token_attributes =
  originalTokenID :: string
  originalTokenNonce :: int
  lkUnlockAt :: int

definition ISSUE_LP_TOKEN_COST :: int where
  "ISSUE_LP_TOKEN_COST = 50000000000000000"

section \<open>Pairs\<close>

fun checkPairExists :: "pair_metadata list \<Rightarrow> string \<Rightarrow> string \<Rightarrow> bool" where
  "checkPairExists [] a b = False"
| "checkPairExists (pair # rest) a b =
     (if (mdFirstTokenID pair = a \<and> mdSecondTokenID pair = b) \<or>
         (mdFirstTokenID pair = b \<and> mdSecondTokenID pair = a)
      then True else checkPairExists rest a b)"

definition router_call ::
  "dex_config \<Rightarrow> chain_view \<Rightarrow> string \<Rightarrow> typed_value list \<Rightarrow> int \<Rightarrow> transaction" where
  "router_call cfg V f args g = contract_call cfg (routerContract V) f args g"

definition createPair ::
  "dex_config \<Rightarrow> chain_view \<Rightarrow> string \<Rightarrow> string \<Rightarrow> string \<Rightarrow> transaction res" where
  "createPair cfg V sender a b =
     (if checkPairExists (pairsMetadata V) a b then Inl (JsError ''Pair already exists'')
      else Inr (router_call cfg V ''createPair'' [BytesUTF8 a, BytesUTF8 b, AddressV sender]
             (gas cfg ''router.createPair'')))"

definition upgradePair ::
  "bignumber \<Rightarrow> dex_config \<Rightarrow> chain_view \<Rightarrow> string \<Rightarrow> string \<Rightarrow> rat list \<Rightarrow> transaction res" where
  "upgradePair B cfg V a b fees =
     (if \<not> checkPairExists (pairsMetadata V) a b then Inl (JsError ''Pair does not exist'')
      else Inr (router_call cfg V ''upgradePair''
             ([BytesUTF8 a, BytesUTF8 b] @ map (\<lambda>fee. BigUInt (bn_number B fee)) fees)
             (gas cfg ''router.admin.upgradePair'')))"

definition removePair ::
  "dex_config \<Rightarrow> chain_view \<Rightarrow> string \<Rightarrow> string \<Rightarrow> transaction res" where
  "removePair cfg V a b =
     (if \<not> checkPairExists (pairsMetadata V) a b then Inl (JsError ''Pair does not exist'')
      else Inr (router_call cfg V ''removePair'' [BytesUTF8 a, BytesUTF8 b]
             (gas cfg ''router.admin.removePair'')))"

definition issueLpToken ::
  "dex_config \<Rightarrow> chain_view \<Rightarrow> string \<Rightarrow> string \<Rightarrow> string \<Rightarrow> transaction res" where
  "issueLpToken cfg V pairAddress lpTokenName lpTokenTicker =
     (if lpTokenID V pairAddress \<noteq> None then Inl (JsError ''LP Token already issued'')
      else Inr ((router_call cfg V ''issueLpToken''
               [AddressV pairAddress, BytesUTF8 lpTokenName, BytesUTF8 lpTokenTicker]
               (gas cfg ''router.issueToken''))
             \<lparr>nativeValue := Some (bn_of_int ISSUE_LP_TOKEN_COST)\<rparr>))"

section \<open>Administration\<close>

definition setLocalRoles :: "dex_config \<Rightarrow> chain_view \<Rightarrow> string \<Rightarrow> transaction" where
  "setLocalRoles cfg V pairAddress =
     router_call cfg V ''setLocalRoles'' [BytesHexAddress pairAddress] (gas cfg ''router.setLocalRoles'')"

record local_role_owner_args =
  roleTokenID :: string
  roleAddress :: string
  roleIDs :: "rat list"

definition setLocalRolesOwner ::
  "bignumber \<Rightarrow> dex_config \<Rightarrow> chain_view \<Rightarrow> local_role_owner_args \<Rightarrow> transaction" where
  "setLocalRolesOwner B cfg V args =
     router_call cfg V ''setLocalRolesOwner''
       ([BytesUTF8 (roleTokenID args), AddressV (roleAddress args)] @
          map (\<lambda>role. BigUInt (bn_number B role)) (roleIDs args))
       (gas cfg ''router.admin.setLocalRolesOwner'')"

definition setRouterState :: "dex_config \<Rightarrow> chain_view \<Rightarrow> string \<Rightarrow> bool \<Rightarrow> transaction" where
  "setRouterState cfg V addr enable =
     router_call cfg V (if enable then ''resume'' else ''pause'') [AddressV addr]
       (gas cfg ''router.admin.setState'')"

definition setPairCreationEnabled :: "dex_config \<Rightarrow> chain_view \<Rightarrow> bool \<Rightarrow> transaction" where
  "setPairCreationEnabled cfg V enable =
     router_call cfg V ''setPairCreationEnabled'' [BooleanV enable]
       (gas cfg ''router.admin.setPairCreationEnabled'')"

definition setFee ::
  "dex_config \<Rightarrow> chain_view \<Rightarrow> string \<Rightarrow> string \<Rightarrow> string \<Rightarrow> bool \<Rightarrow> transaction" where
  "setFee cfg V pairAddress feeToAddress feeTokenID enable =
     router_call cfg V (if enable then ''setFeeOn'' else ''setFeeOff'')
       [AddressV pairAddress, AddressV feeToAddress, TokenIdentifierV feeTokenID]
       (gas cfg ''router.admin.setFee'')"

definition clearPairTemporaryOwnerStorage :: "dex_config \<Rightarrow> chain_view \<Rightarrow> transaction" where
  "clearPairTemporaryOwnerStorage cfg V =
     router_call cfg V ''clearPairTemporaryOwnerStorage'' []
       (gas cfg ''router.admin.clearPairTemporaryOwnerStorage'')"

definition setTemporaryOwnerPeriod :: "dex_config \<Rightarrow> chain_view \<Rightarrow> bn \<Rightarrow> transaction" where
  "setTemporaryOwnerPeriod cfg V periodBlocks =
     router_call cfg V ''setTemporaryOwnerPeriod'' [BigUInt periodBlocks]
       (gas cfg ''router.admin.setTemporaryOwnerPeriod'')"

definition setPairTemplateAddress :: "dex_config \<Rightarrow> chain_view \<Rightarrow> string \<Rightarrow> transaction" where
  "setPairTemplateAddress cfg V addr =
     router_call cfg V ''setPairTemplateAddress'' [AddressV addr]
       (gas cfg ''router.admin.setPairTemplateAddress'')"

section \<open>Swaps along several pairs\<close>

definition routerSwapMinimum :: "bignumber \<Rightarrow> multi_swap_args \<Rightarrow> nat \<Rightarrow> bn" where
  "routerSwapMinimum B args index =
     bn_integer B (bn_times B
       (bn_div B (Fin 1) (bn_plus B (Fin 1) (bn_number B (msTolerance args))))
       (amount_at (msIntermediaryAmounts args) (index + 1)))"

definition routerMultiPairSwap ::
  "bignumber \<Rightarrow> dex_config \<Rightarrow> chain_view \<Rightarrow> string \<Rightarrow> multi_swap_args \<Rightarrow> transaction list res" where
  "routerMultiPairSwap B cfg V sender args =
     (let amounts = msIntermediaryAmounts args;
          wrap = wrapIfNeeded cfg V sender (msTokenInID args) (amount_at amounts 0);
          unwrap = unwrapIfNeeded cfg V sender (msTokenOutID args) (amount_at amounts (length amounts - 1))
      in res_bind (res_map (pairSwap args ''swapTokensFixedInput'' (routerSwapMinimum B args))
             [0..<length (msAddressRoute args)]) (\<lambda>swaps.
         res_bind (token_at (msTokenRoute args) 0) (\<lambda>token.
           Inr (wrap @
             [(router_call cfg V ''multiPairSwap'' (concat swaps)
                 (int (length (msAddressRoute args)) * gas cfg ''router.multiPairSwapMultiplier''))
                \<lparr>payments := [fungible token (amount_at amounts 0)]\<rparr>] @ unwrap))))"

section \<open>Swaps enabled by the user\<close>

definition lpLockedEpochs :: "chain_view \<Rightarrow> locked_token_attributes \<Rightarrow> int" where
  "lpLockedEpochs V attrs =
     (if currentEpoch V < lkUnlockAt attrs then lkUnlockAt attrs - currentEpoch V else 0)"

definition validateSwapEnableInputTokens ::
  "bignumber \<Rightarrow> chain_view \<Rightarrow> router_view \<Rightarrow> locked_token_attributes \<Rightarrow> input_token \<Rightarrow> string res" where
  "validateSwapEnableInputTokens B V R attrs inputTokens =
     (case lpPair V (originalTokenID attrs) of
        None \<Rightarrow> Inl (JsError ''Invalid locked LP token'')
      | Some pairAddress \<Rightarrow>
          let firstID = firstTokenID V pairAddress; secondID = secondTokenID V pairAddress;
              liquidityTokens = getLiquidityPosition B V pairAddress (amount inputTokens);
              common = commonTokensForUserPairs R
          in if firstID \<notin> set common \<and> secondID \<notin> set common
             then Inl (JsError ''Not a valid user defined pair'')
             else
               let commonToken = (if firstID \<in> set common then firstID else secondID);
                   config = enableSwapByUserConfig R commonToken
               in if tokenID inputTokens \<noteq> lockedTokenID config then Inl (JsError ''Invalid input token'')
                  else if \<not> minLockPeriodEpochs config \<le> lpLockedEpochs V attrs
                  then Inl (JsError ''Token not locked for long enough'')
                  else if bn_less B (if firstID \<in> set common then firstTokenAmount liquidityTokens
                                     else secondTokenAmount liquidityTokens)
                         (minLockedTokenValue config)
                  then Inl (JsError ''Not enough value locked'')
                  else Inr pairAddress)"

definition setSwapEnabledByUser ::
  "bignumber \<Rightarrow> dex_config \<Rightarrow> chain_view \<Rightarrow> router_view \<Rightarrow> locked_token_attributes \<Rightarrow> string \<Rightarrow> input_token
    \<Rightarrow> transaction res" where
  "setSwapEnabledByUser B cfg V R attrs sender inputTokens =
     res_bind (validateSwapEnableInputTokens B V R attrs inputTokens) (\<lambda>pairAddress.
       if sender \<noteq> initialLiquidityAdder V pairAddress then Inl (JsError ''Invalid sender address'')
       else Inr (sender_call cfg sender (routerContract V) ''setSwapEnabledByUser'' [AddressV pairAddress]
              [pay_input inputTokens] (gas cfg ''router.swapEnableByUser'')))"

section \<open>Lemmas\<close>

lemma router_call_sel [simp]:
  "receiver (router_call cfg V f args g) = routerContract V" "endpoint (router_call cfg V f args g) = f"
  "endpointArgs (router_call cfg V f args g) = args" "payments (router_call cfg V f args g) = []"
  "withSender (router_call cfg V f args g) = None" "txChainID (router_call cfg V f args g) = chainID cfg"
  by (simp_all add: router_call_def)

text \<open>The search for a pair ignores the order of the two tokens.\<close>

lemma checkPairExists_iff:
  "checkPairExists ps a b \<longleftrightarrow> (\<exists>p\<in>set ps. {mdFirstTokenID p, mdSecondTokenID p} = {a, b})"
  by (induction ps) (auto simp: doubleton_eq_iff)

lemma checkPairExists_commute: "checkPairExists ps a b = checkPairExists ps b a"
  by (simp add: checkPairExists_iff insert_commute)

text \<open>A pair can be created exactly when it can be neither upgraded nor removed.\<close>

lemma createPair_upgradePair:
  "(\<exists>tx. createPair cfg V sender a b = Inr tx) \<longleftrightarrow> \<not> (\<exists>tx. upgradePair B cfg V b a fees = Inr tx)"
  "(\<exists>tx. removePair cfg V a b = Inr tx) \<longleftrightarrow> (\<exists>tx. upgradePair B cfg V b a fees = Inr tx)"
  using checkPairExists_commute [of "pairsMetadata V" a b]
  by (simp_all add: createPair_def upgradePair_def removePair_def)

end
