(* ===== verification/FarmUtils.thy ===== *)
theory FarmUtils
  imports DexModels
begin

text \<open>
  \<open>src/utils/farm.utils.ts\<close>: the version and the reward type of a farm from the table of farm
  addresses in the configuration. An entry of the table is a list of addresses, or one list per
  reward type; \<open>Object.keys\<close> lists the keys in the order of the file.
\<close>

datatype farm_version = V1_2 | V1_3 | V2 | CUSTOM

datatype farm_reward_type = UNLOCKED_REWARDS | LOCKED_REWARDS | CUSTOM_REWARDS

datatype farm_entry =
    Addresses "string list"
  | ByType "(string \<times> string list) list"

type_synonym farms_config = "(string \<times> farm_entry) list"

definition toVersionEnum :: "string \<Rightarrow> farm_version option" where
  "toVersionEnum version =
     (if version = ''v1.2'' then Some V1_2 else if version = ''v1.3'' then Some V1_3
      else if version = ''v2'' then Some V2 else if version = ''custom'' then Some CUSTOM else None)"

definition toRewardTypeEnum :: "string \<Rightarrow> farm_reward_type option" where
  "toRewardTypeEnum rewardType =
     (if rewardType = ''unlockedRewards'' then Some UNLOCKED_REWARDS
      else if rewardType = ''lockedRewards'' then Some LOCKED_REWARDS
      else if rewardType = ''customRewards'' then Some CUSTOM_REWARDS else None)"

fun findType :: "(string \<times> string list) list \<Rightarrow> string \<Rightarrow> string option" where
  "findType [] addr = None"
| "findType ((type, addresses) # rest) addr =
     (if addr \<in> set addresses then Some type else findType rest addr)"

fun farmVersion :: "farms_config \<Rightarrow> string \<Rightarrow> farm_version option" where
  "farmVersion [] addr = None"
| "farmVersion ((version, Addresses addresses) # rest) addr =
     (if addr \<in> set addresses then toVersionEnum version else farmVersion rest addr)"
| "farmVersion ((version, ByType types) # rest) addr =
     (case findType types addr of Some _ \<Rightarrow> toVersionEnum version | None \<Rightarrow> farmVersion rest addr)"

fun farmType :: "farms_config \<Rightarrow> string \<Rightarrow> farm_reward_type option" where
  "farmType [] addr = None"
| "farmType ((version, Addresses addresses) # rest) addr =
     (if addr \<in> set addresses then None else farmType rest addr)"
| "farmType ((version, ByType types) # rest) addr =
     (case findType types addr of Some type \<Rightarrow> toRewardTypeEnum type | None \<Rightarrow> farmType rest addr)"

fun entryAddresses :: "farm_entry \<Rightarrow> string list" where
  "entryAddresses (Addresses addresses) = addresses"
| "entryAddresses (ByType types) = concat (map snd types)"

text \<open>A version that is not in the table has no keys to list: \<open>Object.keys (undefined)\<close> throws.\<close>

fun addressesOf :: "farms_config \<Rightarrow> string list \<Rightarrow> string list res" where
  "addressesOf table [] = Inr []"
| "addressesOf table (version # versions) =
     (case map_of table version of
        None \<Rightarrow> Inl (JsError ''TypeError'')
      | Some entry \<Rightarrow> res_bind (addressesOf table versions) (\<lambda>rest. Inr (entryAddresses entry @ rest)))"

definition farmsAddresses :: "farms_config \<Rightarrow> string list option \<Rightarrow> string list res" where
  "farmsAddresses table versions =
     addressesOf table
       (case versions of Some (v # vs) \<Rightarrow> v # vs | _ \<Rightarrow> map fst table)"

section \<open>The three views of the table agree\<close>

definition known_versions :: "farms_config \<Rightarrow> bool" where
  "known_versions table \<longleftrightarrow> distinct (map fst table) \<and> (\<forall>(v, e)\<in>set table. toVersionEnum v \<noteq> None)"

lemma findType_None: "findType types addr = None \<longleftrightarrow> addr \<notin> set (concat (map snd types))"
  by (induction types addr rule: findType.induct) auto

lemma farmVersion_Some:
  "\<forall>(v, e)\<in>set table. toVersionEnum v \<noteq> None \<Longrightarrow>
   farmVersion table addr \<noteq> None \<longleftrightarrow> (\<exists>(v, e)\<in>set table. addr \<in> set (entryAddresses e))"
proof (induction table addr rule: farmVersion.induct)
  case (3 version types rest addr)
  then show ?case using findType_None [of types addr]
    by (cases "findType types addr") auto
qed auto

lemma farmType_Some: "farmType table addr = Some t \<Longrightarrow> \<exists>(v, e)\<in>set table. addr \<in> set (entryAddresses e)"
proof (induction table addr rule: farmType.induct)
  case (3 version types rest addr)
  then show ?case using findType_None [of types addr]
    by (cases "findType types addr") auto
qed (auto split: if_splits)

lemma addressesOf_all:
  assumes "distinct (map fst table)" "set vs \<subseteq> fst ` set table"
  shows "\<exists>xs. addressesOf table vs = Inr xs \<and>
    (\<forall>x. x \<in> set xs \<longleftrightarrow> (\<exists>v e. (v, e) \<in> set table \<and> v \<in> set vs \<and> x \<in> set (entryAddresses e)))"
  using assms(2)
proof (induction vs)
  case (Cons v vs)
  then obtain e where e: "(v, e) \<in> set table" by auto
  then have m: "map_of table v = Some e" using assms(1) by (simp add: map_of_is_SomeI)
  have "set vs \<subseteq> fst ` set table" using Cons.prems by simp
  then obtain xs where xs: "addressesOf table vs = Inr xs"
    "\<forall>x. x \<in> set xs \<longleftrightarrow> (\<exists>v e. (v, e) \<in> set table \<and> v \<in> set vs \<and> x \<in> set (entryAddresses e))"
    using Cons.IH by blast
  have eq: "e' = e" if "(v, e') \<in> set table" for e' using that m assms(1) by (simp add: map_of_is_SomeI)
  have "addressesOf table (v # vs) = Inr (entryAddresses e @ xs)" using m xs(1) by simp
  moreover have "x \<in> set (entryAddresses e @ xs) \<longleftrightarrow>
      (\<exists>w e'. (w, e') \<in> set table \<and> w \<in> set (v # vs) \<and> x \<in> set (entryAddresses e'))" for x
    using xs(2) e eq unfolding set_append set_simps Un_iff insert_iff by metis
  ultimately show ?case by blast
qed simp

text \<open>The list of all farm addresses is exactly the addresses that have a version.\<close>

lemma farmsAddresses_versions:
  assumes "known_versions table"
  shows "\<exists>xs. farmsAddresses table None = Inr xs \<and> (\<forall>addr. addr \<in> set xs \<longleftrightarrow> farmVersion table addr \<noteq> None)"
proof -
  have "distinct (map fst table)" "\<forall>(v, e)\<in>set table. toVersionEnum v \<noteq> None"
    using assms by (simp_all add: known_versions_def)
  then obtain xs where xs: "addressesOf table (map fst table) = Inr xs"
    "\<forall>x. x \<in> set xs \<longleftrightarrow> (\<exists>v e. (v, e) \<in> set table \<and> v \<in> set (map fst table) \<and> x \<in> set (entryAddresses e))"
    using addressesOf_all [of table "map fst table"] by auto
  have "addr \<in> set xs \<longleftrightarrow> farmVersion table addr \<noteq> None" for addr
    unfolding farmVersion_Some [OF \<open>\<forall>(v, e)\<in>set table. toVersionEnum v \<noteq> None\<close>] xs(2) [rule_format]
    by (force simp: image_iff)
  then show ?thesis using xs(1) by (simp add: farmsAddresses_def)
qed

end
