(* ===== verification/FarmTransactions.thy ===== *)
theory FarmTransactions
  imports ContractCalls FarmUtils FarmCompute
begin

text \<open>
  The transactions of the farms: \<open>src/modules/farm/base-module/services/farm.transaction.service.ts\<close>,
  its versions \<open>v1.2\<close>, \<open>v1.3\<close>, \<open>v2\<close> and \<open>custom\<close>, and the factory
  (\<open>src/modules/farm/farm.transaction.factory.ts\<close>) that picks the version of a farm address.

  The gas table has an entry per version and reward type; looking a limit up for a version or a
  type it lacks reads a property of \<open>undefined\<close>. The entries are those of
  \<open>src/config/default.json\<close>, which no environment overrides.
\<close>

section \<open>Arguments\<close>

record enter_farm_args =
  efFarmAddress :: string
  efTokens :: "input_token list"
  efLockRewards :: bool

record sft_farm_args =
  sfFarmAddress :: string
  sfFarmTokenID :: string
  sfFarmTokenNonce :: int
  sfAmount :: bn
  sfLockRewards :: bool

text \<open>\<open>exitAmount\<close> is \<open>None\<close> when the argument is missing or empty.\<close>

record exit_farm_args = sft_farm_args +
  exWithPenalty :: bool
  exExitAmount :: "bn option"

record farm_migration_config_args =
  fmOldFarmAddress :: string
  fmOldFarmTokenID :: string
  fmNewFarmAddress :: string
  fmNewLockedFarmAddress :: string

section \<open>Gas limits\<close>

fun versionKey :: "farm_version \<Rightarrow> string" where
  "versionKey V1_2 = ''v1.2''"
| "versionKey V1_3 = ''v1.3''"
| "versionKey V2 = ''v2''"
| "versionKey CUSTOM = ''custom''"

fun typeKey :: "farm_reward_type \<Rightarrow> string" where
  "typeKey UNLOCKED_REWARDS = ''unlockedRewards''"
| "typeKey LOCKED_REWARDS = ''lockedRewards''"
| "typeKey CUSTOM_REWARDS = ''customRewards''"

text \<open>\<open>gasConfig.farms[version][type]\<close> followed by a path.\<close>

definition farmTypeGas ::
  "dex_config \<Rightarrow> farm_version option \<Rightarrow> farm_reward_type option \<Rightarrow> string \<Rightarrow> int res" where
  "farmTypeGas cfg version type path =
     (case (version, type) of
        (Some v, Some t) \<Rightarrow>
          if v = CUSTOM \<or> t = CUSTOM_REWARDS then Inl TypeError
          else Inr (gas cfg (''farms.'' @ versionKey v @ ''.'' @ typeKey t @ ''.'' @ path))
      | _ \<Rightarrow> Inl TypeError)"

definition lockedAssetCreateGas :: "dex_config \<Rightarrow> farm_reward_type option \<Rightarrow> int" where
  "lockedAssetCreateGas cfg type = (if type = Some LOCKED_REWARDS then gas cfg ''lockedAssetCreate'' else 0)"

text \<open>The path below \<open>exitFarm\<close> in the gas table.\<close>

definition exitFarmPath :: "chain_view \<Rightarrow> farm_view \<Rightarrow> exit_farm_args \<Rightarrow> string" where
  "exitFarmPath V F args =
     (let farm = sfFarmAddress args;
          local = (if exWithPenalty args then ''exitFarm.withPenalty.localBurn'' else ''exitFarm.default'')
      in if farmedTokenID F farm = farmingTokenID F farm then local
         else case lpPair V (farmingTokenID F farm) of
           Some pairAddress \<Rightarrow>
             (if exWithPenalty args
              then if trustedSwapPairs V pairAddress \<noteq> [] then ''exitFarm.withPenalty.buybackAndBurn''
                   else ''exitFarm.withPenalty.pairBurn''
              else ''exitFarm.default'')
         | None \<Rightarrow> local)"

definition getExitFarmGasLimit ::
  "dex_config \<Rightarrow> chain_view \<Rightarrow> farm_view \<Rightarrow> exit_farm_args \<Rightarrow> farm_version option \<Rightarrow> farm_reward_type option
    \<Rightarrow> int res" where
  "getExitFarmGasLimit cfg V F args version type =
     res_bind (farmTypeGas cfg version type (exitFarmPath V F args)) (\<lambda>gasL.
       Inr (gasL + lockedAssetCreateGas cfg type))"

section \<open>Transactions all versions share\<close>

text \<open>\<open>enterFarm\<close> of a version: the gas limit depends on whether there are tokens to merge.\<close>

definition enterFarmCall ::
  "dex_config \<Rightarrow> farm_view \<Rightarrow> string \<Rightarrow> string \<Rightarrow> string \<Rightarrow> enter_farm_args \<Rightarrow> transaction res" where
  "enterFarmCall cfg F version f sender args =
     res_bind (validateInputTokens (farmTokenID F (efFarmAddress args))
         (farmingTokenID F (efFarmAddress args)) (efTokens args)) (\<lambda>_.
       Inr (sender_call cfg sender (efFarmAddress args) f [] (map pay_input (efTokens args))
         (if 1 < length (efTokens args) then gas cfg (''farms.'' @ version @ ''.enterFarm.withTokenMerge'')
          else gas cfg (''farms.'' @ version @ ''.enterFarm.default''))))"

text \<open>A call paid with the farm token of the arguments.\<close>

definition farmTokenCall ::
  "dex_config \<Rightarrow> string \<Rightarrow> string \<Rightarrow> typed_value list \<Rightarrow> ('a) sft_farm_args_scheme \<Rightarrow> int \<Rightarrow> transaction" where
  "farmTokenCall cfg sender f fargs args gasL =
     sender_call cfg sender (sfFarmAddress args) f fargs
       [meta_esdt (sfFarmTokenID args) (sfFarmTokenNonce args) (sfAmount args)] gasL"

definition claimRewardsCall ::
  "dex_config \<Rightarrow> farm_version \<Rightarrow> farm_reward_type option \<Rightarrow> string \<Rightarrow> sft_farm_args \<Rightarrow> transaction res" where
  "claimRewardsCall cfg version type sender args =
     res_bind (farmTypeGas cfg (Some version) type ''claimRewards'') (\<lambda>gasL.
       Inr (farmTokenCall cfg sender ''claimRewards'' [] args (gasL + lockedAssetCreateGas cfg type)))"

definition compoundRewardsCall ::
  "dex_config \<Rightarrow> farm_view \<Rightarrow> string \<Rightarrow> string \<Rightarrow> sft_farm_args \<Rightarrow> transaction res" where
  "compoundRewardsCall cfg F version sender args =
     (if farmedTokenID F (sfFarmAddress args) \<noteq> farmingTokenID F (sfFarmAddress args)
      then Inl (JsError ''failed to compound different tokens'')
      else Inr (farmTokenCall cfg sender ''compoundRewards'' [] args
             (gas cfg (''farms.'' @ version @ ''.compoundRewards''))))"

text \<open>The product of the lookup is the gas limit of a merge.\<close>

definition mergeFarmTokens ::
  "dex_config \<Rightarrow> string \<Rightarrow> string \<Rightarrow> input_token list \<Rightarrow> transaction" where
  "mergeFarmTokens cfg sender farm pays =
     sender_call cfg sender farm ''mergeFarmTokens'' [] (map pay_input pays)
       (gas cfg ''farms.admin.mergeFarmTokensMultiplier'' * int (length pays))"

section \<open>Administration\<close>

text \<open>
  The contract object has one method per endpoint of the ABI file of the farm's version and type
  (\<open>MXProxyService.getFarmSmartContract\<close>); calling a method the file does not have throws. Of the
  endpoints below the files under \<open>src/abis/farms\<close> lack these.
\<close>

fun abiLacks :: "farm_version \<Rightarrow> farm_reward_type option \<Rightarrow> string list" where
  "abiLacks V1_2 type = [''end_produce_rewards'', ''set_burn_gas_limit'']"
| "abiLacks V1_3 type = (if type = Some CUSTOM_REWARDS then [] else [''start_produce_rewards''])"
| "abiLacks V2 type = [''end_produce_rewards'', ''start_produce_rewards'', ''set_transfer_exec_gas_limit'',
     ''setLocalRolesFarmToken'']"
| "abiLacks CUSTOM type = []"

definition farm_admin ::
  "dex_config \<Rightarrow> farms_config \<Rightarrow> string \<Rightarrow> string \<Rightarrow> typed_value list \<Rightarrow> transaction res" where
  "farm_admin cfg table farm f args =
     (case farmVersion table farm of
        None \<Rightarrow> Inl TypeError
      | Some version \<Rightarrow>
          if f \<in> set (abiLacks version (farmType table farm)) then Inl TypeError
          else Inr (contract_call cfg farm f args (gas cfg (''farms.admin.'' @ f))))"

definition endProduceRewards :: "dex_config \<Rightarrow> farms_config \<Rightarrow> string \<Rightarrow> transaction res" where
  "endProduceRewards cfg table farm = farm_admin cfg table farm ''end_produce_rewards'' []"

definition startProduceRewards :: "dex_config \<Rightarrow> farms_config \<Rightarrow> string \<Rightarrow> transaction res" where
  "startProduceRewards cfg table farm = farm_admin cfg table farm ''start_produce_rewards'' []"

definition setPerBlockRewardAmount :: "dex_config \<Rightarrow> farms_config \<Rightarrow> string \<Rightarrow> bn \<Rightarrow> transaction res" where
  "setPerBlockRewardAmount cfg table farm amt = farm_admin cfg table farm ''setPerBlockRewardAmount'' [BigUInt amt]"

definition setPenaltyPercent :: "bignumber \<Rightarrow> dex_config \<Rightarrow> farms_config \<Rightarrow> string \<Rightarrow> rat \<Rightarrow> transaction res" where
  "setPenaltyPercent B cfg table farm percent =
     farm_admin cfg table farm ''set_penalty_percent'' [BigUInt (bn_number B percent)]"

definition setMinimumFarmingEpochs :: "bignumber \<Rightarrow> dex_config \<Rightarrow> farms_config \<Rightarrow> string \<Rightarrow> rat \<Rightarrow> transaction res" where
  "setMinimumFarmingEpochs B cfg table farm epochs =
     farm_admin cfg table farm ''set_minimum_farming_epochs'' [BigUInt (bn_number B epochs)]"

definition setTransferExecGasLimit :: "bignumber \<Rightarrow> dex_config \<Rightarrow> farms_config \<Rightarrow> string \<Rightarrow> rat \<Rightarrow> transaction res" where
  "setTransferExecGasLimit B cfg table farm gasL =
     farm_admin cfg table farm ''set_transfer_exec_gas_limit'' [BigUInt (bn_number B gasL)]"

definition setBurnGasLimit :: "bignumber \<Rightarrow> dex_config \<Rightarrow> farms_config \<Rightarrow> string \<Rightarrow> rat \<Rightarrow> transaction res" where
  "setBurnGasLimit B cfg table farm gasL =
     farm_admin cfg table farm ''set_burn_gas_limit'' [BigUInt (bn_number B gasL)]"

definition pauseFarm :: "dex_config \<Rightarrow> farms_config \<Rightarrow> string \<Rightarrow> transaction res" where
  "pauseFarm cfg table farm = farm_admin cfg table farm ''pause'' []"

definition resumeFarm :: "dex_config \<Rightarrow> farms_config \<Rightarrow> string \<Rightarrow> transaction res" where
  "resumeFarm cfg table farm = farm_admin cfg table farm ''resume'' []"

definition registerFarmToken ::
  "bignumber \<Rightarrow> dex_config \<Rightarrow> farms_config \<Rightarrow> string \<Rightarrow> string \<Rightarrow> string \<Rightarrow> rat \<Rightarrow> transaction res" where
  "registerFarmToken B cfg table farm tokenName tokenTicker decs =
     farm_admin cfg table farm ''registerFarmToken''
       [BytesUTF8 tokenName, BytesUTF8 tokenTicker, BigUInt (bn_number B decs)]"

definition setLocalRolesFarmToken :: "dex_config \<Rightarrow> farms_config \<Rightarrow> string \<Rightarrow> transaction res" where
  "setLocalRolesFarmToken cfg table farm = farm_admin cfg table farm ''setLocalRolesFarmToken'' []"

section \<open>Version 1.2\<close>

definition rewardTypeOf :: "bool \<Rightarrow> farm_reward_type" where
  "rewardTypeOf lockRewards = (if lockRewards then LOCKED_REWARDS else UNLOCKED_REWARDS)"

definition enterFarm_v12 :: "dex_config \<Rightarrow> farm_view \<Rightarrow> string \<Rightarrow> enter_farm_args \<Rightarrow> transaction res" where
  "enterFarm_v12 cfg F sender args =
     enterFarmCall cfg F ''v1.2'' (if efLockRewards args then ''enterFarmAndLockRewards'' else ''enterFarm'')
       sender args"

definition exitFarm_v12 ::
  "dex_config \<Rightarrow> farms_config \<Rightarrow> chain_view \<Rightarrow> farm_view \<Rightarrow> string \<Rightarrow> exit_farm_args \<Rightarrow> transaction res" where
  "exitFarm_v12 cfg table V F sender args =
     res_bind (getExitFarmGasLimit cfg V F args (farmVersion table (sfFarmAddress args))
         (Some (rewardTypeOf (sfLockRewards args)))) (\<lambda>gasL.
       Inr (farmTokenCall cfg sender ''exitFarm'' [] args gasL))"

definition claimRewards_v12 :: "dex_config \<Rightarrow> string \<Rightarrow> sft_farm_args \<Rightarrow> transaction res" where
  "claimRewards_v12 cfg sender args =
     claimRewardsCall cfg V1_2 (Some (rewardTypeOf (sfLockRewards args))) sender args"

definition compoundRewards_v12 :: "dex_config \<Rightarrow> farm_view \<Rightarrow> string \<Rightarrow> sft_farm_args \<Rightarrow> transaction res" where
  "compoundRewards_v12 cfg F sender args = compoundRewardsCall cfg F ''v1.2'' sender args"

definition migrateToNewFarm :: "dex_config \<Rightarrow> string \<Rightarrow> exit_farm_args \<Rightarrow> transaction" where
  "migrateToNewFarm cfg sender args =
     farmTokenCall cfg sender ''migrateToNewFarm'' [AddressV sender] args (gas cfg ''farms.v1.2.migrateToNewFarm'')"

definition stopRewardsAndMigrateRps :: "dex_config \<Rightarrow> string \<Rightarrow> transaction" where
  "stopRewardsAndMigrateRps cfg farm =
     contract_call cfg farm ''stopRewardsAndMigrateRps'' [] (gas cfg ''farms.v1.2.stopRewards'')"

definition setFarmMigrationConfig ::
  "dex_config \<Rightarrow> farms_config \<Rightarrow> farm_migration_config_args \<Rightarrow> transaction res" where
  "setFarmMigrationConfig cfg table args =
     farm_admin cfg table (fmOldFarmAddress args) ''setFarmMigrationConfig''
       [AddressV (fmOldFarmAddress args), BytesUTF8 (fmOldFarmTokenID args),
        AddressV (fmNewFarmAddress args), BytesHexAddress (fmNewLockedFarmAddress args)]"

section \<open>Version 1.3\<close>

definition enterFarm_v13 :: "dex_config \<Rightarrow> farm_view \<Rightarrow> string \<Rightarrow> enter_farm_args \<Rightarrow> transaction res" where
  "enterFarm_v13 cfg F sender args = enterFarmCall cfg F ''v1.3'' ''enterFarm'' sender args"

definition exitFarm_v13 ::
  "dex_config \<Rightarrow> farms_config \<Rightarrow> chain_view \<Rightarrow> farm_view \<Rightarrow> string \<Rightarrow> exit_farm_args \<Rightarrow> transaction res" where
  "exitFarm_v13 cfg table V F sender args =
     res_bind (getExitFarmGasLimit cfg V F args (Some V1_3) (farmType table (sfFarmAddress args))) (\<lambda>gasL.
       Inr (farmTokenCall cfg sender ''exitFarm'' [] args gasL))"

definition claimRewards_v13 ::
  "dex_config \<Rightarrow> farms_config \<Rightarrow> string \<Rightarrow> sft_farm_args \<Rightarrow> transaction res" where
  "claimRewards_v13 cfg table sender args =
     claimRewardsCall cfg V1_3 (farmType table (sfFarmAddress args)) sender args"

definition compoundRewards_v13 :: "dex_config \<Rightarrow> farm_view \<Rightarrow> string \<Rightarrow> sft_farm_args \<Rightarrow> transaction res" where
  "compoundRewards_v13 cfg F sender args = compoundRewardsCall cfg F ''v1.3'' sender args"

section \<open>Version 2\<close>

definition enterFarm_v2 :: "dex_config \<Rightarrow> farm_view \<Rightarrow> string \<Rightarrow> enter_farm_args \<Rightarrow> transaction res" where
  "enterFarm_v2 cfg F sender args = enterFarmCall cfg F ''v2'' ''enterFarm'' sender args"

text \<open>\<open>new BigNumber (exitAmount).isPositive ()\<close>: the sign is positive; a missing amount is NaN.\<close>

fun isPositive :: "bn option \<Rightarrow> bool" where
  "isPositive (Some (Fin x)) \<longleftrightarrow> 0 \<le> x"
| "isPositive (Some PosInf) \<longleftrightarrow> True"
| "isPositive _ \<longleftrightarrow> False"

definition exitFarm_v2 ::
  "dex_config \<Rightarrow> farms_config \<Rightarrow> chain_view \<Rightarrow> farm_view \<Rightarrow> string \<Rightarrow> exit_farm_args \<Rightarrow> transaction res" where
  "exitFarm_v2 cfg table V F sender args =
     (if exExitAmount args = None \<and> \<not> isPositive (exExitAmount args)
      then Inl (JsError ''Invalid exit amount'')
      else res_bind (getExitFarmGasLimit cfg V F args (Some V2) (farmType table (sfFarmAddress args))) (\<lambda>gasL.
        Inr (farmTokenCall cfg sender ''exitFarm''
          [BigUInt (case exExitAmount args of Some a \<Rightarrow> a | None \<Rightarrow> NotANum)] args gasL)))"

definition claimRewards_v2 ::
  "dex_config \<Rightarrow> farms_config \<Rightarrow> string \<Rightarrow> sft_farm_args \<Rightarrow> transaction res" where
  "claimRewards_v2 cfg table sender args =
     claimRewardsCall cfg V2 (farmType table (sfFarmAddress args)) sender args"

definition compoundRewards_v2 :: "string \<Rightarrow> sft_farm_args \<Rightarrow> transaction res" where
  "compoundRewards_v2 sender args = Inl (JsError ''Method not implemented.'')"

section \<open>Custom farms\<close>

definition custom_error :: "string \<Rightarrow> js_error" where
  "custom_error farm = JsError (''whitelisted addresses only for farm '' @ farm)"

definition enterFarm_custom :: "string \<Rightarrow> enter_farm_args \<Rightarrow> transaction res" where
  "enterFarm_custom sender args = Inl (custom_error (efFarmAddress args))"

definition exitFarm_custom :: "string \<Rightarrow> exit_farm_args \<Rightarrow> transaction res" where
  "exitFarm_custom sender args = Inl (custom_error (sfFarmAddress args))"

definition claimRewards_custom :: "string \<Rightarrow> sft_farm_args \<Rightarrow> transaction res" where
  "claimRewards_custom sender args = Inl (custom_error (sfFarmAddress args))"

definition compoundRewards_custom :: "string \<Rightarrow> sft_farm_args \<Rightarrow> transaction res" where
  "compoundRewards_custom sender args = Inl (custom_error (sfFarmAddress args))"

end
