(* ===== verification/StakingCompute.thy ===== *)
theory StakingCompute
  imports FarmCompute AutoRouterService
begin

text \<open>
  \<open>src/modules/staking/services/staking.compute.service.ts\<close>: the rewards of a staking position,
  bounded by the block rewards, by the annual percentage and by the reward capacity, the value
  and yield of a staking contract, and the search for the best compounding frequency.

  \<open>stake_view\<close> has one field per getter of the staking ABI service. The power operator of
  JavaScript is implementation-approximated, so it is an argument of the search.
\<close>

record stake_view =
  stCurrentBlockNonce :: int
  stLastRewardBlockNonce :: "string \<Rightarrow> int"
  stPerBlockRewardsAmount :: "string \<Rightarrow> bn"
  stProduceRewardsEnabled :: "string \<Rightarrow> bool"
  stAccumulatedRewards :: "string \<Rightarrow> bn"
  stRewardCapacity :: "string \<Rightarrow> bn"
  stRewardPerShare :: "string \<Rightarrow> bn"
  stFarmTokenSupply :: "string \<Rightarrow> bn"
  stDivisionSafetyConstant :: "string \<Rightarrow> bn"
  stAnnualPercentageRewards :: "string \<Rightarrow> bn"
  stFarmingTokenID :: "string \<Rightarrow> string"
  stDeployedAt :: "string \<Rightarrow> int option"
  stFarmTokenID :: "string \<Rightarrow> string"
  stOwnerAddress :: "string \<Rightarrow> string"

section \<open>Rewards\<close>

definition computeExtraRewardsBounded :: "bignumber \<Rightarrow> stake_view \<Rightarrow> string \<Rightarrow> bn \<Rightarrow> bn" where
  "computeExtraRewardsBounded B S stake blockDifference =
     bn_times B
       (bn_div B (bn_div B (bn_times B (stFarmTokenSupply S stake) (stAnnualPercentageRewards S stake))
         (bn_number B (of_int MAX_PERCENT))) (bn_number B (of_int BLOCKS_IN_YEAR)))
       blockDifference"

definition computeExtraRewardsSinceLastAllocation :: "bignumber \<Rightarrow> stake_view \<Rightarrow> string \<Rightarrow> bn" where
  "computeExtraRewardsSinceLastAllocation B S stake =
     (let currentNonce = stCurrentBlockNonce S;
          lastNonce = stLastRewardBlockNonce S stake;
          blockDifference = bn_minus B (bn_number B (of_int currentNonce)) (bn_number B (of_int lastNonce))
      in if lastNonce < currentNonce \<and> stProduceRewardsEnabled S stake then
           let unbounded = bn_times B (stPerBlockRewardsAmount S stake) blockDifference;
               bounded = computeExtraRewardsBounded B S stake blockDifference
           in if bn_less B unbounded bounded then unbounded else bounded
         else Fin 0)"

definition computeFutureRewardsPerShare :: "bignumber \<Rightarrow> stake_view \<Rightarrow> string \<Rightarrow> bn" where
  "computeFutureRewardsPerShare B S stake =
     (let extraRewards = computeExtraRewardsSinceLastAllocation B S stake in
      if bn_greater B extraRewards (Fin 0) then
        let totalRewards = bn_plus B extraRewards (stAccumulatedRewards S stake);
            extraRewards' =
              (if bn_greater B totalRewards (stRewardCapacity S stake)
               then bn_minus B extraRewards (bn_minus B totalRewards (stRewardCapacity S stake))
               else extraRewards)
        in bn_plus B (stRewardPerShare S stake)
             (bn_div B (bn_times B extraRewards' (stDivisionSafetyConstant S stake)) (stFarmTokenSupply S stake))
      else stRewardPerShare S stake)"

text \<open>\<open>rewardPerShare'\<close> is the field of the position's decoded attributes.\<close>

definition computeStakeRewardsForPosition :: "bignumber \<Rightarrow> stake_view \<Rightarrow> string \<Rightarrow> bn \<Rightarrow> bn \<Rightarrow> bn" where
  "computeStakeRewardsForPosition B S stake liquidity rewardPerShare' =
     bn_div B (bn_times B liquidity (bn_minus B (computeFutureRewardsPerShare B S stake) rewardPerShare'))
       (stDivisionSafetyConstant S stake)"

section \<open>Value, yield, remaining days\<close>

definition farmingTokenPriceUSD :: "bignumber \<Rightarrow> dex_config \<Rightarrow> chain_view \<Rightarrow> stake_view \<Rightarrow> string \<Rightarrow> bn" where
  "farmingTokenPriceUSD B cfg V S stake = tokenPriceUSD B cfg V (stFarmingTokenID S stake)"

text \<open>
  \<open>Promise.all\<close> yields three results, but only the first two are bound: \<open>farmingToken\<close> is the
  metadata of MEX, and the farming token of the contract is dropped.
\<close>

definition computeStakedValueUSD ::
  "bignumber \<Rightarrow> dex_config \<Rightarrow> chain_view \<Rightarrow> string \<Rightarrow> stake_view \<Rightarrow> string \<Rightarrow> bn" where
  "computeStakedValueUSD B cfg V mexTokenID S stake =
     (let results = [tokenMetadata V mexTokenID, tokenMetadata V (stFarmingTokenID S stake)];
          farmingToken = hd results
      in bn_times B (bn_times B (stFarmTokenSupply S stake) (tokenPriceUSD B cfg V (tokIdentifier farmingToken)))
           (dec_unit (decimals farmingToken)))"

definition computeStakeFarmAPR :: "bignumber \<Rightarrow> stake_view \<Rightarrow> string \<Rightarrow> bn" where
  "computeStakeFarmAPR B S stake =
     (let blocks = bn_number B (of_int BLOCKS_IN_YEAR);
          bounded = computeExtraRewardsBounded B S stake blocks;
          unbounded = bn_times B (stPerBlockRewardsAmount S stake) blocks
      in if bn_less B unbounded (bn_integer B bounded)
         then bn_div B unbounded (stFarmTokenSupply S stake)
         else bn_div B (stAnnualPercentageRewards S stake) (bn_number B (of_int MAX_PERCENT)))"

definition computeRewardsRemainingDays :: "bignumber \<Rightarrow> stake_view \<Rightarrow> string \<Rightarrow> jsnum" where
  "computeRewardsRemainingDays B S stake =
     toNumber (bn_fixed B 2 (bn_div B (bn_div B
       (bn_minus B (stRewardCapacity S stake) (stAccumulatedRewards S stake))
       (stPerBlockRewardsAmount S stake)) (bn_number B (10 * 60 * 24))))"

definition computeStakeDeployedAt :: "stake_view \<Rightarrow> string \<Rightarrow> int option" where
  "computeStakeDeployedAt S stake = stDeployedAt S stake"

section \<open>The best compounding frequency\<close>

record optimal_compound_model =
  ocInterval :: int
  ocOptimalProfit :: jsnum
  ocDays :: jsnum
  ocHours :: jsnum
  ocMinutes :: jsnum

fun js_greater :: "jsnum \<Rightarrow> jsnum \<Rightarrow> bool" where
  "js_greater (JNum x) (JNum y) = (y < x)"
| "js_greater JInf (JNum y) = True"
| "js_greater JInf JNegInf = True"
| "js_greater (JNum x) JNegInf = True"
| "js_greater _ _ = False"

text \<open>The profit of compounding \<open>iterator\<close> times.\<close>

definition compoundProfit ::
  "(jsnum \<Rightarrow> int \<Rightarrow> jsnum) \<Rightarrow> jsnum \<Rightarrow> jsnum \<Rightarrow> jsnum \<Rightarrow> rat \<Rightarrow> int \<Rightarrow> jsnum" where
  "compoundProfit js_pow denominatedAmount apr fees timeHorizon iterator =
     (let rewards = js_pow
            (js_add (jint 1) (js_div (js_mul apr (JNum timeHorizon)) (js_mul (jint 365) (jint iterator)))) iterator;
          finalAmount = js_mul denominatedAmount rewards
      in js_sub (js_sub finalAmount denominatedAmount) (js_mul fees (jint iterator)))"

text \<open>The loop, left at the first iteration that does not improve the profit.\<close>

fun compoundLoop :: "(int \<Rightarrow> jsnum) \<Rightarrow> int list \<Rightarrow> jsnum \<times> int \<Rightarrow> jsnum \<times> int" where
  "compoundLoop profit [] (optimalProfit, optimalIterations) = (optimalProfit, optimalIterations)"
| "compoundLoop profit (iterator # rest) (optimalProfit, optimalIterations) =
     (if js_greater (profit iterator) optimalProfit
      then compoundLoop profit rest (profit iterator, iterator)
      else (optimalProfit, optimalIterations))"

definition computeOptimalCompoundFrequency ::
  "(jsnum \<Rightarrow> int \<Rightarrow> jsnum) \<Rightarrow> rat \<Rightarrow> bignumber \<Rightarrow> dex_config \<Rightarrow> chain_view \<Rightarrow> stake_view \<Rightarrow> string \<Rightarrow> bn \<Rightarrow> rat
   \<Rightarrow> optimal_compound_model" where
  "computeOptimalCompoundFrequency js_pow transactionFee B cfg V S stake positionAmount timeHorizon =
     (let apr = toNumber (computeStakeFarmAPR B S stake);
          farmingToken = tokenMetadata V (stFarmingTokenID S stake);
          denominatedAmount = toNumber (denominateAmount B positionAmount (decimals farmingToken));
          farmingTokenPrice = (case computeTokenPriceDerivedEGLD B cfg V (tokIdentifier farmingToken) [] of
              Some (p, _) \<Rightarrow> p | None \<Rightarrow> NotANum);
          egldPrice = bn_div B (Fin 1) farmingTokenPrice;
          fees = toNumber (bn_times B (bn_number B transactionFee) egldPrice);
          compoundIterations = 365 * 24;
          (optimalProfit, optimalIterations) =
            compoundLoop (compoundProfit js_pow denominatedAmount apr fees timeHorizon)
              [1..compoundIterations - 1] (jint 0, 0)
      in if optimalIterations = 0 then
           \<lparr>ocInterval = 0, ocOptimalProfit = jint 0, ocDays = jint 0, ocHours = jint 0, ocMinutes = jint 0\<rparr>
         else
           let freqDays = js_div (JNum timeHorizon) (jint optimalIterations);
               frequencyHours = js_mul (js_sub freqDays (js_floor freqDays)) (jint 24);
               frequencyMinutes = js_mul (js_sub frequencyHours (js_floor frequencyHours)) (jint 60)
           in \<lparr>ocInterval = optimalIterations, ocOptimalProfit = optimalProfit, ocDays = js_floor freqDays,
               ocHours = js_floor frequencyHours, ocMinutes = js_floor frequencyMinutes\<rparr>)"

section \<open>Rewards are bounded\<close>

text \<open>
  A staking contract in service: integer amounts, a positive supply and safety constant,
  accumulated rewards within the capacity, safe block numbers.
\<close>

definition sound_stake :: "stake_view \<Rightarrow> string \<Rightarrow> int \<Rightarrow> int \<Rightarrow> int \<Rightarrow> int \<Rightarrow> int \<Rightarrow> bool" where
  "sound_stake S stake supply d r acc cap \<longleftrightarrow>
     stFarmTokenSupply S stake = bn_of_int supply \<and> stDivisionSafetyConstant S stake = bn_of_int d \<and>
     stRewardPerShare S stake = bn_of_int r \<and> stAccumulatedRewards S stake = bn_of_int acc \<and>
     stRewardCapacity S stake = bn_of_int cap \<and> 0 < supply \<and> 0 < d \<and> acc \<le> cap \<and>
     (\<exists>p\<ge>0. stPerBlockRewardsAmount S stake = bn_of_int p) \<and>
     (\<exists>q\<ge>0. stAnnualPercentageRewards S stake = bn_of_int q) \<and>
     0 \<le> stLastRewardBlockNonce S stake \<and> stLastRewardBlockNonce S stake < 2 ^ 53 \<and>
     0 \<le> stCurrentBlockNonce S \<and> stCurrentBlockNonce S < 2 ^ 53"

context bignumber_lib begin

lemma computeExtraRewardsBounded_fin:
  assumes "sound_stake S stake supply d r acc cap" "0 \<le> n"
  obtains x where "computeExtraRewardsBounded B S stake (Fin n) = Fin x" "0 \<le> x"
proof -
  obtain q where q: "0 \<le> q" "stAnnualPercentageRewards S stake = bn_of_int q"
    using assms(1) by (auto simp: sound_stake_def)
  have num: "bn_number B (of_int MAX_PERCENT) = Fin 10000" "bn_number B (of_int BLOCKS_IN_YEAR) = Fin 5256000"
    using number_int [of MAX_PERCENT] number_int [of BLOCKS_IN_YEAR] by (simp_all add: MAX_PERCENT_def BLOCKS_IN_YEAR_def)
  let ?y = "round_dp 20 (round_dp 20 (of_int supply * of_int q / 10000) / 5256000)"
  have "0 \<le> ?y" using assms(1) q(1)
    by (intro round_dp_nonneg divide_nonneg_nonneg mult_nonneg_nonneg) (simp_all add: sound_stake_def)
  moreover have "computeExtraRewardsBounded B S stake (Fin n) = Fin (?y * n)"
    using assms(1) q(2) num
    by (simp add: computeExtraRewardsBounded_def sound_stake_def times_fin div_fin)
  ultimately show ?thesis using assms(2) that by simp
qed

lemma computeExtraRewards_fin:
  assumes "sound_stake S stake supply d r acc cap"
  obtains x where "computeExtraRewardsSinceLastAllocation B S stake = Fin x" "0 \<le> x"
proof -
  let ?n = "stCurrentBlockNonce S - stLastRewardBlockNonce S stake"
  obtain p where p: "0 \<le> p" "stPerBlockRewardsAmount S stake = bn_of_int p"
    using assms by (auto simp: sound_stake_def)
  have diff: "bn_minus B (bn_number B (of_int (stCurrentBlockNonce S))) (bn_number B (of_int (stLastRewardBlockNonce S stake)))
      = bn_of_int ?n"
    using assms by (simp add: sound_stake_def number_int minus_fin)
  show ?thesis
  proof (cases "0 < ?n \<and> stProduceRewardsEnabled S stake")
    case True
    then have "0 \<le> rat_of_int ?n" unfolding of_int_0_le_iff by linarith
    then obtain x where x: "computeExtraRewardsBounded B S stake (bn_of_int ?n) = Fin x" "0 \<le> x"
      by (rule computeExtraRewardsBounded_fin [OF assms])
    have "0 \<le> rat_of_int p * of_int ?n" using p(1) True by (simp del: of_int_diff)
    moreover have "computeExtraRewardsSinceLastAllocation B S stake =
        (if rat_of_int p * of_int ?n < x then Fin (of_int p * of_int ?n) else Fin x)"
      using True x(1) p(2)
      by (simp add: computeExtraRewardsSinceLastAllocation_def Let_def diff times_fin less_fin del: of_int_diff)
    ultimately show ?thesis using x(2) that by (cases "rat_of_int p * of_int ?n < x") simp_all
  next
    case False
    then show ?thesis using that [of 0] by (auto simp: computeExtraRewardsSinceLastAllocation_def Let_def)
  qed
qed

text \<open>The increase of the reward per share is that of the extra rewards cut at the capacity.\<close>

lemma computeFutureRewardsPerShare_fin:
  assumes "sound_stake S stake supply d r acc cap"
  obtains e where "computeFutureRewardsPerShare B S stake = Fin (of_int r + round_dp 20 (e * of_int d / of_int supply))"
    "0 \<le> e" "e \<le> of_int (cap - acc)"
proof -
  obtain x where x: "computeExtraRewardsSinceLastAllocation B S stake = Fin x" "0 \<le> x"
    by (rule computeExtraRewards_fin [OF assms])
  note s = assms [unfolded sound_stake_def]
  have le: "rat_of_int acc \<le> of_int cap" using s by simp
  show ?thesis
  proof (cases "0 < x")
    case True
    then have "computeFutureRewardsPerShare B S stake =
        Fin (of_int r + round_dp 20 (min x (of_int (cap - acc)) * of_int d / of_int supply))"
      using x(1) s
      by (simp add: computeFutureRewardsPerShare_def greater_fin plus_fin minus_fin times_fin div_fin min_def Let_def
          algebra_simps)
    then show ?thesis using that [of "min x (of_int (cap - acc))"] x(2) le by simp
  next
    case False
    then show ?thesis using x s le that [of 0]
      by (simp add: computeFutureRewardsPerShare_def greater_fin Let_def)
  qed
qed

end

text \<open>
  C17. As long as the accumulated rewards are within the capacity, the future reward per share
  never falls below the present one and grows by at most the rest of the capacity spread over
  the supply; a position opened at or below the present reward per share never shows a
  negative reward.
\<close>

theorem staking_rewards_within_capacity:
  assumes "bignumber_lib B" "sound_stake S stake supply d r acc cap" "0 \<le> l" "r0 \<le> r"
  shows "\<exists>f v. computeFutureRewardsPerShare B S stake = Fin f \<and>
    computeStakeRewardsForPosition B S stake (bn_of_int l) (bn_of_int r0) = Fin v \<and>
    of_int r \<le> f \<and> f \<le> of_int r + of_int (cap - acc) * of_int d / of_int supply + 1 / (2 * 10 ^ 20) \<and>
    0 \<le> v \<and> \<bar>v - of_int l * (f - of_int r0) / of_int d\<bar> \<le> 1 / (2 * 10 ^ 20)"
proof -
  note s = assms(2) [unfolded sound_stake_def]
  have pos: "0 < rat_of_int supply" "0 < rat_of_int d" using s by simp_all
  obtain e where e: "computeFutureRewardsPerShare B S stake = Fin (of_int r + round_dp 20 (e * of_int d / of_int supply))"
    "0 \<le> e" "e \<le> of_int (cap - acc)"
    by (rule bignumber_lib.computeFutureRewardsPerShare_fin [OF assms(1,2)])
  define g where "g = round_dp 20 (e * of_int d / of_int supply)"
  have "0 \<le> e * of_int d / of_int supply" using e(2) pos by simp
  then have g0: "0 \<le> g" unfolding g_def by (rule round_dp_nonneg)
  have "\<bar>g - e * of_int d / of_int supply\<bar> \<le> 1 / (2 * 10 ^ 20)" unfolding g_def by (rule round_dp_error)
  moreover have "e * of_int d / of_int supply \<le> of_int (cap - acc) * of_int d / of_int supply"
    using e(3) pos by (intro divide_right_mono mult_right_mono) (simp_all del: of_int_diff)
  ultimately have g1: "g \<le> of_int (cap - acc) * of_int d / of_int supply + 1 / (2 * 10 ^ 20)"
    unfolding abs_le_iff by linarith
  define y where "y = of_int l * (of_int r + g - of_int r0) / of_int d"
  have "0 \<le> of_int r + g - rat_of_int r0" using g0 assms(4) by simp
  then have y: "0 \<le> y" unfolding y_def using assms(3) pos by (intro divide_nonneg_nonneg mult_nonneg_nonneg) simp_all
  have "computeStakeRewardsForPosition B S stake (bn_of_int l) (bn_of_int r0) = Fin (round_dp 20 y)"
    using s pos e(1) assms(1)
    by (simp add: computeStakeRewardsForPosition_def bignumber_lib.minus_fin bignumber_lib.times_fin
        bignumber_lib.div_fin y_def g_def)
  then show ?thesis
    using e(1) g0 g1 round_dp_nonneg [OF y] round_dp_error [of 20 y]
    unfolding g_def [symmetric] y_def [symmetric]
    by (intro exI [of _ "of_int r + g"] exI [of _ "round_dp 20 y"]) (simp add: y_def)
qed

definition demo_stake :: stake_view where
  "demo_stake = \<lparr>stCurrentBlockNonce = 110, stLastRewardBlockNonce = \<lambda>_. 100,
     stPerBlockRewardsAmount = \<lambda>_. bn_of_int 50, stProduceRewardsEnabled = \<lambda>_. True,
     stAccumulatedRewards = \<lambda>_. bn_of_int 900, stRewardCapacity = \<lambda>_. bn_of_int 1000,
     stRewardPerShare = \<lambda>_. bn_of_int 2000000, stFarmTokenSupply = \<lambda>_. bn_of_int 1000,
     stDivisionSafetyConstant = \<lambda>_. bn_of_int 1000000, stAnnualPercentageRewards = \<lambda>_. bn_of_int 1000,
     stFarmingTokenID = \<lambda>_. ''UTK'', stDeployedAt = \<lambda>_. None,
     stFarmTokenID = \<lambda>_. ''UTKFARM'', stOwnerAddress = \<lambda>_. ''owner''\<rparr>"

theorem staking_rewards_within_capacity_witness:
  "\<exists>f v. computeFutureRewardsPerShare bn_js demo_stake ''stake'' = Fin f \<and>
     computeStakeRewardsForPosition bn_js demo_stake ''stake'' (bn_of_int 10) (bn_of_int 1000000) = Fin v \<and>
     2000000 \<le> f \<and> 0 \<le> v"
proof -
  have "sound_stake demo_stake ''stake'' 1000 1000000 2000000 900 1000"
    unfolding sound_stake_def
    by (simp add: demo_stake_def)
  from staking_rewards_within_capacity [OF js.bignumber_lib_axioms this, of 10 1000000]
  show ?thesis by auto
qed

section \<open>The value of a staking contract\<close>

text \<open>The farming token of the contract has no influence on the value.\<close>

lemma stakedValueUSD_ignores_farming_token:
  "stFarmTokenSupply S stake = stFarmTokenSupply S' stake' \<Longrightarrow>
   computeStakedValueUSD B cfg V mex S stake = computeStakedValueUSD B cfg V mex S' stake'"
  by (simp add: computeStakedValueUSD_def)

section \<open>The compounding search\<close>

lemma compoundLoop_improves:
  assumes "compoundLoop profit [a..n] (b, a - 1) = (p, k)" "a \<le> n + 1"
  shows "a - 1 \<le> k \<and> k \<le> n \<and> p = (if k = a - 1 then b else profit k) \<and>
    (\<forall>i\<in>{a..k}. js_greater (profit i) (if i = a then b else profit (i - 1))) \<and>
    (k < n \<longrightarrow> \<not> js_greater (profit (k + 1)) p)"
  using assms
proof (induction "nat (n + 1 - a)" arbitrary: a b)
  case 0
  then show ?case by auto
next
  case (Suc m)
  then have a: "a \<le> n" by simp
  have list: "[a..n] = a # [a + 1..n]" using a by (rule upto_rec1)
  show ?case
  proof (cases "js_greater (profit a) b")
    case False
    then have "p = b" "k = a - 1" using Suc.prems(1) by (simp_all add: list)
    then show ?thesis using a False by auto
  next
    case True
    have step: "m = nat (n + 1 - (a + 1))" "a + 1 \<le> n + 1" using Suc.hyps(2) a by simp_all
    have loop: "compoundLoop profit [a + 1..n] (profit a, (a + 1) - 1) = (p, k)"
      using Suc.prems(1) True by (simp add: list)
    have ih: "(a + 1) - 1 \<le> k \<and> k \<le> n \<and> p = (if k = (a + 1) - 1 then profit a else profit k) \<and>
      (\<forall>i\<in>{a + 1..k}. js_greater (profit i) (if i = a + 1 then profit a else profit (i - 1))) \<and>
      (k < n \<longrightarrow> \<not> js_greater (profit (k + 1)) p)"
      by (rule Suc.hyps(1) [OF step(1) loop step(2)])
    have all: "js_greater (profit i) (if i = a + 1 then profit a else profit (i - 1))" if "i \<in> {a + 1..k}" for i
      using ih that by blast
    have "js_greater (profit i) (if i = a then b else profit (i - 1))" if "i \<in> {a..k}" for i
    proof (cases "i = a")
      case False
      then show ?thesis using all [of i] that by (cases "i = a + 1") simp_all
    qed (simp add: True)
    moreover have "p = profit k" using ih by (auto split: if_splits)
    ultimately show ?thesis using ih by auto
  qed
qed

text \<open>
  C18. The compounding search ends with a number of compoundings below 8760 such that every
  one up to it earns strictly more than the one before, the first more than nothing, and the
  next one does not earn more; if the first earns nothing the answer is not to compound.
\<close>

theorem compound_search_stops_at_peak:
  assumes "profit = compoundProfit js_pow
      (toNumber (denominateAmount B amt (decimals (tokenMetadata V (stFarmingTokenID S stake)))))
      (toNumber (computeStakeFarmAPR B S stake))
      (toNumber (bn_times B (bn_number B fee) (bn_div B (Fin 1)
        (case computeTokenPriceDerivedEGLD B cfg V (tokIdentifier (tokenMetadata V (stFarmingTokenID S stake))) [] of
           Some (p, _) \<Rightarrow> p | None \<Rightarrow> NotANum)))) horizon"
    "m = computeOptimalCompoundFrequency js_pow fee B cfg V S stake amt horizon"
  shows "0 \<le> ocInterval m \<and> ocInterval m < 8760 \<and>
    ocOptimalProfit m = (if ocInterval m = 0 then jint 0 else profit (ocInterval m)) \<and>
    (\<forall>i\<in>{1..ocInterval m}. js_greater (profit i) (if i = 1 then jint 0 else profit (i - 1))) \<and>
    (ocInterval m < 8759 \<longrightarrow> \<not> js_greater (profit (ocInterval m + 1)) (ocOptimalProfit m))"
proof -
  obtain p k where loop: "compoundLoop profit [1..8759] (jint 0, 1 - 1) = (p, k)" by fastforce
  have m: "ocInterval m = k" "ocOptimalProfit m = (if k = 0 then jint 0 else p)"
    using assms loop by (auto simp: computeOptimalCompoundFrequency_def Let_def)
  from compoundLoop_improves [OF loop] show ?thesis by (auto simp: m)
qed

theorem compound_search_stops_at_peak_witness:
  "ocInterval (computeOptimalCompoundFrequency (\<lambda>x n. x) 0 bn_js demo_cfg demo_view demo_stake ''stake'' (bn_of_int 100) 365)
     < 8760"
  using compound_search_stops_at_peak [OF refl refl] by blast

end
