(* ===== verification/StakingTransactions.thy ===== *)
theory StakingTransactions
  imports ContractCalls StakingCompute
begin

text \<open>
  The transactions of the staking contracts
  (\<open>src/modules/staking/services/staking.transactions.service.ts\<close>). The names carry the prefix
  \<open>stake_\<close> where the farms have an operation of the same name.
\<close>

section \<open>Positions\<close>

definition stakeFarm ::
  "dex_config \<Rightarrow> stake_view \<Rightarrow> string \<Rightarrow> string \<Rightarrow> input_token list \<Rightarrow> transaction res" where
  "stakeFarm cfg S sender stake pays =
     res_bind (validateInputTokens (stFarmTokenID S stake) (stFarmingTokenID S stake) pays) (\<lambda>_.
       Inr (sender_call cfg sender stake ''stakeFarm'' [] (map pay_input pays)
         (if 1 < length pays then gas cfg ''stake.stakeFarm.withTokenMerge''
          else gas cfg ''stake.stakeFarm.default'')))"

text \<open>The calls paid with one token whose gas key is the name of the endpoint.\<close>

definition stake_position_call ::
  "dex_config \<Rightarrow> string \<Rightarrow> string \<Rightarrow> string \<Rightarrow> typed_value list \<Rightarrow> input_token \<Rightarrow> transaction" where
  "stake_position_call cfg sender stake f args pay =
     sender_call cfg sender stake f args [pay_input pay] (gas cfg (''stake.'' @ f))"

definition unstakeFarm :: "dex_config \<Rightarrow> string \<Rightarrow> string \<Rightarrow> input_token \<Rightarrow> transaction" where
  "unstakeFarm cfg sender stake pay = stake_position_call cfg sender stake ''unstakeFarm'' [] pay"

definition unbondFarm :: "dex_config \<Rightarrow> string \<Rightarrow> string \<Rightarrow> input_token \<Rightarrow> transaction" where
  "unbondFarm cfg sender stake pay = stake_position_call cfg sender stake ''unbondFarm'' [] pay"

definition stake_claimRewards :: "dex_config \<Rightarrow> string \<Rightarrow> string \<Rightarrow> input_token \<Rightarrow> transaction" where
  "stake_claimRewards cfg sender stake pay = stake_position_call cfg sender stake ''claimRewards'' [] pay"

definition claimRewardsWithNewValue ::
  "dex_config \<Rightarrow> string \<Rightarrow> string \<Rightarrow> input_token \<Rightarrow> bn \<Rightarrow> transaction" where
  "claimRewardsWithNewValue cfg sender stake pay newValue =
     stake_position_call cfg sender stake ''claimRewardsWithNewValue'' [BigUInt newValue] pay"

definition stake_compoundRewards :: "dex_config \<Rightarrow> string \<Rightarrow> string \<Rightarrow> input_token \<Rightarrow> transaction" where
  "stake_compoundRewards cfg sender stake pay = stake_position_call cfg sender stake ''compoundRewards'' [] pay"

text \<open>The top-up is a fungible transfer: the nonce of the payment is not looked at.\<close>

definition topUpRewards :: "dex_config \<Rightarrow> string \<Rightarrow> input_token \<Rightarrow> transaction" where
  "topUpRewards cfg stake pay =
     paid_call cfg stake ''topUpRewards'' [] [fungible (tokenID pay) (amount pay)]
       (gas cfg ''stake.admin.topUpRewards'')"

definition stake_mergeFarmTokens ::
  "dex_config \<Rightarrow> string \<Rightarrow> string \<Rightarrow> input_token list \<Rightarrow> transaction" where
  "stake_mergeFarmTokens cfg sender stake pays =
     sender_call cfg sender stake ''mergeFarmTokens'' [] (map pay_input pays) (gas cfg ''stake.mergeTokens'')"

section \<open>Administration\<close>

definition stake_setPenaltyPercent :: "bignumber \<Rightarrow> dex_config \<Rightarrow> string \<Rightarrow> rat \<Rightarrow> transaction" where
  "stake_setPenaltyPercent B cfg stake percent =
     contract_call cfg stake ''set_penalty_percent'' [BigUInt (bn_number B percent)]
       (gas cfg ''stake.admin.set_penalty_percent'')"

definition stake_setMinimumFarmingEpochs :: "bignumber \<Rightarrow> dex_config \<Rightarrow> string \<Rightarrow> rat \<Rightarrow> transaction" where
  "stake_setMinimumFarmingEpochs B cfg stake epochs =
     contract_call cfg stake ''set_minimum_farming_epochs'' [BigUInt (bn_number B epochs)]
       (gas cfg ''stake.admin.set_minimum_farming_epochs'')"

definition stake_setBurnGasLimit :: "bignumber \<Rightarrow> dex_config \<Rightarrow> string \<Rightarrow> rat \<Rightarrow> transaction" where
  "stake_setBurnGasLimit B cfg stake gasL =
     contract_call cfg stake ''set_burn_gas_limit'' [BigUInt (bn_number B gasL)]
       (gas cfg ''stake.admin.set_burn_gas_limit'')"

definition stake_setTransferExecGasLimit :: "bignumber \<Rightarrow> dex_config \<Rightarrow> string \<Rightarrow> rat \<Rightarrow> transaction" where
  "stake_setTransferExecGasLimit B cfg stake gasL =
     contract_call cfg stake ''set_transfer_exec_gas_limit'' [BigUInt (bn_number B gasL)]
       (gas cfg ''stake.admin.set_transfer_exec_gas_limit'')"

definition setAddressWhitelist :: "dex_config \<Rightarrow> string \<Rightarrow> string \<Rightarrow> bool \<Rightarrow> transaction" where
  "setAddressWhitelist cfg stake addr wl =
     (if wl then contract_call cfg stake ''addAddressToWhitelist'' [AddressV addr] (gas cfg ''stake.admin.whitelist'')
      else contract_call cfg stake ''removeAddressFromWhitelist'' [AddressV addr] (gas cfg ''stake.admin.whitelist''))"

definition stake_setState :: "dex_config \<Rightarrow> string \<Rightarrow> bool \<Rightarrow> transaction" where
  "stake_setState cfg stake active =
     (if active then contract_call cfg stake ''resume'' [] (gas cfg ''stake.admin.setState'')
      else contract_call cfg stake ''pause'' [] (gas cfg ''stake.admin.setState''))"

definition stake_setLocalRolesFarmToken :: "dex_config \<Rightarrow> string \<Rightarrow> transaction" where
  "stake_setLocalRolesFarmToken cfg stake =
     contract_call cfg stake ''setLocalRolesFarmToken'' [] (gas cfg ''stake.admin.setLocalRolesFarmToken'')"

definition stake_registerFarmToken ::
  "bignumber \<Rightarrow> dex_config \<Rightarrow> string \<Rightarrow> string \<Rightarrow> string \<Rightarrow> rat \<Rightarrow> transaction" where
  "stake_registerFarmToken B cfg stake tokenName tokenTicker decs =
     contract_call cfg stake ''registerFarmToken''
       [BytesUTF8 tokenName, BytesUTF8 tokenTicker, U64V (bn_number B decs)]
       (gas cfg ''stake.admin.registerFarmToken'')"

definition stake_setPerBlockRewardAmount :: "dex_config \<Rightarrow> string \<Rightarrow> bn \<Rightarrow> transaction" where
  "stake_setPerBlockRewardAmount cfg stake perBlockAmount =
     contract_call cfg stake ''setPerBlockRewardAmount'' [BigUInt perBlockAmount]
       (gas cfg ''stake.admin.setPerBlockRewardAmount'')"

definition setMaxApr :: "bignumber \<Rightarrow> dex_config \<Rightarrow> string \<Rightarrow> rat \<Rightarrow> transaction" where
  "setMaxApr B cfg stake maxApr =
     contract_call cfg stake ''setMaxApr'' [BigUInt (bn_number B maxApr)] (gas cfg ''stake.admin.setMaxApr'')"

definition setMinUnbondEpochs :: "bignumber \<Rightarrow> dex_config \<Rightarrow> string \<Rightarrow> rat \<Rightarrow> transaction" where
  "setMinUnbondEpochs B cfg stake minUnboundEpoch =
     contract_call cfg stake ''setMinUnbondEpochs'' [U64V (bn_number B minUnboundEpoch)]
       (gas cfg ''stake.admin.setMinUnbondEpochs'')"

definition setRewardsState :: "dex_config \<Rightarrow> string \<Rightarrow> bool \<Rightarrow> transaction" where
  "setRewardsState cfg stake rewards =
     (if rewards then contract_call cfg stake ''startProduceRewards'' [] (gas cfg ''stake.admin.setRewardsState'')
      else contract_call cfg stake ''end_produce_rewards'' [] (gas cfg ''stake.admin.setRewardsState''))"

end
