(* ===== verification/AdminResolvers.thy ===== *)
theory AdminResolvers
  imports RouterTransactions FarmTransactions StakingTransactions
begin

text \<open>
  The GraphQL resolvers that hand out transactions of farms, staking contracts, pairs and the
  router (\<open>src/modules/farm/farm.transaction.resolver.ts\<close>, \<open>src/modules/staking/staking.resolver.ts\<close>,
  \<open>src/modules/pair/pair.resolver.ts\<close>, \<open>src/modules/router/router.resolver.ts\<close>), for a user the
  authentication guards have let through: they check the owner of the contract and call the
  transaction service. One constructor per administrative query of a resolver.
\<close>

section \<open>Farms\<close>

datatype farm_admin_op =
    EndProduceRewards
  | StartProduceRewards
  | SetPerBlockRewardAmount bn
  | SetPenaltyPercent rat
  | SetMinimumFarmingEpochs rat
  | SetTransferExecGasLimit rat
  | SetBurnGasLimit rat
  | PauseFarm
  | ResumeFarm
  | RegisterFarmToken string string rat
  | SetLocalRolesFarmToken

definition unknown_farm :: "string \<Rightarrow> js_error" where
  "unknown_farm farm = JsError (farm @ '' is not a known farm address'')"

definition useService :: "farms_config \<Rightarrow> string \<Rightarrow> farm_version res" where
  "useService table farm =
     (case farmVersion table farm of
        Some V1_2 \<Rightarrow> Inr V1_2 | Some V1_3 \<Rightarrow> Inr V1_3 | Some V2 \<Rightarrow> Inr V2
      | _ \<Rightarrow> Inl (unknown_farm farm))"

text \<open>The transaction service of a farm; calling a method of \<open>undefined\<close> throws.\<close>

definition useTransaction :: "farms_config \<Rightarrow> string \<Rightarrow> farm_version res" where
  "useTransaction table farm =
     (case farmVersion table farm of
        Some V1_2 \<Rightarrow> Inr V1_2 | Some V1_3 \<Rightarrow> Inr V1_3 | Some V2 \<Rightarrow> Inr V2
      | _ \<Rightarrow> Inl TypeError)"

definition farm_requireOwner :: "farm_view \<Rightarrow> string \<Rightarrow> string \<Rightarrow> unit res" where
  "farm_requireOwner F farm sender =
     (if farmOwnerAddress F farm \<noteq> sender then Inl (JsError ''You are not the owner.'') else Inr ())"

fun farm_admin_transaction ::
  "bignumber \<Rightarrow> dex_config \<Rightarrow> farms_config \<Rightarrow> string \<Rightarrow> farm_admin_op \<Rightarrow> transaction res" where
  "farm_admin_transaction B cfg table farm EndProduceRewards = endProduceRewards cfg table farm"
| "farm_admin_transaction B cfg table farm StartProduceRewards = startProduceRewards cfg table farm"
| "farm_admin_transaction B cfg table farm (SetPerBlockRewardAmount amt) = setPerBlockRewardAmount cfg table farm amt"
| "farm_admin_transaction B cfg table farm (SetPenaltyPercent percent) = setPenaltyPercent B cfg table farm percent"
| "farm_admin_transaction B cfg table farm (SetMinimumFarmingEpochs epochs) =
     setMinimumFarmingEpochs B cfg table farm epochs"
| "farm_admin_transaction B cfg table farm (SetTransferExecGasLimit g) = setTransferExecGasLimit B cfg table farm g"
| "farm_admin_transaction B cfg table farm (SetBurnGasLimit g) = setBurnGasLimit B cfg table farm g"
| "farm_admin_transaction B cfg table farm PauseFarm = pauseFarm cfg table farm"
| "farm_admin_transaction B cfg table farm ResumeFarm = resumeFarm cfg table farm"
| "farm_admin_transaction B cfg table farm (RegisterFarmToken nm ticker decs) =
     registerFarmToken B cfg table farm nm ticker decs"
| "farm_admin_transaction B cfg table farm SetLocalRolesFarmToken = setLocalRolesFarmToken cfg table farm"

definition farm_admin_resolver ::
  "bignumber \<Rightarrow> dex_config \<Rightarrow> farms_config \<Rightarrow> farm_view \<Rightarrow> string \<Rightarrow> string \<Rightarrow> farm_admin_op \<Rightarrow> transaction res" where
  "farm_admin_resolver B cfg table F user farm op =
     res_bind (useService table farm) (\<lambda>_.
     res_bind (farm_requireOwner F farm user) (\<lambda>_.
     res_bind (useTransaction table farm) (\<lambda>_. farm_admin_transaction B cfg table farm op)))"



text \<open>The queries of any user, by the version of the farm.\<close>

definition migrateToNewFarm_resolver ::
  "dex_config \<Rightarrow> farms_config \<Rightarrow> string \<Rightarrow> exit_farm_args \<Rightarrow> transaction res" where
  "migrateToNewFarm_resolver cfg table user args =
     (if farmVersion table (sfFarmAddress args) \<noteq> Some V1_2 then Inl (JsError ''invalid farm version'')
      else Inr (migrateToNewFarm cfg user args))"

definition mergeFarmTokens_resolver ::
  "dex_config \<Rightarrow> farms_config \<Rightarrow> string \<Rightarrow> string \<Rightarrow> input_token list \<Rightarrow> transaction res" where
  "mergeFarmTokens_resolver cfg table user farm pays =
     res_bind (useTransaction table farm) (\<lambda>_. Inr (mergeFarmTokens cfg user farm pays))"

definition enterFarm_resolver ::
  "dex_config \<Rightarrow> farms_config \<Rightarrow> farm_view \<Rightarrow> string \<Rightarrow> enter_farm_args \<Rightarrow> transaction res" where
  "enterFarm_resolver cfg table F user args =
     res_bind (useTransaction table (efFarmAddress args)) (\<lambda>version.
       case version of V1_2 \<Rightarrow> enterFarm_v12 cfg F user args
       | V1_3 \<Rightarrow> enterFarm_v13 cfg F user args | _ \<Rightarrow> enterFarm_v2 cfg F user args)"

definition exitFarm_resolver ::
  "dex_config \<Rightarrow> farms_config \<Rightarrow> chain_view \<Rightarrow> farm_view \<Rightarrow> string \<Rightarrow> exit_farm_args \<Rightarrow> transaction res" where
  "exitFarm_resolver cfg table V F user args =
     res_bind (useTransaction table (sfFarmAddress args)) (\<lambda>version.
       case version of V1_2 \<Rightarrow> exitFarm_v12 cfg table V F user args
       | V1_3 \<Rightarrow> exitFarm_v13 cfg table V F user args | _ \<Rightarrow> exitFarm_v2 cfg table V F user args)"

definition claimRewards_resolver ::
  "dex_config \<Rightarrow> farms_config \<Rightarrow> string \<Rightarrow> sft_farm_args \<Rightarrow> transaction res" where
  "claimRewards_resolver cfg table user args =
     res_bind (useTransaction table (sfFarmAddress args)) (\<lambda>version.
       case version of V1_2 \<Rightarrow> claimRewards_v12 cfg user args
       | V1_3 \<Rightarrow> claimRewards_v13 cfg table user args | _ \<Rightarrow> claimRewards_v2 cfg table user args)"

definition compoundRewards_resolver ::
  "dex_config \<Rightarrow> farms_config \<Rightarrow> farm_view \<Rightarrow> string \<Rightarrow> sft_farm_args \<Rightarrow> transaction res" where
  "compoundRewards_resolver cfg table F user args =
     res_bind (useTransaction table (sfFarmAddress args)) (\<lambda>version.
       case version of V1_2 \<Rightarrow> compoundRewards_v12 cfg F user args
       | V1_3 \<Rightarrow> compoundRewards_v13 cfg F user args | _ \<Rightarrow> compoundRewards_v2 user args)"

section \<open>Staking\<close>





section \<open>Pairs and the router\<close>




text \<open>The one administrative query of the pairs that takes no user and checks no owner.\<close>

definition setupFeesCollector_resolver :: "bignumber \<Rightarrow> dex_config \<Rightarrow> string \<Rightarrow> string \<Rightarrow> transaction res" where
  "setupFeesCollector_resolver B cfg user pair = Inr (setupFeesCollector B cfg pair)"





section \<open>The interface of a guarded resolver\<close>


lemmas farm_admin_defs = endProduceRewards_def startProduceRewards_def setPerBlockRewardAmount_def
  setPenaltyPercent_def setMinimumFarmingEpochs_def setTransferExecGasLimit_def setBurnGasLimit_def
  pauseFarm_def resumeFarm_def registerFarmToken_def setLocalRolesFarmToken_def













section \<open>Every administrative request\<close>











section \<open>Properties\<close>


definition demo_farms :: farms_config where
  "demo_farms = [(''v1.2'', Addresses [''oldfarm'']),
     (''v2'', ByType [(''unlockedRewards'', [''openfarm'']), (''lockedRewards'', [''farm''])])]"


lemma demo_pause:
  "farmVersion demo_farms ''farm'' = Some V2" "farmType demo_farms ''farm'' = Some LOCKED_REWARDS"
  "farmOwnerAddress demo_farm farm = ''owner''"
  by (simp_all add: demo_farms_def toVersionEnum_def toRewardTypeEnum_def demo_farm_def)


text \<open>The query that checks no owner serves every user that is an administrator of the service.\<close>

lemma setupFeesCollector_unguarded:
  "\<exists>user tx. user \<noteq> routerOwner demo_view \<and> setupFeesCollector_resolver bn_js demo_cfg user ''pair'' = Inr tx \<and>
     receiver tx = ''pair'' \<and> endpoint tx = ''setupFeesCollector''"
  by (rule exI [of _ "''x'' @ routerOwner demo_view"])
    (simp add: setupFeesCollector_resolver_def setupFeesCollector_def)

text \<open>
  The owner of a version 2 farm cannot stop or start its rewards nor set its token roles through
  the service: the contract's interface has no such endpoint, so building the call throws.
\<close>

lemma v2_owner_cannot_stop_rewards:
  assumes "farmVersion table farm = Some V2"
    "op \<in> {EndProduceRewards, StartProduceRewards, SetTransferExecGasLimit g, SetLocalRolesFarmToken}"
  shows "farm_admin_resolver B cfg table F (farmOwnerAddress F farm) farm op = Inl TypeError"
  using assms by (auto simp: farm_admin_resolver_def useService_def useTransaction_def farm_requireOwner_def
      farm_admin_defs farm_admin_def)

lemma enterFarmCall_Inr:
  "enterFarmCall cfg F version f user args = Inr tx \<longleftrightarrow>
   validateInputTokens (farmTokenID F (efFarmAddress args)) (farmingTokenID F (efFarmAddress args))
     (efTokens args) = Inr () \<and>
   tx = sender_call cfg user (efFarmAddress args) f [] (map pay_input (efTokens args))
     (gas cfg (''farms.'' @ version @ (if 1 < length (efTokens args) then ''.enterFarm.withTokenMerge''
        else ''.enterFarm.default'')))"
  by (cases "validateInputTokens (farmTokenID F (efFarmAddress args)) (farmingTokenID F (efFarmAddress args))
      (efTokens args)") (auto simp: enterFarmCall_def)

definition enterEndpoint :: "farm_version \<Rightarrow> bool \<Rightarrow> string" where
  "enterEndpoint v lock = (if v = V1_2 \<and> lock then ''enterFarmAndLockRewards'' else ''enterFarm'')"

lemma enterFarm_resolver_eq:
  "enterFarm_resolver cfg table F user args =
   (case farmVersion table (efFarmAddress args) of
      Some v \<Rightarrow> if v = CUSTOM then Inl TypeError
        else enterFarmCall cfg F (versionKey v) (enterEndpoint v (efLockRewards args)) user args
    | None \<Rightarrow> Inl TypeError)"
  by (simp add: enterFarm_resolver_def useTransaction_def enterFarm_v12_def enterFarm_v13_def enterFarm_v2_def
      enterEndpoint_def split: option.split farm_version.split)

text \<open>
  Entering a farm, whatever its version, is served exactly when the address belongs to a farm of a
  known version that is not custom and the tokens are the farming token followed by farm tokens; the
  transaction then pays all the tokens in the order given, from the user, to the farm.
\<close>

theorem enterFarm_served:
  "enterFarm_resolver cfg table F user args = Inr tx \<longleftrightarrow>
   (\<exists>v t ts. farmVersion table (efFarmAddress args) = Some v \<and> v \<noteq> CUSTOM \<and>
      efTokens args = t # ts \<and> tokenID t = farmingTokenID F (efFarmAddress args) \<and> nonce t \<le> 0 \<and>
      {u \<in> set ts. tokenID u \<noteq> farmTokenID F (efFarmAddress args) \<or> nonce u = 0} = {} \<and>
      tx = sender_call cfg user (efFarmAddress args) (enterEndpoint v (efLockRewards args)) []
        (map pay_input (t # ts))
        (gas cfg (''farms.'' @ versionKey v @ ''.enterFarm.'' @ (if ts = [] then ''default'' else ''withTokenMerge''))))"
proof -
  have call: "enterFarmCall cfg F version f user args = Inr tx \<longleftrightarrow>
      (\<exists>t ts. efTokens args = t # ts \<and> tokenID t = farmingTokenID F (efFarmAddress args) \<and> nonce t \<le> 0 \<and>
        {u \<in> set ts. tokenID u \<noteq> farmTokenID F (efFarmAddress args) \<or> nonce u = 0} = {} \<and>
        tx = sender_call cfg user (efFarmAddress args) f [] (map pay_input (t # ts))
          (gas cfg (''farms.'' @ version @ ''.enterFarm.'' @ (if ts = [] then ''default'' else ''withTokenMerge''))))"
    for version f
  proof (cases "efTokens args")
    case Nil
    then show ?thesis by (simp add: enterFarmCall_Inr validateInputTokens_def)
  next
    case (Cons t ts)
    have "(1 < length (t # ts)) \<longleftrightarrow> ts \<noteq> []" by simp
    then show ?thesis unfolding enterFarmCall_Inr validateInputTokens_Inr Cons by (cases "ts = []") auto
  qed
  show ?thesis
    unfolding enterFarm_resolver_eq
    by (cases "farmVersion table (efFarmAddress args)") (simp_all add: call del: versionKey.simps)
qed

theorem enterFarm_served_witness:
  "enterFarm_resolver demo_cfg demo_farms demo_farm ''alice''
     \<lparr>efFarmAddress = ''farm'', efTokens = [demo_input ''EGLDMEX'' 7], efLockRewards = False\<rparr> =
   Inr (sender_call demo_cfg ''alice'' ''farm'' ''enterFarm'' [] [pay_input (demo_input ''EGLDMEX'' 7)]
     (gas demo_cfg ''farms.v2.enterFarm.default''))"
  unfolding enterFarm_served by (simp add: demo_pause demo_farm_def demo_input_def enterEndpoint_def)

text \<open>
  The check of the exit amount of a version 2 farm only refuses a missing amount: with \<open>&&\<close> for
  \<open>||\<close>, an amount that is given passes whatever its sign.
\<close>

lemma negative_exit_amount_accepted:
  "\<exists>tx. exitFarm_resolver demo_cfg demo_farms demo_view demo_farm ''alice''
      \<lparr>sfFarmAddress = ''farm'', sfFarmTokenID = ''EGLDMEXF'', sfFarmTokenNonce = 1, sfAmount = bn_of_int 5,
       sfLockRewards = False, exWithPenalty = False, exExitAmount = Some (bn_of_int (-5))\<rparr> = Inr tx \<and>
    endpointArgs tx = [BigUInt (bn_of_int (-5))]"
  by (simp add: exitFarm_resolver_def useTransaction_def demo_pause exitFarm_v2_def getExitFarmGasLimit_def
      farmTypeGas_def farmTokenCall_def)

end
