(* ===== verification/Listing.thy ===== *)
theory Listing
  imports PairTransactions "HOL-Library.Sublist"
begin

text \<open>
  The filtered, sorted and paginated listings of pairs, staking farms and tokens:
  \<open>src/modules/common/filters/connection.args.ts\<close>, \<open>src/modules/pair/services/pair.filtering.service.ts\<close>
  with its builder \<open>pair.metadata.builder.ts\<close>, the listings of \<open>src/modules/router/services/router.service.ts\<close>,
  \<open>src/modules/staking/services/staking.service.ts\<close> with \<open>staking.filtering.service.ts\<close>, and
  \<open>src/modules/tokens/services/token.service.ts\<close> with \<open>token.filtering.service.ts\<close>.

  The code only tests optional strings and numbers for truth, so a missing string is \<open>''''\<close> and a
  missing number \<open>0\<close> here; a missing flag is \<open>None\<close>. The filters of a query may be missing
  altogether, which the services do not expect. Names and identifiers are ASCII.
\<close>

section \<open>Arrays and strings\<close>

text \<open>\<open>Array.prototype.slice\<close>: negative positions count from the end.\<close>

definition js_slice :: "int \<Rightarrow> int \<Rightarrow> 'a list \<Rightarrow> 'a list" where
  "js_slice start fin xs =
     (let n = int (length xs);
          rel = (\<lambda>k. nat (if k < 0 then max (n + k) 0 else min k n))
      in take (rel fin - rel start) (drop (rel start) xs))"

text \<open>
  \<open>Array.prototype.sort\<close> with a comparator: it is stable, and a comparison that is \<open>null\<close> counts
  as equal. For a comparator that is not consistent the standard leaves the order open.
\<close>

fun js_insert :: "('a \<Rightarrow> 'a \<Rightarrow> int) \<Rightarrow> 'a \<Rightarrow> 'a list \<Rightarrow> 'a list" where
  "js_insert cmp x [] = [x]"
| "js_insert cmp x (y # ys) = (if cmp x y \<le> 0 then x # y # ys else y # js_insert cmp x ys)"

definition js_sort :: "('a \<Rightarrow> 'a \<Rightarrow> int) \<Rightarrow> 'a list \<Rightarrow> 'a list" where
  "js_sort cmp xs = foldr (js_insert cmp) xs []"

definition comparedTo :: "bignumber \<Rightarrow> bn \<Rightarrow> bn \<Rightarrow> int" where
  "comparedTo B a b = (if bn_less B a b then -1 else if bn_greater B a b then 1 else 0)"

definition bn_gte :: "bignumber \<Rightarrow> bn \<Rightarrow> bn \<Rightarrow> bool" where
  "bn_gte B a b \<longleftrightarrow> bn_greater B a b \<or> bn_equal B a b"

definition upper_char :: "char \<Rightarrow> char" where
  "upper_char c = (let n = of_char c :: nat in if 97 \<le> n \<and> n \<le> 122 then char_of (n - 32) else c)"

definition toUpperCase :: "string \<Rightarrow> string" where
  "toUpperCase s = map upper_char s"

definition is_space :: "char \<Rightarrow> bool" where
  "is_space c \<longleftrightarrow> of_char c \<in> {9, 10, 11, 12, 13, 32 :: nat}"

definition trim :: "string \<Rightarrow> string" where
  "trim s = rev (dropWhile is_space (rev (dropWhile is_space s)))"

fun str_includes :: "string \<Rightarrow> string \<Rightarrow> bool" where
  "str_includes [] t \<longleftrightarrow> t = []"
| "str_includes (c # s) t \<longleftrightarrow> prefix t (c # s) \<or> str_includes s t"

section \<open>Pagination\<close>

record connection_args =
  cnBefore :: string
  cnAfter :: string
  cnFirst :: int
  cnLast :: int

record pagination_args =
  pgOffset :: int
  pgLimit :: int

datatype paging_meta =
    Forward string int
  | Backward string int
  | NoPaging

definition checkPagingSanity :: "connection_args option \<Rightarrow> paging_meta res" where
  "checkPagingSanity args =
     (case args of
        None \<Rightarrow> Inr NoPaging
      | Some a \<Rightarrow>
          let isForwardPaging = (cnFirst a \<noteq> 0 \<or> cnAfter a \<noteq> []);
              isBackwardPaging = (cnLast a \<noteq> 0 \<or> cnBefore a \<noteq> [])
          in if isForwardPaging \<and> isBackwardPaging
             then Inl (JsError ''Relay pagination cannot be both forward and backward!'')
             else if (isForwardPaging \<and> cnBefore a \<noteq> []) \<or> (isBackwardPaging \<and> cnAfter a \<noteq> [])
             then Inl (JsError ''Paging must use either first/after or last/before!'')
             else if (isForwardPaging \<and> cnFirst a < 0) \<or> (isBackwardPaging \<and> cnLast a < 0)
             then Inl (JsError ''Paging limit must be positive!'')
             else if cnLast a \<noteq> 0 \<and> cnBefore a = []
             then Inl (JsError ''When paging backwards, a 'before' argument is required!'')
             else if isForwardPaging then Inr (Forward (cnAfter a) (cnFirst a))
             else if isBackwardPaging then Inr (Backward (cnBefore a) (cnLast a))
             else Inr NoPaging)"

text \<open>\<open>getId\<close> reads the position out of a cursor, whose encoding is that of \<open>graphql-relay\<close>.\<close>

definition getPagingParameters :: "(string \<Rightarrow> int) \<Rightarrow> connection_args option \<Rightarrow> pagination_args res" where
  "getPagingParameters getId args =
     res_bind (checkPagingSanity args) (\<lambda>meta.
       case meta of
         Forward after first \<Rightarrow>
           Inr \<lparr>pgOffset = (if after \<noteq> [] then getId after + 1 else 0), pgLimit = first\<rparr>
       | Backward before last' \<Rightarrow>
           let offset = getId before - last' in
           if offset < 0 then Inr \<lparr>pgOffset = 0, pgLimit = max (last' + offset) 0\<rparr>
           else Inr \<lparr>pgOffset = offset, pgLimit = last'\<rparr>
       | NoPaging \<Rightarrow> Inr \<lparr>pgOffset = 0, pgLimit = 10\<rparr>)"

record 'a collection =
  count :: int
  items :: "'a list"

definition paged :: "int \<Rightarrow> int \<Rightarrow> 'a list \<Rightarrow> 'a collection" where
  "paged offset limit xs = \<lparr>count = int (length xs), items = js_slice offset (offset + limit) xs\<rparr>"

section \<open>What the listings read\<close>

text \<open>
  One field per getter of the compute services, by address or token; \<open>lsStakingData\<close> and
  \<open>lsTokenData\<close> take the name of the getter of the staking and the token compute service.
\<close>

record listing_view =
  lsName :: "string \<Rightarrow> string"
  lsTicker :: "string \<Rightarrow> string"
  lsFeeState :: "string \<Rightarrow> bool"
  lsVolumeUSD24h :: "string \<Rightarrow> bn"
  lsFeesUSD24h :: "string \<Rightarrow> bn"
  lsLockedValueUSD :: "string \<Rightarrow> bn"
  lsTradesCount :: "string \<Rightarrow> int"
  lsHasFarms :: "string \<Rightarrow> bool"
  lsHasDualFarms :: "string \<Rightarrow> bool"
  lsDeployedAt :: "string \<Rightarrow> int option"
  lsStakingAddresses :: "string list"
  lsFarmingToken :: "string \<Rightarrow> esdt_token"
  lsStakingData :: "string \<Rightarrow> string \<Rightarrow> bn"
  lsEsdtTokenType :: "string \<Rightarrow> string"
  lsTokenLiquidityUSD :: "string \<Rightarrow> bn"
  lsTokenData :: "string \<Rightarrow> string \<Rightarrow> bn"

definition matches_term :: "listing_view \<Rightarrow> string \<Rightarrow> esdt_token \<Rightarrow> bool" where
  "matches_term L searchTerm token \<longleftrightarrow>
     str_includes (toUpperCase (lsName L (tokIdentifier token))) searchTerm \<or>
     str_includes (toUpperCase (tokIdentifier token)) searchTerm \<or>
     str_includes (toUpperCase (lsTicker L (tokIdentifier token))) searchTerm"

text \<open>A search term is used when it is present and at least three characters long.\<close>

definition searches :: "string \<Rightarrow> bool" where
  "searches searchToken \<longleftrightarrow> searchToken \<noteq> [] \<and> \<not> length (trim searchToken) < 3"

definition search_term :: "string \<Rightarrow> string" where
  "search_term searchToken = trim (toUpperCase searchToken)"

section \<open>Filters of pairs\<close>

record pairs_filter =
  fAddress :: string
  fFirstTokenID :: string
  fSecondTokenID :: string
  fIssuedLpToken :: bool
  fState :: string
  fMinVolume :: rat
  fFeeState :: "bool option"
  fMinLockedValueUSD :: rat
  fMinTradesCount :: rat
  fHasFarms :: "bool option"
  fHasDualFarms :: "bool option"
  fMinDeployedAt :: rat
  fSearchToken :: string

definition pairsByIssuedLpToken :: "chain_view \<Rightarrow> pairs_filter \<Rightarrow> pair_metadata list \<Rightarrow> pair_metadata list" where
  "pairsByIssuedLpToken V f ps =
     (if \<not> fIssuedLpToken f then ps
      else filter (\<lambda>p. lpTokenID V (mdAddress p) \<notin> {None, Some ''undefined'', Some []}) ps)"

definition pairsByAddress :: "pairs_filter \<Rightarrow> pair_metadata list \<Rightarrow> pair_metadata list" where
  "pairsByAddress f ps = (if fAddress f \<noteq> [] then filter (\<lambda>p. fAddress f = mdAddress p) ps else ps)"

definition pairsByTokens :: "pairs_filter \<Rightarrow> pair_metadata list \<Rightarrow> pair_metadata list" where
  "pairsByTokens f ps =
     (let a = fFirstTokenID f; b = fSecondTokenID f in
      if a \<noteq> [] then
        if b \<noteq> [] then
          filter (\<lambda>p. (a = mdFirstTokenID p \<and> b = mdSecondTokenID p) \<or>
                      (a = mdSecondTokenID p \<and> b = mdFirstTokenID p)) ps
        else filter (\<lambda>p. a = mdFirstTokenID p) ps
      else if b \<noteq> [] then filter (\<lambda>p. b = mdSecondTokenID p) ps
      else ps)"

definition pairsByWildcardToken ::
  "chain_view \<Rightarrow> listing_view \<Rightarrow> pairs_filter \<Rightarrow> pair_metadata list \<Rightarrow> pair_metadata list" where
  "pairsByWildcardToken V L f ps =
     (if \<not> searches (fSearchToken f) then ps
      else filter (\<lambda>p. matches_term L (search_term (fSearchToken f)) (getFirstToken V (mdAddress p)) \<or>
                       matches_term L (search_term (fSearchToken f)) (getSecondToken V (mdAddress p))) ps)"

definition pairsByState :: "chain_view \<Rightarrow> pairs_filter \<Rightarrow> pair_metadata list \<Rightarrow> pair_metadata list" where
  "pairsByState V f ps =
     (if fState f = [] then ps else filter (\<lambda>p. pairState V (mdAddress p) = fState f) ps)"

definition pairsByFeeState :: "listing_view \<Rightarrow> pairs_filter \<Rightarrow> pair_metadata list \<Rightarrow> pair_metadata list" where
  "pairsByFeeState L f ps =
     (case fFeeState f of None \<Rightarrow> ps | Some s \<Rightarrow> filter (\<lambda>p. lsFeeState L (mdAddress p) = s) ps)"

definition pairsByVolume ::
  "bignumber \<Rightarrow> listing_view \<Rightarrow> pairs_filter \<Rightarrow> pair_metadata list \<Rightarrow> pair_metadata list" where
  "pairsByVolume B L f ps =
     (if fMinVolume f = 0 then ps
      else filter (\<lambda>p. bn_gte B (lsVolumeUSD24h L (mdAddress p)) (bn_number B (fMinVolume f))) ps)"

definition pairsByLockedValueUSD ::
  "bignumber \<Rightarrow> listing_view \<Rightarrow> pairs_filter \<Rightarrow> pair_metadata list \<Rightarrow> pair_metadata list" where
  "pairsByLockedValueUSD B L f ps =
     (if fMinLockedValueUSD f = 0 then ps
      else filter (\<lambda>p. bn_gte B (lsLockedValueUSD L (mdAddress p)) (bn_number B (fMinLockedValueUSD f))) ps)"

definition pairsByTradesCount :: "listing_view \<Rightarrow> pairs_filter \<Rightarrow> pair_metadata list \<Rightarrow> pair_metadata list" where
  "pairsByTradesCount L f ps =
     (if fMinTradesCount f = 0 then ps
      else filter (\<lambda>p. fMinTradesCount f \<le> of_int (lsTradesCount L (mdAddress p))) ps)"

definition pairsByHasFarms :: "listing_view \<Rightarrow> pairs_filter \<Rightarrow> pair_metadata list \<Rightarrow> pair_metadata list" where
  "pairsByHasFarms L f ps =
     (case fHasFarms f of None \<Rightarrow> ps | Some s \<Rightarrow> filter (\<lambda>p. lsHasFarms L (mdAddress p) = s) ps)"

definition pairsByHasDualFarms :: "listing_view \<Rightarrow> pairs_filter \<Rightarrow> pair_metadata list \<Rightarrow> pair_metadata list" where
  "pairsByHasDualFarms L f ps =
     (case fHasDualFarms f of None \<Rightarrow> ps | Some s \<Rightarrow> filter (\<lambda>p. lsHasDualFarms L (mdAddress p) = s) ps)"

text \<open>A comparison with an undefined deployment time is false.\<close>

definition pairsByDeployedAt :: "listing_view \<Rightarrow> pairs_filter \<Rightarrow> pair_metadata list \<Rightarrow> pair_metadata list" where
  "pairsByDeployedAt L f ps =
     (if fMinDeployedAt f = 0 then ps
      else filter (\<lambda>p. case lsDeployedAt L (mdAddress p) of
             Some d \<Rightarrow> fMinDeployedAt f \<le> of_int d | None \<Rightarrow> False) ps)"

text \<open>The builder applies its filters in the order of its methods.\<close>

definition filterByTokens ::
  "chain_view \<Rightarrow> listing_view \<Rightarrow> pairs_filter \<Rightarrow> pair_metadata list \<Rightarrow> pair_metadata list" where
  "filterByTokens V L f ps =
     pairsByTokens f (if fSearchToken f \<noteq> [] then pairsByWildcardToken V L f ps else ps)"

definition applyAllFilters ::
  "bignumber \<Rightarrow> chain_view \<Rightarrow> listing_view \<Rightarrow> pairs_filter \<Rightarrow> pair_metadata list \<Rightarrow> pair_metadata list" where
  "applyAllFilters B V L f ps =
     pairsByDeployedAt L f (pairsByHasDualFarms L f (pairsByHasFarms L f (pairsByTradesCount L f
       (pairsByLockedValueUSD B L f (pairsByVolume B L f (pairsByFeeState L f (pairsByState V f
         (filterByTokens V L f (pairsByAddress f (pairsByIssuedLpToken V f ps))))))))))"

section \<open>Sorting\<close>

datatype sorting_order = ASC | DESC

text \<open>The comparison all three listings sort with.\<close>

definition sort_compare :: "bignumber \<Rightarrow> sorting_order \<Rightarrow> ('a \<Rightarrow> bn) \<Rightarrow> 'a \<Rightarrow> 'a \<Rightarrow> int" where
  "sort_compare B order val a b =
     (if order = ASC then comparedTo B (val a) (val b) else comparedTo B (val b) (val a))"

definition pairSortData :: "listing_view \<Rightarrow> string \<Rightarrow> string \<Rightarrow> bn" where
  "pairSortData L field pair =
     (if field = ''deployed_at'' then (case lsDeployedAt L pair of Some d \<Rightarrow> bn_of_int d | None \<Rightarrow> NotANum)
      else if field = ''fees_24h'' then lsFeesUSD24h L pair
      else if field = ''trades_count'' then bn_of_int (lsTradesCount L pair)
      else if field = ''total_value_locked'' then lsLockedValueUSD L pair
      else if field = ''volume_24h'' then lsVolumeUSD24h L pair
      else NotANum)"

definition sortPairs ::
  "bignumber \<Rightarrow> listing_view \<Rightarrow> pair_metadata list \<Rightarrow> string \<Rightarrow> sorting_order \<Rightarrow> pair_metadata list" where
  "sortPairs B L ps field order = js_sort (sort_compare B order (\<lambda>p. pairSortData L field (mdAddress p))) ps"

section \<open>Listings\<close>

definition getFilteredPairs ::
  "bignumber \<Rightarrow> chain_view \<Rightarrow> listing_view \<Rightarrow> int \<Rightarrow> int \<Rightarrow> pairs_filter option \<Rightarrow> (string \<times> sorting_order) option
    \<Rightarrow> string collection res" where
  "getFilteredPairs B V L offset limit filters sorting =
     (case filters of
        None \<Rightarrow> Inl TypeError
      | Some f \<Rightarrow>
          let ps = applyAllFilters B V L f (pairsMetadata V);
              ps' = (case sorting of Some (field, order) \<Rightarrow> sortPairs B L ps field order | None \<Rightarrow> ps)
          in Inr (paged offset limit (map mdAddress ps')))"

text \<open>The older query: its own copies of seven of the filters, no sorting and no count.\<close>

definition getAllPairs ::
  "bignumber \<Rightarrow> chain_view \<Rightarrow> listing_view \<Rightarrow> int \<Rightarrow> int \<Rightarrow> pairs_filter \<Rightarrow> string list" where
  "getAllPairs B V L offset limit f =
     js_slice offset (offset + limit) (map mdAddress
       (pairsByLockedValueUSD B L f (pairsByVolume B L f (pairsByFeeState L f (pairsByState V f
         (pairsByTokens f (pairsByAddress f (pairsByIssuedLpToken V f (pairsMetadata V)))))))))"

definition filteredPairs ::
  "bignumber \<Rightarrow> chain_view \<Rightarrow> listing_view \<Rightarrow> (string \<Rightarrow> int) \<Rightarrow> pairs_filter option \<Rightarrow> connection_args option
    \<Rightarrow> (string \<times> sorting_order) option \<Rightarrow> string collection res" where
  "filteredPairs B V L getId filters pagination sorting =
     res_bind (getPagingParameters getId pagination) (\<lambda>p.
       getFilteredPairs B V L (pgOffset p) (pgLimit p) filters sorting)"

definition stakingFarmsByToken :: "listing_view \<Rightarrow> string option \<Rightarrow> string list \<Rightarrow> string list res" where
  "stakingFarmsByToken L searchToken addresses =
     (case searchToken of
        None \<Rightarrow> Inl TypeError
      | Some s \<Rightarrow>
          Inr (if \<not> searches s then addresses
               else filter (\<lambda>a. matches_term L (search_term s) (lsFarmingToken L a)) addresses))"

definition stakingSortGetter :: "string \<Rightarrow> string option" where
  "stakingSortGetter = map_of
     [(''price'', ''farmingTokenPriceUSD''), (''apr'', ''stakeFarmAPR''), (''tvl'', ''stakedValueUSD''),
      (''deployedAt'', ''deployedAt'')]"

text \<open>\<open>new BigNumber (undefined)\<close> is not a number.\<close>

definition sortValue :: "(string \<Rightarrow> string option) \<Rightarrow> (string \<Rightarrow> string \<Rightarrow> bn) \<Rightarrow> string \<Rightarrow> string \<Rightarrow> bn" where
  "sortValue getter data field x = (case getter field of Some g \<Rightarrow> data g x | None \<Rightarrow> NotANum)"

definition sortFarms ::
  "bignumber \<Rightarrow> listing_view \<Rightarrow> string list \<Rightarrow> string \<times> sorting_order \<Rightarrow> string list" where
  "sortFarms B L addresses sorting = js_sort (sort_compare B (snd sorting)
     (sortValue stakingSortGetter (lsStakingData L) (fst sorting))) addresses"

definition getFilteredFarmsStaking ::
  "bignumber \<Rightarrow> listing_view \<Rightarrow> pagination_args \<Rightarrow> string option \<Rightarrow> (string \<times> sorting_order) option
    \<Rightarrow> string collection res" where
  "getFilteredFarmsStaking B L pagination searchToken sorting =
     res_bind (stakingFarmsByToken L searchToken (lsStakingAddresses L)) (\<lambda>addresses.
       Inr (paged (pgOffset pagination) (pgLimit pagination)
         (case sorting of Some s \<Rightarrow> sortFarms B L addresses s | None \<Rightarrow> addresses)))"

record tokens_filter =
  tfIdentifiers :: "string list"
  tfType :: string
  tfEnabledSwaps :: bool
  tfSearchToken :: string
  tfMinLiquidity :: rat

text \<open>\<open>[...new Set (xs)]\<close> keeps the first occurrence of each element.\<close>

definition uniq :: "'a list \<Rightarrow> 'a list" where
  "uniq xs = rev (remdups (rev xs))"

definition getUniqueTokenIDs :: "chain_view \<Rightarrow> bool \<Rightarrow> string list" where
  "getUniqueTokenIDs V activePool =
     uniq (concat (map (\<lambda>p. if activePool \<and> pairState V (mdAddress p) \<noteq> ''Active'' then []
                           else [mdFirstTokenID p, mdSecondTokenID p]) (pairsMetadata V)))"

definition tokensByIdentifier :: "tokens_filter \<Rightarrow> string list \<Rightarrow> string list" where
  "tokensByIdentifier f ids =
     (if tfIdentifiers f = [] then ids else filter (\<lambda>t. t \<in> set (tfIdentifiers f)) ids)"

definition tokensByType :: "listing_view \<Rightarrow> tokens_filter \<Rightarrow> string list \<Rightarrow> string list" where
  "tokensByType L f ids = (if tfType f = [] then ids else filter (\<lambda>t. lsEsdtTokenType L t = tfType f) ids)"

definition tokensByLiquidityUSD :: "bignumber \<Rightarrow> listing_view \<Rightarrow> tokens_filter \<Rightarrow> string list \<Rightarrow> string list" where
  "tokensByLiquidityUSD B L f ids =
     (if tfMinLiquidity f = 0 then ids
      else filter (\<lambda>t. bn_gte B (lsTokenLiquidityUSD L t) (bn_number B (tfMinLiquidity f))) ids)"

definition tokensBySearchTerm :: "listing_view \<Rightarrow> tokens_filter \<Rightarrow> esdt_token list \<Rightarrow> esdt_token list" where
  "tokensBySearchTerm L f tokens =
     (if \<not> searches (tfSearchToken f) then tokens
      else filter (matches_term L (search_term (tfSearchToken f))) tokens)"

definition tokenSortGetter :: "string \<Rightarrow> string option" where
  "tokenSortGetter = map_of
     [(''price'', ''tokenPriceDerivedUSD''), (''previous_24h_price'', ''tokenPrevious24hPrice''),
      (''previous_7d_price'', ''tokenPrevious7dPrice''), (''price_change_24h'', ''tokenPriceChange24h''),
      (''volume_change_24h'', ''tokenVolumeUSDChange24h''), (''trades_count_change_24h'', ''tokenTradeChange24h''),
      (''created_at'', ''tokenCreatedAt''), (''liquidity'', ''tokenLiquidityUSD''), (''volume'', ''tokenVolumeUSD24h''),
      (''previous_24h_volume'', ''tokenPrevious24hVolumeUSD''), (''trades_count'', ''tokenSwapCount''),
      (''trending_score'', ''tokenTrendingScore'')]"

definition sortTokens ::
  "bignumber \<Rightarrow> listing_view \<Rightarrow> string list \<Rightarrow> string \<times> sorting_order \<Rightarrow> string list" where
  "sortTokens B L ids sorting = js_sort (sort_compare B (snd sorting)
     (sortValue tokenSortGetter (lsTokenData L) (fst sorting))) ids"

definition getFilteredTokens ::
  "bignumber \<Rightarrow> chain_view \<Rightarrow> listing_view \<Rightarrow> pagination_args \<Rightarrow> tokens_filter option
    \<Rightarrow> (string \<times> sorting_order) option \<Rightarrow> esdt_token collection res" where
  "getFilteredTokens B V L pagination filters sorting =
     (case filters of
        None \<Rightarrow> Inl TypeError
      | Some f \<Rightarrow>
          let ids = tokensByLiquidityUSD B L f (tokensByType L f (tokensByIdentifier f
                (getUniqueTokenIDs V (tfEnabledSwaps f))));
              ids' = (case sorting of Some s \<Rightarrow> sortTokens B L ids s | None \<Rightarrow> ids)
          in Inr (paged (pgOffset pagination) (pgLimit pagination)
               (tokensBySearchTerm L f (map (tokenMetadata V) ids'))))"

definition getTokens :: "chain_view \<Rightarrow> listing_view \<Rightarrow> string list \<Rightarrow> string \<Rightarrow> bool \<Rightarrow> esdt_token list" where
  "getTokens V L identifiers type enabledSwaps =
     (let ids = getUniqueTokenIDs V enabledSwaps;
          ids' = (if identifiers \<noteq> [] then filter (\<lambda>t. t \<in> set identifiers) ids else ids);
          tokens = map (tokenMetadata V) ids'
      in if type \<noteq> [] then filter (\<lambda>t. lsEsdtTokenType L (tokIdentifier t) = type) tokens else tokens)"

section \<open>Lemmas\<close>

lemma str_includes_sublist: "str_includes s t \<longleftrightarrow> sublist t s"
  by (induction s) (auto simp: sublist_Cons_right)

lemma js_sort_cong:
  assumes "\<And>a b. a \<in> set xs \<Longrightarrow> b \<in> set xs \<Longrightarrow> cmp a b \<le> 0 \<longleftrightarrow> key a \<le> (key b :: rat)"
  shows "js_sort cmp xs = sort_key key xs"
proof -
  have ins: "js_insert cmp x ys = insort_key key x ys"
    if "\<And>y. y \<in> set ys \<Longrightarrow> cmp x y \<le> 0 \<longleftrightarrow> key x \<le> key y" for x ys
    using that by (induction ys) simp_all
  show ?thesis
    using assms
  proof (induction xs)
    case (Cons x xs)
    then have IH: "foldr (js_insert cmp) xs [] = sort_key key xs" by (simp add: js_sort_def)
    have "js_insert cmp x (sort_key key xs) = insort_key key x (sort_key key xs)"
      using Cons.prems by (intro ins) simp
    then show ?case using IH by (simp add: js_sort_def)
  qed (simp add: js_sort_def)
qed

context bignumber_lib begin

lemma sort_compare_fin:
  assumes "\<And>a. a \<in> set xs \<Longrightarrow> val a = Fin (key a)"
  shows "js_sort (sort_compare B order val) xs = sort_key (\<lambda>a. if order = ASC then key a else - key a) xs"
proof (rule js_sort_cong)
  fix a b
  assume "a \<in> set xs" "b \<in> set xs"
  then show "sort_compare B order val a b \<le> 0 \<longleftrightarrow>
      (if order = ASC then key a else - key a) \<le> (if order = ASC then key b else - key b)"
    using assms by (auto simp: sort_compare_def comparedTo_def less_fin greater_fin)
qed

end

lemma js_slice_window:
  assumes "0 \<le> offset" "0 \<le> limit"
  shows "js_slice offset (offset + limit) xs = take (nat limit) (drop (nat offset) xs)"
proof (cases "offset \<le> int (length xs)")
  case True
  then have "nat (min (offset + limit) (int (length xs))) - nat offset = min (nat limit) (length xs - nat offset)"
    using assms by (simp add: min_def nat_add_distrib)
  then show ?thesis using assms True by (simp add: js_slice_def Let_def) (simp add: min_def)
qed (use assms in \<open>simp add: js_slice_def Let_def min_def\<close>)

text \<open>A pair that passes every filter of a query.\<close>

definition pair_matches ::
  "bignumber \<Rightarrow> chain_view \<Rightarrow> listing_view \<Rightarrow> pairs_filter \<Rightarrow> pair_metadata \<Rightarrow> bool" where
  "pair_matches B V L f p \<longleftrightarrow>
     (\<not> fIssuedLpToken f \<or> lpTokenID V (mdAddress p) \<notin> {None, Some ''undefined'', Some []}) \<and>
     fAddress f \<in> {[], mdAddress p} \<and>
     (\<not> searches (fSearchToken f) \<or>
        (\<exists>t\<in>{getFirstToken V (mdAddress p), getSecondToken V (mdAddress p)}.
          \<exists>s\<in>{lsName L (tokIdentifier t), tokIdentifier t, lsTicker L (tokIdentifier t)}.
            sublist (search_term (fSearchToken f)) (toUpperCase s))) \<and>
     (fFirstTokenID f = [] \<or> fSecondTokenID f = [] \<or>
        {fFirstTokenID f, fSecondTokenID f} = {mdFirstTokenID p, mdSecondTokenID p}) \<and>
     (fFirstTokenID f = [] \<or> fSecondTokenID f \<noteq> [] \<or> fFirstTokenID f = mdFirstTokenID p) \<and>
     (fSecondTokenID f = [] \<or> fFirstTokenID f \<noteq> [] \<or> fSecondTokenID f = mdSecondTokenID p) \<and>
     fState f \<in> {[], pairState V (mdAddress p)} \<and>
     fFeeState f \<in> {None, Some (lsFeeState L (mdAddress p))} \<and>
     (fMinVolume f = 0 \<or> bn_gte B (lsVolumeUSD24h L (mdAddress p)) (bn_number B (fMinVolume f))) \<and>
     (fMinLockedValueUSD f = 0 \<or>
        bn_gte B (lsLockedValueUSD L (mdAddress p)) (bn_number B (fMinLockedValueUSD f))) \<and>
     (fMinTradesCount f = 0 \<or> fMinTradesCount f \<le> of_int (lsTradesCount L (mdAddress p))) \<and>
     fHasFarms f \<in> {None, Some (lsHasFarms L (mdAddress p))} \<and>
     fHasDualFarms f \<in> {None, Some (lsHasDualFarms L (mdAddress p))} \<and>
     (fMinDeployedAt f = 0 \<or> (\<exists>d. lsDeployedAt L (mdAddress p) = Some d \<and> fMinDeployedAt f \<le> of_int d))"

lemma matches_term_sublist:
  "matches_term L s = (\<lambda>t.
     \<exists>u\<in>{lsName L (tokIdentifier t), tokIdentifier t, lsTicker L (tokIdentifier t)}. sublist s (toUpperCase u))"
  by (rule ext) (auto simp: matches_term_def str_includes_sublist)

text \<open>Each filter keeps the pairs that satisfy its condition.\<close>

lemma if_filter: "(if c then xs else filter P xs) = filter (\<lambda>x. c \<or> P x) xs"
  by simp

lemma pair_filters:
  "pairsByIssuedLpToken V f ps = filter (\<lambda>p. \<not> fIssuedLpToken f \<or> lpTokenID V (mdAddress p) \<notin> {None, Some ''undefined'', Some []}) ps"
  "pairsByAddress f ps = filter (\<lambda>p. fAddress f \<in> {[], mdAddress p}) ps"
  "pairsByState V f ps = filter (\<lambda>p. fState f \<in> {[], pairState V (mdAddress p)}) ps"
  "pairsByFeeState L f ps = filter (\<lambda>p. fFeeState f \<in> {None, Some (lsFeeState L (mdAddress p))}) ps"
  "pairsByVolume B L f ps = filter (\<lambda>p. fMinVolume f = 0 \<or>
     bn_gte B (lsVolumeUSD24h L (mdAddress p)) (bn_number B (fMinVolume f))) ps"
  "pairsByLockedValueUSD B L f ps = filter (\<lambda>p. fMinLockedValueUSD f = 0 \<or>
     bn_gte B (lsLockedValueUSD L (mdAddress p)) (bn_number B (fMinLockedValueUSD f))) ps"
  "pairsByTradesCount L f ps = filter (\<lambda>p. fMinTradesCount f = 0 \<or>
     fMinTradesCount f \<le> of_int (lsTradesCount L (mdAddress p))) ps"
  "pairsByHasFarms L f ps = filter (\<lambda>p. fHasFarms f \<in> {None, Some (lsHasFarms L (mdAddress p))}) ps"
  "pairsByHasDualFarms L f ps = filter (\<lambda>p. fHasDualFarms f \<in> {None, Some (lsHasDualFarms L (mdAddress p))}) ps"
  "pairsByDeployedAt L f ps = filter (\<lambda>p. fMinDeployedAt f = 0 \<or>
     (\<exists>d. lsDeployedAt L (mdAddress p) = Some d \<and> fMinDeployedAt f \<le> of_int d)) ps"
proof -
  show "pairsByIssuedLpToken V f ps = filter (\<lambda>p. \<not> fIssuedLpToken f \<or> lpTokenID V (mdAddress p) \<notin> {None, Some ''undefined'', Some []}) ps"
    by (simp add: pairsByIssuedLpToken_def)
  show "pairsByAddress f ps = filter (\<lambda>p. fAddress f \<in> {[], mdAddress p}) ps"
    by (simp add: pairsByAddress_def)
  show "pairsByState V f ps = filter (\<lambda>p. fState f \<in> {[], pairState V (mdAddress p)}) ps"
    by (simp add: pairsByState_def eq_commute)
  show "pairsByFeeState L f ps = filter (\<lambda>p. fFeeState f \<in> {None, Some (lsFeeState L (mdAddress p))}) ps"
    by (cases "fFeeState f") (simp_all add: pairsByFeeState_def eq_commute)
  show "pairsByVolume B L f ps = filter (\<lambda>p. fMinVolume f = 0 \<or>
     bn_gte B (lsVolumeUSD24h L (mdAddress p)) (bn_number B (fMinVolume f))) ps"
    by (simp add: pairsByVolume_def)
  show "pairsByLockedValueUSD B L f ps = filter (\<lambda>p. fMinLockedValueUSD f = 0 \<or>
     bn_gte B (lsLockedValueUSD L (mdAddress p)) (bn_number B (fMinLockedValueUSD f))) ps"
    by (simp add: pairsByLockedValueUSD_def)
  show "pairsByTradesCount L f ps = filter (\<lambda>p. fMinTradesCount f = 0 \<or>
     fMinTradesCount f \<le> of_int (lsTradesCount L (mdAddress p))) ps"
    by (simp add: pairsByTradesCount_def)
  show "pairsByHasFarms L f ps = filter (\<lambda>p. fHasFarms f \<in> {None, Some (lsHasFarms L (mdAddress p))}) ps"
    by (cases "fHasFarms f") (simp_all add: pairsByHasFarms_def eq_commute)
  show "pairsByHasDualFarms L f ps = filter (\<lambda>p. fHasDualFarms f \<in> {None, Some (lsHasDualFarms L (mdAddress p))}) ps"
    by (cases "fHasDualFarms f") (simp_all add: pairsByHasDualFarms_def eq_commute)
  show "pairsByDeployedAt L f ps = filter (\<lambda>p. fMinDeployedAt f = 0 \<or>
     (\<exists>d. lsDeployedAt L (mdAddress p) = Some d \<and> fMinDeployedAt f \<le> of_int d)) ps"
    by (auto simp: pairsByDeployedAt_def split: option.splits intro!: filter_cong)
qed

lemma pairsByTokens_filter:
  "pairsByTokens f ps = filter (\<lambda>p.
     (fFirstTokenID f = [] \<or> fSecondTokenID f = [] \<or>
        {fFirstTokenID f, fSecondTokenID f} = {mdFirstTokenID p, mdSecondTokenID p}) \<and>
     (fFirstTokenID f = [] \<or> fSecondTokenID f \<noteq> [] \<or> fFirstTokenID f = mdFirstTokenID p) \<and>
     (fSecondTokenID f = [] \<or> fFirstTokenID f \<noteq> [] \<or> fSecondTokenID f = mdSecondTokenID p)) ps"
  by (cases "fFirstTokenID f = []"; cases "fSecondTokenID f = []")
    (simp_all add: pairsByTokens_def doubleton_eq_iff Let_def)

lemma pairsByWildcardToken_filter:
  "(if fSearchToken f \<noteq> [] then pairsByWildcardToken V L f ps else ps) =
   filter (\<lambda>p. \<not> searches (fSearchToken f) \<or>
     (\<exists>t\<in>{getFirstToken V (mdAddress p), getSecondToken V (mdAddress p)}.
       matches_term L (search_term (fSearchToken f)) t)) ps"
  by (auto simp: pairsByWildcardToken_def searches_def intro!: filter_cong)

lemma applyAllFilters_matches: "applyAllFilters B V L f ps = filter (pair_matches B V L f) ps"
  unfolding applyAllFilters_def filterByTokens_def pair_filters pairsByTokens_filter pairsByWildcardToken_filter
    filter_filter
  by (rule filter_cong [OF refl]) (simp only: pair_matches_def matches_term_sublist conj_assoc)

text \<open>Paging arguments the code reads: cursors of positions, a page size.\<close>

definition forward_page :: "(int \<Rightarrow> string) \<Rightarrow> nat \<Rightarrow> nat \<Rightarrow> connection_args" where
  "forward_page cursor n i =
     \<lparr>cnBefore = [], cnAfter = (if i = 0 then [] else cursor (int (i * n) - 1)), cnFirst = int n, cnLast = 0\<rparr>"

definition backward_page :: "(int \<Rightarrow> string) \<Rightarrow> nat \<Rightarrow> nat \<Rightarrow> connection_args" where
  "backward_page cursor n k = \<lparr>cnBefore = cursor (int k), cnAfter = [], cnFirst = 0, cnLast = int n\<rparr>"

definition cursor_of :: "(string \<Rightarrow> int) \<Rightarrow> (int \<Rightarrow> string) \<Rightarrow> bool" where
  "cursor_of getId cursor \<longleftrightarrow> (\<forall>k\<ge>0. cursor k \<noteq> [] \<and> getId (cursor k) = k)"

lemma forward_page_parameters:
  assumes "cursor_of getId cursor" "0 < n"
  shows "getPagingParameters getId (Some (forward_page cursor n i)) = Inr \<lparr>pgOffset = int (i * n), pgLimit = int n\<rparr>"
proof (cases "i = 0")
  case False
  then have "0 \<le> int (i * n) - 1" using assms(2) by (cases i) (auto simp: add_pos_nonneg)
  then have "cursor (int (i * n) - 1) \<noteq> []" "getId (cursor (int (i * n) - 1)) = int (i * n) - 1"
    using assms(1) unfolding cursor_of_def by blast+
  then show ?thesis using False assms(2)
    by (simp add: getPagingParameters_def checkPagingSanity_def forward_page_def del: of_nat_mult)
qed (use assms in \<open>simp add: getPagingParameters_def checkPagingSanity_def forward_page_def\<close>)

lemma backward_page_parameters:
  assumes "cursor_of getId cursor" "0 < n"
  shows "getPagingParameters getId (Some (backward_page cursor n k)) =
    Inr \<lparr>pgOffset = int (k - n), pgLimit = int (min n k)\<rparr>"
proof -
  have c: "cursor (int k) \<noteq> []" "getId (cursor (int k)) = int k"
    using assms(1) by (simp_all add: cursor_of_def)
  then show ?thesis using assms(2)
    by (simp add: getPagingParameters_def checkPagingSanity_def backward_page_def Let_def min_def of_nat_diff)
qed

lemma take_pages: "concat (map (\<lambda>i. take n (drop (i * n) xs)) [0..<m]) = take (m * n) xs"
proof (induction m)
  case (Suc m)
  have "take (Suc m * n) xs = take (m * n) xs @ take n (drop (m * n) xs)"
    by (metis add.commute mult_Suc take_add)
  then show ?case using Suc.IH by simp
qed simp

lemma getFilteredPairs_sorted:
  assumes "bignumber_lib B" "0 \<le> offset" "0 \<le> limit"
    "\<And>p. p \<in> set (pairsMetadata V) \<Longrightarrow> pairSortData L field (mdAddress p) = Fin (key p)"
  shows "getFilteredPairs B V L offset limit (Some f) (Some (field, order)) =
    (let listing = sort_key (\<lambda>p. if order = ASC then key p else - key p) (filter (pair_matches B V L f) (pairsMetadata V))
     in Inr \<lparr>count = int (length listing),
          items = map mdAddress (take (nat limit) (drop (nat offset) listing))\<rparr>)"
proof -
  have "js_sort (sort_compare B order (\<lambda>p. pairSortData L field (mdAddress p))) (filter (pair_matches B V L f) (pairsMetadata V))
      = sort_key (\<lambda>p. if order = ASC then key p else - key p) (filter (pair_matches B V L f) (pairsMetadata V))"
    using assms(4) by (intro bignumber_lib.sort_compare_fin [OF assms(1)]) simp
  then show ?thesis
    by (simp add: getFilteredPairs_def applyAllFilters_matches sortPairs_def paged_def Let_def take_map drop_map
        js_slice_window [OF assms(2,3)])
qed

section \<open>Properties\<close>

text \<open>
  C21. The listing of pairs is one list, the pairs that pass every filter, stably sorted by the
  field in the order asked for, and the pages cut it up: with the cursors of the
  positions, the forward page \<open>i\<close> of size \<open>n\<close> holds its positions from \<open>i n\<close> on, the first \<open>m\<close> pages
  put together are its first \<open>m n\<close> elements, and the page before position \<open>k\<close> holds the \<open>n\<close> elements before
  it, or all there are. Every page comes with the length of the whole listing.
\<close>

theorem filtered_pairs_pages:
  assumes "bignumber_lib B" "cursor_of getId cursor" "0 < n"
    "\<forall>p\<in>set (pairsMetadata V). pairSortData L field (mdAddress p) = Fin (key p)"
  shows "\<exists>listing. listing = sort_key (\<lambda>p. if order = ASC then key p else - key p)
        (filter (pair_matches B V L f) (pairsMetadata V)) \<and>
    (\<forall>i. filteredPairs B V L getId (Some f) (Some (forward_page cursor n i)) (Some (field, order)) =
       Inr \<lparr>count = int (length listing), items = map mdAddress (take n (drop (i * n) listing))\<rparr>) \<and>
    (\<forall>m. concat (map (\<lambda>i. take n (drop (i * n) listing)) [0..<m]) = take (m * n) listing) \<and>
    (\<forall>k. filteredPairs B V L getId (Some f) (Some (backward_page cursor n k)) (Some (field, order)) =
       Inr \<lparr>count = int (length listing), items = map mdAddress (drop (k - n) (take k listing))\<rparr>)"
proof (intro exI conjI allI)
  let ?xs = "sort_key (\<lambda>p. if order = ASC then key p else - key p) (filter (pair_matches B V L f) (pairsMetadata V))"
  note sorted = getFilteredPairs_sorted [OF assms(1)]
  show "?xs = ?xs" ..
  show "filteredPairs B V L getId (Some f) (Some (forward_page cursor n i)) (Some (field, order)) =
       Inr \<lparr>count = int (length ?xs), items = map mdAddress (take n (drop (i * n) ?xs))\<rparr>" for i
    using sorted [of "int (i * n)" "int n" V L field key f order] assms(4)
    by (simp add: filteredPairs_def forward_page_parameters [OF assms(2,3)] Let_def del: of_nat_mult)
  show "concat (map (\<lambda>i. take n (drop (i * n) ?xs)) [0..<m]) = take (m * n) ?xs" for m
    by (rule take_pages)
  show "filteredPairs B V L getId (Some f) (Some (backward_page cursor n k)) (Some (field, order)) =
       Inr \<lparr>count = int (length ?xs), items = map mdAddress (drop (k - n) (take k ?xs))\<rparr>" for k
  proof -
    have "take (min n k) (drop (k - n) ?xs) = drop (k - n) (take k ?xs)"
      by (simp add: drop_take min_def)
    then show ?thesis
      using sorted [of "int (k - n)" "int (min n k)" V L field key f order] assms(4)
      by (simp add: filteredPairs_def backward_page_parameters [OF assms(2,3)] Let_def del: of_nat_diff of_nat_min)
  qed
qed

definition demo_listing :: listing_view where
  "demo_listing = \<lparr>lsName = \<lambda>t. t, lsTicker = \<lambda>t. t, lsFeeState = \<lambda>_. True, lsVolumeUSD24h = \<lambda>_. bn_of_int 5,
     lsFeesUSD24h = \<lambda>_. bn_of_int 1, lsLockedValueUSD = \<lambda>_. bn_of_int 9,
     lsTradesCount = \<lambda>p. int (length p), lsHasFarms = \<lambda>_. False, lsHasDualFarms = \<lambda>_. False,
     lsDeployedAt = \<lambda>_. None, lsStakingAddresses = [], lsFarmingToken = \<lambda>t. \<lparr>tokIdentifier = t, decimals = 18\<rparr>,
     lsStakingData = \<lambda>_ _. Fin 0, lsEsdtTokenType = \<lambda>_. ''Core'', lsTokenLiquidityUSD = \<lambda>_. Fin 0,
     lsTokenData = \<lambda>_ _. Fin 0\<rparr>"

definition demo_pairs :: chain_view where
  "demo_pairs = demo_view\<lparr>pairsMetadata :=
     [\<lparr>mdAddress = ''p'', mdFirstTokenID = ''A'', mdSecondTokenID = ''B''\<rparr>,
      \<lparr>mdAddress = ''pp'', mdFirstTokenID = ''B'', mdSecondTokenID = ''A''\<rparr>,
      \<lparr>mdAddress = ''ppp'', mdFirstTokenID = ''A'', mdSecondTokenID = ''C''\<rparr>]\<rparr>"

definition demo_filter :: pairs_filter where
  "demo_filter = \<lparr>fAddress = [], fFirstTokenID = ''A'', fSecondTokenID = ''B'', fIssuedLpToken = False, fState = [],
     fMinVolume = 0, fFeeState = None, fMinLockedValueUSD = 0, fMinTradesCount = 0, fHasFarms = None,
     fHasDualFarms = None, fMinDeployedAt = 0, fSearchToken = []\<rparr>"

theorem filtered_pairs_pages_witness:
  "filteredPairs bn_js demo_pairs demo_listing (\<lambda>s. int (length s) - 1) (Some demo_filter)
     (Some (forward_page (\<lambda>k. replicate (Suc (nat k)) CHR ''c'') 1 1)) (Some (''trades_count'', DESC)) =
   Inr \<lparr>count = 2, items = [''p'']\<rparr>"
proof -
  have cur: "cursor_of (\<lambda>s. int (length s) - 1) (\<lambda>k. replicate (Suc (nat k)) CHR ''c'')"
    by (simp add: cursor_of_def)
  have keys: "\<forall>p\<in>set (pairsMetadata demo_pairs).
      pairSortData demo_listing ''trades_count'' (mdAddress p) = Fin (rat_of_nat (length (mdAddress p)))"
    by (simp add: demo_pairs_def pairSortData_def demo_listing_def)
  have matched: "filter (pair_matches bn_js demo_pairs demo_listing demo_filter) (pairsMetadata demo_pairs) =
      [\<lparr>mdAddress = ''p'', mdFirstTokenID = ''A'', mdSecondTokenID = ''B''\<rparr>,
       \<lparr>mdAddress = ''pp'', mdFirstTokenID = ''B'', mdSecondTokenID = ''A''\<rparr>]"
    by (simp add: demo_pairs_def pair_matches_def demo_filter_def searches_def insert_commute doubleton_eq_iff)
  show ?thesis
    using filtered_pairs_pages [OF js.bignumber_lib_axioms cur zero_less_one keys, of DESC demo_filter]
    unfolding matched by auto
qed

end
