(* ===== verification/UserEnergy.thy ===== *)
theory UserEnergy
  imports AdminResolvers Listing
begin

text \<open>
  Which contracts hold an outdated energy of a user, and the transaction that refreshes them:
  \<open>src/modules/user/services/userEnergy/user.energy.compute.service.ts\<close> and
  \<open>user.energy.transaction.service.ts\<close>, with the search of a farm by its token in
  \<open>src/modules/farm/farm.abi.factory.ts\<close> and of a staking proxy by its dual yield token in
  \<open>src/modules/staking-proxy/services/staking.proxy.service.ts\<close>.

  The user's tokens come from the API and their attributes are decoded by libraries: both are
  fields of \<open>user_tokens_view\<close>. The two searches keep what they find in the cache for an hour; the
  model is the search of a cold cache. An empty \<open>OutdatedContract\<close> is \<open>None\<close>.
\<close>

record user_tokens_view =
  utFarmTokenCreators :: "string \<Rightarrow> string list"
  utLockedFarmTokens :: "string \<Rightarrow> string list"
  utWrappedFarmTokenID :: "string \<Rightarrow> string"
  utDualYieldCollections :: "string \<Rightarrow> string list"
  spAddresses :: "string list"
  spDualYieldTokenID :: "string \<Rightarrow> string"
  spLpFarmAddress :: "string \<Rightarrow> string"

datatype contract_type = FarmContract | FeesCollectorContract

record outdated_contract =
  ocAddress :: string
  ocType :: contract_type
  ocClaimProgressOutdated :: bool
  ocFarmToken :: "string option"

section \<open>Outdated energy\<close>

text \<open>
  The earlier of the two entries is depleted in place up to the epoch of the later one; the amounts
  are then compared. The model returns the two entries as the code leaves them.
\<close>

definition depletedTo :: "bignumber \<Rightarrow> energy_entry \<Rightarrow> int \<Rightarrow> energy_entry" where
  "depletedTo B en epoch =
     (if lastUpdateEpoch en < epoch then
        en\<lparr>enAmount := bn_minus B (enAmount en)
          (bn_times B (bn_number B (of_int (epoch - lastUpdateEpoch en))) (totalLockedTokens en))\<rparr>
      else en)"

definition isEnergyOutdated ::
  "bignumber \<Rightarrow> energy_entry \<Rightarrow> claim_progress \<Rightarrow> bool \<times> energy_entry \<times> claim_progress" where
  "isEnergyOutdated B userEnergy progress =
     (if progWeek progress = 0 then (False, userEnergy, progress)
      else
        let progress' = progress\<lparr>progEnergy := depletedTo B (progEnergy progress) (lastUpdateEpoch userEnergy)\<rparr>;
            userEnergy' = depletedTo B userEnergy (lastUpdateEpoch (progEnergy progress))
        in (enAmount userEnergy' \<noteq> enAmount (progEnergy progress'), userEnergy', progress'))"

definition computeFarmOutdatedContract ::
  "bignumber \<Rightarrow> farms_config \<Rightarrow> farm_view \<Rightarrow> week_view \<Rightarrow> string \<Rightarrow> string \<Rightarrow> outdated_contract option res" where
  "computeFarmOutdatedContract B table F W user farm =
     res_bind (useService table farm) (\<lambda>_.
       let progress = currentClaimProgress W farm user in
       if progWeek progress = 0 then Inr None
       else
         let outdatedClaimProgress = (progWeek progress \<noteq> currentWeek W farm) in
         if fst (isEnergyOutdated B (energyEntryForUser W user) progress) \<or> outdatedClaimProgress
         then Inr (Some \<lparr>ocAddress = farm, ocType = FarmContract,
                ocClaimProgressOutdated = outdatedClaimProgress, ocFarmToken = Some (farmTokenID F farm)\<rparr>)
         else Inr None)"

definition computeFeesCollectorOutdatedContract ::
  "bignumber \<Rightarrow> dex_config \<Rightarrow> week_view \<Rightarrow> string \<Rightarrow> outdated_contract option" where
  "computeFeesCollectorOutdatedContract B cfg W user =
     (let feesCollector = scAddr cfg ''feesCollector'';
          progress = currentClaimProgress W feesCollector user
      in if progWeek progress = 0 then None
         else
           let outdatedClaimProgress = (progWeek progress \<noteq> currentWeek W feesCollector) in
           if fst (isEnergyOutdated B (energyEntryForUser W user) progress) \<or> outdatedClaimProgress
           then Some \<lparr>ocAddress = feesCollector, ocType = FeesCollectorContract,
                  ocClaimProgressOutdated = outdatedClaimProgress, ocFarmToken = None\<rparr>
           else None)"

definition computeUserOutdatedContract ::
  "bignumber \<Rightarrow> dex_config \<Rightarrow> farms_config \<Rightarrow> farm_view \<Rightarrow> week_view \<Rightarrow> string \<Rightarrow> string
    \<Rightarrow> outdated_contract option res" where
  "computeUserOutdatedContract B cfg table F W user contract =
     (if contract \<noteq> scAddr cfg ''feesCollector''
      then computeFarmOutdatedContract B table F W user contract
      else Inr (computeFeesCollectorOutdatedContract B cfg W user))"

section \<open>Active farms\<close>

fun findFarm :: "farms_config \<Rightarrow> farm_view \<Rightarrow> string \<Rightarrow> string list \<Rightarrow> string option res" where
  "findFarm table F tid [] = Inr None"
| "findFarm table F tid (farm # rest) =
     res_bind (useTransaction table farm) (\<lambda>_.
       if farmTokenID F farm = tid then Inr (Some farm) else findFarm table F tid rest)"

definition getFarmAddressByFarmTokenID :: "farms_config \<Rightarrow> farm_view \<Rightarrow> string \<Rightarrow> string option res" where
  "getFarmAddressByFarmTokenID table F tid = res_bind (farmsAddresses table None) (findFarm table F tid)"

definition isFarmToken :: "farms_config \<Rightarrow> farm_view \<Rightarrow> string \<Rightarrow> bool res" where
  "isFarmToken table F tid =
     res_bind (res_bind (farmsAddresses table None) (findFarm table F tid)) (\<lambda>r. Inr (r \<noteq> None))"

definition decodeAndGetFarmAddressFarmLockedTokens ::
  "farms_config \<Rightarrow> farm_view \<Rightarrow> user_tokens_view \<Rightarrow> string \<Rightarrow> string option res" where
  "decodeAndGetFarmAddressFarmLockedTokens table F T attributes =
     getFarmAddressByFarmTokenID table F (utWrappedFarmTokenID T attributes)"

fun findStakingProxy :: "user_tokens_view \<Rightarrow> string \<Rightarrow> string list \<Rightarrow> string option" where
  "findStakingProxy T tid [] = None"
| "findStakingProxy T tid (addr # rest) =
     (if spDualYieldTokenID T addr = tid then Some addr else findStakingProxy T tid rest)"

definition getStakingProxyAddressByDualYieldTokenID :: "user_tokens_view \<Rightarrow> string \<Rightarrow> string option" where
  "getStakingProxyAddressByDualYieldTokenID T tid = findStakingProxy T tid (spAddresses T)"

text \<open>A query of the contract at an undefined address throws.\<close>

definition getFarmAddressForDualYieldToken :: "user_tokens_view \<Rightarrow> string \<Rightarrow> string option res" where
  "getFarmAddressForDualYieldToken T collection' =
     (if collection' = [] then Inr None
      else case getStakingProxyAddressByDualYieldTokenID T collection' of
        None \<Rightarrow> Inl TypeError
      | Some proxy \<Rightarrow> Inr (Some (spLpFarmAddress T proxy)))"

definition computeActiveFarmsV2ForUser ::
  "farms_config \<Rightarrow> farm_view \<Rightarrow> user_tokens_view \<Rightarrow> string \<Rightarrow> string list res" where
  "computeActiveFarmsV2ForUser table F T user =
     res_bind (res_map (decodeAndGetFarmAddressFarmLockedTokens table F T) (utLockedFarmTokens T user)) (\<lambda>locked.
     res_bind (res_map (getFarmAddressForDualYieldToken T) (utDualYieldCollections T user)) (\<lambda>dual.
       Inr (filter (\<lambda>farm. farmVersion table farm = Some V2)
         (concat (map (\<lambda>a. case a of Some farm \<Rightarrow> [farm] | None \<Rightarrow> [])
           (uniq (map Some (utFarmTokenCreators T user) @ locked @ dual)))))))"

section \<open>The contracts of a user and the update transaction\<close>

definition getUserOutdatedContracts ::
  "bignumber \<Rightarrow> dex_config \<Rightarrow> farms_config \<Rightarrow> farm_view \<Rightarrow> week_view \<Rightarrow> user_tokens_view \<Rightarrow> string \<Rightarrow> bool
    \<Rightarrow> outdated_contract list res" where
  "getUserOutdatedContracts B cfg table F W T user skipFeesCollector =
     res_bind (computeActiveFarmsV2ForUser table F T user) (\<lambda>activeFarms.
     res_bind (res_map (computeUserOutdatedContract B cfg table F W user)
         (activeFarms @ (if skipFeesCollector then [] else [scAddr cfg ''feesCollector'']))) (\<lambda>contracts.
       Inr (concat (map (\<lambda>c. case c of Some oc \<Rightarrow> if ocAddress oc \<noteq> [] then [oc] else [] | None \<Rightarrow> [])
         contracts))))"

definition updateFarmsEnergyForUser ::
  "bignumber \<Rightarrow> dex_config \<Rightarrow> farms_config \<Rightarrow> farm_view \<Rightarrow> week_view \<Rightarrow> user_tokens_view \<Rightarrow> string \<Rightarrow> bool \<Rightarrow> bool
    \<Rightarrow> transaction option res" where
  "updateFarmsEnergyForUser B cfg table F W T user includeAllContracts skipFeesCollector =
     res_bind
       (if includeAllContracts then
          res_bind (computeActiveFarmsV2ForUser table F T user) (\<lambda>farms.
            Inr (farms @ (if skipFeesCollector then [] else [scAddr cfg ''feesCollector''])))
        else
          res_bind (getUserOutdatedContracts B cfg table F W T user skipFeesCollector) (\<lambda>contracts.
            Inr (map ocAddress (filter (\<lambda>c. \<not> ocClaimProgressOutdated c) contracts))))
       (\<lambda>addresses.
         let endpointArgs' = AddressV user # map AddressV addresses in
         if length endpointArgs' = 1 then Inr None
         else Inr (Some (contract_call cfg (scAddr cfg ''energyUpdate'') ''updateFarmsEnergyForUser'' endpointArgs'
                (gas cfg ''energyUpdate.updateFarmsEnergyForUser'' * int (length endpointArgs')))))"

section \<open>Lemmas\<close>

text \<open>The energy of an entry at a later epoch: every locked token costs one unit an epoch.\<close>

definition energy_at :: "energy_entry \<Rightarrow> int \<Rightarrow> rat" where
  "energy_at en epoch =
     (case (enAmount en, totalLockedTokens en) of
        (Fin a, Fin l) \<Rightarrow> a - l * of_int (epoch - lastUpdateEpoch en) | _ \<Rightarrow> 0)"

definition sound_energy :: "energy_entry \<Rightarrow> bool" where
  "sound_energy en \<longleftrightarrow> (\<exists>a l. enAmount en = Fin a \<and> totalLockedTokens en = Fin l) \<and>
     0 \<le> lastUpdateEpoch en \<and> lastUpdateEpoch en < 2 ^ 53"

context bignumber_lib begin

lemma depletedTo_amount:
  assumes "sound_energy en" "0 \<le> epoch" "epoch < 2 ^ 53"
  shows "enAmount (depletedTo B en epoch) = Fin (energy_at en (max epoch (lastUpdateEpoch en)))"
proof -
  obtain a l where al: "enAmount en = Fin a" "totalLockedTokens en = Fin l"
    using assms(1) by (auto simp: sound_energy_def)
  show ?thesis
  proof (cases "lastUpdateEpoch en < epoch")
    case True
    have "bn_number B (of_int (epoch - lastUpdateEpoch en)) = bn_of_int (epoch - lastUpdateEpoch en)"
      using assms True by (intro number_int) (simp add: sound_energy_def)
    then show ?thesis using al True
      by (simp add: depletedTo_def energy_at_def times_fin minus_fin mult.commute del: of_int_diff)
  qed (simp add: depletedTo_def energy_at_def al)
qed

lemma isEnergyOutdated_iff:
  assumes "sound_energy en" "sound_energy (progEnergy p)" "progWeek p \<noteq> 0"
  shows "fst (isEnergyOutdated B en p) \<longleftrightarrow>
    energy_at en (max (lastUpdateEpoch en) (lastUpdateEpoch (progEnergy p))) \<noteq>
    energy_at (progEnergy p) (max (lastUpdateEpoch en) (lastUpdateEpoch (progEnergy p)))"
  using assms depletedTo_amount [OF assms(1), of "lastUpdateEpoch (progEnergy p)"]
    depletedTo_amount [OF assms(2), of "lastUpdateEpoch en"]
  by (simp add: isEnergyOutdated_def Let_def sound_energy_def max.commute)

end

text \<open>A contract to refresh: claimed from in the current week, with another energy than the user's.\<close>

definition needs_update :: "week_view \<Rightarrow> string \<Rightarrow> string \<Rightarrow> bool" where
  "needs_update W user contract \<longleftrightarrow>
     (let p = currentClaimProgress W contract user; en = energyEntryForUser W user;
          epoch = max (lastUpdateEpoch en) (lastUpdateEpoch (progEnergy p))
      in progWeek p \<noteq> 0 \<and> progWeek p = currentWeek W contract \<and> energy_at en epoch \<noteq> energy_at (progEnergy p) epoch)"

lemma active_farms_v2:
  "computeActiveFarmsV2ForUser table F T user = Inr farms \<Longrightarrow> farm \<in> set farms \<Longrightarrow> farmVersion table farm = Some V2"
  by (cases "res_map (decodeAndGetFarmAddressFarmLockedTokens table F T) (utLockedFarmTokens T user)";
      cases "res_map (getFarmAddressForDualYieldToken T) (utDualYieldCollections T user)")
    (auto simp: computeActiveFarmsV2ForUser_def)

definition outdatedOf :: "bignumber \<Rightarrow> dex_config \<Rightarrow> farm_view \<Rightarrow> week_view \<Rightarrow> string \<Rightarrow> string \<Rightarrow> outdated_contract option" where
  "outdatedOf B cfg F W user c =
     (let p = currentClaimProgress W c user; stale = (progWeek p \<noteq> currentWeek W c) in
      if progWeek p \<noteq> 0 \<and> (fst (isEnergyOutdated B (energyEntryForUser W user) p) \<or> stale)
      then Some (if c = scAddr cfg ''feesCollector''
        then \<lparr>ocAddress = c, ocType = FeesCollectorContract, ocClaimProgressOutdated = stale, ocFarmToken = None\<rparr>
        else \<lparr>ocAddress = c, ocType = FarmContract, ocClaimProgressOutdated = stale,
               ocFarmToken = Some (farmTokenID F c)\<rparr>)
      else None)"

lemma computeUserOutdatedContract_eq:
  assumes "c = scAddr cfg ''feesCollector'' \<or> farmVersion table c = Some V2"
  shows "computeUserOutdatedContract B cfg table F W user c = Inr (outdatedOf B cfg F W user c)"
  using assms
  by (auto simp: computeUserOutdatedContract_def computeFarmOutdatedContract_def Let_def
      computeFeesCollectorOutdatedContract_def outdatedOf_def useService_def)

lemma refreshed_contracts:
  assumes "\<And>c. c \<in> set cs \<Longrightarrow> c \<noteq> []"
    "\<And>c. c \<in> set cs \<Longrightarrow> (progWeek (currentClaimProgress W c user) \<noteq> 0 \<and>
        progWeek (currentClaimProgress W c user) = currentWeek W c \<and>
        fst (isEnergyOutdated B (energyEntryForUser W user) (currentClaimProgress W c user))) = needs_update W user c"
  shows "map ocAddress (filter (\<lambda>c. \<not> ocClaimProgressOutdated c)
      (concat (map (\<lambda>c. case c of Some oc \<Rightarrow> if ocAddress oc \<noteq> [] then [oc] else [] | None \<Rightarrow> [])
        (map (outdatedOf B cfg F W user) cs)))) = filter (needs_update W user) cs"
  using assms
proof (induction cs)
  case (Cons c cs)
  have "(map ocAddress (filter (\<lambda>c. \<not> ocClaimProgressOutdated c)
      (case outdatedOf B cfg F W user c of Some oc \<Rightarrow> if ocAddress oc \<noteq> [] then [oc] else [] | None \<Rightarrow> [])))
      = (if needs_update W user c then [c] else [])"
    using Cons.prems(1) [of c] Cons.prems(2) [of c, symmetric] by (auto simp: outdatedOf_def Let_def)
  then show ?case using Cons by simp
qed simp

section \<open>Properties\<close>

text \<open>
  C22. The update transaction of a user names exactly the contracts whose view of his energy is out of
  date, among his version 2 farms and, unless skipped, the fees collector: those he claimed from
  in the current week and where the energy on record, brought to the same epoch, differs from his
  own. No transaction is built when there is none, and reading the contracts never fails.
\<close>

theorem update_energy_targets:
  assumes "bignumber_lib B" "computeActiveFarmsV2ForUser table F T user = Inr farms"
    "targets = farms @ (if skip then [] else [scAddr cfg ''feesCollector''])" "[] \<notin> set targets"
    "sound_energy (energyEntryForUser W user)"
    "\<forall>c\<in>set targets. sound_energy (progEnergy (currentClaimProgress W c user))"
  shows "updateFarmsEnergyForUser B cfg table F W T user False skip =
    (let cs = filter (needs_update W user) targets
     in Inr (if cs = [] then None
        else Some (contract_call cfg (scAddr cfg ''energyUpdate'') ''updateFarmsEnergyForUser''
          (AddressV user # map AddressV cs)
          (gas cfg ''energyUpdate.updateFarmsEnergyForUser'' * int (Suc (length cs))))))"
proof -
  have v2: "c = scAddr cfg ''feesCollector'' \<or> farmVersion table c = Some V2" if "c \<in> set targets" for c
    using that assms(3) active_farms_v2 [OF assms(2)] by (auto split: if_splits)
  have all: "res_map (computeUserOutdatedContract B cfg table F W user) targets =
      Inr (map (outdatedOf B cfg F W user) targets)"
    using v2 computeUserOutdatedContract_eq by (intro res_map_Inr_map) blast
  have needs: "(progWeek (currentClaimProgress W c user) \<noteq> 0 \<and>
        progWeek (currentClaimProgress W c user) = currentWeek W c \<and>
        fst (isEnergyOutdated B (energyEntryForUser W user) (currentClaimProgress W c user))) = needs_update W user c"
    if "c \<in> set targets" for c
    using bignumber_lib.isEnergyOutdated_iff [OF assms(1,5)] assms(6) that
    by (auto simp: needs_update_def Let_def)
  have eq: "res_bind (getUserOutdatedContracts B cfg table F W T user skip)
      (\<lambda>contracts. Inr (map ocAddress (filter (\<lambda>c. \<not> ocClaimProgressOutdated c) contracts))) =
      Inr (filter (needs_update W user) targets)"
    using refreshed_contracts [OF _ needs, of targets cfg F] assms(4) all
    by (simp add: getUserOutdatedContracts_def assms(2) assms(3) [symmetric]) blast
  show ?thesis
    unfolding updateFarmsEnergyForUser_def if_False eq by (simp add: Let_def)
qed

definition demo_tokens :: user_tokens_view where
  "demo_tokens = \<lparr>utFarmTokenCreators = \<lambda>_. [''farm'', ''oldfarm'', ''farm''], utLockedFarmTokens = \<lambda>_. [],
     utWrappedFarmTokenID = \<lambda>_. ''EGLDMEXF'', utDualYieldCollections = \<lambda>_. [], spAddresses = [],
     spDualYieldTokenID = \<lambda>_. ''DUAL'', spLpFarmAddress = \<lambda>_. ''farm''\<rparr>"

definition demo_claims :: week_view where
  "demo_claims = demo_week\<lparr>currentWeek := \<lambda>_. 1, energyEntryForUser :=
     \<lambda>_. \<lparr>enAmount = bn_of_int 90, lastUpdateEpoch = 3, totalLockedTokens = bn_of_int 5\<rparr>\<rparr>"

theorem update_energy_targets_witness:
  "updateFarmsEnergyForUser bn_js demo_cfg demo_farms demo_farm demo_claims demo_tokens ''alice'' False True =
   Inr (Some (contract_call demo_cfg (scAddr demo_cfg ''energyUpdate'') ''updateFarmsEnergyForUser''
     [AddressV ''alice'', AddressV ''farm'']
     (gas demo_cfg ''energyUpdate.updateFarmsEnergyForUser'' * int (Suc (length [''farm''])))))"
proof -
  have farms: "computeActiveFarmsV2ForUser demo_farms demo_farm demo_tokens ''alice'' = Inr [''farm'']"
    by (simp add: computeActiveFarmsV2ForUser_def demo_tokens_def uniq_def demo_farms_def toVersionEnum_def)
  have "needs_update demo_claims ''alice'' ''farm''"
    by (simp add: needs_update_def demo_claims_def demo_week_def energy_at_def Let_def)
  then show ?thesis
    using update_energy_targets [OF js.bignumber_lib_axioms farms refl, of True demo_cfg demo_claims]
    by (simp add: sound_energy_def demo_claims_def demo_week_def)
qed

end
