(* ===== verification/FarmService.thy ===== *)
theory FarmService
  imports FarmCompute FarmUtils
begin

text \<open>
  What a farm service tells the owner of a position: its rewards and the tokens an exit returns
  (\<open>src/modules/farm/base-module/services/farm.base.service.ts\<close> and the services of the versions
  1.2, 1.3 and 2). The attributes of a farm token are decoded by \<open>@multiversx/sdk-exchange\<close>
  and the query of the contract's own computation is answered by the chain: both are fields of
  \<open>farm_position_view\<close>.
\<close>

record farm_attributes =
  faRewardPerShare :: bn
  faEnteringEpoch :: int
  faCurrentFarmAmount :: bn
  faInitialFarmingAmount :: bn
  faCompoundedReward :: bn

record calculate_rewards_args =
  crFarmAddress :: string
  crUser :: string
  crLiquidity :: bn
  crIdentifier :: string
  crAttributes :: string
  crVmQuery :: bool

record farm_position_view =
  fromAttributes :: "string \<Rightarrow> farm_attributes"
  calculateRewardsForGivenPosition :: "calculate_rewards_args \<Rightarrow> bn"

record user_week_info =
  uwScAddress :: string
  uwUserAddress :: string
  uwWeek :: int
  uwPositionAmount :: bn

record rewards_model =
  rwIdentifier :: string
  rwRemainingFarmingEpochs :: int
  rwRewards :: bn
  rwBoostedWeeks :: "user_week_info list option"
  rwClaimProgress :: "claim_progress option"
  rwAccumulatedRewards :: "bn option"

record exit_farm_tokens =
  etFarmingTokens :: bn
  etRewards :: bn

section \<open>Base service\<close>

definition ruleOfThree :: "bignumber \<Rightarrow> bn \<Rightarrow> bn \<Rightarrow> bn \<Rightarrow> bn" where
  "ruleOfThree B part total' val = bn_integer B (bn_div B (bn_times B part val) total')"

definition getFarmedToken :: "chain_view \<Rightarrow> farm_view \<Rightarrow> string \<Rightarrow> esdt_token" where
  "getFarmedToken V F farm = tokenMetadata V (farmedTokenID F farm)"

definition getFarmingToken :: "chain_view \<Rightarrow> farm_view \<Rightarrow> string \<Rightarrow> esdt_token" where
  "getFarmingToken V F farm = tokenMetadata V (farmingTokenID F farm)"

definition getRemainingFarmingEpochs :: "chain_view \<Rightarrow> farm_view \<Rightarrow> string \<Rightarrow> int \<Rightarrow> int" where
  "getRemainingFarmingEpochs V F farm enteringEpoch =
     max 0 (minimumFarmingEpochs F farm - (currentEpoch V - enteringEpoch))"

text \<open>The rewards of a position, asked from the contract or computed.\<close>

definition positionRewards ::
  "(rewards_position \<Rightarrow> bn \<Rightarrow> bn) \<Rightarrow> farm_position_view \<Rightarrow> calculate_rewards_args \<Rightarrow> bn" where
  "positionRewards compute D pos =
     (if crVmQuery pos then calculateRewardsForGivenPosition D pos
      else compute \<lparr>posFarmAddress = crFarmAddress pos, posLiquidity = crLiquidity pos\<rparr>
             (faRewardPerShare (fromAttributes D (crAttributes pos))))"

definition getTokensForExitFarm ::
  "bignumber \<Rightarrow> farm_view \<Rightarrow> farm_position_view \<Rightarrow> farm_version \<Rightarrow> (calculate_rewards_args \<Rightarrow> rewards_model res)
    \<Rightarrow> calculate_rewards_args \<Rightarrow> exit_farm_tokens res" where
  "getTokensForExitFarm B F D version rewardsFor args =
     (let attrs = fromAttributes D (crAttributes args);
          farmingAmount = (if version = V2 then faCurrentFarmAmount attrs else faInitialFarmingAmount attrs);
          initialFarmingAmount = ruleOfThree B (crLiquidity args) (faCurrentFarmAmount attrs) farmingAmount
      in res_bind (rewardsFor args) (\<lambda>rewardsForPosition'.
           let rewards = bn_plus B (rwRewards rewardsForPosition')
                 (ruleOfThree B (crLiquidity args) (faCurrentFarmAmount attrs) (faCompoundedReward attrs));
               farmingTokens =
                 (if 0 < rwRemainingFarmingEpochs rewardsForPosition'
                  then bn_minus B initialFarmingAmount (bn_integer B
                    (bn_div B (bn_times B initialFarmingAmount
                       (bn_number B (farmPenaltyPercent F (crFarmAddress args))))
                      (bn_number B (of_int MAX_PENALTY_PERCENT))))
                  else initialFarmingAmount)
           in Inr \<lparr>etFarmingTokens = farmingTokens, etRewards = rewards\<rparr>))"

section \<open>Versions 1.2 and 1.3\<close>

definition getRewardsForPosition_v12 ::
  "bignumber \<Rightarrow> chain_view \<Rightarrow> farm_view \<Rightarrow> farm_position_view \<Rightarrow> calculate_rewards_args \<Rightarrow> rewards_model" where
  "getRewardsForPosition_v12 B V F D pos =
     \<lparr>rwIdentifier = crIdentifier pos,
      rwRemainingFarmingEpochs = getRemainingFarmingEpochs V F (crFarmAddress pos)
        (faEnteringEpoch (fromAttributes D (crAttributes pos))),
      rwRewards = bn_integer B (positionRewards (computeFarmRewardsForPosition B F) D pos),
      rwBoostedWeeks = None, rwClaimProgress = None, rwAccumulatedRewards = None\<rparr>"

definition getRewardsForPosition_v13 ::
  "bignumber \<Rightarrow> chain_view \<Rightarrow> farm_view \<Rightarrow> farm_position_view \<Rightarrow> calculate_rewards_args \<Rightarrow> rewards_model" where
  "getRewardsForPosition_v13 B V F D pos =
     \<lparr>rwIdentifier = crIdentifier pos,
      rwRemainingFarmingEpochs = getRemainingFarmingEpochs V F (crFarmAddress pos)
        (faEnteringEpoch (fromAttributes D (crAttributes pos))),
      rwRewards = bn_integer B (positionRewards (computeFarmRewardsForPosition B F) D pos),
      rwBoostedWeeks = None, rwClaimProgress = None, rwAccumulatedRewards = None\<rparr>"

definition getBatchRewardsForPosition ::
  "(calculate_rewards_args \<Rightarrow> rewards_model) \<Rightarrow> calculate_rewards_args list \<Rightarrow> rewards_model list" where
  "getBatchRewardsForPosition rewardsFor positions = map rewardsFor positions"

section \<open>Version 2\<close>

text \<open>The weeks whose boosted rewards are still to be claimed.\<close>

definition boostedWeeks :: "week_view \<Rightarrow> calculate_rewards_args \<Rightarrow> user_week_info list" where
  "boostedWeeks W pos =
     (let now = currentWeek W (crFarmAddress pos);
          lastActive = lastActiveWeekForUser W (crFarmAddress pos) (crUser pos);
          lastActiveWeekUser = (if lastActive = 0 then now else lastActive);
          startWeek = max (now - USER_MAX_CLAIM_WEEKS) lastActiveWeekUser
      in map (\<lambda>week. \<lparr>uwScAddress = crFarmAddress pos, uwUserAddress = crUser pos, uwWeek = week,
             uwPositionAmount = crLiquidity pos\<rparr>)
           (filter (\<lambda>week. \<not> week < 1) [startWeek..now - 1]))"

definition getRewardsForPosition_v2 ::
  "bignumber \<Rightarrow> chain_view \<Rightarrow> week_view \<Rightarrow> farm_view \<Rightarrow> farm_position_view \<Rightarrow> calculate_rewards_args \<Rightarrow> bool
    \<Rightarrow> rewards_model res" where
  "getRewardsForPosition_v2 B V W F D pos computeBoosted =
     (let farm = crFarmAddress pos;
          model = \<lparr>rwIdentifier = crIdentifier pos,
            rwRemainingFarmingEpochs = getRemainingFarmingEpochs V F farm
              (faEnteringEpoch (fromAttributes D (crAttributes pos))),
            rwRewards = bn_integer B (positionRewards (computeFarmRewardsForPosition_v2 B F) D pos),
            rwBoostedWeeks = None, rwClaimProgress = None, rwAccumulatedRewards = None\<rparr>
      in if computeBoosted then
           res_bind (computeUserAccumulatedRewards B W F farm (crUser pos) (currentWeek W farm) (crLiquidity pos))
             (\<lambda>accumulated. Inr (model\<lparr>rwBoostedWeeks := Some (boostedWeeks W pos),
                rwClaimProgress := Some (currentClaimProgress W farm (crUser pos)),
                rwAccumulatedRewards := Some accumulated\<rparr>))
         else Inr model)"

text \<open>
  The position of each farm the boosted rewards of the user are computed on. Positions are
  objects, told apart by their index in the batch.
\<close>

type_synonym boosted_positions = "string \<rightharpoonup> nat \<times> calculate_rewards_args"

definition boostedStep ::
  "bignumber \<Rightarrow> boosted_positions \<Rightarrow> nat \<times> calculate_rewards_args \<Rightarrow> boosted_positions" where
  "boostedStep B boosted entry =
     (let farm = crFarmAddress (snd entry);
          boostedPosition = (case boosted farm of Some b \<Rightarrow> b | None \<Rightarrow> entry)
      in boosted(farm \<mapsto>
           (if bn_greater B (crLiquidity (snd entry)) (crLiquidity (snd boostedPosition))
            then entry else boostedPosition)))"

definition boostedPositions :: "bignumber \<Rightarrow> calculate_rewards_args list \<Rightarrow> boosted_positions" where
  "boostedPositions B positions = foldl (boostedStep B) Map.empty (enumerate 0 positions)"

definition getBatchRewardsForPosition_v2 ::
  "bignumber \<Rightarrow> chain_view \<Rightarrow> week_view \<Rightarrow> farm_view \<Rightarrow> farm_position_view \<Rightarrow> calculate_rewards_args list
    \<Rightarrow> rewards_model list res" where
  "getBatchRewardsForPosition_v2 B V W F D positions =
     res_map (\<lambda>(i, pos). getRewardsForPosition_v2 B V W F D pos
         (map_option fst (boostedPositions B positions (crFarmAddress pos)) = Some i))
       (enumerate 0 positions)"

section \<open>The rule of three\<close>

context bignumber_lib begin

lemma ruleOfThree_fin:
  assumes "0 \<le> part" "0 < tot" "0 \<le> val"
  obtains s where "ruleOfThree B (bn_of_int part) (bn_of_int tot) (bn_of_int val) = bn_of_int s" "0 \<le> s"
    "part \<le> tot \<Longrightarrow> s \<le> val" "part = tot \<Longrightarrow> s = val"
    "\<bar>of_int s - of_int part * of_int val / of_int tot\<bar> \<le> 51 / (100 :: rat)"
proof -
  define x where "x = rat_of_int part * of_int val / of_int tot"
  have x: "0 \<le> x" using assms by (simp add: x_def)
  have eq: "ruleOfThree B (bn_of_int part) (bn_of_int tot) (bn_of_int val) = bn_of_int (half_up (round_dp 20 x))"
    using assms by (simp add: ruleOfThree_def times_fin div_fin integer_fin x_def)
  have le: "half_up (round_dp 20 x) \<le> val" if "part \<le> tot"
  proof -
    have "rat_of_int part * of_int val \<le> of_int tot * of_int val"
      using that assms(3) by (intro mult_right_mono) simp_all
    then have "x \<le> of_int val" using assms(2) by (simp add: x_def pos_divide_le_eq mult.commute)
    then show ?thesis by (intro half_up_le_int round_dp_le_int)
  qed
  have eqv: "half_up (round_dp 20 x) = val" if "part = tot"
    using that assms by (simp add: x_def)
  have "\<bar>rat_of_int (half_up (round_dp 20 x)) - x\<bar> \<le> 51 / 100"
    using half_up_round_error [of x] by simp
  then show ?thesis using that [OF eq] x le eqv by (simp add: x_def half_up_nonneg round_dp_nonneg)
qed

lemma penalty_fin:
  assumes "0 \<le> s" "0 \<le> p" "p \<le> MAX_PENALTY_PERCENT"
  obtains x where "bn_minus B (bn_of_int s) (bn_integer B (bn_div B
      (bn_times B (bn_of_int s) (bn_number B (rat_of_int p))) (bn_number B (of_int MAX_PENALTY_PERCENT)))) = bn_of_int x"
    "0 \<le> x" "x \<le> s" "\<bar>of_int x - of_int s * (1 - of_int p / of_int MAX_PENALTY_PERCENT)\<bar> \<le> 51 / (100 :: rat)"
proof -
  define y where "y = rat_of_int s * of_int p / of_int MAX_PENALTY_PERCENT"
  have m: "MAX_PENALTY_PERCENT = 10000" by (simp add: MAX_PENALTY_PERCENT_def)
  have num: "bn_number B (rat_of_int p) = bn_of_int p" "bn_number B (of_int MAX_PENALTY_PERCENT) = bn_of_int MAX_PENALTY_PERCENT"
    using assms m by (auto intro!: number_int)
  have y: "0 \<le> y" using assms m by (simp add: y_def)
  have "rat_of_int s * of_int p \<le> of_int s * 10000" using assms m by (intro mult_left_mono) simp_all
  then have ys: "y \<le> of_int s" by (simp add: y_def m)
  let ?h = "half_up (round_dp 20 y)"
  have h: "0 \<le> ?h" "?h \<le> s" using y ys by (auto intro!: half_up_nonneg round_dp_nonneg half_up_le_int round_dp_le_int)
  have eq: "bn_minus B (bn_of_int s) (bn_integer B (bn_div B
      (bn_times B (bn_of_int s) (bn_number B (rat_of_int p))) (bn_number B (of_int MAX_PENALTY_PERCENT)))) = bn_of_int (s - ?h)"
    unfolding num using m by (simp add: times_fin div_fin integer_fin minus_fin y_def)
  have "of_int s * (1 - of_int p / of_int MAX_PENALTY_PERCENT) = of_int s - y"
    by (simp add: y_def right_diff_distrib)
  then have "\<bar>of_int (s - ?h) - of_int s * (1 - of_int p / of_int MAX_PENALTY_PERCENT)\<bar> \<le> 51 / (100 :: rat)"
    using half_up_round_error [of y] by (simp add: abs_minus_commute)
  then show ?thesis using that [OF eq] h by simp
qed

end

section \<open>Tokens of an exit\<close>

text \<open>
  Leaving with a part of a farm position returns the same part of the farming tokens, rounded and
  never more than the position holds; before the minimum farming epochs have passed it is reduced by the
  penalty percentage, otherwise not at all. The rewards are those of the position plus the
  same part of the compounded ones, and leaving with everything returns everything.
\<close>

theorem exit_farm_tokens_share:
  assumes "bignumber_lib B"
    "crLiquidity args = bn_of_int l" "0 \<le> l" "l \<le> c"
    "faCurrentFarmAmount (fromAttributes D (crAttributes args)) = bn_of_int c" "0 < c"
    "(if version = V2 then faCurrentFarmAmount (fromAttributes D (crAttributes args))
      else faInitialFarmingAmount (fromAttributes D (crAttributes args))) = bn_of_int a" "0 \<le> a"
    "faCompoundedReward (fromAttributes D (crAttributes args)) = bn_of_int k" "0 \<le> k"
    "rewardsFor args = Inr R" "rwRewards R = bn_of_int r"
    "farmPenaltyPercent F (crFarmAddress args) = of_int p" "0 \<le> p" "p \<le> MAX_PENALTY_PERCENT"
  shows "\<exists>s x w. getTokensForExitFarm B F D version rewardsFor args =
      Inr \<lparr>etFarmingTokens = bn_of_int x, etRewards = bn_of_int w\<rparr> \<and>
    \<bar>of_int s - of_int l * of_int a / of_int c\<bar> \<le> 51 / (100 :: rat) \<and> 0 \<le> x \<and> x \<le> s \<and> s \<le> a \<and>
    (if 0 < rwRemainingFarmingEpochs R
     then \<bar>of_int x - of_int s * (1 - of_int p / of_int MAX_PENALTY_PERCENT)\<bar> \<le> 51 / (100 :: rat) else x = s) \<and>
    r \<le> w \<and> w \<le> r + k \<and> (l = c \<longrightarrow> s = a \<and> w = r + k)"
proof -
  obtain s where s: "ruleOfThree B (bn_of_int l) (bn_of_int c) (bn_of_int a) = bn_of_int s" "0 \<le> s" "s \<le> a"
    "l = c \<Longrightarrow> s = a" "\<bar>of_int s - of_int l * of_int a / of_int c\<bar> \<le> 51 / (100 :: rat)"
    using bignumber_lib.ruleOfThree_fin [OF assms(1,3,6,8)] assms(4) by metis
  obtain t where t: "ruleOfThree B (bn_of_int l) (bn_of_int c) (bn_of_int k) = bn_of_int t" "0 \<le> t" "t \<le> k"
    "l = c \<Longrightarrow> t = k"
    using bignumber_lib.ruleOfThree_fin [OF assms(1,3,6,10)] assms(4) by metis
  obtain x where x: "bn_minus B (bn_of_int s) (bn_integer B (bn_div B
      (bn_times B (bn_of_int s) (bn_number B (rat_of_int p))) (bn_number B (of_int MAX_PENALTY_PERCENT)))) = bn_of_int x"
    "0 \<le> x" "x \<le> s" "\<bar>of_int x - of_int s * (1 - of_int p / of_int MAX_PENALTY_PERCENT)\<bar> \<le> 51 / (100 :: rat)"
    using bignumber_lib.penalty_fin [OF assms(1) s(2) assms(14,15)] .
  have plus: "bn_plus B (bn_of_int r) (bn_of_int t) = bn_of_int (r + t)"
    by (simp add: bignumber_lib.plus_fin [OF assms(1)])
  have eq: "getTokensForExitFarm B F D version rewardsFor args =
      Inr \<lparr>etFarmingTokens = bn_of_int (if 0 < rwRemainingFarmingEpochs R then x else s), etRewards = bn_of_int (r + t)\<rparr>"
    using assms(7) by (simp add: getTokensForExitFarm_def Let_def assms(2,5,9,11-13) s(1) t(1) x(1) plus)
  show ?thesis
    by (intro exI [of _ s] exI [of _ "if 0 < rwRemainingFarmingEpochs R then x else s"] exI [of _ "r + t"])
      (use s t x eq in simp)
qed

definition demo_positions :: farm_position_view where
  "demo_positions = \<lparr>fromAttributes = \<lambda>_. \<lparr>faRewardPerShare = bn_of_int 1000000, faEnteringEpoch = 1,
     faCurrentFarmAmount = bn_of_int 100, faInitialFarmingAmount = bn_of_int 90, faCompoundedReward = bn_of_int 10\<rparr>,
     calculateRewardsForGivenPosition = \<lambda>_. bn_of_int 40\<rparr>"

definition demo_position :: "string \<Rightarrow> int \<Rightarrow> calculate_rewards_args" where
  "demo_position farm l = \<lparr>crFarmAddress = farm, crUser = ''alice'', crLiquidity = bn_of_int l,
     crIdentifier = ''EGLDMEXF-01'', crAttributes = [], crVmQuery = True\<rparr>"

theorem exit_farm_tokens_share_witness:
  "\<exists>x. getTokensForExitFarm bn_js demo_farm demo_positions V1_3
      (\<lambda>a. Inr (getRewardsForPosition_v13 bn_js demo_view demo_farm demo_positions a)) (demo_position ''farm'' 100) =
    Inr \<lparr>etFarmingTokens = bn_of_int x, etRewards = bn_of_int 50\<rparr> \<and> x \<le> 90"
proof -
  let ?R = "getRewardsForPosition_v13 bn_js demo_view demo_farm demo_positions (demo_position ''farm'' 100)"
  have "rwRewards ?R = bn_of_int 40"
    using js.integer_fin [of 40]
    by (simp add: getRewardsForPosition_v13_def positionRewards_def demo_position_def demo_positions_def)
  then show ?thesis
    using exit_farm_tokens_share [OF js.bignumber_lib_axioms, of "demo_position ''farm'' 100" 100 100 demo_positions
        V1_3 90 10 "\<lambda>a. Inr (getRewardsForPosition_v13 bn_js demo_view demo_farm demo_positions a)" ?R 40 demo_farm 100]
    by (simp add: demo_position_def demo_positions_def demo_farm_def MAX_PENALTY_PERCENT_def) blast
qed

section \<open>Boosted rewards of a batch\<close>

text \<open>The first position with the greatest liquidity among those of its farm.\<close>

definition first_top :: "(calculate_rewards_args \<Rightarrow> int) \<Rightarrow> calculate_rewards_args list \<Rightarrow> nat \<Rightarrow> bool" where
  "first_top liq ps i \<longleftrightarrow> i < length ps \<and>
     (\<forall>j<length ps. crFarmAddress (ps ! j) = crFarmAddress (ps ! i) \<longrightarrow> liq (ps ! j) \<le> liq (ps ! i)) \<and>
     (\<forall>j<i. crFarmAddress (ps ! j) = crFarmAddress (ps ! i) \<longrightarrow> liq (ps ! j) < liq (ps ! i))"

lemma first_top_unique:
  assumes "first_top liq ps i" "first_top liq ps j" "crFarmAddress (ps ! i) = crFarmAddress (ps ! j)"
  shows "i = j"
  using assms by (metis first_top_def leD linorder_neqE_nat)

lemma first_top_snoc_new:
  assumes "\<And>j. j < length ps \<Longrightarrow> crFarmAddress (ps ! j) = crFarmAddress q \<Longrightarrow> liq (ps ! j) < liq q"
  shows "first_top liq (ps @ [q]) (length ps)"
  unfolding first_top_def
proof (intro conjI allI impI)
  fix j
  assume "j < length (ps @ [q])" "crFarmAddress ((ps @ [q]) ! j) = crFarmAddress ((ps @ [q]) ! length ps)"
  then show "liq ((ps @ [q]) ! j) \<le> liq ((ps @ [q]) ! length ps)"
    using assms [of j] by (cases "j < length ps") (simp_all add: nth_append)
qed (use assms in \<open>simp_all add: nth_append\<close>)

lemma first_top_snoc_old:
  assumes "first_top liq ps i" "crFarmAddress q = crFarmAddress (ps ! i) \<Longrightarrow> liq q \<le> liq (ps ! i)"
  shows "first_top liq (ps @ [q]) i"
  unfolding first_top_def
proof (intro conjI allI impI)
  fix j
  assume "j < length (ps @ [q])" "crFarmAddress ((ps @ [q]) ! j) = crFarmAddress ((ps @ [q]) ! i)"
  then show "liq ((ps @ [q]) ! j) \<le> liq ((ps @ [q]) ! i)"
    using assms by (cases "j < length ps") (simp_all add: first_top_def nth_append)
qed (use assms in \<open>simp_all add: first_top_def nth_append\<close>)

lemma boostedPositions_snoc:
  "boostedPositions B (ps @ [p]) = boostedStep B (boostedPositions B ps) (length ps, p)"
  by (simp add: boostedPositions_def enumerate_append_eq)

context bignumber_lib begin

lemma boostedPositions_first_top:
  assumes "\<forall>p\<in>set ps. crLiquidity p = bn_of_int (liq p)"
  shows "(boostedPositions B ps farm = None \<longleftrightarrow> farm \<notin> crFarmAddress ` set ps) \<and>
    (\<forall>i p. boostedPositions B ps farm = Some (i, p) \<longrightarrow> p = ps ! i \<and> crFarmAddress p = farm \<and> first_top liq ps i)"
  using assms
proof (induction ps rule: rev_induct)
  case Nil
  then show ?case by (simp add: boostedPositions_def)
next
  case (snoc q ps)
  then have IH: "boostedPositions B ps farm = None \<longleftrightarrow> farm \<notin> crFarmAddress ` set ps"
    "\<And>i p. boostedPositions B ps farm = Some (i, p) \<Longrightarrow> p = ps ! i \<and> crFarmAddress p = farm \<and> first_top liq ps i"
    by auto
  show ?case
  proof (cases "crFarmAddress q = farm")
    case False
    then have "boostedPositions B (ps @ [q]) farm = boostedPositions B ps farm"
      by (simp add: boostedPositions_snoc boostedStep_def Let_def)
    moreover have "p = (ps @ [q]) ! i \<and> crFarmAddress p = farm \<and> first_top liq (ps @ [q]) i"
      if "boostedPositions B ps farm = Some (i, p)" for i p
    proof -
      have ip: "p = ps ! i" "crFarmAddress p = farm" "first_top liq ps i" using IH(2) that by auto
      then show ?thesis using first_top_snoc_old [of liq ps i q] False by (simp add: first_top_def nth_append)
    qed
    ultimately show ?thesis using IH(1) False by simp
  next
    case True
    show ?thesis
    proof (cases "boostedPositions B ps farm")
      case None
      then have "boostedPositions B (ps @ [q]) farm = Some (length ps, q)"
        using True by (simp add: boostedPositions_snoc boostedStep_def Let_def)
      moreover have "crFarmAddress (ps ! j) \<noteq> farm" if "j < length ps" for j
        using None IH(1) that nth_mem [of j ps] by (metis imageI)
      then have "first_top liq (ps @ [q]) (length ps)" using True by (intro first_top_snoc_new) simp
      ultimately show ?thesis using True by simp
    next
      case (Some b)
      obtain i p where b: "b = (i, p)" by (cases b)
      then have ip: "p = ps ! i" "crFarmAddress (ps ! i) = farm" "first_top liq ps i" using IH(2) Some by auto
      then have "i < length ps" by (simp add: first_top_def)
      then have "crLiquidity p = bn_of_int (liq p)" "crLiquidity q = bn_of_int (liq q)"
        using snoc.prems ip(1) by auto
      then have step: "boostedPositions B (ps @ [q]) farm = Some (if liq p < liq q then (length ps, q) else (i, p))"
        using Some b True by (simp add: boostedPositions_snoc boostedStep_def Let_def greater_fin)
      have top: "first_top liq (ps @ [q]) (length ps)" if "liq p < liq q"
        using ip that True by (intro first_top_snoc_new) (metis first_top_def le_less_trans)
      have old: "first_top liq (ps @ [q]) i" if "\<not> liq p < liq q"
        using ip that by (intro first_top_snoc_old) simp_all
      show ?thesis
      proof (cases "liq p < liq q")
        case True
        then show ?thesis using step top \<open>crFarmAddress q = farm\<close> by simp
      next
        case False
        then show ?thesis using step old ip \<open>i < length ps\<close> True by (simp add: nth_append)
      qed
    qed
  qed
qed

lemma boosted_exists:
  assumes "\<forall>p\<in>set ps. crLiquidity p = bn_of_int (liq p)" "i < length ps"
  obtains j where "boostedPositions B ps (crFarmAddress (ps ! i)) = Some (j, ps ! j)" "j < length ps"
    "crFarmAddress (ps ! j) = crFarmAddress (ps ! i)" "first_top liq ps j"
proof -
  have mem: "crFarmAddress (ps ! i) \<in> crFarmAddress ` set ps" using assms(2) by simp
  have inv: "boostedPositions B ps (crFarmAddress (ps ! i)) \<noteq> None"
    "\<And>j p. boostedPositions B ps (crFarmAddress (ps ! i)) = Some (j, p) \<Longrightarrow>
      p = ps ! j \<and> crFarmAddress p = crFarmAddress (ps ! i) \<and> first_top liq ps j"
    using boostedPositions_first_top [OF assms(1), of "crFarmAddress (ps ! i)"] mem by blast+
  obtain j p where jp: "boostedPositions B ps (crFarmAddress (ps ! i)) = Some (j, p)" using inv(1) by force
  then have p: "p = ps ! j" "crFarmAddress (ps ! j) = crFarmAddress (ps ! i)" "first_top liq ps j"
    using inv(2) by blast+
  moreover have "j < length ps" using p(3) by (simp add: first_top_def)
  ultimately show ?thesis using that jp by blast
qed

lemma boosted_index:
  assumes "\<forall>p\<in>set ps. crLiquidity p = bn_of_int (liq p)" "i < length ps"
  shows "map_option fst (boostedPositions B ps (crFarmAddress (ps ! i))) = Some i \<longleftrightarrow> first_top liq ps i"
proof -
  obtain j where j: "boostedPositions B ps (crFarmAddress (ps ! i)) = Some (j, ps ! j)"
    "crFarmAddress (ps ! j) = crFarmAddress (ps ! i)" "first_top liq ps j"
    using boosted_exists [OF assms] by metis
  show ?thesis
  proof
    assume "first_top liq ps i"
    then have "j = i" using first_top_unique [OF j(3)] j(2) by blast
    then show "map_option fst (boostedPositions B ps (crFarmAddress (ps ! i))) = Some i" by (simp add: j(1))
  qed (use j in simp)
qed

end

lemma rewards_v2_boosted:
  assumes "getRewardsForPosition_v2 B V W F D pos boosted = Inr m"
  shows "(rwAccumulatedRewards m \<noteq> None \<longleftrightarrow> boosted) \<and>
    rwRewards m = bn_integer B (positionRewards (computeFarmRewardsForPosition_v2 B F) D pos)"
  using assms
  by (cases "computeUserAccumulatedRewards B W F (crFarmAddress pos) (crUser pos)
      (currentWeek W (crFarmAddress pos)) (crLiquidity pos)")
    (auto simp: getRewardsForPosition_v2_def Let_def split: if_splits)

text \<open>
  C20. A batch of positions in version 2 farms answers every position in order with its own rewards, and
  adds the user's boosted rewards to exactly one position of each farm, the first of those with the
  greatest liquidity, so no boosted reward is shown twice.
\<close>

theorem batch_boosts_once_per_farm:
  assumes "bignumber_lib B" "\<forall>p\<in>set ps. crLiquidity p = bn_of_int (liq p)"
    "getBatchRewardsForPosition_v2 B V W F D ps = Inr rs"
  shows "length rs = length ps \<and>
    (\<forall>i<length ps.
       rwRewards (rs ! i) = bn_integer B (positionRewards (computeFarmRewardsForPosition_v2 B F) D (ps ! i)) \<and>
       (rwAccumulatedRewards (rs ! i) \<noteq> None \<longleftrightarrow> first_top liq ps i) \<and>
       (\<exists>!j. j < length ps \<and> crFarmAddress (ps ! j) = crFarmAddress (ps ! i) \<and>
          rwAccumulatedRewards (rs ! j) \<noteq> None))"
proof -
  let ?f = "\<lambda>(i, pos). getRewardsForPosition_v2 B V W F D pos
         (map_option fst (boostedPositions B ps (crFarmAddress pos)) = Some i)"
  have rm: "res_map ?f (enumerate 0 ps) = Inr rs" using assms(3) by (simp add: getBatchRewardsForPosition_v2_def)
  have len: "length rs = length ps"
    and each: "i < length ps \<Longrightarrow> ?f (i, ps ! i) = Inr (rs ! i)" for i
    using rm unfolding res_map_Inr_iff list_all2_conv_all_nth by (simp_all add: nth_enumerate_eq)
  have acc: "rwRewards (rs ! i) = bn_integer B (positionRewards (computeFarmRewardsForPosition_v2 B F) D (ps ! i)) \<and>
      (rwAccumulatedRewards (rs ! i) \<noteq> None \<longleftrightarrow> first_top liq ps i)" if "i < length ps" for i
    using rewards_v2_boosted [of B V W F D "ps ! i"] each [OF that]
      bignumber_lib.boosted_index [OF assms(1,2) that] by auto
  have ex: "\<exists>!j. j < length ps \<and> crFarmAddress (ps ! j) = crFarmAddress (ps ! i) \<and>
          rwAccumulatedRewards (rs ! j) \<noteq> None" if i: "i < length ps" for i
  proof -
    obtain j where j: "j < length ps" "crFarmAddress (ps ! j) = crFarmAddress (ps ! i)" "first_top liq ps j"
      using bignumber_lib.boosted_exists [OF assms(1,2) i] by metis
    show ?thesis
    proof (rule ex1I [of _ j])
      fix m
      assume m: "m < length ps \<and> crFarmAddress (ps ! m) = crFarmAddress (ps ! i) \<and> rwAccumulatedRewards (rs ! m) \<noteq> None"
      then have "first_top liq ps m" using acc by blast
      then show "m = j" using first_top_unique [OF _ j(3)] m j(2) by simp
    qed (use acc j in blast)
  qed
  show ?thesis using len acc ex by blast
qed

theorem batch_boosts_once_per_farm_witness:
  "\<exists>rs. getBatchRewardsForPosition_v2 bn_js demo_view demo_week demo_farm demo_positions
      [demo_position ''farm'' 5, demo_position ''farm'' 7] = Inr rs \<and>
    rwAccumulatedRewards (rs ! 0) = None \<and> rwAccumulatedRewards (rs ! 1) \<noteq> None"
proof -
  let ?ps = "[demo_position ''farm'' 5, demo_position ''farm'' 7]"
  define liq where "liq p = (if crLiquidity p = bn_of_int 5 then 5 else 7 :: int)" for p :: calculate_rewards_args
  have liq: "\<forall>p\<in>set ?ps. crLiquidity p = bn_of_int (liq p)" by (simp add: liq_def demo_position_def)
  have "computeStartEpochForWeek (firstWeekStartEpoch demo_week ''farm'') 2 = Inr 8"
    by (simp add: computeStartEpochForWeek_def demo_week_def EPOCHS_IN_WEEK_def)
  then obtain b where blocks: "computeBlocksInWeek demo_week ''farm'' 2 = Inr b"
    using computeBlocksInWeek_sum [of demo_week "''farm''" 2 8] by (simp add: demo_week_def)
  have "\<exists>rs. getBatchRewardsForPosition_v2 bn_js demo_view demo_week demo_farm demo_positions ?ps = Inr rs"
    using blocks
    by (simp add: getBatchRewardsForPosition_v2_def getRewardsForPosition_v2_def computeUserAccumulatedRewards_def
        demo_position_def demo_week_def demo_farm_def Let_def)
  then obtain rs where rs: "getBatchRewardsForPosition_v2 bn_js demo_view demo_week demo_farm demo_positions ?ps = Inr rs" ..
  have "\<not> first_top liq ?ps 0" "first_top liq ?ps 1"
    by (auto simp: first_top_def demo_position_def liq_def less_Suc_eq)
  then show ?thesis using batch_boosts_once_per_farm [OF js.bignumber_lib_axioms liq rs] rs by auto
qed

end
