(* ===== verification/TransactionProcessor.thy ===== *)
theory TransactionProcessor
  imports PairTransactions TokenConverters "HOL-Library.Multiset"
begin

text \<open>
  The scheduled job that measures the unused gas of the transactions sent to the exchange:
  \<open>src/services/crons/transaction.processor.service.ts\<close>. Every ten seconds the job takes the
  transactions of the window after the last processed block time, finds the endpoint each one calls
  behind the built-in transfer functions, and observes the difference of gas limit and gas used.

  The asynchronous method is a step relation: one step per statement between two awaits, so that
  the chain and the cache may change while it waits. The transactions come from the API and the
  addresses from \<open>@multiversx/sdk-core\<close>: both are arguments. Strings are the bytes of their
  UTF-8 form.
\<close>

section \<open>Buffers\<close>

text \<open>\<open>Buffer.from(s, 'base64')\<close> reads both alphabets, skips other characters and stops at the padding.\<close>

definition base64_value :: "char \<Rightarrow> nat option" where
  "base64_value c = (let n = of_char c in
     if 65 \<le> n \<and> n \<le> 90 then Some (n - 65)
     else if 97 \<le> n \<and> n \<le> 122 then Some (n - 71)
     else if 48 \<le> n \<and> n \<le> 57 then Some (n + 4)
     else if n = 43 \<or> n = 45 then Some 62
     else if n = 47 \<or> n = 95 then Some 63
     else None)"

fun base64_bytes :: "nat list \<Rightarrow> string" where
  "base64_bytes (a # b # c # d # rest) =
     char_of (a * 4 + b div 16) # char_of (b mod 16 * 16 + c div 4) # char_of (c mod 4 * 64 + d)
       # base64_bytes rest"
| "base64_bytes [a, b, c] = [char_of (a * 4 + b div 16), char_of (b mod 16 * 16 + c div 4)]"
| "base64_bytes [a, b] = [char_of (a * 4 + b div 16)]"
| "base64_bytes _ = []"

definition fromBase64 :: "string \<Rightarrow> string" where
  "fromBase64 s = base64_bytes (List.map_filter base64_value (takeWhile (\<lambda>c. c \<noteq> CHR ''='') s))"

text \<open>\<open>Buffer.from(s, 'hex')\<close> reads pairs of digits up to the first pair that is none.\<close>

fun fromHex :: "string \<Rightarrow> string" where
  "fromHex (a # b # rest) =
     (case (hex_value a, hex_value b) of
        (Some x, Some y) \<Rightarrow> char_of (x * 16 + y) # fromHex rest
      | _ \<Rightarrow> [])"
| "fromHex _ = []"

section \<open>Transactions\<close>

record processed_tx =
  txData :: "string option"
  txReceiver :: string
  txGasLimit :: int
  txGasUsed :: int
  txTimestamp :: int

record gas_metric =
  gmEndpoint :: string
  gmReceiver :: string
  gmDifference :: int

record processor_config =
  measuredEndpoints :: "string list"
  bech32 :: "string option \<Rightarrow> string res"

definition ESDTTransferEndpoint :: "string list \<Rightarrow> string option" where
  "ESDTTransferEndpoint functionArgs =
     (if length functionArgs < 3 then None else Some (fromHex (functionArgs ! 2)))"

definition ESDTNFTTransferEndpoint :: "string list \<Rightarrow> string option" where
  "ESDTNFTTransferEndpoint functionArgs =
     (if length functionArgs < 5 then None else Some (fromHex (functionArgs ! 4)))"

text \<open>
  The number of tokens may be NaN, and no comparison with NaN holds; reading the buffer of an
  undefined argument throws.
\<close>

definition MultiESDTNFTTransferEndpoint :: "string list \<Rightarrow> string option res" where
  "MultiESDTNFTTransferEndpoint functionArgs =
     (case parseInt16 (template_of (js_index functionArgs 1)) of
        None \<Rightarrow> Inl TypeError
      | Some tokensLength \<Rightarrow>
          if int (length functionArgs) < 2 + tokensLength * 3 then Inr None
          else if 2 + tokensLength * 3 < 0 then Inl TypeError
          else case js_index functionArgs (nat (2 + tokensLength * 3)) of
            None \<Rightarrow> Inl TypeError
          | Some arg \<Rightarrow> Inr (Some (fromHex arg)))"

definition ESDTNFTTransferReceiver :: "processor_config \<Rightarrow> string list \<Rightarrow> string res" where
  "ESDTNFTTransferReceiver P functionArgs = bech32 P (js_index functionArgs 3)"

definition MultiESDTNFTTransferReceiver :: "processor_config \<Rightarrow> string list \<Rightarrow> string res" where
  "MultiESDTNFTTransferReceiver P functionArgs = bech32 P (js_index functionArgs 0)"

text \<open>The called endpoint and the contract, behind the transfer functions.\<close>

definition calledEndpoint :: "processor_config \<Rightarrow> processed_tx \<Rightarrow> string list \<Rightarrow> (string option \<times> string) res" where
  "calledEndpoint P tx decodedInputData =
     (let functionName = hd decodedInputData; functionArgs = tl decodedInputData in
      if functionName = ''ESDTTransfer'' then Inr (ESDTTransferEndpoint functionArgs, txReceiver tx)
      else if functionName = ''ESDTNFTTransfer'' then
        res_bind (ESDTNFTTransferReceiver P functionArgs) (\<lambda>r. Inr (ESDTNFTTransferEndpoint functionArgs, r))
      else if functionName = ''MultiESDTNFTTransfer'' then
        res_bind (MultiESDTNFTTransferEndpoint functionArgs) (\<lambda>e.
        res_bind (MultiESDTNFTTransferReceiver P functionArgs) (\<lambda>r. Inr (e, r)))
      else Inr (Some functionName, txReceiver tx))"

definition processTransaction :: "processor_config \<Rightarrow> processed_tx \<Rightarrow> gas_metric list res" where
  "processTransaction P tx =
     (case txData tx of
        None \<Rightarrow> Inr []
      | Some data \<Rightarrow>
          res_bind (calledEndpoint P tx (split_on CHR ''@'' (fromBase64 data))) (\<lambda>(endpoint, receiver).
            case endpoint of
              Some e \<Rightarrow> (if e \<noteq> [] \<and> e \<in> set (measuredEndpoints P)
                then Inr [\<lparr>gmEndpoint = e, gmReceiver = receiver, gmDifference = txGasLimit tx - txGasUsed tx\<rparr>]
                else Inr [])
            | None \<Rightarrow> Inr []))"

text \<open>The loop over a batch: what was observed before an exception stays observed.\<close>

fun processBatch :: "processor_config \<Rightarrow> processed_tx list \<Rightarrow> gas_metric list \<times> bool" where
  "processBatch P [] = ([], True)"
| "processBatch P (tx # txs) =
     (case processTransaction P tx of
        Inl e \<Rightarrow> ([], False)
      | Inr ms \<Rightarrow> (let (ms', ok) = processBatch P txs in (ms @ ms', ok)))"

section \<open>The job\<close>

text \<open>Where the running invocation waits.\<close>

datatype job_point =
    Waiting
  | ReadingCache
  | ReadingTimestamp "int option"
  | FetchingTransactions int int
  | SavingTimestamp int

record processor =
  isProcessing :: bool
  jobPoint :: job_point
  lastProcessedTimestamp :: "int option"
  observed :: "gas_metric list"
  shardTimestamp :: int
  chainTxs :: "processed_tx list"

text \<open>A missing timestamp and the timestamp zero are both false.\<close>

definition truthy_ts :: "int option \<Rightarrow> int option" where
  "truthy_ts ts = (case ts of Some t \<Rightarrow> if t = 0 then None else Some t | None \<Rightarrow> None)"

definition finishJob :: "processor \<Rightarrow> processor" where
  "finishJob s = s\<lparr>isProcessing := False, jobPoint := Waiting\<rparr>"

text \<open>The statements after the block time has arrived.\<close>

definition gotTimestamp :: "int option \<Rightarrow> processor \<Rightarrow> processor" where
  "gotTimestamp cached s =
     (let currentTimestamp = shardTimestamp s;
          lastProcessed = (case truthy_ts cached of Some t \<Rightarrow> t | None \<Rightarrow> currentTimestamp)
      in s\<lparr>jobPoint := if currentTimestamp = lastProcessed then SavingTimestamp currentTimestamp
           else FetchingTransactions lastProcessed currentTimestamp\<rparr>)"

text \<open>The statements after the transactions have arrived; an exception ends the invocation.\<close>

definition gotTransactions :: "processor_config \<Rightarrow> int \<Rightarrow> processed_tx list \<Rightarrow> processor \<Rightarrow> processor" where
  "gotTransactions P currentTimestamp transactions s =
     (let (ms, ok) = processBatch P transactions;
          s' = s\<lparr>observed := observed s @ ms\<rparr>
      in if ok then s'\<lparr>jobPoint := SavingTimestamp currentTimestamp\<rparr> else finishJob s')"

datatype job_event = Tick | Continue | RequestRejected | SaveRejected | CacheExpired | NewBlock

text \<open>
  \<open>api txs after before\<close> is what the transaction query answers when the chain holds \<open>txs\<close>. Each
  request may be rejected, the cached timestamp may expire, the chain grows by transactions later
  than its present time, and an invocation that finds another one running returns at once.
\<close>

inductive job_step ::
  "processor_config \<Rightarrow> (processed_tx list \<Rightarrow> int \<Rightarrow> int \<Rightarrow> processed_tx list) \<Rightarrow> job_event \<Rightarrow> processor
    \<Rightarrow> processor \<Rightarrow> bool" for P api where
  ignored: "isProcessing s \<Longrightarrow> job_step P api Tick s s"
| started: "\<not> isProcessing s \<Longrightarrow> job_step P api Tick s (s\<lparr>isProcessing := True, jobPoint := ReadingCache\<rparr>)"
| cache_read: "jobPoint s = ReadingCache \<Longrightarrow>
    job_step P api Continue s (s\<lparr>jobPoint := ReadingTimestamp (lastProcessedTimestamp s)\<rparr>)"
| timestamp_read: "jobPoint s = ReadingTimestamp cached \<Longrightarrow> job_step P api Continue s (gotTimestamp cached s)"
| fetched: "jobPoint s = FetchingTransactions l c \<Longrightarrow>
    job_step P api Continue s (gotTransactions P c (api (chainTxs s) (l + 1) c) s)"
| saved: "jobPoint s = SavingTimestamp c \<Longrightarrow>
    job_step P api Continue s (finishJob (s\<lparr>lastProcessedTimestamp := Some c\<rparr>))"
| rejected: "jobPoint s \<noteq> Waiting \<Longrightarrow> (\<And>c. jobPoint s \<noteq> SavingTimestamp c) \<Longrightarrow>
    job_step P api RequestRejected s (finishJob s)"
| not_saved: "jobPoint s = SavingTimestamp c \<Longrightarrow> job_step P api SaveRejected s (finishJob s)"
| expired: "job_step P api CacheExpired s (s\<lparr>lastProcessedTimestamp := None\<rparr>)"
| block: "shardTimestamp s \<le> t \<Longrightarrow> (\<And>tx. tx \<in> set txs \<Longrightarrow> shardTimestamp s < txTimestamp tx \<and> txTimestamp tx \<le> t) \<Longrightarrow>
    job_step P api NewBlock s (s\<lparr>shardTimestamp := t, chainTxs := chainTxs s @ txs\<rparr>)"

inductive job_run ::
  "processor_config \<Rightarrow> (processed_tx list \<Rightarrow> int \<Rightarrow> int \<Rightarrow> processed_tx list) \<Rightarrow> job_event list \<Rightarrow> processor
    \<Rightarrow> processor \<Rightarrow> bool" for P api where
  empty: "job_run P api [] s s"
| step: "job_run P api evs s s' \<Longrightarrow> job_step P api ev s' s'' \<Longrightarrow> job_run P api (evs @ [ev]) s s''"


section \<open>Lemmas\<close>

text \<open>The metrics of one transaction that is well formed.\<close>

definition metricsOf :: "processor_config \<Rightarrow> processed_tx \<Rightarrow> gas_metric list" where
  "metricsOf P tx = (case processTransaction P tx of Inr ms \<Rightarrow> ms | Inl e \<Rightarrow> [])"

definition malformed :: "processor_config \<Rightarrow> processed_tx \<Rightarrow> bool" where
  "malformed P tx \<longleftrightarrow> (\<exists>e. processTransaction P tx = Inl e)"



text \<open>What the transactions with timestamps in \<open>(a, b]\<close> are due to add to the histogram.\<close>

definition due :: "processor_config \<Rightarrow> processed_tx list \<Rightarrow> int \<Rightarrow> int \<Rightarrow> gas_metric multiset" where
  "due P txs a b =
     (\<Sum>tx\<in>#filter_mset (\<lambda>tx. a < txTimestamp tx \<and> txTimestamp tx \<le> b) (mset txs). mset (metricsOf P tx))"






section \<open>Every transaction is measured\<close>

inductive_cases job_stepE: "job_step P api ev s s'"

text \<open>
  What holds between two steps of a job that started with the timestamp \<open>t0\<close> cached: the cached
  timestamp is past \<open>t0\<close>, the point of the invocation agrees with it, and the histogram holds what is
  due up to the cached (or about to be cached) timestamp, exactly so when no save failed.
\<close>

definition measured_upto :: "processor_config \<Rightarrow> int \<Rightarrow> bool \<Rightarrow> processor \<Rightarrow> int \<Rightarrow> bool" where
  "measured_upto P t0 exact s b \<longleftrightarrow>
     due P (chainTxs s) t0 b \<subseteq># mset (observed s) \<and> (exact \<longrightarrow> mset (observed s) = due P (chainTxs s) t0 b)"


lemma measured_upto_sel [simp]:
  "measured_upto P t0 exact (s\<lparr>isProcessing := b\<rparr>) = measured_upto P t0 exact s"
  "measured_upto P t0 exact (s\<lparr>jobPoint := p\<rparr>) = measured_upto P t0 exact s"
  "measured_upto P t0 exact (s\<lparr>lastProcessedTimestamp := l\<rparr>) = measured_upto P t0 exact s"
  by (simp_all add: measured_upto_def fun_eq_iff)





lemma job_step_chain: "job_step P api ev s s' \<Longrightarrow> set (chainTxs s) \<subseteq> set (chainTxs s')"
  by (erule job_stepE)
     (auto simp: gotTimestamp_def gotTransactions_def finishJob_def Let_def split: prod.splits)

lemma job_run_chain: "job_run P api evs s s' \<Longrightarrow> set (chainTxs s) \<subseteq> set (chainTxs s')"
  by (induction rule: job_run.induct) (auto dest: job_step_chain)




section \<open>A malformed transaction blocks the job\<close>




text \<open>A transfer of several tokens without a call is malformed: its arguments end after the last token.\<close>

lemma plain_multi_transfer_malformed:
  assumes "txData tx = Some data" "split_on CHR ''@'' (fromBase64 data) = ''MultiESDTNFTTransfer'' # args"
    and "2 \<le> length args" "parseInt16 (args ! 1) = Some k" "int (length args) = 2 + k * 3"
  shows "malformed P tx"
proof -
  have "js_index args (nat (2 + k * 3)) = None" "js_index args 1 = Some (args ! 1)"
    using assms(3,5) by (auto simp: js_index_def)
  then show ?thesis
    using assms by (simp add: malformed_def processTransaction_def calledEndpoint_def
        MultiESDTNFTTransferEndpoint_def template_of_def)
qed


section \<open>Witnesses\<close>












end
