(* ===== verification/LogsProcessor.thy ===== *)
theory LogsProcessor
  imports PairTransactions FarmUtils "HOL-Library.Multiset" "HOL-Library.AList"
begin

text \<open>
  The scheduled job that records the MEX burned by swaps and by penalties of farm exits:
  \<open>src/services/crons/logs.processor.service.ts\<close>, with the paged search of
  \<open>src/helpers/elastic.service.ts\<close> it reads the logs with. The topics of an event are decoded by
  \<open>@multiversx/sdk-exchange\<close>: the decoded values are fields of the event. The two maps from
  timestamps to amounts keep their keys in the order of insertion, as association lists.
\<close>

section \<open>Paged search\<close>

text \<open>
  The pages the search engine answers one after the other, each with the identifier of the scroll
  when there is one. The loop ends with the first empty page or missing identifier.
\<close>

fun scrollSearch :: "('a list \<times> bool) list \<Rightarrow> 'a list" where
  "scrollSearch [] = []"
| "scrollSearch ((sourceHits, scroll_id) # pages) =
     (if sourceHits = [] then [] else if \<not> scroll_id then sourceHits else sourceHits @ scrollSearch pages)"

section \<open>Logs\<close>

record log_event =
  evIdentifier :: string
  evAddress :: string
  evData :: string
  evBurnTokenID :: string
  evBurnAmount :: bn
  evRewardAmount :: bn
  evFarmingTokenID :: string
  evFarmingAmount :: bn
  evLockedRewards :: bool

record transaction_log =
  logTimestamp :: int
  logEvents :: "log_event list"

datatype exit_farm_event = ExitFarmEventV1_2 log_event | ExitFarmEventV1_3 log_event

type_synonym amounts = "(int \<times> bn) list"

text \<open>\<open>toFixed()\<close> of an amount is the string \<open>0\<close> exactly for zero; a recorded string is never empty.\<close>

definition addEntry :: "bignumber \<Rightarrow> int \<Rightarrow> bn \<Rightarrow> amounts \<Rightarrow> amounts" where
  "addEntry B t v m =
     (if v = Fin 0 then m
      else case map_of m t of
        Some entry \<Rightarrow> AList.update t (bn_plus B entry v) m
      | None \<Rightarrow> AList.update t v m)"

section \<open>Burned fees\<close>

definition burnEvents :: "log_event list \<Rightarrow> log_event list" where
  "burnEvents events = filter (\<lambda>e. evIdentifier e = ''ESDTLocalBurn'') events"

definition getBurnedFee :: "bignumber \<Rightarrow> string \<Rightarrow> log_event list \<Rightarrow> bn" where
  "getBurnedFee B mex localBurns =
     foldl (\<lambda>fee e. if evBurnTokenID e \<noteq> mex then fee else bn_plus B fee (evBurnAmount e)) (Fin 0) localBurns"

definition processSwapEvents :: "bignumber \<Rightarrow> string \<Rightarrow> transaction_log \<Rightarrow> amounts \<Rightarrow> amounts" where
  "processSwapEvents B mex lg feeMap =
     addEntry B (logTimestamp lg) (getBurnedFee B mex (burnEvents (logEvents lg))) feeMap"

text \<open>\<open>logsOf eventName\<close> are the logs of the window with an event of that name.\<close>

definition getSwapLogs ::
  "bignumber \<Rightarrow> string \<Rightarrow> (string \<Rightarrow> transaction_log list) \<Rightarrow> string \<Rightarrow> amounts \<Rightarrow> amounts" where
  "getSwapLogs B mex logsOf swapType feeMap =
     foldl (\<lambda>m lg. processSwapEvents B mex lg m) feeMap (logsOf swapType)"

definition feeMapOf :: "bignumber \<Rightarrow> string \<Rightarrow> (string \<Rightarrow> transaction_log list) \<Rightarrow> amounts" where
  "feeMapOf B mex logsOf =
     getSwapLogs B mex logsOf ''swapTokensFixedOutput'' (getSwapLogs B mex logsOf ''swapTokensFixedInput'' [])"

section \<open>Burned penalties\<close>

definition exitEventOf :: "farms_config \<Rightarrow> log_event \<Rightarrow> exit_farm_event option" where
  "exitEventOf table e =
     (if evData e = [] then None
      else case farmVersion table (evAddress e) of
        Some V1_2 \<Rightarrow> Some (ExitFarmEventV1_2 e)
      | Some V1_3 \<Rightarrow> Some (ExitFarmEventV1_3 e)
      | _ \<Rightarrow> None)"

text \<open>The last exit of the log that a version can be read for.\<close>

definition lastExit :: "farms_config \<Rightarrow> log_event list \<Rightarrow> exit_farm_event option" where
  "lastExit table events =
     foldl (\<lambda>found e. if evIdentifier e = ''exitFarm'' then
         (case exitEventOf table e of Some x \<Rightarrow> Some x | None \<Rightarrow> found) else found) None events"

fun exitOf :: "exit_farm_event \<Rightarrow> log_event" where
  "exitOf (ExitFarmEventV1_2 e) = e"
| "exitOf (ExitFarmEventV1_3 e) = e"

fun lockedRewards :: "exit_farm_event \<Rightarrow> bool" where
  "lockedRewards (ExitFarmEventV1_2 e) = evLockedRewards e"
| "lockedRewards (ExitFarmEventV1_3 e) = False"

definition skippedBurn :: "string \<Rightarrow> exit_farm_event \<Rightarrow> log_event \<Rightarrow> bool" where
  "skippedBurn mex x burn \<longleftrightarrow>
     evBurnTokenID burn \<noteq> mex \<or>
     (evBurnAmount burn = evRewardAmount (exitOf x) \<and> lockedRewards x) \<or>
     (evBurnAmount burn = evFarmingAmount (exitOf x) \<and> evBurnTokenID burn = evFarmingTokenID (exitOf x))"

definition getBurnedPenalty :: "bignumber \<Rightarrow> string \<Rightarrow> exit_farm_event \<Rightarrow> log_event list \<Rightarrow> bn" where
  "getBurnedPenalty B mex x localBurns =
     foldl (\<lambda>penalty burn. if skippedBurn mex x burn then penalty else bn_plus B penalty (evBurnAmount burn))
       (Fin 0) localBurns"

definition processExitFarmEvents ::
  "bignumber \<Rightarrow> farms_config \<Rightarrow> string \<Rightarrow> transaction_log \<Rightarrow> amounts \<Rightarrow> amounts" where
  "processExitFarmEvents B table mex lg penaltyMap =
     (case lastExit table (logEvents lg) of
        None \<Rightarrow> penaltyMap
      | Some x \<Rightarrow> addEntry B (logTimestamp lg) (getBurnedPenalty B mex x (burnEvents (logEvents lg))) penaltyMap)"

definition penaltyMapOf ::
  "bignumber \<Rightarrow> farms_config \<Rightarrow> string \<Rightarrow> (string \<Rightarrow> transaction_log list) \<Rightarrow> amounts" where
  "penaltyMapOf B table mex logsOf =
     foldl (\<lambda>m lg. processExitFarmEvents B table mex lg m) [] (logsOf ''exitFarm'')"

section \<open>Writing the records\<close>

record ingest_record =
  irSeries :: string
  irKey :: string
  irValue :: bn
  irTimestamp :: int

text \<open>
  The batches handed to the analytics store, in order, and how many records were reported: the
  store may be disabled, and a batch whose write throws reports \<open>undefined\<close>, which makes the count
  NaN (\<open>None\<close>). \<open>accepts\<close> tells the batches whose write does not throw.
\<close>

record writer =
  wrEnabled :: bool
  wrAccepts :: "ingest_record list \<Rightarrow> bool"

definition pushRecords :: "writer \<Rightarrow> ingest_record list \<Rightarrow> ingest_record list list \<times> nat option" where
  "pushRecords w records =
     (if \<not> wrEnabled w then ([], Some 0)
      else ([records], if wrAccepts w records then Some (length records) else None))"

definition nan_add :: "nat option \<Rightarrow> nat option \<Rightarrow> nat option" where
  "nan_add a b = (case (a, b) of (Some x, Some y) \<Rightarrow> Some (x + y) | _ \<Rightarrow> None)"

fun writeLoop ::
  "writer \<Rightarrow> string \<Rightarrow> string \<Rightarrow> amounts \<Rightarrow> ingest_record list \<Rightarrow> ingest_record list list \<Rightarrow> nat option
    \<Rightarrow> ingest_record list list \<times> nat option" where
  "writeLoop w mex metric [] records pushed total' =
     (if 0 < length records then
        (let (batch, n) = pushRecords w records in (pushed @ batch, nan_add total' n))
      else (pushed, total'))"
| "writeLoop w mex metric ((t, v) # entries) records pushed total' =
     (let records' = records @ [\<lparr>irSeries = mex, irKey = metric, irValue = v, irTimestamp = t\<rparr>] in
      if length records' = 100 then
        (let (batch, n) = pushRecords w records'
         in writeLoop w mex metric entries [] (pushed @ batch) (nan_add total' n))
      else writeLoop w mex metric entries records' pushed total')"

definition writeRecords :: "writer \<Rightarrow> string \<Rightarrow> string \<Rightarrow> amounts \<Rightarrow> ingest_record list list \<times> nat option" where
  "writeRecords w mex metric recordsMap = writeLoop w mex metric recordsMap [] [] (Some 0)"

definition getFeeBurned ::
  "bignumber \<Rightarrow> writer \<Rightarrow> string \<Rightarrow> (string \<Rightarrow> transaction_log list) \<Rightarrow> ingest_record list list" where
  "getFeeBurned B w mex logsOf = fst (writeRecords w mex ''feeBurned'' (feeMapOf B mex logsOf))"

definition getExitFarmLogs ::
  "bignumber \<Rightarrow> farms_config \<Rightarrow> writer \<Rightarrow> string \<Rightarrow> (string \<Rightarrow> transaction_log list) \<Rightarrow> ingest_record list list" where
  "getExitFarmLogs B table w mex logsOf =
     fst (writeRecords w mex ''penaltyBurned'' (penaltyMapOf B table mex logsOf))"

section \<open>The job\<close>

text \<open>
  \<open>elastic eventName first last\<close> answers the query of \<open>getTransactionsLogs\<close>, both bounds included.
  The result is the cached timestamp after the run and the batches written.
\<close>

definition getTransactionsLogs ::
  "(string \<Rightarrow> int \<Rightarrow> int \<Rightarrow> (transaction_log list \<times> bool) list) \<Rightarrow> int \<Rightarrow> int \<Rightarrow> string \<Rightarrow> transaction_log list" where
  "getTransactionsLogs elastic lastProcessed current eventName =
     scrollSearch (elastic eventName lastProcessed current)"

definition getProcessingInterval :: "int option \<Rightarrow> int \<Rightarrow> int \<Rightarrow> int \<times> int" where
  "getProcessingInterval cached shardTime delay =
     (let current = shardTime - delay
      in (case cached of
            Some t \<Rightarrow> if t = 0 then (current, current) else (t, current)
          | None \<Rightarrow> (current, current)))"

definition handleNewLogs ::
  "bignumber \<Rightarrow> farms_config \<Rightarrow> writer \<Rightarrow> string
    \<Rightarrow> (string \<Rightarrow> int \<Rightarrow> int \<Rightarrow> (transaction_log list \<times> bool) list) \<Rightarrow> int option \<Rightarrow> int
    \<Rightarrow> int option \<times> ingest_record list list" where
  "handleNewLogs B table w mex elastic cached shardTime =
     (let (lastProcessed, current) = getProcessingInterval cached shardTime 60;
          logsOf = getTransactionsLogs elastic lastProcessed current
      in if lastProcessed = current then (Some current, [])
         else (Some current, getFeeBurned B w mex logsOf @ getExitFarmLogs B table w mex logsOf))"


section \<open>Amounts per timestamp\<close>

definition burnOf :: "log_event \<Rightarrow> int" where
  "burnOf e = (case evBurnAmount e of Fin q \<Rightarrow> \<lfloor>q\<rfloor> | _ \<Rightarrow> 0)"

text \<open>The burned amounts of a log are amounts of tokens.\<close>

definition sound_log :: "transaction_log \<Rightarrow> bool" where
  "sound_log lg \<longleftrightarrow> (\<forall>e\<in>set (logEvents lg). evBurnAmount e = bn_of_int (burnOf e) \<and> 0 \<le> burnOf e)"

definition mexBurned :: "string \<Rightarrow> transaction_log \<Rightarrow> int" where
  "mexBurned mex lg = sum_list (map burnOf (filter (\<lambda>e. evBurnTokenID e = mex) (burnEvents (logEvents lg))))"

definition has_event :: "string \<Rightarrow> transaction_log \<Rightarrow> bool" where
  "has_event name lg \<longleftrightarrow> (\<exists>e\<in>set (logEvents lg). evIdentifier e = name)"

text \<open>A map holds the non-zero values of a function, each once.\<close>

definition tallies :: "amounts \<Rightarrow> (int \<Rightarrow> int) \<Rightarrow> bool" where
  "tallies m f \<longleftrightarrow> distinct (map fst m) \<and> (\<forall>t. 0 \<le> f t) \<and>
     map_of m = (\<lambda>t. if f t = 0 then None else Some (bn_of_int (f t)))"

lemma tallies_add:
  assumes "bignumber_lib B" "tallies m f" "0 \<le> n"
  shows "tallies (addEntry B t (bn_of_int n) m) (f(t := f t + n))"
proof -
  have plus: "bn_plus B (bn_of_int (f t)) (bn_of_int n) = bn_of_int (f t + n)"
    by (simp add: bignumber_lib.plus_fin [OF assms(1)])
  have "f t + n \<noteq> 0" if "n \<noteq> 0" using assms(2,3) that by (auto simp: tallies_def dest: spec [of _ t])
  then show ?thesis using assms(2,3) plus
    by (auto simp: tallies_def addEntry_def AList.distinct_update AList.update_conv' fun_eq_iff)
qed

lemma getBurnedFee_fin:
  assumes "bignumber_lib B" "sound_log lg"
  shows "getBurnedFee B mex (burnEvents (logEvents lg)) = bn_of_int (mexBurned mex lg)" "0 \<le> mexBurned mex lg"
proof -
  have *: "foldl (\<lambda>fee e. if evBurnTokenID e \<noteq> mex then fee else bn_plus B fee (evBurnAmount e)) (bn_of_int a) es =
      bn_of_int (a + sum_list (map burnOf (filter (\<lambda>e. evBurnTokenID e = mex) es)))"
    if "\<forall>e\<in>set es. evBurnAmount e = bn_of_int (burnOf e)" for a es
    using that
  proof (induction es arbitrary: a)
    case (Cons e es)
    then have "bn_plus B (bn_of_int a) (evBurnAmount e) = bn_of_int (a + burnOf e)"
      by (simp add: bignumber_lib.plus_fin [OF assms(1)])
    with Cons.prems Cons.IH [of "a + burnOf e"] Cons.IH [of a] show ?case by (auto simp: add.assoc)
  qed simp
  have "\<forall>e\<in>set (burnEvents (logEvents lg)). evBurnAmount e = bn_of_int (burnOf e)"
    using assms(2) by (simp add: sound_log_def burnEvents_def)
  from * [OF this, of 0] show "getBurnedFee B mex (burnEvents (logEvents lg)) = bn_of_int (mexBurned mex lg)"
    by (simp add: getBurnedFee_def mexBurned_def)
  show "0 \<le> mexBurned mex lg"
    using assms(2) unfolding mexBurned_def sound_log_def burnEvents_def by (intro sum_list_nonneg) auto
qed

text \<open>Adding the amounts of a list of logs, whatever an amount is.\<close>

lemma tallies_foldl:
  assumes "bignumber_lib B" "tallies m f" "\<forall>lg\<in>set lgs. step lg = bn_of_int (n lg) \<and> 0 \<le> n lg"
  shows "tallies (foldl (\<lambda>m lg. addEntry B (logTimestamp lg) (step lg) m) m lgs)
     (\<lambda>t. f t + (\<Sum>lg\<in>#filter_mset (\<lambda>lg. logTimestamp lg = t) (mset lgs). n lg))"
  using assms(2,3)
proof (induction lgs arbitrary: m f)
  case (Cons lg lgs)
  let ?f = "f(logTimestamp lg := f (logTimestamp lg) + n lg)"
  have "tallies (addEntry B (logTimestamp lg) (step lg) m) ?f"
    using tallies_add [OF assms(1) Cons.prems(1)] Cons.prems(2) by simp
  from Cons.IH [OF this] Cons.prems(2) have "tallies (foldl (\<lambda>m lg. addEntry B (logTimestamp lg) (step lg) m) m (lg # lgs))
      (\<lambda>t. ?f t + (\<Sum>lg\<in>#filter_mset (\<lambda>lg. logTimestamp lg = t) (mset lgs). n lg))" by simp
  moreover have "(\<lambda>t. ?f t + (\<Sum>lg\<in>#filter_mset (\<lambda>lg. logTimestamp lg = t) (mset lgs). n lg)) =
      (\<lambda>t. f t + (\<Sum>lg\<in>#filter_mset (\<lambda>lg. logTimestamp lg = t) (mset (lg # lgs)). n lg))"
    by (auto simp: fun_eq_iff)
  ultimately show ?case by simp
qed simp

lemma tallies_empty: "tallies [] (\<lambda>_. 0)"
  by (simp add: tallies_def fun_eq_iff)

lemma feeMap_tallies:
  assumes "bignumber_lib B" "\<forall>lg\<in>set (logsOf ''swapTokensFixedInput'') \<union> set (logsOf ''swapTokensFixedOutput''). sound_log lg"
  shows "tallies (feeMapOf B mex logsOf)
     (\<lambda>t. (\<Sum>lg\<in>#filter_mset (\<lambda>lg. logTimestamp lg = t)
        (mset (logsOf ''swapTokensFixedInput'') + mset (logsOf ''swapTokensFixedOutput'')). mexBurned mex lg))"
proof -
  have step: "\<forall>lg\<in>set (logsOf name). getBurnedFee B mex (burnEvents (logEvents lg)) = bn_of_int (mexBurned mex lg) \<and>
      0 \<le> mexBurned mex lg" if "name \<in> {''swapTokensFixedInput'', ''swapTokensFixedOutput''}" for name
    using that assms getBurnedFee_fin [OF assms(1)] by blast
  show ?thesis
    using tallies_foldl [OF assms(1) tallies_foldl [OF assms(1) tallies_empty step] step]
    by (simp add: feeMapOf_def getSwapLogs_def processSwapEvents_def)
qed

section \<open>Batches\<close>

definition recordOf :: "string \<Rightarrow> string \<Rightarrow> int \<times> bn \<Rightarrow> ingest_record" where
  "recordOf mex metric e = \<lparr>irSeries = mex, irKey = metric, irValue = snd e, irTimestamp = fst e\<rparr>"

lemma writeLoop_enabled:
  assumes "wrEnabled w" "length records < 100"
  shows "concat (fst (writeLoop w mex metric m records pushed n)) = concat pushed @ records @ map (recordOf mex metric) m \<and>
     (\<forall>b\<in>set (fst (writeLoop w mex metric m records pushed n)). b \<in> set pushed \<or> (b \<noteq> [] \<and> length b \<le> 100))"
  using assms(2)
proof (induction m arbitrary: records pushed n)
  case Nil
  then show ?case using assms(1) by (auto simp: pushRecords_def)
next
  case (Cons e m)
  obtain t v where e: "e = (t, v)" by (cases e)
  let ?r = "records @ [recordOf mex metric e]"
  show ?case
  proof (cases "length ?r = 100")
    case True
    then have "writeLoop w mex metric (e # m) records pushed n =
        writeLoop w mex metric m [] (pushed @ [?r]) (nan_add n (snd (pushRecords w ?r)))"
      using assms(1) by (simp add: e recordOf_def pushRecords_def)
    moreover have "length ?r \<le> 100" "?r \<noteq> []" using True by simp_all
    ultimately show ?thesis using Cons.IH [of "[]" "pushed @ [?r]" "nan_add n (snd (pushRecords w ?r))"] by fastforce
  next
    case False
    then have "writeLoop w mex metric (e # m) records pushed n = writeLoop w mex metric m ?r pushed n"
      by (simp add: e recordOf_def)
    moreover have "length ?r < 100" using False Cons.prems by simp
    ultimately show ?thesis using Cons.IH [of ?r pushed n] by auto
  qed
qed

text \<open>The logs of a window by the event they hold, in any order.\<close>

definition by_event :: "transaction_log list \<Rightarrow> (string \<Rightarrow> transaction_log list) \<Rightarrow> bool" where
  "by_event lgs logsOf \<longleftrightarrow> (\<forall>name. mset (logsOf name) = filter_mset (has_event name) (mset lgs))"

text \<open>
  C25. The fee records of a run, in batches of at most a hundred: one per timestamp with burned MEX, whose value adds the
  MEX each log of that timestamp burned, once if it holds a swap event of one kind and twice if
  it holds swap events of both kinds.
\<close>

theorem fee_records_per_timestamp:
  assumes "bignumber_lib B" "wrEnabled w" "by_event lgs logsOf" "\<forall>lg\<in>set lgs. sound_log lg"
  shows "distinct (map irTimestamp (concat (getFeeBurned B w mex logsOf))) \<and>
    (\<forall>r. r \<in> set (concat (getFeeBurned B w mex logsOf)) \<longleftrightarrow>
       (\<exists>n. n \<noteq> 0 \<and> r = \<lparr>irSeries = mex, irKey = ''feeBurned'', irValue = bn_of_int n, irTimestamp = irTimestamp r\<rparr> \<and>
         n = sum_list (map (\<lambda>lg. (of_bool (has_event ''swapTokensFixedInput'' lg) +
            of_bool (has_event ''swapTokensFixedOutput'' lg)) * mexBurned mex lg)
           (filter (\<lambda>lg. logTimestamp lg = irTimestamp r) lgs)))) \<and>
    (\<forall>b\<in>set (getFeeBurned B w mex logsOf). b \<noteq> [] \<and> length b \<le> 100)"
proof -
  let ?m = "feeMapOf B mex logsOf"
  let ?f = "\<lambda>t. sum_list (map (\<lambda>lg. (of_bool (has_event ''swapTokensFixedInput'' lg) +
            of_bool (has_event ''swapTokensFixedOutput'' lg)) * mexBurned mex lg) (filter (\<lambda>lg. logTimestamp lg = t) lgs))"
  have w: "concat (getFeeBurned B w mex logsOf) = map (recordOf mex ''feeBurned'') ?m"
    "\<forall>b\<in>set (getFeeBurned B w mex logsOf). b \<noteq> [] \<and> length b \<le> 100"
    using writeLoop_enabled [OF assms(2), of "[]" mex "''feeBurned''" ?m "[]" "Some 0"]
    by (simp_all add: getFeeBurned_def writeRecords_def)
  have m: "mset (logsOf name) = filter_mset (has_event name) (mset lgs)" for name
    using assms(3) by (simp add: by_event_def)
  then have "set (logsOf name) \<subseteq> set lgs" for name by (metis filter_is_subset mset_filter set_mset_mset)
  then have "tallies ?m (\<lambda>t. (\<Sum>lg\<in>#filter_mset (\<lambda>lg. logTimestamp lg = t)
        (filter_mset (has_event ''swapTokensFixedInput'') (mset lgs) +
         filter_mset (has_event ''swapTokensFixedOutput'') (mset lgs)). mexBurned mex lg))"
    using feeMap_tallies [OF assms(1), of logsOf mex] assms(4) unfolding m by blast
  moreover have "(\<Sum>lg\<in>#filter_mset (\<lambda>lg. logTimestamp lg = t)
        (filter_mset (has_event ''swapTokensFixedInput'') (mset lgs) +
         filter_mset (has_event ''swapTokensFixedOutput'') (mset lgs)). mexBurned mex lg) = ?f t" for t
    by (induction lgs) (auto simp: algebra_simps)
  ultimately have t: "tallies ?m ?f" by simp
  then have k: "map_of ?m = (\<lambda>t. if ?f t = 0 then None else Some (bn_of_int (?f t)))" "distinct (map fst ?m)"
    by (simp_all only: tallies_def)
  then have mem: "(t, v) \<in> set ?m \<longleftrightarrow> ?f t \<noteq> 0 \<and> v = bn_of_int (?f t)" for t v
    using map_of_eq_Some_iff [OF k(2), of t v] by (auto simp: k(1) split: if_splits)
  have "r \<in> set (concat (getFeeBurned B w mex logsOf)) \<longleftrightarrow> ?f (irTimestamp r) \<noteq> 0 \<and>
      r = \<lparr>irSeries = mex, irKey = ''feeBurned'', irValue = bn_of_int (?f (irTimestamp r)), irTimestamp = irTimestamp r\<rparr>" for r
  proof -
    have "r \<in> set (concat (getFeeBurned B w mex logsOf)) \<longleftrightarrow> (\<exists>t v. (t, v) \<in> set ?m \<and> r = recordOf mex ''feeBurned'' (t, v))"
      unfolding w(1) by force
    then show ?thesis unfolding mem recordOf_def by (cases r) auto
  qed
  moreover have "map irTimestamp (concat (getFeeBurned B w mex logsOf)) = map fst ?m"
    by (simp add: w(1) recordOf_def comp_def)
  ultimately show ?thesis using k(2) w(2) by auto
qed


definition demo_event :: "string \<Rightarrow> int \<Rightarrow> log_event" where
  "demo_event name n = \<lparr>evIdentifier = name, evAddress = ''pair'', evData = [], evBurnTokenID = ''MEX'',
     evBurnAmount = bn_of_int n, evRewardAmount = Fin 0, evFarmingTokenID = [], evFarmingAmount = Fin 0,
     evLockedRewards = False\<rparr>"

text \<open>A router call with a swap of each kind burned 7 units: 14 are recorded.\<close>

definition demo_log :: transaction_log where
  "demo_log = \<lparr>logTimestamp = 60, logEvents =
     [demo_event ''swapTokensFixedInput'' 0, demo_event ''swapTokensFixedOutput'' 0, demo_event ''ESDTLocalBurn'' 7]\<rparr>"

lemma mixed_swap_log:
  "sound_log demo_log" "has_event ''swapTokensFixedInput'' demo_log" "has_event ''swapTokensFixedOutput'' demo_log"
  "mexBurned ''MEX'' demo_log = 7"
  by (auto simp: demo_log_def demo_event_def sound_log_def burnOf_def has_event_def mexBurned_def burnEvents_def)

theorem fee_records_per_timestamp_witness:
  "\<lparr>irSeries = ''MEX'', irKey = ''feeBurned'', irValue = bn_of_int 14, irTimestamp = 60\<rparr> \<in>
     set (concat (getFeeBurned bn_js \<lparr>wrEnabled = True, wrAccepts = \<lambda>_. True\<rparr> ''MEX''
       (\<lambda>name. filter (has_event name) [demo_log])))"
proof -
  have "by_event [demo_log] (\<lambda>name. filter (has_event name) [demo_log])" by (simp add: by_event_def)
  then show ?thesis
    using fee_records_per_timestamp [OF js.bignumber_lib_axioms, of "\<lparr>wrEnabled = True, wrAccepts = \<lambda>_. True\<rparr>" "[demo_log]"
        "\<lambda>name. filter (has_event name) [demo_log]" "''MEX''"] mixed_swap_log
    by (simp add: demo_log_def)
qed

section \<open>Consecutive runs\<close>

text \<open>
  Both bounds of the window are included and a run starts at the end of the one before: the logs
  of the timestamp between them are read by both.
\<close>

lemma windows_share_a_bound:
  assumes "snd (getProcessingInterval cached shardTime delay) = t" "t \<noteq> 0"
  shows "fst (getProcessingInterval (Some t) later delay) = t"
  using assms by (simp add: getProcessingInterval_def Let_def)

lemma scrollSearch_all:
  assumes "\<forall>page\<in>set pages. fst page \<noteq> [] \<and> snd page" "scrollSearch rest = []"
  shows "scrollSearch (pages @ rest) = concat (map fst pages)"
  using assms by (induction pages) auto

text \<open>The penalty recorded for an exit never exceeds the MEX its transaction burned.\<close>

lemma penalty_bounded:
  assumes "bignumber_lib B" "sound_log lg"
  shows "\<exists>n. getBurnedPenalty B mex x (burnEvents (logEvents lg)) = bn_of_int n \<and> 0 \<le> n \<and> n \<le> mexBurned mex lg"
proof -
  have *: "\<exists>n. foldl (\<lambda>p burn. if skippedBurn mex x burn then p else bn_plus B p (evBurnAmount burn)) (bn_of_int a) es = bn_of_int n \<and>
      a \<le> n \<and> n \<le> a + sum_list (map burnOf (filter (\<lambda>e. evBurnTokenID e = mex) es))"
    if "\<forall>e\<in>set es. evBurnAmount e = bn_of_int (burnOf e) \<and> 0 \<le> burnOf e" for a es
    using that
  proof (induction es arbitrary: a)
    case (Cons e es)
    have "bn_plus B (bn_of_int a) (evBurnAmount e) = bn_of_int (a + burnOf e)"
      using Cons.prems by (simp add: bignumber_lib.plus_fin [OF assms(1)])
    moreover have "0 \<le> burnOf e" "\<not> skippedBurn mex x e \<Longrightarrow> evBurnTokenID e = mex"
      using Cons.prems by (auto simp: skippedBurn_def)
    ultimately show ?case using Cons.IH [of a] Cons.IH [of "a + burnOf e"] Cons.prems
      by (cases "skippedBurn mex x e") fastforce+
  qed simp
  show ?thesis
    using * [of "burnEvents (logEvents lg)" 0] assms(2)
    by (simp add: sound_log_def burnEvents_def getBurnedPenalty_def mexBurned_def)
qed

end
