(* ===== verification/PendingExecutor.thy ===== *)
theory PendingExecutor
  imports DexPrelude "HOL-Library.Multiset"
begin

text \<open>
  Requests for the same value share one execution while it is pending:
  \<open>src/utils/pending.executor.ts\<close>, which every query of a contract goes through
  (\<open>src/services/generics/generic.abi.service.ts\<close>). The dictionary maps the digest of a value to the promise
  of its execution; the caller that created the promise deletes the entry when it resumes.

  A promise is the index of its execution. The calls interleave at their \<open>await\<close>: a step is a call, the
  settling of an execution, or the resumption of one caller whose promise is settled. The digest of
  the JSON form of a value is an argument.
\<close>

record ('v, 'o) executor_state =
  executions :: "'v list"
  settled :: "nat \<rightharpoonup> 'o"
  dictionary :: "string \<rightharpoonup> nat"
  callers :: "('v \<times> nat \<times> bool) list"
  answers :: "('v \<times> 'o) list"

definition idle_executor :: "('v, 'o) executor_state" where
  "idle_executor = \<lparr>executions = [], settled = Map.empty, dictionary = Map.empty, callers = [], answers = []\<rparr>"

text \<open>\<open>execute\<close> up to its \<open>await\<close>; a caller carries its promise and whether it created it.\<close>

definition execute_call :: "('v \<Rightarrow> string) \<Rightarrow> 'v \<Rightarrow> ('v, 'o) executor_state \<Rightarrow> ('v, 'o) executor_state" where
  "execute_call digest v s =
     (case dictionary s (digest v) of
        Some pendingRequest \<Rightarrow> s\<lparr>callers := callers s @ [(v, pendingRequest, False)]\<rparr>
      | None \<Rightarrow>
          let pendingRequest = length (executions s) in
          s\<lparr>executions := executions s @ [v], dictionary := (dictionary s)(digest v \<mapsto> pendingRequest),
            callers := callers s @ [(v, pendingRequest, True)]\<rparr>)"

text \<open>The resumption of one caller, with the \<open>finally\<close> of the one that created the promise.\<close>

definition execute_resume ::
  "('v \<Rightarrow> string) \<Rightarrow> 'v \<times> nat \<times> bool \<Rightarrow> 'o \<Rightarrow> ('v, 'o) executor_state \<Rightarrow> ('v, 'o) executor_state" where
  "execute_resume digest caller out s =
     (case caller of (v, pendingRequest, created) \<Rightarrow>
        s\<lparr>callers := remove1 caller (callers s), answers := answers s @ [(v, out)],
          dictionary := (if created then (dictionary s)(digest v := None) else dictionary s)\<rparr>)"

inductive executor_step :: "('v \<Rightarrow> string) \<Rightarrow> ('v, 'o) executor_state \<Rightarrow> ('v, 'o) executor_state \<Rightarrow> bool"
  for digest where
  call: "executor_step digest s (execute_call digest v s)"
| settle: "r < length (executions s) \<Longrightarrow> settled s r = None \<Longrightarrow>
    executor_step digest s (s\<lparr>settled := (settled s)(r \<mapsto> out)\<rparr>)"
| resume: "caller \<in> set (callers s) \<Longrightarrow> settled s (fst (snd caller)) = Some out \<Longrightarrow>
    executor_step digest s (execute_resume digest caller out s)"

inductive executor_reachable :: "('v \<Rightarrow> string) \<Rightarrow> ('v, 'o) executor_state \<Rightarrow> bool" for digest where
  start: "executor_reachable digest idle_executor"
| steps: "executor_reachable digest s \<Longrightarrow> executor_step digest s s' \<Longrightarrow> executor_reachable digest s'"

section \<open>Invariant\<close>

text \<open>
  An entry of the dictionary belongs to a creator that has not resumed; an execution that is not
  settled has its entry; callers and answers belong to executions of values with their digest; the
  creator of an execution waits at most once.
\<close>

definition entries_created :: "('v \<Rightarrow> string) \<Rightarrow> ('v, 'o) executor_state \<Rightarrow> bool" where
  "entries_created digest s \<longleftrightarrow> (\<forall>k r. dictionary s k = Some r \<longrightarrow>
     r < length (executions s) \<and> digest (executions s ! r) = k \<and> (executions s ! r, r, True) \<in> set (callers s))"

definition pending_entered :: "('v \<Rightarrow> string) \<Rightarrow> ('v, 'o) executor_state \<Rightarrow> bool" where
  "pending_entered digest s \<longleftrightarrow> (\<forall>r < length (executions s). settled s r = None \<longrightarrow>
     dictionary s (digest (executions s ! r)) = Some r)"

definition callers_served :: "('v \<Rightarrow> string) \<Rightarrow> ('v, 'o) executor_state \<Rightarrow> bool" where
  "callers_served digest s \<longleftrightarrow> (\<forall>v r created. (v, r, created) \<in> set (callers s) \<longrightarrow>
     r < length (executions s) \<and> digest v = digest (executions s ! r) \<and>
     (created \<longrightarrow> v = executions s ! r \<and> dictionary s (digest v) = Some r \<and> count (mset (callers s)) (v, r, True) = 1))"

definition answers_right :: "('v \<Rightarrow> string) \<Rightarrow> ('v, 'o) executor_state \<Rightarrow> bool" where
  "answers_right digest s \<longleftrightarrow> (\<forall>v out. (v, out) \<in> set (answers s) \<longrightarrow>
     (\<exists>r < length (executions s). settled s r = Some out \<and> digest v = digest (executions s ! r)))"

definition settled_known :: "('v, 'o) executor_state \<Rightarrow> bool" where
  "settled_known s \<longleftrightarrow> (\<forall>r. settled s r \<noteq> None \<longrightarrow> r < length (executions s))"

definition executor_inv :: "('v \<Rightarrow> string) \<Rightarrow> ('v, 'o) executor_state \<Rightarrow> bool" where
  "executor_inv digest s \<longleftrightarrow> entries_created digest s \<and> pending_entered digest s \<and> callers_served digest s \<and>
     answers_right digest s \<and> settled_known s"

lemmas executor_inv_defs =
  executor_inv_def entries_created_def pending_entered_def callers_served_def answers_right_def settled_known_def

lemma executor_inv_idle: "executor_inv digest idle_executor"
  by (simp add: executor_inv_defs idle_executor_def)

lemma entries_createdD:
  assumes "entries_created digest s" "dictionary s k = Some r"
  shows "r < length (executions s)" "digest (executions s ! r) = k" "(executions s ! r, r, True) \<in> set (callers s)"
  using assms unfolding entries_created_def by blast+

lemma callers_servedD:
  assumes "callers_served digest s" "(v, r, created) \<in> set (callers s)"
  shows "r < length (executions s)" "digest v = digest (executions s ! r)"
    "created \<Longrightarrow> v = executions s ! r" "created \<Longrightarrow> dictionary s (digest v) = Some r"
    "created \<Longrightarrow> count (mset (callers s)) (v, r, True) = 1"
  using assms unfolding callers_served_def by blast+

lemma answers_rightD:
  "answers_right digest s \<Longrightarrow> (v, out) \<in> set (answers s) \<Longrightarrow>
    \<exists>r < length (executions s). settled s r = Some out \<and> digest v = digest (executions s ! r)"
  unfolding answers_right_def by blast

lemma executor_inv_joined:
  assumes "executor_inv digest s" "dictionary s (digest v) = Some r"
  shows "executor_inv digest (s\<lparr>callers := callers s @ [(v, r, False)]\<rparr>)"
proof -
  have e: "entries_created digest s" "pending_entered digest s" "callers_served digest s" "answers_right digest s"
    "settled_known s" using assms(1) by (simp_all add: executor_inv_def)
  have r: "r < length (executions s)" "digest (executions s ! r) = digest v"
    using e(1) assms(2) by (simp_all add: entries_created_def)
  have "callers_served digest (s\<lparr>callers := callers s @ [(v, r, False)]\<rparr>)"
    unfolding callers_served_def
  proof (intro allI impI)
    fix v' r' created
    assume "(v', r', created) \<in> set (callers (s\<lparr>callers := callers s @ [(v, r, False)]\<rparr>))"
    then consider "(v', r', created) = (v, r, False)" | "(v', r', created) \<in> set (callers s)" by auto
    then show "r' < length (executions (s\<lparr>callers := callers s @ [(v, r, False)]\<rparr>)) \<and>
      digest v' = digest (executions (s\<lparr>callers := callers s @ [(v, r, False)]\<rparr>) ! r') \<and>
      (created \<longrightarrow> v' = executions (s\<lparr>callers := callers s @ [(v, r, False)]\<rparr>) ! r' \<and>
        dictionary (s\<lparr>callers := callers s @ [(v, r, False)]\<rparr>) (digest v') = Some r' \<and>
        count (mset (callers (s\<lparr>callers := callers s @ [(v, r, False)]\<rparr>))) (v', r', True) = 1)"
    proof cases
      case 2
      from callers_servedD [OF e(3) this] show ?thesis by (cases created) simp_all
    qed (use r in simp)
  qed
  then show ?thesis using e by (simp add: executor_inv_def entries_created_def pending_entered_def answers_right_def settled_known_def)
qed

lemma executor_inv_created:
  assumes inv: "executor_inv digest s" and new: "dictionary s (digest v) = None"
  shows "executor_inv digest (s\<lparr>executions := executions s @ [v],
     dictionary := (dictionary s)(digest v \<mapsto> length (executions s)), callers := callers s @ [(v, length (executions s), True)]\<rparr>)"
    (is "executor_inv digest ?s")
proof -
  have e: "entries_created digest s" "pending_entered digest s" "callers_served digest s" "answers_right digest s"
    "settled_known s" using inv by (simp_all add: executor_inv_def)
  have "entries_created digest ?s"
    unfolding entries_created_def
  proof (intro allI impI)
    fix k r
    assume "dictionary ?s k = Some r"
    then consider "k = digest v" "r = length (executions s)" | "dictionary s k = Some r" by (fastforce split: if_splits)
    then show "r < length (executions ?s) \<and> digest (executions ?s ! r) = k \<and> (executions ?s ! r, r, True) \<in> set (callers ?s)"
    proof cases
      case 2
      from entries_createdD [OF e(1) this] show ?thesis by (simp add: nth_append)
    qed simp
  qed
  moreover have "pending_entered digest ?s"
    using e(2) new by (auto simp: pending_entered_def nth_append less_Suc_eq)
  moreover have "callers_served digest ?s"
    unfolding callers_served_def
  proof (intro allI impI)
    fix v' r created
    assume "(v', r, created) \<in> set (callers ?s)"
    then consider "v' = v" "r = length (executions s)" "created" | "(v', r, created) \<in> set (callers s)" by auto
    then show "r < length (executions ?s) \<and> digest v' = digest (executions ?s ! r) \<and>
      (created \<longrightarrow> v' = executions ?s ! r \<and> dictionary ?s (digest v') = Some r \<and> count (mset (callers ?s)) (v', r, True) = 1)"
    proof cases
      case 1
      have "(v, length (executions s), True) \<notin> set (callers s)" using callers_servedD(1) [OF e(3)] by blast
      then show ?thesis using 1 by (simp add: count_eq_zero_iff [symmetric] not_in_iff)
    next
      case 2
      then have "r < length (executions s)" "digest v' = digest (executions s ! r)"
        "created \<Longrightarrow> v' = executions s ! r \<and> dictionary s (digest v') = Some r \<and> count (mset (callers s)) (v', r, True) = 1"
        using callers_servedD [OF e(3) 2] by blast+
      then show ?thesis using new by (auto simp: nth_append)
    qed
  qed
  moreover have "answers_right digest ?s"
    using e(4) unfolding answers_right_def by (simp add: nth_append) (metis less_SucI nth_append)
  moreover have "settled_known ?s" using e(5) by (auto simp: settled_known_def less_Suc_eq)
  ultimately show ?thesis by (simp add: executor_inv_def)
qed

lemma executor_inv_resumed:
  assumes inv: "executor_inv digest s" and caller: "(v, r, created) \<in> set (callers s)" "settled s r = Some out"
  shows "executor_inv digest (execute_resume digest (v, r, created) out s)" (is "executor_inv digest ?s")
proof -
  have e: "entries_created digest s" "pending_entered digest s" "callers_served digest s" "answers_right digest s"
    "settled_known s" using inv by (simp_all add: executor_inv_def)
  have c: "r < length (executions s)" "digest v = digest (executions s ! r)"
    "created \<Longrightarrow> v = executions s ! r" "created \<Longrightarrow> dictionary s (digest v) = Some r"
    "created \<Longrightarrow> count (mset (callers s)) (v, r, True) = 1"
    using callers_servedD [OF e(3) caller(1)] by blast+
  have sel: "executions ?s = executions s" "settled ?s = settled s"
    "dictionary ?s = (if created then (dictionary s)(digest v := None) else dictionary s)"
    "callers ?s = remove1 (v, r, created) (callers s)" "answers ?s = answers s @ [(v, out)]"
    by (simp_all add: execute_resume_def)
  have "entries_created digest ?s"
    unfolding entries_created_def
  proof (intro allI impI)
    fix k r'
    assume d: "dictionary ?s k = Some r'"
    then have d': "dictionary s k = Some r'" by (auto simp: sel split: if_splits)
    have "(executions s ! r', r', True) \<noteq> (v, r, created)" using d d' c(4) entries_createdD(2) [OF e(1) d']
      by (auto simp: sel split: if_splits)
    then show "r' < length (executions ?s) \<and> digest (executions ?s ! r') = k \<and> (executions ?s ! r', r', True) \<in> set (callers ?s)"
      using entries_createdD [OF e(1) d'] by (simp add: sel)
  qed
  moreover have "pending_entered digest ?s"
    unfolding pending_entered_def
  proof (intro allI impI)
    fix r'
    assume r': "r' < length (executions ?s)" "settled ?s r' = None"
    then have "dictionary s (digest (executions s ! r')) = Some r'" "r' \<noteq> r"
      using e(2) caller(2) by (auto simp: pending_entered_def sel)
    then show "dictionary ?s (digest (executions ?s ! r')) = Some r'"
      using c(4) by (simp add: sel) (metis option.inject)
  qed
  moreover have "callers_served digest ?s"
    unfolding callers_served_def
  proof (intro allI impI)
    fix v' r' created'
    assume "(v', r', created') \<in> set (callers ?s)"
    then have m: "(v', r', created') \<in># mset (callers s) - {#(v, r, created)#}"
      by (simp only: sel set_mset_mset [symmetric] mset_remove1)
    have old: "r' < length (executions s) \<and> digest v' = digest (executions s ! r') \<and>
      (created' \<longrightarrow> v' = executions s ! r' \<and> dictionary s (digest v') = Some r' \<and> count (mset (callers s)) (v', r', True) = 1)"
      using callers_servedD [OF e(3) in_diffD [OF m, unfolded set_mset_mset]] by blast
    have ne: "(v', r', created') \<noteq> (v, r, created)" if "created'"
    proof
      assume eq: "(v', r', created') = (v, r, created)"
      then have "count (mset (callers s)) (v, r, created) = 1" using c(5) that by simp
      then show False using m eq by (simp add: in_diff_count)
    qed
    have "digest v' \<noteq> digest v" if "created'" "created"
    proof
      assume "digest v' = digest v"
      then have "Some r' = Some r" using old c(4) that by metis
      then have "r' = r" by simp
      then show False using ne old c(3) that by simp
    qed
    then show "r' < length (executions ?s) \<and> digest v' = digest (executions ?s ! r') \<and>
      (created' \<longrightarrow> v' = executions ?s ! r' \<and> dictionary ?s (digest v') = Some r' \<and> count (mset (callers ?s)) (v', r', True) = 1)"
      using old ne unfolding sel by (cases created'; cases created) auto
  qed
  moreover have "answers_right digest ?s" using e(4) c(1,2) caller(2) by (auto simp: answers_right_def sel)
  moreover have "settled_known ?s" using e(5) by (simp add: settled_known_def sel)
  ultimately show ?thesis by (simp add: executor_inv_def)
qed

lemma executor_inv_settled:
  assumes "executor_inv digest s" "r < length (executions s)" "settled s r = None"
  shows "executor_inv digest (s\<lparr>settled := (settled s)(r \<mapsto> out)\<rparr>)"
proof -
  have e: "entries_created digest s" "pending_entered digest s" "callers_served digest s" "answers_right digest s"
    "settled_known s" using assms(1) by (simp_all add: executor_inv_def)
  have "answers_right digest (s\<lparr>settled := (settled s)(r \<mapsto> out)\<rparr>)"
    using e(4) assms(3) unfolding answers_right_def by (simp split: if_splits) (metis option.distinct(1))
  moreover have "pending_entered digest (s\<lparr>settled := (settled s)(r \<mapsto> out)\<rparr>)"
    using e(2) by (simp add: pending_entered_def)
  moreover have "settled_known (s\<lparr>settled := (settled s)(r \<mapsto> out)\<rparr>)"
    using e(5) assms(2) by (simp add: settled_known_def)
  moreover have "entries_created digest (s\<lparr>settled := (settled s)(r \<mapsto> out)\<rparr>) = entries_created digest s"
    "callers_served digest (s\<lparr>settled := (settled s)(r \<mapsto> out)\<rparr>) = callers_served digest s"
    by (simp_all add: entries_created_def callers_served_def)
  ultimately show ?thesis using e by (simp add: executor_inv_def)
qed

lemma executor_inv_reachable: "executor_reachable digest s \<Longrightarrow> executor_inv digest s"
proof (induction rule: executor_reachable.induct)
  case (steps s s')
  from steps.hyps(2) show ?case
  proof (cases rule: executor_step.cases)
    case (call v)
    then show ?thesis using executor_inv_joined [OF steps.IH] executor_inv_created [OF steps.IH]
      by (cases "dictionary s (digest v)") (simp_all add: execute_call_def Let_def)
  next
    case (resume caller out)
    then show ?thesis using steps.IH executor_inv_resumed by (cases caller) auto
  qed (use steps.IH executor_inv_settled in auto)
qed (rule executor_inv_idle)

text \<open>
  C26. In every interleaving at most one execution of a value is pending, each caller is answered with
  the outcome of an execution of the value it asked for, and once nobody waits the dictionary is empty.
\<close>

theorem pending_requests_shared:
  assumes "executor_reachable digest s" "inj digest"
  shows "(\<forall>r r'. r < length (executions s) \<longrightarrow> r' < length (executions s) \<longrightarrow> settled s r = None \<longrightarrow> settled s r' = None \<longrightarrow>
      executions s ! r = executions s ! r' \<longrightarrow> r = r') \<and>
    (\<forall>(v, out) \<in> set (answers s). \<exists>r < length (executions s). executions s ! r = v \<and> settled s r = Some out) \<and>
    (callers s = [] \<longrightarrow> dictionary s = Map.empty \<and> (\<forall>r < length (executions s). settled s r \<noteq> None))"
proof -
  have "executor_inv digest s" using executor_inv_reachable assms(1) .
  then have e: "entries_created digest s" "pending_entered digest s" "answers_right digest s"
    by (simp_all add: executor_inv_def)
  have "dictionary s = Map.empty" if "callers s = []"
    using entries_createdD(3) [OF e(1)] that by (metis empty_iff list.set(1) not_None_eq ext)
  moreover have "settled s r \<noteq> None" if "callers s = []" "r < length (executions s)" for r
    using calculation [OF that(1)] e(2) that(2) by (auto simp: pending_entered_def)
  moreover have "r = r'" if "r < length (executions s)" "r' < length (executions s)" "settled s r = None" "settled s r' = None"
    "executions s ! r = executions s ! r'" for r r'
    using e(2) that unfolding pending_entered_def by (metis option.inject)
  moreover have "\<exists>r < length (executions s). executions s ! r = v \<and> settled s r = Some out" if "(v, out) \<in> set (answers s)" for v out
    using e(3) that injD [OF assms(2)] by (force simp: answers_right_def)
  ultimately show ?thesis by blast
qed


text \<open>Two callers of the same value share the one execution.\<close>

theorem pending_requests_shared_witness:
  "\<exists>s :: (string, int) executor_state. executor_reachable id s \<and> executions s = [''q''] \<and>
     answers s = [(''q'', 5), (''q'', 5)] \<and> dictionary s = Map.empty"
proof -
  let ?s1 = "execute_call id ''q'' idle_executor :: (string, int) executor_state"
  let ?s2 = "execute_call id ''q'' ?s1"
  let ?s3 = "?s2\<lparr>settled := (settled ?s2)(0 \<mapsto> 5)\<rparr>"
  let ?s4 = "execute_resume id (''q'', 0, False) 5 ?s3"
  let ?s5 = "execute_resume id (''q'', 0, True) 5 ?s4"
  note eval = execute_call_def execute_resume_def idle_executor_def
  have "executor_reachable id ?s2"
    by (rule executor_reachable.steps [OF executor_reachable.steps [OF executor_reachable.start executor_step.call] executor_step.call])
  then have "executor_reachable id ?s3"
    by (rule executor_reachable.steps) (rule executor_step.settle; simp add: eval)
  then have "executor_reachable id ?s4"
    by (rule executor_reachable.steps) (rule executor_step.resume; simp add: eval)
  then have r: "executor_reachable id ?s5"
    by (rule executor_reachable.steps) (rule executor_step.resume; simp add: eval)
  have "callers ?s5 = []" "executions ?s5 = [''q'']" "answers ?s5 = [(''q'', 5), (''q'', 5)]" by (simp_all add: eval)
  with pending_requests_shared [OF r inj_on_id] r show ?thesis by blast
qed

end
