(* ===== verification/Abi.thy ===== *)
theory Abi
  imports ContractCalls
begin

text \<open>
  The interfaces of the contracts the services call: the endpoints that change state in the files
  under \<open>src/abis\<close>, with the kinds of their parameters and whether they accept payments. The contract object
  of \<open>@multiversx/sdk-core\<close> has one method per endpoint of its file
  (\<open>src/services/multiversx-communication/mx.proxy.service.ts\<close>), so calling an endpoint the file
  lacks throws (\<open>build\<close>); the builder checks neither the number nor the types of the arguments.

  Arguments are compared by kind: at the top level all unsigned numbers, booleans and fieldless
  enums share one encoding, an address is its 32 bytes, and bytes and token identifiers are written
  as they are.
\<close>

section \<open>Kinds of parameters\<close>

datatype abi_kind = NumberK | AddressK | BytesK | StructK

datatype abi_param =
    One abi_kind
  | Optional "abi_kind list"
  | Variadic "abi_kind list"

type_synonym abi = "(string \<times> abi_param list \<times> bool) list"

fun kindOf :: "typed_value \<Rightarrow> abi_kind" where
  "kindOf (BytesUTF8 s) = BytesK"
| "kindOf (BytesHexAddress s) = AddressK"
| "kindOf (AddressV s) = AddressK"
| "kindOf (BigUInt n) = NumberK"
| "kindOf (U64V n) = NumberK"
| "kindOf (U32V n) = NumberK"
| "kindOf (BooleanV b) = NumberK"
| "kindOf (TokenIdentifierV s) = BytesK"
| "kindOf (BytesHex s) = BytesK"
| "kindOf (EnumV n) = NumberK"
| "kindOf (U16V n) = NumberK"

text \<open>The kinds \<open>ks\<close> any number of times over.\<close>

definition repeats :: "abi_kind list \<Rightarrow> abi_kind list \<Rightarrow> bool" where
  "repeats ks vs \<longleftrightarrow> (\<exists>n\<le>length vs. vs = concat (replicate n ks))"

fun conforms :: "abi_param list \<Rightarrow> abi_kind list \<Rightarrow> bool" where
  "conforms [] vs \<longleftrightarrow> vs = []"
| "conforms (One k # ps) vs \<longleftrightarrow> (case vs of [] \<Rightarrow> False | v # vs' \<Rightarrow> v = k \<and> conforms ps vs')"
| "conforms (Optional ks # ps) vs \<longleftrightarrow>
     vs = [] \<or> (take (length ks) vs = ks \<and> conforms ps (drop (length ks) vs))"
| "conforms (Variadic ks # ps) vs \<longleftrightarrow> repeats ks vs"

text \<open>A transaction calls an endpoint of the interface with arguments of its kinds, and pays only what accepts payments.\<close>

definition fits :: "abi \<Rightarrow> transaction \<Rightarrow> bool" where
  "fits abi t \<longleftrightarrow>
     (case map_of abi (endpoint t) of
        None \<Rightarrow> False
      | Some (ps, payable) \<Rightarrow>
          conforms ps (map kindOf (endpointArgs t)) \<and> (payments t \<noteq> [] \<or> nativeValue t \<noteq> None \<longrightarrow> payable))"

text \<open>\<open>contract.methodsExplicit.f\<close>: the transaction of an endpoint the contract object has.\<close>

definition build :: "abi \<Rightarrow> transaction \<Rightarrow> transaction res" where
  "build abi t = (if map_of abi (endpoint t) = None then Inl TypeError else Inr t)"

lemma build_Inr: "build abi t = Inr t' \<longleftrightarrow> t' = t \<and> map_of abi (endpoint t) \<noteq> None"
  by (auto simp: build_def)

lemma repeats_map_const: "repeats [k] (map (\<lambda>_. k) xs)"
proof -
  have "map (\<lambda>_. k) xs = concat (replicate (length xs) [k])" by (induction xs) auto
  then show ?thesis by (auto simp: repeats_def)
qed

lemma repeats_concat: "ks \<noteq> [] \<Longrightarrow> repeats ks (concat (replicate n ks))"
proof -
  assume "ks \<noteq> []"
  then have "n \<le> length (concat (replicate n ks))" by (induction n) (auto simp: Suc_le_eq neq_Nil_conv)
  then show ?thesis by (auto simp: repeats_def)
qed

section \<open>Interfaces\<close>

text \<open>\<open>src/abis/egld-esdt-swap.abi.json\<close>.\<close>

definition wrapAbi :: abi where
  "wrapAbi =
    [(''wrapEgld'', [Optional [BytesK]], True), (''unwrapEgld'', [Optional [BytesK]], True),
     (''getLockedEgldBalance'', [], False), (''getWrappedEgldTokenId'', [], False)]"

text \<open>\<open>src/abis/pair.abi.json\<close>.\<close>

definition pairAbi :: abi where
  "pairAbi =
    [(''addInitialLiquidity'', [], True), (''addLiquidity'', [One NumberK, One NumberK], True),
     (''removeLiquidity'', [One NumberK, One NumberK], True),
     (''removeLiquidityAndBuyBackAndBurnToken'', [One BytesK], True),
     (''swapNoFeeAndForward'', [One BytesK, One AddressK], True),
     (''swapTokensFixedInput'', [One BytesK, One NumberK], True),
     (''swapTokensFixedOutput'', [One BytesK, One NumberK], True), (''setLpTokenIdentifier'', [One BytesK], False),
     (''whitelist'', [One AddressK], False), (''removeWhitelist'', [One AddressK], False),
     (''addTrustedSwapPair'', [One AddressK, One BytesK, One BytesK], False),
     (''removeTrustedSwapPair'', [One BytesK, One BytesK], False),
     (''setupFeesCollector'', [One AddressK, One NumberK], False),
     (''setFeeOn'', [One NumberK, One AddressK, One BytesK], False), (''setStateActiveNoSwaps'', [], False),
     (''setFeePercents'', [One NumberK, One NumberK], False),
     (''updateAndGetTokensForGivenPositionWithSafePrice'', [One NumberK], False),
     (''updateAndGetSafePrice'', [One StructK], False), (''setLockingDeadlineEpoch'', [One NumberK], False),
     (''setLockingScAddress'', [One AddressK], False), (''setUnlockEpoch'', [One NumberK], False),
     (''addAdmin'', [One AddressK], False), (''removeAdmin'', [One AddressK], False),
     (''updateOwnerOrAdmin'', [One AddressK], False), (''addToPauseWhitelist'', [Variadic [AddressK]], False),
     (''removeFromPauseWhitelist'', [Variadic [AddressK]], False), (''pause'', [], False), (''resume'', [], False)]"

text \<open>\<open>src/abis/router.abi.json\<close>.\<close>

definition routerAbi :: abi where
  "routerAbi =
    [(''pause'', [One AddressK], False), (''resume'', [One AddressK], False),
     (''createPair'', [One BytesK, One BytesK, One AddressK, Optional [NumberK, NumberK], Variadic [AddressK]], False),
     (''upgradePair'', [One BytesK, One BytesK, One AddressK, One NumberK, One NumberK], False),
     (''issueLpToken'', [One AddressK, One BytesK, One BytesK], True), (''setLocalRoles'', [One AddressK], False),
     (''setLocalRolesOwner'', [One BytesK, One AddressK, Variadic [NumberK]], False),
     (''removePair'', [One BytesK, One BytesK], False),
     (''setFeeOn'', [One AddressK, One AddressK, One BytesK], False),
     (''setFeeOff'', [One AddressK, One AddressK, One BytesK], False),
     (''setPairCreationEnabled'', [One NumberK], False), (''clearPairTemporaryOwnerStorage'', [], False),
     (''setTemporaryOwnerPeriod'', [One NumberK], False), (''setPairTemplateAddress'', [One AddressK], False),
     (''multiPairSwap'', [Variadic [AddressK, BytesK, BytesK, NumberK]], True),
     (''configEnableByUserParameters'', [One BytesK, One BytesK, One NumberK, One NumberK], False),
     (''addCommonTokensForUserPairs'', [Variadic [BytesK]], False),
     (''removeCommonTokensForUserPairs'', [Variadic [BytesK]], False),
     (''setSwapEnabledByUser'', [One AddressK], True)]"

text \<open>\<open>src/abis/farm-staking.abi.json\<close>.\<close>

definition stakingAbi :: abi where
  "stakingAbi =
    [(''stakeFarmThroughProxy'', [One NumberK], False), (''stakeFarm'', [Optional [BytesK]], True),
     (''unstakeFarm'', [Optional [BytesK]], True), (''unstakeFarmThroughProxy'', [], True),
     (''unbondFarm'', [Optional [BytesK]], True), (''claimRewards'', [Optional [BytesK]], True),
     (''claimRewardsWithNewValue'', [One StructK], True), (''compoundRewards'', [Optional [BytesK]], True),
     (''topUpRewards'', [], True), (''end_produce_rewards'', [], False),
     (''setPerBlockRewardAmount'', [One NumberK], False), (''setMaxApr'', [One NumberK], False),
     (''setMinUnbondEpochs'', [One NumberK], False), (''startProduceRewards'', [], False),
     (''set_penalty_percent'', [One NumberK], False), (''set_minimum_farming_epochs'', [One NumberK], False),
     (''set_transfer_exec_gas_limit'', [One NumberK], False), (''set_burn_gas_limit'', [One NumberK], False),
     (''pause'', [], False), (''resume'', [], False),
     (''registerFarmToken'', [One BytesK, One BytesK, One NumberK], True), (''setLocalRolesFarmToken'', [], False),
     (''mergeFarmTokens'', [Optional [BytesK]], True), (''addAddressToWhitelist'', [One AddressK], False),
     (''removeAddressFromWhitelist'', [One AddressK], False)]"

text \<open>\<open>src/abis/simple-lock.abi.json\<close>.\<close>

definition simpleLockAbi :: abi where
  "simpleLockAbi =
    [(''lockTokens'', [One NumberK, Optional [AddressK]], True), (''unlockTokens'', [Optional [AddressK]], True),
     (''issueLockedToken'', [One BytesK, One BytesK, One NumberK], True), (''setLocalRolesLockedToken'', [], False),
     (''issueLpProxyToken'', [One BytesK, One BytesK, One NumberK], True),
     (''setLocalRolesLpProxyToken'', [], False),
     (''addLpToWhitelist'', [One AddressK, One BytesK, One BytesK], False),
     (''removeLpFromWhitelist'', [One AddressK, One BytesK, One BytesK], False),
     (''addLiquidityLockedToken'', [One NumberK, One NumberK], True),
     (''removeLiquidityLockedToken'', [One NumberK, One NumberK], True),
     (''issueFarmProxyToken'', [One BytesK, One BytesK, One NumberK], True),
     (''setLocalRolesFarmProxyToken'', [], False),
     (''addFarmToWhitelist'', [One AddressK, One BytesK, One NumberK], False),
     (''removeFarmFromWhitelist'', [One AddressK, One BytesK, One NumberK], False),
     (''enterFarmLockedToken'', [One NumberK], True), (''exitFarmLockedToken'', [], True),
     (''farmClaimRewardsLockedToken'', [], True)]"

text \<open>\<open>src/abis/energy-factory.abi.json\<close>.\<close>

definition energyFactoryAbi :: abi where
  "energyFactoryAbi =
    [(''lockTokens'', [One NumberK, Optional [AddressK]], True), (''unlockTokens'', [], True),
     (''issueLockedToken'', [One BytesK, One BytesK, One NumberK], True),
     (''addLockOptions'', [Variadic [NumberK, NumberK]], False), (''unlockEarly'', [], True),
     (''reduceLockPeriod'', [One NumberK], True), (''setTokenUnstakeAddress'', [One AddressK], False),
     (''createMergedLockedTokenForFees'', [One NumberK, One NumberK], False),
     (''revertUnstake'', [One AddressK, One StructK], True),
     (''updateEnergyForOldTokens'', [One AddressK, One NumberK, One NumberK], False),
     (''updateEnergyAfterOldTokenUnlock'', [One AddressK, One StructK], False), (''migrateOldTokens'', [], True),
     (''pause'', [], False), (''unpause'', [], False),
     (''setTransferRoleLockedToken'', [Optional [AddressK]], False),
     (''setBurnRoleLockedToken'', [One AddressK], False), (''mergeTokens'', [Optional [AddressK]], True),
     (''lockVirtual'', [One BytesK, One NumberK, One NumberK, One AddressK, One AddressK], False),
     (''addSCAddressToWhitelist'', [One AddressK], False), (''removeSCAddressFromWhitelist'', [One AddressK], False),
     (''addToTokenTransferWhitelist'', [Variadic [AddressK]], False),
     (''removeFromTokenTransferWhitelist'', [Variadic [AddressK]], False),
     (''setUserEnergyAfterLockedTokenTransfer'', [One AddressK, One StructK], False)]"

text \<open>\<open>src/abis/proxy-dex.abi.json\<close>.\<close>

definition proxyDexAbi :: abi where
  "proxyDexAbi =
    [(''registerProxyPair'', [One BytesK, One BytesK, One NumberK], True),
     (''registerProxyFarm'', [One BytesK, One BytesK, One NumberK], True),
     (''setLocalRoles'', [One BytesK, One AddressK, Variadic [NumberK]], False),
     (''addPairToIntermediate'', [One AddressK], False), (''removeIntermediatedPair'', [One AddressK], False),
     (''addLiquidityProxy'', [One AddressK, One NumberK, One NumberK], True),
     (''removeLiquidityProxy'', [One AddressK, One NumberK, One NumberK], True),
     (''addFarmToIntermediate'', [One AddressK], False), (''removeIntermediatedFarm'', [One AddressK], False),
     (''enterFarmProxy'', [One AddressK], True), (''exitFarmProxy'', [One AddressK], True),
     (''claimRewardsProxy'', [One AddressK], True), (''compoundRewardsProxy'', [One AddressK], True),
     (''mergeWrappedFarmTokens'', [One AddressK, Optional [BytesK]], True),
     (''mergeWrappedLpTokens'', [Optional [BytesK]], True), (''migrateV1_2Position'', [One AddressK], True)]"

text \<open>\<open>src/abis/proxy-dex-v2.abi.json\<close>.\<close>

definition proxyDexV2Abi :: abi where
  "proxyDexV2Abi =
    [(''registerProxyPair'', [One BytesK, One BytesK, One NumberK], True),
     (''registerProxyFarm'', [One BytesK, One BytesK, One NumberK], True),
     (''addPairToIntermediate'', [One AddressK], False), (''removeIntermediatedPair'', [One AddressK], False),
     (''addFarmToIntermediate'', [One AddressK], False), (''removeIntermediatedFarm'', [One AddressK], False),
     (''addLiquidityProxy'', [One AddressK, One NumberK, One NumberK], True),
     (''removeLiquidityProxy'', [One AddressK, One NumberK, One NumberK], True),
     (''enterFarmProxy'', [One AddressK], True), (''exitFarmProxy'', [One NumberK, One AddressK], True),
     (''claimRewardsProxy'', [One AddressK], True), (''compoundRewardsProxy'', [One AddressK], True),
     (''mergeWrappedFarmTokens'', [One AddressK], True), (''mergeWrappedLpTokens'', [], True)]"

text \<open>\<open>src/abis/farm-staking-proxy.abi.json\<close>.\<close>

definition stakingProxyAbi :: abi where
  "stakingProxyAbi =
    [(''stakeFarmTokens'', [], True), (''claimDualYield'', [], True), (''unstakeFarmTokens'', [], True),
     (''issueDualYieldToken'', [One BytesK, One BytesK, One NumberK], True)]"

text \<open>\<open>src/abis/price-discovery.abi.json\<close>.\<close>

definition priceDiscoveryAbi :: abi where
  "priceDiscoveryAbi =
    [(''deposit'', [], True), (''withdraw'', [], True), (''redeem'', [], True),
     (''setLockingScAddress'', [One AddressK], False), (''setUnlockEpoch'', [One NumberK], False),
     (''issueRedeemToken'', [One BytesK, One BytesK, One NumberK], True), (''createInitialRedeemTokens'', [], False)]"

text \<open>\<open>src/abis/locked-token-wrapper.abi.json\<close>.\<close>

definition lockedTokenWrapperAbi :: abi where
  "lockedTokenWrapperAbi =
    [(''wrapLockedToken'', [], True), (''unwrapLockedToken'', [], True),
     (''issueWrappedToken'', [One BytesK, One BytesK, One NumberK], True),
     (''setTransferRoleWrappedToken'', [Optional [AddressK]], False),
     (''unsetTransferRoleWrappedToken'', [One AddressK], False),
     (''setEnergyFactoryAddress'', [One AddressK], False)]"

text \<open>\<open>src/abis/lkmex-transfer.abi.json\<close>.\<close>

definition escrowAbi :: abi where
  "escrowAbi =
    [(''withdraw'', [One AddressK], False), (''cancelTransfer'', [One AddressK, One AddressK], False),
     (''lockFunds'', [One AddressK], True), (''setEnergyFactoryAddress'', [One AddressK], False),
     (''addAdmin'', [One AddressK], False), (''removeAdmin'', [One AddressK], False),
     (''updateOwnerOrAdmin'', [One AddressK], False)]"

text \<open>\<open>src/abis/token-unstake.abi.json\<close>.\<close>

definition tokenUnstakeAbi :: abi where
  "tokenUnstakeAbi =
    [(''claimUnlockedTokens'', [], False), (''cancelUnbond'', [], False),
     (''depositUserTokens'', [One AddressK], True), (''depositFees'', [], True),
     (''setEnergyFactoryAddress'', [One AddressK], False)]"

text \<open>\<open>src/abis/fees-collector.abi.json\<close>.\<close>

definition feesCollectorAbi :: abi where
  "feesCollectorAbi =
    [(''claimRewards'', [], False), (''addKnownContracts'', [Variadic [AddressK]], False),
     (''removeKnownContracts'', [Variadic [AddressK]], False), (''addKnownTokens'', [Variadic [BytesK]], False),
     (''removeKnownTokens'', [Variadic [BytesK]], False), (''updateEnergyForUser'', [One AddressK], False),
     (''depositSwapFees'', [], True), (''setLockedTokensPerBlock'', [One NumberK], False),
     (''setLockingScAddress'', [One AddressK], False), (''setLockEpochs'', [One NumberK], False),
     (''setEnergyFactoryAddress'', [One AddressK], False), (''pause'', [], False), (''unpause'', [], False)]"

text \<open>\<open>src/abis/energy-update.abi.json\<close>.\<close>

definition energyUpdateAbi :: abi where
  "energyUpdateAbi =
    [(''updateFarmsEnergyForUser'', [One AddressK, Variadic [AddressK]], False)]"

text \<open>\<open>src/abis/factory.abi.json\<close>.\<close>

definition lockedAssetAbi :: abi where
  "lockedAssetAbi =
    [(''whitelist'', [One AddressK], False), (''removeWhitelist'', [One AddressK], False),
     (''createAndForwardCustomPeriod'', [One NumberK, One AddressK, One NumberK, One StructK], False),
     (''createAndForward'', [One NumberK, One AddressK, One NumberK, Optional [BytesK]], False),
     (''unlockAssets'', [], True), (''lockAssets'', [], True), (''setUnlockPeriod'', [Variadic [StructK]], False),
     (''registerLockedAssetToken'', [One BytesK, One BytesK, One NumberK], True),
     (''setLocalRolesLockedAssetToken'', [One AddressK, Variadic [NumberK]], False),
     (''setInitEpoch'', [One NumberK], False), (''set_transfer_exec_gas_limit'', [One NumberK], False),
     (''mergeLockedAssetTokens'', [Optional [BytesK]], True)]"

text \<open>\<open>src/abis/metabonding-staking.abi.json\<close>.\<close>

definition metabondingAbi :: abi where
  "metabondingAbi =
    [(''stakeLockedAsset'', [], True), (''unstake'', [One NumberK], False), (''unbond'', [], False)]"

text \<open>\<open>src/abis/distribution.abi.json\<close>.\<close>

definition distributionAbi :: abi where
  "distributionAbi =
    [(''setCommunityDistribution'', [One NumberK, One NumberK], False),
     (''setPerUserDistributedLockedAssets'', [One NumberK, Variadic [AddressK, NumberK]], False),
     (''claimLockedAssets'', [], False), (''clearUnclaimableAssets'', [], False),
     (''undoLastCommunityDistribution'', [], False),
     (''undoUserDistributedAssetsBetweenEpochs'', [One NumberK, One NumberK], False),
     (''setUnlockPeriod'', [Variadic [StructK]], False),
     (''deleteUserDistributedLockedAssets'', [One NumberK, One AddressK], False),
     (''startGlobalOperation'', [], False), (''endGlobalOperation'', [], False)]"


end
