(* ===== verification/LockedTokens.thy ===== *)
theory LockedTokens
  imports UserEnergy Abi
begin

text \<open>
  Working with locked tokens: the contract of a list of inputs and the cached attributes of tokens
  (\<open>src/modules/simple-lock/services/simple.lock.service.ts\<close>), the transactions
  (\<open>simple.lock.transactions.service.ts\<close>), the validation pipes of their inputs (\<open>validators\<close>) and the
  queries (\<open>src/modules/simple-lock/transaction.resolver.ts\<close>).

  Attributes are decoded by \<open>@multiversx/sdk-exchange\<close>: the decoders are fields of
  \<open>simple_lock_view\<close> and may throw; \<open>None\<close> are missing attributes.
\<close>

section \<open>Data\<close>

record locked_input = input_token +
  inAttributes :: "string option"

record locked_attributes =
  laOriginalTokenID :: string
  laOriginalTokenNonce :: int
  laUnlockEpoch :: int

record lp_proxy_attributes =
  lpaLpTokenID :: string
  lpaFirstTokenID :: string
  lpaFirstTokenLockedNonce :: int
  lpaSecondTokenID :: string
  lpaSecondTokenLockedNonce :: int

record farm_proxy_attributes =
  fpaFarmType :: string
  fpaFarmTokenID :: string
  fpaFarmTokenNonce :: int
  fpaFarmingTokenID :: string
  fpaFarmingTokenLockedNonce :: int

record simple_lock_view =
  slAddresses :: "string list"
  slLockedTokenID :: "string \<Rightarrow> string"
  slLpProxyTokenID :: "string \<Rightarrow> string"
  slFarmProxyTokenID :: "string \<Rightarrow> string"
  nftAttributes :: "string \<Rightarrow> string \<Rightarrow> string option"
  decodeLocked :: "string option \<Rightarrow> locked_attributes res"
  decodeLpProxy :: "string option \<Rightarrow> lp_proxy_attributes res"
  decodeFarmProxy :: "string option \<Rightarrow> farm_proxy_attributes res"

text \<open>The base of the input and the test \<open>if (inputToken.attributes)\<close>.\<close>

definition truthy_attributes :: "string option \<Rightarrow> bool" where
  "truthy_attributes a \<longleftrightarrow> a \<noteq> None \<and> a \<noteq> Some []"

definition pay_locked :: "('a) input_token_scheme \<Rightarrow> payment" where
  "pay_locked t = meta_esdt (tokenID t) (nonce t) (amount t)"

section \<open>The contract of a token\<close>

fun findSimpleLock :: "simple_lock_view \<Rightarrow> string \<Rightarrow> string list \<Rightarrow> string option" where
  "findSimpleLock S tid [] = None"
| "findSimpleLock S tid (address' # rest) =
     (if tid = slLockedTokenID S address' \<or> tid = slLpProxyTokenID S address' \<or> tid = slFarmProxyTokenID S address'
      then Some address' else findSimpleLock S tid rest)"

definition getSimpleLockAddressByTokenID :: "simple_lock_view \<Rightarrow> string \<Rightarrow> string option" where
  "getSimpleLockAddressByTokenID S tid = findSimpleLock S tid (slAddresses S)"

text \<open>The loop over the inputs; an empty address is as false as a missing one.\<close>

fun inputsContract ::
  "simple_lock_view \<Rightarrow> string option \<Rightarrow> ('a) input_token_scheme list \<Rightarrow> string option res" where
  "inputsContract S found [] = Inr found"
| "inputsContract S found (token # rest) =
     (if nonce token = 0 then inputsContract S found rest
      else case getSimpleLockAddressByTokenID S (tokenID token) of
        None \<Rightarrow> inputsContract S found rest
      | Some address' \<Rightarrow>
          if address' = [] then inputsContract S found rest
          else case found of
            None \<Rightarrow> inputsContract S (Some address') rest
          | Some a \<Rightarrow> if address' \<noteq> a then Inl (JsError ''Input tokens not from contract'')
                     else inputsContract S found rest)"

definition getSimpleLockAddressFromInputTokens ::
  "simple_lock_view \<Rightarrow> ('a) input_token_scheme list \<Rightarrow> string res" where
  "getSimpleLockAddressFromInputTokens S inputTokens =
     res_bind (inputsContract S None inputTokens) (\<lambda>found.
       case found of None \<Rightarrow> Inl (JsError ''Invalid input tokens'') | Some a \<Rightarrow> Inr a)"

section \<open>Attributes of tokens\<close>

text \<open>
  The cache of decoded attributes by key. The collections differ, so the keys of the three kinds
  of tokens do too, and each kind has a map of its own.
\<close>

definition attributesKey :: "string \<Rightarrow> string" where
  "attributesKey identifier = identifier @ ''.decodedAttributes''"

text \<open>Look the key \<open>readKey\<close> up, else decode what the API returns and keep it under \<open>writeKey\<close>.\<close>

definition cachedAttributes ::
  "string \<Rightarrow> string \<Rightarrow> 'a res \<Rightarrow> (string \<rightharpoonup> 'a) \<Rightarrow> 'a res \<times> (string \<rightharpoonup> 'a)" where
  "cachedAttributes readKey writeKey decoded cache =
     (case cache readKey of
        Some v \<Rightarrow> (Inr v, cache)
      | None \<Rightarrow> (case decoded of
          Inl e \<Rightarrow> (Inl e, cache)
        | Inr v \<Rightarrow> (Inr v, cache(writeKey \<mapsto> v))))"

text \<open>The value is read under the identifier of the token but kept under the collection.\<close>

definition getLockedTokenAttributes ::
  "simple_lock_view \<Rightarrow> string \<Rightarrow> nat \<Rightarrow> (string \<rightharpoonup> locked_attributes)
    \<Rightarrow> locked_attributes res \<times> (string \<rightharpoonup> locked_attributes)" where
  "getLockedTokenAttributes S tid tokenNonce' cache =
     (case getSimpleLockAddressByTokenID S tid of
        None \<Rightarrow> (Inl TypeError, cache)
      | Some simpleLock \<Rightarrow>
          let identifier = tokenIdentifier (slLockedTokenID S simpleLock) tokenNonce'
          in cachedAttributes (attributesKey identifier) (attributesKey tid)
               (decodeLocked S (nftAttributes S simpleLock identifier)) cache)"

definition getLpTokenProxyAttributes ::
  "simple_lock_view \<Rightarrow> string \<Rightarrow> nat \<Rightarrow> (string \<rightharpoonup> lp_proxy_attributes)
    \<Rightarrow> lp_proxy_attributes res \<times> (string \<rightharpoonup> lp_proxy_attributes)" where
  "getLpTokenProxyAttributes S tid tokenNonce' cache =
     (case getSimpleLockAddressByTokenID S tid of
        None \<Rightarrow> (Inl TypeError, cache)
      | Some simpleLock \<Rightarrow>
          let identifier = tokenIdentifier (slLpProxyTokenID S simpleLock) tokenNonce'
          in cachedAttributes (attributesKey identifier) (attributesKey identifier)
               (decodeLpProxy S (nftAttributes S simpleLock identifier)) cache)"

section \<open>Transactions\<close>

definition lock_lockTokens ::
  "bignumber \<Rightarrow> dex_config \<Rightarrow> chain_view \<Rightarrow> ('a) input_token_scheme \<Rightarrow> rat \<Rightarrow> string \<Rightarrow> transaction res" where
  "lock_lockTokens B cfg V inputTokens epochs simpleLock =
     build simpleLockAbi (paid_call cfg simpleLock ''lockTokens''
       [U64V (bn_number B (fl64 (of_int (currentEpoch V) + epochs)))]
       [fungible (tokenID inputTokens) (amount inputTokens)] (gas cfg ''simpleLock.lockTokens''))"

definition lock_unlockTokens ::
  "dex_config \<Rightarrow> string \<Rightarrow> string \<Rightarrow> ('a) input_token_scheme \<Rightarrow> transaction res" where
  "lock_unlockTokens cfg simpleLock sender inputTokens =
     build simpleLockAbi (sender_call cfg sender simpleLock ''unlockTokens'' [] [pay_locked inputTokens]
       (gas cfg ''simpleLock.unlockTokens''))"

text \<open>The token an input stands for in the pair.\<close>

definition originalTokenID :: "simple_lock_view \<Rightarrow> locked_input \<Rightarrow> string res" where
  "originalTokenID S t =
     (if truthy_attributes (inAttributes t)
      then res_bind (decodeLocked S (inAttributes t)) (\<lambda>a. Inr (laOriginalTokenID a))
      else Inr (tokenID t))"

definition addLiquidityLockedToken ::
  "bignumber \<Rightarrow> dex_config \<Rightarrow> chain_view \<Rightarrow> simple_lock_view \<Rightarrow> string \<Rightarrow> string \<Rightarrow> locked_input \<Rightarrow> locked_input
    \<Rightarrow> string \<Rightarrow> rat \<Rightarrow> transaction res" where
  "addLiquidityLockedToken B cfg V S simpleLock sender t0 t1 pairAddress tolerance =
     res_bind (originalTokenID S t0) (\<lambda>id0.
     res_bind (originalTokenID S t1) (\<lambda>id1.
       let (first, second) =
             (if id0 \<noteq> firstTokenID V pairAddress \<or> id1 \<noteq> secondTokenID V pairAddress then (t1, t0) else (t0, t1))
       in build simpleLockAbi (sender_call cfg sender simpleLock ''addLiquidityLockedToken''
            [BigUInt (minAmount B (amount first) tolerance), BigUInt (minAmount B (amount second) tolerance)]
            [pay_locked first, pay_locked second] (gas cfg ''simpleLock.addLiquidityLockedToken''))))"

definition addLiquidityLockedTokenBatch ::
  "bignumber \<Rightarrow> dex_config \<Rightarrow> chain_view \<Rightarrow> simple_lock_view \<Rightarrow> string \<Rightarrow> string \<Rightarrow> locked_input list
    \<Rightarrow> string \<Rightarrow> rat \<Rightarrow> transaction list res" where
  "addLiquidityLockedTokenBatch B cfg V S simpleLock sender inputTokens pairAddress tolerance =
     (case inputTokens of
        [t0, t1] \<Rightarrow>
          let (wraps, t0', t1') =
            (if tokenID t0 = EGLDIdentifier cfg
               then ([wrapEgld cfg V sender (amount t0)], t0\<lparr>tokenID := wrappedEgldTokenID V\<rparr>, t1)
             else if tokenID t1 = EGLDIdentifier cfg
               then ([wrapEgld cfg V sender (amount t1)], t0, t1\<lparr>tokenID := wrappedEgldTokenID V\<rparr>)
             else ([], t0, t1))
          in res_bind (addLiquidityLockedToken B cfg V S simpleLock sender t0' t1' pairAddress tolerance)
               (\<lambda>t. Inr (wraps @ [t]))
      | _ \<Rightarrow> Inl (JsError ''Invalid input tokens length''))"

definition removeLiquidityLockedToken ::
  "bignumber \<Rightarrow> dex_config \<Rightarrow> chain_view \<Rightarrow> simple_lock_view \<Rightarrow> string \<Rightarrow> string \<Rightarrow> ('a) input_token_scheme
    \<Rightarrow> string \<Rightarrow> rat \<Rightarrow> transaction list res" where
  "removeLiquidityLockedToken B cfg V S simpleLock sender inputTokens attributes tolerance =
     res_bind (decodeLpProxy S (Some attributes)) (\<lambda>lp.
     res_bind (on_pair V (lpaLpTokenID lp) (\<lambda>pairAddress. getLiquidityPosition B V pairAddress (amount inputTokens)))
       (\<lambda>pos.
     res_bind (build simpleLockAbi (sender_call cfg sender simpleLock ''removeLiquidityLockedToken''
         [BigUInt (minAmount B (firstTokenAmount pos) tolerance), BigUInt (minAmount B (secondTokenAmount pos) tolerance)]
         [pay_locked inputTokens] (gas cfg ''simpleLock.removeLiquidityLockedToken''))) (\<lambda>t. Inr [t])))"

text \<open>The farm type the contract is told; \<open>None\<close> is \<open>undefined\<close>, which has no variant.\<close>

definition farmTypeDiscriminant :: "farms_config \<Rightarrow> string \<Rightarrow> int option" where
  "farmTypeDiscriminant table farm =
     (if farmVersion table farm = Some V2 then Some 2
      else case farmType table farm of
        Some UNLOCKED_REWARDS \<Rightarrow> Some 0 | Some LOCKED_REWARDS \<Rightarrow> Some 1 | _ \<Rightarrow> None)"

definition farmTypeVariant :: "int option \<Rightarrow> string res" where
  "farmTypeVariant d =
     (if d = Some 0 then Inr ''SimpleFarm'' else if d = Some 1 then Inr ''FarmWithLockedRewards''
      else if d = Some 2 then Inr ''FarmWithBoostedRewards'' else Inl TypeError)"

definition sameFarmPosition :: "lp_proxy_attributes \<Rightarrow> locked_input \<Rightarrow> string \<Rightarrow> farm_proxy_attributes \<Rightarrow> bool" where
  "sameFarmPosition lp lpProxyToken farmTypeName a \<longleftrightarrow>
     fpaFarmingTokenID a = lpaLpTokenID lp \<and> fpaFarmingTokenLockedNonce a = nonce lpProxyToken \<and>
     fpaFarmType a = farmTypeName"

definition validateInputEnterFarmProxyToken ::
  "simple_lock_view \<Rightarrow> locked_input list \<Rightarrow> string \<Rightarrow> unit res" where
  "validateInputEnterFarmProxyToken S inputTokens farmTypeName =
     (case inputTokens of
        [] \<Rightarrow> Inl TypeError
      | lpProxyToken # rest \<Rightarrow>
          res_bind (decodeLpProxy S (inAttributes lpProxyToken)) (\<lambda>lp.
          res_bind (res_map (\<lambda>t. decodeFarmProxy S (inAttributes t)) rest) (\<lambda>batch.
            if \<forall>a\<in>set batch. sameFarmPosition lp lpProxyToken farmTypeName a then Inr ()
            else Inl (JsError ''Invalid farm proxy token''))))"

definition enterFarmLockedToken ::
  "dex_config \<Rightarrow> farms_config \<Rightarrow> simple_lock_view \<Rightarrow> string \<Rightarrow> string \<Rightarrow> locked_input list \<Rightarrow> string
    \<Rightarrow> transaction res" where
  "enterFarmLockedToken cfg table S simpleLock sender inputTokens farm =
     res_bind (farmTypeVariant (farmTypeDiscriminant table farm)) (\<lambda>farmTypeName.
     res_bind (validateInputEnterFarmProxyToken S inputTokens farmTypeName) (\<lambda>_.
       build simpleLockAbi (sender_call cfg sender simpleLock ''enterFarmLockedToken''
         (case farmTypeDiscriminant table farm of Some d \<Rightarrow> [EnumV d] | None \<Rightarrow> [])
         (map pay_locked inputTokens)
         (if 1 < length inputTokens then gas cfg ''simpleLock.enterFarmLockedToken.withTokenMerge''
          else gas cfg ''simpleLock.enterFarmLockedToken.default''))))"

definition validateInputFarmProxyToken ::
  "simple_lock_view \<Rightarrow> ('a) input_token_scheme \<Rightarrow> string \<Rightarrow> unit res" where
  "validateInputFarmProxyToken S inputTokens simpleLock =
     (if tokenID inputTokens \<noteq> slFarmProxyTokenID S simpleLock \<or> nonce inputTokens < 1
      then Inl (JsError ''Invalid input token'') else Inr ())"

text \<open>\<open>exitAmount\<close> is \<open>None\<close> when it is missing or empty.\<close>

definition exitFarmLockedToken ::
  "dex_config \<Rightarrow> simple_lock_view \<Rightarrow> string \<Rightarrow> string \<Rightarrow> ('a) input_token_scheme \<Rightarrow> farm_version option \<Rightarrow> bn option
    \<Rightarrow> transaction res" where
  "exitFarmLockedToken cfg S simpleLock sender inputTokens version exitAmount =
     res_bind (validateInputFarmProxyToken S inputTokens simpleLock) (\<lambda>_.
       if exitAmount = None \<and> version = Some V2 then Inl (JsError ''Invalid exit amount!'')
       else build simpleLockAbi (sender_call cfg sender simpleLock ''exitFarmLockedToken''
              (if version = Some V2 then (case exitAmount of Some n \<Rightarrow> [BigUInt n] | None \<Rightarrow> []) else [])
              [pay_locked inputTokens] (gas cfg ''simpleLock.exitFarmLockedToken'')))"

definition farmClaimRewardsLockedToken ::
  "dex_config \<Rightarrow> simple_lock_view \<Rightarrow> string \<Rightarrow> string \<Rightarrow> ('a) input_token_scheme \<Rightarrow> transaction res" where
  "farmClaimRewardsLockedToken cfg S simpleLock sender inputTokens =
     res_bind (validateInputFarmProxyToken S inputTokens simpleLock) (\<lambda>_.
       build simpleLockAbi (sender_call cfg sender simpleLock ''farmClaimRewardsLockedToken'' [] [pay_locked inputTokens]
         (gas cfg ''simpleLock.claimRewardsFarmLockedToken'')))"

text \<open>This call is built with the endpoint's name, past the interface of the contract.\<close>

definition exitFarmOldToken ::
  "dex_config \<Rightarrow> simple_lock_view \<Rightarrow> string \<Rightarrow> string \<Rightarrow> ('a) input_token_scheme \<Rightarrow> transaction res" where
  "exitFarmOldToken cfg S simpleLock sender inputTokens =
     res_bind (validateInputFarmProxyToken S inputTokens simpleLock) (\<lambda>_.
       Inr (sender_call cfg sender simpleLock ''exitFarmOldToken'' [] [pay_locked inputTokens]
         (gas cfg ''simpleLock.exitFarmLockedToken'')))"

section \<open>Validation pipes\<close>

text \<open>The pipes of one token: it must have the given identifier and a nonce.\<close>

definition checkedToken :: "string \<Rightarrow> string \<Rightarrow> ('a) input_token_scheme \<Rightarrow> unit res" where
  "checkedToken tid msg t = (if tokenID t \<noteq> tid \<or> nonce t < 1 then Inl (JsError msg) else Inr ())"

definition unlockTokensPipe :: "simple_lock_view \<Rightarrow> ('a) input_token_scheme \<Rightarrow> unit res" where
  "unlockTokensPipe S t =
     res_bind (getSimpleLockAddressFromInputTokens S [t]) (\<lambda>simpleLock.
       checkedToken (slLockedTokenID S simpleLock) ''Invalid locked token'' t)"

definition lpProxyTokensPipe :: "simple_lock_view \<Rightarrow> ('a) input_token_scheme \<Rightarrow> unit res" where
  "lpProxyTokensPipe S t =
     res_bind (getSimpleLockAddressFromInputTokens S [t]) (\<lambda>simpleLock.
       checkedToken (slLpProxyTokenID S simpleLock) ''Invalid lp proxy token'' t)"

definition farmProxyTokensPipe :: "simple_lock_view \<Rightarrow> ('a) input_token_scheme \<Rightarrow> unit res" where
  "farmProxyTokensPipe S t =
     res_bind (getSimpleLockAddressFromInputTokens S [t]) (\<lambda>simpleLock.
       checkedToken (slFarmProxyTokenID S simpleLock) ''Invalid farm proxy token'' t)"

definition enterFarmProxyTokensPipe :: "simple_lock_view \<Rightarrow> ('a) input_token_scheme list \<Rightarrow> unit res" where
  "enterFarmProxyTokensPipe S value =
     res_bind (getSimpleLockAddressFromInputTokens S value) (\<lambda>simpleLock.
       case value of
         [] \<Rightarrow> Inl TypeError
       | first # rest \<Rightarrow>
           res_bind (checkedToken (slLpProxyTokenID S simpleLock) ''Invalid lp proxy token'' first) (\<lambda>_.
           res_bind (res_map (checkedToken (slFarmProxyTokenID S simpleLock) ''Invalid farm proxy token'') rest)
             (\<lambda>_. Inr ())))"

definition liquidityTokensPipe :: "simple_lock_view \<Rightarrow> ('a) input_token_scheme list \<Rightarrow> unit res" where
  "liquidityTokensPipe S value =
     res_bind (getSimpleLockAddressFromInputTokens S value) (\<lambda>simpleLock.
       let lockedID = slLockedTokenID S simpleLock in
       case value of
         [t0, t1] \<Rightarrow>
           if tokenID t0 \<noteq> lockedID \<and> tokenID t1 \<noteq> lockedID then Inl (JsError ''Invalid tokens to send'')
           else if tokenID t0 = lockedID \<and> nonce t0 < 1 then Inl (JsError ''Invalid locked token'')
           else if tokenID t1 = lockedID \<and> nonce t1 < 1 then Inl (JsError ''Invalid locked token'')
           else Inr ()
       | _ \<Rightarrow> Inl (JsError ''Invalid number of tokens''))"

section \<open>Queries\<close>

datatype locked_query =
    LockTokensQ locked_input rat string
  | UnlockTokensQ locked_input
  | AddLiquidityQ "locked_input list" string rat
  | RemoveLiquidityQ locked_input string rat
  | EnterFarmQ "locked_input list" string
  | ExitFarmQ locked_input "bn option"
  | ClaimRewardsQ locked_input

definition exitFarmQuery ::
  "dex_config \<Rightarrow> farms_config \<Rightarrow> farm_view \<Rightarrow> simple_lock_view \<Rightarrow> string \<Rightarrow> locked_input \<Rightarrow> bn option
    \<Rightarrow> transaction res" where
  "exitFarmQuery cfg table F S user inputTokens exitAmount =
     res_bind (getSimpleLockAddressFromInputTokens S [inputTokens]) (\<lambda>simpleLock.
     res_bind (decodeFarmProxy S (inAttributes inputTokens)) (\<lambda>a.
     res_bind (getFarmAddressByFarmTokenID table F (fpaFarmTokenID a)) (\<lambda>farm.
       let version = Option.bind farm (farmVersion table) in
       if fpaFarmType a = ''FarmWithBoostedRewards'' \<or> str_includes (slLockedTokenID S simpleLock) ''LKESDT''
       then exitFarmLockedToken cfg S simpleLock user inputTokens version exitAmount
       else exitFarmOldToken cfg S simpleLock user inputTokens)))"

fun locked_resolver ::
  "bignumber \<Rightarrow> dex_config \<Rightarrow> farms_config \<Rightarrow> chain_view \<Rightarrow> farm_view \<Rightarrow> simple_lock_view \<Rightarrow> string \<Rightarrow> locked_query
    \<Rightarrow> transaction list res" where
  "locked_resolver B cfg table V F S user (LockTokensQ t epochs simpleLock) =
     res_bind (lock_lockTokens B cfg V t epochs simpleLock) (\<lambda>x. Inr [x])"
| "locked_resolver B cfg table V F S user (UnlockTokensQ t) =
     res_bind (unlockTokensPipe S t) (\<lambda>_.
     res_bind (getSimpleLockAddressFromInputTokens S [t]) (\<lambda>simpleLock.
     res_bind (lock_unlockTokens cfg simpleLock user t) (\<lambda>x. Inr [x])))"
| "locked_resolver B cfg table V F S user (AddLiquidityQ ts pair tolerance) =
     res_bind (liquidityTokensPipe S ts) (\<lambda>_.
     res_bind (getSimpleLockAddressFromInputTokens S ts) (\<lambda>simpleLock.
       addLiquidityLockedTokenBatch B cfg V S simpleLock user ts pair tolerance))"
| "locked_resolver B cfg table V F S user (RemoveLiquidityQ t attributes tolerance) =
     res_bind (lpProxyTokensPipe S t) (\<lambda>_.
     res_bind (getSimpleLockAddressFromInputTokens S [t]) (\<lambda>simpleLock.
       removeLiquidityLockedToken B cfg V S simpleLock user t attributes tolerance))"
| "locked_resolver B cfg table V F S user (EnterFarmQ ts farm) =
     res_bind (enterFarmProxyTokensPipe S ts) (\<lambda>_.
     res_bind (getSimpleLockAddressFromInputTokens S ts) (\<lambda>simpleLock.
     res_bind (enterFarmLockedToken cfg table S simpleLock user ts farm) (\<lambda>x. Inr [x])))"
| "locked_resolver B cfg table V F S user (ExitFarmQ t exitAmount) =
     res_bind (farmProxyTokensPipe S t) (\<lambda>_.
     res_bind (exitFarmQuery cfg table F S user t exitAmount) (\<lambda>x. Inr [x]))"
| "locked_resolver B cfg table V F S user (ClaimRewardsQ t) =
     res_bind (farmProxyTokensPipe S t) (\<lambda>_.
     res_bind (getSimpleLockAddressFromInputTokens S [t]) (\<lambda>simpleLock.
     res_bind (farmClaimRewardsLockedToken cfg S simpleLock user t) (\<lambda>x. Inr [x])))"

section \<open>The contract of the inputs\<close>





text \<open>
  The attributes of a locked token are decoded anew at every call: what is kept under the key of
  the collection is never looked up.
\<close>

lemma locked_attributes_never_cached:
  assumes "cache (attributesKey (tokenIdentifier (slLockedTokenID S a) n)) = None"
    and "getSimpleLockAddressByTokenID S tid = Some a" "tid \<noteq> tokenIdentifier (slLockedTokenID S a) n"
  shows "snd (getLockedTokenAttributes S tid n cache) (attributesKey (tokenIdentifier (slLockedTokenID S a) n)) = None"
  using assms by (auto simp: getLockedTokenAttributes_def cachedAttributes_def attributesKey_def split: sum.splits)

lemma lp_attributes_cached:
  assumes "getLpTokenProxyAttributes S tid n cache = (Inr a, cache')"
    and "\<And>b. getSimpleLockAddressByTokenID S' tid = getSimpleLockAddressByTokenID S tid"
    and "slLpProxyTokenID S' = slLpProxyTokenID S"
  shows "getLpTokenProxyAttributes S' tid n cache' = (Inr a, cache')"
  using assms by (auto simp: getLpTokenProxyAttributes_def cachedAttributes_def Let_def split: option.splits sum.splits)

section \<open>Transactions of the queries\<close>



lemma simpleLockAbi_endpoints:
  "map_of simpleLockAbi ''lockTokens'' = Some ([One NumberK, Optional [AddressK]], True)"
  "map_of simpleLockAbi ''unlockTokens'' = Some ([Optional [AddressK]], True)"
  "map_of simpleLockAbi ''addLiquidityLockedToken'' = Some ([One NumberK, One NumberK], True)"
  "map_of simpleLockAbi ''removeLiquidityLockedToken'' = Some ([One NumberK, One NumberK], True)"
  "map_of simpleLockAbi ''enterFarmLockedToken'' = Some ([One NumberK], True)"
  "map_of simpleLockAbi ''exitFarmLockedToken'' = Some ([], True)"
  "map_of simpleLockAbi ''farmClaimRewardsLockedToken'' = Some ([], True)"
  "map_of simpleLockAbi ''exitFarmOldToken'' = None"
  by (simp_all add: simpleLockAbi_def)


definition typed_lock_call :: "transaction \<Rightarrow> bool" where
  "typed_lock_call t \<longleftrightarrow>
     (fits simpleLockAbi t \<longleftrightarrow>
        endpoint t \<noteq> ''exitFarmOldToken'' \<and> (endpoint t = ''exitFarmLockedToken'' \<longrightarrow> endpointArgs t = []))"

lemma typed_lock_call_sender [simp]:
  "typed_lock_call (sender_call cfg sender sc ''unlockTokens'' [] pays g)"
  "typed_lock_call (sender_call cfg sender sc ''addLiquidityLockedToken'' [BigUInt a, BigUInt b] pays g)"
  "typed_lock_call (sender_call cfg sender sc ''removeLiquidityLockedToken'' [BigUInt a, BigUInt b] pays g)"
  "typed_lock_call (sender_call cfg sender sc ''enterFarmLockedToken'' [EnumV n] pays g)"
  "typed_lock_call (sender_call cfg sender sc ''exitFarmLockedToken'' [] pays g)"
  "typed_lock_call (sender_call cfg sender sc ''exitFarmLockedToken'' [BigUInt a] pays g)"
  "typed_lock_call (sender_call cfg sender sc ''farmClaimRewardsLockedToken'' [] pays g)"
  "typed_lock_call (sender_call cfg sender sc ''exitFarmOldToken'' [] pays g)"
  "typed_lock_call (paid_call cfg sc ''lockTokens'' [U64V a] pays g)"
  by (simp_all add: typed_lock_call_def fits_def simpleLockAbi_endpoints)

lemma pay_locked_amount [simp]: "payAmount (pay_locked t) = amount t"
  by (simp add: pay_locked_def meta_esdt_def)






text \<open>The input a batch pays with: the native token is wrapped first.\<close>

definition wrappedLocked :: "dex_config \<Rightarrow> chain_view \<Rightarrow> locked_input \<Rightarrow> locked_input" where
  "wrappedLocked cfg V t = (if tokenID t = EGLDIdentifier cfg then t\<lparr>tokenID := wrappedEgldTokenID V\<rparr> else t)"

text \<open>
  When the two inputs stand for the two tokens of the pair, in either order, the liquidity is
  added in the order of the pair, with each minimum between zero and the amount paid.
\<close>

theorem locked_liquidity_in_pair_order:
  assumes "bignumber_lib B" "locked_resolver B cfg table V F S user (AddLiquidityQ [t0, t1] pair tolerance) = Inr txs"
    and "0 \<le> tolerance" "tolerance \<le> 1" "amount t0 = bn_of_int a0" "amount t1 = bn_of_int a1" "0 \<le> a0" "0 \<le> a1"
    and "tokenID t0 \<noteq> EGLDIdentifier cfg \<or> tokenID t1 \<noteq> EGLDIdentifier cfg"
    and "originalTokenID S (wrappedLocked cfg V t0) = Inr id0" "originalTokenID S (wrappedLocked cfg V t1) = Inr id1"
    and "mset [id0, id1] = mset [firstTokenID V pair, secondTokenID V pair]"
  shows "\<exists>u0 u1 m0 m1 n0 n1. mset [u0, u1] = mset [wrappedLocked cfg V t0, wrappedLocked cfg V t1] \<and>
    originalTokenID S u0 = Inr (firstTokenID V pair) \<and> originalTokenID S u1 = Inr (secondTokenID V pair) \<and>
    payments (last txs) = [pay_locked u0, pay_locked u1] \<and>
    endpointArgs (last txs) = [BigUInt (bn_of_int m0), BigUInt (bn_of_int m1)] \<and>
    amount u0 = bn_of_int n0 \<and> amount u1 = bn_of_int n1 \<and> 0 \<le> m0 \<and> m0 \<le> n0 \<and> 0 \<le> m1 \<and> m1 \<le> n1"
proof -
  let ?u0 = "wrappedLocked cfg V t0" and ?u1 = "wrappedLocked cfg V t1"
  obtain simpleLock where "addLiquidityLockedTokenBatch B cfg V S simpleLock user [t0, t1] pair tolerance = Inr txs"
    using assms(2) by (auto split: sum.splits)
  then have add: "addLiquidityLockedToken B cfg V S simpleLock user ?u0 ?u1 pair tolerance = Inr (last txs)"
    using assms(9) by (auto simp: addLiquidityLockedTokenBatch_def wrappedLocked_def Let_def split: if_splits)
  have amounts: "amount ?u0 = bn_of_int a0" "amount ?u1 = bn_of_int a1"
    using assms(5,6) by (simp_all add: wrappedLocked_def)
  obtain m0 where m0: "minAmount B (bn_of_int a0) tolerance = bn_of_int m0" "0 \<le> m0" "m0 \<le> a0"
    using bignumber_lib.minAmount_bounds [OF assms(1,3,4,7)] .
  obtain m1 where m1: "minAmount B (bn_of_int a1) tolerance = bn_of_int m1" "0 \<le> m1" "m1 \<le> a1"
    using bignumber_lib.minAmount_bounds [OF assms(1,3,4,8)] .
  have order: "(id0, id1) = (firstTokenID V pair, secondTokenID V pair) \<or>
      (id0, id1) \<noteq> (firstTokenID V pair, secondTokenID V pair) \<and> (id1, id0) = (firstTokenID V pair, secondTokenID V pair)"
    using assms(12) by (auto simp: add_eq_conv_ex)
  define s where "s = ((id0, id1) \<noteq> (firstTokenID V pair, secondTokenID V pair))"
  have "payments (last txs) = (if s then [pay_locked ?u1, pay_locked ?u0] else [pay_locked ?u0, pay_locked ?u1])"
    and "endpointArgs (last txs) = (if s then [BigUInt (bn_of_int m1), BigUInt (bn_of_int m0)]
      else [BigUInt (bn_of_int m0), BigUInt (bn_of_int m1)])"
    using add amounts m0(1) m1(1) by (auto simp: addLiquidityLockedToken_def build_Inr assms(10,11) s_def Let_def
        split: if_splits)
  note call = this
  show ?thesis
  proof (cases s)
    case True
    then have "id1 = firstTokenID V pair" "id0 = secondTokenID V pair" using order by (auto simp: s_def)
    then show ?thesis
      using True call m0(2,3) m1(2,3) amounts assms(10,11)
      by (intro exI [of _ ?u1] exI [of _ ?u0] exI [of _ m1] exI [of _ m0] exI [of _ a1] exI [of _ a0]) simp
  next
    case False
    then have "id0 = firstTokenID V pair" "id1 = secondTokenID V pair" by (auto simp: s_def)
    then show ?thesis
      using False call m0(2,3) m1(2,3) amounts assms(10,11)
      by (intro exI [of _ ?u0] exI [of _ ?u1] exI [of _ m0] exI [of _ m1] exI [of _ a0] exI [of _ a1]) simp
  qed
qed

section \<open>Witnesses\<close>

definition demo_lock :: simple_lock_view where
  "demo_lock = \<lparr>slAddresses = [''lock''], slLockedTokenID = \<lambda>_. ''LKWEGLD'', slLpProxyTokenID = \<lambda>_. ''LKLP'',
     slFarmProxyTokenID = \<lambda>_. ''LKFARM'', nftAttributes = \<lambda>_ _. None,
     decodeLocked = \<lambda>_. Inr \<lparr>laOriginalTokenID = ''WEGLD'', laOriginalTokenNonce = 0, laUnlockEpoch = 9\<rparr>,
     decodeLpProxy = \<lambda>_. Inl TypeError, decodeFarmProxy = \<lambda>_. Inl TypeError\<rparr>"

definition demo_locked_input :: "string \<Rightarrow> int \<Rightarrow> int \<Rightarrow> string option \<Rightarrow> locked_input" where
  "demo_locked_input tid n a attrs = \<lparr>tokenID = tid, nonce = n, amount = bn_of_int a, inAttributes = attrs\<rparr>"

definition demo_locked_query :: locked_query where
  "demo_locked_query = AddLiquidityQ [demo_locked_input ''MEX'' 0 400 None, demo_locked_input ''LKWEGLD'' 3 100 (Some ''a'')] ''pair'' 0"

lemma demo_locked_liquidity:
  "\<exists>t. locked_resolver bn_js demo_cfg [] demo_view demo_farm demo_lock ''alice'' demo_locked_query = Inr [t] \<and>
     endpoint t = ''addLiquidityLockedToken'' \<and>
     payments t = [meta_esdt ''LKWEGLD'' 3 (bn_of_int 100), meta_esdt ''MEX'' 0 (bn_of_int 400)]"
  by (simp add: demo_locked_query_def demo_lock_def demo_locked_input_def liquidityTokensPipe_def
    getSimpleLockAddressFromInputTokens_def getSimpleLockAddressByTokenID_def addLiquidityLockedTokenBatch_def
    addLiquidityLockedToken_def originalTokenID_def truthy_attributes_def demo_cfg_def demo_view_def build_def
    simpleLockAbi_endpoints pay_locked_def Let_def)


theorem locked_liquidity_in_pair_order_witness:
  "\<exists>txs u0 u1. locked_resolver bn_js demo_cfg [] demo_view demo_farm demo_lock ''alice'' demo_locked_query = Inr txs \<and>
     payments (last txs) = [pay_locked u0, pay_locked u1] \<and>
     originalTokenID demo_lock u0 = Inr ''WEGLD'' \<and> originalTokenID demo_lock u1 = Inr ''MEX''"
proof -
  obtain t where t: "locked_resolver bn_js demo_cfg [] demo_view demo_farm demo_lock ''alice''
      (AddLiquidityQ [demo_locked_input ''MEX'' 0 400 None, demo_locked_input ''LKWEGLD'' 3 100 (Some ''a'')] ''pair'' 0) =
      Inr [t]" using demo_locked_liquidity by (auto simp: demo_locked_query_def)
  have ids: "originalTokenID demo_lock (wrappedLocked demo_cfg demo_view (demo_locked_input ''MEX'' 0 400 None)) = Inr ''MEX''"
    "originalTokenID demo_lock (wrappedLocked demo_cfg demo_view (demo_locked_input ''LKWEGLD'' 3 100 (Some ''a''))) =
      Inr ''WEGLD''"
    by (simp_all add: originalTokenID_def wrappedLocked_def demo_locked_input_def truthy_attributes_def demo_lock_def
        demo_cfg_def)
  have pair: "firstTokenID demo_view ''pair'' = ''WEGLD''" "secondTokenID demo_view ''pair'' = ''MEX''"
    by (simp_all add: demo_view_def)
  have amounts: "amount (demo_locked_input ''MEX'' 0 400 None) = bn_of_int 400"
    "amount (demo_locked_input ''LKWEGLD'' 3 100 (Some ''a'')) = bn_of_int 100"
    "tokenID (demo_locked_input ''MEX'' 0 400 None) \<noteq> EGLDIdentifier demo_cfg"
    by (simp_all add: demo_locked_input_def demo_cfg_def)
  show ?thesis
    using locked_liquidity_in_pair_order [OF js.bignumber_lib_axioms t _ _ amounts(1,2) _ _ _ ids] pair amounts(3) t
    by (fastforce simp: demo_locked_query_def)
qed

text \<open>Inputs that stand for neither token of the pair are exchanged and sent all the same.\<close>

lemma foreign_locked_inputs_accepted:
  "\<exists>t. locked_resolver bn_js demo_cfg [] demo_view demo_farm demo_lock ''alice''
       (AddLiquidityQ [demo_locked_input ''FOO'' 0 400 None, demo_locked_input ''LKWEGLD'' 3 100 (Some ''a'')] ''pair'' 0) =
       Inr [t] \<and> payments t = [meta_esdt ''LKWEGLD'' 3 (bn_of_int 100), meta_esdt ''FOO'' 0 (bn_of_int 400)]"
  by (simp add: demo_lock_def demo_locked_input_def liquidityTokensPipe_def
    getSimpleLockAddressFromInputTokens_def getSimpleLockAddressByTokenID_def addLiquidityLockedTokenBatch_def
    addLiquidityLockedToken_def originalTokenID_def truthy_attributes_def demo_cfg_def demo_view_def build_def
    simpleLockAbi_endpoints pay_locked_def Let_def)

end
