(* ===== verification/EnergyTransactions.thy ===== *)
theory EnergyTransactions
  imports UserEnergy Abi
begin

text \<open>
  The transactions of the contracts around the energy: the energy factory
  (\<open>src/modules/energy/services/energy.transaction.service.ts\<close> with the queries of \<open>energy.resolver.ts\<close> and
  the pipe \<open>validators/locked.tokens.validator.ts\<close>), the fees collector
  (\<open>src/modules/fees-collector/services/fees-collector.transaction.service.ts\<close>), unstaking
  (\<open>src/modules/token-unstake/services/token.unstake.transaction.service.ts\<close>) and wrapping of locked
  tokens (\<open>src/modules/locked-token-wrapper/services/locked-token-wrapper.transaction.service.ts\<close>).

  Attributes are decoded by \<open>@multiversx/sdk-exchange\<close>: the decoded epochs and nonces are fields of
  \<open>energy_view\<close>.
\<close>

record energy_view =
  evLockedTokenID :: string
  evOwner :: string
  evUnlockedTokens :: "string \<Rightarrow> nat"
  evWrappedNonce :: "string \<Rightarrow> string \<Rightarrow> nat res"
  evLockedUnlockEpoch :: "string \<Rightarrow> int res"

section \<open>Energy factory\<close>

datatype unlock_type = TERM_UNLOCK | EARLY_UNLOCK | REDUCE_PERIOD

abbreviation energyFactory :: "dex_config \<Rightarrow> string" where
  "energyFactory cfg \<equiv> scAddr cfg ''simpleLockEnergy''"

definition energy_lockTokens ::
  "bignumber \<Rightarrow> dex_config \<Rightarrow> string \<Rightarrow> input_token \<Rightarrow> int \<Rightarrow> transaction res" where
  "energy_lockTokens B cfg sender inputTokens epochs =
     build energyFactoryAbi
       (if 0 < nonce inputTokens
        then sender_call cfg sender (energyFactory cfg) ''lockTokens'' [U64V (bn_number B (of_int epochs))]
               [pay_input inputTokens] (gas cfg ''simpleLockEnergy.lockTokens'')
        else paid_call cfg (energyFactory cfg) ''lockTokens'' [U64V (bn_number B (of_int epochs))]
               [fungible (tokenID inputTokens) (amount inputTokens)] (gas cfg ''simpleLockEnergy.lockTokens''))"

text \<open>The new lock period may be missing, which makes a number that is not one.\<close>

definition energy_unlockTokens ::
  "bignumber \<Rightarrow> dex_config \<Rightarrow> string \<Rightarrow> input_token \<Rightarrow> unlock_type \<Rightarrow> rat option \<Rightarrow> transaction res" where
  "energy_unlockTokens B cfg sender inputTokens unlockType newLockPeriod =
     (let call = (\<lambda>f args path. build energyFactoryAbi
            (sender_call cfg sender (energyFactory cfg) f args [pay_input inputTokens]
              (gas cfg (''simpleLockEnergy.unlockTokens.'' @ path))))
      in case unlockType of
        EARLY_UNLOCK \<Rightarrow> call ''unlockEarly'' [] ''unlockEarly''
      | REDUCE_PERIOD \<Rightarrow> call ''reduceLockPeriod''
          [U64V (case newLockPeriod of Some p \<Rightarrow> bn_number B p | None \<Rightarrow> NotANum)] ''reduceLockPeriod''
      | TERM_UNLOCK \<Rightarrow> call ''unlockTokens'' [] ''default'')"

definition energy_mergeTokens :: "dex_config \<Rightarrow> string \<Rightarrow> input_token list \<Rightarrow> transaction res" where
  "energy_mergeTokens cfg sender inputTokens =
     build energyFactoryAbi (sender_call cfg sender (energyFactory cfg) ''mergeTokens'' []
       (map pay_input inputTokens) (gas cfg ''simpleLockEnergy.defaultMergeTokens'' * int (length inputTokens)))"

definition energy_migrateOldTokens :: "dex_config \<Rightarrow> string \<Rightarrow> input_token list \<Rightarrow> transaction res" where
  "energy_migrateOldTokens cfg sender args =
     build energyFactoryAbi (sender_call cfg sender (energyFactory cfg) ''migrateOldTokens'' []
       (map pay_input args) (gas cfg ''simpleLockEnergy.migrateOldTokens'' * int (length args)))"

text \<open>The administrative calls of the energy factory.\<close>

definition energyAdminCall :: "dex_config \<Rightarrow> string \<Rightarrow> typed_value list \<Rightarrow> string \<Rightarrow> transaction res" where
  "energyAdminCall cfg f args gasKey =
     build energyFactoryAbi (contract_call cfg (energyFactory cfg) f args (gas cfg (''simpleLockEnergy.admin.'' @ gasKey)))"

definition updateLockOptions :: "bignumber \<Rightarrow> dex_config \<Rightarrow> int list \<Rightarrow> bool \<Rightarrow> transaction res" where
  "updateLockOptions B cfg lockOptions remove' =
     energyAdminCall cfg (if remove' then ''removeLockOptions'' else ''addLockOptions'')
       (map (\<lambda>n. U64V (bn_number B (of_int n))) lockOptions) ''updateLockOptions''"

definition setPenaltyPercentage :: "bignumber \<Rightarrow> dex_config \<Rightarrow> rat \<Rightarrow> rat \<Rightarrow> transaction res" where
  "setPenaltyPercentage B cfg minPenalty maxPenalty =
     energyAdminCall cfg ''setPenaltyPercentage'' [U16V (bn_number B minPenalty), U16V (bn_number B maxPenalty)]
       ''setPenaltyPercentage''"

definition setFeesBurnPercentage :: "bignumber \<Rightarrow> dex_config \<Rightarrow> rat \<Rightarrow> transaction res" where
  "setFeesBurnPercentage B cfg percent =
     energyAdminCall cfg ''setFeesBurnPercentage'' [U16V (bn_number B percent)] ''setFeesBurnPercentage''"

definition setFeesCollectorAddress :: "dex_config \<Rightarrow> string \<Rightarrow> transaction res" where
  "setFeesCollectorAddress cfg addr =
     energyAdminCall cfg ''setFeesBurnPercentage'' [AddressV addr] ''setFeesCollectorAddress''"

definition setOldLockedAssetFactoryAddress :: "dex_config \<Rightarrow> string \<Rightarrow> transaction res" where
  "setOldLockedAssetFactoryAddress cfg addr =
     energyAdminCall cfg ''setOldLockedAssetFactoryAddress'' [AddressV addr] ''setOldLockedAssetFactoryAddress''"

section \<open>Queries of the energy factory\<close>

text \<open>The pipe checks a token or each token of a list.\<close>

fun lockedEnergyTokensPipe :: "energy_view \<Rightarrow> input_token list \<Rightarrow> unit res" where
  "lockedEnergyTokensPipe E [] = Inr ()"
| "lockedEnergyTokensPipe E (lockedToken # rest) =
     (if tokenID lockedToken \<noteq> evLockedTokenID E \<or> nonce lockedToken < 1
      then Inl (JsError ''Invalid locked token'') else lockedEnergyTokensPipe E rest)"

datatype energy_query =
    LockTokensEnergy input_token int
  | UpdateLockedTokensEnergy input_token unlock_type "rat option"
  | MergeTokensEnergy "input_token list"
  | MigrateOldTokens "input_token list"

datatype energy_admin_query =
    UpdateLockOptions "int list" bool
  | SetPenaltyPercentage rat rat
  | SetFeesBurnPercentage rat
  | SetFeesCollectorAddress string
  | SetOldLockedAssetFactoryAddress string

fun energy_resolver ::
  "bignumber \<Rightarrow> dex_config \<Rightarrow> energy_view \<Rightarrow> string \<Rightarrow> energy_query \<Rightarrow> transaction res" where
  "energy_resolver B cfg E user (LockTokensEnergy t epochs) = energy_lockTokens B cfg user t epochs"
| "energy_resolver B cfg E user (UpdateLockedTokensEnergy t unlockType newLockPeriod) =
     res_bind (lockedEnergyTokensPipe E [t]) (\<lambda>_. energy_unlockTokens B cfg user t unlockType newLockPeriod)"
| "energy_resolver B cfg E user (MergeTokensEnergy ts) =
     res_bind (lockedEnergyTokensPipe E ts) (\<lambda>_. energy_mergeTokens cfg user ts)"
| "energy_resolver B cfg E user (MigrateOldTokens ts) = energy_migrateOldTokens cfg user ts"

fun energy_admin_transaction :: "bignumber \<Rightarrow> dex_config \<Rightarrow> energy_admin_query \<Rightarrow> transaction res" where
  "energy_admin_transaction B cfg (UpdateLockOptions lockOptions remove') = updateLockOptions B cfg lockOptions remove'"
| "energy_admin_transaction B cfg (SetPenaltyPercentage lo hi) = setPenaltyPercentage B cfg lo hi"
| "energy_admin_transaction B cfg (SetFeesBurnPercentage percent) = setFeesBurnPercentage B cfg percent"
| "energy_admin_transaction B cfg (SetFeesCollectorAddress addr) = setFeesCollectorAddress cfg addr"
| "energy_admin_transaction B cfg (SetOldLockedAssetFactoryAddress addr) = setOldLockedAssetFactoryAddress cfg addr"

definition energy_admin_resolver ::
  "bignumber \<Rightarrow> dex_config \<Rightarrow> energy_view \<Rightarrow> string \<Rightarrow> energy_admin_query \<Rightarrow> transaction res" where
  "energy_admin_resolver B cfg E user q =
     (if user \<noteq> evOwner E then Inl (JsError ''Invalid owner address'') else energy_admin_transaction B cfg q)"

section \<open>Fees collector\<close>

abbreviation feesCollectorAddress :: "dex_config \<Rightarrow> string" where
  "feesCollectorAddress cfg \<equiv> scAddr cfg ''feesCollector''"

record fees_collector_transaction =
  fctTransaction :: transaction
  fctCount :: int

definition fc_claimRewards :: "dex_config \<Rightarrow> int \<Rightarrow> transaction res" where
  "fc_claimRewards cfg gasL =
     build feesCollectorAbi (contract_call cfg (feesCollectorAddress cfg) ''claimRewards'' [] gasL)"

definition claimRewardsBatch ::
  "dex_config \<Rightarrow> week_view \<Rightarrow> string \<Rightarrow> string \<Rightarrow> fees_collector_transaction res" where
  "claimRewardsBatch cfg W sc user =
     (let lastActiveWeek = lastActiveWeekForUser W sc user;
          weekToClaim = min USER_MAX_CLAIM_WEEKS (currentWeek W sc - lastActiveWeek)
      in res_bind (fc_claimRewards cfg
           (weekToClaim * gas cfg ''feesCollector.claimRewardsPerWeek'' + gas cfg ''feesCollector.baseClaimRewards''))
           (\<lambda>t. if lastActiveWeek = 0 \<or> currentWeek W sc \<le> lastActiveWeek
             then Inr \<lparr>fctTransaction = t, fctCount = 0\<rparr> else Inr \<lparr>fctTransaction = t, fctCount = 1\<rparr>))"

definition fc_updateEnergyForUser :: "dex_config \<Rightarrow> string \<Rightarrow> transaction res" where
  "fc_updateEnergyForUser cfg user =
     build feesCollectorAbi (contract_call cfg (feesCollectorAddress cfg) ''updateEnergyForUser'' [AddressV user]
       (gas cfg ''feesCollector.updateEnergyForUser''))"

definition handleKnownContracts :: "dex_config \<Rightarrow> string list \<Rightarrow> bool \<Rightarrow> transaction res" where
  "handleKnownContracts cfg pairAddresses remove' =
     build feesCollectorAbi (contract_call cfg (feesCollectorAddress cfg)
       (if remove' then ''removeKnownContracts'' else ''addKnownContracts'') (map AddressV pairAddresses)
       (gas cfg ''feesCollector.addKnownContracts''))"

definition handleKnownTokens :: "dex_config \<Rightarrow> string list \<Rightarrow> bool \<Rightarrow> transaction res" where
  "handleKnownTokens cfg tokenIDs remove' =
     build feesCollectorAbi (contract_call cfg (feesCollectorAddress cfg)
       (if remove' then ''removeKnownTokens'' else ''addKnownTokens'') (map TokenIdentifierV tokenIDs)
       (gas cfg ''feesCollector.addKnownTokens''))"

section \<open>Unstaking and wrapping\<close>

text \<open>The gas grows with the unlocked tokens of the sender.\<close>

definition unstakeCall :: "dex_config \<Rightarrow> energy_view \<Rightarrow> string \<Rightarrow> string \<Rightarrow> transaction res" where
  "unstakeCall cfg E sender f =
     build tokenUnstakeAbi (contract_call cfg (scAddr cfg ''tokenUnstake'') f []
       (gas cfg (''tokenUnstake.'' @ f @ ''.default'') +
        gas cfg (''tokenUnstake.'' @ f @ ''.additionalTokens'') * int (evUnlockedTokens E sender)))"

definition claimUnlockedTokens :: "dex_config \<Rightarrow> energy_view \<Rightarrow> string \<Rightarrow> transaction res" where
  "claimUnlockedTokens cfg E sender = unstakeCall cfg E sender ''claimUnlockedTokens''"

definition cancelUnbond :: "dex_config \<Rightarrow> energy_view \<Rightarrow> string \<Rightarrow> transaction res" where
  "cancelUnbond cfg E sender = unstakeCall cfg E sender ''cancelUnbond''"

definition wrapLockedToken :: "dex_config \<Rightarrow> string \<Rightarrow> input_token \<Rightarrow> transaction res" where
  "wrapLockedToken cfg sender inputToken =
     build lockedTokenWrapperAbi (sender_call cfg sender (scAddr cfg ''lockedTokenWrapper'') ''wrapLockedToken'' []
       [pay_input inputToken] (gas cfg ''lockedTokenWrapper.wrapLockedToken''))"

text \<open>
  The nonce of the locked token behind the wrapped one, then the unlock epoch of that token; either
  read may fail.
\<close>

definition unwrapLockedToken ::
  "dex_config \<Rightarrow> chain_view \<Rightarrow> energy_view \<Rightarrow> string \<Rightarrow> input_token \<Rightarrow> transaction res" where
  "unwrapLockedToken cfg V E sender inputToken =
     res_bind (evWrappedNonce E sender (tokenIdentifier (tokenID inputToken) (nat (nonce inputToken)))) (\<lambda>n.
     res_bind (evLockedUnlockEpoch E (tokenIdentifier (evLockedTokenID E) n)) (\<lambda>epoch.
       if epoch \<le> currentEpoch V then Inl (JsError ''Cannot unwrap token after unlock epoch'')
       else build lockedTokenWrapperAbi (sender_call cfg sender (scAddr cfg ''lockedTokenWrapper'')
              ''unwrapLockedToken'' [] [pay_input inputToken] (gas cfg ''lockedTokenWrapper.unwrapLockedToken''))))"

section \<open>Lemmas\<close>

lemma energyFactoryAbi_endpoints:
  "map_of energyFactoryAbi ''lockTokens'' = Some ([One NumberK, Optional [AddressK]], True)"
  "map_of energyFactoryAbi ''unlockEarly'' = Some ([], True)"
  "map_of energyFactoryAbi ''reduceLockPeriod'' = Some ([One NumberK], True)"
  "map_of energyFactoryAbi ''unlockTokens'' = Some ([], True)"
  "map_of energyFactoryAbi ''mergeTokens'' = Some ([Optional [AddressK]], True)"
  "map_of energyFactoryAbi ''migrateOldTokens'' = Some ([], True)"
  "map_of energyFactoryAbi ''addLockOptions'' = Some ([Variadic [NumberK, NumberK]], False)"
  "map_of energyFactoryAbi ''removeLockOptions'' = None"
  "map_of energyFactoryAbi ''setPenaltyPercentage'' = None"
  "map_of energyFactoryAbi ''setFeesBurnPercentage'' = None"
  "map_of energyFactoryAbi ''setOldLockedAssetFactoryAddress'' = None"
  by (simp_all add: energyFactoryAbi_def)

text \<open>Numbers in pairs.\<close>

lemma repeats_pairs: "repeats [k, k] (replicate n k) \<longleftrightarrow> even n"
proof
  assume "repeats [k, k] (replicate n k)"
  then obtain m where "replicate n k = concat (replicate m [k, k])" by (auto simp: repeats_def)
  moreover have "length (concat (replicate m [k, k])) = 2 * m" by (induction m) auto
  ultimately show "even n" by (metis dvd_triv_left length_replicate)
next
  assume "even n"
  then obtain m where n: "n = 2 * m" by (rule evenE)
  have "replicate (2 * m) k = concat (replicate m [k, k])" by (induction m) auto
  then show "repeats [k, k] (replicate n k)" unfolding n by (simp add: repeats_concat)
qed

text \<open>A lock option is an epoch and a percent: a list of an odd length is accepted and cannot be decoded.\<close>

lemma addLockOptions_fits:
  "updateLockOptions B cfg lockOptions False = Inr t \<Longrightarrow> fits energyFactoryAbi t \<longleftrightarrow> even (length lockOptions)"
  by (auto simp: updateLockOptions_def energyAdminCall_def build_Inr fits_def energyFactoryAbi_endpoints comp_def
      map_replicate_const repeats_pairs)

lemma lockedEnergyTokensPipe_Inr:
  "lockedEnergyTokensPipe E ts = Inr () \<longleftrightarrow> (\<forall>t\<in>set ts. tokenID t = evLockedTokenID E \<and> 1 \<le> nonce t)"
  by (induction ts) auto

text \<open>
  C28. The only administrative query of the energy factory that is ever served is the owner's request to
  add lock options: the interface file has none of the other endpoints. The call served fits the
  interface when the options come in pairs.
\<close>

theorem energy_admin_served:
  "energy_admin_resolver B cfg E user q = Inr t \<longleftrightarrow>
   user = evOwner E \<and> (\<exists>lockOptions. q = UpdateLockOptions lockOptions False \<and>
      t = contract_call cfg (energyFactory cfg) ''addLockOptions'' (map (\<lambda>n. U64V (bn_number B (of_int n))) lockOptions)
        (gas cfg ''simpleLockEnergy.admin.updateLockOptions'') \<and>
      (fits energyFactoryAbi t \<longleftrightarrow> even (length lockOptions)))"
proof -
  have "energy_admin_transaction B cfg q = Inr t \<longleftrightarrow> (\<exists>lockOptions. q = UpdateLockOptions lockOptions False \<and>
      t = contract_call cfg (energyFactory cfg) ''addLockOptions'' (map (\<lambda>n. U64V (bn_number B (of_int n))) lockOptions)
        (gas cfg ''simpleLockEnergy.admin.updateLockOptions''))"
    by (cases q) (auto simp: updateLockOptions_def setPenaltyPercentage_def setFeesBurnPercentage_def
      setFeesCollectorAddress_def setOldLockedAssetFactoryAddress_def energyAdminCall_def build_Inr
      energyFactoryAbi_endpoints)
  moreover have "fits energyFactoryAbi t \<longleftrightarrow> even (length lockOptions)"
    if "t = contract_call cfg (energyFactory cfg) ''addLockOptions'' (map (\<lambda>n. U64V (bn_number B (of_int n))) lockOptions)
        (gas cfg ''simpleLockEnergy.admin.updateLockOptions'')" for lockOptions
    by (rule addLockOptions_fits [of B cfg])
      (simp add: that updateLockOptions_def energyAdminCall_def build_Inr energyFactoryAbi_endpoints)
  ultimately show ?thesis by (auto simp: energy_admin_resolver_def)
qed

text \<open>The tokens a query pays with, and the queries whose tokens must be locked ones.\<close>

fun energyInputs :: "energy_query \<Rightarrow> input_token list" where
  "energyInputs (LockTokensEnergy t _) = [t]"
| "energyInputs (UpdateLockedTokensEnergy t _ _) = [t]"
| "energyInputs (MergeTokensEnergy ts) = ts"
| "energyInputs (MigrateOldTokens ts) = ts"

fun checksLocked :: "energy_query \<Rightarrow> bool" where
  "checksLocked (UpdateLockedTokensEnergy _ _ _) \<longleftrightarrow> True"
| "checksLocked (MergeTokensEnergy _) \<longleftrightarrow> True"
| "checksLocked _ \<longleftrightarrow> False"

lemma payAmount_pay_input [simp]: "payAmount (pay_input t) = amount t"
  by (simp add: pay_input_def meta_esdt_def)

text \<open>
  Every query of a user is served with one call of the energy factory that its interface takes and that
  pays all the tokens of the query, unless a token to unlock or merge is not a locked token.
\<close>

theorem energy_queries_served:
  "case energy_resolver B cfg E user q of
     Inl e \<Rightarrow> checksLocked q \<and> (\<exists>t\<in>set (energyInputs q). \<not> (tokenID t = evLockedTokenID E \<and> 1 \<le> nonce t))
   | Inr tx \<Rightarrow> fits energyFactoryAbi tx \<and> receiver tx = energyFactory cfg \<and>
       map payAmount (payments tx) = map amount (energyInputs q) \<and>
       map payToken (payments tx) = map tokenID (energyInputs q)"
proof (cases q)
  case (UpdateLockedTokensEnergy t unlockType newLockPeriod)
  then show ?thesis
    by (cases unlockType) (auto simp: energy_unlockTokens_def build_def fits_def energyFactoryAbi_endpoints pay_input_def
      meta_esdt_def)
next
  case (MergeTokensEnergy ts)
  then show ?thesis
    using lockedEnergyTokensPipe_Inr [of E ts]
    by (cases "lockedEnergyTokensPipe E ts")
      (auto simp: energy_mergeTokens_def build_def fits_def energyFactoryAbi_endpoints comp_def pay_input_def
        meta_esdt_def not_le)
qed (auto simp: energy_lockTokens_def energy_migrateOldTokens_def build_def fits_def energyFactoryAbi_endpoints
      pay_input_def meta_esdt_def fungible_def comp_def)

end
