(* ===== verification/Escrow.thy ===== *)
theory Escrow
  imports UserEnergy Abi
begin

text \<open>
  The escrow of locked tokens: the reads of its storage
  (\<open>src/modules/escrow/services/escrow.abi.service.ts\<close>), the cool-down (\<open>escrow.compute.service.ts\<close>), the
  validation pipes (\<open>src/modules/escrow/validators\<close>), the transactions
  (\<open>escrow.transaction.service.ts\<close>), their queries (\<open>escrow.resolver.ts\<close>), and the handler of the
  contract's events (\<open>src/modules/rabbitmq/handlers/escrow.handler.service.ts\<close>) that rewrites the cached
  lists of senders and receivers.

  The gateway lists the storage of the contract as pairs of hexadecimal keys and values; the keys are longer than any
  array index, so their order is the order of insertion. Decoding a hexadecimal address (\<open>Address.fromHex\<close>) and
  the contract's own views are arguments. The copies of cache entries in the memory of other processes,
  which \<open>deleteCacheKeys\<close> drops, are not modelled.
\<close>

section \<open>Storage keys\<close>

text \<open>\<open>Buffer.from(s).toString('hex')\<close>.\<close>

definition toHex :: "string \<Rightarrow> string" where
  "toHex s = concat (map (\<lambda>c. [hex_digit (of_char c div 16), hex_digit (of_char c mod 16)]) s)"

definition allSendersHex :: string where "allSendersHex = toHex ''allSenders''"
definition itemHex :: string where "itemHex = toHex ''.item''"
definition permissionsHex :: string where "permissionsHex = toHex ''permissions''"

text \<open>A string before and after the first occurrence of a separator.\<close>

fun break_on :: "string \<Rightarrow> string \<Rightarrow> (string \<times> string) option" where
  "break_on sep [] = (if sep = [] then Some ([], []) else None)"
| "break_on sep (c # s) =
     (if prefix sep (c # s) then Some ([], drop (length sep) (c # s))
      else map_option (\<lambda>(a, b). (c # a, b)) (break_on sep s))"

text \<open>\<open>s.split(sep)[0]\<close> and, where there is a separator, \<open>s.split(sep)[1]\<close>.\<close>

definition split0 :: "string \<Rightarrow> string \<Rightarrow> string" where
  "split0 sep s = (case break_on sep s of Some (a, b) \<Rightarrow> a | None \<Rightarrow> s)"

definition split1 :: "string \<Rightarrow> string \<Rightarrow> string" where
  "split1 sep s = (case break_on sep s of Some (a, b) \<Rightarrow> split0 sep b | None \<Rightarrow> [])"

type_synonym storage = "(string \<times> string) list"

section \<open>State\<close>

record scheduled_transfer =
  stSender :: string
  stFunds :: "payment list"
  stLockedEpoch :: int

datatype sc_permission = NONE | OWNER | ADMIN | PAUSE

record escrow_cache =
  scKeys :: "storage option"
  scheduledCache :: "string \<rightharpoonup> scheduled_transfer list"
  allSendersCache :: "string \<rightharpoonup> string list"
  allReceiversCache :: "string \<rightharpoonup> string list"
  senderEpochCache :: "string \<rightharpoonup> int"
  receiverEpochCache :: "string \<rightharpoonup> int"
  permissionAddressesCache :: "string list option"
  permissionCache :: "string \<rightharpoonup> sc_permission list"


text \<open>What is read from the contract.\<close>

record escrow_chain =
  storagePairs :: storage
  viewScheduled :: "string \<Rightarrow> scheduled_transfer list"
  viewAllSenders :: "string \<Rightarrow> string list"
  viewPermissions :: "string \<Rightarrow> int"
  escLockedTokenID :: string
  epochsCooldownDuration :: int

section \<open>Reads\<close>

text \<open>The cached storage, or the storage fetched and kept.\<close>

definition cachedStorage :: "escrow_chain \<Rightarrow> escrow_cache \<Rightarrow> storage \<times> escrow_cache" where
  "cachedStorage C c = (case scKeys c of Some st \<Rightarrow> (st, c) | None \<Rightarrow> (storagePairs C, c\<lparr>scKeys := Some (storagePairs C)\<rparr>))"

fun receiversOf :: "(string \<Rightarrow> string res) \<Rightarrow> string \<Rightarrow> storage \<Rightarrow> string list res" where
  "receiversOf fromHex' sender [] = Inr []"
| "receiversOf fromHex' sender ((key, val) # rest) =
     (if str_includes key allSendersHex \<and> str_includes key itemHex
      then res_bind (fromHex' val) (\<lambda>s.
        if s = sender
        then res_bind (fromHex' (split0 itemHex (split1 allSendersHex key))) (\<lambda>r.
             res_bind (receiversOf fromHex' sender rest) (\<lambda>rs. Inr (r # rs)))
        else receiversOf fromHex' sender rest)
      else receiversOf fromHex' sender rest)"

definition getAllReceiversRaw ::
  "(string \<Rightarrow> string res) \<Rightarrow> escrow_chain \<Rightarrow> string \<Rightarrow> escrow_cache \<Rightarrow> string list res \<times> escrow_cache" where
  "getAllReceiversRaw fromHex' C sender c =
     (let (hexValues, c') = cachedStorage C c
      in (res_bind (receiversOf fromHex' sender hexValues) (\<lambda>receivers. Inr (uniq receivers)), c'))"

definition allReceivers ::
  "(string \<Rightarrow> string res) \<Rightarrow> escrow_chain \<Rightarrow> string \<Rightarrow> escrow_cache \<Rightarrow> string list res \<times> escrow_cache" where
  "allReceivers fromHex' C sender c =
     (case allReceiversCache c sender of
        Some l \<Rightarrow> (Inr l, c)
      | None \<Rightarrow> (case getAllReceiversRaw fromHex' C sender c of
          (Inr l, c') \<Rightarrow> (Inr l, c'\<lparr>allReceiversCache := (allReceiversCache c')(sender \<mapsto> l)\<rparr>)
        | (Inl e, c') \<Rightarrow> (Inl e, c')))"



definition permissionsOf :: "int \<Rightarrow> sc_permission list" where
  "permissionsOf permissions =
     (if permissions = 0 then [NONE] else if permissions = 1 then [OWNER] else if permissions = 2 then [ADMIN]
      else if permissions = 3 then [OWNER, ADMIN] else if permissions = 4 then [PAUSE] else [])"

fun addressesWithPermissions :: "(string \<Rightarrow> string res) \<Rightarrow> storage \<Rightarrow> string list res" where
  "addressesWithPermissions fromHex' [] = Inr []"
| "addressesWithPermissions fromHex' ((key, val) # rest) =
     (if str_includes key permissionsHex
      then res_bind (fromHex' (split1 permissionsHex key)) (\<lambda>a.
           res_bind (addressesWithPermissions fromHex' rest) (\<lambda>as. Inr (a # as)))
      else addressesWithPermissions fromHex' rest)"

definition allAddressesWithPermissions ::
  "(string \<Rightarrow> string res) \<Rightarrow> escrow_chain \<Rightarrow> escrow_cache \<Rightarrow> string list res \<times> escrow_cache" where
  "allAddressesWithPermissions fromHex' C c =
     (case permissionAddressesCache c of
        Some l \<Rightarrow> (Inr l, c)
      | None \<Rightarrow>
          let (hexValues, c') = cachedStorage C c
          in (case addressesWithPermissions fromHex' hexValues of
                Inl e \<Rightarrow> (Inl e, c')
              | Inr l \<Rightarrow> (Inr l, c'\<lparr>permissionAddressesCache := Some l\<rparr>)))"

definition addressPermission ::
  "(string \<Rightarrow> string res) \<Rightarrow> escrow_chain \<Rightarrow> string \<Rightarrow> escrow_cache \<Rightarrow> sc_permission list res \<times> escrow_cache" where
  "addressPermission fromHex' C addr c =
     (case permissionCache c addr of
        Some p \<Rightarrow> (Inr p, c)
      | None \<Rightarrow> (case allAddressesWithPermissions fromHex' C c of
          (Inl e, c') \<Rightarrow> (Inl e, c')
        | (Inr addresses, c') \<Rightarrow>
            let p = (if addr \<notin> set addresses then [NONE] else permissionsOf (viewPermissions C addr))
            in (Inr p, c'\<lparr>permissionCache := (permissionCache c')(addr \<mapsto> p)\<rparr>)))"

definition isSenderAddressOnCooldown :: "chain_view \<Rightarrow> escrow_chain \<Rightarrow> int option \<Rightarrow> bool" where
  "isSenderAddressOnCooldown V C lastTransferEpoch =
     (case lastTransferEpoch of None \<Rightarrow> False | Some t \<Rightarrow> currentEpoch V - t \<le> epochsCooldownDuration C)"

section \<open>Transactions and queries\<close>

abbreviation escrowAddress :: "dex_config \<Rightarrow> string" where
  "escrowAddress cfg \<equiv> scAddr cfg ''escrow''"

definition escrow_withdraw :: "dex_config \<Rightarrow> string \<Rightarrow> transaction res" where
  "escrow_withdraw cfg sender =
     build escrowAbi (contract_call cfg (escrowAddress cfg) ''withdraw'' [AddressV sender] (gas cfg ''escrow.withdraw''))"

definition cancelTransfer :: "dex_config \<Rightarrow> string \<Rightarrow> string \<Rightarrow> transaction res" where
  "cancelTransfer cfg sender rcv =
     build escrowAbi (contract_call cfg (escrowAddress cfg) ''cancelTransfer'' [AddressV sender, AddressV rcv]
       (gas cfg ''escrow.cancelTransfer''))"

definition lockFunds :: "dex_config \<Rightarrow> string \<Rightarrow> string \<Rightarrow> input_token list \<Rightarrow> transaction res" where
  "lockFunds cfg sender rcv pays =
     (if sender = rcv then Inl (JsError ''Sender and receiver cannot be the same'')
      else build escrowAbi (sender_call cfg sender (escrowAddress cfg) ''lockFunds'' [AddressV rcv] (map pay_input pays)
             (gas cfg ''escrow.lockFunds'')))"

fun transferTokensPipe :: "escrow_chain \<Rightarrow> input_token list \<Rightarrow> unit res" where
  "transferTokensPipe C [] = Inr ()"
| "transferTokensPipe C (p # rest) =
     (if tokenID p \<noteq> escLockedTokenID C \<or> nonce p < 1 then Inl (JsError ''Invalid transfer tokens'')
      else transferTokensPipe C rest)"

definition senderCooldownPipe :: "chain_view \<Rightarrow> escrow_chain \<Rightarrow> (string \<Rightarrow> int option) \<Rightarrow> string \<Rightarrow> unit res" where
  "senderCooldownPipe V C lastEpoch user =
     (if isSenderAddressOnCooldown V C (lastEpoch user) then Inl (JsError ''Sender in cooldown period'') else Inr ())"

definition escrowAdminPipe :: "(string \<Rightarrow> string res) \<Rightarrow> escrow_chain \<Rightarrow> escrow_cache \<Rightarrow> string \<Rightarrow> unit res" where
  "escrowAdminPipe fromHex' C c user =
     res_bind (fst (addressPermission fromHex' C user c)) (\<lambda>permissions.
       if ADMIN \<notin> set permissions then Inl (JsError ''User is not an admin'') else Inr ())"

definition escrowTransfer ::
  "dex_config \<Rightarrow> chain_view \<Rightarrow> escrow_chain \<Rightarrow> (string \<Rightarrow> int option) \<Rightarrow> string \<Rightarrow> string \<Rightarrow> input_token list
    \<Rightarrow> transaction res" where
  "escrowTransfer cfg V C lastEpoch user rcv inputTokens =
     res_bind (transferTokensPipe C inputTokens) (\<lambda>_.
     res_bind (senderCooldownPipe V C lastEpoch user) (\<lambda>_. lockFunds cfg user rcv inputTokens))"

definition cancelEscrowTransfer ::
  "dex_config \<Rightarrow> (string \<Rightarrow> string res) \<Rightarrow> escrow_chain \<Rightarrow> escrow_cache \<Rightarrow> string \<Rightarrow> string \<Rightarrow> string \<Rightarrow> transaction res" where
  "cancelEscrowTransfer cfg fromHex' C c user sender rcv =
     res_bind (escrowAdminPipe fromHex' C c user) (\<lambda>_. cancelTransfer cfg sender rcv)"

definition escrowReceivers ::
  "(string \<Rightarrow> string res) \<Rightarrow> escrow_chain \<Rightarrow> escrow_cache \<Rightarrow> string \<Rightarrow> string option \<Rightarrow> string list res" where
  "escrowReceivers fromHex' C c user sender =
     (case sender of
        Some (s # ss) \<Rightarrow>
          res_bind (fst (addressPermission fromHex' C user c)) (\<lambda>permissions.
            if ADMIN \<in> set permissions then fst (allReceivers fromHex' C (s # ss) c)
            else Inl (JsError ''Only admins can query other senders''))
      | _ \<Rightarrow> fst (allReceivers fromHex' C user c))"

section \<open>Events\<close>






section \<open>The escrow and its cache\<close>





section \<open>Reading the storage\<close>










section \<open>The cached lists\<close>




lemma set_uniq [simp]: "set (uniq xs) = set xs"
  by (simp add: uniq_def)













section \<open>Who may transfer and cancel\<close>

lemma transferTokensPipe_Inr:
  "transferTokensPipe C ts = Inr () \<longleftrightarrow> (\<forall>t\<in>set ts. tokenID t = escLockedTokenID C \<and> 1 \<le> nonce t)"
  by (induction ts) auto

lemma escrowAbi_endpoints:
  "map_of escrowAbi ''withdraw'' = Some ([One AddressK], False)"
  "map_of escrowAbi ''cancelTransfer'' = Some ([One AddressK, One AddressK], False)"
  "map_of escrowAbi ''lockFunds'' = Some ([One AddressK], True)"
  by (simp_all add: escrowAbi_def)

text \<open>A transfer is served exactly to a sender out of the cool-down, for locked tokens sent to someone else.\<close>

lemma escrowTransfer_served:
  "escrowTransfer cfg V C lastEpoch user rcv ts = Inr t \<longleftrightarrow>
   (\<forall>u\<in>set ts. tokenID u = escLockedTokenID C \<and> 1 \<le> nonce u) \<and>
   (case lastEpoch user of None \<Rightarrow> True | Some e \<Rightarrow> epochsCooldownDuration C < currentEpoch V - e) \<and> user \<noteq> rcv \<and>
   t = sender_call cfg user (escrowAddress cfg) ''lockFunds'' [AddressV rcv] (map pay_input ts) (gas cfg ''escrow.lockFunds'')"
  by (auto simp: escrowTransfer_def transferTokensPipe_Inr senderCooldownPipe_def isSenderAddressOnCooldown_def
      lockFunds_def build_Inr escrowAbi_endpoints split: option.splits)

text \<open>
  The permissions of an address are a set of flags. An address with the flags of an administrator and of a
  pauser has no permissions at all for the service, so it cannot cancel a transfer.
\<close>

definition flagsOf :: "int \<Rightarrow> sc_permission set" where
  "flagsOf n = (if n = 0 then {NONE} else (if n mod 2 = 1 then {OWNER} else {}) \<union>
     (if n div 2 mod 2 = 1 then {ADMIN} else {}) \<union> (if n div 4 mod 2 = 1 then {PAUSE} else {}))"

lemma permissionsOf_flags: "0 \<le> n \<Longrightarrow> n \<le> 4 \<Longrightarrow> set (permissionsOf n) = flagsOf n"
proof -
  assume "0 \<le> n" "n \<le> 4"
  then consider "n = 0" | "n = 1" | "n = 2" | "n = 3" | "n = 4" by linarith
  then show ?thesis by cases (auto simp: permissionsOf_def flagsOf_def)
qed

lemma pausing_admin_refused:
  assumes "viewPermissions C user \<in> {6, 7}" "permissionCache c user = None"
  shows "ADMIN \<in> flagsOf (viewPermissions C user) \<and> (\<nexists>t. cancelEscrowTransfer cfg fromHex' C c user s r = Inr t)"
proof -
  have "permissionsOf (viewPermissions C user) = []" using assms by (auto simp: permissionsOf_def)
  then show ?thesis
    using assms by (auto simp: flagsOf_def cancelEscrowTransfer_def escrowAdminPipe_def addressPermission_def Let_def
        split: if_splits option.splits sum.splits prod.splits)
qed

section \<open>Witness\<close>






end
