(* ===== verification/LockedAssets.thy ===== *)
theory LockedAssets
  imports UserEnergy Abi AutoRouterService
begin

text \<open>
  The locked asset factory, its transactions and the milestones of its tokens
  (\<open>src/modules/locked-asset-factory/services/transaction-locked-asset.service.ts\<close>,
  \<open>locked-asset.service.ts\<close>), the staking of locked assets
  (\<open>src/modules/metabonding/services/metabonding.transactions.service.ts\<close> with its validator) and the claim
  of distributed assets (\<open>src/modules/distribution/services/distribution.transactions.service.ts\<close>).

  The attributes of a token are decoded by \<open>@multiversx/sdk-exchange\<close>, in one of two forms: the decoder
  is a field of \<open>locked_asset_view\<close> and gives the milestones and whether the token was merged.
\<close>

definition PRECISION_EX_INCREASE :: int where
  "PRECISION_EX_INCREASE = 1000"

definition MAX_GAS_LIMIT :: int where
  "MAX_GAS_LIMIT = 750000000"

record unlock_milestone =
  umPercent :: jsnum
  umEpochs :: int

record locked_asset_attributes =
  lsaIdentifier :: string
  lsaAttributes :: string
  lsaUnlockSchedule :: "unlock_milestone list"
  lsaIsMerged :: bool

record locked_asset_view =
  lavLockedTokenID :: string
  lavAssetTokenID :: string
  lavInitEpoch :: int
  lavActivationNonce :: int
  lavDecode :: "bool \<Rightarrow> string \<Rightarrow> ((int \<times> bn) list \<times> bool) res"
  mbLockedAssetTokenID :: string
  mbEntryNonce :: "string \<Rightarrow> int"

section \<open>Milestones\<close>

definition getMonthStartEpoch :: "locked_asset_view \<Rightarrow> int \<Rightarrow> int" where
  "getMonthStartEpoch L epoch = epoch - js_rem (epoch - lavInitEpoch L) 30"

definition getRemainingEpochs :: "chain_view \<Rightarrow> locked_asset_view \<Rightarrow> int \<Rightarrow> int" where
  "getRemainingEpochs V L epoch =
     (let unlockStartEpoch = getMonthStartEpoch L epoch in
      if epoch \<le> unlockStartEpoch \<and> epoch \<le> currentEpoch V then 0
      else unlockStartEpoch + 30 - currentEpoch V)"

text \<open>Percents are at the scale of a hundred, a thousand times finer after the activation nonce.\<close>

definition getUnlockMilestones ::
  "bignumber \<Rightarrow> chain_view \<Rightarrow> locked_asset_view \<Rightarrow> (int \<times> bn) list \<Rightarrow> bool \<Rightarrow> unlock_milestone list" where
  "getUnlockMilestones B V L unlockSchedule withActivationNonce =
     map (\<lambda>(epoch, percent).
       \<lparr>umPercent = toNumber (if withActivationNonce then bn_div B percent (bn_number B (of_int PRECISION_EX_INCREASE)) else percent),
        umEpochs = (let remainingEpochs = getRemainingEpochs V L epoch in if 0 < remainingEpochs then remainingEpochs else 0)\<rparr>)
       unlockSchedule"

text \<open>A comparison with NaN is false.\<close>

definition decodeLockedAssetAttributes ::
  "bignumber \<Rightarrow> chain_view \<Rightarrow> locked_asset_view \<Rightarrow> (string \<times> string) list \<Rightarrow> locked_asset_attributes list res" where
  "decodeLockedAssetAttributes B V L batchAttributes =
     res_map (\<lambda>(identifier, attributes).
       let withActivationNonce = (case tokenNonce identifier of Some n \<Rightarrow> lavActivationNonce L \<le> n | None \<Rightarrow> False)
       in res_bind (lavDecode L withActivationNonce attributes) (\<lambda>(unlockSchedule, isMerged).
            Inr \<lparr>lsaIdentifier = identifier, lsaAttributes = attributes,
              lsaUnlockSchedule = getUnlockMilestones B V L unlockSchedule withActivationNonce, lsaIsMerged = isMerged\<rparr>))
       batchAttributes"

section \<open>Transactions of the factory\<close>

abbreviation lockedAssetFactory :: "dex_config \<Rightarrow> string" where
  "lockedAssetFactory cfg \<equiv> scAddr cfg ''lockedAssetAddress''"

definition unlockAssets :: "dex_config \<Rightarrow> string \<Rightarrow> string \<Rightarrow> int \<Rightarrow> bn \<Rightarrow> transaction res" where
  "unlockAssets cfg sender tid n amt =
     build lockedAssetAbi (sender_call cfg sender (lockedAssetFactory cfg) ''unlockAssets'' []
       [meta_esdt tid n amt] (gas cfg ''lockedAssetFactory.unlockAssets''))"

definition validateLockAssetsInputTokens :: "locked_asset_view \<Rightarrow> input_token \<Rightarrow> unit res" where
  "validateLockAssetsInputTokens L token =
     (if tokenID token \<noteq> lavAssetTokenID L \<or> 0 < nonce token then Inl (JsError ''Invalid input token!'') else Inr ())"

definition lockAssets :: "dex_config \<Rightarrow> locked_asset_view \<Rightarrow> input_token \<Rightarrow> transaction res" where
  "lockAssets cfg L token =
     res_bind (validateLockAssetsInputTokens L token) (\<lambda>_.
       build lockedAssetAbi (paid_call cfg (lockedAssetFactory cfg) ''lockAssets'' []
         [fungible (tokenID token) (amount token)] (gas cfg ''lockedAssetFactory.lockAssets'')))"

fun validateMergeTokens :: "locked_asset_view \<Rightarrow> input_token list \<Rightarrow> unit res" where
  "validateMergeTokens L [] = Inr ()"
| "validateMergeTokens L (t # rest) =
     (if tokenID t \<noteq> lavLockedTokenID L \<or> nonce t < 1 then Inl (JsError ''Invalid locked asset to merge!'')
      else validateMergeTokens L rest)"

definition mergeGas :: "dex_config \<Rightarrow> nat \<Rightarrow> int" where
  "mergeGas cfg n =
     gas cfg ''lockedAssetFactory.lockedAssetMerge'' * int n + gas cfg ''lockedAssetFactory.defaultMergeLockedAssets''"

definition mergeLockedAssetTokens ::
  "dex_config \<Rightarrow> locked_asset_view \<Rightarrow> string \<Rightarrow> input_token list \<Rightarrow> transaction res" where
  "mergeLockedAssetTokens cfg L sender tokens =
     (if MAX_GAS_LIMIT < mergeGas cfg (length tokens)
      then Inl (JsError ''Number of merge tokens exeeds maximum gas limit!'')
      else res_bind (validateMergeTokens L tokens) (\<lambda>_.
        build lockedAssetAbi (sender_call cfg sender (lockedAssetFactory cfg) ''mergeLockedAssetTokens'' []
          (map pay_input tokens) (mergeGas cfg (length tokens)))))"

section \<open>Metabonding and distribution\<close>

definition lockedTokenPipe :: "locked_asset_view \<Rightarrow> input_token \<Rightarrow> unit res" where
  "lockedTokenPipe L t =
     (if mbLockedAssetTokenID L \<noteq> tokenID t \<or> nonce t = 0 then Inl (JsError ''invalid input tokens'') else Inr ())"

definition stakeLockedAsset :: "dex_config \<Rightarrow> locked_asset_view \<Rightarrow> string \<Rightarrow> input_token \<Rightarrow> transaction res" where
  "stakeLockedAsset cfg L sender inputToken =
     build metabondingAbi (sender_call cfg sender (scAddr cfg ''metabondingStakingAddress'') ''stakeLockedAsset'' []
       [pay_input inputToken]
       (if 0 < mbEntryNonce L sender then gas cfg ''metabonding.stakeLockedAsset.withTokenMerge''
        else gas cfg ''metabonding.stakeLockedAsset.default''))"

definition stakeLockedAssetMetabonding :: "dex_config \<Rightarrow> locked_asset_view \<Rightarrow> string \<Rightarrow> input_token \<Rightarrow> transaction res" where
  "stakeLockedAssetMetabonding cfg L user t = res_bind (lockedTokenPipe L t) (\<lambda>_. stakeLockedAsset cfg L user t)"

definition metabonding_unstake :: "dex_config \<Rightarrow> bn \<Rightarrow> transaction res" where
  "metabonding_unstake cfg unstakeAmount =
     build metabondingAbi (contract_call cfg (scAddr cfg ''metabondingStakingAddress'') ''unstake'' [BigUInt unstakeAmount]
       (gas cfg ''metabonding.unstake''))"

text \<open>The user's entry is dropped from the caches before the call is built.\<close>

definition metabonding_unbond :: "dex_config \<Rightarrow> string \<Rightarrow> transaction res \<times> string list" where
  "metabonding_unbond cfg sender =
     (build metabondingAbi (contract_call cfg (scAddr cfg ''metabondingStakingAddress'') ''unbond'' []
        (gas cfg ''metabonding.unbond'')), [sender @ ''.userEntry''])"

definition claimLockedAssets :: "dex_config \<Rightarrow> transaction res" where
  "claimLockedAssets cfg =
     build distributionAbi (contract_call cfg (scAddr cfg ''distributionAddress'') ''claimLockedAssets'' []
       (gas cfg ''claimLockedAssets''))"

section \<open>Lemmas\<close>

lemma validateMergeTokens_Inr:
  "validateMergeTokens L ts = Inr () \<longleftrightarrow> (\<forall>t\<in>set ts. tokenID t = lavLockedTokenID L \<and> 1 \<le> nonce t)"
  by (induction ts) auto

lemma lockedAssetAbi_endpoints:
  "map_of lockedAssetAbi ''unlockAssets'' = Some ([], True)" "map_of lockedAssetAbi ''lockAssets'' = Some ([], True)"
  "map_of lockedAssetAbi ''mergeLockedAssetTokens'' = Some ([Optional [BytesK]], True)"
  "map_of metabondingAbi ''stakeLockedAsset'' = Some ([], True)" "map_of metabondingAbi ''unstake'' = Some ([One NumberK], False)"
  "map_of metabondingAbi ''unbond'' = Some ([], False)" "map_of distributionAbi ''claimLockedAssets'' = Some ([], False)"
  by (simp_all add: lockedAssetAbi_def metabondingAbi_def distributionAbi_def)

text \<open>Every call of the three contracts that is built fits the interface of its contract.\<close>

lemma locked_asset_calls_fit:
  "unlockAssets cfg sender tid n amt = Inr t \<Longrightarrow> fits lockedAssetAbi t"
  "lockAssets cfg L tok = Inr t \<Longrightarrow> fits lockedAssetAbi t"
  "mergeLockedAssetTokens cfg L sender toks = Inr t \<Longrightarrow> fits lockedAssetAbi t"
  "stakeLockedAssetMetabonding cfg L sender tok = Inr t \<Longrightarrow> fits metabondingAbi t"
  "metabonding_unstake cfg amt = Inr t \<Longrightarrow> fits metabondingAbi t"
  "fst (metabonding_unbond cfg sender) = Inr t \<Longrightarrow> fits metabondingAbi t"
  "claimLockedAssets cfg = Inr t \<Longrightarrow> fits distributionAbi t"
  by (auto simp: unlockAssets_def lockAssets_def mergeLockedAssetTokens_def stakeLockedAssetMetabonding_def
      stakeLockedAsset_def metabonding_unstake_def metabonding_unbond_def claimLockedAssets_def build_Inr fits_def
      lockedAssetAbi_endpoints split: if_splits)

text \<open>
  Merging is served exactly for locked tokens of the factory whose gas is within the limit, and then
  pays them all.
\<close>

lemma merge_served:
  "mergeLockedAssetTokens cfg L sender ts = Inr t \<longleftrightarrow>
   mergeGas cfg (length ts) \<le> MAX_GAS_LIMIT \<and> (\<forall>u\<in>set ts. tokenID u = lavLockedTokenID L \<and> 1 \<le> nonce u) \<and>
   t = sender_call cfg sender (lockedAssetFactory cfg) ''mergeLockedAssetTokens'' [] (map pay_input ts) (mergeGas cfg (length ts))"
  by (auto simp: mergeLockedAssetTokens_def build_Inr lockedAssetAbi_endpoints validateMergeTokens_Inr)

text \<open>The first start of a month after an epoch.\<close>

definition nextMonthStart :: "locked_asset_view \<Rightarrow> int \<Rightarrow> int" where
  "nextMonthStart L epoch = lavInitEpoch L + 30 * ((epoch - lavInitEpoch L) div 30 + 1)"

text \<open>
  C30. The milestones of a token keep their order; the remaining epochs of each are those to the first start of a
  month after its epoch, and none when that is past or when the epoch has come and is itself a start of a month.
\<close>

theorem milestone_remaining_epochs:
  assumes "\<forall>(epoch, percent)\<in>set schedule. lavInitEpoch L \<le> epoch"
  shows "map umEpochs (getUnlockMilestones B V L schedule merged) =
    map (\<lambda>(epoch, percent). if epoch \<le> currentEpoch V \<and> 30 dvd epoch - lavInitEpoch L then 0
       else max 0 (nextMonthStart L epoch - currentEpoch V)) schedule"
proof -
  have "getRemainingEpochs V L epoch = (if epoch \<le> currentEpoch V \<and> 30 dvd epoch - lavInitEpoch L then 0
      else nextMonthStart L epoch - currentEpoch V)" if "lavInitEpoch L \<le> epoch" for epoch
  proof -
    have "getMonthStartEpoch L epoch = epoch - (epoch - lavInitEpoch L) mod 30"
      using that by (simp add: getMonthStartEpoch_def js_rem_def)
    moreover have "epoch - (epoch - lavInitEpoch L) mod 30 + 30 = nextMonthStart L epoch"
      unfolding nextMonthStart_def using minus_mod_eq_mult_div [of "epoch - lavInitEpoch L" 30] by (simp add: algebra_simps)
    moreover have "epoch \<le> epoch - (epoch - lavInitEpoch L) mod 30 \<longleftrightarrow> 30 dvd epoch - lavInitEpoch L"
      using pos_mod_sign [of 30 "epoch - lavInitEpoch L"] by (auto simp: dvd_eq_mod_eq_0)
    ultimately show ?thesis by (auto simp: getRemainingEpochs_def Let_def)
  qed
  then show ?thesis using assms by (auto simp: getUnlockMilestones_def Let_def max_def)
qed

theorem milestone_remaining_epochs_witness:
  "map umEpochs (getUnlockMilestones bn_js (demo_view\<lparr>currentEpoch := 100\<rparr>)
     \<lparr>lavLockedTokenID = ''LKMEX'', lavAssetTokenID = ''MEX'', lavInitEpoch = 10, lavActivationNonce = 5,
      lavDecode = \<lambda>_ _. Inl TypeError, mbLockedAssetTokenID = ''LKMEX'', mbEntryNonce = \<lambda>_. 0\<rparr>
     [(100, Fin 50), (130, Fin 30), (145, Fin 20)] False) = [0, 60, 60]"
  by (subst milestone_remaining_epochs) (simp_all add: nextMonthStart_def)

text \<open>
  A milestone at the start of a month shows thirty epochs too many until it has come: one epoch before it the
  service tells 31.
\<close>

lemma month_start_milestone_jumps:
  assumes "lavInitEpoch L \<le> epoch" "30 dvd epoch - lavInitEpoch L"
  shows "currentEpoch V = epoch - 1 \<Longrightarrow> getRemainingEpochs V L epoch = 31"
    and "currentEpoch V = epoch \<Longrightarrow> getRemainingEpochs V L epoch = 0"
proof -
  have "getMonthStartEpoch L epoch = epoch"
    using assms by (simp add: getMonthStartEpoch_def js_rem_def dvd_eq_mod_eq_0)
  then show "currentEpoch V = epoch - 1 \<Longrightarrow> getRemainingEpochs V L epoch = 31"
    "currentEpoch V = epoch \<Longrightarrow> getRemainingEpochs V L epoch = 0"
    by (simp_all add: getRemainingEpochs_def)
qed

end
