(* ===== verification/StakingProxy.thy ===== *)
theory StakingProxy
  imports FarmService UserEnergy Abi
begin

text \<open>
  Staking proxies, which stake the farm token of a pair and give a dual yield token:
  \<open>src/modules/staking-proxy/services/staking.proxy.service.ts\<close> and
  \<open>staking.proxy.transactions.service.ts\<close>, with the rewards of a staking position
  (\<open>src/modules/staking/services/staking.service.ts\<close>).

  Attributes are decoded by \<open>@multiversx/sdk-exchange\<close> and tokens are read from the API: both are
  fields of \<open>staking_proxy_view\<close>. The search of a proxy by its token is in \<open>UserEnergy\<close>.
\<close>

record dual_yield_attributes =
  dyLpFarmTokenNonce :: nat
  dyLpFarmTokenAmount :: bn
  dyStakingFarmTokenNonce :: nat
  dyStakingFarmTokenAmount :: bn

record nft_token =
  nftIdentifier :: string
  nftAttributes :: string

record staking_proxy_view =
  spvLpFarmAddress :: "string \<Rightarrow> string"
  spvStakingFarmAddress :: "string \<Rightarrow> string"
  spvLpFarmTokenID :: "string \<Rightarrow> string"
  spvFarmTokenID :: "string \<Rightarrow> string"
  spvDualYieldTokenID :: "string \<Rightarrow> string"
  spvPairAddress :: "string \<Rightarrow> string"
  spvNft :: "string \<Rightarrow> string \<Rightarrow> nft_token"
  decodeDualYield :: "string \<Rightarrow> dual_yield_attributes"
  stakeRewardPerShare :: "string \<Rightarrow> bn"
  stakeVmRewards :: "calculate_rewards_args \<Rightarrow> bn"

section \<open>Rewards of the two positions\<close>

text \<open>A farm position on its own or in a batch of one, by the version of the farm.\<close>

definition farmRewardsFor ::
  "bignumber \<Rightarrow> chain_view \<Rightarrow> week_view \<Rightarrow> farm_view \<Rightarrow> farm_position_view \<Rightarrow> farm_version
    \<Rightarrow> calculate_rewards_args \<Rightarrow> rewards_model res" where
  "farmRewardsFor B V W F D version args =
     (case version of
        V1_2 \<Rightarrow> Inr (getRewardsForPosition_v12 B V F D args)
      | V1_3 \<Rightarrow> Inr (getRewardsForPosition_v13 B V F D args)
      | _ \<Rightarrow> getRewardsForPosition_v2 B V W F D args False)"

definition farmBatchRewards ::
  "bignumber \<Rightarrow> chain_view \<Rightarrow> week_view \<Rightarrow> farm_view \<Rightarrow> farm_position_view \<Rightarrow> farm_version
    \<Rightarrow> calculate_rewards_args list \<Rightarrow> rewards_model list res" where
  "farmBatchRewards B V W F D version positions =
     (if version = V2 then getBatchRewardsForPosition_v2 B V W F D positions
      else res_map (farmRewardsFor B V W F D version) positions)"

definition stake_getRewardsForPosition ::
  "bignumber \<Rightarrow> stake_view \<Rightarrow> staking_proxy_view \<Rightarrow> calculate_rewards_args \<Rightarrow> bn" where
  "stake_getRewardsForPosition B S P position =
     bn_integer B
       (if crVmQuery position then stakeVmRewards P position
        else computeStakeRewardsForPosition B S (crFarmAddress position) (crLiquidity position)
               (stakeRewardPerShare P (crAttributes position)))"

definition getUnbondigRemaingEpochs :: "chain_view \<Rightarrow> int \<Rightarrow> int" where
  "getUnbondigRemaingEpochs V epoch = (if 0 < epoch - currentEpoch V then epoch - currentEpoch V else 0)"

text \<open>The farm tokens behind a part of a dual yield position.\<close>

definition lpFarmTokens :: "bignumber \<Rightarrow> dual_yield_attributes \<Rightarrow> bn \<Rightarrow> bn" where
  "lpFarmTokens B a liquidity = ruleOfThree B liquidity (dyStakingFarmTokenAmount a) (dyLpFarmTokenAmount a)"

record dual_yield_rewards =
  dyrIdentifier :: string
  dyrAttributes :: string
  dyrFarmRewards :: "rewards_model option"
  dyrStakingRewards :: bn

definition proxy_getRewardsForPosition ::
  "bignumber \<Rightarrow> farms_config \<Rightarrow> chain_view \<Rightarrow> week_view \<Rightarrow> farm_view \<Rightarrow> farm_position_view \<Rightarrow> stake_view
    \<Rightarrow> staking_proxy_view \<Rightarrow> calculate_rewards_args \<Rightarrow> dual_yield_rewards res" where
  "proxy_getRewardsForPosition B table V W F D S P position =
     (let proxy = crFarmAddress position;
          a = decodeDualYield P (crAttributes position);
          farm = spvLpFarmAddress P proxy;
          farmToken = spvNft P proxy (tokenIdentifier (spvLpFarmTokenID P proxy) (dyLpFarmTokenNonce a));
          stakingToken = spvNft P proxy (tokenIdentifier (spvFarmTokenID P proxy) (dyStakingFarmTokenNonce a))
      in res_bind (useService table farm) (\<lambda>version.
         res_bind (farmBatchRewards B V W F D version
           [\<lparr>crFarmAddress = farm, crUser = crUser position, crLiquidity = lpFarmTokens B a (crLiquidity position),
             crIdentifier = nftIdentifier farmToken, crAttributes = nftAttributes farmToken,
             crVmQuery = crVmQuery position\<rparr>]) (\<lambda>farmRewards.
           Inr \<lparr>dyrIdentifier = crIdentifier position, dyrAttributes = crAttributes position,
             dyrFarmRewards = (case farmRewards of r # _ \<Rightarrow> Some r | [] \<Rightarrow> None),
             dyrStakingRewards = stake_getRewardsForPosition B S P
               \<lparr>crFarmAddress = spvStakingFarmAddress P proxy, crUser = crUser position,
                crLiquidity = crLiquidity position, crIdentifier = nftIdentifier stakingToken,
                crAttributes = nftAttributes stakingToken, crVmQuery = crVmQuery position\<rparr>\<rparr>)))"

definition proxy_getBatchRewardsForPosition ::
  "bignumber \<Rightarrow> farms_config \<Rightarrow> chain_view \<Rightarrow> week_view \<Rightarrow> farm_view \<Rightarrow> farm_position_view \<Rightarrow> stake_view
    \<Rightarrow> staking_proxy_view \<Rightarrow> calculate_rewards_args list \<Rightarrow> dual_yield_rewards list res" where
  "proxy_getBatchRewardsForPosition B table V W F D S P positions =
     res_map (proxy_getRewardsForPosition B table V W F D S P) positions"

record unstake_farm_tokens =
  uftLiquidityPosition :: liquidity_position
  uftFarmRewards :: bn
  uftStakingRewards :: bn

text \<open>The farm tokens are taken as tokens of the pair.\<close>

definition getUnstakeTokensReceived ::
  "bignumber \<Rightarrow> farms_config \<Rightarrow> chain_view \<Rightarrow> week_view \<Rightarrow> farm_view \<Rightarrow> farm_position_view \<Rightarrow> stake_view
    \<Rightarrow> staking_proxy_view \<Rightarrow> calculate_rewards_args \<Rightarrow> unstake_farm_tokens res" where
  "getUnstakeTokensReceived B table V W F D S P position =
     (let a = decodeDualYield P (crAttributes position);
          liquidityPosition = getLiquidityPosition B V (spvPairAddress P (crFarmAddress position))
            (lpFarmTokens B a (crLiquidity position))
      in res_bind (proxy_getRewardsForPosition B table V W F D S P position) (\<lambda>r.
           case dyrFarmRewards r of
             None \<Rightarrow> Inl TypeError
           | Some farmRewards \<Rightarrow> Inr \<lparr>uftLiquidityPosition = liquidityPosition,
               uftFarmRewards = rwRewards farmRewards, uftStakingRewards = dyrStakingRewards r\<rparr>))"

section \<open>Transactions\<close>

record unstake_args =
  usProxy :: string
  usPayment :: input_token
  usAttributes :: string
  usTolerance :: rat

text \<open>The first payment has the farm token, the others are dual yield tokens to merge.\<close>

fun checkDualYield :: "string \<Rightarrow> input_token list \<Rightarrow> unit res" where
  "checkDualYield tid [] = Inr ()"
| "checkDualYield tid (t # rest) =
     (if tokenID t \<noteq> tid \<or> nonce t = 0 then Inl (JsError ''invalid dual yield token provided'')
      else checkDualYield tid rest)"

definition proxy_validateInputTokens :: "staking_proxy_view \<Rightarrow> string \<Rightarrow> input_token list \<Rightarrow> unit res" where
  "proxy_validateInputTokens P proxy tokens =
     (case tokens of
        [] \<Rightarrow> Inl TypeError
      | t # rest \<Rightarrow>
          if tokenID t \<noteq> spvLpFarmTokenID P proxy then Inl (JsError ''invalid lp farm token provided'')
          else checkDualYield (spvDualYieldTokenID P proxy) rest)"

definition stakeFarmTokens ::
  "dex_config \<Rightarrow> staking_proxy_view \<Rightarrow> string \<Rightarrow> string \<Rightarrow> input_token list \<Rightarrow> transaction res" where
  "stakeFarmTokens cfg P sender proxy pays =
     res_bind (proxy_validateInputTokens P proxy pays) (\<lambda>_.
       build stakingProxyAbi (sender_call cfg sender proxy ''stakeFarmTokens'' [] (map pay_input pays)
         (if 1 < length pays then gas cfg ''stakeProxy.stakeFarmTokens.withTokenMerge''
          else gas cfg ''stakeProxy.stakeFarmTokens.default'')))"

definition claimDualYield ::
  "dex_config \<Rightarrow> staking_proxy_view \<Rightarrow> string \<Rightarrow> string \<Rightarrow> input_token list \<Rightarrow> transaction res" where
  "claimDualYield cfg P sender proxy pays =
     (if \<exists>t\<in>set pays. tokenID t \<noteq> spvDualYieldTokenID P proxy
      then Inl (JsError ''invalid dual yield token for claim'')
      else build stakingProxyAbi (sender_call cfg sender proxy ''claimDualYield'' [] (map pay_input pays)
             (gas cfg ''stakeProxy.claimDualYield'')))"

definition unstakeFarmTokens ::
  "bignumber \<Rightarrow> dex_config \<Rightarrow> farms_config \<Rightarrow> chain_view \<Rightarrow> week_view \<Rightarrow> farm_view \<Rightarrow> farm_position_view
    \<Rightarrow> staking_proxy_view \<Rightarrow> string \<Rightarrow> unstake_args \<Rightarrow> transaction res" where
  "unstakeFarmTokens B cfg table V W F D P sender args =
     (let proxy = usProxy args;
          a = decodeDualYield P (usAttributes args);
          farm = spvLpFarmAddress P proxy;
          farmToken = spvNft P proxy (tokenIdentifier (spvLpFarmTokenID P proxy) (dyLpFarmTokenNonce a));
          liquidityPositionAmount = lpFarmTokens B a (amount (usPayment args))
      in res_bind (useService table farm) (\<lambda>version.
         res_bind (getTokensForExitFarm B F D version (farmRewardsFor B V W F D version)
           \<lparr>crFarmAddress = farm, crUser = sender, crLiquidity = liquidityPositionAmount,
            crIdentifier = nftIdentifier farmToken, crAttributes = nftAttributes farmToken, crVmQuery = False\<rparr>)
           (\<lambda>exitFarmPosition.
         let pos = getLiquidityPosition B V (spvPairAddress P proxy) (etFarmingTokens exitFarmPosition);
             amount0Min = minAmount B (firstTokenAmount pos) (usTolerance args);
             amount1Min = minAmount B (secondTokenAmount pos) (usTolerance args)
         in build stakingProxyAbi (sender_call cfg sender proxy ''unstakeFarmTokens''
              ([BigUInt amount0Min, BigUInt amount1Min] @
               (if farmVersion table farm = Some V2 then [BigUInt liquidityPositionAmount] else []))
              [pay_input (usPayment args)] (gas cfg ''stakeProxy.unstakeFarmTokens'')))))"

section \<open>What an unstake asks for\<close>

lemma stakingProxyAbi_endpoints:
  "map_of stakingProxyAbi ''stakeFarmTokens'' = Some ([], True)" "map_of stakingProxyAbi ''claimDualYield'' = Some ([], True)"
  "map_of stakingProxyAbi ''unstakeFarmTokens'' = Some ([], True)"
  by (simp_all add: stakingProxyAbi_def)

lemma checkDualYield_Inr: "checkDualYield tid ts = Inr () \<longleftrightarrow> (\<forall>t\<in>set ts. tokenID t = tid \<and> nonce t \<noteq> 0)"
  by (induction ts) auto

text \<open>Staking is served for a farm token followed by dual yield tokens, in that order.\<close>

lemma stakeFarmTokens_served:
  "stakeFarmTokens cfg P sender proxy ts = Inr tx \<longleftrightarrow>
   (\<exists>t rest. ts = t # rest \<and> tokenID t = spvLpFarmTokenID P proxy \<and>
     (\<forall>u\<in>set rest. tokenID u = spvDualYieldTokenID P proxy \<and> nonce u \<noteq> 0) \<and>
     tx = sender_call cfg sender proxy ''stakeFarmTokens'' [] (map pay_input ts)
       (if rest = [] then gas cfg ''stakeProxy.stakeFarmTokens.default''
        else gas cfg ''stakeProxy.stakeFarmTokens.withTokenMerge''))"
  by (cases ts) (auto simp: stakeFarmTokens_def proxy_validateInputTokens_def checkDualYield_Inr build_Inr
      stakingProxyAbi_endpoints)

text \<open>The farming tokens an exit returns, whatever its rewards are.\<close>

lemma exit_farming_tokens:
  assumes "bignumber_lib B" "crLiquidity args = bn_of_int l" "0 \<le> l" "l \<le> c"
    "faCurrentFarmAmount (fromAttributes D (crAttributes args)) = bn_of_int c" "0 < c"
    "(if version = V2 then faCurrentFarmAmount (fromAttributes D (crAttributes args))
      else faInitialFarmingAmount (fromAttributes D (crAttributes args))) = bn_of_int a" "0 \<le> a"
    "rewardsFor args = Inr R" "farmPenaltyPercent F (crFarmAddress args) = of_int p" "0 \<le> p" "p \<le> MAX_PENALTY_PERCENT"
  obtains x w where "getTokensForExitFarm B F D version rewardsFor args = Inr \<lparr>etFarmingTokens = bn_of_int x, etRewards = w\<rparr>"
    "0 \<le> x" "x \<le> a"
proof -
  obtain s where s: "ruleOfThree B (bn_of_int l) (bn_of_int c) (bn_of_int a) = bn_of_int s" "0 \<le> s" "s \<le> a"
    using bignumber_lib.ruleOfThree_fin [OF assms(1,3,6,8)] assms(4) by metis
  obtain x where x: "bn_minus B (bn_of_int s) (bn_integer B (bn_div B
      (bn_times B (bn_of_int s) (bn_number B (rat_of_int p))) (bn_number B (of_int MAX_PENALTY_PERCENT)))) = bn_of_int x"
    "0 \<le> x" "x \<le> s" using bignumber_lib.penalty_fin [OF assms(1) s(2) assms(11,12)] .
  show ?thesis
    using that [of "if 0 < rwRemainingFarmingEpochs R then x else s"] s x assms(2,5,7,9,10)
    by (simp add: getTokensForExitFarm_def Let_def split: if_splits)
qed

text \<open>A position of \<open>st\<close> staked tokens over \<open>k\<close> farm tokens, of which \<open>l\<close> are unstaked.\<close>

definition dual_yield_position ::
  "staking_proxy_view \<Rightarrow> unstake_args \<Rightarrow> int \<Rightarrow> int \<Rightarrow> int \<Rightarrow> bool" where
  "dual_yield_position P args l st k \<longleftrightarrow>
     amount (usPayment args) = bn_of_int l \<and> dyStakingFarmTokenAmount (decodeDualYield P (usAttributes args)) = bn_of_int st \<and>
     dyLpFarmTokenAmount (decodeDualYield P (usAttributes args)) = bn_of_int k \<and> 0 \<le> l \<and> l \<le> st \<and> 0 < st \<and> 0 \<le> k"

text \<open>The farm position behind it: \<open>c\<close> farm tokens over \<open>a\<close> tokens of the pair.\<close>

definition proxied_farm_position ::
  "farm_view \<Rightarrow> farm_position_view \<Rightarrow> staking_proxy_view \<Rightarrow> farm_version \<Rightarrow> unstake_args \<Rightarrow> int \<Rightarrow> int \<Rightarrow> int \<Rightarrow> bool" where
  "proxied_farm_position F D P version args c a p \<longleftrightarrow>
     (let attrs = fromAttributes D (nftAttributes (spvNft P (usProxy args)
        (tokenIdentifier (spvLpFarmTokenID P (usProxy args)) (dyLpFarmTokenNonce (decodeDualYield P (usAttributes args))))))
      in faCurrentFarmAmount attrs = bn_of_int c \<and> 0 < c \<and>
         (if version = V2 then faCurrentFarmAmount attrs else faInitialFarmingAmount attrs) = bn_of_int a \<and> 0 \<le> a \<and>
         farmPenaltyPercent F (spvLpFarmAddress P (usProxy args)) = of_int p \<and> 0 \<le> p \<and> p \<le> MAX_PENALTY_PERCENT)"

definition plain_pair :: "chain_view \<Rightarrow> string \<Rightarrow> int \<Rightarrow> int \<Rightarrow> int \<Rightarrow> bool" where
  "plain_pair V pair r0 r1 supply \<longleftrightarrow> 0 \<le> r0 \<and> 0 \<le> r1 \<and> pairInfoMetadata V pair =
     \<lparr>reserves0 = bn_of_int r0, reserves1 = bn_of_int r1, totalSupply = bn_of_int supply\<rparr>"

text \<open>
  Unstaking part of a dual yield position pays exactly that part and asks for at least amounts between zero
  and the reserves of the pair; for a version 2 farm it names the farm tokens of that part, the rounded
  share. The interface of the proxy lists no parameters for the call, so the contract object is
  given arguments it has no types for.
\<close>

theorem unstake_asks_for_share:
  assumes "bignumber_lib B" "dual_yield_position P args l st k" "proxied_farm_position F D P version args c a p" "k \<le> c"
    and "plain_pair V (spvPairAddress P (usProxy args)) r0 r1 supply" "a \<le> supply"
    and "0 \<le> usTolerance args" "usTolerance args \<le> 1"
    and "farmVersion table (spvLpFarmAddress P (usProxy args)) = Some version" "version \<noteq> CUSTOM"
  shows "\<exists>t m0 m1 s. unstakeFarmTokens B cfg table V W F D P sender args = Inr t \<and>
    payments t = [pay_input (usPayment args)] \<and>
    endpointArgs t = [BigUInt (bn_of_int m0), BigUInt (bn_of_int m1)] @ (if version = V2 then [BigUInt (bn_of_int s)] else []) \<and>
    0 \<le> m0 \<and> m0 \<le> r0 \<and> 0 \<le> m1 \<and> m1 \<le> r1 \<and>
    0 \<le> s \<and> s \<le> k \<and> \<bar>of_int s - of_int l * of_int k / of_int st\<bar> \<le> 51 / (100 :: rat) \<and> \<not> fits stakingProxyAbi t"
proof -
  let ?dy = "decodeDualYield P (usAttributes args)" and ?farm = "spvLpFarmAddress P (usProxy args)"
  let ?nft = "spvNft P (usProxy args) (tokenIdentifier (spvLpFarmTokenID P (usProxy args)) (dyLpFarmTokenNonce ?dy))"
  obtain s where s: "lpFarmTokens B ?dy (amount (usPayment args)) = bn_of_int s" "0 \<le> s" "s \<le> k"
    "\<bar>of_int s - of_int l * of_int k / of_int st\<bar> \<le> 51 / (100 :: rat)"
    using bignumber_lib.ruleOfThree_fin [OF assms(1), of l st k] assms(2)
    unfolding dual_yield_position_def lpFarmTokens_def by metis
  let ?pos = "\<lparr>crFarmAddress = ?farm, crUser = sender, crLiquidity = bn_of_int s, crIdentifier = nftIdentifier ?nft,
    crAttributes = nftAttributes ?nft, crVmQuery = False\<rparr>"
  have v: "useService table ?farm = Inr version" using assms(9,10) by (cases version) (simp_all add: useService_def)
  obtain R where R: "farmRewardsFor B V W F D version ?pos = Inr R"
    using assms(10) by (cases version) (simp_all add: farmRewardsFor_def getRewardsForPosition_v2_def Let_def)
  obtain x w where x: "getTokensForExitFarm B F D version (farmRewardsFor B V W F D version) ?pos =
      Inr \<lparr>etFarmingTokens = bn_of_int x, etRewards = w\<rparr>" "0 \<le> x" "x \<le> a"
    by (rule exit_farming_tokens [OF assms(1), of ?pos s c D version a "farmRewardsFor B V W F D version" R F p])
      (use assms(3,4) s R in \<open>auto simp: proxied_farm_position_def Let_def split: if_splits\<close>)
  have le: "x \<le> supply" using x(3) assms(6) by simp
  obtain z0 where z0: "getTokenForGivenPosition B (bn_of_int x) (bn_of_int r0) (bn_of_int supply) = bn_of_int z0" "0 \<le> z0" "z0 \<le> r0"
    using bignumber_lib.getTokenForGivenPosition_bounds [OF assms(1) x(2) le, of r0] assms(5) unfolding plain_pair_def by blast
  obtain z1 where z1: "getTokenForGivenPosition B (bn_of_int x) (bn_of_int r1) (bn_of_int supply) = bn_of_int z1" "0 \<le> z1" "z1 \<le> r1"
    using bignumber_lib.getTokenForGivenPosition_bounds [OF assms(1) x(2) le, of r1] assms(5) unfolding plain_pair_def by blast
  obtain m0 where m0: "minAmount B (bn_of_int z0) (usTolerance args) = bn_of_int m0" "0 \<le> m0" "m0 \<le> z0"
    using bignumber_lib.minAmount_bounds [OF assms(1,7,8) z0(2)] .
  obtain m1 where m1: "minAmount B (bn_of_int z1) (usTolerance args) = bn_of_int m1" "0 \<le> m1" "m1 \<le> z1"
    using bignumber_lib.minAmount_bounds [OF assms(1,7,8) z1(2)] .
  have pinfo: "pairInfoMetadata V (spvPairAddress P (usProxy args)) =
     \<lparr>reserves0 = bn_of_int r0, reserves1 = bn_of_int r1, totalSupply = bn_of_int supply\<rparr>"
    using assms(5) by (simp add: plain_pair_def)
  let ?t = "sender_call cfg sender (usProxy args) ''unstakeFarmTokens''
      ([BigUInt (bn_of_int m0), BigUInt (bn_of_int m1)] @ (if version = V2 then [BigUInt (bn_of_int s)] else []))
      [pay_input (usPayment args)] (gas cfg ''stakeProxy.unstakeFarmTokens'')"
  have "unstakeFarmTokens B cfg table V W F D P sender args = Inr ?t"
    using z0(1) z1(1) m0(1) m1(1) v x(1) assms(9)
    by (simp add: unstakeFarmTokens_def Let_def s(1) getLiquidityPosition_def pinfo build_Inr stakingProxyAbi_endpoints)
  then show ?thesis
    using m0 m1 z0 z1 s
    by (intro exI [of _ ?t] exI [of _ m0] exI [of _ m1] exI [of _ s]) (auto simp: fits_def stakingProxyAbi_endpoints)
qed

definition demo_proxy :: staking_proxy_view where
  "demo_proxy = \<lparr>spvLpFarmAddress = \<lambda>_. ''farm'', spvStakingFarmAddress = \<lambda>_. ''stake'', spvLpFarmTokenID = \<lambda>_. ''EGLDMEXF'',
     spvFarmTokenID = \<lambda>_. ''SFARM'', spvDualYieldTokenID = \<lambda>_. ''DUAL'', spvPairAddress = \<lambda>_. ''pair'',
     spvNft = \<lambda>_ i. \<lparr>nftIdentifier = i, nftAttributes = []\<rparr>,
     decodeDualYield = \<lambda>_. \<lparr>dyLpFarmTokenNonce = 1, dyLpFarmTokenAmount = bn_of_int 80, dyStakingFarmTokenNonce = 2,
       dyStakingFarmTokenAmount = bn_of_int 200\<rparr>,
     stakeRewardPerShare = \<lambda>_. Fin 0, stakeVmRewards = \<lambda>_. Fin 0\<rparr>"

theorem unstake_asks_for_share_witness:
  "\<exists>t m0 m1 s. unstakeFarmTokens bn_js demo_cfg demo_farms demo_view demo_week demo_farm demo_positions demo_proxy ''alice''
      \<lparr>usProxy = ''proxy'', usPayment = \<lparr>tokenID = ''DUAL'', nonce = 4, amount = bn_of_int 50\<rparr>, usAttributes = [], usTolerance = 1 / 100\<rparr> =
      Inr t \<and>
    endpointArgs t = [BigUInt (bn_of_int m0), BigUInt (bn_of_int m1), BigUInt (bn_of_int s)] \<and> m0 \<le> 1000 \<and> m1 \<le> 4000 \<and>
    \<bar>of_int s - 20\<bar> \<le> 51 / (100 :: rat)"
proof -
  let ?args = "\<lparr>usProxy = ''proxy'', usPayment = \<lparr>tokenID = ''DUAL'', nonce = 4, amount = bn_of_int 50\<rparr>,
     usAttributes = [], usTolerance = 1 / 100\<rparr>"
  have "dual_yield_position demo_proxy ?args 50 200 80" by (simp add: dual_yield_position_def demo_proxy_def)
  moreover have "proxied_farm_position demo_farm demo_positions demo_proxy V2 ?args 100 100 100"
    by (simp add: proxied_farm_position_def demo_proxy_def demo_positions_def demo_farm_def MAX_PENALTY_PERCENT_def)
  moreover have "plain_pair demo_view (spvPairAddress demo_proxy (usProxy ?args)) 1000 4000 500"
    by (simp add: plain_pair_def demo_view_def)
  moreover have "farmVersion demo_farms (spvLpFarmAddress demo_proxy (usProxy ?args)) = Some V2"
    by (simp add: demo_proxy_def demo_pause)
  ultimately obtain t m0 m1 s where "unstakeFarmTokens bn_js demo_cfg demo_farms demo_view demo_week demo_farm demo_positions
      demo_proxy ''alice'' ?args = Inr t"
    "endpointArgs t = [BigUInt (bn_of_int m0), BigUInt (bn_of_int m1), BigUInt (bn_of_int s)]"
    "m0 \<le> 1000" "m1 \<le> 4000" "\<bar>of_int s - of_int 50 * of_int 80 / of_int 200\<bar> \<le> 51 / (100 :: rat)"
    using unstake_asks_for_share [OF js.bignumber_lib_axioms, of demo_proxy ?args 50 200 80 demo_farm demo_positions V2 100 100 100
        demo_view 1000 4000 500 demo_farms demo_cfg demo_week "''alice''"] by auto
  then show ?thesis by (intro exI [of _ t] exI [of _ m0] exI [of _ m1] exI [of _ s]) simp
qed

text \<open>
  What the query tells a user to expect takes the farm tokens themselves as tokens of the pair, which the
  transaction first turns into the farming tokens an exit of the farm returns: the penalty and the farming tokens
  of the position do not enter the preview.
\<close>

lemma unstake_preview_ignores_farm:
  "getUnstakeTokensReceived B table V W F D S P position = Inr r \<Longrightarrow>
   uftLiquidityPosition r = getLiquidityPosition B V (spvPairAddress P (crFarmAddress position))
     (lpFarmTokens B (decodeDualYield P (crAttributes position)) (crLiquidity position))"
  by (auto simp: getUnstakeTokensReceived_def Let_def split: option.splits)

end
