(* ===== verification/ProxyTransactions.thy ===== *)
theory ProxyTransactions
  imports LockedAssets FarmService
begin

text \<open>
  The proxy for positions of locked tokens: the proxy contract of a token
  (\<open>src/modules/proxy/services/proxy.service.ts\<close>, \<open>src/utils/proxy.utils.ts\<close>), the transactions on pairs
  (\<open>proxy-pair/proxy.pair.transactions.service.ts\<close>) and on farms
  (\<open>proxy-farm/proxy.farm.transactions.service.ts\<close>), the validation pipes (\<open>validators\<close>) and the queries
  (\<open>proxy.transaction.resolver.ts\<close>).

  The configuration lists the address of a proxy per version, and the interface of a contract is the one of
  its version (\<open>MXProxyService.getProxyDexSmartContract\<close>); loading it for another address throws.
\<close>

section \<open>Data\<close>

type_synonym proxies_config = "(string \<times> string) list"

record proxy_view =
  pxLockedTokenIDs :: "string \<Rightarrow> string list"
  pxWrappedLpTokenID :: "string \<Rightarrow> string"
  pxWrappedFarmTokenID :: "string \<Rightarrow> string"
  pxIntermediatedPairs :: "string \<Rightarrow> string list"
  pxIntermediatedFarms :: "string \<Rightarrow> string list"

record proxy_liquidity_args =
  plPairAddress :: string
  plTokens :: "input_token list"
  plTolerance :: rat

record remove_proxy_args =
  rpPairAddress :: string
  rpWrappedLpTokenID :: string
  rpWrappedLpTokenNonce :: int
  rpLiquidity :: bn
  rpTolerance :: rat

section \<open>Proxies and their interfaces\<close>

fun proxyVersion :: "proxies_config \<Rightarrow> string \<Rightarrow> string option" where
  "proxyVersion [] proxyAddress = None"
| "proxyVersion ((version, address') # rest) proxyAddress =
     (if address' = proxyAddress then Some version else proxyVersion rest proxyAddress)"

definition proxyAbi :: "proxies_config \<Rightarrow> string \<Rightarrow> abi option" where
  "proxyAbi P proxyAddress =
     (if proxyVersion P proxyAddress = Some ''v1'' then Some proxyDexAbi
      else if proxyVersion P proxyAddress = Some ''v2'' then Some proxyDexV2Abi else None)"

definition proxyBuild :: "proxies_config \<Rightarrow> transaction \<Rightarrow> transaction res" where
  "proxyBuild P t = (case proxyAbi P (receiver t) of None \<Rightarrow> Inl TypeError | Some abi \<Rightarrow> build abi t)"

text \<open>The test of one version; \<open>None\<close> is a missing identifier, which equals no other.\<close>

definition proxyKnows :: "proxy_view \<Rightarrow> string \<Rightarrow> string option \<Rightarrow> bool" where
  "proxyKnows X proxyAddress tid =
     (case tid of None \<Rightarrow> False
      | Some t \<Rightarrow> t \<in> set (pxLockedTokenIDs X proxyAddress) \<or> t = pxWrappedLpTokenID X proxyAddress \<or>
          t = pxWrappedFarmTokenID X proxyAddress)"

definition getProxyAddressByToken :: "proxies_config \<Rightarrow> proxy_view \<Rightarrow> string option \<Rightarrow> string res" where
  "getProxyAddressByToken P X tid =
     (case map_of P ''v1'' of
        None \<Rightarrow> Inl TypeError
      | Some v1 \<Rightarrow>
          if proxyKnows X v1 tid then Inr v1
          else case map_of P ''v2'' of
            None \<Rightarrow> Inl TypeError
          | Some v2 \<Rightarrow>
              if proxyKnows X v2 tid then Inr v2 else Inl (JsError ''invalid locked token identifier''))"

section \<open>Liquidity\<close>

text \<open>The input at a position is replaced by the wrapped token; one with a nonce is refused.\<close>

definition wrappedProxyInput :: "chain_view \<Rightarrow> input_token \<Rightarrow> input_token res" where
  "wrappedProxyInput V t =
     (if 0 < nonce t then Inl (JsError ''Invalid nonce for EGLD token!'')
      else Inr \<lparr>tokenID = wrappedEgldTokenID V, nonce = 0, amount = amount t\<rparr>)"

fun convertInputTokenstoESDTTokens ::
  "dex_config \<Rightarrow> chain_view \<Rightarrow> input_token list \<Rightarrow> input_token list res" where
  "convertInputTokenstoESDTTokens cfg V [] = Inl TypeError"
| "convertInputTokenstoESDTTokens cfg V (t0 # ts) =
     (if tokenID t0 = EGLDIdentifier cfg then res_bind (wrappedProxyInput V t0) (\<lambda>w. Inr (w # ts))
      else case ts of
        [] \<Rightarrow> Inl TypeError
      | t1 # rest \<Rightarrow>
          if tokenID t1 = EGLDIdentifier cfg then res_bind (wrappedProxyInput V t1) (\<lambda>w. Inr (t0 # w # rest))
          else Inr (t0 # t1 # rest))"

fun getLiquidityTokens ::
  "chain_view \<Rightarrow> proxy_view \<Rightarrow> string \<Rightarrow> input_token list \<Rightarrow> string \<Rightarrow> input_token list res" where
  "getLiquidityTokens V X pairAddress (t0 # t1 # rest) proxyAddress =
     (if tokenID t0 = firstTokenID V pairAddress then
        (if tokenID t1 \<notin> set (pxLockedTokenIDs X proxyAddress) then Inl (JsError ''Invalid tokens received!'')
         else if 0 < nonce t0 \<or> nonce t1 < 1 then Inl (JsError ''Invalid tokens nonce received!'')
         else Inr (t0 # t1 # rest))
      else if tokenID t1 = firstTokenID V pairAddress then
        (if tokenID t0 \<notin> set (pxLockedTokenIDs X proxyAddress) then Inl (JsError ''Invalid tokens received!'')
         else if 0 < nonce t1 \<or> nonce t0 < 1 then Inl (JsError ''Invalid tokens nonce received!'')
         else Inr (t1 # t0 # rest))
      else Inl (JsError ''Invalid tokens received!''))"
| "getLiquidityTokens V X pairAddress ts proxyAddress = Inl TypeError"

definition addLiquidityProxy ::
  "bignumber \<Rightarrow> dex_config \<Rightarrow> proxies_config \<Rightarrow> chain_view \<Rightarrow> proxy_view \<Rightarrow> string \<Rightarrow> string
    \<Rightarrow> proxy_liquidity_args \<Rightarrow> transaction res" where
  "addLiquidityProxy B cfg P V X sender proxyAddress args =
     res_bind (convertInputTokenstoESDTTokens cfg V (plTokens args)) (\<lambda>tokens.
     res_bind (getLiquidityTokens V X (plPairAddress args) tokens proxyAddress) (\<lambda>ts.
       proxyBuild P (sender_call cfg sender proxyAddress ''addLiquidityProxy''
         (BytesHexAddress (plPairAddress args) #
          map (\<lambda>t. BigUInt (minAmount B (amount t) (plTolerance args))) (take 2 ts))
         (map pay_input ts)
         (if 2 < length ts then gas cfg ''proxy.pairs.addLiquidity.withTokenMerge''
          else gas cfg ''proxy.pairs.addLiquidity.default''))))"

fun wrapProxyInput :: "dex_config \<Rightarrow> chain_view \<Rightarrow> string \<Rightarrow> input_token list \<Rightarrow> transaction res" where
  "wrapProxyInput cfg V sender [] = Inl TypeError"
| "wrapProxyInput cfg V sender (t0 # ts) =
     (if tokenID t0 = EGLDIdentifier cfg then Inr (wrapEgld cfg V sender (amount t0))
      else case ts of
        [] \<Rightarrow> Inl TypeError
      | t1 # rest \<Rightarrow>
          if tokenID t1 = EGLDIdentifier cfg then Inr (wrapEgld cfg V sender (amount t1))
          else Inl (JsError ''No EGLD to wrap found!''))"

definition addLiquidityProxyBatch ::
  "bignumber \<Rightarrow> dex_config \<Rightarrow> proxies_config \<Rightarrow> chain_view \<Rightarrow> proxy_view \<Rightarrow> string \<Rightarrow> string
    \<Rightarrow> proxy_liquidity_args \<Rightarrow> transaction list res" where
  "addLiquidityProxyBatch B cfg P V X sender proxyAddress args =
     res_bind (wrapProxyInput cfg V sender (plTokens args)) (\<lambda>w.
     res_bind (addLiquidityProxy B cfg P V X sender proxyAddress args) (\<lambda>t. Inr [w, t]))"

definition removeLiquidityProxy ::
  "bignumber \<Rightarrow> dex_config \<Rightarrow> proxies_config \<Rightarrow> chain_view \<Rightarrow> string \<Rightarrow> string \<Rightarrow> remove_proxy_args
    \<Rightarrow> transaction list res" where
  "removeLiquidityProxy B cfg P V sender proxyAddress args =
     (let pair = rpPairAddress args;
          pos = getLiquidityPosition B V pair (rpLiquidity args);
          amount0Min = minAmount B (firstTokenAmount pos) (rpTolerance args);
          amount1Min = minAmount B (secondTokenAmount pos) (rpTolerance args)
      in res_bind (proxyBuild P (sender_call cfg sender proxyAddress ''removeLiquidityProxy''
             [BytesHexAddress pair, BigUInt amount0Min, BigUInt amount1Min]
             [meta_esdt (rpWrappedLpTokenID args) (rpWrappedLpTokenNonce args) (rpLiquidity args)]
             (gas cfg ''proxy.pairs.removeLiquidity''))) (\<lambda>t.
           Inr (t # (if wrappedEgldTokenID V = firstTokenID V pair then [unwrapEgld cfg V sender amount0Min]
                     else if wrappedEgldTokenID V = secondTokenID V pair then [unwrapEgld cfg V sender amount1Min]
                     else []))))"

text \<open>
  The guards of the merges read \<open>gasConfig.defaultMergeWFMT\<close> and \<open>gasConfig.defaultMergeWLPT\<close>, which
  \<open>src/config/default.json\<close> has below \<open>proxy.farms\<close> and \<open>proxy.pairs\<close> only: \<open>undefined\<close> times a length is NaN, and
  no comparison with NaN holds.
\<close>

definition gasConfig_defaultMergeWFMT :: "int option" where
  "gasConfig_defaultMergeWFMT = None"

definition gasConfig_defaultMergeWLPT :: "int option" where
  "gasConfig_defaultMergeWLPT = None"

definition exceedsMaxGas :: "int option \<Rightarrow> nat \<Rightarrow> bool" where
  "exceedsMaxGas g n = (case g of None \<Rightarrow> False | Some x \<Rightarrow> MAX_GAS_LIMIT < x * int n)"

definition mergeWrappedLPTokens ::
  "dex_config \<Rightarrow> proxies_config \<Rightarrow> string \<Rightarrow> string \<Rightarrow> input_token list \<Rightarrow> transaction res" where
  "mergeWrappedLPTokens cfg P sender proxyAddress tokens =
     (if exceedsMaxGas gasConfig_defaultMergeWLPT (length tokens)
      then Inl (JsError ''Number of merge tokens exeeds maximum gas limit!'')
      else proxyBuild P (sender_call cfg sender proxyAddress ''mergeWrappedLpTokens'' [] (map pay_input tokens)
             (gas cfg ''proxy.pairs.defaultMergeWLPT'' * int (length tokens))))"

section \<open>Farms\<close>

text \<open>\<open>gasConfig.proxy.farms[version]\<close> and a path below it; custom farms have no entry.\<close>

definition proxyFarmGas :: "dex_config \<Rightarrow> farm_version option \<Rightarrow> string \<Rightarrow> int res" where
  "proxyFarmGas cfg version path =
     (case version of
        None \<Rightarrow> Inl TypeError
      | Some v \<Rightarrow> if v = CUSTOM then Inl TypeError else Inr (gas cfg (''proxy.farms.'' @ versionKey v @ ''.'' @ path)))"

definition proxyFarmTypeGas ::
  "dex_config \<Rightarrow> farm_version option \<Rightarrow> farm_reward_type option \<Rightarrow> string \<Rightarrow> int res" where
  "proxyFarmTypeGas cfg version type path =
     (case type of
        None \<Rightarrow> Inl TypeError
      | Some t \<Rightarrow> if version = Some V1_2 \<and> t = CUSTOM_REWARDS then Inl TypeError
                  else proxyFarmGas cfg version (typeKey t @ ''.'' @ path))"

text \<open>The reward type the gas is looked up for: on version 1.2 it is the client's choice.\<close>

definition proxyRewardType :: "farms_config \<Rightarrow> string \<Rightarrow> bool \<Rightarrow> farm_reward_type option" where
  "proxyRewardType table farm lockRewards =
     (if farmVersion table farm = Some V1_2 then Some (rewardTypeOf lockRewards) else farmType table farm)"

text \<open>The gas of the exit and of the claim, with that of a new locked asset when rewards are locked.\<close>

definition proxyPositionGas ::
  "dex_config \<Rightarrow> farms_config \<Rightarrow> ('a) sft_farm_args_scheme \<Rightarrow> string \<Rightarrow> int res" where
  "proxyPositionGas cfg table args path =
     (let farm = sfFarmAddress args; type = proxyRewardType table farm (sfLockRewards args)
      in res_bind (proxyFarmTypeGas cfg (farmVersion table farm) type path) (\<lambda>gasL.
           Inr (gasL + lockedAssetCreateGas cfg type)))"

definition getExitFarmProxyGasLimit ::
  "dex_config \<Rightarrow> farms_config \<Rightarrow> chain_view \<Rightarrow> farm_view \<Rightarrow> exit_farm_args \<Rightarrow> int res" where
  "getExitFarmProxyGasLimit cfg table V F args = proxyPositionGas cfg table args (exitFarmPath V F args)"

definition enterFarmProxy ::
  "dex_config \<Rightarrow> farms_config \<Rightarrow> proxies_config \<Rightarrow> string \<Rightarrow> string \<Rightarrow> enter_farm_args \<Rightarrow> transaction res" where
  "enterFarmProxy cfg table P sender proxyAddress args =
     (let version = farmVersion table (efFarmAddress args)
      in res_bind (proxyFarmGas cfg version
             (if 1 < length (efTokens args) then ''enterFarm.withTokenMerge'' else ''enterFarm.default'')) (\<lambda>gasL.
           proxyBuild P (sender_call cfg sender proxyAddress
             (if version = Some V1_2 \<and> efLockRewards args then ''enterFarmAndLockRewardsProxy'' else ''enterFarmProxy'')
             [BytesHexAddress (efFarmAddress args)] (map pay_input (efTokens args)) gasL)))"

text \<open>A call on the farm of the arguments, paid with their wrapped farm token.\<close>

definition wrappedFarmCall ::
  "dex_config \<Rightarrow> proxies_config \<Rightarrow> string \<Rightarrow> string \<Rightarrow> string \<Rightarrow> typed_value list \<Rightarrow> ('a) sft_farm_args_scheme
    \<Rightarrow> int \<Rightarrow> transaction res" where
  "wrappedFarmCall cfg P sender proxyAddress f moreArgs args gasL =
     proxyBuild P (sender_call cfg sender proxyAddress f (BytesHexAddress (sfFarmAddress args) # moreArgs)
       [meta_esdt (sfFarmTokenID args) (sfFarmTokenNonce args) (sfAmount args)] gasL)"

definition exitFarmProxy ::
  "dex_config \<Rightarrow> farms_config \<Rightarrow> proxies_config \<Rightarrow> chain_view \<Rightarrow> farm_view \<Rightarrow> string \<Rightarrow> string
    \<Rightarrow> exit_farm_args \<Rightarrow> transaction res" where
  "exitFarmProxy cfg table P V F sender proxyAddress args =
     (let v2 = (proxyVersion P proxyAddress = Some ''v2'')
      in if v2 \<and> exExitAmount args = None \<and> \<not> isPositive (exExitAmount args)
         then Inl (JsError ''Invalid exit amount'')
         else res_bind (getExitFarmProxyGasLimit cfg table V F args) (\<lambda>gasL.
           wrappedFarmCall cfg P sender proxyAddress ''exitFarmProxy''
             (if v2 then [BigUInt (case exExitAmount args of Some a \<Rightarrow> a | None \<Rightarrow> NotANum)] else []) args gasL))"

definition claimFarmRewardsProxy ::
  "dex_config \<Rightarrow> farms_config \<Rightarrow> proxies_config \<Rightarrow> string \<Rightarrow> string \<Rightarrow> sft_farm_args \<Rightarrow> transaction res" where
  "claimFarmRewardsProxy cfg table P sender proxyAddress args =
     res_bind (proxyPositionGas cfg table args ''claimRewards'') (\<lambda>gasL.
       wrappedFarmCall cfg P sender proxyAddress ''claimRewardsProxy'' [] args gasL)"

definition compoundRewardsProxy ::
  "dex_config \<Rightarrow> farms_config \<Rightarrow> proxies_config \<Rightarrow> string \<Rightarrow> string \<Rightarrow> sft_farm_args \<Rightarrow> transaction res" where
  "compoundRewardsProxy cfg table P sender proxyAddress args =
     res_bind (proxyFarmGas cfg (farmVersion table (sfFarmAddress args)) ''compoundRewards'') (\<lambda>gasL.
       wrappedFarmCall cfg P sender proxyAddress ''compoundRewardsProxy'' [] args gasL)"

definition migrateToNewFarmProxy ::
  "dex_config \<Rightarrow> farms_config \<Rightarrow> proxies_config \<Rightarrow> string \<Rightarrow> string \<Rightarrow> exit_farm_args \<Rightarrow> transaction res" where
  "migrateToNewFarmProxy cfg table P sender proxyAddress args =
     res_bind (proxyFarmGas cfg (farmVersion table (sfFarmAddress args)) ''migrateToNewFarm'') (\<lambda>gasL.
       wrappedFarmCall cfg P sender proxyAddress ''migrateV1_2Position'' [] args gasL)"

definition mergeWrappedFarmTokens ::
  "dex_config \<Rightarrow> proxies_config \<Rightarrow> string \<Rightarrow> string \<Rightarrow> string \<Rightarrow> input_token list \<Rightarrow> transaction res" where
  "mergeWrappedFarmTokens cfg P sender proxyAddress farmAddress tokens =
     (if exceedsMaxGas gasConfig_defaultMergeWFMT (length tokens)
      then Inl (JsError ''Number of merge tokens exeeds maximum gas limit!'')
      else proxyBuild P (sender_call cfg sender proxyAddress ''mergeWrappedFarmTokens'' [BytesHexAddress farmAddress]
             (map pay_input tokens) (gas cfg ''proxy.farms.defaultMergeWFMT'' * int (length tokens))))"

section \<open>Validation pipes\<close>

definition liquidityTokensValidationPipe ::
  "proxies_config \<Rightarrow> proxy_view \<Rightarrow> proxy_liquidity_args \<Rightarrow> unit res" where
  "liquidityTokensValidationPipe P X args =
     (case plTokens args of
        t0 # t1 # rest \<Rightarrow>
          if 0 < nonce t0 \<and> 0 < nonce t1 then Inl (JsError ''invalid tokens'')
          else (case map_of P ''v2'' of
            None \<Rightarrow> Inl TypeError
          | Some v2 \<Rightarrow>
              if plPairAddress args \<notin> set (pxIntermediatedPairs X v2) then Inl (JsError ''Not an intermediated pair'')
              else if \<exists>t\<in>set rest. tokenID t \<noteq> pxWrappedLpTokenID X v2 \<or> nonce t < 1
                then Inl (JsError ''invalid wrapped lp tokens'') else Inr ())
      | _ \<Rightarrow> Inl (JsError ''invalid number of tokens''))"

definition enterFarmProxyValidationPipe ::
  "proxies_config \<Rightarrow> proxy_view \<Rightarrow> enter_farm_args \<Rightarrow> unit res" where
  "enterFarmProxyValidationPipe P X args =
     (case efTokens args of
        [] \<Rightarrow> Inl TypeError
      | t0 # rest \<Rightarrow>
          if nonce t0 < 1 then Inl (JsError ''invalid meta esdt token'')
          else res_bind (getProxyAddressByToken P X (Some (tokenID t0))) (\<lambda>proxyAddress.
            if \<exists>t\<in>set rest. tokenID t \<noteq> pxWrappedFarmTokenID X proxyAddress \<or> nonce t < 1
            then Inl (JsError ''invalid wrapped farm token for merge'') else Inr ()))"

fun sameProxy :: "proxies_config \<Rightarrow> proxy_view \<Rightarrow> string \<Rightarrow> input_token list \<Rightarrow> unit res" where
  "sameProxy P X proxyAddress [] = Inr ()"
| "sameProxy P X proxyAddress (t # ts) =
     res_bind (getProxyAddressByToken P X (Some (tokenID t))) (\<lambda>a.
       if a \<noteq> proxyAddress then Inl (JsError ''merge tokens not the same'') else sameProxy P X proxyAddress ts)"

definition mergeWrappedTokenValidationPipe ::
  "proxies_config \<Rightarrow> proxy_view \<Rightarrow> input_token list \<Rightarrow> unit res" where
  "mergeWrappedTokenValidationPipe P X value =
     (case value of
        [] \<Rightarrow> Inl TypeError
      | t0 # rest \<Rightarrow>
          res_bind (getProxyAddressByToken P X (Some (tokenID t0))) (\<lambda>a. sameProxy P X a value))"

text \<open>
  The pipe of the wrapped farm tokens reads \<open>wrappedFarmTokenID\<close> and \<open>wrappedFarmTokenNonce\<close>. The arguments of the
  compounding name theirs \<open>tokenID\<close> and \<open>tokenNonce\<close>, so there both are \<open>undefined\<close>, written \<open>None\<close>.
\<close>

definition wrappedFarmValidationPipe ::
  "proxies_config \<Rightarrow> proxy_view \<Rightarrow> string option \<Rightarrow> int option \<Rightarrow> string \<Rightarrow> unit res" where
  "wrappedFarmValidationPipe P X tid tokenNonce' farm =
     (if (case tokenNonce' of None \<Rightarrow> False | Some n \<Rightarrow> n < 1) then Inl (JsError ''invalid meta esdt token'')
      else res_bind (getProxyAddressByToken P X tid) (\<lambda>proxyAddress.
        if farm \<notin> set (pxIntermediatedFarms X proxyAddress) then Inl (JsError ''not an intermediated farm'')
        else Inr ()))"

definition wrappedLpValidationPipe :: "proxies_config \<Rightarrow> proxy_view \<Rightarrow> remove_proxy_args \<Rightarrow> unit res" where
  "wrappedLpValidationPipe P X args =
     (if rpWrappedLpTokenNonce args < 1 then Inl (JsError ''invalid meta esdt token'')
      else res_bind (getProxyAddressByToken P X (Some (rpWrappedLpTokenID args))) (\<lambda>proxyAddress.
        if rpPairAddress args \<notin> set (pxIntermediatedPairs X proxyAddress) then Inl (JsError ''not an intermediated pair'')
        else Inr ()))"

section \<open>Queries\<close>

datatype proxy_query =
    AddLiquidityBatchP proxy_liquidity_args
  | AddLiquidityP proxy_liquidity_args
  | RemoveLiquidityP remove_proxy_args
  | EnterFarmP enter_farm_args
  | ExitFarmP exit_farm_args
  | ClaimRewardsP sft_farm_args
  | MergeLpP "input_token list"
  | MergeFarmP string "input_token list"
  | CompoundP sft_farm_args
  | MigrateP exit_farm_args

text \<open>\<open>scAddress.proxyDexAddress.v2\<close>.\<close>

definition proxyV2 :: "proxies_config \<Rightarrow> string res" where
  "proxyV2 P = (case map_of P ''v2'' of None \<Rightarrow> Inl TypeError | Some a \<Rightarrow> Inr a)"

definition firstInputProxy :: "proxies_config \<Rightarrow> proxy_view \<Rightarrow> input_token list \<Rightarrow> string res" where
  "firstInputProxy P X tokens =
     (case tokens of [] \<Rightarrow> Inl TypeError | t # _ \<Rightarrow> getProxyAddressByToken P X (Some (tokenID t)))"

definition single :: "transaction res \<Rightarrow> transaction list res" where
  "single r = res_bind r (\<lambda>t. Inr [t])"

text \<open>The queries on a wrapped farm token: its proxy gets the call.\<close>

definition onWrappedFarm ::
  "proxies_config \<Rightarrow> proxy_view \<Rightarrow> ('a) sft_farm_args_scheme \<Rightarrow> (string \<Rightarrow> transaction res) \<Rightarrow> transaction list res" where
  "onWrappedFarm P X args f =
     res_bind (wrappedFarmValidationPipe P X (Some (sfFarmTokenID args)) (Some (sfFarmTokenNonce args)) (sfFarmAddress args))
       (\<lambda>_. res_bind (getProxyAddressByToken P X (Some (sfFarmTokenID args))) (\<lambda>a. single (f a)))"

fun proxy_resolver ::
  "bignumber \<Rightarrow> dex_config \<Rightarrow> farms_config \<Rightarrow> proxies_config \<Rightarrow> chain_view \<Rightarrow> farm_view \<Rightarrow> proxy_view \<Rightarrow> string
    \<Rightarrow> proxy_query \<Rightarrow> transaction list res" where
  "proxy_resolver B cfg table P V F X user (AddLiquidityBatchP args) =
     res_bind (liquidityTokensValidationPipe P X args) (\<lambda>_.
     res_bind (proxyV2 P) (\<lambda>a. addLiquidityProxyBatch B cfg P V X user a args))"
| "proxy_resolver B cfg table P V F X user (AddLiquidityP args) =
     res_bind (liquidityTokensValidationPipe P X args) (\<lambda>_.
     res_bind (proxyV2 P) (\<lambda>a. single (addLiquidityProxy B cfg P V X user a args)))"
| "proxy_resolver B cfg table P V F X user (RemoveLiquidityP args) =
     res_bind (wrappedLpValidationPipe P X args) (\<lambda>_.
     res_bind (getProxyAddressByToken P X (Some (rpWrappedLpTokenID args))) (\<lambda>a.
       removeLiquidityProxy B cfg P V user a args))"
| "proxy_resolver B cfg table P V F X user (EnterFarmP args) =
     res_bind (enterFarmProxyValidationPipe P X args) (\<lambda>_.
     res_bind (proxyV2 P) (\<lambda>a. single (enterFarmProxy cfg table P user a args)))"
| "proxy_resolver B cfg table P V F X user (ExitFarmP args) =
     onWrappedFarm P X args (\<lambda>a. exitFarmProxy cfg table P V F user a args)"
| "proxy_resolver B cfg table P V F X user (ClaimRewardsP args) =
     onWrappedFarm P X args (\<lambda>a. claimFarmRewardsProxy cfg table P user a args)"
| "proxy_resolver B cfg table P V F X user (MergeLpP tokens) =
     res_bind (mergeWrappedTokenValidationPipe P X tokens) (\<lambda>_.
     res_bind (firstInputProxy P X tokens) (\<lambda>a. single (mergeWrappedLPTokens cfg P user a tokens)))"
| "proxy_resolver B cfg table P V F X user (MergeFarmP farm tokens) =
     res_bind (mergeWrappedTokenValidationPipe P X tokens) (\<lambda>_.
     res_bind (firstInputProxy P X tokens) (\<lambda>a. single (mergeWrappedFarmTokens cfg P user a farm tokens)))"
| "proxy_resolver B cfg table P V F X user (CompoundP args) =
     res_bind (wrappedFarmValidationPipe P X None None (sfFarmAddress args)) (\<lambda>_.
     res_bind (getProxyAddressByToken P X (Some (sfFarmTokenID args))) (\<lambda>a.
       single (compoundRewardsProxy cfg table P user a args)))"
| "proxy_resolver B cfg table P V F X user (MigrateP args) =
     onWrappedFarm P X args (\<lambda>a. migrateToNewFarmProxy cfg table P user a args)"

section \<open>The transaction of a query\<close>

lemma proxyBuild_Inr:
  "proxyBuild P t = Inr t' \<longleftrightarrow>
   t' = t \<and> (\<exists>abi. proxyAbi P (receiver t) = Some abi \<and> map_of abi (endpoint t) \<noteq> None)"
  by (auto simp: proxyBuild_def build_Inr split: option.splits)

lemma proxyDexAbi_endpoints:
  "map_of proxyDexAbi ''addLiquidityProxy'' = Some ([One AddressK, One NumberK, One NumberK], True)"
  "map_of proxyDexAbi ''removeLiquidityProxy'' = Some ([One AddressK, One NumberK, One NumberK], True)"
  "map_of proxyDexAbi ''enterFarmProxy'' = Some ([One AddressK], True)"
  "map_of proxyDexAbi ''exitFarmProxy'' = Some ([One AddressK], True)"
  "map_of proxyDexAbi ''claimRewardsProxy'' = Some ([One AddressK], True)"
  "map_of proxyDexAbi ''compoundRewardsProxy'' = Some ([One AddressK], True)"
  "map_of proxyDexAbi ''mergeWrappedFarmTokens'' = Some ([One AddressK, Optional [BytesK]], True)"
  "map_of proxyDexAbi ''mergeWrappedLpTokens'' = Some ([Optional [BytesK]], True)"
  "map_of proxyDexAbi ''migrateV1_2Position'' = Some ([One AddressK], True)"
  "map_of proxyDexAbi ''enterFarmAndLockRewardsProxy'' = None"
  by (simp_all add: proxyDexAbi_def)

lemma proxyDexV2Abi_endpoints:
  "map_of proxyDexV2Abi ''addLiquidityProxy'' = Some ([One AddressK, One NumberK, One NumberK], True)"
  "map_of proxyDexV2Abi ''removeLiquidityProxy'' = Some ([One AddressK, One NumberK, One NumberK], True)"
  "map_of proxyDexV2Abi ''enterFarmProxy'' = Some ([One AddressK], True)"
  "map_of proxyDexV2Abi ''exitFarmProxy'' = Some ([One NumberK, One AddressK], True)"
  "map_of proxyDexV2Abi ''claimRewardsProxy'' = Some ([One AddressK], True)"
  "map_of proxyDexV2Abi ''compoundRewardsProxy'' = Some ([One AddressK], True)"
  "map_of proxyDexV2Abi ''mergeWrappedFarmTokens'' = Some ([One AddressK], True)"
  "map_of proxyDexV2Abi ''mergeWrappedLpTokens'' = Some ([], True)"
  "map_of proxyDexV2Abi ''migrateV1_2Position'' = None"
  "map_of proxyDexV2Abi ''enterFarmAndLockRewardsProxy'' = None"
  by (simp_all add: proxyDexV2Abi_def)

text \<open>A call the interface of its proxy takes, but for the exit of a farm through version 2.\<close>

definition typed_proxy_call :: "proxies_config \<Rightarrow> transaction \<Rightarrow> bool" where
  "typed_proxy_call P t \<longleftrightarrow>
     (\<exists>abi. proxyAbi P (receiver t) = Some abi \<and>
        (fits abi t \<longleftrightarrow> endpoint t \<noteq> ''exitFarmProxy'' \<or> proxyVersion P (receiver t) \<noteq> Some ''v2''))"

lemma proxyAbi_Some:
  "proxyAbi P a = Some abi \<longleftrightarrow>
   proxyVersion P a = Some ''v1'' \<and> abi = proxyDexAbi \<or> proxyVersion P a = Some ''v2'' \<and> abi = proxyDexV2Abi"
  by (auto simp: proxyAbi_def)

text \<open>The calls a proxy service builds, by endpoint and arguments.\<close>

definition proxy_call_args :: "proxies_config \<Rightarrow> string \<Rightarrow> string \<Rightarrow> typed_value list \<Rightarrow> bool" where
  "proxy_call_args P a f vs \<longleftrightarrow>
     (f \<in> {''addLiquidityProxy'', ''removeLiquidityProxy''} \<and> map kindOf vs = [AddressK, NumberK, NumberK]) \<or>
     (f \<in> {''enterFarmProxy'', ''enterFarmAndLockRewardsProxy'', ''claimRewardsProxy'', ''compoundRewardsProxy'',
        ''mergeWrappedFarmTokens'', ''migrateV1_2Position''} \<and> map kindOf vs = [AddressK]) \<or>
     (f = ''mergeWrappedLpTokens'' \<and> vs = []) \<or>
     (f = ''exitFarmProxy'' \<and>
        map kindOf vs = (if proxyVersion P a = Some ''v2'' then [AddressK, NumberK] else [AddressK]))"

lemma proxyBuild_typed:
  assumes "proxyBuild P (sender_call cfg sender a f vs pays gasL) = Inr t" "proxy_call_args P a f vs"
  shows "typed_proxy_call P t \<and> withSender t = Some sender \<and> payments t = pays \<and> receiver t = a"
proof -
  obtain abi where t: "t = sender_call cfg sender a f vs pays gasL" "proxyAbi P a = Some abi" "map_of abi f \<noteq> None"
    using assms(1) by (auto simp: proxyBuild_Inr)
  have "fits abi t \<longleftrightarrow> f \<noteq> ''exitFarmProxy'' \<or> proxyVersion P a \<noteq> Some ''v2''"
    using assms(2) t unfolding proxy_call_args_def proxyAbi_Some
    by (elim disjE conjE insertE) (simp_all add: fits_def proxyDexAbi_endpoints proxyDexV2Abi_endpoints)
  then show ?thesis using t by (auto simp: typed_proxy_call_def)
qed

lemma wrappedFarmCall_typed:
  assumes "wrappedFarmCall cfg P sender a f moreArgs args gasL = Inr t"
    and "proxy_call_args P a f (BytesHexAddress (sfFarmAddress args) # moreArgs)"
  shows "typed_proxy_call P t \<and> withSender t = Some sender \<and> map payAmount (payments t) = [sfAmount args] \<and> receiver t = a"
  using proxyBuild_typed [OF assms(1) [unfolded wrappedFarmCall_def] assms(2)] by (simp add: meta_esdt_def)

lemma amounts_pay_input [simp]:
  "map payAmount (map pay_input ts) = map amount ts"
  "image_mset payAmount (image_mset pay_input A) = image_mset amount A"
  by (simp_all add: pay_input_def meta_esdt_def multiset.map_comp comp_def)

lemma convert_amounts:
  "convertInputTokenstoESDTTokens cfg V ts = Inr us \<Longrightarrow> map amount us = map amount ts \<and> drop 2 us = drop 2 ts"
  by (cases "(cfg, V, ts)" rule: convertInputTokenstoESDTTokens.cases)
    (auto simp: wrappedProxyInput_def split: if_splits list.splits)

lemma getLiquidityTokens_Inr:
  assumes "getLiquidityTokens V X pair ts a = Inr us"
  obtains u0 u1 rest where "us = u0 # u1 # rest" "mset us = mset ts" "rest = drop 2 ts"
    "tokenID u0 = firstTokenID V pair" "nonce u0 \<le> 0" "tokenID u1 \<in> set (pxLockedTokenIDs X a)" "1 \<le> nonce u1"
  using assms by (cases "(V, X, pair, ts, a)" rule: getLiquidityTokens.cases) (auto split: if_splits)

text \<open>The amounts a query spends through the proxy.\<close>

fun proxyAmounts :: "proxy_query \<Rightarrow> bn list" where
  "proxyAmounts (AddLiquidityBatchP args) = map amount (plTokens args)"
| "proxyAmounts (AddLiquidityP args) = map amount (plTokens args)"
| "proxyAmounts (RemoveLiquidityP args) = [rpLiquidity args]"
| "proxyAmounts (EnterFarmP args) = map amount (efTokens args)"
| "proxyAmounts (ExitFarmP args) = [sfAmount args]"
| "proxyAmounts (ClaimRewardsP args) = [sfAmount args]"
| "proxyAmounts (MergeLpP tokens) = map amount tokens"
| "proxyAmounts (MergeFarmP farm tokens) = map amount tokens"
| "proxyAmounts (CompoundP args) = [sfAmount args]"
| "proxyAmounts (MigrateP args) = [sfAmount args]"

definition proxy_call :: "proxies_config \<Rightarrow> string \<Rightarrow> bn list \<Rightarrow> transaction \<Rightarrow> bool" where
  "proxy_call P user amounts t \<longleftrightarrow>
     typed_proxy_call P t \<and> withSender t = Some user \<and> mset (map payAmount (payments t)) = mset amounts"

lemma addLiquidityProxy_call:
  assumes "addLiquidityProxy B cfg P V X user a args = Inr t"
  shows "proxy_call P user (map amount (plTokens args)) t"
proof -
  obtain ts us where us: "convertInputTokenstoESDTTokens cfg V (plTokens args) = Inr ts"
    "getLiquidityTokens V X (plPairAddress args) ts a = Inr us"
    using assms by (auto simp: addLiquidityProxy_def split: sum.splits)
  obtain u0 u1 rest where rest: "us = u0 # u1 # rest" "mset us = mset ts" using getLiquidityTokens_Inr [OF us(2)] by metis
  have "mset (map amount us) = mset (map amount (plTokens args))"
    using convert_amounts [OF us(1)] rest(2) by (metis mset_map)
  moreover have "\<exists>vs gasL. proxyBuild P (sender_call cfg user a ''addLiquidityProxy'' vs (map pay_input us) gasL) = Inr t \<and>
      proxy_call_args P a ''addLiquidityProxy'' vs"
    using assms us(2) unfolding addLiquidityProxy_def us(1) rest(1)
    by (intro exI conjI, simp, simp add: proxy_call_args_def)
  ultimately show ?thesis using proxyBuild_typed by (fastforce simp: proxy_call_def)
qed

lemma removeLiquidityProxy_calls:
  assumes "removeLiquidityProxy B cfg P V user a args = Inr txs"
  shows "\<exists>t post. txs = t # post \<and> proxy_call P user [rpLiquidity args] t \<and> (\<forall>w\<in>set post. endpoint w = ''unwrapEgld'')"
proof -
  let ?pair = "rpPairAddress args"
  obtain t post m0 m1 gasL where t: "txs = t # post" "\<forall>w\<in>set post. endpoint w = ''unwrapEgld''"
    "proxyBuild P (sender_call cfg user a ''removeLiquidityProxy'' [BytesHexAddress ?pair, BigUInt m0, BigUInt m1]
       [meta_esdt (rpWrappedLpTokenID args) (rpWrappedLpTokenNonce args) (rpLiquidity args)] gasL) = Inr t"
    using assms by (fastforce simp: removeLiquidityProxy_def unwrapEgld_def Let_def split: if_splits sum.splits)
  then show ?thesis using proxyBuild_typed [OF t(3)] by (simp add: proxy_call_def proxy_call_args_def meta_esdt_def)
qed

lemma single_Inr [simp]: "single r = Inr txs \<longleftrightarrow> (\<exists>t. r = Inr t \<and> txs = [t])"
  by (cases r) (auto simp: single_def)

lemma enterFarmProxy_call:
  "enterFarmProxy cfg table P user a args = Inr t \<Longrightarrow> proxy_call P user (map amount (efTokens args)) t"
  by (auto simp: enterFarmProxy_def proxy_call_def proxy_call_args_def Let_def dest!: proxyBuild_typed
      simp del: map_map split: if_splits)

lemma exitFarmProxy_call:
  "exitFarmProxy cfg table P V F user a args = Inr t \<Longrightarrow> proxy_call P user [sfAmount args] t"
  by (auto simp: exitFarmProxy_def proxy_call_def proxy_call_args_def Let_def dest!: wrappedFarmCall_typed
      split: if_splits)

lemma farm_position_calls:
  "claimFarmRewardsProxy cfg table P user a cargs = Inr t \<Longrightarrow> proxy_call P user [sfAmount cargs] t"
  "compoundRewardsProxy cfg table P user a cargs = Inr t \<Longrightarrow> proxy_call P user [sfAmount cargs] t"
  "migrateToNewFarmProxy cfg table P user a args = Inr t \<Longrightarrow> proxy_call P user [sfAmount args] t"
  by (auto simp: claimFarmRewardsProxy_def compoundRewardsProxy_def migrateToNewFarmProxy_def proxy_call_def
      proxy_call_args_def dest!: wrappedFarmCall_typed)

lemma merge_calls:
  "mergeWrappedLPTokens cfg P user a tokens = Inr t \<Longrightarrow> proxy_call P user (map amount tokens) t"
  "mergeWrappedFarmTokens cfg P user a farm tokens = Inr t \<Longrightarrow> proxy_call P user (map amount tokens) t"
  by (auto simp: mergeWrappedLPTokens_def mergeWrappedFarmTokens_def proxy_call_def
      proxy_call_args_def simp del: map_map dest!: proxyBuild_typed split: if_splits)

lemma wrapProxyInput_endpoint: "wrapProxyInput cfg V sender ts = Inr w \<Longrightarrow> endpoint w = ''wrapEgld''"
  by (cases ts) (auto simp: wrapEgld_def split: if_splits list.splits)

lemma proxy_query_calls:
  assumes "proxy_resolver B cfg table P V F X user q = Inr txs"
  shows "\<exists>pre t post. txs = pre @ t # post \<and> proxy_call P user (proxyAmounts q) t \<and>
    (\<forall>w\<in>set pre. endpoint w = ''wrapEgld'') \<and> (\<forall>w\<in>set post. endpoint w = ''unwrapEgld'')"
proof (cases q)
  case (AddLiquidityBatchP args)
  then obtain a where "addLiquidityProxyBatch B cfg P V X user a args = Inr txs" using assms by auto
  then obtain w t where w: "wrapProxyInput cfg V user (plTokens args) = Inr w"
    and t: "addLiquidityProxy B cfg P V X user a args = Inr t" and txs: "txs = [w, t]"
    by (auto simp: addLiquidityProxyBatch_def)
  show ?thesis
    using wrapProxyInput_endpoint [OF w] addLiquidityProxy_call [OF t] AddLiquidityBatchP
    by (intro exI [of _ "[w]"] exI [of _ t] exI [of _ "[]"]) (simp add: txs)
next
  case (AddLiquidityP args)
  then obtain a t where t: "addLiquidityProxy B cfg P V X user a args = Inr t" and txs: "txs = [t]"
    using assms by auto
  show ?thesis
    using addLiquidityProxy_call [OF t] AddLiquidityP
    by (intro exI [of _ "[]"] exI [of _ t]) (simp add: txs)
next
  case (RemoveLiquidityP args)
  then obtain a where "removeLiquidityProxy B cfg P V user a args = Inr txs" using assms by auto
  from removeLiquidityProxy_calls [OF this] show ?thesis
    using RemoveLiquidityP by (intro exI [of _ "[]"]) simp
qed (use assms in \<open>auto simp: onWrappedFarm_def intro!: exI [of _ "[]"] dest!: enterFarmProxy_call exitFarmProxy_call
       farm_position_calls merge_calls\<close>)

text \<open>
  C31. Every query on locked positions that is served hands the user one call to a configured proxy,
  signed by the user and spending exactly the amounts of the query, with at most a wrap before it and an
  unwrap after it. The interface of the proxy's version takes the call, except for the exit of a farm through
  version 2, whose two arguments are in the wrong order.
\<close>

theorem proxy_transactions_typed:
  assumes "proxy_resolver B cfg table P V F X user q = Inr txs"
  shows "\<exists>pre t post abi. txs = pre @ t # post \<and>
    (\<forall>w\<in>set pre. endpoint w = ''wrapEgld'') \<and> (\<forall>w\<in>set post. endpoint w = ''unwrapEgld'') \<and>
    withSender t = Some user \<and> mset (map payAmount (payments t)) = mset (proxyAmounts q) \<and>
    proxyAbi P (receiver t) = Some abi \<and>
    (fits abi t \<longleftrightarrow> endpoint t \<noteq> ''exitFarmProxy'' \<or> proxyVersion P (receiver t) \<noteq> Some ''v2'')"
proof -
  obtain pre t post where "txs = pre @ t # post" "proxy_call P user (proxyAmounts q) t"
    "\<forall>w\<in>set pre. endpoint w = ''wrapEgld''" "\<forall>w\<in>set post. endpoint w = ''unwrapEgld''"
    using proxy_query_calls [OF assms] by blast
  then show ?thesis unfolding proxy_call_def typed_proxy_call_def by blast
qed

text \<open>
  C32. Liquidity added through the proxy goes to an intermediated pair of version 2: the pair's first token
  comes first, without a nonce, then a locked token with one, then wrapped positions to merge; each
  minimum lies between zero and the amount paid.
\<close>

theorem proxy_liquidity_in_pair_order:
  assumes "bignumber_lib B" "proxy_resolver B cfg table P V F X user (AddLiquidityP args) = Inr txs"
    and "0 \<le> plTolerance args" "plTolerance args \<le> 1"
    and "\<forall>t\<in>set (plTokens args). \<exists>n. 0 \<le> n \<and> amount t = bn_of_int n"
  shows "\<exists>t u0 u1 rest n0 n1 m0 m1. txs = [t] \<and> map_of P ''v2'' = Some (receiver t) \<and>
    plPairAddress args \<in> set (pxIntermediatedPairs X (receiver t)) \<and>
    payments t = map pay_input (u0 # u1 # rest) \<and>
    tokenID u0 = firstTokenID V (plPairAddress args) \<and> nonce u0 \<le> 0 \<and>
    tokenID u1 \<in> set (pxLockedTokenIDs X (receiver t)) \<and> 1 \<le> nonce u1 \<and>
    (\<forall>u\<in>set rest. tokenID u = pxWrappedLpTokenID X (receiver t) \<and> 1 \<le> nonce u) \<and>
    endpointArgs t = [BytesHexAddress (plPairAddress args), BigUInt (bn_of_int m0), BigUInt (bn_of_int m1)] \<and>
    amount u0 = bn_of_int n0 \<and> amount u1 = bn_of_int n1 \<and> 0 \<le> m0 \<and> m0 \<le> n0 \<and> 0 \<le> m1 \<and> m1 \<le> n1"
proof -
  obtain a t where a: "liquidityTokensValidationPipe P X args = Inr ()" "map_of P ''v2'' = Some a"
    and t: "addLiquidityProxy B cfg P V X user a args = Inr t" "txs = [t]"
    using assms(2) by (auto simp: proxyV2_def split: option.splits)
  have pipe: "plPairAddress args \<in> set (pxIntermediatedPairs X a)"
    "\<forall>u\<in>set (drop 2 (plTokens args)). tokenID u = pxWrappedLpTokenID X a \<and> 1 \<le> nonce u"
    using a by (auto simp: liquidityTokensValidationPipe_def split: list.splits if_splits)
  obtain ts us where us: "convertInputTokenstoESDTTokens cfg V (plTokens args) = Inr ts"
    "getLiquidityTokens V X (plPairAddress args) ts a = Inr us"
    using t(1) by (auto simp: addLiquidityProxy_def)
  obtain u0 u1 rest where u: "us = u0 # u1 # rest" "mset us = mset ts" "rest = drop 2 ts"
    "tokenID u0 = firstTokenID V (plPairAddress args)" "nonce u0 \<le> 0" "tokenID u1 \<in> set (pxLockedTokenIDs X a)"
    "1 \<le> nonce u1"
    using getLiquidityTokens_Inr [OF us(2)] .
  have "mset (map amount us) = mset (map amount (plTokens args))"
    using convert_amounts [OF us(1)] u(2) by (metis mset_map)
  then have "amount ` set us = amount ` set (plTokens args)"
    by (metis set_map set_mset_mset)
  then have "\<forall>u\<in>set us. \<exists>n. 0 \<le> n \<and> amount u = bn_of_int n"
    using assms(5) by (metis (mono_tags, lifting) image_iff)
  then obtain n0 n1 where n: "0 \<le> n0" "amount u0 = bn_of_int n0" "0 \<le> n1" "amount u1 = bn_of_int n1"
    unfolding u(1) by auto
  obtain m0 where m0: "minAmount B (bn_of_int n0) (plTolerance args) = bn_of_int m0" "0 \<le> m0" "m0 \<le> n0"
    using bignumber_lib.minAmount_bounds [OF assms(1,3,4) n(1)] .
  obtain m1 where m1: "minAmount B (bn_of_int n1) (plTolerance args) = bn_of_int m1" "0 \<le> m1" "m1 \<le> n1"
    using bignumber_lib.minAmount_bounds [OF assms(1,3,4) n(3)] .
  have "receiver t = a \<and> payments t = map pay_input us \<and> endpointArgs t =
      [BytesHexAddress (plPairAddress args), BigUInt (bn_of_int m0), BigUInt (bn_of_int m1)]"
    using t(1) us u(1) m0(1) m1(1) n by (auto simp: addLiquidityProxy_def proxyBuild_Inr)
  moreover have "rest = drop 2 (plTokens args)" using convert_amounts [OF us(1)] u(3) by simp
  ultimately show ?thesis
    using t(2) a(2) pipe u(1,4,5,6,7) n(2,4) m0(2,3) m1(2,3)
    by (intro exI [of _ t] exI [of _ u0] exI [of _ u1] exI [of _ rest] exI [of _ n0] exI [of _ n1] exI [of _ m0]
        exI [of _ m1]) simp
qed

section \<open>What the pipes refuse and let through\<close>

text \<open>
  Compounding through the proxy is never served: its pipe looks for a field its arguments do not have.
\<close>

lemma compound_never_served:
  "\<exists>e. proxy_resolver B cfg table P V F X user (CompoundP args) = Inl e"
proof -
  have "\<exists>e. getProxyAddressByToken P X None = Inl e"
    by (cases "map_of P ''v1''"; cases "map_of P ''v2''") (auto simp: getProxyAddressByToken_def proxyKnows_def)
  then show ?thesis by (auto simp: wrappedFarmValidationPipe_def)
qed

text \<open>No interface has the endpoint that enters a farm with locked rewards.\<close>

lemma enter_locked_never_served:
  "farmVersion table (efFarmAddress args) = Some V1_2 \<Longrightarrow> efLockRewards args \<Longrightarrow>
   \<exists>e. enterFarmProxy cfg table P user a args = Inl e"
proof -
  assume *: "farmVersion table (efFarmAddress args) = Some V1_2" "efLockRewards args"
  have "enterFarmProxy cfg table P user a args \<noteq> Inr t" for t
    using * by (auto simp: enterFarmProxy_def proxyBuild_Inr proxyAbi_Some proxyDexAbi_endpoints proxyDexV2Abi_endpoints)
  then show ?thesis by (cases "enterFarmProxy cfg table P user a args") auto
qed

text \<open>The guards of the merges refuse no number of tokens.\<close>

lemma merge_guards_idle:
  "\<not> exceedsMaxGas gasConfig_defaultMergeWLPT n" "\<not> exceedsMaxGas gasConfig_defaultMergeWFMT n"
  by (simp_all add: exceedsMaxGas_def gasConfig_defaultMergeWLPT_def gasConfig_defaultMergeWFMT_def)

section \<open>Witnesses\<close>

definition demo_proxies :: proxies_config where
  "demo_proxies = [(''v1'', ''proxy1''), (''v2'', ''proxy2'')]"

definition demo_proxy_view :: proxy_view where
  "demo_proxy_view = \<lparr>pxLockedTokenIDs = \<lambda>a. if a = ''proxy1'' then [''LKMEX''] else [''XMEX''],
     pxWrappedLpTokenID = \<lambda>a. if a = ''proxy1'' then ''WLP1'' else ''WLP2'',
     pxWrappedFarmTokenID = \<lambda>a. if a = ''proxy1'' then ''WFM1'' else ''WFM2'',
     pxIntermediatedPairs = \<lambda>_. [''pair''], pxIntermediatedFarms = \<lambda>_. [''farm'']\<rparr>"

definition demo_proxy_liquidity :: proxy_liquidity_args where
  "demo_proxy_liquidity = \<lparr>plPairAddress = ''pair'',
     plTokens = [\<lparr>tokenID = ''XMEX'', nonce = 3, amount = bn_of_int 400\<rparr>,
       \<lparr>tokenID = EGLDIdentifier demo_cfg, nonce = 0, amount = bn_of_int 100\<rparr>], plTolerance = 0\<rparr>"

lemma demo_proxy_served:
  "\<exists>t. proxy_resolver bn_js demo_cfg [] demo_proxies demo_view demo_farm demo_proxy_view ''alice''
      (AddLiquidityP demo_proxy_liquidity) = Inr [t] \<and>
    receiver t = ''proxy2'' \<and> endpoint t = ''addLiquidityProxy''"
  by (simp add: demo_proxies_def demo_proxy_view_def demo_proxy_liquidity_def liquidityTokensValidationPipe_def
      proxyV2_def addLiquidityProxy_def demo_cfg_def demo_view_def wrappedProxyInput_def proxyBuild_def proxyAbi_def
      build_def proxyDexV2Abi_endpoints)

theorem proxy_transactions_typed_witness:
  "\<exists>t. proxy_resolver bn_js demo_cfg [] demo_proxies demo_view demo_farm demo_proxy_view ''alice''
      (AddLiquidityP demo_proxy_liquidity) = Inr [t] \<and> withSender t = Some ''alice'' \<and> fits proxyDexV2Abi t"
proof -
  obtain t where t: "proxy_resolver bn_js demo_cfg [] demo_proxies demo_view demo_farm demo_proxy_view ''alice''
      (AddLiquidityP demo_proxy_liquidity) = Inr [t]" "receiver t = ''proxy2''" "endpoint t = ''addLiquidityProxy''"
    using demo_proxy_served by blast
  have "proxyAbi demo_proxies ''proxy2'' = Some proxyDexV2Abi" by (simp add: proxyAbi_def demo_proxies_def)
  then show ?thesis using proxy_transactions_typed [OF t(1)] t by (auto simp: Cons_eq_append_conv)
qed

theorem proxy_liquidity_in_pair_order_witness:
  "\<exists>t u0 u1. proxy_resolver bn_js demo_cfg [] demo_proxies demo_view demo_farm demo_proxy_view ''alice''
      (AddLiquidityP demo_proxy_liquidity) = Inr [t] \<and> payments t = map pay_input [u0, u1] \<and>
    tokenID u0 = ''WEGLD'' \<and> tokenID u1 = ''XMEX''"
proof -
  obtain t where t: "proxy_resolver bn_js demo_cfg [] demo_proxies demo_view demo_farm demo_proxy_view ''alice''
      (AddLiquidityP demo_proxy_liquidity) = Inr [t]" "receiver t = ''proxy2''" "endpoint t = ''addLiquidityProxy''"
    using demo_proxy_served by blast
  have "mset (map payAmount (payments t)) = mset (map amount (plTokens demo_proxy_liquidity))"
    using proxy_query_calls [OF t(1)] by (auto simp: Cons_eq_append_conv proxy_call_def)
  then have "length (payments t) = length (plTokens demo_proxy_liquidity)" by (metis length_map mset_eq_length)
  then have len: "length (payments t) = 2" by (simp add: demo_proxy_liquidity_def)
  have h: "0 \<le> plTolerance demo_proxy_liquidity" "plTolerance demo_proxy_liquidity \<le> 1"
    "\<forall>u\<in>set (plTokens demo_proxy_liquidity). \<exists>n. 0 \<le> n \<and> amount u = bn_of_int n"
    by (auto simp: demo_proxy_liquidity_def intro: exI [of _ 400] exI [of _ 100])
  obtain u0 u1 rest where u: "payments t = map pay_input (u0 # u1 # rest)"
    "tokenID u0 = firstTokenID demo_view (plPairAddress demo_proxy_liquidity)"
    "tokenID u1 \<in> set (pxLockedTokenIDs demo_proxy_view (receiver t))"
    using proxy_liquidity_in_pair_order [OF js.bignumber_lib_axioms t(1) h] by fastforce
  then have "rest = []" "tokenID u0 = ''WEGLD''" "tokenID u1 = ''XMEX''"
    using len t(2) by (auto simp: demo_view_def demo_proxy_view_def)
  then show ?thesis using t(1) u(1) by blast
qed

text \<open>
  Positions of version 1 pass the pipe of the farm entry, and the call goes to the proxy of version 2.
\<close>

lemma version_1_enters_through_version_2:
  "\<exists>t. proxy_resolver bn_js demo_cfg [(''v2'', Addresses [''farm''])] demo_proxies demo_view demo_farm demo_proxy_view ''alice''
      (EnterFarmP \<lparr>efFarmAddress = ''farm'', efTokens = [\<lparr>tokenID = ''WLP1'', nonce = 1, amount = bn_of_int 5\<rparr>],
        efLockRewards = False\<rparr>) = Inr [t] \<and>
     getProxyAddressByToken demo_proxies demo_proxy_view (Some ''WLP1'') = Inr ''proxy1'' \<and> receiver t = ''proxy2''"
  by (simp add: demo_proxies_def demo_proxy_view_def enterFarmProxyValidationPipe_def getProxyAddressByToken_def
      proxyKnows_def proxyV2_def enterFarmProxy_def proxyFarmGas_def toVersionEnum_def proxyBuild_def proxyAbi_def
      build_def proxyDexV2Abi_endpoints)

end
