(* ===== verification/ContractCache.thy ===== *)
theory ContractCache
  imports DexModels
begin

text \<open>
  The cache in front of the readers and the writers of its entries
  (\<open>src/helpers/decorators/caching.decorator.ts\<close>, \<open>src/services/generics/generic.setter.service.ts\<close>,
  \<open>src/utils/generate-cache-key.ts\<close>, \<open>src/services/caching/cache.ttl.info.ts\<close>): keys, lifetimes, the
  decorator \<open>GetOrSetCache\<close> and \<open>setData\<close>. The cache itself is \<open>CacheService\<close> of
  \<open>@multiversx/sdk-nestjs-cache\<close>, not part of the repository: its operations are an argument of the definitions
  (\<open>cache_service\<close>) and the locale \<open>cache_lib\<close> states what the code relies on. Expired entries are
  absent from the state an operation starts from.
\<close>

section \<open>Values and keys\<close>

text \<open>
  What is cached: JSON values. An amount kept as a string of digits is \<open>JAmount\<close> (as in \<open>BigNumber\<close>), an object of the
  library \<open>JBig\<close>.
\<close>

datatype jval =
    JUndefined
  | JNull
  | JText string
  | JAmount bn
  | JBig bn
  | JNumber jsnum
  | JBool bool
  | JList "jval list"
  | JObject "(string \<times> jval) list"

fun digits :: "nat \<Rightarrow> string" where
  "digits n = (if n < 10 then [char_of (48 + n)] else digits (n div 10) @ [char_of (48 + n mod 10)])"

declare digits.simps [simp del]

definition showInt :: "int \<Rightarrow> string" where
  "showInt z = (if z < 0 then CHR ''-'' # digits (nat (- z)) else digits (nat z))"

text \<open>One argument of a key: a string, a whole number, or the JSON text of an object.\<close>

datatype key_part = KText string | KInt int | KJson string

fun partText :: "key_part \<Rightarrow> string" where
  "partText (KText s) = s"
| "partText (KInt z) = showInt z"
| "partText (KJson s) = s"

definition generateCacheKeyFromParams :: "key_part list \<Rightarrow> string" where
  "generateCacheKeyFromParams args = butlast (concat (map (\<lambda>a. partText a @ ''.'') args))"

text \<open>Keys of parts without the separator determine their parts.\<close>

definition dotless :: "key_part \<Rightarrow> bool" where
  "dotless a \<longleftrightarrow> CHR ''.'' \<notin> set (partText a)"

lemma split_at_first:
  "x @ d # a = y @ d # b \<Longrightarrow> d \<notin> set x \<Longrightarrow> d \<notin> set y \<Longrightarrow> x = y \<and> a = b"
proof (induction x arbitrary: y)
  case Nil
  then show ?case by (cases y) auto
next
  case (Cons c x)
  then show ?case by (cases y) auto
qed

lemma terminated_inj:
  "concat (map (\<lambda>s. s @ [d]) xs) = concat (map (\<lambda>s. s @ [d]) ys) \<Longrightarrow>
   \<forall>s\<in>set xs \<union> set ys. d \<notin> set s \<Longrightarrow> xs = ys"
proof (induction xs arbitrary: ys)
  case Nil
  then show ?case by (cases ys) auto
next
  case (Cons x xs)
  then obtain y ys' where ys: "ys = y # ys'" by (cases ys) auto
  have eq: "x @ d # concat (map (\<lambda>s. s @ [d]) xs) = y @ d # concat (map (\<lambda>s. s @ [d]) ys')"
    using Cons.prems(1) ys by simp
  have "d \<notin> set x" "d \<notin> set y" using Cons.prems(2) ys by auto
  with eq have "x = y \<and> concat (map (\<lambda>s. s @ [d]) xs) = concat (map (\<lambda>s. s @ [d]) ys')"
    by (rule split_at_first)
  with Cons.IH [of ys'] Cons.prems(2) ys show ?case by auto
qed

lemma butlast_terminated:
  assumes "butlast (concat (map (\<lambda>s. s @ [d]) xs)) = butlast (concat (map (\<lambda>s. s @ [d]) ys))" "xs \<noteq> []" "ys \<noteq> []"
  shows "concat (map (\<lambda>s. s @ [d]) xs) = concat (map (\<lambda>s. s @ [d]) ys)"
proof -
  have end_d: "zs \<noteq> [] \<Longrightarrow> butlast (concat (map (\<lambda>s. s @ [d]) zs)) @ [d] = concat (map (\<lambda>s. s @ [d]) zs)" for zs :: "'a list list"
    by (induction zs rule: rev_induct) (auto simp: butlast_append)
  show ?thesis using end_d [OF assms(2)] end_d [OF assms(3)] assms(1) by metis
qed

lemma key_determines_parts:
  assumes "generateCacheKeyFromParams as = generateCacheKeyFromParams bs" "as \<noteq> []" "bs \<noteq> []"
    and "\<forall>a\<in>set as \<union> set bs. dotless a"
  shows "map partText as = map partText bs"
proof -
  have split: "concat (map (\<lambda>a. partText a @ ''.'') zs) = concat (map (\<lambda>s. s @ ''.'') (map partText zs))" for zs
    by (induction zs) auto
  have "concat (map (\<lambda>s. s @ ''.'') (map partText as)) = concat (map (\<lambda>s. s @ ''.'') (map partText bs))"
    using assms(1-3) butlast_terminated [of "CHR ''.''" "map partText as" "map partText bs"]
    unfolding generateCacheKeyFromParams_def split by simp
  then show ?thesis by (rule terminated_inj) (use assms(4) in \<open>auto simp: dotless_def\<close>)
qed

lemma digits_dotless: "CHR ''.'' \<notin> set (digits n)"
proof (induction n rule: digits.induct)
  case (1 n)
  have d: "m < 10 \<Longrightarrow> char_of (48 + m) \<noteq> CHR ''.''" for m :: nat
  proof
    assume "m < 10" "char_of (48 + m) = CHR ''.''"
    then have "of_char (char_of (48 + m)) = (of_char CHR ''.'' :: nat)" by simp
    with \<open>m < 10\<close> show False by simp
  qed
  show ?case
    using 1 d [of n] d [of "n mod 10"] digits.simps [of n] by (auto split: if_splits)
qed

lemma dotless_KInt: "dotless (KInt z)"
  using digits_dotless by (auto simp: dotless_def showInt_def)

text \<open>Numbers are written in decimal without loss.\<close>

fun undigits :: "nat \<Rightarrow> string \<Rightarrow> nat" where
  "undigits acc [] = acc"
| "undigits acc (c # cs) = undigits (10 * acc + (of_char c - 48)) cs"

lemma undigits_append: "undigits acc (s @ t) = undigits (undigits acc s) t"
  by (induction s arbitrary: acc) auto

lemma undigits_digits: "undigits 0 (digits n) = n"
proof (induction n rule: digits.induct)
  case (1 n)
  have small: "m < 10 \<Longrightarrow> of_char (char_of (48 + m)) = 48 + m" for m :: nat by simp
  show ?case
  proof (cases "n < 10")
    case True
    then show ?thesis using small [of n] by (simp add: digits.simps [of n])
  next
    case False
    then have "undigits 0 (digits n) = 10 * (n div 10) + n mod 10"
      using 1 small [of "n mod 10"] by (simp add: digits.simps [of n] undigits_append)
    then show ?thesis by simp
  qed
qed

lemma digits_inj: "digits m = digits n \<longleftrightarrow> m = n"
  by (metis undigits_digits)

section \<open>Lifetimes\<close>

text \<open>Lifetimes are multiples of the constants of \<open>@multiversx/sdk-nestjs-common\<close>; the second one is the lifetime in local memory.\<close>

datatype ttl = Seconds nat | Minutes nat | Hours nat | Days nat

type_synonym ttl_info = "ttl \<times> ttl option"

definition TokenTtl :: ttl_info where "TokenTtl = (Minutes 10, Some (Minutes 5))"
definition ContractStateTtl :: ttl_info where "ContractStateTtl = (Minutes 10, Some (Minutes 3))"
definition ContractInfoTtl :: ttl_info where "ContractInfoTtl = (Minutes 3, Some (Minutes 1))"
definition ContractBalanceTtl :: ttl_info where "ContractBalanceTtl = (Minutes 1, Some (Seconds 30))"
definition PriceTtl :: ttl_info where "PriceTtl = (Minutes 1, Some (Seconds 30))"
definition AnalyticsTtl :: ttl_info where "AnalyticsTtl = (Minutes 30, Some (Minutes 10))"
definition AttributesTtl :: ttl_info where "AttributesTtl = (Hours 1, Some (Minutes 45))"

section \<open>The cache\<close>

record 'c cache_service =
  cacheGet :: "'c \<Rightarrow> string \<Rightarrow> jval option"
  cacheSet :: "'c \<Rightarrow> string \<Rightarrow> jval \<Rightarrow> ttl_info \<Rightarrow> 'c"
  cacheGetOrSet :: "'c \<Rightarrow> string \<Rightarrow> ('c \<Rightarrow> jval res \<times> 'c) \<Rightarrow> ttl_info \<Rightarrow> jval res \<times> 'c"
  cacheDelete :: "'c \<Rightarrow> string \<Rightarrow> 'c"

text \<open>Every value but \<open>undefined\<close> and \<open>null\<close> can be kept.\<close>

definition storable :: "jval \<Rightarrow> bool" where
  "storable v \<longleftrightarrow> v \<noteq> JUndefined \<and> v \<noteq> JNull"

text \<open>\<open>@GetOrSetCache\<close>: the method \<open>f\<close> behind an entry; a query about the past (\<open>history\<close>) has entries of its own.\<close>

definition GetOrSetCache ::
  "'c cache_service \<Rightarrow> int option \<Rightarrow> string \<Rightarrow> ttl_info \<Rightarrow> string \<Rightarrow> key_part list \<Rightarrow> ('c \<Rightarrow> jval res \<times> 'c) \<Rightarrow>
   'c \<Rightarrow> jval res \<times> 'c" where
  "GetOrSetCache K history base t method args f c =
     (let cacheKey = generateCacheKeyFromParams (KText base # KText method # args);
          cacheKey' = (case history of Some ts \<Rightarrow> if ts = 0 then cacheKey else cacheKey @ ''.'' @ showInt ts | None \<Rightarrow> cacheKey)
      in cacheGetOrSet K c cacheKey' f t)"

text \<open>\<open>GenericSetterService\<close>: the writers return the key, which the callers broadcast to the other processes.\<close>

definition getCacheKey :: "string \<Rightarrow> key_part list \<Rightarrow> string" where
  "getCacheKey base args = generateCacheKeyFromParams (KText base # args)"

definition setData :: "'c cache_service \<Rightarrow> string \<Rightarrow> jval \<Rightarrow> ttl_info \<Rightarrow> 'c \<Rightarrow> string \<times> 'c" where
  "setData K k v t c = (k, cacheSet K c k v t)"

definition delData :: "'c cache_service \<Rightarrow> string \<Rightarrow> 'c \<Rightarrow> string \<times> 'c" where
  "delData K k c = (k, cacheDelete K c k)"

text \<open>A method that does not touch the cache.\<close>

definition uncached :: "jval res \<Rightarrow> 'c \<Rightarrow> jval res \<times> 'c" where
  "uncached r c = (r, c)"

definition cache_then :: "('c \<Rightarrow> jval res \<times> 'c) \<Rightarrow> (jval \<Rightarrow> 'c \<Rightarrow> jval res \<times> 'c) \<Rightarrow> 'c \<Rightarrow> jval res \<times> 'c" where
  "cache_then m f c = (case m c of (Inl e, c') \<Rightarrow> (Inl e, c') | (Inr v, c') \<Rightarrow> f v c')"

section \<open>What the code relies on\<close>

text \<open>
  A writer reaches a reader when the reader returns the value written; it misses the reader when the write
  changes nothing the reader returns.
\<close>

definition reaches :: "('c \<Rightarrow> string \<times> 'c) \<Rightarrow> ('c \<Rightarrow> jval res \<times> 'c) \<Rightarrow> jval \<Rightarrow> bool" where
  "reaches w r v \<longleftrightarrow> (\<forall>c. fst (r (snd (w c))) = Inr v)"

definition misses :: "('c \<Rightarrow> string \<times> 'c) \<Rightarrow> ('c \<Rightarrow> jval res \<times> 'c) \<Rightarrow> bool" where
  "misses w r \<longleftrightarrow> (\<forall>c. fst (r (snd (w c))) = fst (r c))"

locale cache_lib =
  fixes K :: "'c cache_service"
  assumes get_set: "storable v \<Longrightarrow> cacheGet K (cacheSet K c k v t) k = Some v"
    and get_set_other: "k' \<noteq> k \<Longrightarrow> cacheGet K (cacheSet K c k v t) k' = cacheGet K c k'"
    and get_delete: "cacheGet K (cacheDelete K c k) k = None"
    and get_delete_other: "k' \<noteq> k \<Longrightarrow> cacheGet K (cacheDelete K c k) k' = cacheGet K c k'"
    and hit: "cacheGet K c k = Some v \<Longrightarrow> cacheGetOrSet K c k f t = (Inr v, c)"
    and miss: "cacheGet K c k = None \<Longrightarrow> f c = (Inr v, c') \<Longrightarrow> storable v \<Longrightarrow>
      cacheGetOrSet K c k f t = (Inr v, cacheSet K c' k v t)"
    and miss_unstorable: "cacheGet K c k = None \<Longrightarrow> f c = (Inr v, c') \<Longrightarrow> \<not> storable v \<Longrightarrow>
      cacheGetOrSet K c k f t = (Inr v, c')"
    and miss_error: "cacheGet K c k = None \<Longrightarrow> f c = (Inl e, c') \<Longrightarrow> cacheGetOrSet K c k f t = (Inl e, c')"
begin

text \<open>A reader returns the entry, or what its method returns.\<close>

lemma getOrSet_value:
  "fst (cacheGetOrSet K c k f t) = (case cacheGet K c k of Some v \<Rightarrow> Inr v | None \<Rightarrow> fst (f c))"
proof (cases "cacheGet K c k")
  case None
  obtain r c' where f: "f c = (r, c')" by (cases "f c")
  show ?thesis
  proof (cases r)
    case (Inl e)
    then show ?thesis using miss_error [OF None] f None by simp
  next
    case (Inr v)
    then show ?thesis using miss [OF None] miss_unstorable [OF None] f None by (cases "storable v") simp_all
  qed
qed (simp add: hit)

lemma reader_value:
  "fst (GetOrSetCache K None base t m args f c) =
   (case cacheGet K c (generateCacheKeyFromParams (KText base # KText m # args)) of Some v \<Rightarrow> Inr v | None \<Rightarrow> fst (f c))"
  by (simp add: GetOrSetCache_def getOrSet_value)

lemma writer_reaches:
  assumes "storable v" "k = generateCacheKeyFromParams (KText base # KText m # args)"
  shows "reaches (setData K k v t') (GetOrSetCache K None base t m args f) v"
  using get_set [OF assms(1)] by (simp add: reaches_def setData_def reader_value assms(2))

lemma writer_misses:
  assumes "k \<noteq> generateCacheKeyFromParams (KText base # KText m # args)"
    and "\<And>c. fst (f (cacheSet K c k v t')) = fst (f c)"
  shows "misses (setData K k v t') (GetOrSetCache K None base t m args f)"
  using get_set_other [OF assms(1) [symmetric]] assms(2)
  by (simp add: misses_def setData_def reader_value split: option.split)

lemma writer_misses_uncached:
  "k \<noteq> generateCacheKeyFromParams (KText base # KText m # args) \<Longrightarrow>
   misses (setData K k v t') (GetOrSetCache K None base t m args (uncached r))"
  by (rule writer_misses) (simp_all add: uncached_def)

text \<open>A reader whose method returned a value returns it again.\<close>

lemma reader_repeats:
  assumes "fst (GetOrSetCache K None base t m args f c) = Inr v" "storable v"
  shows "fst (GetOrSetCache K None base t m args g (snd (GetOrSetCache K None base t m args f c))) = Inr v"
proof -
  let ?k = "generateCacheKeyFromParams (KText base # KText m # args)"
  have f: "GetOrSetCache K None base t m args h = (\<lambda>c. cacheGetOrSet K c ?k h t)" for h
    by (rule ext) (simp add: GetOrSetCache_def)
  show ?thesis
  proof (cases "cacheGet K c ?k")
    case None
    with assms(1) have "fst (f c) = Inr v" by (simp add: reader_value)
    then obtain c' where "f c = (Inr v, c')" by (cases "f c") auto
    then have "snd (cacheGetOrSet K c ?k f t) = cacheSet K c' ?k v t" using miss [OF None _ assms(2)] by simp
    then show ?thesis unfolding f by (simp add: getOrSet_value get_set [OF assms(2)])
  next
    case (Some w)
    with assms(1) have "w = v" by (simp add: reader_value)
    with Some show ?thesis unfolding f by (simp add: hit getOrSet_value)
  qed
qed

end

section \<open>A cache with these laws\<close>

text \<open>Entries in a map, absent ones computed and kept.\<close>

definition map_cache :: "(string \<rightharpoonup> jval) cache_service" where
  "map_cache = \<lparr>cacheGet = (\<lambda>c k. c k),
     cacheSet = (\<lambda>c k v t. if storable v then c(k \<mapsto> v) else c),
     cacheGetOrSet = (\<lambda>c k f t. case c k of Some v \<Rightarrow> (Inr v, c)
        | None \<Rightarrow> (case f c of (Inr v, c') \<Rightarrow> (Inr v, if storable v then c'(k \<mapsto> v) else c') | (Inl e, c') \<Rightarrow> (Inl e, c'))),
     cacheDelete = (\<lambda>c k. c(k := None))\<rparr>"

interpretation map_cache: cache_lib map_cache
  by unfold_locales (auto simp: map_cache_def)

end
