(* ===== verification/ContractQueries.thy ===== *)
theory ContractQueries
  imports ContractCache FarmUtils Listing AutoRouterService
begin

text \<open>
  Reading a contract (\<open>src/services/generics/generic.abi.service.ts\<close>,
  \<open>src/services/multiversx-communication/mx.proxy.service.ts\<close>, \<open>mx.gateway.service.ts\<close>): a view is called with typed
  arguments, the reply is decoded by the interface file of the contract, and a reader turns the decoded value
  into what is cached. The builder, the checks of arguments and the decoder belong to \<open>@multiversx/sdk-core\<close>: the
  record \<open>gateway\<close> has what they return, and \<open>gatewayAnswers\<close> states that replies have the types of the interface.
\<close>

section \<open>Decoded values and their types\<close>

text \<open>The JavaScript value of a decoded result (\<open>valueOf()\<close>). A tuple has the fields \<open>field0\<close>, \<open>field1\<close> and so on.\<close>

datatype abi_value =
    VBig int
  | VBool bool
  | VText string
  | VAddress string
  | VEnum string "(string \<times> abi_value) list"
  | VStruct "(string \<times> abi_value) list"
  | VList "abi_value list"
  | VNull

datatype abi_type =
    BigUintT
  | BigIntT
  | UintT nat
  | BoolT
  | TokenIdentifierT
  | EgldOrEsdtT
  | BytesT
  | AddressT
  | EnumT "(string \<times> (string \<times> abi_type) list) list"
  | StructT string "(string \<times> abi_type) list"
  | ListT abi_type
  | OptionT abi_type

function (sequential) hasType :: "abi_type \<Rightarrow> abi_value \<Rightarrow> bool"
  and hasFields :: "(string \<times> abi_type) list \<Rightarrow> (string \<times> abi_value) list \<Rightarrow> bool"
  and hasVariant :: "(string \<times> (string \<times> abi_type) list) list \<Rightarrow> string \<Rightarrow> (string \<times> abi_value) list \<Rightarrow> bool" where
  "hasType BigUintT v \<longleftrightarrow> (case v of VBig n \<Rightarrow> 0 \<le> n | _ \<Rightarrow> False)"
| "hasType BigIntT v \<longleftrightarrow> (case v of VBig n \<Rightarrow> True | _ \<Rightarrow> False)"
| "hasType (UintT w) v \<longleftrightarrow> (case v of VBig n \<Rightarrow> 0 \<le> n \<and> n < 2 ^ w | _ \<Rightarrow> False)"
| "hasType BoolT v \<longleftrightarrow> (case v of VBool b \<Rightarrow> True | _ \<Rightarrow> False)"
| "hasType TokenIdentifierT v \<longleftrightarrow> (case v of VText s \<Rightarrow> True | _ \<Rightarrow> False)"
| "hasType EgldOrEsdtT v \<longleftrightarrow> (case v of VText s \<Rightarrow> True | _ \<Rightarrow> False)"
| "hasType BytesT v \<longleftrightarrow> (case v of VText s \<Rightarrow> True | _ \<Rightarrow> False)"
| "hasType AddressT v \<longleftrightarrow> (case v of VAddress a \<Rightarrow> True | _ \<Rightarrow> False)"
| "hasType (EnumT variants) v \<longleftrightarrow> (case v of VEnum n fs \<Rightarrow> hasVariant variants n fs | _ \<Rightarrow> False)"
| "hasType (StructT n fts) v \<longleftrightarrow> (case v of VStruct fs \<Rightarrow> hasFields fts fs | _ \<Rightarrow> False)"
| "hasType (ListT t) v \<longleftrightarrow> (case v of VList vs \<Rightarrow> list_all (hasType t) vs | _ \<Rightarrow> False)"
| "hasType (OptionT t) v \<longleftrightarrow> v = VNull \<or> hasType t v"
| "hasFields [] fs \<longleftrightarrow> fs = []"
| "hasFields ((n, t) # fts) fs \<longleftrightarrow>
     (case fs of (m, v) # fs' \<Rightarrow> m = n \<and> hasType t v \<and> hasFields fts fs' | [] \<Rightarrow> False)"
| "hasVariant [] n fs \<longleftrightarrow> False"
| "hasVariant ((m, fts) # variants) n fs \<longleftrightarrow> (if m = n then hasFields fts fs else hasVariant variants n fs)"
  by pat_completeness auto
termination
  by (relation "measure (\<lambda>x. case x of Inl (t, v) \<Rightarrow> size t
       | Inr (Inl (fts, fs)) \<Rightarrow> size_list (size_prod (\<lambda>_. 0) size) fts
       | Inr (Inr (variants, n, fs)) \<Rightarrow> size_list (size_prod (\<lambda>_. 0) (size_list (size_prod (\<lambda>_. 0) size))) variants)") auto

type_synonym views = "(string \<times> abi_type list \<times> abi_type list) list"

section \<open>The gateway\<close>

datatype query_arg = Typed typed_value | StructArg string "(string \<times> typed_value) list"

record vm_reply =
  returnCode :: string
  returnMessage :: string
  replyValues :: "abi_value list"

text \<open>
  \<open>vmQuery\<close>: \<open>queryContract\<close> and \<open>ResultsParser\<close>; \<open>vmRaw\<close>: the reply before it is parsed; \<open>storageKey\<close>: a storage key of
  a contract as the gateway returns it; \<open>argumentError\<close>: what the check of the arguments of a call throws;
  \<open>addressText\<close>: an address constructed from a text or an address, as text; \<open>addressHex32\<close>: the method \<open>hex32\<close> of an address; \<open>configAddress\<close>: the addresses of the configuration.
\<close>

record gateway =
  vmQuery :: "string \<Rightarrow> string \<Rightarrow> query_arg list \<Rightarrow> vm_reply res"
  argumentError :: "string \<Rightarrow> js_error"
  storageKey :: "string \<Rightarrow> key_part list \<Rightarrow> string res"
  addressText :: "string \<Rightarrow> string res"
  accountOwner :: "string \<Rightarrow> string res"
  accountShard :: "string \<Rightarrow> int res"
  configAddress :: "string \<Rightarrow> string"
  farmsTable :: farms_config
  egldIdentifier :: string
  zeroAddress :: string
  addressHex32 :: "string \<Rightarrow> string res"
  addressShard :: "string \<Rightarrow> int res"
  historyTimestamp :: "int option"

fun argMatches :: "abi_type \<Rightarrow> query_arg \<Rightarrow> bool" where
  "argMatches t (StructArg n _) \<longleftrightarrow> (case t of StructT m _ \<Rightarrow> m = n | _ \<Rightarrow> False)"
| "argMatches t (Typed (BigUInt _)) \<longleftrightarrow> t = BigUintT"
| "argMatches t (Typed (U64V _)) \<longleftrightarrow> t = UintT 64"
| "argMatches t (Typed (U32V _)) \<longleftrightarrow> t = UintT 32"
| "argMatches t (Typed (U16V _)) \<longleftrightarrow> t = UintT 16"
| "argMatches t (Typed (AddressV _)) \<longleftrightarrow> t = AddressT"
| "argMatches t (Typed (TokenIdentifierV _)) \<longleftrightarrow> t = TokenIdentifierT"
| "argMatches t (Typed (BooleanV _)) \<longleftrightarrow> t = BoolT"
| "argMatches t (Typed (BytesUTF8 _)) \<longleftrightarrow> t = BytesT"
| "argMatches t (Typed (BytesHexAddress _)) \<longleftrightarrow> t = BytesT"
| "argMatches t (Typed (BytesHex _)) \<longleftrightarrow> t = BytesT"
| "argMatches t (Typed (EnumV _)) \<longleftrightarrow> (case t of EnumT _ \<Rightarrow> True | _ \<Rightarrow> False)"

text \<open>\<open>contract.methodsExplicit.f (args)\<close>, \<open>interaction.check ()\<close> and the query: a view the interface lacks is not a function.\<close>

definition getGenericData :: "gateway \<Rightarrow> views \<Rightarrow> string \<Rightarrow> string \<Rightarrow> query_arg list \<Rightarrow> vm_reply res" where
  "getGenericData G vw sc f args =
     (case map_of vw f of
        None \<Rightarrow> Inl TypeError
      | Some (ins, outs) \<Rightarrow>
          if list_all2 argMatches ins args then vmQuery G sc f args else Inl (argumentError G f))"

text \<open>\<open>response.firstValue.valueOf()\<close>\<close>

definition firstValue :: "vm_reply \<Rightarrow> abi_value res" where
  "firstValue r = (case replyValues r of [] \<Rightarrow> Inl TypeError | v # _ \<Rightarrow> Inr v)"

definition readView :: "gateway \<Rightarrow> views \<Rightarrow> string \<Rightarrow> string \<Rightarrow> query_arg list \<Rightarrow> (abi_value \<Rightarrow> 'a res) \<Rightarrow> 'a res" where
  "readView G vw sc f args decode =
     res_bind (getGenericData G vw sc f args) (\<lambda>r. res_bind (firstValue r) decode)"

section \<open>Decoding\<close>

fun asFixed :: "abi_value \<Rightarrow> jval res" where
  "asFixed (VBig n) = Inr (JAmount (bn_of_int n))"
| "asFixed v = Inl TypeError"

fun asNumber :: "abi_value \<Rightarrow> jval res" where
  "asNumber (VBig n) = Inr (JNumber (JNum (fl64 (of_int n))))"
| "asNumber v = Inl TypeError"

fun asBech32 :: "abi_value \<Rightarrow> jval res" where
  "asBech32 (VAddress a) = Inr (JText a)"
| "asBech32 v = Inl TypeError"

text \<open>\<open>toString()\<close>: inside an array, \<open>null\<close> is the empty string.\<close>

fun textOf :: "abi_value \<Rightarrow> string" where
  "textOf (VBig n) = showInt n"
| "textOf (VBool b) = (if b then ''true'' else ''false'')"
| "textOf (VText s) = s"
| "textOf (VAddress a) = a"
| "textOf (VEnum n fs) = ''[object Object]''"
| "textOf (VStruct fs) = ''[object Object]''"
| "textOf (VList vs) = (case map textOf vs of [] \<Rightarrow> '''' | s # ss \<Rightarrow> s @ concat (map (\<lambda>t. '','' @ t) ss))"
| "textOf VNull = ''''"

definition asText :: "abi_value \<Rightarrow> jval res" where
  "asText v = (if v = VNull then Inl TypeError else Inr (JText (textOf v)))"

definition asHex32 :: "gateway \<Rightarrow> abi_value \<Rightarrow> jval res" where
  "asHex32 G v = (case v of VAddress a \<Rightarrow> res_bind (addressHex32 G a) (\<lambda>h. Inr (JText h)) | _ \<Rightarrow> Inl TypeError)"

text \<open>\<open>.name\<close>, and any other property.\<close>

definition asName :: "abi_value \<Rightarrow> jval res" where
  "asName v = (case v of VEnum n fs \<Rightarrow> Inr (JText n) | VNull \<Rightarrow> Inl TypeError | _ \<Rightarrow> Inr JUndefined)"

fun fieldOf :: "string \<Rightarrow> abi_value \<Rightarrow> abi_value res" where
  "fieldOf n (VStruct fs) = (case map_of fs n of Some v \<Rightarrow> Inr v | None \<Rightarrow> Inl TypeError)"
| "fieldOf n v = Inl TypeError"

text \<open>The value itself.\<close>

fun asIs :: "abi_value \<Rightarrow> jval" where
  "asIs (VBig n) = JBig (bn_of_int n)"
| "asIs (VBool b) = JBool b"
| "asIs (VText s) = JText s"
| "asIs (VAddress a) = JText a"
| "asIs (VEnum n fs) = JObject [(''name'', JText n), (''fields'', JObject (map (\<lambda>(m, v). (m, asIs v)) fs))]"
| "asIs (VStruct fs) = JObject (map (\<lambda>(m, v). (m, asIs v)) fs)"
| "asIs (VList vs) = JList (map asIs vs)"
| "asIs VNull = JNull"

definition asRaw :: "abi_value \<Rightarrow> jval res" where
  "asRaw v = Inr (asIs v)"

fun mapElems :: "(abi_value \<Rightarrow> jval res) \<Rightarrow> abi_value \<Rightarrow> jval res" where
  "mapElems dec (VList vs) = res_bind (res_map dec vs) (\<lambda>js. Inr (JList js))"
| "mapElems dec v = Inl TypeError"

text \<open>
  \<open>new Address (v).bech32 ()\<close> of an address, or of the text of a value.
\<close>

definition asNewAddress :: "gateway \<Rightarrow> abi_value \<Rightarrow> jval res" where
  "asNewAddress G v =
     (case v of VAddress a \<Rightarrow> Inr (JText a)
      | VText s \<Rightarrow> res_bind (addressText G s) (\<lambda>a. Inr (JText a)) | _ \<Rightarrow> Inl TypeError)"

definition asAddressOfText :: "gateway \<Rightarrow> abi_value \<Rightarrow> jval res" where
  "asAddressOfText G v =
     (if v = VNull then Inl TypeError else res_bind (addressText G (textOf v)) (\<lambda>a. Inr (JText a)))"

text \<open>An object with one decoded member per field read.\<close>

definition newObject :: "(string \<times> (abi_value \<Rightarrow> jval res)) list \<Rightarrow> abi_value \<Rightarrow> jval res" where
  "newObject members v =
     res_bind (res_map (\<lambda>(n, dec). res_bind (dec v) (\<lambda>j. Inr (n, j))) members) (\<lambda>ms. Inr (JObject ms))"

definition via :: "string \<Rightarrow> (abi_value \<Rightarrow> 'a res) \<Rightarrow> abi_value \<Rightarrow> 'a res" where
  "via n dec v = res_bind (fieldOf n v) dec"

definition always :: "jval \<Rightarrow> abi_value \<Rightarrow> jval res" where
  "always j v = Inr j"

text \<open>
  Replies looked at before they are parsed. The names of the return codes are the ones of the virtual machine
  (\<open>ReturnCode\<close>, \<open>VmQueryError\<close>).
\<close>

abbreviation "UserError \<equiv> ''user error''"
abbreviation "FunctionNotFound \<equiv> ''function not found''"
definition BAD_ARRAY_LENGTH :: string where "BAD_ARRAY_LENGTH = ''bad array length''"
definition INVALID_FUNCTION :: string where "INVALID_FUNCTION = ''invalid function''"
definition INPUT_TOO_SHORT :: string where "INPUT_TOO_SHORT = ''storage decode error: input too short''"

fun errorMessage :: "js_error \<Rightarrow> string" where
  "errorMessage (JsError m) = m"
| "errorMessage (BadRequest m) = m"

text \<open>\<open>catch (error) { if (error.message.includes (INVALID_FUNCTION)) return d; throw error; }\<close>\<close>

definition unlessInvalidFunction :: "jval \<Rightarrow> jval res \<Rightarrow> jval res" where
  "unlessInvalidFunction d r =
     (case r of Inl e \<Rightarrow> if str_includes (errorMessage e) INVALID_FUNCTION then Inr d else Inl e | Inr j \<Rightarrow> Inr j)"

text \<open>\<open>try ... catch { return undefined }\<close>\<close>

definition orUndefined :: "jval res \<Rightarrow> jval res" where
  "orUndefined r = (case r of Inl e \<Rightarrow> Inr JUndefined | Inr j \<Rightarrow> Inr j)"

lemma orUndefined_simps [simp]: "orUndefined (Inl e) = Inr JUndefined" "orUndefined (Inr j) = Inr j"
  by (simp_all add: orUndefined_def)

text \<open>\<open>response.values[i].valueOf()\<close>\<close>

definition valueAt :: "vm_reply \<Rightarrow> nat \<Rightarrow> (abi_value \<Rightarrow> 'a res) \<Rightarrow> 'a res" where
  "valueAt r i decode = (if i < length (replyValues r) then decode (replyValues r ! i) else Inl TypeError)"

section \<open>Readers and the interface\<close>

text \<open>The gateway answers a contract of this interface: every well-typed call of a view succeeds with values of its output types.\<close>

definition gatewayAnswers :: "gateway \<Rightarrow> views \<Rightarrow> string \<Rightarrow> bool" where
  "gatewayAnswers G vw sc \<longleftrightarrow>
     (\<forall>(f, ins, outs) \<in> set vw. \<forall>args. list_all2 argMatches ins args \<longrightarrow>
        (\<exists>r. vmQuery G sc f args = Inr r \<and> list_all2 hasType outs (replyValues r)))"

datatype jkind = TextR | AmountR | BigR | NumberR | BoolR | ListR jkind | ObjectR | TextOrUndefinedR

fun jkindOf :: "jkind \<Rightarrow> jval \<Rightarrow> bool" where
  "jkindOf TextR j \<longleftrightarrow> (\<exists>s. j = JText s)"
| "jkindOf AmountR j \<longleftrightarrow> (\<exists>n. j = JAmount (bn_of_int n) \<and> 0 \<le> n)"
| "jkindOf BigR j \<longleftrightarrow> (\<exists>n. j = JBig (bn_of_int n) \<and> 0 \<le> n)"
| "jkindOf NumberR j \<longleftrightarrow> (\<exists>x. j = JNumber (JNum x) \<and> 0 \<le> x)"
| "jkindOf BoolR j \<longleftrightarrow> (\<exists>b. j = JBool b)"
| "jkindOf (ListR k) j \<longleftrightarrow> (\<exists>js. j = JList js \<and> (\<forall>i\<in>set js. jkindOf k i))"
| "jkindOf ObjectR j \<longleftrightarrow> (\<exists>ms. j = JObject ms)"
| "jkindOf TextOrUndefinedR j \<longleftrightarrow> j = JUndefined \<or> (\<exists>s. j = JText s)"

definition returns :: "jkind \<Rightarrow> jval res \<Rightarrow> bool" where
  "returns k r \<longleftrightarrow> (\<exists>j. r = Inr j \<and> jkindOf k j)"

definition decodes :: "abi_type \<Rightarrow> (abi_value \<Rightarrow> jval res) \<Rightarrow> jkind \<Rightarrow> bool" where
  "decodes t dec k \<longleftrightarrow> (\<forall>v. hasType t v \<longrightarrow> returns k (dec v))"

named_theorems decoding \<open>decoders on the values of an interface type\<close>

lemma asFixed_decodes [decoding]:
  "decodes BigUintT asFixed AmountR" "decodes (UintT w) asFixed AmountR"
  by (auto simp: decodes_def returns_def split: abi_value.splits)

lemma asNumber_decodes [decoding]:
  "decodes BigUintT asNumber NumberR" "decodes (UintT w) asNumber NumberR"
  by (auto simp: decodes_def returns_def fl64_nonneg split: abi_value.splits)

lemma asBech32_decodes [decoding]: "decodes AddressT asBech32 TextR"
  by (auto simp: decodes_def returns_def split: abi_value.splits)

lemma asNewAddress_decodes [decoding]: "decodes AddressT (asNewAddress G) TextR"
  by (auto simp: decodes_def returns_def asNewAddress_def split: abi_value.splits)

lemma asAddressOfText_decodes [decoding]:
  "(\<And>a. \<exists>b. addressText G a = Inr b) \<Longrightarrow> decodes AddressT (asAddressOfText G) TextR"
  by (fastforce simp: decodes_def returns_def asAddressOfText_def split: abi_value.splits)

lemma asText_decodes [decoding]:
  "decodes TokenIdentifierT asText TextR" "decodes EgldOrEsdtT asText TextR" "decodes BytesT asText TextR"
  "decodes AddressT asText TextR" "decodes (UintT w) asText TextR" "decodes BigUintT asText TextR"
  by (auto simp: decodes_def returns_def asText_def split: abi_value.splits)

lemma asName_decodes [decoding]: "decodes (EnumT vs) asName TextR"
  by (auto simp: decodes_def returns_def asName_def split: abi_value.splits)

lemma asRaw_decodes [decoding]:
  "decodes BigUintT asRaw BigR" "decodes (UintT w) asRaw BigR" "decodes BoolT asRaw BoolR" "decodes TokenIdentifierT asRaw TextR"
  by (auto simp: decodes_def returns_def asRaw_def split: abi_value.splits)

lemma always_decodes [decoding]: "jkindOf k j \<Longrightarrow> decodes t (always j) k"
  by (simp add: decodes_def returns_def always_def)

lemma mapElems_decodes [decoding]:
  assumes "decodes t dec k"
  shows "decodes (ListT t) (mapElems dec) (ListR k)"
proof -
  have "\<exists>js. res_map dec vs = Inr js \<and> (\<forall>i\<in>set js. jkindOf k i)" if "list_all (hasType t) vs" for vs
    using that assms by (induction vs) (fastforce simp: decodes_def returns_def)+
  then show ?thesis by (fastforce simp: decodes_def returns_def split: abi_value.splits)
qed

lemma hasFields_nth:
  "hasFields fts fs \<Longrightarrow> map_of fts n = Some t \<Longrightarrow> \<exists>v. map_of fs n = Some v \<and> hasType t v"
  by (induction fts arbitrary: fs) (auto split: list.splits if_splits prod.splits)

lemma via_decodes [decoding]:
  assumes "case map_of fts n of Some t \<Rightarrow> decodes t dec k | None \<Rightarrow> False"
  shows "decodes (StructT m fts) (via n dec) k"
proof -
  obtain t where t: "map_of fts n = Some t" "decodes t dec k" using assms by (cases "map_of fts n") auto
  have "returns k (via n dec v)" if "hasType (StructT m fts) v" for v
  proof (cases v)
    case (VStruct fs)
    with that hasFields_nth [of fts fs n t] t obtain w where "map_of fs n = Some w" "hasType t w" by auto
    with t(2) show ?thesis by (simp add: via_def VStruct decodes_def)
  qed (use that in auto)
  then show ?thesis by (simp add: decodes_def)
qed

definition total :: "abi_type \<Rightarrow> (abi_value \<Rightarrow> jval res) \<Rightarrow> bool" where
  "total t dec \<longleftrightarrow> (\<forall>v. hasType t v \<longrightarrow> (\<exists>j. dec v = Inr j))"

lemma decodes_total: "decodes t dec k \<Longrightarrow> total t dec"
  by (auto simp: decodes_def total_def returns_def)

lemmas total_decoders [decoding] =
  asFixed_decodes [THEN decodes_total] asNumber_decodes [THEN decodes_total] asBech32_decodes [THEN decodes_total]
  asText_decodes [THEN decodes_total] asName_decodes [THEN decodes_total] asRaw_decodes [THEN decodes_total]
  asNewAddress_decodes [THEN decodes_total]

lemma via_total [decoding]:
  "(case map_of fts n of Some t \<Rightarrow> total t dec | None \<Rightarrow> False) \<Longrightarrow> total (StructT m fts) (via n dec)"
proof (cases "map_of fts n")
  case (Some t)
  assume "case map_of fts n of Some t \<Rightarrow> total t dec | None \<Rightarrow> False"
  with Some have t: "total t dec" by simp
  have "\<exists>j. via n dec v = Inr j" if "hasType (StructT m fts) v" for v
  proof (cases v)
    case (VStruct fs)
    with that hasFields_nth [of fts fs n t] Some obtain w where "map_of fs n = Some w" "hasType t w" by auto
    with t show ?thesis by (simp add: via_def VStruct total_def)
  qed (use that in auto)
  then show ?thesis by (simp add: total_def)
qed simp

lemma newObject_total:
  assumes "\<forall>(n, dec) \<in> set members. total t dec"
  shows "total t (newObject members)"
proof -
  have "\<exists>ms. res_map (\<lambda>(n, dec). res_bind (dec v) (\<lambda>j. Inr (n, j))) members = Inr ms" if "hasType t v" for v
    using that assms
  proof (induction members)
    case (Cons m members)
    obtain n dec where m: "m = (n, dec)" by (cases m)
    with Cons.prems obtain j where "dec v = Inr j" by (auto simp: total_def)
    then show ?case using Cons m by auto
  qed simp
  then show ?thesis unfolding total_def newObject_def by fastforce
qed

lemma newObject_decodes [decoding]:
  "\<forall>(n, dec) \<in> set members. total t dec \<Longrightarrow> decodes t (newObject members) ObjectR"
  using newObject_total [of members t]
  unfolding total_def decodes_def returns_def newObject_def by (fastforce simp: res_bind_Inr_iff)

text \<open>A reader of a view the interface has, with arguments of its types, returns a value of its kind.\<close>

lemma readView_returns:
  assumes "gatewayAnswers G vw sc"
    and "case map_of vw f of Some (ins, t # ts) \<Rightarrow> list_all2 argMatches ins args \<and> decodes t dec k | _ \<Rightarrow> False"
  shows "returns k (readView G vw sc f args dec)"
proof -
  obtain ins t ts where f: "map_of vw f = Some (ins, t # ts)" "list_all2 argMatches ins args" "decodes t dec k"
    using assms(2) by (cases "map_of vw f"; cases "snd (the (map_of vw f))") (auto split: prod.splits)
  obtain r where r: "vmQuery G sc f args = Inr r" "list_all2 hasType (t # ts) (replyValues r)"
    using assms(1) f(2) map_of_SomeD [OF f(1)] unfolding gatewayAnswers_def by fastforce
  then obtain v vs where v: "replyValues r = v # vs" "hasType t v" by (auto simp: list_all2_Cons1)
  have "readView G vw sc f args dec = dec v"
    by (simp add: readView_def getGenericData_def f(1,2) r(1) firstValue_def v(1))
  then show ?thesis using f(3) v(2) by (simp add: decodes_def)
qed

text \<open>A view the interface lacks.\<close>

lemma readView_lacking: "map_of vw f = None \<Longrightarrow> readView G vw sc f args dec = Inl TypeError"
  by (simp add: readView_def getGenericData_def)

lemma readView_refused:
  "map_of vw f = Some (ins, outs) \<Longrightarrow> \<not> list_all2 argMatches ins args \<Longrightarrow>
   readView G vw sc f args dec = Inl (argumentError G f)"
  by (simp add: readView_def getGenericData_def)

lemma returns_or_undefined: "returns TextR r \<Longrightarrow> returns TextOrUndefinedR r"
  by (auto simp: returns_def)

lemma orUndefined_returns: "returns k r \<Longrightarrow> returns k (orUndefined r)"
  by (auto simp: returns_def)

section \<open>A typical gateway\<close>

text \<open>Every view of the interface is answered with small values of its types; \<open>farms\<close> is the table of the farms.\<close>

function (sequential) typicalValue :: "abi_type \<Rightarrow> abi_value"
  and typicalFields :: "(string \<times> abi_type) list \<Rightarrow> (string \<times> abi_value) list" where
  "typicalValue BigUintT = VBig 0"
| "typicalValue BigIntT = VBig 0"
| "typicalValue (UintT w) = VBig 0"
| "typicalValue BoolT = VBool True"
| "typicalValue TokenIdentifierT = VText ''TOKEN-123456''"
| "typicalValue EgldOrEsdtT = VText ''EGLD''"
| "typicalValue BytesT = VText []"
| "typicalValue AddressT = VAddress ''erd1qqq''"
| "typicalValue (EnumT []) = VNull"
| "typicalValue (EnumT ((n, fts) # variants)) = VEnum n (typicalFields fts)"
| "typicalValue (StructT n fts) = VStruct (typicalFields fts)"
| "typicalValue (ListT t) = VList []"
| "typicalValue (OptionT t) = VNull"
| "typicalFields [] = []"
| "typicalFields ((n, t) # fts) = (n, typicalValue t) # typicalFields fts"
  by pat_completeness auto
termination
  by (relation "measure (\<lambda>x. case x of Inl t \<Rightarrow> size t | Inr fts \<Rightarrow> size_list (size_prod (\<lambda>_. 0) size) fts)") auto

definition typicalGateway :: "views \<Rightarrow> farms_config \<Rightarrow> gateway" where
  "typicalGateway vw farms =
     \<lparr>vmQuery = (\<lambda>sc f args. case map_of vw f of
          Some (ins, outs) \<Rightarrow> Inr \<lparr>returnCode = ''ok'', returnMessage = [], replyValues = map typicalValue outs\<rparr>
        | None \<Rightarrow> Inl TypeError),
      argumentError = (\<lambda>f. TypeError), storageKey = (\<lambda>sc k. Inr []), addressText = Inr, accountOwner = Inr,
      accountShard = (\<lambda>a. Inr 1), configAddress = id, farmsTable = farms, egldIdentifier = ''EGLD'', zeroAddress = ''erd1'',
      addressHex32 = Inr, addressShard = (\<lambda>a. Inr 1), historyTimestamp = None\<rparr>"

lemma typicalGateway_answers:
  assumes "distinct (map fst vw)" "list_all (\<lambda>(f, ins, outs). list_all (\<lambda>t. hasType t (typicalValue t)) outs) vw"
  shows "gatewayAnswers (typicalGateway vw farms) vw sc"
proof -
  have "\<exists>r. vmQuery (typicalGateway vw farms) sc f args = Inr r \<and> list_all2 hasType outs (replyValues r)"
    if "(f, ins, outs) \<in> set vw" for f ins outs args
  proof -
    have "map_of vw f = Some (ins, outs)" using assms(1) that by simp
    moreover have "list_all (\<lambda>t. hasType t (typicalValue t)) outs" using assms(2) that by (auto simp: list_all_iff)
    then have "list_all2 hasType outs (map typicalValue outs)"
      by (simp add: list_all2_map2 list_all2_same list_all_iff)
    ultimately show ?thesis by (simp add: typicalGateway_def)
  qed
  then show ?thesis unfolding gatewayAnswers_def by fast
qed

lemma typical_history [simp]: "historyTimestamp (typicalGateway vw farms) = None"
  by (simp add: typicalGateway_def)

end
