(* ===== verification/PriceDiscovery.thy ===== *)
theory PriceDiscovery
  imports UserEnergy Abi AutoRouterService
begin

text \<open>
  Price discovery: the phase and its penalty
  (\<open>src/modules/price-discovery/services/price.discovery.abi.service.ts\<close>), the prices of the two tokens
  (\<open>price.discovery.compute.service.ts\<close>), the contract of a redeem token (\<open>price.discovery.service.ts\<close>), the
  transactions (\<open>price.discovery.transactions.service.ts\<close>) and the queries of the resolver.

  \<open>pd_view\<close> holds what the contracts and the analytics store return; \<open>None\<close> is a missing value.
\<close>

section \<open>Data\<close>

record phase_model =
  phName :: string
  penaltyPercent :: jsnum

record pd_view =
  pdAddresses :: "string list"
  launchedTokenID :: "string \<Rightarrow> string"
  acceptedTokenID :: "string \<Rightarrow> string"
  redeemTokenID :: "string \<Rightarrow> string"
  launchedTokenAmount :: "string \<Rightarrow> bn"
  acceptedTokenAmount :: "string \<Rightarrow> bn"
  rawPhase :: "string \<Rightarrow> string \<times> bn option"
  startBlock :: "string \<Rightarrow> int"
  endBlock :: "string \<Rightarrow> int"
  blockTimestamp :: "int \<Rightarrow> int option"
  PDlatestValue :: "string \<Rightarrow> string \<Rightarrow> bn option"

definition MAX_PERCENTAGE_PRICE_DISCOVERY :: int where
  "MAX_PERCENTAGE_PRICE_DISCOVERY = 10000000000000"

section \<open>The phase\<close>

definition currentPhase :: "bignumber \<Rightarrow> pd_view \<Rightarrow> string \<Rightarrow> phase_model" where
  "currentPhase B D pd =
     \<lparr>phName = fst (rawPhase D pd),
      penaltyPercent = toNumber (case snd (rawPhase D pd) of
        Some penalty \<Rightarrow> bn_div B penalty (bn_number B (of_int MAX_PERCENTAGE_PRICE_DISCOVERY))
      | None \<Rightarrow> Fin 0)\<rparr>"

definition redeeming :: "bignumber \<Rightarrow> pd_view \<Rightarrow> string \<Rightarrow> bool" where
  "redeeming B D pd \<longleftrightarrow> phName (currentPhase B D pd) = ''Redeem''"

section \<open>Prices\<close>

text \<open>\<open>latestPrice?.value ?? '0'\<close>.\<close>

definition latestPrice :: "pd_view \<Rightarrow> string \<Rightarrow> string \<Rightarrow> bn" where
  "latestPrice D pd metric = (case PDlatestValue D pd metric of Some v \<Rightarrow> v | None \<Rightarrow> Fin 0)"

definition getLaunchedToken :: "chain_view \<Rightarrow> pd_view \<Rightarrow> string \<Rightarrow> esdt_token" where
  "getLaunchedToken V D pd = tokenMetadata V (launchedTokenID D pd)"

definition getAcceptedToken :: "chain_view \<Rightarrow> pd_view \<Rightarrow> string \<Rightarrow> esdt_token" where
  "getAcceptedToken V D pd = tokenMetadata V (acceptedTokenID D pd)"

definition computeLaunchedTokenPrice :: "bignumber \<Rightarrow> chain_view \<Rightarrow> pd_view \<Rightarrow> string \<Rightarrow> bn" where
  "computeLaunchedTokenPrice B V D pd =
     (if redeeming B D pd then latestPrice D pd ''launchedTokenPrice''
      else bn_times B
        (quote B (Fin (10 ^ decimals (getLaunchedToken V D pd))) (launchedTokenAmount D pd) (acceptedTokenAmount D pd))
        (Fin (1 / 10 ^ decimals (getAcceptedToken V D pd))))"

definition computeAcceptedTokenPrice :: "bignumber \<Rightarrow> chain_view \<Rightarrow> pd_view \<Rightarrow> string \<Rightarrow> bn" where
  "computeAcceptedTokenPrice B V D pd =
     (if redeeming B D pd then latestPrice D pd ''acceptedTokenPrice''
      else bn_times B
        (quote B (Fin (10 ^ decimals (getAcceptedToken V D pd))) (acceptedTokenAmount D pd) (launchedTokenAmount D pd))
        (Fin (1 / 10 ^ decimals (getLaunchedToken V D pd))))"

definition computeLaunchedTokenPriceUSD :: "bignumber \<Rightarrow> dex_config \<Rightarrow> chain_view \<Rightarrow> pd_view \<Rightarrow> string \<Rightarrow> bn" where
  "computeLaunchedTokenPriceUSD B cfg V D pd =
     (if redeeming B D pd then latestPrice D pd ''launchedTokenPriceUSD''
      else bn_times B (computeLaunchedTokenPrice B V D pd)
        (tokenPriceUSD B cfg V (tokIdentifier (getAcceptedToken V D pd))))"

definition computeAcceptedTokenPriceUSD :: "bignumber \<Rightarrow> dex_config \<Rightarrow> chain_view \<Rightarrow> pd_view \<Rightarrow> string \<Rightarrow> bn" where
  "computeAcceptedTokenPriceUSD B cfg V D pd =
     (if redeeming B D pd then latestPrice D pd ''acceptedTokenPriceUSD''
      else tokenPriceUSD B cfg V (acceptedTokenID D pd))"

text \<open>The interval the closing values are asked for; a start block without a record has no timestamp to read.\<close>

definition closingInterval :: "pd_view \<Rightarrow> int \<Rightarrow> string \<Rightarrow> (int \<times> int) res" where
  "closingInterval D now pd =
     (case blockTimestamp D (startBlock D pd) of
        None \<Rightarrow> Inl TypeError
      | Some startDate \<Rightarrow>
          Inr (startDate, case blockTimestamp D (endBlock D pd) of Some t \<Rightarrow> t | None \<Rightarrow> now))"

section \<open>The contract of a redeem token\<close>

fun findRedeem :: "pd_view \<Rightarrow> string \<Rightarrow> string list \<Rightarrow> string option" where
  "findRedeem D tid [] = None"
| "findRedeem D tid (a # as) = (if redeemTokenID D a = tid then Some a else findRedeem D tid as)"

definition getPriceDiscoveryAddresByRedeemToken :: "pd_view \<Rightarrow> string \<Rightarrow> string option" where
  "getPriceDiscoveryAddresByRedeemToken D tid = findRedeem D tid (pdAddresses D)"

section \<open>Transactions\<close>

definition validateDepositInputTokens :: "pd_view \<Rightarrow> string \<Rightarrow> input_token \<Rightarrow> unit res" where
  "validateDepositInputTokens D pd t =
     (if (tokenID t \<noteq> launchedTokenID D pd \<and> tokenID t \<noteq> acceptedTokenID D pd) \<or> 0 < nonce t
      then Inl (JsError ''Invalid input tokens'') else Inr ())"


definition pd_deposit :: "dex_config \<Rightarrow> pd_view \<Rightarrow> string \<Rightarrow> input_token \<Rightarrow> transaction res" where
  "pd_deposit cfg D pd t =
     res_bind (validateDepositInputTokens D pd t) (\<lambda>_.
       build priceDiscoveryAbi (paid_call cfg pd ''deposit'' [] [fungible (tokenID t) (amount t)]
         (gas cfg ''priceDiscovery.deposit'')))"



text \<open>The amount that is left after the penalty, a difference of doubles; a penalty that is no number is not positive.\<close>

definition afterPenalty :: "bignumber \<Rightarrow> phase_model \<Rightarrow> bn \<Rightarrow> bn" where
  "afterPenalty B phase amt =
     (case penaltyPercent phase of
        JNum p \<Rightarrow> if 0 < p then bn_times B amt (bn_number B (fl64 (1 - p))) else amt
      | JInf \<Rightarrow> bn_times B amt NegInf
      | _ \<Rightarrow> amt)"


section \<open>Queries\<close>



section \<open>Prices of the two tokens\<close>

lemma redeem_found:
  "getPriceDiscoveryAddresByRedeemToken D tid = Some a \<Longrightarrow> a \<in> set (pdAddresses D) \<and> redeemTokenID D a = tid"
proof -
  have "findRedeem D tid as = Some a \<Longrightarrow> a \<in> set as \<and> redeemTokenID D a = tid" for as
    by (induction as) (auto split: if_splits)
  then show "getPriceDiscoveryAddresByRedeemToken D tid = Some a \<Longrightarrow> ?thesis"
    by (simp add: getPriceDiscoveryAddresByRedeemToken_def)
qed

lemma redeem_not_found:
  "getPriceDiscoveryAddresByRedeemToken D tid = None \<longleftrightarrow> tid \<notin> redeemTokenID D ` set (pdAddresses D)"
proof -
  have "findRedeem D tid as = None \<longleftrightarrow> tid \<notin> redeemTokenID D ` set as" for as
    by (induction as) auto
  then show ?thesis by (simp add: getPriceDiscoveryAddresByRedeemToken_def)
qed

lemma launched_price:
  assumes "bignumber_lib B" "\<not> redeeming B D pd" "launchedTokenAmount D pd = bn_of_int l"
    and "acceptedTokenAmount D pd = bn_of_int a" "0 < l"
  shows "\<exists>p. computeLaunchedTokenPrice B V D pd = Fin p \<and>
    \<bar>p - of_int a / 10 ^ decimals (getAcceptedToken V D pd) / (of_int l / 10 ^ decimals (getLaunchedToken V D pd))\<bar>
      \<le> 1 / (2 * 10 ^ 20) / 10 ^ decimals (getAcceptedToken V D pd)"
proof -
  let ?dl = "decimals (getLaunchedToken V D pd)" and ?da = "decimals (getAcceptedToken V D pd)"
  have "computeLaunchedTokenPrice B V D pd = Fin (round_dp 20 (10 ^ ?dl * of_int a / of_int l) / 10 ^ ?da)"
    using assms(2-5) by (simp add: computeLaunchedTokenPrice_def quote_def bignumber_lib.finite_ops [OF assms(1)])
  moreover have "of_int a / 10 ^ ?da / (of_int l / 10 ^ ?dl) = (10 ^ ?dl * of_int a / of_int l / 10 ^ ?da :: rat)"
    by (simp add: field_simps)
  ultimately show ?thesis using round_dp_scaled_error [of "10 ^ ?da" 20 "10 ^ ?dl * of_int a / of_int l"] by simp
qed

lemma accepted_price:
  assumes "bignumber_lib B" "\<not> redeeming B D pd" "launchedTokenAmount D pd = bn_of_int l"
    and "acceptedTokenAmount D pd = bn_of_int a" "0 < a"
  shows "\<exists>p. computeAcceptedTokenPrice B V D pd = Fin p \<and>
    \<bar>p - of_int l / 10 ^ decimals (getLaunchedToken V D pd) / (of_int a / 10 ^ decimals (getAcceptedToken V D pd))\<bar>
      \<le> 1 / (2 * 10 ^ 20) / 10 ^ decimals (getLaunchedToken V D pd)"
proof -
  let ?dl = "decimals (getLaunchedToken V D pd)" and ?da = "decimals (getAcceptedToken V D pd)"
  have "computeAcceptedTokenPrice B V D pd = Fin (round_dp 20 (10 ^ ?da * of_int l / of_int a) / 10 ^ ?dl)"
    using assms(2-5) by (simp add: computeAcceptedTokenPrice_def quote_def bignumber_lib.finite_ops [OF assms(1)])
  moreover have "of_int l / 10 ^ ?dl / (of_int a / 10 ^ ?da) = (10 ^ ?da * of_int l / of_int a / 10 ^ ?dl :: rat)"
    by (simp add: field_simps)
  ultimately show ?thesis using round_dp_scaled_error [of "10 ^ ?dl" 20 "10 ^ ?da * of_int l / of_int a"] by simp
qed

text \<open>Before anything is deposited the price is zero.\<close>

lemma price_without_deposits:
  assumes "bignumber_lib B" "\<not> redeeming B D pd" "launchedTokenAmount D pd = Fin 0"
  shows "computeLaunchedTokenPrice B V D pd = Fin 0"
  using assms by (simp add: computeLaunchedTokenPrice_def quote_def bignumber_lib.finite_ops [OF assms(1)])

section \<open>What is left after the penalty\<close>

lemma fl64_unit_error: "0 \<le> x \<Longrightarrow> x \<le> 1 \<Longrightarrow> \<bar>fl64 x - x\<bar> \<le> 1 / 2 ^ 53"
  by (rule order.trans [OF fl64_error]) (simp_all add: divide_right_mono)

lemma phase_penalty:
  assumes "bignumber_lib B" "rawPhase D pd = (nm, Some (bn_of_int p))" "0 \<le> p" "p \<le> MAX_PERCENTAGE_PRICE_DISCOVERY"
  obtains y where "penaltyPercent (currentPhase B D pd) = JNum y" "0 \<le> y" "y \<le> 1"
    "\<bar>y - of_int p / of_int MAX_PERCENTAGE_PRICE_DISCOVERY\<bar> \<le> 1 / 2 ^ 53"
proof -
  let ?x = "of_int p / 10000000000000 :: rat"
  have "?x * 10 ^ 20 = of_int (p * 10 ^ 7)" by simp
  then have "round_dp 20 ?x = of_int (p * 10 ^ 7) / 10 ^ 20" unfolding round_dp_def by (simp only: half_up_of_int)
  then have x: "round_dp 20 ?x = ?x" by simp
  have "penaltyPercent (currentPhase B D pd) = JNum (fl64 (round_dp 20 ?x))"
    using bignumber_lib.number_int [OF assms(1), of MAX_PERCENTAGE_PRICE_DISCOVERY]
    by (simp add: currentPhase_def assms(2) MAX_PERCENTAGE_PRICE_DISCOVERY_def bignumber_lib.div_fin [OF assms(1)])
  then have "penaltyPercent (currentPhase B D pd) = JNum (fl64 ?x)" by (simp only: x)
  moreover have le: "0 \<le> ?x" "?x \<le> 1" using assms(3,4) by (simp_all add: MAX_PERCENTAGE_PRICE_DISCOVERY_def)
  moreover have "0 \<le> fl64 ?x" "fl64 ?x \<le> 1" using fl64_nonneg [OF le(1)] fl64_le_int [of ?x 1] le by simp_all
  moreover have "\<bar>fl64 ?x - ?x\<bar> \<le> 1 / 2 ^ 53"
    by (rule fl64_unit_error [OF le])
  ultimately show ?thesis using that by (simp add: MAX_PERCENTAGE_PRICE_DISCOVERY_def)
qed

lemma afterPenalty_share:
  assumes "bignumber_lib B" "rawPhase D pd = (nm, Some (bn_of_int p))" "0 \<le> p" "p \<le> MAX_PERCENTAGE_PRICE_DISCOVERY"
    and "0 \<le> a"
  obtains w where "afterPenalty B (currentPhase B D pd) (bn_of_int a) = Fin w" "0 \<le> w" "w \<le> of_int a"
    "\<bar>w - of_int a * (1 - of_int p / of_int MAX_PERCENTAGE_PRICE_DISCOVERY)\<bar> \<le> of_int a / 2 ^ 51"
proof -
  define x :: rat where "x = of_int p / of_int MAX_PERCENTAGE_PRICE_DISCOVERY"
  obtain y where y: "penaltyPercent (currentPhase B D pd) = JNum y" "0 \<le> y" "y \<le> 1" "\<bar>y - x\<bar> \<le> 1 / 2 ^ 53"
    using phase_penalty [OF assms(1-4)] unfolding x_def .
  let ?r = "fl64 (1 - y)"
  have r: "0 \<le> ?r" "?r \<le> 1" using fl64_nonneg [of "1 - y"] fl64_le_int [of "1 - y" 1] y by simp_all
  have r_err: "\<bar>?r - (1 - y)\<bar> \<le> 1 / 2 ^ 53"
    using y by (intro fl64_unit_error) simp_all
  obtain z where z: "bn_number B ?r = Fin z" "0 \<le> z" "z \<le> 1"
    using bignumber_lib.number_between [OF assms(1), of 0 ?r 1] r by auto
  have "\<bar>z - ?r\<bar> \<le> 1 / 2 ^ 52"
    using bignumber_lib.number_error [OF assms(1) z(1)] divide_right_mono [of ?r 1 "2 ^ 52"] r by simp
  moreover have "\<bar>z - (1 - x)\<bar> \<le> \<bar>z - ?r\<bar> + \<bar>?r - (1 - y)\<bar> + \<bar>y - x\<bar>" by linarith
  ultimately have err: "\<bar>z - (1 - x)\<bar> \<le> 1 / 2 ^ 51" using r_err y(4) by simp
  show ?thesis
  proof (cases "0 < y")
    case True
    have "afterPenalty B (currentPhase B D pd) (bn_of_int a) = Fin (of_int a * z)"
      using True z(1) y(1) by (simp add: afterPenalty_def bignumber_lib.times_fin [OF assms(1)])
    moreover have "of_int a * z \<le> of_int a" using z assms(5) by (simp add: mult_left_le)
    moreover have "\<bar>of_int a * z - of_int a * (1 - x)\<bar> = of_int a * \<bar>z - (1 - x)\<bar>"
      using assms(5) by (simp add: abs_mult flip: right_diff_distrib)
    moreover have "of_int a * \<bar>z - (1 - x)\<bar> \<le> of_int a * (1 / 2 ^ 51)"
      using err assms(5) by (intro mult_left_mono) simp_all
    ultimately show ?thesis using that [of "of_int a * z"] z(2) assms(5) by (simp add: x_def)
  next
    case False
    then have "x \<le> 1 / 2 ^ 53" "0 \<le> x" using y assms(3) by (simp_all add: x_def MAX_PERCENTAGE_PRICE_DISCOVERY_def)
    then have "of_int a * x \<le> of_int a * (1 / 2 ^ 51)" using assms(5) by (intro mult_left_mono) simp_all
    then have "\<bar>of_int a - of_int a * (1 - x)\<bar> \<le> of_int a * (1 / 2 ^ 51)"
      using assms(5) \<open>0 \<le> x\<close> by (simp add: right_diff_distrib)
    moreover have "afterPenalty B (currentPhase B D pd) (bn_of_int a) = bn_of_int a"
      using False y(1) by (simp add: afterPenalty_def)
    ultimately show ?thesis using that [of "of_int a"] assms(5) by (simp add: x_def)
  qed
qed

section \<open>Taking deposits back\<close>

lemma priceDiscoveryAbi_endpoints:
  "map_of priceDiscoveryAbi ''deposit'' = Some ([], True)"
  "map_of priceDiscoveryAbi ''withdraw'' = Some ([], True)"
  "map_of priceDiscoveryAbi ''redeem'' = Some ([], True)"
  by (simp_all add: priceDiscoveryAbi_def)

lemma deposit_served:
  "pd_deposit cfg D pd t = Inr d \<longleftrightarrow>
   tokenID t \<in> {launchedTokenID D pd, acceptedTokenID D pd} \<and> nonce t \<le> 0 \<and>
   d = paid_call cfg pd ''deposit'' [] [fungible (tokenID t) (amount t)] (gas cfg ''priceDiscovery.deposit'')"
  by (auto simp: pd_deposit_def validateDepositInputTokens_def build_Inr priceDiscoveryAbi_endpoints)



section \<open>Witness\<close>

definition demo_pd :: pd_view where
  "demo_pd = \<lparr>pdAddresses = [''pd''], launchedTokenID = \<lambda>_. ''NEW'', acceptedTokenID = \<lambda>_. ''WEGLD'',
     redeemTokenID = \<lambda>_. ''RDM'', launchedTokenAmount = \<lambda>_. bn_of_int 1000, acceptedTokenAmount = \<lambda>_. bn_of_int 10,
     rawPhase = \<lambda>_. (''FixedPenalty'', Some (bn_of_int 5000000000000)), startBlock = \<lambda>_. 1, endBlock = \<lambda>_. 9,
     blockTimestamp = \<lambda>_. None, PDlatestValue = \<lambda>_ _. None\<rparr>"

definition demo_redeem :: input_token where
  "demo_redeem = \<lparr>tokenID = ''RDM'', nonce = 2, amount = bn_of_int 7\<rparr>"


text \<open>The amount to unwrap is not rounded: about half of seven units is no amount of a token.\<close>

lemma unwrap_of_a_fraction:
  assumes "bignumber_lib B"
  obtains w where "afterPenalty B (currentPhase B demo_pd ''pd'') (amount demo_redeem) = Fin w" "w \<noteq> of_int k"
proof -
  have "rawPhase demo_pd ''pd'' = (''FixedPenalty'', Some (bn_of_int 5000000000000))" by (simp add: demo_pd_def)
  moreover have "(0::int) \<le> 5000000000000" "(5000000000000::int) \<le> MAX_PERCENTAGE_PRICE_DISCOVERY" "(0::int) \<le> 7"
    by (simp_all add: MAX_PERCENTAGE_PRICE_DISCOVERY_def)
  ultimately obtain w where
    w: "afterPenalty B (currentPhase B demo_pd ''pd'') (bn_of_int 7) = Fin w" "0 \<le> w" "w \<le> of_int 7"
    "\<bar>w - of_int 7 * (1 - of_int 5000000000000 / of_int MAX_PERCENTAGE_PRICE_DISCOVERY)\<bar> \<le> of_int 7 / 2 ^ 51"
    by (rule afterPenalty_share [OF assms])
  have half: "\<bar>w - 7 / 2\<bar> \<le> 7 / 2 ^ 51" using w(4) by (simp add: MAX_PERCENTAGE_PRICE_DISCOVERY_def)
  have "w \<noteq> of_int k"
  proof
    assume "w = of_int k"
    moreover have "\<bar>w - 7 / 2\<bar> < 1 / 2" by (rule le_less_trans [OF half]) simp
    ultimately have "3 < rat_of_int k" "rat_of_int k < 4" by linarith+
    then have "3 < k" "k < 4" by simp_all
    then show False by simp
  qed
  then show ?thesis using that w(1) by (simp add: demo_redeem_def)
qed

end
