(* ===== verification/PriceDiscoveryReaders.thy ===== *)
theory PriceDiscoveryReaders
  imports ContractQueries PriceDiscovery
begin

text \<open>
  The readers of a price discovery contract, of the cached computations on it, and the writers of their entries
  (\<open>src/modules/price-discovery/services/price.discovery.abi.service.ts\<close>, \<open>price.discovery.compute.service.ts\<close>,
  \<open>price.discovery.setter.service.ts\<close>), with the cached computations on tokens and the writers of token entries
  (\<open>src/modules/tokens/services/token.compute.service.ts\<close>, \<open>token.service.ts\<close>, \<open>token.setter.service.ts\<close>).
\<close>

section \<open>The interface\<close>

definition price_discovery_views :: views where
  "price_discovery_views = [
    (''getMinLaunchedTokenPrice'', [], [BigUintT]),
    (''getLaunchedTokenId'', [], [TokenIdentifierT]),
    (''getAcceptedTokenId'', [], [TokenIdentifierT]),
    (''getLaunchedTokenBalance'', [], [BigUintT]),
    (''getAcceptedTokenBalance'', [], [BigUintT]),
    (''getStartBlock'', [], [UintT 64]),
    (''getEndBlock'', [], [UintT 64]),
    (''getLockingScAddress'', [], [AddressT]),
    (''getUnlockEpoch'', [], [UintT 64]),
    (''getCurrentPhase'', [], [EnumT [(''Idle'', []), (''NoPenalty'', []), (''LinearIncreasingPenalty'', [(''penalty_percentage'', BigUintT)]), (''OnlyWithdrawFixedPenalty'', [(''penalty_percentage'', BigUintT)]), (''Redeem'', [])]]),
    (''getNoLimitPhaseDurationBlocks'', [], [UintT 64]),
    (''getLinearPenaltyPhaseDurationBlocks'', [], [UintT 64]),
    (''getFixedPenaltyPhaseDurationBlocks'', [], [UintT 64]),
    (''getPenaltyMinPercentage'', [], [BigUintT]),
    (''getPenaltyMaxPercentage'', [], [BigUintT]),
    (''getFixedPenaltyPercentage'', [], [BigUintT]),
    (''getRedeemTokenTotalCirculatingSupply'', [UintT 64], [BigUintT]),
    (''getRedeemTokenId'', [], [TokenIdentifierT])]"

text \<open>A penalty as a fraction of the maximum.\<close>

definition penaltyFraction :: "bignumber \<Rightarrow> abi_value \<Rightarrow> jval res" where
  "penaltyFraction B v =
     (case v of VBig n \<Rightarrow>
        Inr (JNumber (toNumber (bn_div B (bn_of_int n) (bn_number B (of_int MAX_PERCENTAGE_PRICE_DISCOVERY)))))
      | _ \<Rightarrow> Inl TypeError)"

section \<open>Views of the contract\<close>

definition pd_getLaunchedTokenIDRaw :: "gateway \<Rightarrow> string \<Rightarrow> jval res" where
  "pd_getLaunchedTokenIDRaw G priceDiscoveryAddress = readView G price_discovery_views priceDiscoveryAddress ''getLaunchedTokenId'' [] asText"

definition pd_launchedTokenID :: "'c cache_service \<Rightarrow> gateway \<Rightarrow> string \<Rightarrow> 'c \<Rightarrow> jval res \<times> 'c" where
  "pd_launchedTokenID K G priceDiscoveryAddress = GetOrSetCache K (historyTimestamp G) ''priceDiscovery'' TokenTtl ''launchedTokenID'' [KText priceDiscoveryAddress]
     (uncached (pd_getLaunchedTokenIDRaw G priceDiscoveryAddress))"

definition pd_getAcceptedTokenIDRaw :: "gateway \<Rightarrow> string \<Rightarrow> jval res" where
  "pd_getAcceptedTokenIDRaw G priceDiscoveryAddress = readView G price_discovery_views priceDiscoveryAddress ''getAcceptedTokenId'' [] asText"

definition pd_acceptedTokenID :: "'c cache_service \<Rightarrow> gateway \<Rightarrow> string \<Rightarrow> 'c \<Rightarrow> jval res \<times> 'c" where
  "pd_acceptedTokenID K G priceDiscoveryAddress = GetOrSetCache K (historyTimestamp G) ''priceDiscovery'' TokenTtl ''acceptedTokenID'' [KText priceDiscoveryAddress]
     (uncached (pd_getAcceptedTokenIDRaw G priceDiscoveryAddress))"

definition pd_getRedeemTokenIDRaw :: "gateway \<Rightarrow> string \<Rightarrow> jval res" where
  "pd_getRedeemTokenIDRaw G priceDiscoveryAddress = readView G price_discovery_views priceDiscoveryAddress ''getRedeemTokenId'' [] asText"

definition pd_redeemTokenID :: "'c cache_service \<Rightarrow> gateway \<Rightarrow> string \<Rightarrow> 'c \<Rightarrow> jval res \<times> 'c" where
  "pd_redeemTokenID K G priceDiscoveryAddress = GetOrSetCache K (historyTimestamp G) ''priceDiscovery'' TokenTtl ''redeemTokenID'' [KText priceDiscoveryAddress]
     (uncached (pd_getRedeemTokenIDRaw G priceDiscoveryAddress))"

definition pd_getLaunchedTokenBalanceRaw :: "gateway \<Rightarrow> string \<Rightarrow> jval res" where
  "pd_getLaunchedTokenBalanceRaw G priceDiscoveryAddress = readView G price_discovery_views priceDiscoveryAddress ''getLaunchedTokenBalance'' [] asFixed"

definition pd_launchedTokenAmount :: "'c cache_service \<Rightarrow> gateway \<Rightarrow> string \<Rightarrow> 'c \<Rightarrow> jval res \<times> 'c" where
  "pd_launchedTokenAmount K G priceDiscoveryAddress = GetOrSetCache K (historyTimestamp G) ''priceDiscovery'' ContractBalanceTtl ''launchedTokenAmount'' [KText priceDiscoveryAddress]
     (uncached (pd_getLaunchedTokenBalanceRaw G priceDiscoveryAddress))"

definition pd_getAcceptedTokenBalanceRaw :: "gateway \<Rightarrow> string \<Rightarrow> jval res" where
  "pd_getAcceptedTokenBalanceRaw G priceDiscoveryAddress = readView G price_discovery_views priceDiscoveryAddress ''getAcceptedTokenBalance'' [] asFixed"

definition pd_acceptedTokenAmount :: "'c cache_service \<Rightarrow> gateway \<Rightarrow> string \<Rightarrow> 'c \<Rightarrow> jval res \<times> 'c" where
  "pd_acceptedTokenAmount K G priceDiscoveryAddress = GetOrSetCache K (historyTimestamp G) ''priceDiscovery'' ContractBalanceTtl ''acceptedTokenAmount'' [KText priceDiscoveryAddress]
     (uncached (pd_getAcceptedTokenBalanceRaw G priceDiscoveryAddress))"

definition pd_getLaunchedTokenRedeemBalanceRaw :: "gateway \<Rightarrow> string \<Rightarrow> jval res" where
  "pd_getLaunchedTokenRedeemBalanceRaw G priceDiscoveryAddress = readView G price_discovery_views priceDiscoveryAddress ''getRedeemTokenTotalCirculatingSupply'' [Typed (U64V (bn_of_int 1))] asFixed"

definition pd_launchedTokenRedeemAmount :: "'c cache_service \<Rightarrow> gateway \<Rightarrow> string \<Rightarrow> 'c \<Rightarrow> jval res \<times> 'c" where
  "pd_launchedTokenRedeemAmount K G priceDiscoveryAddress = GetOrSetCache K (historyTimestamp G) ''priceDiscovery'' ContractBalanceTtl ''launchedTokenRedeemAmount'' [KText priceDiscoveryAddress]
     (uncached (pd_getLaunchedTokenRedeemBalanceRaw G priceDiscoveryAddress))"

definition pd_getAcceptedTokenRedeemBalanceRaw :: "gateway \<Rightarrow> string \<Rightarrow> jval res" where
  "pd_getAcceptedTokenRedeemBalanceRaw G priceDiscoveryAddress = readView G price_discovery_views priceDiscoveryAddress ''getRedeemTokenTotalCirculatingSupply'' [Typed (U64V (bn_of_int 2))] asFixed"

definition pd_acceptedTokenRedeemAmount :: "'c cache_service \<Rightarrow> gateway \<Rightarrow> string \<Rightarrow> 'c \<Rightarrow> jval res \<times> 'c" where
  "pd_acceptedTokenRedeemAmount K G priceDiscoveryAddress = GetOrSetCache K (historyTimestamp G) ''priceDiscovery'' ContractBalanceTtl ''acceptedTokenRedeemAmount'' [KText priceDiscoveryAddress]
     (uncached (pd_getAcceptedTokenRedeemBalanceRaw G priceDiscoveryAddress))"

definition pd_getStartBlockRaw :: "gateway \<Rightarrow> string \<Rightarrow> jval res" where
  "pd_getStartBlockRaw G priceDiscoveryAddress = readView G price_discovery_views priceDiscoveryAddress ''getStartBlock'' [] asNumber"

definition pd_startBlock :: "'c cache_service \<Rightarrow> gateway \<Rightarrow> string \<Rightarrow> 'c \<Rightarrow> jval res \<times> 'c" where
  "pd_startBlock K G priceDiscoveryAddress = GetOrSetCache K (historyTimestamp G) ''priceDiscovery'' ContractStateTtl ''startBlock'' [KText priceDiscoveryAddress]
     (uncached (pd_getStartBlockRaw G priceDiscoveryAddress))"

definition pd_getEndBlockRaw :: "gateway \<Rightarrow> string \<Rightarrow> jval res" where
  "pd_getEndBlockRaw G priceDiscoveryAddress = readView G price_discovery_views priceDiscoveryAddress ''getEndBlock'' [] asNumber"

definition pd_endBlock :: "'c cache_service \<Rightarrow> gateway \<Rightarrow> string \<Rightarrow> 'c \<Rightarrow> jval res \<times> 'c" where
  "pd_endBlock K G priceDiscoveryAddress = GetOrSetCache K (historyTimestamp G) ''priceDiscovery'' ContractStateTtl ''endBlock'' [KText priceDiscoveryAddress]
     (uncached (pd_getEndBlockRaw G priceDiscoveryAddress))"

text \<open>The phase and its penalty; a phase without one, or with a penalty that is not a value, has penalty 0.\<close>

definition pd_getCurrentPhaseRaw :: "gateway \<Rightarrow> bignumber \<Rightarrow> string \<Rightarrow> jval res" where
  "pd_getCurrentPhaseRaw G B priceDiscoveryAddress =
     readView G price_discovery_views priceDiscoveryAddress ''getCurrentPhase'' []
       (\<lambda>v. case v of
          VEnum phaseName fs \<Rightarrow>
            res_bind (case map_of fs ''penalty_percentage'' of
                Some penalty \<Rightarrow> if penalty = VNull then Inr (JNumber (JNum 0)) else penaltyFraction B penalty
              | None \<Rightarrow> Inr (JNumber (JNum 0)))
              (\<lambda>penaltyPercent. Inr (JObject [(''name'', JText phaseName), (''penaltyPercent'', penaltyPercent)]))
        | _ \<Rightarrow> Inl TypeError)"

definition pd_currentPhase :: "'c cache_service \<Rightarrow> gateway \<Rightarrow> bignumber \<Rightarrow> string \<Rightarrow> 'c \<Rightarrow> jval res \<times> 'c" where
  "pd_currentPhase K G B priceDiscoveryAddress =
     GetOrSetCache K (historyTimestamp G) ''priceDiscovery'' ContractStateTtl ''currentPhase'' [KText priceDiscoveryAddress]
       (uncached (pd_getCurrentPhaseRaw G B priceDiscoveryAddress))"

definition pd_getMinLaunchedTokenPriceRaw :: "gateway \<Rightarrow> string \<Rightarrow> jval res" where
  "pd_getMinLaunchedTokenPriceRaw G priceDiscoveryAddress = readView G price_discovery_views priceDiscoveryAddress ''getMinLaunchedTokenPrice'' [] asFixed"

definition pd_minLaunchedTokenPrice :: "'c cache_service \<Rightarrow> gateway \<Rightarrow> string \<Rightarrow> 'c \<Rightarrow> jval res \<times> 'c" where
  "pd_minLaunchedTokenPrice K G priceDiscoveryAddress = GetOrSetCache K (historyTimestamp G) ''priceDiscovery'' ContractStateTtl ''minLaunchedTokenPrice'' [KText priceDiscoveryAddress]
     (uncached (pd_getMinLaunchedTokenPriceRaw G priceDiscoveryAddress))"

definition pd_getNoLimitPhaseDurationBlocksRaw :: "gateway \<Rightarrow> string \<Rightarrow> jval res" where
  "pd_getNoLimitPhaseDurationBlocksRaw G priceDiscoveryAddress = readView G price_discovery_views priceDiscoveryAddress ''getNoLimitPhaseDurationBlocks'' [] asNumber"

definition pd_noLimitPhaseDurationBlocks :: "'c cache_service \<Rightarrow> gateway \<Rightarrow> string \<Rightarrow> 'c \<Rightarrow> jval res \<times> 'c" where
  "pd_noLimitPhaseDurationBlocks K G priceDiscoveryAddress = GetOrSetCache K (historyTimestamp G) ''priceDiscovery'' ContractStateTtl ''noLimitPhaseDurationBlocks'' [KText priceDiscoveryAddress]
     (uncached (pd_getNoLimitPhaseDurationBlocksRaw G priceDiscoveryAddress))"

definition pd_getLinearPenaltyPhaseDurationBlocksRaw :: "gateway \<Rightarrow> string \<Rightarrow> jval res" where
  "pd_getLinearPenaltyPhaseDurationBlocksRaw G priceDiscoveryAddress = readView G price_discovery_views priceDiscoveryAddress ''getLinearPenaltyPhaseDurationBlocks'' [] asNumber"

definition pd_linearPenaltyPhaseDurationBlocks :: "'c cache_service \<Rightarrow> gateway \<Rightarrow> string \<Rightarrow> 'c \<Rightarrow> jval res \<times> 'c" where
  "pd_linearPenaltyPhaseDurationBlocks K G priceDiscoveryAddress = GetOrSetCache K (historyTimestamp G) ''priceDiscovery'' ContractStateTtl ''linearPenaltyPhaseDurationBlocks'' [KText priceDiscoveryAddress]
     (uncached (pd_getLinearPenaltyPhaseDurationBlocksRaw G priceDiscoveryAddress))"

definition pd_getFixedPenaltyPhaseDurationBlocksRaw :: "gateway \<Rightarrow> string \<Rightarrow> jval res" where
  "pd_getFixedPenaltyPhaseDurationBlocksRaw G priceDiscoveryAddress = readView G price_discovery_views priceDiscoveryAddress ''getFixedPenaltyPhaseDurationBlocks'' [] asNumber"

definition pd_fixedPenaltyPhaseDurationBlocks :: "'c cache_service \<Rightarrow> gateway \<Rightarrow> string \<Rightarrow> 'c \<Rightarrow> jval res \<times> 'c" where
  "pd_fixedPenaltyPhaseDurationBlocks K G priceDiscoveryAddress = GetOrSetCache K (historyTimestamp G) ''priceDiscovery'' ContractStateTtl ''fixedPenaltyPhaseDurationBlocks'' [KText priceDiscoveryAddress]
     (uncached (pd_getFixedPenaltyPhaseDurationBlocksRaw G priceDiscoveryAddress))"

definition pd_getLockingScAddressRaw :: "gateway \<Rightarrow> string \<Rightarrow> jval res" where
  "pd_getLockingScAddressRaw G priceDiscoveryAddress = readView G price_discovery_views priceDiscoveryAddress ''getLockingScAddress'' [] asText"

definition pd_lockingScAddress :: "'c cache_service \<Rightarrow> gateway \<Rightarrow> string \<Rightarrow> 'c \<Rightarrow> jval res \<times> 'c" where
  "pd_lockingScAddress K G priceDiscoveryAddress = GetOrSetCache K (historyTimestamp G) ''priceDiscovery'' ContractStateTtl ''lockingScAddress'' [KText priceDiscoveryAddress]
     (uncached (pd_getLockingScAddressRaw G priceDiscoveryAddress))"

definition pd_getUnlockEpochRaw :: "gateway \<Rightarrow> string \<Rightarrow> jval res" where
  "pd_getUnlockEpochRaw G priceDiscoveryAddress = readView G price_discovery_views priceDiscoveryAddress ''getUnlockEpoch'' [] asNumber"

definition pd_unlockEpoch :: "'c cache_service \<Rightarrow> gateway \<Rightarrow> string \<Rightarrow> 'c \<Rightarrow> jval res \<times> 'c" where
  "pd_unlockEpoch K G priceDiscoveryAddress = GetOrSetCache K (historyTimestamp G) ''priceDiscovery'' ContractStateTtl ''unlockEpoch'' [KText priceDiscoveryAddress]
     (uncached (pd_getUnlockEpochRaw G priceDiscoveryAddress))"

definition pd_getPenaltyMinPercentageRaw :: "gateway \<Rightarrow> bignumber \<Rightarrow> string \<Rightarrow> jval res" where
  "pd_getPenaltyMinPercentageRaw G B priceDiscoveryAddress =
     readView G price_discovery_views priceDiscoveryAddress ''getPenaltyMinPercentage'' [] (penaltyFraction B)"

definition pd_penaltyMinPercentage :: "'c cache_service \<Rightarrow> gateway \<Rightarrow> bignumber \<Rightarrow> string \<Rightarrow> 'c \<Rightarrow> jval res \<times> 'c" where
  "pd_penaltyMinPercentage K G B priceDiscoveryAddress =
     GetOrSetCache K (historyTimestamp G) ''priceDiscovery'' ContractStateTtl ''penaltyMinPercentage'' [KText priceDiscoveryAddress]
       (uncached (pd_getPenaltyMinPercentageRaw G B priceDiscoveryAddress))"

definition pd_getPenaltyMaxPercentageRaw :: "gateway \<Rightarrow> bignumber \<Rightarrow> string \<Rightarrow> jval res" where
  "pd_getPenaltyMaxPercentageRaw G B priceDiscoveryAddress =
     readView G price_discovery_views priceDiscoveryAddress ''getPenaltyMaxPercentage'' [] (penaltyFraction B)"

definition pd_penaltyMaxPercentage :: "'c cache_service \<Rightarrow> gateway \<Rightarrow> bignumber \<Rightarrow> string \<Rightarrow> 'c \<Rightarrow> jval res \<times> 'c" where
  "pd_penaltyMaxPercentage K G B priceDiscoveryAddress =
     GetOrSetCache K (historyTimestamp G) ''priceDiscovery'' ContractStateTtl ''penaltyMaxPercentage'' [KText priceDiscoveryAddress]
       (uncached (pd_getPenaltyMaxPercentageRaw G B priceDiscoveryAddress))"

definition pd_getFixedPenaltyPercentageRaw :: "gateway \<Rightarrow> bignumber \<Rightarrow> string \<Rightarrow> jval res" where
  "pd_getFixedPenaltyPercentageRaw G B priceDiscoveryAddress =
     readView G price_discovery_views priceDiscoveryAddress ''getFixedPenaltyPercentage'' [] (penaltyFraction B)"

definition pd_fixedPenaltyPercentage :: "'c cache_service \<Rightarrow> gateway \<Rightarrow> bignumber \<Rightarrow> string \<Rightarrow> 'c \<Rightarrow> jval res \<times> 'c" where
  "pd_fixedPenaltyPercentage K G B priceDiscoveryAddress =
     GetOrSetCache K (historyTimestamp G) ''priceDiscovery'' ContractStateTtl ''fixedPenaltyPercentage'' [KText priceDiscoveryAddress]
       (uncached (pd_getFixedPenaltyPercentageRaw G B priceDiscoveryAddress))"

section \<open>Cached computations\<close>

definition pd_launchedTokenPrice :: "'c cache_service \<Rightarrow> gateway \<Rightarrow> ('c \<Rightarrow> jval res \<times> 'c) \<Rightarrow> string \<Rightarrow> 'c \<Rightarrow> jval res \<times> 'c" where
  "pd_launchedTokenPrice K G compute priceDiscoveryAddress = GetOrSetCache K (historyTimestamp G) ''priceDiscovery'' PriceTtl ''launchedTokenPrice'' [KText priceDiscoveryAddress] compute"

definition pd_acceptedTokenPrice :: "'c cache_service \<Rightarrow> gateway \<Rightarrow> ('c \<Rightarrow> jval res \<times> 'c) \<Rightarrow> string \<Rightarrow> 'c \<Rightarrow> jval res \<times> 'c" where
  "pd_acceptedTokenPrice K G compute priceDiscoveryAddress = GetOrSetCache K (historyTimestamp G) ''priceDiscovery'' PriceTtl ''acceptedTokenPrice'' [KText priceDiscoveryAddress] compute"

definition pd_launchedTokenPriceUSD :: "'c cache_service \<Rightarrow> gateway \<Rightarrow> ('c \<Rightarrow> jval res \<times> 'c) \<Rightarrow> string \<Rightarrow> 'c \<Rightarrow> jval res \<times> 'c" where
  "pd_launchedTokenPriceUSD K G compute priceDiscoveryAddress = GetOrSetCache K (historyTimestamp G) ''priceDiscovery'' PriceTtl ''launchedTokenPriceUSD'' [KText priceDiscoveryAddress] compute"

definition pd_acceptedTokenPriceUSD :: "'c cache_service \<Rightarrow> gateway \<Rightarrow> ('c \<Rightarrow> jval res \<times> 'c) \<Rightarrow> string \<Rightarrow> 'c \<Rightarrow> jval res \<times> 'c" where
  "pd_acceptedTokenPriceUSD K G compute priceDiscoveryAddress = GetOrSetCache K (historyTimestamp G) ''priceDiscovery'' PriceTtl ''acceptedTokenPriceUSD'' [KText priceDiscoveryAddress] compute"

definition pd_closingValues :: "'c cache_service \<Rightarrow> gateway \<Rightarrow> ('c \<Rightarrow> jval res \<times> 'c) \<Rightarrow> string \<Rightarrow> string \<Rightarrow> string \<Rightarrow> 'c \<Rightarrow> jval res \<times> 'c" where
  "pd_closingValues K G compute priceDiscoveryAddress metric interval = GetOrSetCache K (historyTimestamp G) ''priceDiscovery'' AnalyticsTtl ''closingValues'' [KText priceDiscoveryAddress, KText metric, KText interval] compute"

section \<open>Writers\<close>

definition pd_setLaunchedTokenID :: "'c cache_service \<Rightarrow> string \<Rightarrow> jval \<Rightarrow> 'c \<Rightarrow> string \<times> 'c" where
  "pd_setLaunchedTokenID K priceDiscoveryAddress v = setData K (getCacheKey ''priceDiscovery'' [KText ''launchedTokenID'', KText priceDiscoveryAddress]) v TokenTtl"

definition pd_setAcceptedTokenID :: "'c cache_service \<Rightarrow> string \<Rightarrow> jval \<Rightarrow> 'c \<Rightarrow> string \<times> 'c" where
  "pd_setAcceptedTokenID K priceDiscoveryAddress v = setData K (getCacheKey ''priceDiscovery'' [KText ''acceptedTokenID'', KText priceDiscoveryAddress]) v TokenTtl"

definition pd_setRedeemTokenID :: "'c cache_service \<Rightarrow> string \<Rightarrow> jval \<Rightarrow> 'c \<Rightarrow> string \<times> 'c" where
  "pd_setRedeemTokenID K priceDiscoveryAddress v = setData K (getCacheKey ''priceDiscovery'' [KText ''redeemTokenID'', KText priceDiscoveryAddress]) v TokenTtl"

definition pd_setLaunchedTokenAmount :: "'c cache_service \<Rightarrow> string \<Rightarrow> jval \<Rightarrow> 'c \<Rightarrow> string \<times> 'c" where
  "pd_setLaunchedTokenAmount K priceDiscoveryAddress v = setData K (getCacheKey ''priceDiscovery'' [KText ''launchedTokenAmount'', KText priceDiscoveryAddress]) v ContractBalanceTtl"

definition pd_setAcceptedTokenAmount :: "'c cache_service \<Rightarrow> string \<Rightarrow> jval \<Rightarrow> 'c \<Rightarrow> string \<times> 'c" where
  "pd_setAcceptedTokenAmount K priceDiscoveryAddress v = setData K (getCacheKey ''priceDiscovery'' [KText ''acceptedTokenAmount'', KText priceDiscoveryAddress]) v ContractBalanceTtl"

definition pd_setLaunchedTokenRedeemBalance :: "'c cache_service \<Rightarrow> string \<Rightarrow> jval \<Rightarrow> 'c \<Rightarrow> string \<times> 'c" where
  "pd_setLaunchedTokenRedeemBalance K priceDiscoveryAddress v = setData K (getCacheKey ''priceDiscovery'' [KText ''launchedTokenRedeemAmount'', KText priceDiscoveryAddress]) v ContractBalanceTtl"

definition pd_setAcceptedTokenRedeemBalance :: "'c cache_service \<Rightarrow> string \<Rightarrow> jval \<Rightarrow> 'c \<Rightarrow> string \<times> 'c" where
  "pd_setAcceptedTokenRedeemBalance K priceDiscoveryAddress v = setData K (getCacheKey ''priceDiscovery'' [KText ''acceptedTokenRedeemAmount'', KText priceDiscoveryAddress]) v ContractBalanceTtl"

definition pd_setLaunchedTokenPrice :: "'c cache_service \<Rightarrow> string \<Rightarrow> jval \<Rightarrow> 'c \<Rightarrow> string \<times> 'c" where
  "pd_setLaunchedTokenPrice K priceDiscoveryAddress v = setData K (getCacheKey ''priceDiscovery'' [KText ''launchedTokenPrice'', KText priceDiscoveryAddress]) v PriceTtl"

definition pd_setAcceptedTokenPrice :: "'c cache_service \<Rightarrow> string \<Rightarrow> jval \<Rightarrow> 'c \<Rightarrow> string \<times> 'c" where
  "pd_setAcceptedTokenPrice K priceDiscoveryAddress v = setData K (getCacheKey ''priceDiscovery'' [KText ''acceptedTokenPrice'', KText priceDiscoveryAddress]) v PriceTtl"

definition pd_setLaunchedTokenPriceUSD :: "'c cache_service \<Rightarrow> string \<Rightarrow> jval \<Rightarrow> 'c \<Rightarrow> string \<times> 'c" where
  "pd_setLaunchedTokenPriceUSD K priceDiscoveryAddress v = setData K (getCacheKey ''priceDiscovery'' [KText ''launchedTokenPriceUSD'', KText priceDiscoveryAddress]) v PriceTtl"

definition pd_setAcceptedTokenPriceUSD :: "'c cache_service \<Rightarrow> string \<Rightarrow> jval \<Rightarrow> 'c \<Rightarrow> string \<times> 'c" where
  "pd_setAcceptedTokenPriceUSD K priceDiscoveryAddress v = setData K (getCacheKey ''priceDiscovery'' [KText ''acceptedTokenPriceUSD'', KText priceDiscoveryAddress]) v PriceTtl"

definition pd_setStartBlock :: "'c cache_service \<Rightarrow> string \<Rightarrow> jval \<Rightarrow> 'c \<Rightarrow> string \<times> 'c" where
  "pd_setStartBlock K priceDiscoveryAddress v = setData K (getCacheKey ''priceDiscovery'' [KText ''startEpoch'', KText priceDiscoveryAddress]) v ContractStateTtl"

definition pd_setEndBlock :: "'c cache_service \<Rightarrow> string \<Rightarrow> jval \<Rightarrow> 'c \<Rightarrow> string \<times> 'c" where
  "pd_setEndBlock K priceDiscoveryAddress v = setData K (getCacheKey ''priceDiscovery'' [KText ''endEpoch'', KText priceDiscoveryAddress]) v ContractStateTtl"

definition pd_setCurrentPhase :: "'c cache_service \<Rightarrow> string \<Rightarrow> jval \<Rightarrow> 'c \<Rightarrow> string \<times> 'c" where
  "pd_setCurrentPhase K priceDiscoveryAddress v = setData K (getCacheKey ''priceDiscovery'' [KText ''currentPhase'', KText priceDiscoveryAddress]) v ContractStateTtl"

definition pd_setMinLaunchedTokenPrice :: "'c cache_service \<Rightarrow> string \<Rightarrow> jval \<Rightarrow> 'c \<Rightarrow> string \<times> 'c" where
  "pd_setMinLaunchedTokenPrice K priceDiscoveryAddress v = setData K (getCacheKey ''priceDiscovery'' [KText ''minLaunchedTokenPrice'', KText priceDiscoveryAddress]) v ContractStateTtl"

definition pd_setNoLimitPhaseDurationBlocks :: "'c cache_service \<Rightarrow> string \<Rightarrow> jval \<Rightarrow> 'c \<Rightarrow> string \<times> 'c" where
  "pd_setNoLimitPhaseDurationBlocks K priceDiscoveryAddress v = setData K (getCacheKey ''priceDiscovery'' [KText ''noLimitPhaseDurationBlocks'', KText priceDiscoveryAddress]) v ContractStateTtl"

definition pd_setLinearPenaltyPhaseDurationBlocks :: "'c cache_service \<Rightarrow> string \<Rightarrow> jval \<Rightarrow> 'c \<Rightarrow> string \<times> 'c" where
  "pd_setLinearPenaltyPhaseDurationBlocks K priceDiscoveryAddress v = setData K (getCacheKey ''priceDiscovery'' [KText ''linearPenaltyPhaseDurationBlocks'', KText priceDiscoveryAddress]) v ContractStateTtl"

definition pd_setFixedPenaltyPhaseDurationBlocks :: "'c cache_service \<Rightarrow> string \<Rightarrow> jval \<Rightarrow> 'c \<Rightarrow> string \<times> 'c" where
  "pd_setFixedPenaltyPhaseDurationBlocks K priceDiscoveryAddress v = setData K (getCacheKey ''priceDiscovery'' [KText ''fixedPenaltyPhaseDurationBlocks'', KText priceDiscoveryAddress]) v ContractStateTtl"

definition pd_setLockingScAddress :: "'c cache_service \<Rightarrow> string \<Rightarrow> jval \<Rightarrow> 'c \<Rightarrow> string \<times> 'c" where
  "pd_setLockingScAddress K priceDiscoveryAddress v = setData K (getCacheKey ''priceDiscovery'' [KText ''lockingScAddress'', KText priceDiscoveryAddress]) v ContractStateTtl"

definition pd_setUnlockEpoch :: "'c cache_service \<Rightarrow> string \<Rightarrow> jval \<Rightarrow> 'c \<Rightarrow> string \<times> 'c" where
  "pd_setUnlockEpoch K priceDiscoveryAddress v = setData K (getCacheKey ''priceDiscovery'' [KText ''unlockEpoch'', KText priceDiscoveryAddress]) v ContractStateTtl"

definition pd_setPenaltyMinPercentage :: "'c cache_service \<Rightarrow> string \<Rightarrow> jval \<Rightarrow> 'c \<Rightarrow> string \<times> 'c" where
  "pd_setPenaltyMinPercentage K priceDiscoveryAddress v = setData K (getCacheKey ''priceDiscovery'' [KText ''penaltyMinPercentage'', KText priceDiscoveryAddress]) v ContractStateTtl"

definition pd_setPenaltyMaxPercentage :: "'c cache_service \<Rightarrow> string \<Rightarrow> jval \<Rightarrow> 'c \<Rightarrow> string \<times> 'c" where
  "pd_setPenaltyMaxPercentage K priceDiscoveryAddress v = setData K (getCacheKey ''priceDiscovery'' [KText ''penaltyMaxPercentage'', KText priceDiscoveryAddress]) v ContractStateTtl"

definition pd_setFixedPenaltyPercentage :: "'c cache_service \<Rightarrow> string \<Rightarrow> jval \<Rightarrow> 'c \<Rightarrow> string \<times> 'c" where
  "pd_setFixedPenaltyPercentage K priceDiscoveryAddress v = setData K (getCacheKey ''priceDiscovery'' [KText ''fixedPenaltyPercentage'', KText priceDiscoveryAddress]) v ContractStateTtl"

section \<open>What the readers return\<close>

lemmas pd_raw_defs = pd_getLaunchedTokenIDRaw_def pd_getAcceptedTokenIDRaw_def pd_getRedeemTokenIDRaw_def pd_getLaunchedTokenBalanceRaw_def pd_getAcceptedTokenBalanceRaw_def pd_getLaunchedTokenRedeemBalanceRaw_def pd_getAcceptedTokenRedeemBalanceRaw_def pd_getStartBlockRaw_def pd_getEndBlockRaw_def pd_getMinLaunchedTokenPriceRaw_def pd_getNoLimitPhaseDurationBlocksRaw_def pd_getLinearPenaltyPhaseDurationBlocksRaw_def pd_getFixedPenaltyPhaseDurationBlocksRaw_def pd_getLockingScAddressRaw_def pd_getUnlockEpochRaw_def

text \<open>
  On a price discovery contract that answers as its interface file says, its readers return a value of the kind they promise.
\<close>

theorem pd_readers_typed:
  assumes "gatewayAnswers G price_discovery_views priceDiscoveryAddress"
  shows "returns TextR (pd_getLaunchedTokenIDRaw G priceDiscoveryAddress) \<and>
    returns TextR (pd_getAcceptedTokenIDRaw G priceDiscoveryAddress) \<and>
    returns TextR (pd_getRedeemTokenIDRaw G priceDiscoveryAddress) \<and>
    returns AmountR (pd_getLaunchedTokenBalanceRaw G priceDiscoveryAddress) \<and>
    returns AmountR (pd_getAcceptedTokenBalanceRaw G priceDiscoveryAddress) \<and>
    returns AmountR (pd_getLaunchedTokenRedeemBalanceRaw G priceDiscoveryAddress) \<and>
    returns AmountR (pd_getAcceptedTokenRedeemBalanceRaw G priceDiscoveryAddress) \<and>
    returns NumberR (pd_getStartBlockRaw G priceDiscoveryAddress) \<and>
    returns NumberR (pd_getEndBlockRaw G priceDiscoveryAddress) \<and>
    returns AmountR (pd_getMinLaunchedTokenPriceRaw G priceDiscoveryAddress) \<and>
    returns NumberR (pd_getNoLimitPhaseDurationBlocksRaw G priceDiscoveryAddress) \<and>
    returns NumberR (pd_getLinearPenaltyPhaseDurationBlocksRaw G priceDiscoveryAddress) \<and>
    returns NumberR (pd_getFixedPenaltyPhaseDurationBlocksRaw G priceDiscoveryAddress) \<and>
    returns TextR (pd_getLockingScAddressRaw G priceDiscoveryAddress) \<and>
    returns NumberR (pd_getUnlockEpochRaw G priceDiscoveryAddress)"
  unfolding pd_raw_defs
  by (intro conjI readView_returns [OF assms]; simp add: price_discovery_views_def decoding)

lemmas pd_reader_defs = pd_launchedTokenID_def pd_acceptedTokenID_def pd_redeemTokenID_def pd_launchedTokenAmount_def pd_acceptedTokenAmount_def pd_launchedTokenRedeemAmount_def pd_acceptedTokenRedeemAmount_def pd_launchedTokenPrice_def pd_acceptedTokenPrice_def pd_launchedTokenPriceUSD_def pd_acceptedTokenPriceUSD_def pd_currentPhase_def pd_minLaunchedTokenPrice_def pd_noLimitPhaseDurationBlocks_def pd_linearPenaltyPhaseDurationBlocks_def pd_fixedPenaltyPhaseDurationBlocks_def pd_lockingScAddress_def pd_unlockEpoch_def pd_penaltyMinPercentage_def pd_penaltyMaxPercentage_def pd_fixedPenaltyPercentage_def

lemmas pd_writer_defs = pd_setLaunchedTokenID_def pd_setAcceptedTokenID_def pd_setRedeemTokenID_def pd_setLaunchedTokenAmount_def pd_setAcceptedTokenAmount_def pd_setLaunchedTokenRedeemBalance_def pd_setAcceptedTokenRedeemBalance_def pd_setLaunchedTokenPrice_def pd_setAcceptedTokenPrice_def pd_setLaunchedTokenPriceUSD_def pd_setAcceptedTokenPriceUSD_def pd_setCurrentPhase_def pd_setMinLaunchedTokenPrice_def pd_setNoLimitPhaseDurationBlocks_def pd_setLinearPenaltyPhaseDurationBlocks_def pd_setFixedPenaltyPhaseDurationBlocks_def pd_setLockingScAddress_def pd_setUnlockEpoch_def pd_setPenaltyMinPercentage_def pd_setPenaltyMaxPercentage_def pd_setFixedPenaltyPercentage_def

text \<open>
  Every writer of a price discovery contract but those listed after it reaches the reader of the same name.
\<close>

theorem pd_writers_reach_readers:
  assumes "cache_lib K" "historyTimestamp G = None" "storable v"
  shows "reaches (pd_setLaunchedTokenID K priceDiscoveryAddress v) (pd_launchedTokenID K G priceDiscoveryAddress) v \<and>
    reaches (pd_setAcceptedTokenID K priceDiscoveryAddress v) (pd_acceptedTokenID K G priceDiscoveryAddress) v \<and>
    reaches (pd_setRedeemTokenID K priceDiscoveryAddress v) (pd_redeemTokenID K G priceDiscoveryAddress) v \<and>
    reaches (pd_setLaunchedTokenAmount K priceDiscoveryAddress v) (pd_launchedTokenAmount K G priceDiscoveryAddress) v \<and>
    reaches (pd_setAcceptedTokenAmount K priceDiscoveryAddress v) (pd_acceptedTokenAmount K G priceDiscoveryAddress) v \<and>
    reaches (pd_setLaunchedTokenRedeemBalance K priceDiscoveryAddress v) (pd_launchedTokenRedeemAmount K G priceDiscoveryAddress) v \<and>
    reaches (pd_setAcceptedTokenRedeemBalance K priceDiscoveryAddress v) (pd_acceptedTokenRedeemAmount K G priceDiscoveryAddress) v \<and>
    reaches (pd_setLaunchedTokenPrice K priceDiscoveryAddress v) (pd_launchedTokenPrice K G compute priceDiscoveryAddress) v \<and>
    reaches (pd_setAcceptedTokenPrice K priceDiscoveryAddress v) (pd_acceptedTokenPrice K G compute priceDiscoveryAddress) v \<and>
    reaches (pd_setLaunchedTokenPriceUSD K priceDiscoveryAddress v) (pd_launchedTokenPriceUSD K G compute priceDiscoveryAddress) v \<and>
    reaches (pd_setAcceptedTokenPriceUSD K priceDiscoveryAddress v) (pd_acceptedTokenPriceUSD K G compute priceDiscoveryAddress) v \<and>
    reaches (pd_setCurrentPhase K priceDiscoveryAddress v) (pd_currentPhase K G B priceDiscoveryAddress) v \<and>
    reaches (pd_setMinLaunchedTokenPrice K priceDiscoveryAddress v) (pd_minLaunchedTokenPrice K G priceDiscoveryAddress) v \<and>
    reaches (pd_setNoLimitPhaseDurationBlocks K priceDiscoveryAddress v) (pd_noLimitPhaseDurationBlocks K G priceDiscoveryAddress) v \<and>
    reaches (pd_setLinearPenaltyPhaseDurationBlocks K priceDiscoveryAddress v) (pd_linearPenaltyPhaseDurationBlocks K G priceDiscoveryAddress) v \<and>
    reaches (pd_setFixedPenaltyPhaseDurationBlocks K priceDiscoveryAddress v) (pd_fixedPenaltyPhaseDurationBlocks K G priceDiscoveryAddress) v \<and>
    reaches (pd_setLockingScAddress K priceDiscoveryAddress v) (pd_lockingScAddress K G priceDiscoveryAddress) v \<and>
    reaches (pd_setUnlockEpoch K priceDiscoveryAddress v) (pd_unlockEpoch K G priceDiscoveryAddress) v \<and>
    reaches (pd_setPenaltyMinPercentage K priceDiscoveryAddress v) (pd_penaltyMinPercentage K G B priceDiscoveryAddress) v \<and>
    reaches (pd_setPenaltyMaxPercentage K priceDiscoveryAddress v) (pd_penaltyMaxPercentage K G B priceDiscoveryAddress) v \<and>
    reaches (pd_setFixedPenaltyPercentage K priceDiscoveryAddress v) (pd_fixedPenaltyPercentage K G B priceDiscoveryAddress) v"
  by ((intro conjI)?; simp only: pd_writer_defs pd_reader_defs getCacheKey_def assms(2); rule cache_lib.writer_reaches [OF assms(1,3) refl])

text \<open>
  The first and the last block are written under keys that no reader has (\<open>startEpoch\<close>, \<open>endEpoch\<close>).
\<close>

lemma pd_writers_miss_readers:
  assumes "cache_lib K" "historyTimestamp G = None"
  shows "misses (pd_setStartBlock K priceDiscoveryAddress v) (pd_startBlock K G priceDiscoveryAddress) \<and>
    misses (pd_setEndBlock K priceDiscoveryAddress v) (pd_endBlock K G priceDiscoveryAddress)"
  by ((intro conjI)?; simp only: pd_setStartBlock_def pd_setEndBlock_def pd_startBlock_def pd_endBlock_def getCacheKey_def assms(2); rule cache_lib.writer_misses_uncached [OF assms(1)];
      simp add: generateCacheKeyFromParams_def butlast_append)

section \<open>Tokens\<close>

definition token_tokenPriceDerivedEGLD :: "'c cache_service \<Rightarrow> gateway \<Rightarrow> ('c \<Rightarrow> jval res \<times> 'c) \<Rightarrow> string \<Rightarrow> 'c \<Rightarrow> jval res \<times> 'c" where
  "token_tokenPriceDerivedEGLD K G compute token = GetOrSetCache K (historyTimestamp G) ''token'' PriceTtl ''tokenPriceDerivedEGLD'' [KText token] compute"

definition token_tokenPriceDerivedUSD :: "'c cache_service \<Rightarrow> gateway \<Rightarrow> ('c \<Rightarrow> jval res \<times> 'c) \<Rightarrow> string \<Rightarrow> 'c \<Rightarrow> jval res \<times> 'c" where
  "token_tokenPriceDerivedUSD K G compute token = GetOrSetCache K (historyTimestamp G) ''token'' PriceTtl ''tokenPriceDerivedUSD'' [KText token] compute"

definition token_tokenPrevious24hPrice :: "'c cache_service \<Rightarrow> gateway \<Rightarrow> ('c \<Rightarrow> jval res \<times> 'c) \<Rightarrow> string \<Rightarrow> 'c \<Rightarrow> jval res \<times> 'c" where
  "token_tokenPrevious24hPrice K G compute token = GetOrSetCache K (historyTimestamp G) ''token'' PriceTtl ''tokenPrevious24hPrice'' [KText token] compute"

definition token_tokenPrevious7dPrice :: "'c cache_service \<Rightarrow> gateway \<Rightarrow> ('c \<Rightarrow> jval res \<times> 'c) \<Rightarrow> string \<Rightarrow> 'c \<Rightarrow> jval res \<times> 'c" where
  "token_tokenPrevious7dPrice K G compute token = GetOrSetCache K (historyTimestamp G) ''token'' TokenTtl ''tokenPrevious7dPrice'' [KText token] compute"

definition token_tokenPriceChange24h :: "'c cache_service \<Rightarrow> gateway \<Rightarrow> ('c \<Rightarrow> jval res \<times> 'c) \<Rightarrow> string \<Rightarrow> 'c \<Rightarrow> jval res \<times> 'c" where
  "token_tokenPriceChange24h K G compute token = GetOrSetCache K (historyTimestamp G) ''token'' TokenTtl ''tokenPriceChange24h'' [KText token] compute"

definition token_tokenVolumeUSDChange24h :: "'c cache_service \<Rightarrow> gateway \<Rightarrow> ('c \<Rightarrow> jval res \<times> 'c) \<Rightarrow> string \<Rightarrow> 'c \<Rightarrow> jval res \<times> 'c" where
  "token_tokenVolumeUSDChange24h K G compute token = GetOrSetCache K (historyTimestamp G) ''token'' TokenTtl ''tokenVolumeUSDChange24h'' [KText token] compute"

definition token_tokenTradeChange24h :: "'c cache_service \<Rightarrow> gateway \<Rightarrow> ('c \<Rightarrow> jval res \<times> 'c) \<Rightarrow> string \<Rightarrow> 'c \<Rightarrow> jval res \<times> 'c" where
  "token_tokenTradeChange24h K G compute token = GetOrSetCache K (historyTimestamp G) ''token'' TokenTtl ''tokenTradeChange24h'' [KText token] compute"

definition token_tokenVolumeUSD24h :: "'c cache_service \<Rightarrow> gateway \<Rightarrow> ('c \<Rightarrow> jval res \<times> 'c) \<Rightarrow> string \<Rightarrow> 'c \<Rightarrow> jval res \<times> 'c" where
  "token_tokenVolumeUSD24h K G compute token = GetOrSetCache K (historyTimestamp G) ''token'' TokenTtl ''tokenVolumeUSD24h'' [KText token] compute"

definition token_tokenPrevious24hVolumeUSD :: "'c cache_service \<Rightarrow> gateway \<Rightarrow> ('c \<Rightarrow> jval res \<times> 'c) \<Rightarrow> string \<Rightarrow> 'c \<Rightarrow> jval res \<times> 'c" where
  "token_tokenPrevious24hVolumeUSD K G compute token = GetOrSetCache K (historyTimestamp G) ''token'' TokenTtl ''tokenPrevious24hVolumeUSD'' [KText token] compute"

definition token_tokenLast2DaysVolumeUSD :: "'c cache_service \<Rightarrow> gateway \<Rightarrow> ('c \<Rightarrow> jval res \<times> 'c) \<Rightarrow> string \<Rightarrow> 'c \<Rightarrow> jval res \<times> 'c" where
  "token_tokenLast2DaysVolumeUSD K G compute token = GetOrSetCache K (historyTimestamp G) ''token'' TokenTtl ''tokenLast2DaysVolumeUSD'' [KText token] compute"

definition token_tokenLiquidityUSD :: "'c cache_service \<Rightarrow> gateway \<Rightarrow> ('c \<Rightarrow> jval res \<times> 'c) \<Rightarrow> string \<Rightarrow> 'c \<Rightarrow> jval res \<times> 'c" where
  "token_tokenLiquidityUSD K G compute token = GetOrSetCache K (historyTimestamp G) ''token'' TokenTtl ''tokenLiquidityUSD'' [KText token] compute"

definition token_tokenCreatedAt :: "'c cache_service \<Rightarrow> gateway \<Rightarrow> ('c \<Rightarrow> jval res \<times> 'c) \<Rightarrow> string \<Rightarrow> 'c \<Rightarrow> jval res \<times> 'c" where
  "token_tokenCreatedAt K G compute token = GetOrSetCache K (historyTimestamp G) ''token'' TokenTtl ''tokenCreatedAt'' [KText token] compute"

definition token_tokenTrendingScore :: "'c cache_service \<Rightarrow> gateway \<Rightarrow> ('c \<Rightarrow> jval res \<times> 'c) \<Rightarrow> string \<Rightarrow> 'c \<Rightarrow> jval res \<times> 'c" where
  "token_tokenTrendingScore K G compute token = GetOrSetCache K (historyTimestamp G) ''token'' TokenTtl ''tokenTrendingScore'' [KText token] compute"

definition token_getEsdtTokenType :: "'c cache_service \<Rightarrow> gateway \<Rightarrow> ('c \<Rightarrow> jval res \<times> 'c) \<Rightarrow> string \<Rightarrow> 'c \<Rightarrow> jval res \<times> 'c" where
  "token_getEsdtTokenType K G compute token = GetOrSetCache K (historyTimestamp G) ''token'' ContractStateTtl ''getEsdtTokenType'' [KText token] compute"

text \<open>
  A key of a token is its identifier and the JSON text of the other parts, which are passed as one array: \<open>[]\<close> or \<open>["type"]\<close>.
\<close>

definition getTokenCacheKey :: "string \<Rightarrow> string list \<Rightarrow> string" where
  "getTokenCacheKey token args =
     generateCacheKeyFromParams [KText ''token'', KText token,
       KJson (CHR ''['' # concat (map (\<lambda>a. CHR 0x22 # a @ [CHR 0x22]) args) @ '']'')]"

definition token_setTokenMetadata :: "'c cache_service \<Rightarrow> string \<Rightarrow> jval \<Rightarrow> 'c \<Rightarrow> string \<times> 'c" where
  "token_setTokenMetadata K token v = setData K (getTokenCacheKey token []) v TokenTtl"

definition token_setNftCollectionMetadata :: "'c cache_service \<Rightarrow> string \<Rightarrow> jval \<Rightarrow> 'c \<Rightarrow> string \<times> 'c" where
  "token_setNftCollectionMetadata K token v = setData K (getTokenCacheKey token []) v TokenTtl"

definition token_setEsdtTokenType :: "'c cache_service \<Rightarrow> string \<Rightarrow> jval \<Rightarrow> 'c \<Rightarrow> string \<times> 'c" where
  "token_setEsdtTokenType K token v = setData K (getTokenCacheKey token [''type'']) v TokenTtl"

definition token_setDerivedEGLD :: "'c cache_service \<Rightarrow> string \<Rightarrow> jval \<Rightarrow> 'c \<Rightarrow> string \<times> 'c" where
  "token_setDerivedEGLD K token v = setData K (getTokenCacheKey token [''derivedEGLD'']) v PriceTtl"

definition token_setDerivedUSD :: "'c cache_service \<Rightarrow> string \<Rightarrow> jval \<Rightarrow> 'c \<Rightarrow> string \<times> 'c" where
  "token_setDerivedUSD K token v = setData K (getTokenCacheKey token [''derivedUSD'']) v PriceTtl"

definition token_setVolumeLast2Days :: "'c cache_service \<Rightarrow> string \<Rightarrow> jval \<Rightarrow> 'c \<Rightarrow> string \<times> 'c" where
  "token_setVolumeLast2Days K token v = setData K (''token.tokenLast2DaysVolumeUSD.'' @ token) v TokenTtl"

definition token_setPricePrevious24h :: "'c cache_service \<Rightarrow> string \<Rightarrow> jval \<Rightarrow> 'c \<Rightarrow> string \<times> 'c" where
  "token_setPricePrevious24h K token v = setData K (''token.tokenPrevious24hPrice.'' @ token) v PriceTtl"

definition token_setPricePrevious7d :: "'c cache_service \<Rightarrow> string \<Rightarrow> jval \<Rightarrow> 'c \<Rightarrow> string \<times> 'c" where
  "token_setPricePrevious7d K token v = setData K (''token.tokenPrevious7dPrice.'' @ token) v PriceTtl"

definition token_setLiquidityUSD :: "'c cache_service \<Rightarrow> string \<Rightarrow> jval \<Rightarrow> 'c \<Rightarrow> string \<times> 'c" where
  "token_setLiquidityUSD K token v = setData K (''token.tokenLiquidityUSD.'' @ token) v PriceTtl"

definition token_setAllTokensSwapsCount :: "'c cache_service \<Rightarrow> jval \<Rightarrow> 'c \<Rightarrow> string \<times> 'c" where
  "token_setAllTokensSwapsCount K v = setData K (''token.allTokensSwapsCount'') v TokenTtl"

definition token_setAllTokensPrevious24hSwapsCount :: "'c cache_service \<Rightarrow> jval \<Rightarrow> 'c \<Rightarrow> string \<times> 'c" where
  "token_setAllTokensPrevious24hSwapsCount K v = setData K (''token.allTokensSwapsCountPrevious24h'') v TokenTtl"

definition token_setTrendingScore :: "'c cache_service \<Rightarrow> string \<Rightarrow> jval \<Rightarrow> 'c \<Rightarrow> string \<times> 'c" where
  "token_setTrendingScore K token v = setData K (''token.tokenTrendingScore.'' @ token) v TokenTtl"

text \<open>
  C37. The volumes, past prices, liquidity and trending score of a token reach their readers; the prices and the type do not:
  they are written under the token's identifier and a JSON array, and read under the name of the method.
\<close>

theorem token_writers_and_readers:
  assumes "cache_lib K" "historyTimestamp G = None" "storable v" "CHR ''.'' \<notin> set token"
    and "token \<notin> {''tokenPriceDerivedEGLD'', ''tokenPriceDerivedUSD'', ''getEsdtTokenType''}"
  shows "reaches (token_setVolumeLast2Days K token v) (token_tokenLast2DaysVolumeUSD K G compute token) v \<and>
    reaches (token_setPricePrevious24h K token v) (token_tokenPrevious24hPrice K G compute token) v \<and>
    reaches (token_setPricePrevious7d K token v) (token_tokenPrevious7dPrice K G compute token) v \<and>
    reaches (token_setLiquidityUSD K token v) (token_tokenLiquidityUSD K G compute token) v \<and>
    reaches (token_setTrendingScore K token v) (token_tokenTrendingScore K G compute token) v \<and>
    misses (token_setDerivedEGLD K token v) (token_tokenPriceDerivedEGLD K G (uncached r) token) \<and>
    misses (token_setDerivedUSD K token v) (token_tokenPriceDerivedUSD K G (uncached r) token) \<and>
    misses (token_setEsdtTokenType K token v) (token_getEsdtTokenType K G (uncached r) token)"
proof -
  have other: "getTokenCacheKey token [a] \<noteq> generateCacheKeyFromParams [KText ''token'', KText m, KText token]"
    if "m \<noteq> token" "CHR ''.'' \<notin> set a" "CHR ''.'' \<notin> set m" for a m
  proof
    assume "getTokenCacheKey token [a] = generateCacheKeyFromParams [KText ''token'', KText m, KText token]"
    then have "map partText [KText ''token'', KText token, KJson (CHR ''['' # (CHR 0x22 # a @ [CHR 0x22]) @ '']'')] =
        map partText [KText ''token'', KText m, KText token]"
      unfolding getTokenCacheKey_def
      by (intro key_determines_parts) (use that assms(4) in \<open>auto simp: dotless_def\<close>)
    with that show False by simp
  qed
  note defs = token_setVolumeLast2Days_def token_tokenLast2DaysVolumeUSD_def token_setPricePrevious24h_def token_tokenPrevious24hPrice_def token_setPricePrevious7d_def token_tokenPrevious7dPrice_def token_setLiquidityUSD_def token_tokenLiquidityUSD_def token_setTrendingScore_def token_tokenTrendingScore_def token_setDerivedEGLD_def token_setDerivedUSD_def token_setEsdtTokenType_def
    token_tokenPriceDerivedEGLD_def token_tokenPriceDerivedUSD_def token_getEsdtTokenType_def
  show ?thesis
    unfolding defs assms(2)
    apply (intro conjI)
    subgoal by (rule cache_lib.writer_reaches [OF assms(1,3)]) (simp add: generateCacheKeyFromParams_def butlast_append)
    subgoal by (rule cache_lib.writer_reaches [OF assms(1,3)]) (simp add: generateCacheKeyFromParams_def butlast_append)
    subgoal by (rule cache_lib.writer_reaches [OF assms(1,3)]) (simp add: generateCacheKeyFromParams_def butlast_append)
    subgoal by (rule cache_lib.writer_reaches [OF assms(1,3)]) (simp add: generateCacheKeyFromParams_def butlast_append)
    subgoal by (rule cache_lib.writer_reaches [OF assms(1,3)]) (simp add: generateCacheKeyFromParams_def butlast_append)
    subgoal by (rule cache_lib.writer_misses_uncached [OF assms(1)], rule other) (use assms(5) in auto)
    subgoal by (rule cache_lib.writer_misses_uncached [OF assms(1)], rule other) (use assms(5) in auto)
    subgoal by (rule cache_lib.writer_misses_uncached [OF assms(1)], rule other) (use assms(5) in auto)
    done
qed

theorem token_writers_and_readers_witness:
  "misses (token_setDerivedUSD map_cache ''WEGLD-bd4d79'' (JText ''1'')) 
     (token_tokenPriceDerivedUSD map_cache (typicalGateway [] []) (uncached (Inr JNull)) ''WEGLD-bd4d79'')"
  by (rule token_writers_and_readers [OF map_cache.cache_lib_axioms, THEN conjunct2, THEN conjunct2, THEN conjunct2, THEN conjunct2, THEN conjunct2,
        THEN conjunct2, THEN conjunct1]) (simp_all add: storable_def)

end
