(* ===== verification/PairReaders.thy ===== *)
theory PairReaders
  imports ContractQueries
begin

text \<open>
  The readers of a pair contract and of the cached computations on it, with the writers of their entries
  (\<open>src/modules/pair/services/pair.abi.service.ts\<close>, \<open>pair.compute.service.ts\<close>, \<open>pair.setter.service.ts\<close>).
  A cached computation takes the method behind it as the argument \<open>compute\<close>; the computations are the functions of
  \<open>PairCompute\<close> and \<open>TokenPrice\<close>.
\<close>

section \<open>The interface\<close>

definition pair_views :: views where
  "pair_views = [
    (''getReservesAndTotalSupply'', [], [BigUintT, BigUintT, BigUintT]),
    (''getFeeState'', [], [BoolT]),
    (''getFeeDestinations'', [], [ListT (StructT ''tuple'' [(''field0'', AddressT), (''field1'', TokenIdentifierT)])]),
    (''getTrustedSwapPairs'', [], [ListT (StructT ''tuple'' [(''field0'', StructT ''TokenPair'' [(''first_token'', TokenIdentifierT), (''second_token'', TokenIdentifierT)]), (''field1'', AddressT)])]),
    (''getWhitelistedManagedAddresses'', [], [ListT AddressT]),
    (''getFeesCollectorAddress'', [], [AddressT]),
    (''getFeesCollectorCutPercentage'', [], [UintT 64]),
    (''getLpTokenIdentifier'', [], [TokenIdentifierT]),
    (''getTotalFeePercent'', [], [UintT 64]),
    (''getSpecialFee'', [], [UintT 64]),
    (''getRouterManagedAddress'', [], [AddressT]),
    (''getFirstTokenId'', [], [TokenIdentifierT]),
    (''getSecondTokenId'', [], [TokenIdentifierT]),
    (''getTotalSupply'', [], [BigUintT]),
    (''getInitialLiquidtyAdder'', [], [OptionT AddressT]),
    (''getReserve'', [TokenIdentifierT], [BigUintT]),
    (''getLockingScAddress'', [], [AddressT]),
    (''getUnlockEpoch'', [], [UintT 64]),
    (''getLockingDeadlineEpoch'', [], [UintT 64]),
    (''getPermissions'', [AddressT], [UintT 32]),
    (''getState'', [], [EnumT [(''Inactive'', []), (''Active'', []), (''PartialActive'', [])]])]"

text \<open>The endpoint that updates the safe price; it is called in a query.\<close>

definition safe_price_view :: "string \<times> abi_type list \<times> abi_type list" where
  "safe_price_view =
    (''updateAndGetSafePrice'', [StructT ''EsdtTokenPayment'' [(''token_identifier'', TokenIdentifierT), (''token_nonce'', UintT 64), (''amount'', BigUintT)]], [StructT ''EsdtTokenPayment'' [(''token_identifier'', TokenIdentifierT), (''token_nonce'', UintT 64), (''amount'', BigUintT)]])"

section \<open>Pieces of the readers\<close>

fun textIn :: "jval \<Rightarrow> string" where
  "textIn (JText s) = s"
| "textIn j = ''''"

text \<open>A fee in base points as a fraction.\<close>

definition feeFraction :: "bignumber \<Rightarrow> jval \<Rightarrow> jval res" where
  "feeFraction B j =
     (case j of JNumber x \<Rightarrow>
        Inr (JNumber (toNumber (bn_div B (bn_of_js B x) (bn_number B (of_int SWAP_FEE_PERCENT_BASE_POINTS)))))
      | _ \<Rightarrow> Inl TypeError)"

fun truthy :: "jval \<Rightarrow> bool" where
  "truthy (JText s) \<longleftrightarrow> s \<noteq> ''''"
| "truthy (JNumber x) \<longleftrightarrow> x \<noteq> JNum 0 \<and> x \<noteq> JNaN"
| "truthy (JBool b) \<longleftrightarrow> b"
| "truthy JUndefined \<longleftrightarrow> False"
| "truthy JNull \<longleftrightarrow> False"
| "truthy j \<longleftrightarrow> True"

text \<open>A value that may be absent is kept as \<open>absent\<close>, which stands for \<open>undefined\<close>.\<close>

definition fetchOrEmpty :: "'c cache_service \<Rightarrow> string \<Rightarrow> jval \<Rightarrow> jval res \<Rightarrow> 'c \<Rightarrow> jval res \<times> 'c" where
  "fetchOrEmpty K k absent r c =
     (case r of Inl e \<Rightarrow> (Inl e, c)
      | Inr j \<Rightarrow> if truthy j then (Inr j, cacheSet K c k j (Hours 1, None)) else (Inr JUndefined, cacheSet K c k absent ContractStateTtl))"

definition cachedUnlessEmpty :: "'c cache_service \<Rightarrow> string \<Rightarrow> jval \<Rightarrow> jval res \<Rightarrow> 'c \<Rightarrow> jval res \<times> 'c" where
  "cachedUnlessEmpty K k absent r c =
     (case cacheGet K c k of
        Some j \<Rightarrow> if j = absent then (Inr JUndefined, c) else if truthy j then (Inr j, c) else fetchOrEmpty K k absent r c
      | None \<Rightarrow> fetchOrEmpty K k absent r c)"

fun discriminant :: "abi_value \<Rightarrow> jval res" where
  "discriminant (VEnum n fs) = (case map_of [(''Fungible'', 0), (''NonFungible'', 1), (''SemiFungible'', 2), (''Meta'', 3), (''Invalid'', 4)] n of
     Some d \<Rightarrow> Inr (JNumber (JNum d)) | None \<Rightarrow> Inl TypeError)"
| "discriminant v = Inl TypeError"

section \<open>Views of the contract\<close>

definition pair_getFirstTokenIDRaw :: "gateway \<Rightarrow> string \<Rightarrow> jval res" where
  "pair_getFirstTokenIDRaw G pairAddress = readView G pair_views pairAddress ''getFirstTokenId'' [] asText"

definition pair_firstTokenID :: "'c cache_service \<Rightarrow> gateway \<Rightarrow> string \<Rightarrow> 'c \<Rightarrow> jval res \<times> 'c" where
  "pair_firstTokenID K G pairAddress = GetOrSetCache K (historyTimestamp G) ''pair'' TokenTtl ''firstTokenID'' [KText pairAddress]
     (uncached (pair_getFirstTokenIDRaw G pairAddress))"

definition pair_getSecondTokenIDRaw :: "gateway \<Rightarrow> string \<Rightarrow> jval res" where
  "pair_getSecondTokenIDRaw G pairAddress = readView G pair_views pairAddress ''getSecondTokenId'' [] asText"

definition pair_secondTokenID :: "'c cache_service \<Rightarrow> gateway \<Rightarrow> string \<Rightarrow> 'c \<Rightarrow> jval res \<times> 'c" where
  "pair_secondTokenID K G pairAddress = GetOrSetCache K (historyTimestamp G) ''pair'' TokenTtl ''secondTokenID'' [KText pairAddress]
     (uncached (pair_getSecondTokenIDRaw G pairAddress))"

definition pair_getLpTokenIDRaw :: "gateway \<Rightarrow> string \<Rightarrow> jval res" where
  "pair_getLpTokenIDRaw G pairAddress =
     readView G pair_views pairAddress ''getLpTokenIdentifier'' []
       (\<lambda>v. res_bind (asText v) (\<lambda>j.
          Inr (if j = JText (egldIdentifier G) \<or> j = JText '''' then JUndefined else j)))"

definition pair_lpTokenID :: "'c cache_service \<Rightarrow> gateway \<Rightarrow> string \<Rightarrow> 'c \<Rightarrow> jval res \<times> 'c" where
  "pair_lpTokenID K G pairAddress = GetOrSetCache K (historyTimestamp G) ''pair'' TokenTtl ''lpTokenID'' [KText pairAddress]
     (uncached (pair_getLpTokenIDRaw G pairAddress))"

definition pair_getTokenReserveRaw :: "gateway \<Rightarrow> string \<Rightarrow> string \<Rightarrow> jval res" where
  "pair_getTokenReserveRaw G pairAddress token = readView G pair_views pairAddress ''getReserve'' [Typed (TokenIdentifierV token)] asFixed"

definition pair_tokenReserve :: "'c cache_service \<Rightarrow> gateway \<Rightarrow> string \<Rightarrow> string \<Rightarrow> 'c \<Rightarrow> jval res \<times> 'c" where
  "pair_tokenReserve K G pairAddress token = GetOrSetCache K (historyTimestamp G) ''pair'' ContractBalanceTtl ''tokenReserve'' [KText pairAddress, KText token]
     (uncached (pair_getTokenReserveRaw G pairAddress token))"

definition pair_firstTokenReserve :: "'c cache_service \<Rightarrow> gateway \<Rightarrow> string \<Rightarrow> 'c \<Rightarrow> jval res \<times> 'c" where
  "pair_firstTokenReserve K G pairAddress = GetOrSetCache K (historyTimestamp G) ''pair'' ContractBalanceTtl ''firstTokenReserve'' [KText pairAddress]
     (cache_then (pair_firstTokenID K G pairAddress) (\<lambda>token. uncached (pair_getTokenReserveRaw G pairAddress (textIn token))))"

definition pair_secondTokenReserve :: "'c cache_service \<Rightarrow> gateway \<Rightarrow> string \<Rightarrow> 'c \<Rightarrow> jval res \<times> 'c" where
  "pair_secondTokenReserve K G pairAddress = GetOrSetCache K (historyTimestamp G) ''pair'' ContractBalanceTtl ''secondTokenReserve'' [KText pairAddress]
     (cache_then (pair_secondTokenID K G pairAddress) (\<lambda>token. uncached (pair_getTokenReserveRaw G pairAddress (textIn token))))"

definition pair_getTotalSupplyRaw :: "gateway \<Rightarrow> string \<Rightarrow> jval res" where
  "pair_getTotalSupplyRaw G pairAddress = readView G pair_views pairAddress ''getTotalSupply'' [] asFixed"

definition pair_totalSupply :: "'c cache_service \<Rightarrow> gateway \<Rightarrow> string \<Rightarrow> 'c \<Rightarrow> jval res \<times> 'c" where
  "pair_totalSupply K G pairAddress = GetOrSetCache K (historyTimestamp G) ''pair'' ContractBalanceTtl ''totalSupply'' [KText pairAddress]
     (uncached (pair_getTotalSupplyRaw G pairAddress))"

definition pair_getPairInfoMetadataRaw :: "gateway \<Rightarrow> string \<Rightarrow> jval res" where
  "pair_getPairInfoMetadataRaw G pairAddress =
     res_bind (getGenericData G pair_views pairAddress ''getReservesAndTotalSupply'' []) (\<lambda>r.
       res_bind (valueAt r 0 asFixed) (\<lambda>r0. res_bind (valueAt r 1 asFixed) (\<lambda>r1. res_bind (valueAt r 2 asFixed) (\<lambda>s.
         Inr (JObject [(''reserves0'', r0), (''reserves1'', r1), (''totalSupply'', s)])))))"

definition pair_pairInfoMetadata :: "'c cache_service \<Rightarrow> gateway \<Rightarrow> string \<Rightarrow> 'c \<Rightarrow> jval res \<times> 'c" where
  "pair_pairInfoMetadata K G pairAddress = GetOrSetCache K (historyTimestamp G) ''pair'' ContractBalanceTtl ''pairInfoMetadata'' [KText pairAddress]
     (uncached (pair_getPairInfoMetadataRaw G pairAddress))"

definition pair_getTotalFeePercentRaw :: "gateway \<Rightarrow> string \<Rightarrow> jval res" where
  "pair_getTotalFeePercentRaw G pairAddress = readView G pair_views pairAddress ''getTotalFeePercent'' [] asNumber"

definition pair_totalFeePercent :: "'c cache_service \<Rightarrow> gateway \<Rightarrow> bignumber \<Rightarrow> string \<Rightarrow> 'c \<Rightarrow> jval res \<times> 'c" where
  "pair_totalFeePercent K G B pairAddress = GetOrSetCache K (historyTimestamp G) ''pair'' ContractStateTtl ''totalFeePercent'' [KText pairAddress]
     (uncached (res_bind (pair_getTotalFeePercentRaw G pairAddress) (feeFraction B)))"

definition pair_getSpecialFeePercentRaw :: "gateway \<Rightarrow> string \<Rightarrow> jval res" where
  "pair_getSpecialFeePercentRaw G pairAddress = readView G pair_views pairAddress ''getSpecialFee'' [] asNumber"

definition pair_specialFeePercent :: "'c cache_service \<Rightarrow> gateway \<Rightarrow> bignumber \<Rightarrow> string \<Rightarrow> 'c \<Rightarrow> jval res \<times> 'c" where
  "pair_specialFeePercent K G B pairAddress = GetOrSetCache K (historyTimestamp G) ''pair'' ContractStateTtl ''specialFeePercent'' [KText pairAddress]
     (uncached (res_bind (pair_getSpecialFeePercentRaw G pairAddress) (feeFraction B)))"

definition pair_getTrustedSwapPairsRaw :: "gateway \<Rightarrow> string \<Rightarrow> jval res" where
  "pair_getTrustedSwapPairsRaw G pairAddress =
     readView G pair_views pairAddress ''getTrustedSwapPairs'' [] (mapElems (via ''field1'' asBech32))"

definition pair_trustedSwapPairs :: "'c cache_service \<Rightarrow> gateway \<Rightarrow> string \<Rightarrow> 'c \<Rightarrow> jval res \<times> 'c" where
  "pair_trustedSwapPairs K G pairAddress = GetOrSetCache K (historyTimestamp G) ''pair'' ContractStateTtl ''trustedSwapPairs'' [KText pairAddress]
     (uncached (pair_getTrustedSwapPairsRaw G pairAddress))"

definition pair_getInitialLiquidityAdderRaw :: "gateway \<Rightarrow> string \<Rightarrow> jval res" where
  "pair_getInitialLiquidityAdderRaw G pairAddress =
     unlessInvalidFunction (JText '''')
       (res_bind (getGenericData G pair_views pairAddress ''getInitialLiquidtyAdder'' []) (\<lambda>r.
          if str_includes (returnMessage r) BAD_ARRAY_LENGTH then Inr (JText '''')
          else res_bind (firstValue r) (\<lambda>v. if v = VNull then Inr (JText '''') else asBech32 v)))"

definition pair_initialLiquidityAdder :: "'c cache_service \<Rightarrow> gateway \<Rightarrow> string \<Rightarrow> 'c \<Rightarrow> jval res \<times> 'c" where
  "pair_initialLiquidityAdder K G pairAddress = GetOrSetCache K (historyTimestamp G) ''pair'' ContractStateTtl ''initialLiquidityAdder'' [KText pairAddress]
     (uncached (pair_getInitialLiquidityAdderRaw G pairAddress))"

definition pair_getStateRaw :: "gateway \<Rightarrow> string \<Rightarrow> jval res" where
  "pair_getStateRaw G pairAddress = readView G pair_views pairAddress ''getState'' [] asName"

definition pair_state :: "'c cache_service \<Rightarrow> gateway \<Rightarrow> string \<Rightarrow> 'c \<Rightarrow> jval res \<times> 'c" where
  "pair_state K G pairAddress = GetOrSetCache K (historyTimestamp G) ''pair'' ContractStateTtl ''state'' [KText pairAddress]
     (uncached (pair_getStateRaw G pairAddress))"

definition pair_getFeeStateRaw :: "gateway \<Rightarrow> string \<Rightarrow> jval res" where
  "pair_getFeeStateRaw G pairAddress = readView G pair_views pairAddress ''getFeeState'' [] asRaw"

definition pair_feeState :: "'c cache_service \<Rightarrow> gateway \<Rightarrow> string \<Rightarrow> 'c \<Rightarrow> jval res \<times> 'c" where
  "pair_feeState K G pairAddress = GetOrSetCache K (historyTimestamp G) ''pair'' ContractStateTtl ''feeState'' [KText pairAddress]
     (uncached (pair_getFeeStateRaw G pairAddress))"

definition pair_getLockingScAddressRaw :: "gateway \<Rightarrow> string \<Rightarrow> jval res" where
  "pair_getLockingScAddressRaw G pairAddress =
     unlessInvalidFunction JUndefined
       (res_bind (getGenericData G pair_views pairAddress ''getLockingScAddress'' []) (\<lambda>r.
          if str_includes (returnMessage r) BAD_ARRAY_LENGTH \<or> returnCode r = FunctionNotFound then Inr JUndefined
          else res_bind (firstValue r) asBech32))"

definition pair_lockingScAddress :: "'c cache_service \<Rightarrow> gateway \<Rightarrow> string \<Rightarrow> 'c \<Rightarrow> jval res \<times> 'c" where
  "pair_lockingScAddress K G pairAddress = cachedUnlessEmpty K (''pair.lockingScAddress.'' @ pairAddress) (JText '''') (pair_getLockingScAddressRaw G pairAddress)"

definition pair_getUnlockEpochRaw :: "gateway \<Rightarrow> string \<Rightarrow> jval res" where
  "pair_getUnlockEpochRaw G pairAddress =
     unlessInvalidFunction JUndefined
       (res_bind (getGenericData G pair_views pairAddress ''getUnlockEpoch'' []) (\<lambda>r.
          if returnCode r = FunctionNotFound then Inr JUndefined else res_bind (firstValue r) asNumber))"

definition pair_unlockEpoch :: "'c cache_service \<Rightarrow> gateway \<Rightarrow> string \<Rightarrow> 'c \<Rightarrow> jval res \<times> 'c" where
  "pair_unlockEpoch K G pairAddress = cachedUnlessEmpty K (''pair.unlockEpoch.'' @ pairAddress) (JNumber (JNum (- 1))) (pair_getUnlockEpochRaw G pairAddress)"

definition pair_getLockingDeadlineEpochRaw :: "gateway \<Rightarrow> string \<Rightarrow> jval res" where
  "pair_getLockingDeadlineEpochRaw G pairAddress =
     unlessInvalidFunction JUndefined
       (res_bind (getGenericData G pair_views pairAddress ''getLockingDeadlineEpoch'' []) (\<lambda>r.
          if returnCode r = FunctionNotFound then Inr JUndefined else res_bind (firstValue r) asNumber))"

definition pair_lockingDeadlineEpoch :: "'c cache_service \<Rightarrow> gateway \<Rightarrow> string \<Rightarrow> 'c \<Rightarrow> jval res \<times> 'c" where
  "pair_lockingDeadlineEpoch K G pairAddress = cachedUnlessEmpty K (''pair.lockingDeadlineEpoch.'' @ pairAddress) (JNumber (JNum (- 1))) (pair_getLockingDeadlineEpochRaw G pairAddress)"

text \<open>Every element becomes the first one: the function of \<open>map\<close> ignores its argument.\<close>

definition pair_getFeeDestinationsRaw :: "gateway \<Rightarrow> string \<Rightarrow> jval res" where
  "pair_getFeeDestinationsRaw G pairAddress =
     readView G pair_views pairAddress ''getFeeDestinations'' []
       (\<lambda>v. mapElems (\<lambda>_. case v of
            VList (d # _) \<Rightarrow> newObject [(''address'', via ''field0'' (asNewAddress G)), (''tokenID'', via ''field1'' asText)] d
          | _ \<Rightarrow> Inl TypeError) v)"

definition pair_feeDestinations :: "'c cache_service \<Rightarrow> gateway \<Rightarrow> string \<Rightarrow> 'c \<Rightarrow> jval res \<times> 'c" where
  "pair_feeDestinations K G pairAddress = GetOrSetCache K (historyTimestamp G) ''pair'' ContractStateTtl ''feeDestinations'' [KText pairAddress]
     (uncached (pair_getFeeDestinationsRaw G pairAddress))"

definition pair_getWhitelistedAddressesRaw :: "gateway \<Rightarrow> string \<Rightarrow> jval res" where
  "pair_getWhitelistedAddressesRaw G pairAddress =
     readView G pair_views pairAddress ''getWhitelistedManagedAddresses'' [] (mapElems (asNewAddress G))"

definition pair_whitelistedAddresses :: "'c cache_service \<Rightarrow> gateway \<Rightarrow> string \<Rightarrow> 'c \<Rightarrow> jval res \<times> 'c" where
  "pair_whitelistedAddresses K G pairAddress = GetOrSetCache K (historyTimestamp G) ''pair'' ContractStateTtl ''whitelistedAddresses'' [KText pairAddress]
     (uncached (pair_getWhitelistedAddressesRaw G pairAddress))"

definition pair_getRouterAddressRaw :: "gateway \<Rightarrow> string \<Rightarrow> jval res" where
  "pair_getRouterAddressRaw G addr =
     readView G pair_views addr ''getRouterManagedAddress'' [] (asAddressOfText G)"

definition pair_routerAddress :: "'c cache_service \<Rightarrow> gateway \<Rightarrow> string \<Rightarrow> 'c \<Rightarrow> jval res \<times> 'c" where
  "pair_routerAddress K G pairAddress = GetOrSetCache K (historyTimestamp G) ''pair'' ContractStateTtl ''routerAddress'' [KText pairAddress]
     (uncached (pair_getRouterAddressRaw G pairAddress))"

definition pair_updateAndGetSafePrice :: "gateway \<Rightarrow> string \<Rightarrow> input_token \<Rightarrow> int \<Rightarrow> jval res" where
  "pair_updateAndGetSafePrice G pairAddress pay payType =
     readView G (safe_price_view # pair_views) pairAddress ''updateAndGetSafePrice''
       [StructArg ''EsdtTokenPayment''
          [(''token_type'', EnumV payType), (''token_identifier'', TokenIdentifierV (tokenID pay)),
           (''token_nonce'', U64V (bn_of_int (nonce pay))), (''amount'', BigUInt (amount pay))]]
       (newObject
          [(''tokenType'', via ''token_type'' discriminant), (''tokenID'', via ''token_identifier'' asText),
           (''nonce'', via ''token_nonce'' asNumber), (''amount'', via ''amount'' asFixed)])"

definition pair_safePrice :: "'c cache_service \<Rightarrow> gateway \<Rightarrow> string \<Rightarrow> input_token \<Rightarrow> int \<Rightarrow> string \<Rightarrow> 'c \<Rightarrow> jval res \<times> 'c" where
  "pair_safePrice K G pairAddress pay payType payJson =
     GetOrSetCache K (historyTimestamp G) ''pair'' ContractStateTtl ''safePrice'' [KText pairAddress, KJson payJson]
       (uncached (pair_updateAndGetSafePrice G pairAddress pay payType))"

definition pair_getFeesCollectorAddressRaw :: "gateway \<Rightarrow> string \<Rightarrow> jval res" where
  "pair_getFeesCollectorAddressRaw G addr =
     res_bind (getGenericData G pair_views addr ''getFeesCollectorAddress'' []) (\<lambda>r.
       if returnCode r = UserError then Inr JUndefined else res_bind (firstValue r) (asAddressOfText G))"

definition pair_feesCollectorAddress :: "'c cache_service \<Rightarrow> gateway \<Rightarrow> string \<Rightarrow> 'c \<Rightarrow> jval res \<times> 'c" where
  "pair_feesCollectorAddress K G pairAddress = GetOrSetCache K (historyTimestamp G) ''pair'' ContractStateTtl ''feesCollectorAddress'' [KText pairAddress]
     (uncached (pair_getFeesCollectorAddressRaw G pairAddress))"

definition pair_getFeesCollectorCutPercentageRaw :: "gateway \<Rightarrow> string \<Rightarrow> jval res" where
  "pair_getFeesCollectorCutPercentageRaw G addr =
     res_bind (getGenericData G pair_views addr ''getFeesCollectorCutPercentage'' []) (\<lambda>r.
       if returnCode r = UserError then Inr JUndefined else res_bind (firstValue r) asNumber)"

definition pair_feesCollectorCutPercentage :: "'c cache_service \<Rightarrow> gateway \<Rightarrow> string \<Rightarrow> 'c \<Rightarrow> jval res \<times> 'c" where
  "pair_feesCollectorCutPercentage K G pairAddress = GetOrSetCache K (historyTimestamp G) ''pair'' ContractStateTtl ''feesCollectorCutPercentage'' [KText pairAddress]
     (uncached (pair_getFeesCollectorCutPercentageRaw G pairAddress))"

section \<open>Cached computations\<close>

definition pair_firstTokenPrice :: "'c cache_service \<Rightarrow> gateway \<Rightarrow> ('c \<Rightarrow> jval res \<times> 'c) \<Rightarrow> string \<Rightarrow> 'c \<Rightarrow> jval res \<times> 'c" where
  "pair_firstTokenPrice K G compute pairAddress = GetOrSetCache K (historyTimestamp G) ''pair'' PriceTtl ''firstTokenPrice'' [KText pairAddress] compute"

definition pair_secondTokenPrice :: "'c cache_service \<Rightarrow> gateway \<Rightarrow> ('c \<Rightarrow> jval res \<times> 'c) \<Rightarrow> string \<Rightarrow> 'c \<Rightarrow> jval res \<times> 'c" where
  "pair_secondTokenPrice K G compute pairAddress = GetOrSetCache K (historyTimestamp G) ''pair'' PriceTtl ''secondTokenPrice'' [KText pairAddress] compute"

definition pair_lpTokenPriceUSD :: "'c cache_service \<Rightarrow> gateway \<Rightarrow> ('c \<Rightarrow> jval res \<times> 'c) \<Rightarrow> string \<Rightarrow> 'c \<Rightarrow> jval res \<times> 'c" where
  "pair_lpTokenPriceUSD K G compute pairAddress = GetOrSetCache K (historyTimestamp G) ''pair'' PriceTtl ''lpTokenPriceUSD'' [KText pairAddress] compute"

definition pair_tokenPriceUSD :: "'c cache_service \<Rightarrow> gateway \<Rightarrow> ('c \<Rightarrow> jval res \<times> 'c) \<Rightarrow> string \<Rightarrow> 'c \<Rightarrow> jval res \<times> 'c" where
  "pair_tokenPriceUSD K G compute token = GetOrSetCache K (historyTimestamp G) ''pair'' PriceTtl ''tokenPriceUSD'' [KText token] compute"

definition pair_firstTokenPriceUSD :: "'c cache_service \<Rightarrow> gateway \<Rightarrow> ('c \<Rightarrow> jval res \<times> 'c) \<Rightarrow> string \<Rightarrow> 'c \<Rightarrow> jval res \<times> 'c" where
  "pair_firstTokenPriceUSD K G compute pairAddress = GetOrSetCache K (historyTimestamp G) ''pair'' PriceTtl ''firstTokenPriceUSD'' [KText pairAddress] compute"

definition pair_secondTokenPriceUSD :: "'c cache_service \<Rightarrow> gateway \<Rightarrow> ('c \<Rightarrow> jval res \<times> 'c) \<Rightarrow> string \<Rightarrow> 'c \<Rightarrow> jval res \<times> 'c" where
  "pair_secondTokenPriceUSD K G compute pairAddress = GetOrSetCache K (historyTimestamp G) ''pair'' PriceTtl ''secondTokenPriceUSD'' [KText pairAddress] compute"

definition pair_firstTokenLockedValueUSD :: "'c cache_service \<Rightarrow> gateway \<Rightarrow> ('c \<Rightarrow> jval res \<times> 'c) \<Rightarrow> string \<Rightarrow> 'c \<Rightarrow> jval res \<times> 'c" where
  "pair_firstTokenLockedValueUSD K G compute pairAddress = GetOrSetCache K (historyTimestamp G) ''pair'' ContractInfoTtl ''firstTokenLockedValueUSD'' [KText pairAddress] compute"

definition pair_secondTokenLockedValueUSD :: "'c cache_service \<Rightarrow> gateway \<Rightarrow> ('c \<Rightarrow> jval res \<times> 'c) \<Rightarrow> string \<Rightarrow> 'c \<Rightarrow> jval res \<times> 'c" where
  "pair_secondTokenLockedValueUSD K G compute pairAddress = GetOrSetCache K (historyTimestamp G) ''pair'' ContractInfoTtl ''secondTokenLockedValueUSD'' [KText pairAddress] compute"

definition pair_lockedValueUSD :: "'c cache_service \<Rightarrow> gateway \<Rightarrow> ('c \<Rightarrow> jval res \<times> 'c) \<Rightarrow> string \<Rightarrow> 'c \<Rightarrow> jval res \<times> 'c" where
  "pair_lockedValueUSD K G compute pairAddress = GetOrSetCache K (historyTimestamp G) ''pair'' ContractInfoTtl ''lockedValueUSD'' [KText pairAddress] compute"

definition pair_firstTokenVolume :: "'c cache_service \<Rightarrow> gateway \<Rightarrow> ('c \<Rightarrow> jval res \<times> 'c) \<Rightarrow> string \<Rightarrow> string \<Rightarrow> 'c \<Rightarrow> jval res \<times> 'c" where
  "pair_firstTokenVolume K G compute pairAddress tm = GetOrSetCache K (historyTimestamp G) ''pair'' AnalyticsTtl ''firstTokenVolume'' [KText pairAddress, KText tm] compute"

definition pair_secondTokenVolume :: "'c cache_service \<Rightarrow> gateway \<Rightarrow> ('c \<Rightarrow> jval res \<times> 'c) \<Rightarrow> string \<Rightarrow> string \<Rightarrow> 'c \<Rightarrow> jval res \<times> 'c" where
  "pair_secondTokenVolume K G compute pairAddress tm = GetOrSetCache K (historyTimestamp G) ''pair'' AnalyticsTtl ''secondTokenVolume'' [KText pairAddress, KText tm] compute"

definition pair_volumeUSD :: "'c cache_service \<Rightarrow> gateway \<Rightarrow> ('c \<Rightarrow> jval res \<times> 'c) \<Rightarrow> string \<Rightarrow> string \<Rightarrow> 'c \<Rightarrow> jval res \<times> 'c" where
  "pair_volumeUSD K G compute pairAddress tm = GetOrSetCache K (historyTimestamp G) ''pair'' AnalyticsTtl ''volumeUSD'' [KText pairAddress, KText tm] compute"

definition pair_feesUSD :: "'c cache_service \<Rightarrow> gateway \<Rightarrow> ('c \<Rightarrow> jval res \<times> 'c) \<Rightarrow> string \<Rightarrow> string \<Rightarrow> 'c \<Rightarrow> jval res \<times> 'c" where
  "pair_feesUSD K G compute pairAddress tm = GetOrSetCache K (historyTimestamp G) ''pair'' AnalyticsTtl ''feesUSD'' [KText pairAddress, KText tm] compute"

definition pair_feesAPR :: "'c cache_service \<Rightarrow> gateway \<Rightarrow> ('c \<Rightarrow> jval res \<times> 'c) \<Rightarrow> string \<Rightarrow> 'c \<Rightarrow> jval res \<times> 'c" where
  "pair_feesAPR K G compute pairAddress = GetOrSetCache K (historyTimestamp G) ''pair'' ContractStateTtl ''feesAPR'' [KText pairAddress] compute"

definition pair_type :: "'c cache_service \<Rightarrow> gateway \<Rightarrow> ('c \<Rightarrow> jval res \<times> 'c) \<Rightarrow> string \<Rightarrow> 'c \<Rightarrow> jval res \<times> 'c" where
  "pair_type K G compute pairAddress = GetOrSetCache K (historyTimestamp G) ''pair'' ContractStateTtl ''type'' [KText pairAddress] compute"

definition pair_hasFarms :: "'c cache_service \<Rightarrow> gateway \<Rightarrow> ('c \<Rightarrow> jval res \<times> 'c) \<Rightarrow> string \<Rightarrow> 'c \<Rightarrow> jval res \<times> 'c" where
  "pair_hasFarms K G compute pairAddress = GetOrSetCache K (historyTimestamp G) ''pair'' ContractStateTtl ''hasFarms'' [KText pairAddress] compute"

definition pair_hasDualFarms :: "'c cache_service \<Rightarrow> gateway \<Rightarrow> ('c \<Rightarrow> jval res \<times> 'c) \<Rightarrow> string \<Rightarrow> 'c \<Rightarrow> jval res \<times> 'c" where
  "pair_hasDualFarms K G compute pairAddress = GetOrSetCache K (historyTimestamp G) ''pair'' ContractStateTtl ''hasDualFarms'' [KText pairAddress] compute"

definition pair_tradesCount :: "'c cache_service \<Rightarrow> gateway \<Rightarrow> ('c \<Rightarrow> jval res \<times> 'c) \<Rightarrow> string \<Rightarrow> 'c \<Rightarrow> jval res \<times> 'c" where
  "pair_tradesCount K G compute pairAddress = GetOrSetCache K (historyTimestamp G) ''pair'' ContractStateTtl ''tradesCount'' [KText pairAddress] compute"

definition pair_deployedAt :: "'c cache_service \<Rightarrow> gateway \<Rightarrow> ('c \<Rightarrow> jval res \<times> 'c) \<Rightarrow> string \<Rightarrow> 'c \<Rightarrow> jval res \<times> 'c" where
  "pair_deployedAt K G compute pairAddress = GetOrSetCache K (historyTimestamp G) ''pair'' ContractStateTtl ''deployedAt'' [KText pairAddress] compute"

section \<open>Writers\<close>

definition pair_setFirstTokenID :: "'c cache_service \<Rightarrow> string \<Rightarrow> jval \<Rightarrow> 'c \<Rightarrow> string \<times> 'c" where
  "pair_setFirstTokenID K pairAddress v = setData K (getCacheKey ''pair'' [KText ''firstTokenID'', KText pairAddress]) v TokenTtl"

definition pair_setSecondTokenID :: "'c cache_service \<Rightarrow> string \<Rightarrow> jval \<Rightarrow> 'c \<Rightarrow> string \<times> 'c" where
  "pair_setSecondTokenID K pairAddress v = setData K (getCacheKey ''pair'' [KText ''secondTokenID'', KText pairAddress]) v TokenTtl"

definition pair_setLpTokenID :: "'c cache_service \<Rightarrow> string \<Rightarrow> jval \<Rightarrow> 'c \<Rightarrow> string \<times> 'c" where
  "pair_setLpTokenID K pairAddress v = setData K (getCacheKey ''pair'' [KText ''lpTokenID'', KText pairAddress]) v TokenTtl"

definition pair_setTotalFeePercent :: "'c cache_service \<Rightarrow> string \<Rightarrow> jval \<Rightarrow> 'c \<Rightarrow> string \<times> 'c" where
  "pair_setTotalFeePercent K pairAddress v = setData K (getCacheKey ''pair'' [KText ''totalFeePercent'', KText pairAddress]) v ContractStateTtl"

definition pair_setSpecialFeePercent :: "'c cache_service \<Rightarrow> string \<Rightarrow> jval \<Rightarrow> 'c \<Rightarrow> string \<times> 'c" where
  "pair_setSpecialFeePercent K pairAddress v = setData K (getCacheKey ''pair'' [KText ''specialFeePercent'', KText pairAddress]) v ContractStateTtl"

definition pair_setState :: "'c cache_service \<Rightarrow> string \<Rightarrow> jval \<Rightarrow> 'c \<Rightarrow> string \<times> 'c" where
  "pair_setState K pairAddress v = setData K (getCacheKey ''pair'' [KText ''state'', KText pairAddress]) v ContractStateTtl"

definition pair_setFeeState :: "'c cache_service \<Rightarrow> string \<Rightarrow> jval \<Rightarrow> 'c \<Rightarrow> string \<times> 'c" where
  "pair_setFeeState K pairAddress v = setData K (getCacheKey ''pair'' [KText ''feeState'', KText pairAddress]) v ContractStateTtl"

definition pair_setFirstTokenReserve :: "'c cache_service \<Rightarrow> string \<Rightarrow> jval \<Rightarrow> 'c \<Rightarrow> string \<times> 'c" where
  "pair_setFirstTokenReserve K pairAddress v = setData K (getCacheKey ''pair'' [KText ''firstTokenReserve'', KText pairAddress]) v ContractBalanceTtl"

definition pair_setSecondTokenReserve :: "'c cache_service \<Rightarrow> string \<Rightarrow> jval \<Rightarrow> 'c \<Rightarrow> string \<times> 'c" where
  "pair_setSecondTokenReserve K pairAddress v = setData K (getCacheKey ''pair'' [KText ''secondTokenReserve'', KText pairAddress]) v ContractBalanceTtl"

definition pair_setTotalSupply :: "'c cache_service \<Rightarrow> string \<Rightarrow> jval \<Rightarrow> 'c \<Rightarrow> string \<times> 'c" where
  "pair_setTotalSupply K pairAddress v = setData K (getCacheKey ''pair'' [KText ''totalSupply'', KText pairAddress]) v ContractBalanceTtl"

definition pair_setPairInfoMetadata :: "'c cache_service \<Rightarrow> string \<Rightarrow> jval \<Rightarrow> 'c \<Rightarrow> string \<times> 'c" where
  "pair_setPairInfoMetadata K pairAddress v = setData K (getCacheKey ''pair'' [KText ''pairInfoMetadata'', KText pairAddress]) v ContractBalanceTtl"

definition pair_setFirstTokenPrice :: "'c cache_service \<Rightarrow> string \<Rightarrow> jval \<Rightarrow> 'c \<Rightarrow> string \<times> 'c" where
  "pair_setFirstTokenPrice K pairAddress v = setData K (getCacheKey ''pair'' [KText ''firstTokenPrice'', KText pairAddress]) v PriceTtl"

definition pair_setSecondTokenPrice :: "'c cache_service \<Rightarrow> string \<Rightarrow> jval \<Rightarrow> 'c \<Rightarrow> string \<times> 'c" where
  "pair_setSecondTokenPrice K pairAddress v = setData K (getCacheKey ''pair'' [KText ''secondTokenPrice'', KText pairAddress]) v PriceTtl"

definition pair_setFirstTokenPriceUSD :: "'c cache_service \<Rightarrow> string \<Rightarrow> jval \<Rightarrow> 'c \<Rightarrow> string \<times> 'c" where
  "pair_setFirstTokenPriceUSD K pairAddress v = setData K (getCacheKey ''pair'' [KText ''firstTokenPriceUSD'', KText pairAddress]) v PriceTtl"

definition pair_setSecondTokenPriceUSD :: "'c cache_service \<Rightarrow> string \<Rightarrow> jval \<Rightarrow> 'c \<Rightarrow> string \<times> 'c" where
  "pair_setSecondTokenPriceUSD K pairAddress v = setData K (getCacheKey ''pair'' [KText ''secondTokenPriceUSD'', KText pairAddress]) v PriceTtl"

definition pair_setTokenPriceUSD :: "'c cache_service \<Rightarrow> string \<Rightarrow> jval \<Rightarrow> 'c \<Rightarrow> string \<times> 'c" where
  "pair_setTokenPriceUSD K token v = setData K (getCacheKey ''pair'' [KText ''tokenPriceUSD'', KText token]) v PriceTtl"

definition pair_setLpTokenPriceUSD :: "'c cache_service \<Rightarrow> string \<Rightarrow> jval \<Rightarrow> 'c \<Rightarrow> string \<times> 'c" where
  "pair_setLpTokenPriceUSD K pairAddress v = setData K (getCacheKey ''pair'' [KText ''lpTokenPriceUSD'', KText pairAddress]) v PriceTtl"

definition pair_setFirstTokenLockedValueUSD :: "'c cache_service \<Rightarrow> string \<Rightarrow> jval \<Rightarrow> 'c \<Rightarrow> string \<times> 'c" where
  "pair_setFirstTokenLockedValueUSD K pairAddress v = setData K (getCacheKey ''pair'' [KText ''firstTokenLockedValueUSD'', KText pairAddress]) v ContractInfoTtl"

definition pair_setSecondTokenLockedValueUSD :: "'c cache_service \<Rightarrow> string \<Rightarrow> jval \<Rightarrow> 'c \<Rightarrow> string \<times> 'c" where
  "pair_setSecondTokenLockedValueUSD K pairAddress v = setData K (getCacheKey ''pair'' [KText ''secondTokenLockedValueUSD'', KText pairAddress]) v ContractInfoTtl"

definition pair_setLockedValueUSD :: "'c cache_service \<Rightarrow> string \<Rightarrow> jval \<Rightarrow> 'c \<Rightarrow> string \<times> 'c" where
  "pair_setLockedValueUSD K pairAddress v = setData K (getCacheKey ''pair'' [KText ''lockedValueUSD'', KText pairAddress]) v ContractInfoTtl"

definition pair_setFirstTokenVolume :: "'c cache_service \<Rightarrow> string \<Rightarrow> string \<Rightarrow> jval \<Rightarrow> 'c \<Rightarrow> string \<times> 'c" where
  "pair_setFirstTokenVolume K pairAddress tm v = setData K (getCacheKey ''pair'' [KText ''firstTokenVolume'', KText pairAddress, KText tm]) v AnalyticsTtl"

definition pair_setSecondTokenVolume :: "'c cache_service \<Rightarrow> string \<Rightarrow> string \<Rightarrow> jval \<Rightarrow> 'c \<Rightarrow> string \<times> 'c" where
  "pair_setSecondTokenVolume K pairAddress tm v = setData K (getCacheKey ''pair'' [KText ''secondTokenVolume'', KText pairAddress, KText tm]) v AnalyticsTtl"

definition pair_setVolumeUSD :: "'c cache_service \<Rightarrow> string \<Rightarrow> string \<Rightarrow> jval \<Rightarrow> 'c \<Rightarrow> string \<times> 'c" where
  "pair_setVolumeUSD K pairAddress tm v = setData K (getCacheKey ''pair'' [KText ''volumeUSD'', KText pairAddress, KText tm]) v AnalyticsTtl"

definition pair_setFeesUSD :: "'c cache_service \<Rightarrow> string \<Rightarrow> string \<Rightarrow> jval \<Rightarrow> 'c \<Rightarrow> string \<times> 'c" where
  "pair_setFeesUSD K pairAddress tm v = setData K (getCacheKey ''pair'' [KText ''feesUSD'', KText pairAddress, KText tm]) v AnalyticsTtl"

definition pair_setFeesAPR :: "'c cache_service \<Rightarrow> string \<Rightarrow> jval \<Rightarrow> 'c \<Rightarrow> string \<times> 'c" where
  "pair_setFeesAPR K pairAddress v = setData K (getCacheKey ''pair'' [KText ''feesAPR'', KText pairAddress]) v ContractStateTtl"

definition pair_setType :: "'c cache_service \<Rightarrow> string \<Rightarrow> jval \<Rightarrow> 'c \<Rightarrow> string \<times> 'c" where
  "pair_setType K pairAddress v = setData K (getCacheKey ''pair'' [KText ''type'', KText pairAddress]) v ContractStateTtl"

definition pair_setRouterAddress :: "'c cache_service \<Rightarrow> string \<Rightarrow> jval \<Rightarrow> 'c \<Rightarrow> string \<times> 'c" where
  "pair_setRouterAddress K pairAddress v = setData K (getCacheKey ''pair'' [KText ''routerAddress'', KText pairAddress]) v (Hours 1, None)"

definition pair_setWhitelistedAddresses :: "'c cache_service \<Rightarrow> string \<Rightarrow> jval \<Rightarrow> 'c \<Rightarrow> string \<times> 'c" where
  "pair_setWhitelistedAddresses K pairAddress v = setData K (getCacheKey ''pair'' [KText ''whitelistedAddresses'', KText pairAddress]) v (Hours 1, None)"

definition pair_setFeeDestinations :: "'c cache_service \<Rightarrow> string \<Rightarrow> jval \<Rightarrow> 'c \<Rightarrow> string \<times> 'c" where
  "pair_setFeeDestinations K pairAddress v = setData K (getCacheKey ''pair'' [KText ''feeDestinations'', KText pairAddress]) v (Hours 1, None)"

definition pair_setFeesCollectorAddress :: "'c cache_service \<Rightarrow> string \<Rightarrow> jval \<Rightarrow> 'c \<Rightarrow> string \<times> 'c" where
  "pair_setFeesCollectorAddress K pairAddress v = setData K (getCacheKey ''pair'' [KText ''feesCollectorAddress'', KText pairAddress]) v ContractStateTtl"

definition pair_setFeesCollectorCutPercentage :: "'c cache_service \<Rightarrow> string \<Rightarrow> jval \<Rightarrow> 'c \<Rightarrow> string \<times> 'c" where
  "pair_setFeesCollectorCutPercentage K pairAddress v = setData K (getCacheKey ''pair'' [KText ''feesCollectorCutPercentage'', KText pairAddress]) v ContractStateTtl"

definition pair_setHasFarms :: "'c cache_service \<Rightarrow> string \<Rightarrow> jval \<Rightarrow> 'c \<Rightarrow> string \<times> 'c" where
  "pair_setHasFarms K pairAddress v = setData K (getCacheKey ''pair'' [KText ''hasFarms'', KText pairAddress]) v ContractStateTtl"

definition pair_setHasDualFarms :: "'c cache_service \<Rightarrow> string \<Rightarrow> jval \<Rightarrow> 'c \<Rightarrow> string \<times> 'c" where
  "pair_setHasDualFarms K pairAddress v = setData K (getCacheKey ''pair'' [KText ''hasDualFarms'', KText pairAddress]) v ContractStateTtl"

definition pair_setTradesCount :: "'c cache_service \<Rightarrow> string \<Rightarrow> jval \<Rightarrow> 'c \<Rightarrow> string \<times> 'c" where
  "pair_setTradesCount K pairAddress v = setData K (getCacheKey ''pair'' [KText ''tradesCount'', KText pairAddress]) v ContractStateTtl"

definition pair_setDeployedAt :: "'c cache_service \<Rightarrow> string \<Rightarrow> jval \<Rightarrow> 'c \<Rightarrow> string \<times> 'c" where
  "pair_setDeployedAt K pairAddress v = setData K (getCacheKey ''pair'' [KText ''deployedAt'', KText pairAddress]) v ContractStateTtl"

section \<open>What the readers return\<close>

lemmas pair_raw_defs = pair_getFirstTokenIDRaw_def pair_getSecondTokenIDRaw_def pair_getTokenReserveRaw_def pair_getTotalSupplyRaw_def pair_getTotalFeePercentRaw_def pair_getSpecialFeePercentRaw_def pair_getStateRaw_def pair_getFeeStateRaw_def pair_getTrustedSwapPairsRaw_def pair_getWhitelistedAddressesRaw_def

text \<open>
  On a contract that answers as its interface file says, the readers of a pair return a value of the kind they
  promise: identifiers and addresses as text, reserves and supplies as amounts, fees and epochs as numbers.
\<close>

theorem pair_readers_typed:
  assumes "gatewayAnswers G pair_views pairAddress"
  shows "returns TextR (pair_getFirstTokenIDRaw G pairAddress) \<and>
    returns TextR (pair_getSecondTokenIDRaw G pairAddress) \<and>
    returns AmountR (pair_getTokenReserveRaw G pairAddress token) \<and>
    returns AmountR (pair_getTotalSupplyRaw G pairAddress) \<and>
    returns NumberR (pair_getTotalFeePercentRaw G pairAddress) \<and>
    returns NumberR (pair_getSpecialFeePercentRaw G pairAddress) \<and>
    returns TextR (pair_getStateRaw G pairAddress) \<and>
    returns BoolR (pair_getFeeStateRaw G pairAddress) \<and>
    returns (ListR TextR) (pair_getTrustedSwapPairsRaw G pairAddress) \<and>
    returns (ListR TextR) (pair_getWhitelistedAddressesRaw G pairAddress)"
  unfolding pair_raw_defs
  by (intro conjI readView_returns [OF assms]; simp add: pair_views_def decoding)

lemmas pair_reader_defs = pair_firstTokenID_def pair_secondTokenID_def pair_lpTokenID_def pair_totalFeePercent_def pair_specialFeePercent_def pair_state_def pair_feeState_def pair_firstTokenReserve_def pair_secondTokenReserve_def pair_totalSupply_def pair_pairInfoMetadata_def pair_firstTokenPrice_def pair_secondTokenPrice_def pair_firstTokenPriceUSD_def pair_secondTokenPriceUSD_def pair_tokenPriceUSD_def pair_lpTokenPriceUSD_def pair_firstTokenLockedValueUSD_def pair_secondTokenLockedValueUSD_def pair_lockedValueUSD_def pair_firstTokenVolume_def pair_secondTokenVolume_def pair_volumeUSD_def pair_feesUSD_def pair_feesAPR_def pair_type_def pair_routerAddress_def pair_whitelistedAddresses_def pair_feeDestinations_def pair_feesCollectorAddress_def pair_feesCollectorCutPercentage_def pair_hasFarms_def pair_hasDualFarms_def pair_tradesCount_def pair_deployedAt_def

lemmas pair_writer_defs = pair_setFirstTokenID_def pair_setSecondTokenID_def pair_setLpTokenID_def pair_setTotalFeePercent_def pair_setSpecialFeePercent_def pair_setState_def pair_setFeeState_def pair_setFirstTokenReserve_def pair_setSecondTokenReserve_def pair_setTotalSupply_def pair_setPairInfoMetadata_def pair_setFirstTokenPrice_def pair_setSecondTokenPrice_def pair_setFirstTokenPriceUSD_def pair_setSecondTokenPriceUSD_def pair_setTokenPriceUSD_def pair_setLpTokenPriceUSD_def pair_setFirstTokenLockedValueUSD_def pair_setSecondTokenLockedValueUSD_def pair_setLockedValueUSD_def pair_setFirstTokenVolume_def pair_setSecondTokenVolume_def pair_setVolumeUSD_def pair_setFeesUSD_def pair_setFeesAPR_def pair_setType_def pair_setRouterAddress_def pair_setWhitelistedAddresses_def pair_setFeeDestinations_def pair_setFeesCollectorAddress_def pair_setFeesCollectorCutPercentage_def pair_setHasFarms_def pair_setHasDualFarms_def pair_setTradesCount_def pair_setDeployedAt_def

text \<open>
  C34. Every writer of a pair reaches the reader of the same name: after the write, the reader returns the
  value written.
\<close>

theorem pair_writers_reach_readers:
  assumes "cache_lib K" "historyTimestamp G = None" "storable v"
  shows "reaches (pair_setFirstTokenID K pairAddress v) (pair_firstTokenID K G pairAddress) v \<and>
    reaches (pair_setSecondTokenID K pairAddress v) (pair_secondTokenID K G pairAddress) v \<and>
    reaches (pair_setLpTokenID K pairAddress v) (pair_lpTokenID K G pairAddress) v \<and>
    reaches (pair_setTotalFeePercent K pairAddress v) (pair_totalFeePercent K G B pairAddress) v \<and>
    reaches (pair_setSpecialFeePercent K pairAddress v) (pair_specialFeePercent K G B pairAddress) v \<and>
    reaches (pair_setState K pairAddress v) (pair_state K G pairAddress) v \<and>
    reaches (pair_setFeeState K pairAddress v) (pair_feeState K G pairAddress) v \<and>
    reaches (pair_setFirstTokenReserve K pairAddress v) (pair_firstTokenReserve K G pairAddress) v \<and>
    reaches (pair_setSecondTokenReserve K pairAddress v) (pair_secondTokenReserve K G pairAddress) v \<and>
    reaches (pair_setTotalSupply K pairAddress v) (pair_totalSupply K G pairAddress) v \<and>
    reaches (pair_setPairInfoMetadata K pairAddress v) (pair_pairInfoMetadata K G pairAddress) v \<and>
    reaches (pair_setFirstTokenPrice K pairAddress v) (pair_firstTokenPrice K G compute pairAddress) v \<and>
    reaches (pair_setSecondTokenPrice K pairAddress v) (pair_secondTokenPrice K G compute pairAddress) v \<and>
    reaches (pair_setFirstTokenPriceUSD K pairAddress v) (pair_firstTokenPriceUSD K G compute pairAddress) v \<and>
    reaches (pair_setSecondTokenPriceUSD K pairAddress v) (pair_secondTokenPriceUSD K G compute pairAddress) v \<and>
    reaches (pair_setTokenPriceUSD K token v) (pair_tokenPriceUSD K G compute token) v \<and>
    reaches (pair_setLpTokenPriceUSD K pairAddress v) (pair_lpTokenPriceUSD K G compute pairAddress) v \<and>
    reaches (pair_setFirstTokenLockedValueUSD K pairAddress v) (pair_firstTokenLockedValueUSD K G compute pairAddress) v \<and>
    reaches (pair_setSecondTokenLockedValueUSD K pairAddress v) (pair_secondTokenLockedValueUSD K G compute pairAddress) v \<and>
    reaches (pair_setLockedValueUSD K pairAddress v) (pair_lockedValueUSD K G compute pairAddress) v \<and>
    reaches (pair_setFirstTokenVolume K pairAddress tm v) (pair_firstTokenVolume K G compute pairAddress tm) v \<and>
    reaches (pair_setSecondTokenVolume K pairAddress tm v) (pair_secondTokenVolume K G compute pairAddress tm) v \<and>
    reaches (pair_setVolumeUSD K pairAddress tm v) (pair_volumeUSD K G compute pairAddress tm) v \<and>
    reaches (pair_setFeesUSD K pairAddress tm v) (pair_feesUSD K G compute pairAddress tm) v \<and>
    reaches (pair_setFeesAPR K pairAddress v) (pair_feesAPR K G compute pairAddress) v \<and>
    reaches (pair_setType K pairAddress v) (pair_type K G compute pairAddress) v \<and>
    reaches (pair_setRouterAddress K pairAddress v) (pair_routerAddress K G pairAddress) v \<and>
    reaches (pair_setWhitelistedAddresses K pairAddress v) (pair_whitelistedAddresses K G pairAddress) v \<and>
    reaches (pair_setFeeDestinations K pairAddress v) (pair_feeDestinations K G pairAddress) v \<and>
    reaches (pair_setFeesCollectorAddress K pairAddress v) (pair_feesCollectorAddress K G pairAddress) v \<and>
    reaches (pair_setFeesCollectorCutPercentage K pairAddress v) (pair_feesCollectorCutPercentage K G pairAddress) v \<and>
    reaches (pair_setHasFarms K pairAddress v) (pair_hasFarms K G compute pairAddress) v \<and>
    reaches (pair_setHasDualFarms K pairAddress v) (pair_hasDualFarms K G compute pairAddress) v \<and>
    reaches (pair_setTradesCount K pairAddress v) (pair_tradesCount K G compute pairAddress) v \<and>
    reaches (pair_setDeployedAt K pairAddress v) (pair_deployedAt K G compute pairAddress) v"
  by (intro conjI; simp only: pair_writer_defs pair_reader_defs getCacheKey_def assms(2); rule cache_lib.writer_reaches [OF assms(1,3) refl])

theorem pair_writers_reach_readers_witness:
  "reaches (pair_setFirstTokenID map_cache ''erd1pair'' (JText ''WEGLD-bd4d79''))
     (pair_firstTokenID map_cache (typicalGateway pair_views []) ''erd1pair'') (JText ''WEGLD-bd4d79'')"
  by (rule pair_writers_reach_readers [OF map_cache.cache_lib_axioms, THEN conjunct1]) (simp_all add: storable_def)

end
