(* ===== verification/FarmReaders.thy ===== *)
theory FarmReaders
  imports ContractQueries
begin

text \<open>
  The readers of farm contracts of the versions 1.2, 1.3 and 2, of the cached computations on them, and the writers of
  their entries (\<open>src/modules/farm/base-module/services/farm.abi.service.ts\<close>, \<open>farm.compute.service.ts\<close>, \<open>farm.setter.service.ts\<close>
  and the services of the versions under \<open>src/modules/farm/v1.2\<close>, \<open>v1.3\<close>, \<open>v2\<close> and \<open>custom\<close>). The service of a
  version inherits the readers of the base; a reader whose method a version overrides takes it as an argument.
\<close>

section \<open>The interfaces\<close>

definition farm_v12_views :: views where
  "farm_v12_views = [
    (''calculateRewardsForGivenPosition'', [BigUintT, BytesT], [BigUintT]),
    (''getRewardPerShare'', [], [BigUintT]),
    (''getRewardReserve'', [], [BigUintT]),
    (''getUndistributedFees'', [], [BigUintT]),
    (''getCurrentBlockFee'', [], [OptionT (StructT ''tuple'' [(''field0'', UintT 64), (''field1'', BigUintT)])]),
    (''getFarmTokenSupply'', [], [BigUintT]),
    (''getLastErrorMessage'', [], [BytesT]),
    (''getRouterManagedAddress'', [], [AddressT]),
    (''getState'', [], [EnumT [(''Inactive'', []), (''Active'', []), (''Migrate'', [])]]),
    (''getOwner'', [], [AddressT]),
    (''getFarmingTokenId'', [], [TokenIdentifierT]),
    (''getRewardTokenId'', [], [TokenIdentifierT]),
    (''getLockedAssetFactoryManagedAddress'', [], [AddressT]),
    (''getPenaltyPercent'', [], [UintT 64]),
    (''getLockedRewardAprMuliplier'', [], [UintT 8]),
    (''getMinimumFarmingEpoch'', [], [UintT 8]),
    (''getPerBlockRewardAmount'', [], [BigUintT]),
    (''getLastRewardBlockNonce'', [], [UintT 64]),
    (''getFarmTokenId'', [], [TokenIdentifierT]),
    (''getDivisionSafetyConstant'', [], [BigUintT]),
    (''getPairContractManagedAddress'', [], [AddressT]),
    (''getFarmingTokenReserve'', [], [BigUintT]),
    (''getTransferExecGasLimit'', [], [UintT 64]),
    (''getFarmMigrationConfiguration'', [], [StructT ''FarmMigrationConfig'' [(''migration_role'', EnumT [(''Old'', []), (''New'', []), (''NewWithLock'', [])]), (''old_farm_address'', AddressT), (''old_farm_token_id'', TokenIdentifierT), (''new_farm_address'', AddressT), (''new_farm_with_lock_address'', AddressT)]])]"

definition farm_v13_views :: views where
  "farm_v13_views = [
    (''calculateRewardsForGivenPosition'', [BigUintT, StructT ''FarmTokenAttributes'' [(''reward_per_share'', BigUintT), (''original_entering_epoch'', UintT 64), (''entering_epoch'', UintT 64), (''initial_farming_amount'', BigUintT), (''compounded_reward'', BigUintT), (''current_farm_amount'', BigUintT)]], [BigUintT]),
    (''getRewardPerShare'', [], [BigUintT]),
    (''getRewardReserve'', [], [BigUintT]),
    (''getFarmTokenSupply'', [], [BigUintT]),
    (''getLastErrorMessage'', [], [BytesT]),
    (''getState'', [], [EnumT [(''Inactive'', []), (''Active'', [])]]),
    (''getFarmingTokenId'', [], [TokenIdentifierT]),
    (''getRewardTokenId'', [], [TokenIdentifierT]),
    (''getPenaltyPercent'', [], [UintT 64]),
    (''getMinimumFarmingEpoch'', [], [UintT 8]),
    (''getPerBlockRewardAmount'', [], [BigUintT]),
    (''getLastRewardBlockNonce'', [], [UintT 64]),
    (''getFarmTokenId'', [], [TokenIdentifierT]),
    (''getDivisionSafetyConstant'', [], [BigUintT]),
    (''getPairContractManagedAddress'', [], [AddressT]),
    (''getBurnGasLimit'', [], [UintT 64]),
    (''getLockedAssetFactoryManagedAddress'', [], [AddressT]),
    (''getTransferExecGasLimit'', [], [UintT 64]),
    (''getFarmMigrationConfiguration'', [], [StructT ''FarmMigrationConfig'' [(''migration_role'', EnumT [(''Old'', []), (''New'', []), (''NewWithLock'', [])]), (''old_farm_address'', AddressT), (''old_farm_token_id'', TokenIdentifierT)]])]"

definition farm_v13_locked_views :: views where
  "farm_v13_locked_views = [
    (''calculateRewardsForGivenPosition'', [BigUintT, StructT ''FarmTokenAttributes'' [(''reward_per_share'', BigUintT), (''original_entering_epoch'', UintT 64), (''entering_epoch'', UintT 64), (''initial_farming_amount'', BigUintT), (''compounded_reward'', BigUintT), (''current_farm_amount'', BigUintT)]], [BigUintT]),
    (''getRewardPerShare'', [], [BigUintT]),
    (''getRewardReserve'', [], [BigUintT]),
    (''getFarmTokenSupply'', [], [BigUintT]),
    (''getLastErrorMessage'', [], [BytesT]),
    (''getState'', [], [EnumT [(''Inactive'', []), (''Active'', [])]]),
    (''getFarmingTokenId'', [], [TokenIdentifierT]),
    (''getRewardTokenId'', [], [TokenIdentifierT]),
    (''getPenaltyPercent'', [], [UintT 64]),
    (''getMinimumFarmingEpoch'', [], [UintT 8]),
    (''getPerBlockRewardAmount'', [], [BigUintT]),
    (''getLastRewardBlockNonce'', [], [UintT 64]),
    (''getFarmTokenId'', [], [TokenIdentifierT]),
    (''getDivisionSafetyConstant'', [], [BigUintT]),
    (''getPairContractManagedAddress'', [], [AddressT]),
    (''getBurnGasLimit'', [], [UintT 64]),
    (''getLockedAssetFactoryManagedAddress'', [], [AddressT]),
    (''getTransferExecGasLimit'', [], [UintT 64]),
    (''getFarmMigrationConfiguration'', [], [StructT ''FarmMigrationConfig'' [(''migration_role'', EnumT [(''Old'', []), (''New'', []), (''NewWithLock'', [])]), (''old_farm_address'', AddressT), (''old_farm_token_id'', TokenIdentifierT)]])]"

definition farm_v13_custom_views :: views where
  "farm_v13_custom_views = [
    (''calculateRewardsForGivenPosition'', [BigUintT, StructT ''FarmTokenAttributes'' [(''reward_per_share'', BigUintT), (''original_entering_epoch'', UintT 64), (''entering_epoch'', UintT 64), (''initial_farming_amount'', BigUintT), (''compounded_reward'', BigUintT), (''current_farm_amount'', BigUintT)]], [BigUintT]),
    (''getRewardPerShare'', [], [BigUintT]),
    (''getRewardReserve'', [], [BigUintT]),
    (''getFarmTokenSupply'', [], [BigUintT]),
    (''getLastErrorMessage'', [], [BytesT]),
    (''getState'', [], [EnumT [(''Inactive'', []), (''Active'', [])]]),
    (''getOwner'', [], [AddressT]),
    (''getFarmingTokenId'', [], [TokenIdentifierT]),
    (''getRewardTokenId'', [], [TokenIdentifierT]),
    (''getPenaltyPercent'', [], [UintT 64]),
    (''getMinimumFarmingEpoch'', [], [UintT 8]),
    (''getPerBlockRewardAmount'', [], [BigUintT]),
    (''getLastRewardBlockNonce'', [], [UintT 64]),
    (''getFarmTokenId'', [], [TokenIdentifierT]),
    (''getDivisionSafetyConstant'', [], [BigUintT]),
    (''getWhitelist'', [], [ListT AddressT]),
    (''getPairContractManagedAddress'', [], [AddressT]),
    (''getBurnGasLimit'', [], [UintT 64]),
    (''getTransferExecGasLimit'', [], [UintT 64])]"

definition farm_v2_views :: views where
  "farm_v2_views = [
    (''calculateRewardsForGivenPosition'', [AddressT, UintT 64, BigUintT, StructT ''FarmTokenAttributes'' [(''reward_per_share'', BigUintT), (''original_entering_epoch'', UintT 64), (''entering_epoch'', UintT 64), (''initial_farming_amount'', BigUintT), (''compounded_reward'', BigUintT), (''current_farm_amount'', BigUintT)]], [BigUintT]),
    (''getRewardPerShare'', [], [BigUintT]),
    (''getRewardReserve'', [], [BigUintT]),
    (''getFarmingTokenId'', [], [TokenIdentifierT]),
    (''getRewardTokenId'', [], [TokenIdentifierT]),
    (''getPerBlockRewardAmount'', [], [BigUintT]),
    (''getLastRewardBlockNonce'', [], [UintT 64]),
    (''getDivisionSafetyConstant'', [], [BigUintT]),
    (''getFarmTokenId'', [], [TokenIdentifierT]),
    (''getFarmTokenSupply'', [], [BigUintT]),
    (''getState'', [], [EnumT [(''Inactive'', []), (''Active'', []), (''PartialActive'', [])]]),
    (''getPermissions'', [AddressT], [UintT 32]),
    (''getPenaltyPercent'', [], [UintT 64]),
    (''getMinimumFarmingEpoch'', [], [UintT 64]),
    (''getBurnGasLimit'', [], [UintT 64]),
    (''getPairContractManagedAddress'', [], [AddressT]),
    (''getRemainingBoostedRewardsToDistribute'', [UintT 32], [BigUintT]),
    (''getUndistributedBoostedRewards'', [], [BigUintT]),
    (''getBoostedYieldsFactors'', [], [StructT ''BoostedYieldsFactors'' [(''user_rewards_base_const'', BigUintT), (''user_rewards_energy_const'', BigUintT), (''user_rewards_farm_const'', BigUintT), (''min_energy_amount'', BigUintT), (''min_farm_amount'', BigUintT)]]),
    (''getCurrentWeek'', [], [UintT 32]),
    (''getFirstWeekStartEpoch'', [], [UintT 64]),
    (''getCurrentClaimProgress'', [AddressT], [StructT ''ClaimProgress'' [(''energy'', StructT ''Energy'' [(''amount'', BigIntT), (''last_update_epoch'', UintT 64), (''total_locked_tokens'', BigUintT)]), (''week'', UintT 32)]]),
    (''getUserEnergyForWeek'', [AddressT, UintT 32], [StructT ''Energy'' [(''amount'', BigIntT), (''last_update_epoch'', UintT 64), (''total_locked_tokens'', BigUintT)]]),
    (''getLastActiveWeekForUser'', [AddressT], [UintT 32]),
    (''getLastGlobalUpdateWeek'', [], [UintT 32]),
    (''getTotalRewardsForWeek'', [UintT 32], [ListT (StructT ''EsdtTokenPayment'' [(''token_identifier'', TokenIdentifierT), (''token_nonce'', UintT 64), (''amount'', BigUintT)])]),
    (''getTotalEnergyForWeek'', [UintT 32], [BigUintT]),
    (''getTotalLockedTokensForWeek'', [UintT 32], [BigUintT]),
    (''getEnergyFactoryAddress'', [], [AddressT])]"

definition farm_v2_locked_views :: views where
  "farm_v2_locked_views = [
    (''calculateRewardsForGivenPosition'', [AddressT, BigUintT, StructT ''FarmTokenAttributes'' [(''reward_per_share'', BigUintT), (''entering_epoch'', UintT 64), (''compounded_reward'', BigUintT), (''current_farm_amount'', BigUintT), (''original_owner'', AddressT)]], [BigUintT]),
    (''getRewardPerShare'', [], [BigUintT]),
    (''getRewardReserve'', [], [BigUintT]),
    (''getFarmingTokenId'', [], [TokenIdentifierT]),
    (''getRewardTokenId'', [], [TokenIdentifierT]),
    (''getPerBlockRewardAmount'', [], [BigUintT]),
    (''getLastRewardBlockNonce'', [], [UintT 64]),
    (''getDivisionSafetyConstant'', [], [BigUintT]),
    (''getLockingScAddress'', [], [AddressT]),
    (''getLockEpochs'', [], [UintT 64]),
    (''getFarmTokenId'', [], [TokenIdentifierT]),
    (''getFarmTokenSupply'', [], [BigUintT]),
    (''getState'', [], [EnumT [(''Inactive'', []), (''Active'', []), (''PartialActive'', [])]]),
    (''getPermissions'', [AddressT], [UintT 32]),
    (''getPenaltyPercent'', [], [UintT 64]),
    (''getMinimumFarmingEpoch'', [], [UintT 64]),
    (''getBurnGasLimit'', [], [UintT 64]),
    (''getPairContractManagedAddress'', [], [AddressT]),
    (''getBoostedYieldsRewardsPercentage'', [], [UintT 64]),
    (''getRemainingBoostedRewardsToDistribute'', [UintT 32], [BigUintT]),
    (''getUndistributedBoostedRewards'', [], [BigUintT]),
    (''getBoostedYieldsFactors'', [], [StructT ''BoostedYieldsFactors'' [(''max_rewards_factor'', BigUintT), (''user_rewards_energy_const'', BigUintT), (''user_rewards_farm_const'', BigUintT), (''min_energy_amount'', BigUintT), (''min_farm_amount'', BigUintT)]]),
    (''getCurrentWeek'', [], [UintT 32]),
    (''getFirstWeekStartEpoch'', [], [UintT 64]),
    (''getLastActiveWeekForUser'', [AddressT], [UintT 32]),
    (''getUserEnergyForWeek'', [AddressT, UintT 32], [OptionT (StructT ''Energy'' [(''amount'', BigIntT), (''last_update_epoch'', UintT 64), (''total_locked_tokens'', BigUintT)])]),
    (''getLastGlobalUpdateWeek'', [], [UintT 32]),
    (''getTotalRewardsForWeek'', [UintT 32], [ListT (StructT ''EsdtTokenPayment'' [(''token_identifier'', TokenIdentifierT), (''token_nonce'', UintT 64), (''amount'', BigUintT)])]),
    (''getTotalEnergyForWeek'', [UintT 32], [BigUintT]),
    (''getTotalLockedTokensForWeek'', [UintT 32], [BigUintT]),
    (''getCurrentClaimProgress'', [AddressT], [StructT ''ClaimProgress'' [(''energy'', StructT ''Energy'' [(''amount'', BigIntT), (''last_update_epoch'', UintT 64), (''total_locked_tokens'', BigUintT)]), (''week'', UintT 32)]]),
    (''getEnergyFactoryAddress'', [], [AddressT])]"

text \<open>\<open>MXProxyService.getFarmSmartContract\<close>: the interface file of a farm by version and type; there is no file to read for the other combinations.\<close>

fun farmInterface :: "farm_version option \<Rightarrow> farm_reward_type option \<Rightarrow> views option" where
  "farmInterface (Some V1_2) None = Some farm_v12_views"
| "farmInterface (Some V1_3) (Some UNLOCKED_REWARDS) = Some farm_v13_views"
| "farmInterface (Some V1_3) (Some LOCKED_REWARDS) = Some farm_v13_locked_views"
| "farmInterface (Some V1_3) (Some CUSTOM_REWARDS) = Some farm_v13_custom_views"
| "farmInterface (Some V2) (Some UNLOCKED_REWARDS) = Some farm_v2_views"
| "farmInterface (Some V2) (Some LOCKED_REWARDS) = Some farm_v2_locked_views"
| "farmInterface _ _ = None"

definition farmContract :: "gateway \<Rightarrow> string \<Rightarrow> views option" where
  "farmContract G farmAddress =
     farmInterface (farmVersion (farmsTable G) farmAddress) (farmType (farmsTable G) farmAddress)"

definition readFarm :: "gateway \<Rightarrow> string \<Rightarrow> string \<Rightarrow> query_arg list \<Rightarrow> (abi_value \<Rightarrow> 'a res) \<Rightarrow> 'a res" where
  "readFarm G farmAddress f args decode =
     (case farmContract G farmAddress of None \<Rightarrow> Inl TypeError | Some vw \<Rightarrow> readView G vw farmAddress f args decode)"

text \<open>\<open>new BigNumber (s, 16)\<close>: the digits of a storage value; no number without digits.\<close>

definition hexDigit :: "char \<Rightarrow> nat option" where
  "hexDigit c =
     (let n = of_char c :: nat in
      if 48 \<le> n \<and> n \<le> 57 then Some (n - 48) else if 97 \<le> n \<and> n \<le> 102 then Some (n - 87)
      else if 65 \<le> n \<and> n \<le> 70 then Some (n - 55) else None)"

fun hexAmount :: "nat \<Rightarrow> string \<Rightarrow> bn" where
  "hexAmount acc [] = bn_of_int (int acc)"
| "hexAmount acc (c # cs) = (case hexDigit c of Some d \<Rightarrow> hexAmount (16 * acc + d) cs | None \<Rightarrow> NotANum)"

definition bigOfHex :: "string \<Rightarrow> bn" where
  "bigOfHex s = (if s = [] then NotANum else hexAmount 0 s)"

section \<open>Views of every version\<close>

definition farm_getFarmedTokenIDRaw :: "gateway \<Rightarrow> string \<Rightarrow> jval res" where
  "farm_getFarmedTokenIDRaw G farmAddress = readFarm G farmAddress ''getRewardTokenId'' [] asText"

definition farm_farmedTokenID :: "'c cache_service \<Rightarrow> gateway \<Rightarrow> string \<Rightarrow> 'c \<Rightarrow> jval res \<times> 'c" where
  "farm_farmedTokenID K G farmAddress = GetOrSetCache K (historyTimestamp G) ''farm'' TokenTtl ''farmedTokenID'' [KText farmAddress]
     (uncached (farm_getFarmedTokenIDRaw G farmAddress))"

definition farm_getFarmTokenIDRaw :: "gateway \<Rightarrow> string \<Rightarrow> jval res" where
  "farm_getFarmTokenIDRaw G farmAddress = readFarm G farmAddress ''getFarmTokenId'' [] asText"

definition farm_farmTokenID :: "'c cache_service \<Rightarrow> gateway \<Rightarrow> string \<Rightarrow> 'c \<Rightarrow> jval res \<times> 'c" where
  "farm_farmTokenID K G farmAddress = GetOrSetCache K (historyTimestamp G) ''farm'' TokenTtl ''farmTokenID'' [KText farmAddress]
     (uncached (farm_getFarmTokenIDRaw G farmAddress))"

definition farm_getFarmingTokenIDRaw :: "gateway \<Rightarrow> string \<Rightarrow> jval res" where
  "farm_getFarmingTokenIDRaw G farmAddress = readFarm G farmAddress ''getFarmingTokenId'' [] asText"

definition farm_farmingTokenID :: "'c cache_service \<Rightarrow> gateway \<Rightarrow> string \<Rightarrow> 'c \<Rightarrow> jval res \<times> 'c" where
  "farm_farmingTokenID K G farmAddress = GetOrSetCache K (historyTimestamp G) ''farm'' TokenTtl ''farmingTokenID'' [KText farmAddress]
     (uncached (farm_getFarmingTokenIDRaw G farmAddress))"

definition farm_getFarmTokenSupplyRaw :: "gateway \<Rightarrow> string \<Rightarrow> jval res" where
  "farm_getFarmTokenSupplyRaw G farmAddress = readFarm G farmAddress ''getFarmTokenSupply'' [] asFixed"

definition farm_farmTokenSupply :: "'c cache_service \<Rightarrow> gateway \<Rightarrow> string \<Rightarrow> 'c \<Rightarrow> jval res \<times> 'c" where
  "farm_farmTokenSupply K G farmAddress = GetOrSetCache K (historyTimestamp G) ''farm'' ContractInfoTtl ''farmTokenSupply'' [KText farmAddress]
     (uncached (farm_getFarmTokenSupplyRaw G farmAddress))"

definition farm_getRewardsPerBlockRaw :: "gateway \<Rightarrow> string \<Rightarrow> jval res" where
  "farm_getRewardsPerBlockRaw G farmAddress = readFarm G farmAddress ''getPerBlockRewardAmount'' [] asFixed"

definition farm_rewardsPerBlock :: "'c cache_service \<Rightarrow> gateway \<Rightarrow> string \<Rightarrow> 'c \<Rightarrow> jval res \<times> 'c" where
  "farm_rewardsPerBlock K G farmAddress = GetOrSetCache K (historyTimestamp G) ''farm'' ContractStateTtl ''rewardsPerBlock'' [KText farmAddress]
     (uncached (farm_getRewardsPerBlockRaw G farmAddress))"

definition farm_getPenaltyPercentRaw :: "gateway \<Rightarrow> string \<Rightarrow> jval res" where
  "farm_getPenaltyPercentRaw G farmAddress = readFarm G farmAddress ''getPenaltyPercent'' [] asFixed"

definition farm_penaltyPercent :: "'c cache_service \<Rightarrow> gateway \<Rightarrow> string \<Rightarrow> 'c \<Rightarrow> jval res \<times> 'c" where
  "farm_penaltyPercent K G farmAddress = GetOrSetCache K (historyTimestamp G) ''farm'' ContractStateTtl ''penaltyPercent'' [KText farmAddress]
     (uncached (farm_getPenaltyPercentRaw G farmAddress))"

definition farm_getMinimumFarmingEpochsRaw :: "gateway \<Rightarrow> string \<Rightarrow> jval res" where
  "farm_getMinimumFarmingEpochsRaw G farmAddress = readFarm G farmAddress ''getMinimumFarmingEpoch'' [] asFixed"

definition farm_minimumFarmingEpochs :: "'c cache_service \<Rightarrow> gateway \<Rightarrow> string \<Rightarrow> 'c \<Rightarrow> jval res \<times> 'c" where
  "farm_minimumFarmingEpochs K G farmAddress = GetOrSetCache K (historyTimestamp G) ''farm'' ContractStateTtl ''minimumFarmingEpochs'' [KText farmAddress]
     (uncached (farm_getMinimumFarmingEpochsRaw G farmAddress))"

definition farm_getRewardPerShareRaw :: "gateway \<Rightarrow> string \<Rightarrow> jval res" where
  "farm_getRewardPerShareRaw G farmAddress = readFarm G farmAddress ''getRewardPerShare'' [] asFixed"

definition farm_rewardPerShare :: "'c cache_service \<Rightarrow> gateway \<Rightarrow> string \<Rightarrow> 'c \<Rightarrow> jval res \<times> 'c" where
  "farm_rewardPerShare K G farmAddress = GetOrSetCache K (historyTimestamp G) ''farm'' ContractInfoTtl ''rewardPerShare'' [KText farmAddress]
     (uncached (farm_getRewardPerShareRaw G farmAddress))"

definition farm_getRewardReserveRaw :: "gateway \<Rightarrow> string \<Rightarrow> jval res" where
  "farm_getRewardReserveRaw G farmAddress = readFarm G farmAddress ''getRewardReserve'' [] asFixed"

definition farm_rewardReserve :: "'c cache_service \<Rightarrow> gateway \<Rightarrow> string \<Rightarrow> 'c \<Rightarrow> jval res \<times> 'c" where
  "farm_rewardReserve K G farmAddress = GetOrSetCache K (historyTimestamp G) ''farm'' ContractInfoTtl ''rewardReserve'' [KText farmAddress]
     (uncached (farm_getRewardReserveRaw G farmAddress))"

definition farm_getLastRewardBlockNonceRaw :: "gateway \<Rightarrow> string \<Rightarrow> jval res" where
  "farm_getLastRewardBlockNonceRaw G farmAddress = readFarm G farmAddress ''getLastRewardBlockNonce'' [] asNumber"

definition farm_lastRewardBlockNonce :: "'c cache_service \<Rightarrow> gateway \<Rightarrow> string \<Rightarrow> 'c \<Rightarrow> jval res \<times> 'c" where
  "farm_lastRewardBlockNonce K G farmAddress = GetOrSetCache K (historyTimestamp G) ''farm'' ContractInfoTtl ''lastRewardBlockNonce'' [KText farmAddress]
     (uncached (farm_getLastRewardBlockNonceRaw G farmAddress))"

definition farm_getDivisionSafetyConstantRaw :: "gateway \<Rightarrow> string \<Rightarrow> jval res" where
  "farm_getDivisionSafetyConstantRaw G farmAddress = readFarm G farmAddress ''getDivisionSafetyConstant'' [] asFixed"

definition farm_divisionSafetyConstant :: "'c cache_service \<Rightarrow> gateway \<Rightarrow> string \<Rightarrow> 'c \<Rightarrow> jval res \<times> 'c" where
  "farm_divisionSafetyConstant K G farmAddress = GetOrSetCache K (historyTimestamp G) ''farm'' (Hours 1, None) ''divisionSafetyConstant'' [KText farmAddress]
     (uncached (farm_getDivisionSafetyConstantRaw G farmAddress))"

definition farm_calculateRewardsForGivenPosition :: "gateway \<Rightarrow> string \<Rightarrow> bn \<Rightarrow> string \<Rightarrow> jval res" where
  "farm_calculateRewardsForGivenPosition G farmAddress liquidity attributesHex = 
     readFarm G farmAddress ''calculateRewardsForGivenPosition'' [Typed (BigUInt liquidity), Typed (BytesHex attributesHex)] asRaw"

definition farm_getStateRaw :: "gateway \<Rightarrow> string \<Rightarrow> jval res" where
  "farm_getStateRaw G farmAddress = readFarm G farmAddress ''getState'' [] asName"

definition farm_state :: "'c cache_service \<Rightarrow> gateway \<Rightarrow> string \<Rightarrow> 'c \<Rightarrow> jval res \<times> 'c" where
  "farm_state K G farmAddress = GetOrSetCache K (historyTimestamp G) ''farm'' ContractStateTtl ''state'' [KText farmAddress]
     (uncached (farm_getStateRaw G farmAddress))"

definition farm_getProduceRewardsEnabledRaw :: "gateway \<Rightarrow> string \<Rightarrow> jval res" where
  "farm_getProduceRewardsEnabledRaw G farmAddress = 
     res_bind (storageKey G farmAddress [KText ''produce_rewards_enabled'']) (\<lambda>response. Inr (JBool (response = ''01'')))"

definition farm_produceRewardsEnabled :: "'c cache_service \<Rightarrow> gateway \<Rightarrow> string \<Rightarrow> 'c \<Rightarrow> jval res \<times> 'c" where
  "farm_produceRewardsEnabled K G farmAddress = GetOrSetCache K (historyTimestamp G) ''farm'' ContractStateTtl ''produceRewardsEnabled'' [KText farmAddress]
     (uncached (farm_getProduceRewardsEnabledRaw G farmAddress))"

definition farm_burnGasLimit :: "'c cache_service \<Rightarrow> gateway \<Rightarrow> (gateway \<Rightarrow> string \<Rightarrow> jval res) \<Rightarrow> string \<Rightarrow> 'c \<Rightarrow> jval res \<times> 'c" where
  "farm_burnGasLimit K G rawMethod farmAddress = GetOrSetCache K (historyTimestamp G) ''farm'' ContractStateTtl ''burnGasLimit'' [KText farmAddress]
     (uncached (rawMethod G farmAddress))"

definition farm_getBurnGasLimitRaw :: "gateway \<Rightarrow> string \<Rightarrow> jval res" where
  "farm_getBurnGasLimitRaw G farmAddress = Inr JUndefined"

definition farm_transferExecGasLimit :: "'c cache_service \<Rightarrow> gateway \<Rightarrow> (gateway \<Rightarrow> string \<Rightarrow> jval res) \<Rightarrow> string \<Rightarrow> 'c \<Rightarrow> jval res \<times> 'c" where
  "farm_transferExecGasLimit K G rawMethod farmAddress = GetOrSetCache K (historyTimestamp G) ''farm'' ContractStateTtl ''transferExecGasLimit'' [KText farmAddress]
     (uncached (rawMethod G farmAddress))"

definition farm_getTransferExecGasLimitRaw :: "gateway \<Rightarrow> string \<Rightarrow> jval res" where
  "farm_getTransferExecGasLimitRaw G farmAddress = readFarm G farmAddress ''getTransferExecGasLimit'' [] asFixed"

definition farm_getPairContractAddressRaw :: "gateway \<Rightarrow> string \<Rightarrow> jval res" where
  "farm_getPairContractAddressRaw G farmAddress = 
     orUndefined (case farmContract G farmAddress of None \<Rightarrow> Inl TypeError | Some vw \<Rightarrow>
       res_bind (getGenericData G vw farmAddress ''getPairContractManagedAddress'' []) (\<lambda>r.
         if returnCode r = FunctionNotFound then Inr (JText (zeroAddress G)) else res_bind (firstValue r) asBech32))"

definition farm_pairContractAddress :: "'c cache_service \<Rightarrow> gateway \<Rightarrow> string \<Rightarrow> 'c \<Rightarrow> jval res \<times> 'c" where
  "farm_pairContractAddress K G farmAddress = GetOrSetCache K (historyTimestamp G) ''farm'' ContractStateTtl ''pairContractAddress'' [KText farmAddress]
     (uncached (farm_getPairContractAddressRaw G farmAddress))"

definition farm_lastErrorMessage :: "'c cache_service \<Rightarrow> gateway \<Rightarrow> (gateway \<Rightarrow> string \<Rightarrow> jval res) \<Rightarrow> string \<Rightarrow> 'c \<Rightarrow> jval res \<times> 'c" where
  "farm_lastErrorMessage K G rawMethod farmAddress = GetOrSetCache K (historyTimestamp G) ''farm'' ContractStateTtl ''lastErrorMessage'' [KText farmAddress]
     (uncached (rawMethod G farmAddress))"

definition farm_getLastErrorMessageRaw :: "gateway \<Rightarrow> string \<Rightarrow> jval res" where
  "farm_getLastErrorMessageRaw G farmAddress = readFarm G farmAddress ''getLastErrorMessage'' [] asText"

definition farm_getOwnerAddressRaw :: "gateway \<Rightarrow> string \<Rightarrow> jval res" where
  "farm_getOwnerAddressRaw G farmAddress = res_bind (accountOwner G farmAddress) (\<lambda>a. Inr (JText a))"

definition farm_ownerAddress :: "'c cache_service \<Rightarrow> gateway \<Rightarrow> string \<Rightarrow> 'c \<Rightarrow> jval res \<times> 'c" where
  "farm_ownerAddress K G farmAddress = GetOrSetCache K (historyTimestamp G) ''farm'' ContractStateTtl ''ownerAddress'' [KText farmAddress]
     (uncached (farm_getOwnerAddressRaw G farmAddress))"

definition farm_getFarmShardRaw :: "gateway \<Rightarrow> string \<Rightarrow> jval res" where
  "farm_getFarmShardRaw G farmAddress = res_bind (accountShard G farmAddress) (\<lambda>n. Inr (JNumber (jint n)))"

definition farm_farmShard :: "'c cache_service \<Rightarrow> gateway \<Rightarrow> string \<Rightarrow> 'c \<Rightarrow> jval res \<times> 'c" where
  "farm_farmShard K G farmAddress = GetOrSetCache K (historyTimestamp G) ''farm'' ContractInfoTtl ''farmShard'' [KText farmAddress]
     (uncached (farm_getFarmShardRaw G farmAddress))"

section \<open>Views of version 2\<close>

definition farm_v2_getLastErrorMessageRaw :: "gateway \<Rightarrow> string \<Rightarrow> jval res" where
  "farm_v2_getLastErrorMessageRaw G farmAddress = Inr JUndefined"

definition farm_v2_getTransferExecGasLimitRaw :: "gateway \<Rightarrow> string \<Rightarrow> jval res" where
  "farm_v2_getTransferExecGasLimitRaw G farmAddress = Inr JUndefined"

definition farm_v2_getBoostedYieldsRewardsPercenatageRaw :: "gateway \<Rightarrow> string \<Rightarrow> jval res" where
  "farm_v2_getBoostedYieldsRewardsPercenatageRaw G farmAddress = readFarm G farmAddress ''getBoostedYieldsRewardsPercentage'' [] asNumber"

definition farm_v2_boostedYieldsRewardsPercenatage :: "'c cache_service \<Rightarrow> gateway \<Rightarrow> string \<Rightarrow> 'c \<Rightarrow> jval res \<times> 'c" where
  "farm_v2_boostedYieldsRewardsPercenatage K G farmAddress = GetOrSetCache K (historyTimestamp G) ''farm'' ContractStateTtl ''boostedYieldsRewardsPercenatage'' [KText farmAddress]
     (uncached (farm_v2_getBoostedYieldsRewardsPercenatageRaw G farmAddress))"

definition farm_v2_getLockingScAddressRaw :: "gateway \<Rightarrow> string \<Rightarrow> jval res" where
  "farm_v2_getLockingScAddressRaw G farmAddress = 
     (if farmType (farmsTable G) farmAddress = Some UNLOCKED_REWARDS then Inr JUndefined
      else readFarm G farmAddress ''getLockingScAddress'' [] asBech32)"

definition farm_v2_lockingScAddress :: "'c cache_service \<Rightarrow> gateway \<Rightarrow> string \<Rightarrow> 'c \<Rightarrow> jval res \<times> 'c" where
  "farm_v2_lockingScAddress K G farmAddress = GetOrSetCache K (historyTimestamp G) ''farm'' ContractStateTtl ''lockingScAddress'' [KText farmAddress]
     (uncached (farm_v2_getLockingScAddressRaw G farmAddress))"

definition farm_v2_getLockEpochsRaw :: "gateway \<Rightarrow> string \<Rightarrow> jval res" where
  "farm_v2_getLockEpochsRaw G farmAddress = 
     (if farmType (farmsTable G) farmAddress = Some UNLOCKED_REWARDS then Inr JUndefined
      else readFarm G farmAddress ''getLockEpochs'' [] asNumber)"

definition farm_v2_lockEpochs :: "'c cache_service \<Rightarrow> gateway \<Rightarrow> string \<Rightarrow> 'c \<Rightarrow> jval res \<times> 'c" where
  "farm_v2_lockEpochs K G farmAddress = GetOrSetCache K (historyTimestamp G) ''farm'' ContractStateTtl ''lockEpochs'' [KText farmAddress]
     (uncached (farm_v2_getLockEpochsRaw G farmAddress))"

definition farm_v2_getRemainingBoostedRewardsToDistributeRaw :: "gateway \<Rightarrow> string \<Rightarrow> int \<Rightarrow> jval res" where
  "farm_v2_getRemainingBoostedRewardsToDistributeRaw G farmAddress wk = readFarm G farmAddress ''getRemainingBoostedRewardsToDistribute'' [Typed (U32V wk)] asFixed"

definition farm_v2_remainingBoostedRewardsToDistribute :: "'c cache_service \<Rightarrow> gateway \<Rightarrow> string \<Rightarrow> int \<Rightarrow> 'c \<Rightarrow> jval res \<times> 'c" where
  "farm_v2_remainingBoostedRewardsToDistribute K G farmAddress wk = GetOrSetCache K (historyTimestamp G) ''farm'' ContractStateTtl ''remainingBoostedRewardsToDistribute'' [KText farmAddress, KInt wk]
     (uncached (farm_v2_getRemainingBoostedRewardsToDistributeRaw G farmAddress wk))"

definition farm_v2_getUndistributedBoostedRewardsRaw :: "gateway \<Rightarrow> string \<Rightarrow> jval res" where
  "farm_v2_getUndistributedBoostedRewardsRaw G farmAddress = readFarm G farmAddress ''getUndistributedBoostedRewards'' [] asFixed"

definition farm_v2_undistributedBoostedRewards :: "'c cache_service \<Rightarrow> gateway \<Rightarrow> string \<Rightarrow> 'c \<Rightarrow> jval res \<times> 'c" where
  "farm_v2_undistributedBoostedRewards K G farmAddress = GetOrSetCache K (historyTimestamp G) ''farm'' ContractStateTtl ''undistributedBoostedRewards'' [KText farmAddress]
     (uncached (farm_v2_getUndistributedBoostedRewardsRaw G farmAddress))"

definition farm_v2_lastUndistributedBoostedRewardsCollectWeek :: "'c cache_service \<Rightarrow> gateway \<Rightarrow> string \<Rightarrow> 'c \<Rightarrow> jval res \<times> 'c" where
  "farm_v2_lastUndistributedBoostedRewardsCollectWeek K G farmAddress =
     GetOrSetCache K (historyTimestamp G) ''farm'' ContractStateTtl ''lastUndistributedBoostedRewardsCollectWeek'' [KText farmAddress]
       (uncached (res_bind (storageKey G farmAddress [KText ''lastUndistributedBoostedRewardsCollectWeek'']) (\<lambda>s. Inr (JText s))))"

definition farm_v2_getBoostedYieldsFactorsRaw :: "gateway \<Rightarrow> string \<Rightarrow> jval res" where
  "farm_v2_getBoostedYieldsFactorsRaw G farmAddress = 
     readFarm G farmAddress ''getBoostedYieldsFactors'' [] (newObject
       [(''maxRewardsFactor'', via ''max_rewards_factor'' asFixed), (''userRewardsEnergy'', via ''user_rewards_energy_const'' asFixed),
        (''userRewardsFarm'', via ''user_rewards_farm_const'' asFixed), (''minEnergyAmount'', via ''min_energy_amount'' asFixed),
        (''minFarmAmount'', via ''min_farm_amount'' asFixed)])"

definition farm_v2_boostedYieldsFactors :: "'c cache_service \<Rightarrow> gateway \<Rightarrow> string \<Rightarrow> 'c \<Rightarrow> jval res \<times> 'c" where
  "farm_v2_boostedYieldsFactors K G farmAddress = GetOrSetCache K (historyTimestamp G) ''farm'' ContractStateTtl ''boostedYieldsFactors'' [KText farmAddress]
     (uncached (farm_v2_getBoostedYieldsFactorsRaw G farmAddress))"

definition farm_v2_getAccumulatedRewardsForWeekRaw :: "gateway \<Rightarrow> bignumber \<Rightarrow> string \<Rightarrow> int \<Rightarrow> jval res" where
  "farm_v2_getAccumulatedRewardsForWeekRaw G B sc wk = 
     res_bind (storageKey G sc [KText ''accumulatedRewardsForWeek'', KInt wk]) (\<lambda>hexValue.
       Inr (JAmount (bn_integer B (bigOfHex hexValue))))"

definition farm_v2_accumulatedRewardsForWeek :: "'c cache_service \<Rightarrow> gateway \<Rightarrow> bignumber \<Rightarrow> string \<Rightarrow> int \<Rightarrow> 'c \<Rightarrow> jval res \<times> 'c" where
  "farm_v2_accumulatedRewardsForWeek K G B sc wk = GetOrSetCache K (historyTimestamp G) ''farm'' ContractStateTtl ''accumulatedRewardsForWeek'' [KText sc, KInt wk]
     (uncached (farm_v2_getAccumulatedRewardsForWeekRaw G B sc wk))"

definition farm_v2_getEnergyFactoryAddressRaw :: "gateway \<Rightarrow> string \<Rightarrow> jval res" where
  "farm_v2_getEnergyFactoryAddressRaw G farmAddress = readFarm G farmAddress ''getEnergyFactoryAddress'' [] asBech32"

definition farm_v2_energyFactoryAddress :: "'c cache_service \<Rightarrow> gateway \<Rightarrow> string \<Rightarrow> 'c \<Rightarrow> jval res \<times> 'c" where
  "farm_v2_energyFactoryAddress K G farmAddress = GetOrSetCache K (historyTimestamp G) ''farm'' ContractStateTtl ''energyFactoryAddress'' [KText farmAddress]
     (uncached (farm_v2_getEnergyFactoryAddressRaw G farmAddress))"

record farm_attributes_v2 =
  faRewardPerShare :: bn
  faEnteringEpoch :: bn
  faCompoundedReward :: bn
  faCurrentFarmAmount :: bn
  faOriginalOwner :: string

definition farm_v2_calculateRewardsForGivenPosition :: "gateway \<Rightarrow> string \<Rightarrow> string \<Rightarrow> bn \<Rightarrow> farm_attributes_v2 \<Rightarrow> jval res" where
  "farm_v2_calculateRewardsForGivenPosition G farmAddress usr liquidity decodedAttributes = 
     readFarm G farmAddress ''calculateRewardsForGivenPosition''
       [Typed (AddressV usr), Typed (BigUInt liquidity),
        StructArg ''FarmTokenAttributes''
          [(''reward_per_share'', BigUInt (faRewardPerShare decodedAttributes)), (''entering_epoch'', U64V (faEnteringEpoch decodedAttributes)),
           (''compounded_reward'', BigUInt (faCompoundedReward decodedAttributes)),
           (''current_farm_amount'', BigUInt (faCurrentFarmAmount decodedAttributes)), (''original_owner'', AddressV (faOriginalOwner decodedAttributes))]]
       asRaw"

definition farm_v2_getBurnGasLimitRaw :: "gateway \<Rightarrow> string \<Rightarrow> jval res" where
  "farm_v2_getBurnGasLimitRaw G farmAddress = readFarm G farmAddress ''getBurnGasLimit'' [] asFixed"

section \<open>Views of version 1.2\<close>

definition farm_v12_getLockedAssetFactoryAddressRaw :: "gateway \<Rightarrow> string \<Rightarrow> jval res" where
  "farm_v12_getLockedAssetFactoryAddressRaw G farmAddress = readFarm G farmAddress ''getLockedAssetFactoryManagedAddress'' [] asBech32"

definition farm_v12_lockedAssetFactoryAddress :: "'c cache_service \<Rightarrow> gateway \<Rightarrow> string \<Rightarrow> 'c \<Rightarrow> jval res \<times> 'c" where
  "farm_v12_lockedAssetFactoryAddress K G farmAddress = GetOrSetCache K (historyTimestamp G) ''farm'' ContractStateTtl ''lockedAssetFactoryAddress'' [KText farmAddress]
     (uncached (farm_v12_getLockedAssetFactoryAddressRaw G farmAddress))"

definition farm_v12_getFarmingTokenReserveRaw :: "gateway \<Rightarrow> string \<Rightarrow> jval res" where
  "farm_v12_getFarmingTokenReserveRaw G farmAddress = readFarm G farmAddress ''getFarmingTokenReserve'' [] asFixed"

definition farm_v12_farmingTokenReserve :: "'c cache_service \<Rightarrow> gateway \<Rightarrow> string \<Rightarrow> 'c \<Rightarrow> jval res \<times> 'c" where
  "farm_v12_farmingTokenReserve K G farmAddress = GetOrSetCache K (historyTimestamp G) ''farm'' ContractBalanceTtl ''farmingTokenReserve'' [KText farmAddress]
     (uncached (farm_v12_getFarmingTokenReserveRaw G farmAddress))"

definition farm_v12_getUndistributedFeesRaw :: "gateway \<Rightarrow> string \<Rightarrow> jval res" where
  "farm_v12_getUndistributedFeesRaw G farmAddress = readFarm G farmAddress ''getUndistributedFees'' [] asFixed"

definition farm_v12_undistributedFees :: "'c cache_service \<Rightarrow> gateway \<Rightarrow> string \<Rightarrow> 'c \<Rightarrow> jval res \<times> 'c" where
  "farm_v12_undistributedFees K G farmAddress = GetOrSetCache K (historyTimestamp G) ''farm'' ContractBalanceTtl ''undistributedFees'' [KText farmAddress]
     (uncached (farm_v12_getUndistributedFeesRaw G farmAddress))"

text \<open>The second element of the pair, read by index.\<close>

fun atIndex :: "nat \<Rightarrow> abi_value \<Rightarrow> abi_value res" where
  "atIndex i (VList vs) = (if i < length vs then Inr (vs ! i) else Inl TypeError)"
| "atIndex i v = Inl TypeError"

definition farm_v12_getCurrentBlockFeeRaw :: "gateway \<Rightarrow> string \<Rightarrow> jval res" where
  "farm_v12_getCurrentBlockFeeRaw G farmAddress = 
     readFarm G farmAddress ''getCurrentBlockFee'' []
       (\<lambda>v. if v = VNull then Inr (JAmount (Fin 0)) else res_bind (atIndex 1 v) asFixed)"

definition farm_v12_currentBlockFee :: "'c cache_service \<Rightarrow> gateway \<Rightarrow> string \<Rightarrow> 'c \<Rightarrow> jval res \<times> 'c" where
  "farm_v12_currentBlockFee K G farmAddress = GetOrSetCache K (historyTimestamp G) ''farm'' ContractBalanceTtl ''currentBlockFee'' [KText farmAddress]
     (uncached (farm_v12_getCurrentBlockFeeRaw G farmAddress))"

definition farm_v12_getLockedRewardAprMuliplierRaw :: "gateway \<Rightarrow> string \<Rightarrow> jval res" where
  "farm_v12_getLockedRewardAprMuliplierRaw G farmAddress = readFarm G farmAddress ''getLockedRewardAprMuliplier'' [] (\<lambda>v. res_bind (asFixed v) (\<lambda>_. asRaw v))"

definition farm_v12_lockedRewardAprMuliplier :: "'c cache_service \<Rightarrow> gateway \<Rightarrow> string \<Rightarrow> 'c \<Rightarrow> jval res \<times> 'c" where
  "farm_v12_lockedRewardAprMuliplier K G farmAddress = GetOrSetCache K (historyTimestamp G) ''farm'' ContractBalanceTtl ''lockedRewardAprMuliplier'' [KText farmAddress]
     (uncached (farm_v12_getLockedRewardAprMuliplierRaw G farmAddress))"

definition farm_v12_getFarmMigrationConfigurationRaw :: "gateway \<Rightarrow> string \<Rightarrow> jval res" where
  "farm_v12_getFarmMigrationConfigurationRaw G farmAddress = 
     readFarm G farmAddress ''getFarmMigrationConfiguration'' [] (newObject
       [(''migrationRole'', via ''migration_role'' asName), (''oldFarmAddress'', via ''old_farm_address'' asBech32),
        (''oldFarmTokenID'', via ''old_farm_token_id'' asText), (''newFarmAddress'', via ''new_farm_address'' asBech32),
        (''newLockedFarmAddress'', via ''new_farm_with_lock_address'' asBech32)])"

definition farm_v12_farmMigrationConfiguration :: "'c cache_service \<Rightarrow> gateway \<Rightarrow> string \<Rightarrow> 'c \<Rightarrow> jval res \<times> 'c" where
  "farm_v12_farmMigrationConfiguration K G farmAddress = GetOrSetCache K (historyTimestamp G) ''farm'' (Hours 1, None) ''farmMigrationConfiguration'' [KText farmAddress]
     (uncached (farm_v12_getFarmMigrationConfigurationRaw G farmAddress))"

section \<open>Views of version 1.3\<close>

definition farm_v13_getLockedAssetFactoryAddressRaw :: "gateway \<Rightarrow> string \<Rightarrow> jval res" where
  "farm_v13_getLockedAssetFactoryAddressRaw G farmAddress = orUndefined (readFarm G farmAddress ''getLockedAssetFactoryManagedAddress'' [] asBech32)"

definition farm_v13_lockedAssetFactoryAddress :: "'c cache_service \<Rightarrow> gateway \<Rightarrow> string \<Rightarrow> 'c \<Rightarrow> jval res \<times> 'c" where
  "farm_v13_lockedAssetFactoryAddress K G farmAddress = GetOrSetCache K (historyTimestamp G) ''farm'' ContractStateTtl ''lockedAssetFactoryAddress'' [KText farmAddress]
     (uncached (farm_v13_getLockedAssetFactoryAddressRaw G farmAddress))"

definition farm_v13_getFarmMigrationConfigurationRaw :: "gateway \<Rightarrow> string \<Rightarrow> jval res" where
  "farm_v13_getFarmMigrationConfigurationRaw G farmAddress = 
     orUndefined (readFarm G farmAddress ''getFarmMigrationConfiguration'' [] (newObject
       [(''migrationRole'', via ''migration_role'' asName), (''oldFarmAddress'', via ''old_farm_address'' asBech32),
        (''oldFarmTokenID'', via ''old_farm_token_id'' asText)]))"

definition farm_v13_farmMigrationConfiguration :: "'c cache_service \<Rightarrow> gateway \<Rightarrow> string \<Rightarrow> 'c \<Rightarrow> jval res \<times> 'c" where
  "farm_v13_farmMigrationConfiguration K G farmAddress = GetOrSetCache K (historyTimestamp G) ''farm'' (Hours 1, None) ''farmMigrationConfiguration'' [KText farmAddress]
     (uncached (farm_v13_getFarmMigrationConfigurationRaw G farmAddress))"

definition farm_v13_getBurnGasLimitRaw :: "gateway \<Rightarrow> string \<Rightarrow> jval res" where
  "farm_v13_getBurnGasLimitRaw G farmAddress = readFarm G farmAddress ''getBurnGasLimit'' [] asFixed"

section \<open>Views of farms with custom rewards\<close>

definition farm_custom_getWhitelistRaw :: "gateway \<Rightarrow> string \<Rightarrow> jval res" where
  "farm_custom_getWhitelistRaw G farmAddress = readFarm G farmAddress ''getWhitelist'' [] (mapElems asBech32)"

definition farm_custom_whitelist :: "'c cache_service \<Rightarrow> gateway \<Rightarrow> string \<Rightarrow> 'c \<Rightarrow> jval res \<times> 'c" where
  "farm_custom_whitelist K G farmAddress = GetOrSetCache K (historyTimestamp G) ''farm'' (Hours 1, None) ''whitelist'' [KText farmAddress]
     (uncached (farm_custom_getWhitelistRaw G farmAddress))"

section \<open>Cached computations\<close>

definition farm_farmLockedValueUSD :: "'c cache_service \<Rightarrow> gateway \<Rightarrow> ('c \<Rightarrow> jval res \<times> 'c) \<Rightarrow> string \<Rightarrow> 'c \<Rightarrow> jval res \<times> 'c" where
  "farm_farmLockedValueUSD K G compute farmAddress = GetOrSetCache K (historyTimestamp G) ''farm'' ContractStateTtl ''farmLockedValueUSD'' [KText farmAddress] compute"

definition farm_farmedTokenPriceUSD :: "'c cache_service \<Rightarrow> gateway \<Rightarrow> ('c \<Rightarrow> jval res \<times> 'c) \<Rightarrow> string \<Rightarrow> 'c \<Rightarrow> jval res \<times> 'c" where
  "farm_farmedTokenPriceUSD K G compute farmAddress = GetOrSetCache K (historyTimestamp G) ''farm'' PriceTtl ''farmedTokenPriceUSD'' [KText farmAddress] compute"

definition farm_farmTokenPriceUSD :: "'c cache_service \<Rightarrow> gateway \<Rightarrow> ('c \<Rightarrow> jval res \<times> 'c) \<Rightarrow> string \<Rightarrow> 'c \<Rightarrow> jval res \<times> 'c" where
  "farm_farmTokenPriceUSD K G compute farmAddress = GetOrSetCache K (historyTimestamp G) ''farm'' PriceTtl ''farmTokenPriceUSD'' [KText farmAddress] compute"

definition farm_farmingTokenPriceUSD :: "'c cache_service \<Rightarrow> gateway \<Rightarrow> ('c \<Rightarrow> jval res \<times> 'c) \<Rightarrow> string \<Rightarrow> 'c \<Rightarrow> jval res \<times> 'c" where
  "farm_farmingTokenPriceUSD K G compute farmAddress = GetOrSetCache K (historyTimestamp G) ''farm'' PriceTtl ''farmingTokenPriceUSD'' [KText farmAddress] compute"

definition farm_v12_lockedFarmingTokenReserve :: "'c cache_service \<Rightarrow> gateway \<Rightarrow> ('c \<Rightarrow> jval res \<times> 'c) \<Rightarrow> string \<Rightarrow> 'c \<Rightarrow> jval res \<times> 'c" where
  "farm_v12_lockedFarmingTokenReserve K G compute farmAddress = GetOrSetCache K (historyTimestamp G) ''farm'' ContractBalanceTtl ''lockedFarmingTokenReserve'' [KText farmAddress] compute"

definition farm_v12_unlockedFarmingTokenReserve :: "'c cache_service \<Rightarrow> gateway \<Rightarrow> ('c \<Rightarrow> jval res \<times> 'c) \<Rightarrow> string \<Rightarrow> 'c \<Rightarrow> jval res \<times> 'c" where
  "farm_v12_unlockedFarmingTokenReserve K G compute farmAddress = GetOrSetCache K (historyTimestamp G) ''farm'' ContractBalanceTtl ''unlockedFarmingTokenReserve'' [KText farmAddress] compute"

definition farm_v12_lockedFarmingTokenReserveUSD :: "'c cache_service \<Rightarrow> gateway \<Rightarrow> ('c \<Rightarrow> jval res \<times> 'c) \<Rightarrow> string \<Rightarrow> 'c \<Rightarrow> jval res \<times> 'c" where
  "farm_v12_lockedFarmingTokenReserveUSD K G compute farmAddress = GetOrSetCache K (historyTimestamp G) ''farm'' ContractBalanceTtl ''lockedFarmingTokenReserveUSD'' [KText farmAddress] compute"

definition farm_v12_unlockedFarmingTokenReserveUSD :: "'c cache_service \<Rightarrow> gateway \<Rightarrow> ('c \<Rightarrow> jval res \<times> 'c) \<Rightarrow> string \<Rightarrow> 'c \<Rightarrow> jval res \<times> 'c" where
  "farm_v12_unlockedFarmingTokenReserveUSD K G compute farmAddress = GetOrSetCache K (historyTimestamp G) ''farm'' ContractBalanceTtl ''unlockedFarmingTokenReserveUSD'' [KText farmAddress] compute"

definition farm_v12_unlockedRewardsAPR :: "'c cache_service \<Rightarrow> gateway \<Rightarrow> ('c \<Rightarrow> jval res \<times> 'c) \<Rightarrow> string \<Rightarrow> 'c \<Rightarrow> jval res \<times> 'c" where
  "farm_v12_unlockedRewardsAPR K G compute farmAddress = GetOrSetCache K (historyTimestamp G) ''farm'' ContractInfoTtl ''unlockedRewardsAPR'' [KText farmAddress] compute"

definition farm_v12_lockedRewardsAPR :: "'c cache_service \<Rightarrow> gateway \<Rightarrow> ('c \<Rightarrow> jval res \<times> 'c) \<Rightarrow> string \<Rightarrow> 'c \<Rightarrow> jval res \<times> 'c" where
  "farm_v12_lockedRewardsAPR K G compute farmAddress = GetOrSetCache K (historyTimestamp G) ''farm'' ContractInfoTtl ''lockedRewardsAPR'' [KText farmAddress] compute"

definition farm_v13_farmAPR :: "'c cache_service \<Rightarrow> gateway \<Rightarrow> ('c \<Rightarrow> jval res \<times> 'c) \<Rightarrow> string \<Rightarrow> 'c \<Rightarrow> jval res \<times> 'c" where
  "farm_v13_farmAPR K G compute farmAddress = GetOrSetCache K (historyTimestamp G) ''farm'' (Minutes 1, None) ''farmAPR'' [KText farmAddress] compute"

definition farm_v2_farmBaseAPR :: "'c cache_service \<Rightarrow> gateway \<Rightarrow> ('c \<Rightarrow> jval res \<times> 'c) \<Rightarrow> string \<Rightarrow> 'c \<Rightarrow> jval res \<times> 'c" where
  "farm_v2_farmBaseAPR K G compute farmAddress = GetOrSetCache K (historyTimestamp G) ''farm'' ContractStateTtl ''farmBaseAPR'' [KText farmAddress] compute"

section \<open>Writers\<close>

definition farm_setFarmTokenID :: "'c cache_service \<Rightarrow> string \<Rightarrow> jval \<Rightarrow> 'c \<Rightarrow> string \<times> 'c" where
  "farm_setFarmTokenID K farmAddress v = setData K (getCacheKey ''farm'' [KText ''farmTokenID'', KText farmAddress]) v TokenTtl"

definition farm_setFarmingTokenID :: "'c cache_service \<Rightarrow> string \<Rightarrow> jval \<Rightarrow> 'c \<Rightarrow> string \<times> 'c" where
  "farm_setFarmingTokenID K farmAddress v = setData K (getCacheKey ''farm'' [KText ''farmingTokenID'', KText farmAddress]) v TokenTtl"

definition farm_setFarmedTokenID :: "'c cache_service \<Rightarrow> string \<Rightarrow> jval \<Rightarrow> 'c \<Rightarrow> string \<times> 'c" where
  "farm_setFarmedTokenID K farmAddress v = setData K (getCacheKey ''farm'' [KText ''farmedTokenID'', KText farmAddress]) v TokenTtl"

definition farm_setFarmTokenSupply :: "'c cache_service \<Rightarrow> string \<Rightarrow> jval \<Rightarrow> 'c \<Rightarrow> string \<times> 'c" where
  "farm_setFarmTokenSupply K farmAddress v = setData K (getCacheKey ''farm'' [KText ''farmTokenSupply'', KText farmAddress]) v ContractInfoTtl"

definition farm_setFarmingTokenReserve :: "'c cache_service \<Rightarrow> string \<Rightarrow> jval \<Rightarrow> 'c \<Rightarrow> string \<times> 'c" where
  "farm_setFarmingTokenReserve K farmAddress v = setData K (getCacheKey ''farm'' [KText ''farmingTokenReserve'', KText farmAddress]) v ContractInfoTtl"

definition farm_setRewardsPerBlock :: "'c cache_service \<Rightarrow> string \<Rightarrow> jval \<Rightarrow> 'c \<Rightarrow> string \<times> 'c" where
  "farm_setRewardsPerBlock K farmAddress v = setData K (getCacheKey ''farm'' [KText ''rewardsPerBlock'', KText farmAddress]) v ContractStateTtl"

definition farm_setPenaltyPercent :: "'c cache_service \<Rightarrow> string \<Rightarrow> jval \<Rightarrow> 'c \<Rightarrow> string \<times> 'c" where
  "farm_setPenaltyPercent K farmAddress v = setData K (getCacheKey ''farm'' [KText ''penaltyPercent'', KText farmAddress]) v ContractStateTtl"

definition farm_setMinimumFarmingEpochs :: "'c cache_service \<Rightarrow> string \<Rightarrow> jval \<Rightarrow> 'c \<Rightarrow> string \<times> 'c" where
  "farm_setMinimumFarmingEpochs K farmAddress v = setData K (getCacheKey ''farm'' [KText ''minimumFarmingEpochs'', KText farmAddress]) v ContractStateTtl"

definition farm_setState :: "'c cache_service \<Rightarrow> string \<Rightarrow> jval \<Rightarrow> 'c \<Rightarrow> string \<times> 'c" where
  "farm_setState K farmAddress v = setData K (getCacheKey ''farm'' [KText ''state'', KText farmAddress]) v ContractStateTtl"

definition farm_setProduceRewardsEnabled :: "'c cache_service \<Rightarrow> string \<Rightarrow> jval \<Rightarrow> 'c \<Rightarrow> string \<times> 'c" where
  "farm_setProduceRewardsEnabled K farmAddress v = setData K (getCacheKey ''farm'' [KText ''produceRewardsEnabled'', KText farmAddress]) v ContractStateTtl"

definition farm_setRewardPerShare :: "'c cache_service \<Rightarrow> string \<Rightarrow> jval \<Rightarrow> 'c \<Rightarrow> string \<times> 'c" where
  "farm_setRewardPerShare K farmAddress v = setData K (getCacheKey ''farm'' [KText ''rewardPerShare'', KText farmAddress]) v ContractInfoTtl"

definition farm_setRewardReserve :: "'c cache_service \<Rightarrow> string \<Rightarrow> jval \<Rightarrow> 'c \<Rightarrow> string \<times> 'c" where
  "farm_setRewardReserve K farmAddress v = setData K (getCacheKey ''farm'' [KText ''rewardReserve'', KText farmAddress]) v ContractInfoTtl"

definition farm_setLastRewardBlockNonce :: "'c cache_service \<Rightarrow> string \<Rightarrow> jval \<Rightarrow> 'c \<Rightarrow> string \<times> 'c" where
  "farm_setLastRewardBlockNonce K farmAddress v = setData K (getCacheKey ''farm'' [KText ''lastRewardBlocknonce'', KText farmAddress]) v ContractInfoTtl"

definition farm_setUndistributedFees :: "'c cache_service \<Rightarrow> string \<Rightarrow> jval \<Rightarrow> 'c \<Rightarrow> string \<times> 'c" where
  "farm_setUndistributedFees K farmAddress v = setData K (getCacheKey ''farm'' [KText ''undistributedFees'', KText farmAddress]) v ContractInfoTtl"

definition farm_setCurrentBlockFee :: "'c cache_service \<Rightarrow> string \<Rightarrow> jval \<Rightarrow> 'c \<Rightarrow> string \<times> 'c" where
  "farm_setCurrentBlockFee K farmAddress v = setData K (getCacheKey ''farm'' [KText ''currentBlockFee'', KText farmAddress]) v ContractInfoTtl"

definition farm_setDivisionSafetyConstant :: "'c cache_service \<Rightarrow> string \<Rightarrow> jval \<Rightarrow> 'c \<Rightarrow> string \<times> 'c" where
  "farm_setDivisionSafetyConstant K farmAddress v = setData K (getCacheKey ''farm'' [KText ''divisionSafetyConstant'', KText farmAddress]) v (Hours 1, None)"

definition farm_setLockedRewardAprMuliplier :: "'c cache_service \<Rightarrow> string \<Rightarrow> jval \<Rightarrow> 'c \<Rightarrow> string \<times> 'c" where
  "farm_setLockedRewardAprMuliplier K farmAddress v = setData K (getCacheKey ''farm'' [KText ''aprMultiplier'', KText farmAddress]) v ContractStateTtl"

definition farm_setFarmedTokenPriceUSD :: "'c cache_service \<Rightarrow> string \<Rightarrow> jval \<Rightarrow> 'c \<Rightarrow> string \<times> 'c" where
  "farm_setFarmedTokenPriceUSD K farmAddress v = setData K (getCacheKey ''farm'' [KText ''farmedTokenPriceUSD'', KText farmAddress]) v PriceTtl"

definition farm_setFarmingTokenPriceUSD :: "'c cache_service \<Rightarrow> string \<Rightarrow> jval \<Rightarrow> 'c \<Rightarrow> string \<times> 'c" where
  "farm_setFarmingTokenPriceUSD K farmAddress v = setData K (getCacheKey ''farm'' [KText ''farmingTokenPriceUSD'', KText farmAddress]) v PriceTtl"

definition farm_setTotalValueLockedUSD :: "'c cache_service \<Rightarrow> string \<Rightarrow> jval \<Rightarrow> 'c \<Rightarrow> string \<times> 'c" where
  "farm_setTotalValueLockedUSD K farmAddress v = setData K (getCacheKey ''farm'' [KText ''farmLockedValueUSD'', KText farmAddress]) v ContractBalanceTtl"

definition farm_setUnlockedRewardsAPR :: "'c cache_service \<Rightarrow> string \<Rightarrow> jval \<Rightarrow> 'c \<Rightarrow> string \<times> 'c" where
  "farm_setUnlockedRewardsAPR K farmAddress v = setData K (getCacheKey ''farm'' [KText ''unlockedRewardsAPR'', KText farmAddress]) v ContractInfoTtl"

definition farm_setLockedRewardsAPR :: "'c cache_service \<Rightarrow> string \<Rightarrow> jval \<Rightarrow> 'c \<Rightarrow> string \<times> 'c" where
  "farm_setLockedRewardsAPR K farmAddress v = setData K (getCacheKey ''farm'' [KText ''lockedRewardsAPR'', KText farmAddress]) v ContractInfoTtl"

definition farm_setFarmAPR :: "'c cache_service \<Rightarrow> string \<Rightarrow> jval \<Rightarrow> 'c \<Rightarrow> string \<times> 'c" where
  "farm_setFarmAPR K farmAddress v = setData K (getCacheKey ''farm'' [KText ''farmAPR'', KText farmAddress]) v ContractInfoTtl"

definition farm_v2_userRewardsForWeek :: "'c cache_service \<Rightarrow> string \<Rightarrow> string \<Rightarrow> int \<Rightarrow> jval \<Rightarrow> 'c \<Rightarrow> string \<times> 'c" where
  "farm_v2_userRewardsForWeek K sc userAddress wk v = setData K (getCacheKey ''farm'' [KText ''userRewardsForWeek'', KText sc, KText userAddress, KInt wk]) v ContractBalanceTtl"

section \<open>The interfaces a farm can have\<close>







section \<open>What the readers return\<close>




lemmas farm_reader_defs = farm_farmTokenID_def farm_farmingTokenID_def farm_farmedTokenID_def farm_farmTokenSupply_def farm_v12_farmingTokenReserve_def farm_rewardsPerBlock_def farm_penaltyPercent_def farm_minimumFarmingEpochs_def farm_state_def farm_produceRewardsEnabled_def farm_rewardPerShare_def farm_rewardReserve_def farm_v12_undistributedFees_def farm_v12_currentBlockFee_def farm_divisionSafetyConstant_def farm_farmedTokenPriceUSD_def farm_farmingTokenPriceUSD_def farm_farmLockedValueUSD_def farm_v12_unlockedRewardsAPR_def farm_v12_lockedRewardsAPR_def farm_v13_farmAPR_def

lemmas farm_writer_defs = farm_setFarmTokenID_def farm_setFarmingTokenID_def farm_setFarmedTokenID_def farm_setFarmTokenSupply_def farm_setFarmingTokenReserve_def farm_setRewardsPerBlock_def farm_setPenaltyPercent_def farm_setMinimumFarmingEpochs_def farm_setState_def farm_setProduceRewardsEnabled_def farm_setRewardPerShare_def farm_setRewardReserve_def farm_setUndistributedFees_def farm_setCurrentBlockFee_def farm_setDivisionSafetyConstant_def farm_setFarmedTokenPriceUSD_def farm_setFarmingTokenPriceUSD_def farm_setTotalValueLockedUSD_def farm_setUnlockedRewardsAPR_def farm_setLockedRewardsAPR_def farm_setFarmAPR_def

text \<open>
  Every writer of a farm but two reaches the reader of the same key.
\<close>

theorem farm_writers_reach_readers:
  assumes "cache_lib K" "historyTimestamp G = None" "storable v"
  shows "reaches (farm_setFarmTokenID K farmAddress v) (farm_farmTokenID K G farmAddress) v \<and>
    reaches (farm_setFarmingTokenID K farmAddress v) (farm_farmingTokenID K G farmAddress) v \<and>
    reaches (farm_setFarmedTokenID K farmAddress v) (farm_farmedTokenID K G farmAddress) v \<and>
    reaches (farm_setFarmTokenSupply K farmAddress v) (farm_farmTokenSupply K G farmAddress) v \<and>
    reaches (farm_setFarmingTokenReserve K farmAddress v) (farm_v12_farmingTokenReserve K G farmAddress) v \<and>
    reaches (farm_setRewardsPerBlock K farmAddress v) (farm_rewardsPerBlock K G farmAddress) v \<and>
    reaches (farm_setPenaltyPercent K farmAddress v) (farm_penaltyPercent K G farmAddress) v \<and>
    reaches (farm_setMinimumFarmingEpochs K farmAddress v) (farm_minimumFarmingEpochs K G farmAddress) v \<and>
    reaches (farm_setState K farmAddress v) (farm_state K G farmAddress) v \<and>
    reaches (farm_setProduceRewardsEnabled K farmAddress v) (farm_produceRewardsEnabled K G farmAddress) v \<and>
    reaches (farm_setRewardPerShare K farmAddress v) (farm_rewardPerShare K G farmAddress) v \<and>
    reaches (farm_setRewardReserve K farmAddress v) (farm_rewardReserve K G farmAddress) v \<and>
    reaches (farm_setUndistributedFees K farmAddress v) (farm_v12_undistributedFees K G farmAddress) v \<and>
    reaches (farm_setCurrentBlockFee K farmAddress v) (farm_v12_currentBlockFee K G farmAddress) v \<and>
    reaches (farm_setDivisionSafetyConstant K farmAddress v) (farm_divisionSafetyConstant K G farmAddress) v \<and>
    reaches (farm_setFarmedTokenPriceUSD K farmAddress v) (farm_farmedTokenPriceUSD K G compute farmAddress) v \<and>
    reaches (farm_setFarmingTokenPriceUSD K farmAddress v) (farm_farmingTokenPriceUSD K G compute farmAddress) v \<and>
    reaches (farm_setTotalValueLockedUSD K farmAddress v) (farm_farmLockedValueUSD K G compute farmAddress) v \<and>
    reaches (farm_setUnlockedRewardsAPR K farmAddress v) (farm_v12_unlockedRewardsAPR K G compute farmAddress) v \<and>
    reaches (farm_setLockedRewardsAPR K farmAddress v) (farm_v12_lockedRewardsAPR K G compute farmAddress) v \<and>
    reaches (farm_setFarmAPR K farmAddress v) (farm_v13_farmAPR K G compute farmAddress) v"
  by ((intro conjI)?; simp only: farm_writer_defs farm_reader_defs getCacheKey_def assms(2); rule cache_lib.writer_reaches [OF assms(1,3) refl])

text \<open>
  The two others write keys that no reader has (\<open>lastRewardBlocknonce\<close>, \<open>aprMultiplier\<close>).
\<close>

lemma farm_writers_miss_readers:
  assumes "cache_lib K" "historyTimestamp G = None"
  shows "misses (farm_setLastRewardBlockNonce K farmAddress v) (farm_lastRewardBlockNonce K G farmAddress) \<and>
    misses (farm_setLockedRewardAprMuliplier K farmAddress v) (farm_v12_lockedRewardAprMuliplier K G farmAddress)"
  by ((intro conjI)?; simp only: farm_setLastRewardBlockNonce_def farm_setLockedRewardAprMuliplier_def farm_lastRewardBlockNonce_def farm_v12_lockedRewardAprMuliplier_def getCacheKey_def assms(2); rule cache_lib.writer_misses_uncached [OF assms(1)];
      simp add: generateCacheKeyFromParams_def butlast_append)

text \<open>
  The rewards of a position cannot be asked of an unlocked farm of version 2: the view takes the user, a number, an amount and the attributes, and
  the call has three arguments.
\<close>

lemma v2_rewards_call_refused:
  assumes "farmContract G farmAddress = Some farm_v2_views"
  shows "farm_v2_calculateRewardsForGivenPosition G farmAddress usr liquidity attrs =
    Inl (argumentError G ''calculateRewardsForGivenPosition'')"
  by (simp add: farm_v2_calculateRewardsForGivenPosition_def readFarm_def assms readView_def getGenericData_def farm_v2_views_def)

text \<open>An unlocked farm of version 2 has no view of the boosted percentage.\<close>

lemma v2_boosted_percentage_lacking:
  assumes "farmContract G farmAddress = Some farm_v2_views"
  shows "farm_v2_getBoostedYieldsRewardsPercenatageRaw G farmAddress = Inl TypeError"
  by (simp add: farm_v2_getBoostedYieldsRewardsPercenatageRaw_def readFarm_def assms readView_lacking farm_v2_views_def)

end
