(* ===== verification/StakingReaders.thy ===== *)
theory StakingReaders
  imports ContractQueries
begin

text \<open>
  The readers of staking contracts and of the proxies that stake farm positions, of the cached computations on them,
  and the writers of their entries (\<open>src/modules/staking/services/staking.abi.service.ts\<close>, \<open>staking.compute.service.ts\<close>,
  \<open>staking.setter.service.ts\<close>, and the services of the same names under \<open>src/modules/staking-proxy\<close>).
\<close>

section \<open>The interfaces\<close>

definition staking_views :: views where
  "staking_views = [
    (''calculateRewardsForGivenPosition'', [BigUintT, StructT ''StakingFarmTokenAttributes'' [(''reward_per_share'', BigUintT), (''last_claim_block'', UintT 64), (''compounded_reward'', BigUintT), (''current_farm_amount'', BigUintT)]], [BigUintT]),
    (''getRewardPerShare'', [], [BigUintT]),
    (''getAccumulatedRewards'', [], [BigUintT]),
    (''getRewardCapacity'', [], [BigUintT]),
    (''getAnnualPercentageRewards'', [], [BigUintT]),
    (''getMinUnbondEpochs'', [], [UintT 64]),
    (''getFarmTokenSupply'', [], [BigUintT]),
    (''getLastErrorMessage'', [], [BytesT]),
    (''getState'', [], [EnumT [(''Inactive'', []), (''Active'', [])]]),
    (''getFarmingTokenId'', [], [TokenIdentifierT]),
    (''getRewardTokenId'', [], [TokenIdentifierT]),
    (''getPenaltyPercent'', [], [UintT 64]),
    (''getMinimumFarmingEpoch'', [], [UintT 8]),
    (''getPerBlockRewardAmount'', [], [BigUintT]),
    (''getLastRewardBlockNonce'', [], [UintT 64]),
    (''getFarmTokenId'', [], [TokenIdentifierT]),
    (''getDivisionSafetyConstant'', [], [BigUintT]),
    (''getPairContractManagedAddress'', [], [AddressT]),
    (''getBurnGasLimit'', [], [UintT 64]),
    (''getLockedAssetFactoryManagedAddress'', [], [AddressT]),
    (''getTransferExecGasLimit'', [], [UintT 64]),
    (''isWhitelisted'', [AddressT], [BoolT])]"

definition staking_proxy_views :: views where
  "staking_proxy_views = [
    (''getLpFarmAddress'', [], [AddressT]),
    (''getStakingFarmAddress'', [], [AddressT]),
    (''getPairAddress'', [], [AddressT]),
    (''getStakingTokenId'', [], [TokenIdentifierT]),
    (''getFarmTokenId'', [], [TokenIdentifierT]),
    (''getDualYieldTokenId'', [], [TokenIdentifierT]),
    (''getLpFarmTokenId'', [], [TokenIdentifierT])]"

section \<open>Views of a staking contract\<close>

definition stake_getPairContractAddressRaw :: "gateway \<Rightarrow> string \<Rightarrow> jval res" where
  "stake_getPairContractAddressRaw G stakeAddress = 
     orUndefined (readView G staking_views stakeAddress ''getPairContractManagedAddress'' [] (asHex32 G))"

definition stake_pairContractAddress :: "'c cache_service \<Rightarrow> gateway \<Rightarrow> string \<Rightarrow> 'c \<Rightarrow> jval res \<times> 'c" where
  "stake_pairContractAddress K G stakeAddress = GetOrSetCache K (historyTimestamp G) ''stake'' (Hours 1, None) ''pairContractAddress'' [KText stakeAddress]
     (uncached (stake_getPairContractAddressRaw G stakeAddress))"

definition stake_getFarmTokenIDRaw :: "gateway \<Rightarrow> string \<Rightarrow> jval res" where
  "stake_getFarmTokenIDRaw G stakeAddress = readView G staking_views stakeAddress ''getFarmTokenId'' [] asText"

definition stake_farmTokenID :: "'c cache_service \<Rightarrow> gateway \<Rightarrow> string \<Rightarrow> 'c \<Rightarrow> jval res \<times> 'c" where
  "stake_farmTokenID K G stakeAddress = GetOrSetCache K (historyTimestamp G) ''stake'' TokenTtl ''farmTokenID'' [KText stakeAddress]
     (uncached (stake_getFarmTokenIDRaw G stakeAddress))"

definition stake_getFarmingTokenIDRaw :: "gateway \<Rightarrow> string \<Rightarrow> jval res" where
  "stake_getFarmingTokenIDRaw G stakeAddress = readView G staking_views stakeAddress ''getFarmingTokenId'' [] asText"

definition stake_farmingTokenID :: "'c cache_service \<Rightarrow> gateway \<Rightarrow> string \<Rightarrow> 'c \<Rightarrow> jval res \<times> 'c" where
  "stake_farmingTokenID K G stakeAddress = GetOrSetCache K (historyTimestamp G) ''stake'' TokenTtl ''farmingTokenID'' [KText stakeAddress]
     (uncached (stake_getFarmingTokenIDRaw G stakeAddress))"

definition stake_getRewardTokenIDRaw :: "gateway \<Rightarrow> string \<Rightarrow> jval res" where
  "stake_getRewardTokenIDRaw G stakeAddress = readView G staking_views stakeAddress ''getRewardTokenId'' [] asText"

definition stake_rewardTokenID :: "'c cache_service \<Rightarrow> gateway \<Rightarrow> string \<Rightarrow> 'c \<Rightarrow> jval res \<times> 'c" where
  "stake_rewardTokenID K G stakeAddress = GetOrSetCache K (historyTimestamp G) ''stake'' TokenTtl ''rewardTokenID'' [KText stakeAddress]
     (uncached (stake_getRewardTokenIDRaw G stakeAddress))"

definition stake_getFarmTokenSupplyRaw :: "gateway \<Rightarrow> string \<Rightarrow> jval res" where
  "stake_getFarmTokenSupplyRaw G stakeAddress = readView G staking_views stakeAddress ''getFarmTokenSupply'' [] asFixed"

definition stake_farmTokenSupply :: "'c cache_service \<Rightarrow> gateway \<Rightarrow> string \<Rightarrow> 'c \<Rightarrow> jval res \<times> 'c" where
  "stake_farmTokenSupply K G stakeAddress = GetOrSetCache K (historyTimestamp G) ''stake'' ContractBalanceTtl ''farmTokenSupply'' [KText stakeAddress]
     (uncached (stake_getFarmTokenSupplyRaw G stakeAddress))"

definition stake_getRewardPerShareRaw :: "gateway \<Rightarrow> string \<Rightarrow> jval res" where
  "stake_getRewardPerShareRaw G stakeAddress = readView G staking_views stakeAddress ''getRewardPerShare'' [] asFixed"

definition stake_rewardPerShare :: "'c cache_service \<Rightarrow> gateway \<Rightarrow> string \<Rightarrow> 'c \<Rightarrow> jval res \<times> 'c" where
  "stake_rewardPerShare K G stakeAddress = GetOrSetCache K (historyTimestamp G) ''stake'' ContractInfoTtl ''rewardPerShare'' [KText stakeAddress]
     (uncached (stake_getRewardPerShareRaw G stakeAddress))"

definition stake_getAccumulatedRewardsRaw :: "gateway \<Rightarrow> string \<Rightarrow> jval res" where
  "stake_getAccumulatedRewardsRaw G stakeAddress = readView G staking_views stakeAddress ''getAccumulatedRewards'' [] asFixed"

definition stake_accumulatedRewards :: "'c cache_service \<Rightarrow> gateway \<Rightarrow> string \<Rightarrow> 'c \<Rightarrow> jval res \<times> 'c" where
  "stake_accumulatedRewards K G stakeAddress = GetOrSetCache K (historyTimestamp G) ''stake'' ContractInfoTtl ''accumulatedRewards'' [KText stakeAddress]
     (uncached (stake_getAccumulatedRewardsRaw G stakeAddress))"

definition stake_getRewardCapacityRaw :: "gateway \<Rightarrow> string \<Rightarrow> jval res" where
  "stake_getRewardCapacityRaw G stakeAddress = readView G staking_views stakeAddress ''getRewardCapacity'' [] asFixed"

definition stake_rewardCapacity :: "'c cache_service \<Rightarrow> gateway \<Rightarrow> string \<Rightarrow> 'c \<Rightarrow> jval res \<times> 'c" where
  "stake_rewardCapacity K G stakeAddress = GetOrSetCache K (historyTimestamp G) ''stake'' ContractInfoTtl ''rewardCapacity'' [KText stakeAddress]
     (uncached (stake_getRewardCapacityRaw G stakeAddress))"

definition stake_getAnnualPercentageRewardsRaw :: "gateway \<Rightarrow> string \<Rightarrow> jval res" where
  "stake_getAnnualPercentageRewardsRaw G stakeAddress = readView G staking_views stakeAddress ''getAnnualPercentageRewards'' [] asFixed"

definition stake_annualPercentageRewards :: "'c cache_service \<Rightarrow> gateway \<Rightarrow> string \<Rightarrow> 'c \<Rightarrow> jval res \<times> 'c" where
  "stake_annualPercentageRewards K G stakeAddress = GetOrSetCache K (historyTimestamp G) ''stake'' ContractStateTtl ''annualPercentageRewards'' [KText stakeAddress]
     (uncached (stake_getAnnualPercentageRewardsRaw G stakeAddress))"

definition stake_getMinUnbondEpochsRaw :: "gateway \<Rightarrow> string \<Rightarrow> jval res" where
  "stake_getMinUnbondEpochsRaw G stakeAddress = readView G staking_views stakeAddress ''getMinUnbondEpochs'' [] asNumber"

definition stake_minUnbondEpochs :: "'c cache_service \<Rightarrow> gateway \<Rightarrow> string \<Rightarrow> 'c \<Rightarrow> jval res \<times> 'c" where
  "stake_minUnbondEpochs K G stakeAddress = GetOrSetCache K (historyTimestamp G) ''stake'' ContractStateTtl ''minUnbondEpochs'' [KText stakeAddress]
     (uncached (stake_getMinUnbondEpochsRaw G stakeAddress))"

definition stake_getPerBlockRewardsAmountRaw :: "gateway \<Rightarrow> string \<Rightarrow> jval res" where
  "stake_getPerBlockRewardsAmountRaw G stakeAddress = readView G staking_views stakeAddress ''getPerBlockRewardAmount'' [] asFixed"

definition stake_perBlockRewardsAmount :: "'c cache_service \<Rightarrow> gateway \<Rightarrow> string \<Rightarrow> 'c \<Rightarrow> jval res \<times> 'c" where
  "stake_perBlockRewardsAmount K G stakeAddress = GetOrSetCache K (historyTimestamp G) ''stake'' ContractStateTtl ''perBlockRewardsAmount'' [KText stakeAddress]
     (uncached (stake_getPerBlockRewardsAmountRaw G stakeAddress))"

definition stake_getLastRewardBlockNonceRaw :: "gateway \<Rightarrow> string \<Rightarrow> jval res" where
  "stake_getLastRewardBlockNonceRaw G stakeAddress = readView G staking_views stakeAddress ''getLastRewardBlockNonce'' [] asFixed"

definition stake_lastRewardBlockNonce :: "'c cache_service \<Rightarrow> gateway \<Rightarrow> string \<Rightarrow> 'c \<Rightarrow> jval res \<times> 'c" where
  "stake_lastRewardBlockNonce K G stakeAddress = GetOrSetCache K (historyTimestamp G) ''stake'' ContractStateTtl ''lastRewardBlockNonce'' [KText stakeAddress]
     (uncached (stake_getLastRewardBlockNonceRaw G stakeAddress))"

definition stake_getDivisionSafetyConstantRaw :: "gateway \<Rightarrow> string \<Rightarrow> jval res" where
  "stake_getDivisionSafetyConstantRaw G stakeAddress = readView G staking_views stakeAddress ''getDivisionSafetyConstant'' [] asFixed"

definition stake_divisionSafetyConstant :: "'c cache_service \<Rightarrow> gateway \<Rightarrow> string \<Rightarrow> 'c \<Rightarrow> jval res \<times> 'c" where
  "stake_divisionSafetyConstant K G stakeAddress = GetOrSetCache K (historyTimestamp G) ''stake'' ContractStateTtl ''divisionSafetyConstant'' [KText stakeAddress]
     (uncached (stake_getDivisionSafetyConstantRaw G stakeAddress))"

definition stake_getProduceRewardsEnabledRaw :: "gateway \<Rightarrow> string \<Rightarrow> jval res" where
  "stake_getProduceRewardsEnabledRaw G farmAddress = 
     res_bind (storageKey G farmAddress [KText ''produce_rewards_enabled'']) (\<lambda>response. Inr (JBool (response = ''01'')))"

definition stake_produceRewardsEnabled :: "'c cache_service \<Rightarrow> gateway \<Rightarrow> string \<Rightarrow> 'c \<Rightarrow> jval res \<times> 'c" where
  "stake_produceRewardsEnabled K G stakeAddress = GetOrSetCache K (historyTimestamp G) ''stake'' ContractStateTtl ''produceRewardsEnabled'' [KText stakeAddress]
     (uncached (stake_getProduceRewardsEnabledRaw G stakeAddress))"

definition stake_getBurnGasLimitRaw :: "gateway \<Rightarrow> string \<Rightarrow> jval res" where
  "stake_getBurnGasLimitRaw G stakeAddress = readView G staking_views stakeAddress ''getBurnGasLimit'' [] asRaw"

definition stake_burnGasLimit :: "'c cache_service \<Rightarrow> gateway \<Rightarrow> string \<Rightarrow> 'c \<Rightarrow> jval res \<times> 'c" where
  "stake_burnGasLimit K G stakeAddress = GetOrSetCache K (historyTimestamp G) ''stake'' (Hours 1, None) ''burnGasLimit'' [KText stakeAddress]
     (uncached (stake_getBurnGasLimitRaw G stakeAddress))"

definition stake_getTransferExecGasLimitRaw :: "gateway \<Rightarrow> string \<Rightarrow> jval res" where
  "stake_getTransferExecGasLimitRaw G stakeAddress = readView G staking_views stakeAddress ''getTransferExecGasLimit'' [] asRaw"

definition stake_transferExecGasLimit :: "'c cache_service \<Rightarrow> gateway \<Rightarrow> string \<Rightarrow> 'c \<Rightarrow> jval res \<times> 'c" where
  "stake_transferExecGasLimit K G stakeAddress = GetOrSetCache K (historyTimestamp G) ''stake'' (Hours 1, None) ''transferExecGasLimit'' [KText stakeAddress]
     (uncached (stake_getTransferExecGasLimitRaw G stakeAddress))"

definition stake_getStateRaw :: "gateway \<Rightarrow> string \<Rightarrow> jval res" where
  "stake_getStateRaw G stakeAddress = readView G staking_views stakeAddress ''getState'' [] asName"

definition stake_state :: "'c cache_service \<Rightarrow> gateway \<Rightarrow> string \<Rightarrow> 'c \<Rightarrow> jval res \<times> 'c" where
  "stake_state K G stakeAddress = GetOrSetCache K (historyTimestamp G) ''stake'' ContractStateTtl ''state'' [KText stakeAddress]
     (uncached (stake_getStateRaw G stakeAddress))"

definition stake_calculateRewardsForGivenPosition :: "gateway \<Rightarrow> string \<Rightarrow> bn \<Rightarrow> string \<Rightarrow> jval res" where
  "stake_calculateRewardsForGivenPosition G stakeAddress amt attributesHex = 
     readView G staking_views stakeAddress ''calculateRewardsForGivenPosition''
       [Typed (BigUInt amt), Typed (BytesHex attributesHex)] asRaw"

definition stake_getLockedAssetFactoryAddressRaw :: "gateway \<Rightarrow> string \<Rightarrow> jval res" where
  "stake_getLockedAssetFactoryAddressRaw G stakeAddress = 
     orUndefined (readView G staking_views stakeAddress ''getLockedAssetFactoryManagedAddress'' [] (asHex32 G))"

definition stake_lockedAssetFactoryAddress :: "'c cache_service \<Rightarrow> gateway \<Rightarrow> string \<Rightarrow> 'c \<Rightarrow> jval res \<times> 'c" where
  "stake_lockedAssetFactoryAddress K G stakeAddress = GetOrSetCache K (historyTimestamp G) ''stake'' (Hours 1, None) ''lockedAssetFactoryAddress'' [KText stakeAddress]
     (uncached (stake_getLockedAssetFactoryAddressRaw G stakeAddress))"

definition stake_isWhitelistedRaw :: "gateway \<Rightarrow> string \<Rightarrow> string \<Rightarrow> jval res" where
  "stake_isWhitelistedRaw G stakeAddress sc = 
     readView G staking_views stakeAddress ''isWhitelisted'' [Typed (AddressV sc)] asRaw"

definition stake_isWhitelisted :: "'c cache_service \<Rightarrow> gateway \<Rightarrow> string \<Rightarrow> string \<Rightarrow> 'c \<Rightarrow> jval res \<times> 'c" where
  "stake_isWhitelisted K G stakeAddress sc = GetOrSetCache K (historyTimestamp G) ''stake'' (Hours 1, None) ''isWhitelisted'' [KText stakeAddress, KText sc]
     (uncached (stake_isWhitelistedRaw G stakeAddress sc))"

definition stake_getLastErrorMessageRaw :: "gateway \<Rightarrow> string \<Rightarrow> jval res" where
  "stake_getLastErrorMessageRaw G stakeAddress = readView G staking_views stakeAddress ''getLastErrorMessage'' [] asText"

definition stake_lastErrorMessage :: "'c cache_service \<Rightarrow> gateway \<Rightarrow> string \<Rightarrow> 'c \<Rightarrow> jval res \<times> 'c" where
  "stake_lastErrorMessage K G stakeAddress = GetOrSetCache K (historyTimestamp G) ''stake'' (Minutes 1, None) ''lastErrorMessage'' [KText stakeAddress]
     (uncached (stake_getLastErrorMessageRaw G stakeAddress))"

section \<open>Cached computations\<close>

definition stake_stakedValueUSD :: "'c cache_service \<Rightarrow> gateway \<Rightarrow> ('c \<Rightarrow> jval res \<times> 'c) \<Rightarrow> string \<Rightarrow> 'c \<Rightarrow> jval res \<times> 'c" where
  "stake_stakedValueUSD K G compute stakeAddress = GetOrSetCache K (historyTimestamp G) ''stake'' ContractStateTtl ''stakedValueUSD'' [KText stakeAddress] compute"

definition stake_stakeFarmAPR :: "'c cache_service \<Rightarrow> gateway \<Rightarrow> ('c \<Rightarrow> jval res \<times> 'c) \<Rightarrow> string \<Rightarrow> 'c \<Rightarrow> jval res \<times> 'c" where
  "stake_stakeFarmAPR K G compute stakeAddress = GetOrSetCache K (historyTimestamp G) ''stake'' ContractStateTtl ''stakeFarmAPR'' [KText stakeAddress] compute"

definition stake_deployedAt :: "'c cache_service \<Rightarrow> gateway \<Rightarrow> ('c \<Rightarrow> jval res \<times> 'c) \<Rightarrow> string \<Rightarrow> 'c \<Rightarrow> jval res \<times> 'c" where
  "stake_deployedAt K G compute stakeAddress = GetOrSetCache K (historyTimestamp G) ''stake'' ContractStateTtl ''deployedAt'' [KText stakeAddress] compute"

section \<open>Views of a staking proxy\<close>

definition stakeProxy_getlpFarmAddressRaw :: "gateway \<Rightarrow> string \<Rightarrow> jval res" where
  "stakeProxy_getlpFarmAddressRaw G stakingProxyAddress = readView G staking_proxy_views stakingProxyAddress ''getLpFarmAddress'' [] asText"


definition stakeProxy_getStakingFarmAddressRaw :: "gateway \<Rightarrow> string \<Rightarrow> jval res" where
  "stakeProxy_getStakingFarmAddressRaw G stakingProxyAddress = readView G staking_proxy_views stakingProxyAddress ''getStakingFarmAddress'' [] asText"


definition stakeProxy_getPairAddressRaw :: "gateway \<Rightarrow> string \<Rightarrow> jval res" where
  "stakeProxy_getPairAddressRaw G stakingProxyAddress = readView G staking_proxy_views stakingProxyAddress ''getPairAddress'' [] asText"


definition stakeProxy_getStakingTokenIDRaw :: "gateway \<Rightarrow> string \<Rightarrow> jval res" where
  "stakeProxy_getStakingTokenIDRaw G stakingProxyAddress = readView G staking_proxy_views stakingProxyAddress ''getStakingTokenId'' [] asText"


definition stakeProxy_getFarmTokenIDRaw :: "gateway \<Rightarrow> string \<Rightarrow> jval res" where
  "stakeProxy_getFarmTokenIDRaw G stakingProxyAddress = readView G staking_proxy_views stakingProxyAddress ''getFarmTokenId'' [] asText"


definition stakeProxy_getDualYieldTokenIDRaw :: "gateway \<Rightarrow> string \<Rightarrow> jval res" where
  "stakeProxy_getDualYieldTokenIDRaw G stakingProxyAddress = readView G staking_proxy_views stakingProxyAddress ''getDualYieldTokenId'' [] asText"


definition stakeProxy_getLpFarmTokenIDRaw :: "gateway \<Rightarrow> string \<Rightarrow> jval res" where
  "stakeProxy_getLpFarmTokenIDRaw G stakingProxyAddress = readView G staking_proxy_views stakingProxyAddress ''getLpFarmTokenId'' [] asText"


section \<open>Writers\<close>

definition stake_setPairContractManagedAddress :: "'c cache_service \<Rightarrow> string \<Rightarrow> jval \<Rightarrow> 'c \<Rightarrow> string \<times> 'c" where
  "stake_setPairContractManagedAddress K stakeAddress v = setData K (getCacheKey ''stake'' [KText ''pairContractAddress'', KText stakeAddress]) v (Hours 1, None)"

definition stake_setFarmTokenID :: "'c cache_service \<Rightarrow> string \<Rightarrow> jval \<Rightarrow> 'c \<Rightarrow> string \<times> 'c" where
  "stake_setFarmTokenID K stakeAddress v = setData K (getCacheKey ''stake'' [KText ''farmTokenID'', KText stakeAddress]) v TokenTtl"

definition stake_setFarmingTokenID :: "'c cache_service \<Rightarrow> string \<Rightarrow> jval \<Rightarrow> 'c \<Rightarrow> string \<times> 'c" where
  "stake_setFarmingTokenID K stakeAddress v = setData K (getCacheKey ''stake'' [KText ''farmingTokenID'', KText stakeAddress]) v TokenTtl"

definition stake_setRewardTokenID :: "'c cache_service \<Rightarrow> string \<Rightarrow> jval \<Rightarrow> 'c \<Rightarrow> string \<times> 'c" where
  "stake_setRewardTokenID K stakeAddress v = setData K (getCacheKey ''stake'' [KText ''rewardTokenID'', KText stakeAddress]) v TokenTtl"

definition stake_setFarmTokenSupply :: "'c cache_service \<Rightarrow> string \<Rightarrow> jval \<Rightarrow> 'c \<Rightarrow> string \<times> 'c" where
  "stake_setFarmTokenSupply K stakeAddress v = setData K (getCacheKey ''stake'' [KText ''farmTokenSupply'', KText stakeAddress]) v ContractBalanceTtl"

definition stake_setRewardPerShare :: "'c cache_service \<Rightarrow> string \<Rightarrow> jval \<Rightarrow> 'c \<Rightarrow> string \<times> 'c" where
  "stake_setRewardPerShare K stakeAddress v = setData K (getCacheKey ''stake'' [KText ''rewardPerShare'', KText stakeAddress]) v ContractInfoTtl"

definition stake_setAccumulatedRewards :: "'c cache_service \<Rightarrow> string \<Rightarrow> jval \<Rightarrow> 'c \<Rightarrow> string \<times> 'c" where
  "stake_setAccumulatedRewards K stakeAddress v = setData K (getCacheKey ''stake'' [KText ''accumulatedRewards'', KText stakeAddress]) v ContractInfoTtl"

definition stake_setRewardCapacity :: "'c cache_service \<Rightarrow> string \<Rightarrow> jval \<Rightarrow> 'c \<Rightarrow> string \<times> 'c" where
  "stake_setRewardCapacity K stakeAddress v = setData K (getCacheKey ''stake'' [KText ''rewardCapacity'', KText stakeAddress]) v ContractInfoTtl"

definition stake_setAnnualPercentageRewards :: "'c cache_service \<Rightarrow> string \<Rightarrow> jval \<Rightarrow> 'c \<Rightarrow> string \<times> 'c" where
  "stake_setAnnualPercentageRewards K stakeAddress v = setData K (getCacheKey ''stake'' [KText ''annualPercentageRewards'', KText stakeAddress]) v ContractStateTtl"

definition stake_setStakeFarmAPR :: "'c cache_service \<Rightarrow> string \<Rightarrow> jval \<Rightarrow> 'c \<Rightarrow> string \<times> 'c" where
  "stake_setStakeFarmAPR K stakeAddress v = setData K (getCacheKey ''stake'' [KText ''stakeFarmAPR'', KText stakeAddress]) v ContractStateTtl"

definition stake_setMinUnbondEpochs :: "'c cache_service \<Rightarrow> string \<Rightarrow> jval \<Rightarrow> 'c \<Rightarrow> string \<times> 'c" where
  "stake_setMinUnbondEpochs K stakeAddress v = setData K (getCacheKey ''stake'' [KText ''minUnboundEpochs'', KText stakeAddress]) v ContractStateTtl"

definition stakeCache_setPerBlockRewardAmount :: "'c cache_service \<Rightarrow> string \<Rightarrow> jval \<Rightarrow> 'c \<Rightarrow> string \<times> 'c" where
  "stakeCache_setPerBlockRewardAmount K stakeAddress v = setData K (getCacheKey ''stake'' [KText ''perBlockRewards'', KText stakeAddress]) v ContractStateTtl"

definition stake_setLastRewardBlockNonce :: "'c cache_service \<Rightarrow> string \<Rightarrow> jval \<Rightarrow> 'c \<Rightarrow> string \<times> 'c" where
  "stake_setLastRewardBlockNonce K stakeAddress v = setData K (getCacheKey ''stake'' [KText ''lastRewardBlockNonce'', KText stakeAddress]) v ContractInfoTtl"

definition stake_setDivisionSafetyConstant :: "'c cache_service \<Rightarrow> string \<Rightarrow> jval \<Rightarrow> 'c \<Rightarrow> string \<times> 'c" where
  "stake_setDivisionSafetyConstant K stakeAddress v = setData K (getCacheKey ''stake'' [KText ''divisionSafetyConstant'', KText stakeAddress]) v ContractStateTtl"

definition stakeCache_setState :: "'c cache_service \<Rightarrow> string \<Rightarrow> jval \<Rightarrow> 'c \<Rightarrow> string \<times> 'c" where
  "stakeCache_setState K stakeAddress v = setData K (getCacheKey ''stake'' [KText ''state'', KText stakeAddress]) v ContractStateTtl"









section \<open>What the readers return\<close>

lemmas stake_raw_defs = stake_getFarmTokenIDRaw_def stake_getFarmingTokenIDRaw_def stake_getRewardTokenIDRaw_def stake_getFarmTokenSupplyRaw_def stake_getRewardPerShareRaw_def stake_getAccumulatedRewardsRaw_def stake_getRewardCapacityRaw_def stake_getAnnualPercentageRewardsRaw_def stake_getMinUnbondEpochsRaw_def stake_getPerBlockRewardsAmountRaw_def stake_getLastRewardBlockNonceRaw_def stake_getDivisionSafetyConstantRaw_def stake_getBurnGasLimitRaw_def stake_getTransferExecGasLimitRaw_def stake_getStateRaw_def stake_getLastErrorMessageRaw_def stake_isWhitelistedRaw_def

text \<open>
  On a staking contract that answers as its interface file says, its readers return a value of the kind they promise;
  the last block and the safety constant, declared as numbers, come as text of digits, and the gas limits, declared as text, as big numbers.
\<close>

theorem stake_readers_typed:
  assumes "gatewayAnswers G staking_views stakeAddress"
  shows "returns TextR (stake_getFarmTokenIDRaw G stakeAddress) \<and>
    returns TextR (stake_getFarmingTokenIDRaw G stakeAddress) \<and>
    returns TextR (stake_getRewardTokenIDRaw G stakeAddress) \<and>
    returns AmountR (stake_getFarmTokenSupplyRaw G stakeAddress) \<and>
    returns AmountR (stake_getRewardPerShareRaw G stakeAddress) \<and>
    returns AmountR (stake_getAccumulatedRewardsRaw G stakeAddress) \<and>
    returns AmountR (stake_getRewardCapacityRaw G stakeAddress) \<and>
    returns AmountR (stake_getAnnualPercentageRewardsRaw G stakeAddress) \<and>
    returns NumberR (stake_getMinUnbondEpochsRaw G stakeAddress) \<and>
    returns AmountR (stake_getPerBlockRewardsAmountRaw G stakeAddress) \<and>
    returns AmountR (stake_getLastRewardBlockNonceRaw G stakeAddress) \<and>
    returns AmountR (stake_getDivisionSafetyConstantRaw G stakeAddress) \<and>
    returns BigR (stake_getBurnGasLimitRaw G stakeAddress) \<and>
    returns BigR (stake_getTransferExecGasLimitRaw G stakeAddress) \<and>
    returns TextR (stake_getStateRaw G stakeAddress) \<and>
    returns TextR (stake_getLastErrorMessageRaw G stakeAddress) \<and>
    returns BoolR (stake_isWhitelistedRaw G stakeAddress sc)"
  unfolding stake_raw_defs
  by (intro conjI readView_returns [OF assms]; simp add: staking_views_def decoding)

lemmas stake_reader_defs = stake_pairContractAddress_def stake_farmTokenID_def stake_farmingTokenID_def stake_rewardTokenID_def stake_farmTokenSupply_def stake_rewardPerShare_def stake_accumulatedRewards_def stake_rewardCapacity_def stake_annualPercentageRewards_def stake_stakeFarmAPR_def stake_lastRewardBlockNonce_def stake_divisionSafetyConstant_def stake_state_def

lemmas stake_writer_defs = stake_setPairContractManagedAddress_def stake_setFarmTokenID_def stake_setFarmingTokenID_def stake_setRewardTokenID_def stake_setFarmTokenSupply_def stake_setRewardPerShare_def stake_setAccumulatedRewards_def stake_setRewardCapacity_def stake_setAnnualPercentageRewards_def stake_setStakeFarmAPR_def stake_setLastRewardBlockNonce_def stake_setDivisionSafetyConstant_def stakeCache_setState_def

text \<open>
  Every writer of a staking contract but two reaches the reader of the same key.
\<close>

theorem stake_writers_reach_readers:
  assumes "cache_lib K" "historyTimestamp G = None" "storable v"
  shows "reaches (stake_setPairContractManagedAddress K stakeAddress v) (stake_pairContractAddress K G stakeAddress) v \<and>
    reaches (stake_setFarmTokenID K stakeAddress v) (stake_farmTokenID K G stakeAddress) v \<and>
    reaches (stake_setFarmingTokenID K stakeAddress v) (stake_farmingTokenID K G stakeAddress) v \<and>
    reaches (stake_setRewardTokenID K stakeAddress v) (stake_rewardTokenID K G stakeAddress) v \<and>
    reaches (stake_setFarmTokenSupply K stakeAddress v) (stake_farmTokenSupply K G stakeAddress) v \<and>
    reaches (stake_setRewardPerShare K stakeAddress v) (stake_rewardPerShare K G stakeAddress) v \<and>
    reaches (stake_setAccumulatedRewards K stakeAddress v) (stake_accumulatedRewards K G stakeAddress) v \<and>
    reaches (stake_setRewardCapacity K stakeAddress v) (stake_rewardCapacity K G stakeAddress) v \<and>
    reaches (stake_setAnnualPercentageRewards K stakeAddress v) (stake_annualPercentageRewards K G stakeAddress) v \<and>
    reaches (stake_setStakeFarmAPR K stakeAddress v) (stake_stakeFarmAPR K G compute stakeAddress) v \<and>
    reaches (stake_setLastRewardBlockNonce K stakeAddress v) (stake_lastRewardBlockNonce K G stakeAddress) v \<and>
    reaches (stake_setDivisionSafetyConstant K stakeAddress v) (stake_divisionSafetyConstant K G stakeAddress) v \<and>
    reaches (stakeCache_setState K stakeAddress v) (stake_state K G stakeAddress) v"
  by ((intro conjI)?; simp only: stake_writer_defs stake_reader_defs getCacheKey_def assms(2); rule cache_lib.writer_reaches [OF assms(1,3) refl])

text \<open>
  The two others write keys that no reader has (\<open>minUnboundEpochs\<close>, \<open>perBlockRewards\<close>).
\<close>

lemma stake_writers_miss_readers:
  assumes "cache_lib K" "historyTimestamp G = None"
  shows "misses (stake_setMinUnbondEpochs K stakeAddress v) (stake_minUnbondEpochs K G stakeAddress) \<and>
    misses (stakeCache_setPerBlockRewardAmount K stakeAddress v) (stake_perBlockRewardsAmount K G stakeAddress)"
  by ((intro conjI)?; simp only: stake_setMinUnbondEpochs_def stakeCache_setPerBlockRewardAmount_def stake_minUnbondEpochs_def stake_perBlockRewardsAmount_def getCacheKey_def assms(2); rule cache_lib.writer_misses_uncached [OF assms(1)];
      simp add: generateCacheKeyFromParams_def butlast_append)

text \<open>The view of the rewards of a position takes the decoded attributes; the call passes their bytes.\<close>

lemma staking_rewards_call_refused:
  "stake_calculateRewardsForGivenPosition G stakeAddress amt attributesHex =
   Inl (argumentError G ''calculateRewardsForGivenPosition'')"
  by (simp add: stake_calculateRewardsForGivenPosition_def readView_def getGenericData_def staking_views_def)

lemmas stake_proxy_raw_defs = stakeProxy_getlpFarmAddressRaw_def stakeProxy_getStakingFarmAddressRaw_def stakeProxy_getPairAddressRaw_def stakeProxy_getStakingTokenIDRaw_def stakeProxy_getFarmTokenIDRaw_def stakeProxy_getDualYieldTokenIDRaw_def stakeProxy_getLpFarmTokenIDRaw_def

lemma stake_proxy_readers_typed:
  assumes "gatewayAnswers G staking_proxy_views stakingProxyAddress"
  shows "returns TextR (stakeProxy_getlpFarmAddressRaw G stakingProxyAddress) \<and>
    returns TextR (stakeProxy_getStakingFarmAddressRaw G stakingProxyAddress) \<and>
    returns TextR (stakeProxy_getPairAddressRaw G stakingProxyAddress) \<and>
    returns TextR (stakeProxy_getStakingTokenIDRaw G stakingProxyAddress) \<and>
    returns TextR (stakeProxy_getFarmTokenIDRaw G stakingProxyAddress) \<and>
    returns TextR (stakeProxy_getDualYieldTokenIDRaw G stakingProxyAddress) \<and>
    returns TextR (stakeProxy_getLpFarmTokenIDRaw G stakingProxyAddress)"
  unfolding stake_proxy_raw_defs
  by (intro conjI readView_returns [OF assms]; simp add: staking_proxy_views_def decoding)






end
