(* ===== verification/LockReaders.thy ===== *)
theory LockReaders
  imports ContractQueries
begin

text \<open>
  The readers of the contracts that lock tokens and of the contracts around them, and the writers of their entries: the energy factory
  (\<open>src/modules/energy/services\<close>), simple lock (\<open>modules/simple-lock\<close>), unstaking (\<open>modules/token-unstake\<close>), metabonding
  (\<open>modules/metabonding\<close>), the proxies (\<open>modules/proxy\<close>), the wrapper of locked tokens (\<open>modules/locked-token-wrapper\<close>), the
  distribution (\<open>modules/distribution\<close>) and the wrapping of EGLD (\<open>modules/wrapping\<close>).
\<close>

section \<open>The interfaces\<close>

definition energy_views :: views where
  "energy_views = [
    (''getLockedTokenId'', [], [TokenIdentifierT]),
    (''getBaseAssetTokenId'', [], [TokenIdentifierT]),
    (''getLegacyLockedTokenId'', [], [TokenIdentifierT]),
    (''getEnergyEntryForUser'', [AddressT], [StructT ''Energy'' [(''amount'', BigIntT), (''last_update_epoch'', UintT 64), (''total_locked_tokens'', BigUintT)]]),
    (''getEnergyAmountForUser'', [AddressT], [BigUintT]),
    (''getLockOptions'', [], [ListT (StructT ''LockOption'' [(''lock_epochs'', UintT 64), (''penalty_start_percentage'', UintT 64)])]),
    (''getPenaltyAmount'', [BigUintT, UintT 64, UintT 64], [BigUintT]),
    (''getTokenUnstakeScAddress'', [], [AddressT]),
    (''isPaused'', [], [BoolT])]"

definition simple_lock_views :: views where
  "simple_lock_views = [
    (''getLockedTokenId'', [], [TokenIdentifierT]),
    (''getKnownLiquidityPools'', [], [ListT AddressT]),
    (''getLpProxyTokenId'', [], [TokenIdentifierT]),
    (''getKnownFarms'', [], [ListT AddressT]),
    (''getFarmProxyTokenId'', [], [TokenIdentifierT])]"

definition token_unstake_views :: views where
  "token_unstake_views = [
    (''getUnbondEpochs'', [], [UintT 64]),
    (''getUnlockedTokensForUser'', [AddressT], [ListT (StructT ''UnstakePair'' [(''unlock_epoch'', UintT 64), (''locked_tokens'', StructT ''EsdtTokenPayment'' [(''token_identifier'', TokenIdentifierT), (''token_nonce'', UintT 64), (''amount'', BigUintT)]), (''unlocked_tokens'', StructT ''EsdtTokenPayment'' [(''token_identifier'', TokenIdentifierT), (''token_nonce'', UintT 64), (''amount'', BigUintT)])])]),
    (''getFeesBurnPercentage'', [], [UintT 64]),
    (''getFeesCollectorAddress'', [], [AddressT]),
    (''getEnergyFactoryAddress'', [], [AddressT])]"

definition metabonding_views :: views where
  "metabonding_views = [
    (''getStakedAmountForUser'', [AddressT], [BigUintT]),
    (''getUserEntry'', [AddressT], [OptionT (StructT ''UserEntry'' [(''token_nonce'', UintT 64), (''stake_amount'', BigUintT), (''unstake_amount'', BigUintT), (''unbond_epoch'', UintT 64)])]),
    (''getLockedAssetTokenId'', [], [TokenIdentifierT]),
    (''getTotalLockedAssetSupply'', [], [BigUintT])]"

definition proxy_v1_views :: views where
  "proxy_v1_views = [
    (''getLastErrorMessage'', [], [BytesT]),
    (''getAssetTokenId'', [], [TokenIdentifierT]),
    (''getLockedAssetTokenId'', [], [TokenIdentifierT]),
    (''getWrappedLpTokenId'', [], [TokenIdentifierT]),
    (''getWrappedFarmTokenId'', [], [TokenIdentifierT]),
    (''getIntermediatedFarms'', [], [ListT AddressT]),
    (''getIntermediatedPairs'', [], [ListT AddressT]),
    (''getTransferExecGasLimit'', [], [UintT 64])]"

definition proxy_v2_views :: views where
  "proxy_v2_views = [
    (''getAssetTokenId'', [], [TokenIdentifierT]),
    (''getLockedTokenIds'', [], [ListT TokenIdentifierT]),
    (''getWrappedLpTokenId'', [], [TokenIdentifierT]),
    (''getWrappedFarmTokenId'', [], [TokenIdentifierT]),
    (''getIntermediatedPairs'', [], [ListT AddressT]),
    (''getIntermediatedFarms'', [], [ListT AddressT])]"

definition wrapper_views :: views where
  "wrapper_views = [
    (''getWrappedTokenId'', [], [TokenIdentifierT]),
    (''getEnergyFactoryAddress'', [], [AddressT])]"

definition distribution_views :: views where
  "distribution_views = [
    (''calculateLockedAssets'', [AddressT], [BigUintT]),
    (''getLastCommunityDistributionAmountAndEpoch'', [], [BigUintT, UintT 64]),
    (''getAssetTokenId'', [], [TokenIdentifierT])]"

section \<open>Energy\<close>

definition energy_getBaseAssetTokenIDRaw :: "gateway \<Rightarrow> jval res" where
  "energy_getBaseAssetTokenIDRaw G = readView G energy_views (configAddress G ''simpleLockEnergy'') ''getBaseAssetTokenId'' [] asText"

definition energy_baseAssetTokenID :: "'c cache_service \<Rightarrow> gateway \<Rightarrow> 'c \<Rightarrow> jval res \<times> 'c" where
  "energy_baseAssetTokenID K G = GetOrSetCache K (historyTimestamp G) ''energy'' TokenTtl ''baseAssetTokenID'' []
     (uncached (energy_getBaseAssetTokenIDRaw G))"

definition energy_getLockedTokenIDRaw :: "gateway \<Rightarrow> jval res" where
  "energy_getLockedTokenIDRaw G = readView G energy_views (configAddress G ''simpleLockEnergy'') ''getLockedTokenId'' [] asText"

definition energy_lockedTokenID :: "'c cache_service \<Rightarrow> gateway \<Rightarrow> 'c \<Rightarrow> jval res \<times> 'c" where
  "energy_lockedTokenID K G = GetOrSetCache K (historyTimestamp G) ''energy'' TokenTtl ''lockedTokenID'' []
     (uncached (energy_getLockedTokenIDRaw G))"

definition energy_getLegacyLockedTokenIDRaw :: "gateway \<Rightarrow> jval res" where
  "energy_getLegacyLockedTokenIDRaw G = readView G energy_views (configAddress G ''simpleLockEnergy'') ''getLegacyLockedTokenId'' [] asText"

definition energy_legacyLockedTokenID :: "'c cache_service \<Rightarrow> gateway \<Rightarrow> 'c \<Rightarrow> jval res \<times> 'c" where
  "energy_legacyLockedTokenID K G = GetOrSetCache K (historyTimestamp G) ''energy'' TokenTtl ''legacyLockedTokenID'' []
     (uncached (energy_getLegacyLockedTokenIDRaw G))"

definition energy_getLockOptionsRaw :: "gateway \<Rightarrow> jval res" where
  "energy_getLockOptionsRaw G = 
     readView G energy_views (configAddress G ''simpleLockEnergy'') ''getLockOptions'' []
       (mapElems (newObject [(''lockEpochs'', via ''lock_epochs'' asNumber), (''penaltyStartPercentage'', via ''penalty_start_percentage'' asNumber)]))"

definition energy_lockOptions :: "'c cache_service \<Rightarrow> gateway \<Rightarrow> 'c \<Rightarrow> jval res \<times> 'c" where
  "energy_lockOptions K G = GetOrSetCache K (historyTimestamp G) ''energy'' ContractStateTtl ''lockOptions'' []
     (uncached (energy_getLockOptionsRaw G))"

definition energy_getTokenUnstakeScAddressRaw :: "gateway \<Rightarrow> jval res" where
  "energy_getTokenUnstakeScAddressRaw G = readView G energy_views (configAddress G ''simpleLockEnergy'') ''getTokenUnstakeScAddress'' [] asBech32"

definition energy_tokenUnstakeScAddress :: "'c cache_service \<Rightarrow> gateway \<Rightarrow> 'c \<Rightarrow> jval res \<times> 'c" where
  "energy_tokenUnstakeScAddress K G = GetOrSetCache K (historyTimestamp G) ''energy'' ContractStateTtl ''tokenUnstakeScAddress'' []
     (uncached (energy_getTokenUnstakeScAddressRaw G))"

definition energy_getOwnerAddressRaw :: "gateway \<Rightarrow> jval res" where
  "energy_getOwnerAddressRaw G = res_bind (accountOwner G (configAddress G ''simpleLockEnergy'')) (\<lambda>a. Inr (JText a))"

definition energy_ownerAddress :: "'c cache_service \<Rightarrow> gateway \<Rightarrow> 'c \<Rightarrow> jval res \<times> 'c" where
  "energy_ownerAddress K G = GetOrSetCache K (historyTimestamp G) ''energy'' ContractStateTtl ''ownerAddress'' []
     (uncached (energy_getOwnerAddressRaw G))"

text \<open>\<open>Energy.fromDecodedAttributes (v).toJSON ()\<close> of \<open>@multiversx/sdk-exchange\<close> is the argument \<open>energyJson\<close>.\<close>

definition energy_getEnergyEntryForUserRaw :: "gateway \<Rightarrow> (abi_value \<Rightarrow> jval res) \<Rightarrow> string \<Rightarrow> jval res" where
  "energy_getEnergyEntryForUserRaw G energyJson userAddress =
     readView G energy_views (configAddress G ''simpleLockEnergy'') ''getEnergyEntryForUser'' [Typed (AddressV userAddress)] energyJson"

definition energy_energyEntryForUser :: "'c cache_service \<Rightarrow> gateway \<Rightarrow> (abi_value \<Rightarrow> jval res) \<Rightarrow> string \<Rightarrow> 'c \<Rightarrow> jval res \<times> 'c" where
  "energy_energyEntryForUser K G energyJson userAddress =
     GetOrSetCache K (historyTimestamp G) ''energy'' (Minutes 1, None) ''energyEntryForUser'' [KText userAddress]
       (uncached (energy_getEnergyEntryForUserRaw G energyJson userAddress))"

definition energy_getEnergyAmountForUserRaw :: "gateway \<Rightarrow> string \<Rightarrow> jval res" where
  "energy_getEnergyAmountForUserRaw G userAddress = readView G energy_views (configAddress G ''simpleLockEnergy'') ''getEnergyAmountForUser'' [Typed (AddressV userAddress)] asFixed"

definition energy_energyAmountForUser :: "'c cache_service \<Rightarrow> gateway \<Rightarrow> string \<Rightarrow> 'c \<Rightarrow> jval res \<times> 'c" where
  "energy_energyAmountForUser K G userAddress = GetOrSetCache K (historyTimestamp G) ''energy'' (Seconds 1, Some (Seconds 1)) ''energyAmountForUser'' [KText userAddress]
     (uncached (energy_getEnergyAmountForUserRaw G userAddress))"

definition energy_getPenaltyAmount :: "gateway \<Rightarrow> bn \<Rightarrow> int \<Rightarrow> int \<Rightarrow> jval res" where
  "energy_getPenaltyAmount G tokenAmount prevLockEpochs epochsToReduce = readView G energy_views (configAddress G ''simpleLockEnergy'') ''getPenaltyAmount'' [Typed (BigUInt tokenAmount), Typed (U64V (bn_of_int prevLockEpochs)), Typed (U64V (bn_of_int epochsToReduce))] asFixed"

definition energy_isPausedRaw :: "gateway \<Rightarrow> jval res" where
  "energy_isPausedRaw G = readView G energy_views (configAddress G ''simpleLockEnergy'') ''isPaused'' [] asRaw"

definition energy_isPaused :: "'c cache_service \<Rightarrow> gateway \<Rightarrow> 'c \<Rightarrow> jval res \<times> 'c" where
  "energy_isPaused K G = GetOrSetCache K (historyTimestamp G) ''energy'' ContractStateTtl ''isPaused'' []
     (uncached (energy_isPausedRaw G))"

section \<open>Simple lock\<close>

definition simpleLock_getlockedTokenIDRaw :: "gateway \<Rightarrow> string \<Rightarrow> jval res" where
  "simpleLock_getlockedTokenIDRaw G simpleLockAddress = readView G simple_lock_views simpleLockAddress ''getLockedTokenId'' [] asText"

definition simpleLock_lockedTokenID :: "'c cache_service \<Rightarrow> gateway \<Rightarrow> string \<Rightarrow> 'c \<Rightarrow> jval res \<times> 'c" where
  "simpleLock_lockedTokenID K G simpleLockAddress = GetOrSetCache K (historyTimestamp G) ''simpleLock'' TokenTtl ''lockedTokenID'' [KText simpleLockAddress]
     (uncached (simpleLock_getlockedTokenIDRaw G simpleLockAddress))"

definition simpleLock_getLpProxyTokenIDRaw :: "gateway \<Rightarrow> string \<Rightarrow> jval res" where
  "simpleLock_getLpProxyTokenIDRaw G simpleLockAddress = readView G simple_lock_views simpleLockAddress ''getLpProxyTokenId'' [] asText"

definition simpleLock_lpProxyTokenID :: "'c cache_service \<Rightarrow> gateway \<Rightarrow> string \<Rightarrow> 'c \<Rightarrow> jval res \<times> 'c" where
  "simpleLock_lpProxyTokenID K G simpleLockAddress = GetOrSetCache K (historyTimestamp G) ''simpleLock'' TokenTtl ''lpProxyTokenID'' [KText simpleLockAddress]
     (uncached (simpleLock_getLpProxyTokenIDRaw G simpleLockAddress))"

definition simpleLock_getFarmProxyTokenIDRaw :: "gateway \<Rightarrow> string \<Rightarrow> jval res" where
  "simpleLock_getFarmProxyTokenIDRaw G simpleLockAddress = readView G simple_lock_views simpleLockAddress ''getFarmProxyTokenId'' [] asText"

definition simpleLock_farmProxyTokenID :: "'c cache_service \<Rightarrow> gateway \<Rightarrow> string \<Rightarrow> 'c \<Rightarrow> jval res \<times> 'c" where
  "simpleLock_farmProxyTokenID K G simpleLockAddress = GetOrSetCache K (historyTimestamp G) ''simpleLock'' TokenTtl ''farmProxyTokenID'' [KText simpleLockAddress]
     (uncached (simpleLock_getFarmProxyTokenIDRaw G simpleLockAddress))"

definition simpleLock_getIntermediatedPairsRaw :: "gateway \<Rightarrow> string \<Rightarrow> jval res" where
  "simpleLock_getIntermediatedPairsRaw G simpleLockAddress = 
     readView G simple_lock_views simpleLockAddress ''getKnownLiquidityPools'' [] (mapElems asText)"

definition simpleLock_intermediatedPairs :: "'c cache_service \<Rightarrow> gateway \<Rightarrow> string \<Rightarrow> 'c \<Rightarrow> jval res \<times> 'c" where
  "simpleLock_intermediatedPairs K G simpleLockAddress = GetOrSetCache K (historyTimestamp G) ''simpleLock'' TokenTtl ''intermediatedPairs'' [KText simpleLockAddress]
     (uncached (simpleLock_getIntermediatedPairsRaw G simpleLockAddress))"

definition simpleLock_getIntermediatedFarmsRaw :: "gateway \<Rightarrow> string \<Rightarrow> jval res" where
  "simpleLock_getIntermediatedFarmsRaw G simpleLockAddress = 
     readView G simple_lock_views simpleLockAddress ''getKnownFarms'' [] (mapElems asText)"

definition simpleLock_intermediatedFarms :: "'c cache_service \<Rightarrow> gateway \<Rightarrow> string \<Rightarrow> 'c \<Rightarrow> jval res \<times> 'c" where
  "simpleLock_intermediatedFarms K G simpleLockAddress = GetOrSetCache K (historyTimestamp G) ''simpleLock'' TokenTtl ''intermediatedFarms'' [KText simpleLockAddress]
     (uncached (simpleLock_getIntermediatedFarmsRaw G simpleLockAddress))"

section \<open>Unstaking\<close>

definition unstake_getUnbondEpochsRaw :: "gateway \<Rightarrow> jval res" where
  "unstake_getUnbondEpochsRaw G = readView G token_unstake_views (configAddress G ''tokenUnstake'') ''getUnbondEpochs'' [] asNumber"

definition unstake_unbondEpochs :: "'c cache_service \<Rightarrow> gateway \<Rightarrow> 'c \<Rightarrow> jval res \<times> 'c" where
  "unstake_unbondEpochs K G = GetOrSetCache K (historyTimestamp G) ''tokenUnstake'' ContractStateTtl ''unbondEpochs'' []
     (uncached (unstake_getUnbondEpochsRaw G))"

definition unstake_getFeesBurnPercentageRaw :: "gateway \<Rightarrow> jval res" where
  "unstake_getFeesBurnPercentageRaw G = readView G token_unstake_views (configAddress G ''tokenUnstake'') ''getFeesBurnPercentage'' [] asNumber"

definition unstake_feesBurnPercentage :: "'c cache_service \<Rightarrow> gateway \<Rightarrow> 'c \<Rightarrow> jval res \<times> 'c" where
  "unstake_feesBurnPercentage K G = GetOrSetCache K (historyTimestamp G) ''tokenUnstake'' ContractStateTtl ''feesBurnPercentage'' []
     (uncached (unstake_getFeesBurnPercentageRaw G))"

definition unstake_feesCollectorAddressRaw :: "gateway \<Rightarrow> jval res" where
  "unstake_feesCollectorAddressRaw G = readView G token_unstake_views (configAddress G ''tokenUnstake'') ''getFeesCollectorAddress'' [] asBech32"

definition unstake_feesCollectorAddress :: "'c cache_service \<Rightarrow> gateway \<Rightarrow> 'c \<Rightarrow> jval res \<times> 'c" where
  "unstake_feesCollectorAddress K G = GetOrSetCache K (historyTimestamp G) ''tokenUnstake'' ContractStateTtl ''feesCollectorAddress'' []
     (uncached (unstake_feesCollectorAddressRaw G))"

definition unstake_getEnergyFactoryAddressRaw :: "gateway \<Rightarrow> jval res" where
  "unstake_getEnergyFactoryAddressRaw G = readView G token_unstake_views (configAddress G ''tokenUnstake'') ''getEnergyFactoryAddress'' [] asBech32"

definition unstake_energyFactoryAddress :: "'c cache_service \<Rightarrow> gateway \<Rightarrow> 'c \<Rightarrow> jval res \<times> 'c" where
  "unstake_energyFactoryAddress K G = GetOrSetCache K (historyTimestamp G) ''tokenUnstake'' ContractStateTtl ''energyFactoryAddress'' []
     (uncached (unstake_getEnergyFactoryAddressRaw G))"

text \<open>The payments are decoded by \<open>EsdtTokenPayment.fromDecodedAttributes\<close> of \<open>@multiversx/sdk-exchange\<close>, the argument \<open>paymentJson\<close>.\<close>

definition unstake_getUnlockedTokensForUserRaw :: "gateway \<Rightarrow> (abi_value \<Rightarrow> jval res) \<Rightarrow> string \<Rightarrow> jval res" where
  "unstake_getUnlockedTokensForUserRaw G paymentJson userAddress =
     readView G token_unstake_views (configAddress G ''tokenUnstake'') ''getUnlockedTokensForUser'' [Typed (AddressV userAddress)]
       (mapElems (newObject [(''unlockEpoch'', via ''unlock_epoch'' asNumber),
          (''lockedTokens'', via ''locked_tokens'' paymentJson), (''unlockedTokens'', via ''unlocked_tokens'' paymentJson)]))"

definition unstake_unlockedTokensForUser :: "'c cache_service \<Rightarrow> gateway \<Rightarrow> (abi_value \<Rightarrow> jval res) \<Rightarrow> string \<Rightarrow> 'c \<Rightarrow> jval res \<times> 'c" where
  "unstake_unlockedTokensForUser K G paymentJson userAddress =
     GetOrSetCache K (historyTimestamp G) ''tokenUnstake'' ContractBalanceTtl ''unlockedTokensForUser'' [KText userAddress]
       (uncached (unstake_getUnlockedTokensForUserRaw G paymentJson userAddress))"

section \<open>Metabonding\<close>

definition metabonding_getLockedAssetTokenIDRaw :: "gateway \<Rightarrow> jval res" where
  "metabonding_getLockedAssetTokenIDRaw G = readView G metabonding_views (configAddress G ''metabondingStakingAddress'') ''getLockedAssetTokenId'' [] asText"

definition metabonding_lockedAssetTokenID :: "'c cache_service \<Rightarrow> gateway \<Rightarrow> 'c \<Rightarrow> jval res \<times> 'c" where
  "metabonding_lockedAssetTokenID K G = GetOrSetCache K (historyTimestamp G) ''metabonding'' TokenTtl ''lockedAssetTokenID'' []
     (uncached (metabonding_getLockedAssetTokenIDRaw G))"

definition metabonding_getTotalLockedAssetSupplyRaw :: "gateway \<Rightarrow> jval res" where
  "metabonding_getTotalLockedAssetSupplyRaw G = readView G metabonding_views (configAddress G ''metabondingStakingAddress'') ''getTotalLockedAssetSupply'' [] asFixed"

definition metabonding_totalLockedAssetSupply :: "'c cache_service \<Rightarrow> gateway \<Rightarrow> 'c \<Rightarrow> jval res \<times> 'c" where
  "metabonding_totalLockedAssetSupply K G = GetOrSetCache K (historyTimestamp G) ''metabonding'' ContractStateTtl ''totalLockedAssetSupply'' []
     (uncached (metabonding_getTotalLockedAssetSupplyRaw G))"

definition metabonding_getStakedAmountForUserRaw :: "gateway \<Rightarrow> string \<Rightarrow> jval res" where
  "metabonding_getStakedAmountForUserRaw G userAddress = readView G metabonding_views (configAddress G ''metabondingStakingAddress'') ''getStakedAmountForUser'' [Typed (AddressV userAddress)] asFixed"

definition metabonding_stakedAmountForUser :: "'c cache_service \<Rightarrow> gateway \<Rightarrow> string \<Rightarrow> 'c \<Rightarrow> jval res \<times> 'c" where
  "metabonding_stakedAmountForUser K G userAddress = GetOrSetCache K (historyTimestamp G) ''metabonding'' ContractInfoTtl ''stakedAmountForUser'' [KText userAddress]
     (uncached (metabonding_getStakedAmountForUserRaw G userAddress))"

definition metabonding_getUserEntryRaw :: "gateway \<Rightarrow> string \<Rightarrow> jval res" where
  "metabonding_getUserEntryRaw G userAddress = 
     readView G metabonding_views (configAddress G ''metabondingStakingAddress'') ''getUserEntry'' [Typed (AddressV userAddress)]
       (\<lambda>v. if v = VNull
          then Inr (JObject [(''tokenNonce'', JNumber (JNum 0)), (''stakedAmount'', JAmount (Fin 0)), (''unstakedAmount'', JAmount (Fin 0))])
          else newObject [(''tokenNonce'', via ''token_nonce'' asNumber), (''stakedAmount'', via ''stake_amount'' asFixed),
            (''unstakedAmount'', via ''unstake_amount'' asFixed), (''unbondEpoch'', via ''unbond_epoch'' asNumber)] v)"

definition metabonding_userEntry :: "'c cache_service \<Rightarrow> gateway \<Rightarrow> string \<Rightarrow> 'c \<Rightarrow> jval res \<times> 'c" where
  "metabonding_userEntry K G userAddress = GetOrSetCache K (historyTimestamp G) ''metabonding'' ContractInfoTtl ''userEntry'' [KText userAddress]
     (uncached (metabonding_getUserEntryRaw G userAddress))"

section \<open>Proxies\<close>

text \<open>\<open>MXProxyService.getProxyDexSmartContract\<close>: the interface file by the version of the proxy.\<close>

definition readProxy :: "gateway \<Rightarrow> string option \<Rightarrow> string \<Rightarrow> string \<Rightarrow> query_arg list \<Rightarrow> (abi_value \<Rightarrow> 'a res) \<Rightarrow> 'a res" where
  "readProxy G version proxyAddress f args decode =
     (if version = Some ''v1'' then readView G proxy_v1_views proxyAddress f args decode
      else if version = Some ''v2'' then readView G proxy_v2_views proxyAddress f args decode else Inl TypeError)"

definition proxyPair_getWrappedLpTokenIDRaw :: "gateway \<Rightarrow> string option \<Rightarrow> string \<Rightarrow> jval res" where
  "proxyPair_getWrappedLpTokenIDRaw G version proxyAddress =
     readProxy G version proxyAddress ''getWrappedLpTokenId'' [] asText"

definition proxyPair_wrappedLpTokenID :: "'c cache_service \<Rightarrow> gateway \<Rightarrow> string option \<Rightarrow> string \<Rightarrow> 'c \<Rightarrow> jval res \<times> 'c" where
  "proxyPair_wrappedLpTokenID K G version proxyAddress = GetOrSetCache K (historyTimestamp G) ''proxyPair'' TokenTtl ''wrappedLpTokenID'' [KText proxyAddress]
     (uncached (proxyPair_getWrappedLpTokenIDRaw G version proxyAddress))"

definition proxyPair_getIntermediatedPairsRaw :: "gateway \<Rightarrow> string option \<Rightarrow> string \<Rightarrow> jval res" where
  "proxyPair_getIntermediatedPairsRaw G version proxyAddress =
     readProxy G version proxyAddress ''getIntermediatedPairs'' [] (mapElems asText)"

definition proxyPair_intermediatedPairs :: "'c cache_service \<Rightarrow> gateway \<Rightarrow> string option \<Rightarrow> string \<Rightarrow> 'c \<Rightarrow> jval res \<times> 'c" where
  "proxyPair_intermediatedPairs K G version proxyAddress = GetOrSetCache K (historyTimestamp G) ''proxyPair'' (Hours 1, None) ''intermediatedPairs'' [KText proxyAddress]
     (uncached (proxyPair_getIntermediatedPairsRaw G version proxyAddress))"

definition proxyFarm_getWrappedFarmTokenIDRaw :: "gateway \<Rightarrow> string option \<Rightarrow> string \<Rightarrow> jval res" where
  "proxyFarm_getWrappedFarmTokenIDRaw G version proxyAddress =
     readProxy G version proxyAddress ''getWrappedFarmTokenId'' [] asText"

definition proxyFarm_wrappedFarmTokenID :: "'c cache_service \<Rightarrow> gateway \<Rightarrow> string option \<Rightarrow> string \<Rightarrow> 'c \<Rightarrow> jval res \<times> 'c" where
  "proxyFarm_wrappedFarmTokenID K G version proxyAddress = GetOrSetCache K (historyTimestamp G) ''proxyFarm'' TokenTtl ''wrappedFarmTokenID'' [KText proxyAddress]
     (uncached (proxyFarm_getWrappedFarmTokenIDRaw G version proxyAddress))"

definition proxyFarm_getIntermediatedFarmsRaw :: "gateway \<Rightarrow> string option \<Rightarrow> string \<Rightarrow> jval res" where
  "proxyFarm_getIntermediatedFarmsRaw G version proxyAddress =
     readProxy G version proxyAddress ''getIntermediatedFarms'' [] (mapElems asText)"

definition proxyFarm_intermediatedFarms :: "'c cache_service \<Rightarrow> gateway \<Rightarrow> string option \<Rightarrow> string \<Rightarrow> 'c \<Rightarrow> jval res \<times> 'c" where
  "proxyFarm_intermediatedFarms K G version proxyAddress = GetOrSetCache K (historyTimestamp G) ''proxyFarm'' (Hours 1, None) ''intermediatedFarms'' [KText proxyAddress]
     (uncached (proxyFarm_getIntermediatedFarmsRaw G version proxyAddress))"

definition proxy_getAssetTokenIDRaw :: "gateway \<Rightarrow> string option \<Rightarrow> string \<Rightarrow> jval res" where
  "proxy_getAssetTokenIDRaw G version proxyAddress =
     readProxy G version proxyAddress ''getAssetTokenId'' [] asText"

definition proxy_assetTokenID :: "'c cache_service \<Rightarrow> gateway \<Rightarrow> string option \<Rightarrow> string \<Rightarrow> 'c \<Rightarrow> jval res \<times> 'c" where
  "proxy_assetTokenID K G version proxyAddress = GetOrSetCache K (historyTimestamp G) ''proxy'' TokenTtl ''assetTokenID'' [KText proxyAddress]
     (uncached (proxy_getAssetTokenIDRaw G version proxyAddress))"

definition proxy_getLockedAssetTokenIDRaw :: "gateway \<Rightarrow> string option \<Rightarrow> string \<Rightarrow> jval res" where
  "proxy_getLockedAssetTokenIDRaw G version proxyAddress =
     readProxy G version proxyAddress ''getLockedAssetTokenId'' [] (\<lambda>v. res_bind (asText v) (\<lambda>j. Inr (JList [j])))"

definition proxy_lockedAssetTokenID :: "'c cache_service \<Rightarrow> gateway \<Rightarrow> string option \<Rightarrow> string \<Rightarrow> 'c \<Rightarrow> jval res \<times> 'c" where
  "proxy_lockedAssetTokenID K G version proxyAddress = GetOrSetCache K (historyTimestamp G) ''proxy'' TokenTtl ''lockedAssetTokenID'' [KText proxyAddress]
     (uncached (proxy_getLockedAssetTokenIDRaw G version proxyAddress))"

definition proxy_v2_getLockedAssetTokenIDRaw :: "gateway \<Rightarrow> string option \<Rightarrow> string \<Rightarrow> jval res" where
  "proxy_v2_getLockedAssetTokenIDRaw G version proxyAddress =
     readProxy G version proxyAddress ''getLockedTokenIds'' [] (mapElems asRaw)"

section \<open>Distribution, wrapped locked tokens, wrapped EGLD\<close>

definition distribution_getCommunityDistributionRaw :: "gateway \<Rightarrow> jval res" where
  "distribution_getCommunityDistributionRaw G = 
     res_bind (getGenericData G distribution_views (configAddress G ''distributionAddress'') ''getLastCommunityDistributionAmountAndEpoch'' []) (\<lambda>r.
       res_bind (valueAt r 0 asRaw) (\<lambda>am. res_bind (valueAt r 1 asRaw) (\<lambda>ep. Inr (JObject [(''amount'', am), (''epoch'', ep)]))))"

definition distribution_communityDistribution :: "'c cache_service \<Rightarrow> gateway \<Rightarrow> 'c \<Rightarrow> jval res \<times> 'c" where
  "distribution_communityDistribution K G = GetOrSetCache K (historyTimestamp G) ''communityDistribution'' ContractStateTtl ''communityDistribution'' []
     (uncached (distribution_getCommunityDistributionRaw G))"

definition distribution_getDistributedLockedAssetsRaw :: "gateway \<Rightarrow> string \<Rightarrow> jval res" where
  "distribution_getDistributedLockedAssetsRaw G userAddress = readView G distribution_views (configAddress G ''distributionAddress'') ''calculateLockedAssets'' [Typed (AddressV userAddress)] asRaw"

definition distribution_distributedLockedAssets :: "'c cache_service \<Rightarrow> gateway \<Rightarrow> string \<Rightarrow> 'c \<Rightarrow> jval res \<times> 'c" where
  "distribution_distributedLockedAssets K G userAddress = GetOrSetCache K (historyTimestamp G) ''distributedLockedAssets'' ContractStateTtl ''distributedLockedAssets'' [KText userAddress]
     (uncached (distribution_getDistributedLockedAssetsRaw G userAddress))"

definition wrapper_wrappedTokenIdRaw :: "gateway \<Rightarrow> jval res" where
  "wrapper_wrappedTokenIdRaw G = readView G wrapper_views (configAddress G ''lockedTokenWrapper'') ''getWrappedTokenId'' [] asText"

definition wrapper_wrappedTokenId :: "'c cache_service \<Rightarrow> gateway \<Rightarrow> 'c \<Rightarrow> jval res \<times> 'c" where
  "wrapper_wrappedTokenId K G = GetOrSetCache K (historyTimestamp G) ''lockedTokenWrapper'' ContractInfoTtl ''wrappedTokenId'' []
     (uncached (wrapper_wrappedTokenIdRaw G))"

definition wrapper_energyFactoryAddressRaw :: "gateway \<Rightarrow> jval res" where
  "wrapper_energyFactoryAddressRaw G = readView G wrapper_views (configAddress G ''lockedTokenWrapper'') ''getEnergyFactoryAddress'' [] asBech32"

definition wrapper_energyFactoryAddress :: "'c cache_service \<Rightarrow> gateway \<Rightarrow> 'c \<Rightarrow> jval res \<times> 'c" where
  "wrapper_energyFactoryAddress K G = GetOrSetCache K (historyTimestamp G) ''lockedTokenWrapper'' ContractInfoTtl ''energyFactoryAddress'' []
     (uncached (wrapper_energyFactoryAddressRaw G))"

text \<open>
  The contract is asked, and a constant is returned: the hexadecimal bytes of an identifier. The contract of the wrapping is the one of shard 1.
\<close>

definition wrap_views :: views where
  "wrap_views = [
    (''getWrappedEgldTokenId'', [], [TokenIdentifierT])]"

definition wrap_getWrappedEgldTokenIDRaw :: "gateway \<Rightarrow> jval res" where
  "wrap_getWrappedEgldTokenIDRaw G =
     res_bind (getGenericData G wrap_views (configAddress G ''wrappingAddress.shardID-1'') ''getWrappedEgldTokenId'' [])
       (\<lambda>_. Inr (JText ''57434e45542d653433333434''))"

definition wrap_wrappedEgldTokenID :: "'c cache_service \<Rightarrow> gateway \<Rightarrow> 'c \<Rightarrow> jval res \<times> 'c" where
  "wrap_wrappedEgldTokenID K G = GetOrSetCache K (historyTimestamp G) ''wrap'' TokenTtl ''wrappedEgldTokenID'' []
     (uncached (wrap_getWrappedEgldTokenIDRaw G))"

section \<open>Writers\<close>

definition energy_setBaseAssetTokenID :: "'c cache_service \<Rightarrow> jval \<Rightarrow> 'c \<Rightarrow> string \<times> 'c" where
  "energy_setBaseAssetTokenID K v = setData K (getCacheKey ''energy'' [KText ''baseAssetTokenID'']) v TokenTtl"

definition energy_setLockOptions :: "'c cache_service \<Rightarrow> jval \<Rightarrow> 'c \<Rightarrow> string \<times> 'c" where
  "energy_setLockOptions K v = setData K (getCacheKey ''energy'' [KText ''lockOptions'']) v ContractStateTtl"

definition energy_setPauseState :: "'c cache_service \<Rightarrow> jval \<Rightarrow> 'c \<Rightarrow> string \<times> 'c" where
  "energy_setPauseState K v = setData K (getCacheKey ''energy'' [KText ''isPaused'']) v ContractStateTtl"

definition energy_setEnergyEntryForUser :: "'c cache_service \<Rightarrow> string \<Rightarrow> jval \<Rightarrow> 'c \<Rightarrow> string \<times> 'c" where
  "energy_setEnergyEntryForUser K userAddress v = setData K (getCacheKey ''energy'' [KText ''energyEntryForUser'', KText userAddress]) v (Minutes 1, None)"

definition simpleLock_setLockedTokenID :: "'c cache_service \<Rightarrow> string \<Rightarrow> jval \<Rightarrow> 'c \<Rightarrow> string \<times> 'c" where
  "simpleLock_setLockedTokenID K simpleLockAddress v = setData K (getCacheKey ''simpleLock'' [KText ''lockedTokenID'', KText simpleLockAddress]) v TokenTtl"

definition simpleLock_setLpProxyTokenID :: "'c cache_service \<Rightarrow> string \<Rightarrow> jval \<Rightarrow> 'c \<Rightarrow> string \<times> 'c" where
  "simpleLock_setLpProxyTokenID K simpleLockAddress v = setData K (getCacheKey ''simpleLock'' [KText ''lpProxyTokenID'', KText simpleLockAddress]) v TokenTtl"

definition unstake_setUnlockedTokensForUser :: "'c cache_service \<Rightarrow> string \<Rightarrow> jval \<Rightarrow> 'c \<Rightarrow> string \<times> 'c" where
  "unstake_setUnlockedTokensForUser K userAddress v = setData K (getCacheKey ''tokenUnstake'' [KText ''unlockedTokensForUser'', KText userAddress]) v ContractBalanceTtl"

definition metabonding_setLockedAssetTokenID :: "'c cache_service \<Rightarrow> jval \<Rightarrow> 'c \<Rightarrow> string \<times> 'c" where
  "metabonding_setLockedAssetTokenID K v = setData K (getCacheKey ''metabonding'' [KText ''lockedAssetTokenID'']) v TokenTtl"

definition metabonding_setTotalLockedAssetSupply :: "'c cache_service \<Rightarrow> jval \<Rightarrow> 'c \<Rightarrow> string \<times> 'c" where
  "metabonding_setTotalLockedAssetSupply K v = setData K (getCacheKey ''metabonding'' [KText ''totalLockedAssetSupply'']) v ContractStateTtl"

definition metabonding_setUserEntry :: "'c cache_service \<Rightarrow> string \<Rightarrow> jval \<Rightarrow> 'c \<Rightarrow> string \<times> 'c" where
  "metabonding_setUserEntry K userAddress v = setData K (getCacheKey ''metabonding'' [KText (''userEntry.'' @ userAddress)]) v ContractInfoTtl"

section \<open>What the readers return\<close>

lemmas lock_raw_defs = energy_getBaseAssetTokenIDRaw_def energy_getLockedTokenIDRaw_def energy_getLegacyLockedTokenIDRaw_def energy_getTokenUnstakeScAddressRaw_def energy_getEnergyAmountForUserRaw_def energy_getPenaltyAmount_def energy_isPausedRaw_def energy_getLockOptionsRaw_def simpleLock_getlockedTokenIDRaw_def simpleLock_getLpProxyTokenIDRaw_def simpleLock_getFarmProxyTokenIDRaw_def simpleLock_getIntermediatedPairsRaw_def simpleLock_getIntermediatedFarmsRaw_def unstake_getUnbondEpochsRaw_def unstake_getFeesBurnPercentageRaw_def unstake_feesCollectorAddressRaw_def unstake_getEnergyFactoryAddressRaw_def metabonding_getLockedAssetTokenIDRaw_def metabonding_getTotalLockedAssetSupplyRaw_def metabonding_getStakedAmountForUserRaw_def wrapper_wrappedTokenIdRaw_def wrapper_energyFactoryAddressRaw_def distribution_getDistributedLockedAssetsRaw_def

text \<open>
  On contracts that answer as their interface files say, the readers around locked tokens return a value of the kind
  they promise.
\<close>

theorem lock_readers_typed:
  assumes "gatewayAnswers G energy_views (configAddress G ''simpleLockEnergy'')" "gatewayAnswers G simple_lock_views simpleLockAddress" "gatewayAnswers G token_unstake_views (configAddress G ''tokenUnstake'')" "gatewayAnswers G metabonding_views (configAddress G ''metabondingStakingAddress'')" "gatewayAnswers G wrapper_views (configAddress G ''lockedTokenWrapper'')" "gatewayAnswers G distribution_views (configAddress G ''distributionAddress'')"
  shows "returns TextR (energy_getBaseAssetTokenIDRaw G) \<and>
    returns TextR (energy_getLockedTokenIDRaw G) \<and>
    returns TextR (energy_getLegacyLockedTokenIDRaw G) \<and>
    returns TextR (energy_getTokenUnstakeScAddressRaw G) \<and>
    returns AmountR (energy_getEnergyAmountForUserRaw G userAddress) \<and>
    returns AmountR (energy_getPenaltyAmount G tokenAmount prevLockEpochs epochsToReduce) \<and>
    returns BoolR (energy_isPausedRaw G) \<and>
    returns (ListR ObjectR) (energy_getLockOptionsRaw G) \<and>
    returns TextR (simpleLock_getlockedTokenIDRaw G simpleLockAddress) \<and>
    returns TextR (simpleLock_getLpProxyTokenIDRaw G simpleLockAddress) \<and>
    returns TextR (simpleLock_getFarmProxyTokenIDRaw G simpleLockAddress) \<and>
    returns (ListR TextR) (simpleLock_getIntermediatedPairsRaw G simpleLockAddress) \<and>
    returns (ListR TextR) (simpleLock_getIntermediatedFarmsRaw G simpleLockAddress) \<and>
    returns NumberR (unstake_getUnbondEpochsRaw G) \<and>
    returns NumberR (unstake_getFeesBurnPercentageRaw G) \<and>
    returns TextR (unstake_feesCollectorAddressRaw G) \<and>
    returns TextR (unstake_getEnergyFactoryAddressRaw G) \<and>
    returns TextR (metabonding_getLockedAssetTokenIDRaw G) \<and>
    returns AmountR (metabonding_getTotalLockedAssetSupplyRaw G) \<and>
    returns AmountR (metabonding_getStakedAmountForUserRaw G userAddress) \<and>
    returns TextR (wrapper_wrappedTokenIdRaw G) \<and>
    returns TextR (wrapper_energyFactoryAddressRaw G) \<and>
    returns BigR (distribution_getDistributedLockedAssetsRaw G userAddress)"
  unfolding lock_raw_defs
  apply (intro conjI)
  subgoal by (rule readView_returns [OF assms(1)]) (simp add: energy_views_def decoding)
  subgoal by (rule readView_returns [OF assms(1)]) (simp add: energy_views_def decoding)
  subgoal by (rule readView_returns [OF assms(1)]) (simp add: energy_views_def decoding)
  subgoal by (rule readView_returns [OF assms(1)]) (simp add: energy_views_def decoding)
  subgoal by (rule readView_returns [OF assms(1)]) (simp add: energy_views_def decoding)
  subgoal by (rule readView_returns [OF assms(1)]) (simp add: energy_views_def decoding)
  subgoal by (rule readView_returns [OF assms(1)]) (simp add: energy_views_def decoding)
  subgoal by (rule readView_returns [OF assms(1)]) (simp add: energy_views_def decoding)
  subgoal by (rule readView_returns [OF assms(2)]) (simp add: simple_lock_views_def decoding)
  subgoal by (rule readView_returns [OF assms(2)]) (simp add: simple_lock_views_def decoding)
  subgoal by (rule readView_returns [OF assms(2)]) (simp add: simple_lock_views_def decoding)
  subgoal by (rule readView_returns [OF assms(2)]) (simp add: simple_lock_views_def decoding)
  subgoal by (rule readView_returns [OF assms(2)]) (simp add: simple_lock_views_def decoding)
  subgoal by (rule readView_returns [OF assms(3)]) (simp add: token_unstake_views_def decoding)
  subgoal by (rule readView_returns [OF assms(3)]) (simp add: token_unstake_views_def decoding)
  subgoal by (rule readView_returns [OF assms(3)]) (simp add: token_unstake_views_def decoding)
  subgoal by (rule readView_returns [OF assms(3)]) (simp add: token_unstake_views_def decoding)
  subgoal by (rule readView_returns [OF assms(4)]) (simp add: metabonding_views_def decoding)
  subgoal by (rule readView_returns [OF assms(4)]) (simp add: metabonding_views_def decoding)
  subgoal by (rule readView_returns [OF assms(4)]) (simp add: metabonding_views_def decoding)
  subgoal by (rule readView_returns [OF assms(5)]) (simp add: wrapper_views_def decoding)
  subgoal by (rule readView_returns [OF assms(5)]) (simp add: wrapper_views_def decoding)
  subgoal by (rule readView_returns [OF assms(6)]) (simp add: distribution_views_def decoding)
  done

lemmas lock_reader_defs = energy_baseAssetTokenID_def energy_lockOptions_def energy_isPaused_def energy_energyEntryForUser_def simpleLock_lockedTokenID_def simpleLock_lpProxyTokenID_def unstake_unlockedTokensForUser_def metabonding_lockedAssetTokenID_def metabonding_totalLockedAssetSupply_def metabonding_userEntry_def

lemmas lock_writer_defs = energy_setBaseAssetTokenID_def energy_setLockOptions_def energy_setPauseState_def energy_setEnergyEntryForUser_def simpleLock_setLockedTokenID_def simpleLock_setLpProxyTokenID_def unstake_setUnlockedTokensForUser_def metabonding_setLockedAssetTokenID_def metabonding_setTotalLockedAssetSupply_def metabonding_setUserEntry_def

text \<open>
  Every writer of the energy factory, simple lock, unstaking and metabonding reaches the reader of the same name.
\<close>

theorem lock_writers_reach_readers:
  assumes "cache_lib K" "historyTimestamp G = None" "storable v"
  shows "reaches (energy_setBaseAssetTokenID K v) (energy_baseAssetTokenID K G) v \<and>
    reaches (energy_setLockOptions K v) (energy_lockOptions K G) v \<and>
    reaches (energy_setPauseState K v) (energy_isPaused K G) v \<and>
    reaches (energy_setEnergyEntryForUser K userAddress v) (energy_energyEntryForUser K G energyJson userAddress) v \<and>
    reaches (simpleLock_setLockedTokenID K simpleLockAddress v) (simpleLock_lockedTokenID K G simpleLockAddress) v \<and>
    reaches (simpleLock_setLpProxyTokenID K simpleLockAddress v) (simpleLock_lpProxyTokenID K G simpleLockAddress) v \<and>
    reaches (unstake_setUnlockedTokensForUser K userAddress v) (unstake_unlockedTokensForUser K G paymentJson userAddress) v \<and>
    reaches (metabonding_setLockedAssetTokenID K v) (metabonding_lockedAssetTokenID K G) v \<and>
    reaches (metabonding_setTotalLockedAssetSupply K v) (metabonding_totalLockedAssetSupply K G) v \<and>
    reaches (metabonding_setUserEntry K userAddress v) (metabonding_userEntry K G userAddress) v"
  unfolding lock_writer_defs lock_reader_defs getCacheKey_def assms(2)
  by (intro conjI; (rule cache_lib.writer_reaches [OF assms(1,3) refl] | rule cache_lib.writer_reaches [OF assms(1,3)]);
      simp add: generateCacheKeyFromParams_def butlast_append)

text \<open>The constant is not an identifier but the hexadecimal bytes of one.\<close>

lemma wrapped_egld_is_a_constant:
  assumes "gatewayAnswers G wrap_views (configAddress G ''wrappingAddress.shardID-1'')"
  shows "wrap_getWrappedEgldTokenIDRaw G = Inr (JText ''57434e45542d653433333434'')"
proof -
  have "\<exists>r. vmQuery G (configAddress G ''wrappingAddress.shardID-1'') ''getWrappedEgldTokenId'' [] = Inr r"
    using assms by (auto simp: gatewayAnswers_def wrap_views_def)
  then show ?thesis by (auto simp: wrap_getWrappedEgldTokenIDRaw_def getGenericData_def wrap_views_def)
qed

end
