(* ===== verification/RouterReaders.thy ===== *)
theory RouterReaders
  imports FarmReaders
begin

text \<open>
  The readers of the router, of the weekly rewards and the week clock of farms and of the fees collector, and of the fees collector, the
  cached computations on them, and the writers of their entries (\<open>src/modules/router/services\<close>,
  \<open>src/submodules/weekly-rewards-splitting/services\<close>, \<open>src/submodules/week-timekeeping/services\<close>,
  \<open>src/modules/fees-collector/services\<close>), with the writers of token entries (\<open>src/modules/tokens/services/token.setter.service.ts\<close>).
\<close>

section \<open>The interfaces\<close>

definition router_views :: views where
  "router_views = [
    (''getPairCreationEnabled'', [], [BoolT]),
    (''getState'', [], [BoolT]),
    (''getOwner'', [], [AddressT]),
    (''getAllPairsManagedAddresses'', [], [ListT AddressT]),
    (''getAllPairTokens'', [], [ListT (StructT ''PairTokens'' [(''first_token_id'', TokenIdentifierT), (''second_token_id'', TokenIdentifierT)])]),
    (''getAllPairContractMetadata'', [], [ListT (StructT ''PairContractMetadata'' [(''first_token_id'', TokenIdentifierT), (''second_token_id'', TokenIdentifierT), (''address'', AddressT)])]),
    (''getPairTemplateAddress'', [], [AddressT]),
    (''getTemporaryOwnerPeriod'', [], [UintT 64]),
    (''getEnableSwapByUserConfig'', [TokenIdentifierT], [StructT ''EnableSwapByUserConfig'' [(''locked_token_id'', TokenIdentifierT), (''min_locked_token_value'', BigUintT), (''min_lock_period_epochs'', UintT 64)]]),
    (''getCommonTokensForUserPairs'', [], [ListT TokenIdentifierT])]"

definition fees_views :: views where
  "fees_views = [
    (''getLockedTokenId'', [], [TokenIdentifierT]),
    (''getAllTokens'', [], [ListT TokenIdentifierT]),
    (''getAllKnownContracts'', [], [ListT AddressT]),
    (''getLastActiveWeekForUser'', [AddressT], [UintT 32]),
    (''getUserEnergyForWeek'', [AddressT, UintT 32], [OptionT (StructT ''Energy'' [(''amount'', BigIntT), (''last_update_epoch'', UintT 64), (''total_locked_tokens'', BigUintT)])]),
    (''getLastGlobalUpdateWeek'', [], [UintT 32]),
    (''getTotalRewardsForWeek'', [UintT 32], [ListT (StructT ''EsdtTokenPayment'' [(''token_identifier'', TokenIdentifierT), (''token_nonce'', UintT 64), (''amount'', BigUintT)])]),
    (''getTotalEnergyForWeek'', [UintT 32], [BigUintT]),
    (''getTotalLockedTokensForWeek'', [UintT 32], [BigUintT]),
    (''getCurrentClaimProgress'', [AddressT], [StructT ''ClaimProgress'' [(''energy'', StructT ''Energy'' [(''amount'', BigIntT), (''last_update_epoch'', UintT 64), (''total_locked_tokens'', BigUintT)]), (''week'', UintT 32)]]),
    (''getAccumulatedFees'', [UintT 32, TokenIdentifierT], [BigUintT]),
    (''getLockedTokensPerBlock'', [], [BigUintT]),
    (''getLockingScAddress'', [], [AddressT]),
    (''getLockEpochs'', [], [UintT 64]),
    (''getEnergyFactoryAddress'', [], [AddressT]),
    (''getCurrentWeek'', [], [UintT 32]),
    (''getFirstWeekStartEpoch'', [], [UintT 64]),
    (''isPaused'', [], [BoolT])]"

section \<open>The router\<close>

definition router_getAllPairsAddressRaw :: "gateway \<Rightarrow> jval res" where
  "router_getAllPairsAddressRaw G = 
     readView G router_views (configAddress G ''routerAddress'') ''getAllPairsManagedAddresses'' [] (mapElems asText)"

definition router_pairsAddress :: "'c cache_service \<Rightarrow> gateway \<Rightarrow> 'c \<Rightarrow> jval res \<times> 'c" where
  "router_pairsAddress K G = GetOrSetCache K (historyTimestamp G) ''router'' (Minutes 1, None) ''pairsAddress'' []
     (uncached (router_getAllPairsAddressRaw G))"

definition router_getPairsMetadataRaw :: "gateway \<Rightarrow> jval res" where
  "router_getPairsMetadataRaw G = 
     readView G router_views (configAddress G ''routerAddress'') ''getAllPairContractMetadata'' [] (mapElems (newObject
       [(''firstTokenID'', via ''first_token_id'' asText), (''secondTokenID'', via ''second_token_id'' asText), (''address'', via ''address'' asText)]))"

definition router_pairsMetadata :: "'c cache_service \<Rightarrow> gateway \<Rightarrow> 'c \<Rightarrow> jval res \<times> 'c" where
  "router_pairsMetadata K G = GetOrSetCache K (historyTimestamp G) ''router'' (Minutes 1, None) ''pairsMetadata'' []
     (uncached (router_getPairsMetadataRaw G))"

definition router_getPairCreationEnabledRaw :: "gateway \<Rightarrow> jval res" where
  "router_getPairCreationEnabledRaw G = readView G router_views (configAddress G ''routerAddress'') ''getPairCreationEnabled'' [] asRaw"

definition router_pairCreationEnabled :: "'c cache_service \<Rightarrow> gateway \<Rightarrow> 'c \<Rightarrow> jval res \<times> 'c" where
  "router_pairCreationEnabled K G = GetOrSetCache K (historyTimestamp G) ''router'' (Hours 1, None) ''pairCreationEnabled'' []
     (uncached (router_getPairCreationEnabledRaw G))"

definition router_getStateRaw :: "gateway \<Rightarrow> jval res" where
  "router_getStateRaw G = readView G router_views (configAddress G ''routerAddress'') ''getState'' [] asRaw"

definition router_pairState :: "'c cache_service \<Rightarrow> gateway \<Rightarrow> 'c \<Rightarrow> jval res \<times> 'c" where
  "router_pairState K G = GetOrSetCache K (historyTimestamp G) ''router'' (Hours 1, None) ''state'' []
     (uncached (router_getStateRaw G))"

definition router_getOwnerRaw :: "gateway \<Rightarrow> jval res" where
  "router_getOwnerRaw G = readView G router_views (configAddress G ''routerAddress'') ''getOwner'' [] asBech32"

definition router_owner :: "'c cache_service \<Rightarrow> gateway \<Rightarrow> 'c \<Rightarrow> jval res \<times> 'c" where
  "router_owner K G = GetOrSetCache K (historyTimestamp G) ''router'' (Hours 1, None) ''owner'' []
     (uncached (router_getOwnerRaw G))"

definition router_getAllPairTokensRaw :: "gateway \<Rightarrow> jval res" where
  "router_getAllPairTokensRaw G = 
     readView G router_views (configAddress G ''routerAddress'') ''getAllPairTokens'' [] (mapElems (newObject
       [(''firstTokenID'', via ''first_token_id'' asText), (''secondTokenID'', via ''second_token_id'' asText)]))"

definition router_allPairTokens :: "'c cache_service \<Rightarrow> gateway \<Rightarrow> 'c \<Rightarrow> jval res \<times> 'c" where
  "router_allPairTokens K G = GetOrSetCache K (historyTimestamp G) ''router'' (Hours 1, None) ''allPairTokens'' []
     (uncached (router_getAllPairTokensRaw G))"

definition router_getPairTemplateAddressRaw :: "gateway \<Rightarrow> jval res" where
  "router_getPairTemplateAddressRaw G = readView G router_views (configAddress G ''routerAddress'') ''getPairTemplateAddress'' [] asBech32"

definition router_pairTemplateAddress :: "'c cache_service \<Rightarrow> gateway \<Rightarrow> 'c \<Rightarrow> jval res \<times> 'c" where
  "router_pairTemplateAddress K G = GetOrSetCache K (historyTimestamp G) ''router'' (Hours 1, None) ''pairTemplateAddress'' []
     (uncached (router_getPairTemplateAddressRaw G))"

definition router_getTemporaryOwnerPeriodRaw :: "gateway \<Rightarrow> jval res" where
  "router_getTemporaryOwnerPeriodRaw G = readView G router_views (configAddress G ''routerAddress'') ''getTemporaryOwnerPeriod'' [] asText"

definition router_temporaryOwnerPeriod :: "'c cache_service \<Rightarrow> gateway \<Rightarrow> 'c \<Rightarrow> jval res \<times> 'c" where
  "router_temporaryOwnerPeriod K G = GetOrSetCache K (historyTimestamp G) ''router'' (Minutes 10, None) ''temporaryOwnerPeriod'' []
     (uncached (router_getTemporaryOwnerPeriodRaw G))"

text \<open>\<open>roundedSwapEnable\<close>: the rounding of the configuration per token. The amount sum is one of \<open>bignumber.js\<close>.\<close>

definition router_getEnableSwapByUserConfigRaw :: "gateway \<Rightarrow> bignumber \<Rightarrow> (string \<Rightarrow> bn) \<Rightarrow> string \<Rightarrow> jval res" where
  "router_getEnableSwapByUserConfigRaw G B roundedSwapEnable token =
     res_bind (getGenericData G router_views (configAddress G ''routerAddress'') ''getEnableSwapByUserConfig'' [Typed (TokenIdentifierV token)]) (\<lambda>r.
       if returnCode r = UserError \<and> returnMessage r = ''No config set'' then Inr JUndefined
       else res_bind (firstValue r) (newObject
         [(''lockedTokenID'', via ''locked_token_id'' asRaw), (''commonTokenID'', \<lambda>_. Inr (JText token)),
          (''minLockedTokenValue'', via ''min_locked_token_value'' (\<lambda>v. res_bind (asFixed v) (\<lambda>j. case j of
              JAmount n \<Rightarrow> Inr (JAmount (bn_plus B n (roundedSwapEnable token))) | _ \<Rightarrow> Inl TypeError))),
          (''minLockPeriodEpochs'', via ''min_lock_period_epochs'' asNumber)]))"

definition router_enableSwapByUserConfig :: "'c cache_service \<Rightarrow> gateway \<Rightarrow> bignumber \<Rightarrow> (string \<Rightarrow> bn) \<Rightarrow> string \<Rightarrow> 'c \<Rightarrow> jval res \<times> 'c" where
  "router_enableSwapByUserConfig K G B roundedSwapEnable token =
     GetOrSetCache K (historyTimestamp G) ''router'' (Hours 1, None) ''enableSwapByUserConfig'' [KText token]
       (uncached (router_getEnableSwapByUserConfigRaw G B roundedSwapEnable token))"

definition router_getCommonTokensForUserPairsRaw :: "gateway \<Rightarrow> jval res" where
  "router_getCommonTokensForUserPairsRaw G = 
     readView G router_views (configAddress G ''routerAddress'') ''getCommonTokensForUserPairs'' [] asRaw"

definition router_commonTokensForUserPairs :: "'c cache_service \<Rightarrow> gateway \<Rightarrow> 'c \<Rightarrow> jval res \<times> 'c" where
  "router_commonTokensForUserPairs K G = GetOrSetCache K (historyTimestamp G) ''router'' (Hours 1, None) ''commonTokensForUserPairs'' []
     (uncached (router_getCommonTokensForUserPairsRaw G))"

definition router_totalLockedValueUSD :: "'c cache_service \<Rightarrow> gateway \<Rightarrow> ('c \<Rightarrow> jval res \<times> 'c) \<Rightarrow> 'c \<Rightarrow> jval res \<times> 'c" where
  "router_totalLockedValueUSD K G compute = GetOrSetCache K (historyTimestamp G) ''router'' (Minutes 1, None) ''totalLockedValueUSD'' [] compute"

definition router_totalVolumeUSD :: "'c cache_service \<Rightarrow> gateway \<Rightarrow> ('c \<Rightarrow> jval res \<times> 'c) \<Rightarrow> string \<Rightarrow> 'c \<Rightarrow> jval res \<times> 'c" where
  "router_totalVolumeUSD K G compute tm = GetOrSetCache K (historyTimestamp G) ''router'' (Minutes 5, None) ''totalVolumeUSD'' [KText tm] compute"

definition router_totalFeesUSD :: "'c cache_service \<Rightarrow> gateway \<Rightarrow> ('c \<Rightarrow> jval res \<times> 'c) \<Rightarrow> string \<Rightarrow> 'c \<Rightarrow> jval res \<times> 'c" where
  "router_totalFeesUSD K G compute tm = GetOrSetCache K (historyTimestamp G) ''router'' (Minutes 5, None) ''totalFeesUSD'' [KText tm] compute"

definition router_totalTxCount :: "'c cache_service \<Rightarrow> gateway \<Rightarrow> ('c \<Rightarrow> jval res \<times> 'c) \<Rightarrow> 'c \<Rightarrow> jval res \<times> 'c" where
  "router_totalTxCount K G compute = GetOrSetCache K (historyTimestamp G) ''router'' (Minutes 1, None) ''totalTxCount'' [] compute"

definition router_pairCount :: "'c cache_service \<Rightarrow> gateway \<Rightarrow> ('c \<Rightarrow> jval res \<times> 'c) \<Rightarrow> 'c \<Rightarrow> jval res \<times> 'c" where
  "router_pairCount K G compute = GetOrSetCache K (historyTimestamp G) ''router'' (Hours 1, None) ''pairCount'' [] compute"

section \<open>Weeks\<close>

text \<open>\<open>getContractHandler\<close> of both services: the fees collector, or a farm.\<close>

definition readWeekly :: "gateway \<Rightarrow> string \<Rightarrow> string \<Rightarrow> query_arg list \<Rightarrow> (abi_value \<Rightarrow> 'a res) \<Rightarrow> 'a res" where
  "readWeekly G sc f args decode =
     (if configAddress G ''feesCollector'' = sc then readView G fees_views sc f args decode else readFarm G sc f args decode)"

definition weeklyReply :: "gateway \<Rightarrow> string \<Rightarrow> string \<Rightarrow> query_arg list \<Rightarrow> vm_reply res" where
  "weeklyReply G sc f args =
     (if configAddress G ''feesCollector'' = sc then getGenericData G fees_views sc f args
      else case farmContract G sc of None \<Rightarrow> Inl TypeError | Some vw \<Rightarrow> getGenericData G vw sc f args)"

definition week_getCurrentWeekRaw :: "gateway \<Rightarrow> string \<Rightarrow> jval res" where
  "week_getCurrentWeekRaw G sc = readWeekly G sc ''getCurrentWeek'' [] asNumber"

definition week_currentWeek :: "'c cache_service \<Rightarrow> gateway \<Rightarrow> string \<Rightarrow> 'c \<Rightarrow> jval res \<times> 'c" where
  "week_currentWeek K G sc = GetOrSetCache K (historyTimestamp G) ''weekTimekeeping'' ContractStateTtl ''currentWeek'' [KText sc]
     (uncached (week_getCurrentWeekRaw G sc))"

definition week_firstWeekStartEpochRaw :: "gateway \<Rightarrow> string \<Rightarrow> jval res" where
  "week_firstWeekStartEpochRaw G sc = readWeekly G sc ''getFirstWeekStartEpoch'' [] asNumber"

definition week_firstWeekStartEpoch :: "'c cache_service \<Rightarrow> gateway \<Rightarrow> string \<Rightarrow> 'c \<Rightarrow> jval res \<times> 'c" where
  "week_firstWeekStartEpoch K G sc = GetOrSetCache K (historyTimestamp G) ''weekTimekeeping'' ContractStateTtl ''firstWeekStartEpoch'' [KText sc]
     (uncached (week_firstWeekStartEpochRaw G sc))"

section \<open>Weekly rewards\<close>

text \<open>
  The energy of a decoded entry (\<open>Energy.fromDecodedAttributes (v).toJSON ()\<close> of \<open>@multiversx/sdk-exchange\<close>) is the
  argument \<open>energyOf\<close>; it is cached as an object.
\<close>

record energy_json =
  enAmount :: bn
  enLastUpdateEpoch :: int
  enTotalLockedTokens :: bn

definition no_energy :: energy_json where
  "no_energy = \<lparr>enAmount = Fin 0, enLastUpdateEpoch = 0, enTotalLockedTokens = Fin 0\<rparr>"

definition energyObject :: "energy_json \<Rightarrow> jval" where
  "energyObject e = JObject [(''amount'', JAmount (enAmount e)), (''lastUpdateEpoch'', JNumber (jint (enLastUpdateEpoch e))),
     (''totalLockedTokens'', JAmount (enTotalLockedTokens e))]"

text \<open>The progress of a claim: the energy and the week.\<close>

definition weekly_currentClaimProgressRaw ::
  "gateway \<Rightarrow> (abi_value \<Rightarrow> energy_json res) \<Rightarrow> string \<Rightarrow> string \<Rightarrow> (energy_json \<times> jval) res" where
  "weekly_currentClaimProgressRaw G energyOf sc userAddress =
     res_bind (weeklyReply G sc ''getCurrentClaimProgress'' [Typed (AddressV userAddress)]) (\<lambda>r.
       if returnCode r = UserError \<and> returnMessage r = INPUT_TOO_SHORT then Inr (no_energy, JNumber (JNum 0))
       else res_bind (firstValue r) (\<lambda>v.
         res_bind (fieldOf ''energy'' v) (\<lambda>en. res_bind (via ''week'' asNumber v) (\<lambda>wk.
           res_bind (energyOf en) (\<lambda>e. Inr (e, wk))))))"

text \<open>The energy of a past progress at the end of a later week, decayed by the locked tokens per epoch.\<close>

definition decayTo :: "bignumber \<Rightarrow> int \<Rightarrow> energy_json \<Rightarrow> energy_json" where
  "decayTo B endEpochForWeek e =
     (if enLastUpdateEpoch e < endEpochForWeek
      then e\<lparr>enAmount := bn_minus B (enAmount e)
               (bn_times B (enTotalLockedTokens e) (bn_number B (of_int (endEpochForWeek - enLastUpdateEpoch e)))),
             enLastUpdateEpoch := endEpochForWeek\<rparr>
      else e)"

text \<open>
  \<open>progress\<close> is what the cached \<open>currentClaimProgress\<close> of the user returns, \<open>endEpochForWeek\<close> the end of the week.
\<close>

definition weekly_userEnergyForWeekRaw ::
  "gateway \<Rightarrow> bignumber \<Rightarrow> (abi_value \<Rightarrow> energy_json res) \<Rightarrow> int \<Rightarrow> (energy_json \<times> jval) res \<Rightarrow> string \<Rightarrow> string \<Rightarrow> int \<Rightarrow>
   energy_json res" where
  "weekly_userEnergyForWeekRaw G B energyOf endEpochForWeek progress sc userAddress wk =
     res_bind (weeklyReply G sc ''getUserEnergyForWeek'' [Typed (AddressV userAddress), Typed (U32V wk)]) (\<lambda>r.
       if (returnCode r = UserError \<and> returnMessage r = INPUT_TOO_SHORT) \<or> replyValues r = [] \<or> hd (replyValues r) = VNull
       then res_bind progress (\<lambda>(e, week). if week = JNumber (JNum 0) then Inr no_energy else Inr (decayTo B endEpochForWeek e))
       else energyOf (hd (replyValues r)))"

definition weekly_currentClaimProgress :: "'c cache_service \<Rightarrow> gateway \<Rightarrow> (abi_value \<Rightarrow> energy_json res) \<Rightarrow> string \<Rightarrow> string \<Rightarrow> 'c \<Rightarrow> jval res \<times> 'c" where
  "weekly_currentClaimProgress K G energyOf sc userAddress =
     GetOrSetCache K (historyTimestamp G) ''weeklyRewards'' ContractBalanceTtl ''currentClaimProgress'' [KText sc, KText userAddress]
       (uncached (res_bind (weekly_currentClaimProgressRaw G energyOf sc userAddress) (\<lambda>(e, week). Inr (JObject [(''energy'', energyObject e), (''week'', week)]))))"

definition weekly_userEnergyForWeek ::
  "'c cache_service \<Rightarrow> gateway \<Rightarrow> bignumber \<Rightarrow> (abi_value \<Rightarrow> energy_json res) \<Rightarrow> int \<Rightarrow> (energy_json \<times> jval) res \<Rightarrow> string \<Rightarrow> string \<Rightarrow> int \<Rightarrow>
   'c \<Rightarrow> jval res \<times> 'c" where
  "weekly_userEnergyForWeek K G B energyOf endEpochForWeek progress sc userAddress wk =
     GetOrSetCache K (historyTimestamp G) ''weeklyRewards'' ContractBalanceTtl ''userEnergyForWeek'' [KText sc, KText userAddress, KInt wk]
       (uncached (res_bind (weekly_userEnergyForWeekRaw G B energyOf endEpochForWeek progress sc userAddress wk) (\<lambda>e. Inr (energyObject e))))"

definition weekly_lastActiveWeekForUserRaw :: "gateway \<Rightarrow> string \<Rightarrow> string \<Rightarrow> jval res" where
  "weekly_lastActiveWeekForUserRaw G sc userAddress = readWeekly G sc ''getLastActiveWeekForUser'' [Typed (AddressV userAddress)] asNumber"

definition weekly_lastActiveWeekForUser :: "'c cache_service \<Rightarrow> gateway \<Rightarrow> string \<Rightarrow> string \<Rightarrow> 'c \<Rightarrow> jval res \<times> 'c" where
  "weekly_lastActiveWeekForUser K G sc userAddress = GetOrSetCache K (historyTimestamp G) ''weeklyRewards'' ContractBalanceTtl ''lastActiveWeekForUser'' [KText sc, KText userAddress]
     (uncached (weekly_lastActiveWeekForUserRaw G sc userAddress))"

definition weekly_lastGlobalUpdateWeekRaw :: "gateway \<Rightarrow> string \<Rightarrow> jval res" where
  "weekly_lastGlobalUpdateWeekRaw G sc = readWeekly G sc ''getLastGlobalUpdateWeek'' [] asNumber"

definition weekly_lastGlobalUpdateWeek :: "'c cache_service \<Rightarrow> gateway \<Rightarrow> string \<Rightarrow> 'c \<Rightarrow> jval res \<times> 'c" where
  "weekly_lastGlobalUpdateWeek K G sc = GetOrSetCache K (historyTimestamp G) ''weeklyRewards'' ContractStateTtl ''lastGlobalUpdateWeek'' [KText sc]
     (uncached (weekly_lastGlobalUpdateWeekRaw G sc))"

definition weekly_totalRewardsForWeekRaw :: "gateway \<Rightarrow> string \<Rightarrow> int \<Rightarrow> jval res" where
  "weekly_totalRewardsForWeekRaw G sc wk = 
     readWeekly G sc ''getTotalRewardsForWeek'' [Typed (U32V wk)] (mapElems (newObject
       [(''tokenType'', via ''token_nonce'' (\<lambda>n. res_bind (asNumber n) (\<lambda>j. Inr (JNumber (if j \<noteq> JNumber (JNum 0) then JNum 3 else JNum 1))))),
        (''tokenID'', via ''token_identifier'' asText), (''nonce'', via ''token_nonce'' asNumber), (''amount'', via ''amount'' asFixed)]))"

definition weekly_totalRewardsForWeek :: "'c cache_service \<Rightarrow> gateway \<Rightarrow> string \<Rightarrow> int \<Rightarrow> 'c \<Rightarrow> jval res \<times> 'c" where
  "weekly_totalRewardsForWeek K G sc wk = GetOrSetCache K (historyTimestamp G) ''weeklyRewards'' ContractStateTtl ''totalRewardsForWeek'' [KText sc, KInt wk]
     (uncached (weekly_totalRewardsForWeekRaw G sc wk))"

definition weekly_totalEnergyForWeekRaw :: "gateway \<Rightarrow> string \<Rightarrow> int \<Rightarrow> jval res" where
  "weekly_totalEnergyForWeekRaw G sc wk = readWeekly G sc ''getTotalEnergyForWeek'' [Typed (U32V wk)] asFixed"

definition weekly_totalEnergyForWeek :: "'c cache_service \<Rightarrow> gateway \<Rightarrow> string \<Rightarrow> int \<Rightarrow> 'c \<Rightarrow> jval res \<times> 'c" where
  "weekly_totalEnergyForWeek K G sc wk = GetOrSetCache K (historyTimestamp G) ''weeklyRewards'' ContractStateTtl ''totalEnergyForWeek'' [KText sc, KInt wk]
     (uncached (weekly_totalEnergyForWeekRaw G sc wk))"

definition weekly_totalLockedTokensForWeekRaw :: "gateway \<Rightarrow> string \<Rightarrow> int \<Rightarrow> jval res" where
  "weekly_totalLockedTokensForWeekRaw G sc wk = readWeekly G sc ''getTotalLockedTokensForWeek'' [Typed (U32V wk)] asFixed"

definition weekly_totalLockedTokensForWeek :: "'c cache_service \<Rightarrow> gateway \<Rightarrow> string \<Rightarrow> int \<Rightarrow> 'c \<Rightarrow> jval res \<times> 'c" where
  "weekly_totalLockedTokensForWeek K G sc wk = GetOrSetCache K (historyTimestamp G) ''weeklyRewards'' ContractStateTtl ''totalLockedTokensForWeek'' [KText sc, KInt wk]
     (uncached (weekly_totalLockedTokensForWeekRaw G sc wk))"

section \<open>The fees collector\<close>

definition fees_getAccumulatedFeesRaw :: "gateway \<Rightarrow> int \<Rightarrow> string \<Rightarrow> jval res" where
  "fees_getAccumulatedFeesRaw G wk token = readView G fees_views (configAddress G ''feesCollector'') ''getAccumulatedFees'' [Typed (U32V wk), Typed (TokenIdentifierV token)] asFixed"

definition fees_accumulatedFees :: "'c cache_service \<Rightarrow> gateway \<Rightarrow> int \<Rightarrow> string \<Rightarrow> 'c \<Rightarrow> jval res \<times> 'c" where
  "fees_accumulatedFees K G wk token = GetOrSetCache K (historyTimestamp G) ''feesCollector'' ContractBalanceTtl ''accumulatedFees'' [KInt wk, KText token]
     (uncached (fees_getAccumulatedFeesRaw G wk token))"

definition fees_getLockedTokenIDRaw :: "gateway \<Rightarrow> jval res" where
  "fees_getLockedTokenIDRaw G = readView G fees_views (configAddress G ''feesCollector'') ''getLockedTokenId'' [] asRaw"

definition fees_lockedTokenID :: "'c cache_service \<Rightarrow> gateway \<Rightarrow> 'c \<Rightarrow> jval res \<times> 'c" where
  "fees_lockedTokenID K G = GetOrSetCache K (historyTimestamp G) ''feesCollector'' ContractInfoTtl ''lockedTokenID'' []
     (uncached (fees_getLockedTokenIDRaw G))"

definition fees_getLockedTokensPerBlockRaw :: "gateway \<Rightarrow> jval res" where
  "fees_getLockedTokensPerBlockRaw G = readView G fees_views (configAddress G ''feesCollector'') ''getLockedTokensPerBlock'' [] asFixed"

definition fees_lockedTokensPerBlock :: "'c cache_service \<Rightarrow> gateway \<Rightarrow> 'c \<Rightarrow> jval res \<times> 'c" where
  "fees_lockedTokensPerBlock K G = GetOrSetCache K (historyTimestamp G) ''feesCollector'' ContractInfoTtl ''lockedTokensPerBlock'' []
     (uncached (fees_getLockedTokensPerBlockRaw G))"

definition fees_getAllTokensRaw :: "gateway \<Rightarrow> jval res" where
  "fees_getAllTokensRaw G = readView G fees_views (configAddress G ''feesCollector'') ''getAllTokens'' [] asRaw"

definition fees_allTokens :: "'c cache_service \<Rightarrow> gateway \<Rightarrow> 'c \<Rightarrow> jval res \<times> 'c" where
  "fees_allTokens K G = GetOrSetCache K (historyTimestamp G) ''feesCollector'' ContractInfoTtl ''allTokens'' []
     (uncached (fees_getAllTokensRaw G))"

definition fees_getKnownContractsRaw :: "gateway \<Rightarrow> jval res" where
  "fees_getKnownContractsRaw G = readView G fees_views (configAddress G ''feesCollector'') ''getAllKnownContracts'' [] (mapElems asBech32)"

definition fees_knownContracts :: "'c cache_service \<Rightarrow> gateway \<Rightarrow> 'c \<Rightarrow> jval res \<times> 'c" where
  "fees_knownContracts K G = GetOrSetCache K (historyTimestamp G) ''feesCollector'' ContractInfoTtl ''knownContracts'' []
     (uncached (fees_getKnownContractsRaw G))"

definition fees_userRewardsForWeek :: "'c cache_service \<Rightarrow> gateway \<Rightarrow> ('c \<Rightarrow> jval res \<times> 'c) \<Rightarrow> string \<Rightarrow> string \<Rightarrow> int \<Rightarrow> 'c \<Rightarrow> jval res \<times> 'c" where
  "fees_userRewardsForWeek K G compute sc userAddress wk = GetOrSetCache K (historyTimestamp G) ''feesCollector'' ContractBalanceTtl ''userRewardsForWeek'' [KText sc, KText userAddress, KInt wk] compute"

section \<open>Writers\<close>

definition router_setAllPairsAddress :: "'c cache_service \<Rightarrow> jval \<Rightarrow> 'c \<Rightarrow> string \<times> 'c" where
  "router_setAllPairsAddress K v = setData K (getCacheKey ''router'' [KText ''pairsAddress'']) v (Minutes 1, None)"

definition router_setPairsMetadata :: "'c cache_service \<Rightarrow> jval \<Rightarrow> 'c \<Rightarrow> string \<times> 'c" where
  "router_setPairsMetadata K v = setData K (getCacheKey ''router'' [KText ''pairsMetadata'']) v (Minutes 1, None)"

definition router_setAllPairTokens :: "'c cache_service \<Rightarrow> jval \<Rightarrow> 'c \<Rightarrow> string \<times> 'c" where
  "router_setAllPairTokens K v = setData K (getCacheKey ''router'' [KText ''pairsTokens'']) v (Minutes 1, None)"

definition router_setTotalLockedValueUSD :: "'c cache_service \<Rightarrow> jval \<Rightarrow> 'c \<Rightarrow> string \<times> 'c" where
  "router_setTotalLockedValueUSD K v = setData K (getCacheKey ''router'' [KText ''totalLockedValueUSD'']) v (Minutes 1, None)"

definition router_setTotalVolumeUSD :: "'c cache_service \<Rightarrow> string \<Rightarrow> jval \<Rightarrow> 'c \<Rightarrow> string \<times> 'c" where
  "router_setTotalVolumeUSD K tm v = setData K (getCacheKey ''router'' [KText ''totalVolumeUSD'', KText tm]) v (Minutes 1, None)"

definition router_setTotalFeesUSD :: "'c cache_service \<Rightarrow> string \<Rightarrow> jval \<Rightarrow> 'c \<Rightarrow> string \<times> 'c" where
  "router_setTotalFeesUSD K tm v = setData K (getCacheKey ''router'' [KText ''totalFeesUSD'', KText tm]) v (Minutes 1, None)"

definition router_setPairCount :: "'c cache_service \<Rightarrow> jval \<Rightarrow> 'c \<Rightarrow> string \<times> 'c" where
  "router_setPairCount K v = setData K (getCacheKey ''router'' [KText ''pairCount'']) v (Hours 1, None)"

definition weekly_set_currentClaimProgress :: "'c cache_service \<Rightarrow> string \<Rightarrow> string \<Rightarrow> jval \<Rightarrow> 'c \<Rightarrow> string \<times> 'c" where
  "weekly_set_currentClaimProgress K sc userAddress v = setData K (getCacheKey ''weeklyRewards'' [KText ''currentClaimProgress'', KText sc, KText userAddress]) v ContractBalanceTtl"

definition weekly_set_userEnergyForWeek :: "'c cache_service \<Rightarrow> string \<Rightarrow> string \<Rightarrow> int \<Rightarrow> jval \<Rightarrow> 'c \<Rightarrow> string \<times> 'c" where
  "weekly_set_userEnergyForWeek K sc userAddress wk v = setData K (getCacheKey ''weeklyRewards'' [KText ''userEnergyForWeek'', KText sc, KText userAddress, KInt wk]) v ContractBalanceTtl"

definition weekly_set_lastActiveWeekForUser :: "'c cache_service \<Rightarrow> string \<Rightarrow> string \<Rightarrow> jval \<Rightarrow> 'c \<Rightarrow> string \<times> 'c" where
  "weekly_set_lastActiveWeekForUser K sc userAddress v = setData K (getCacheKey ''weeklyRewards'' [KText ''lastActiveWeekForUser'', KText sc, KText userAddress]) v ContractBalanceTtl"

definition weekly_set_lastGlobalUpdateWeek :: "'c cache_service \<Rightarrow> string \<Rightarrow> jval \<Rightarrow> 'c \<Rightarrow> string \<times> 'c" where
  "weekly_set_lastGlobalUpdateWeek K sc v = setData K (getCacheKey ''weeklyRewards'' [KText ''lastGlobalUpdateWeek'', KText sc]) v ContractStateTtl"

definition weekly_set_totalRewardsForWeek :: "'c cache_service \<Rightarrow> string \<Rightarrow> int \<Rightarrow> jval \<Rightarrow> 'c \<Rightarrow> string \<times> 'c" where
  "weekly_set_totalRewardsForWeek K sc wk v = setData K (getCacheKey ''weeklyRewards'' [KText ''totalRewardsForWeek'', KText sc, KInt wk]) v ContractStateTtl"

definition weekly_set_totalEnergyForWeek :: "'c cache_service \<Rightarrow> string \<Rightarrow> int \<Rightarrow> jval \<Rightarrow> 'c \<Rightarrow> string \<times> 'c" where
  "weekly_set_totalEnergyForWeek K sc wk v = setData K (getCacheKey ''weeklyRewards'' [KText ''totalEnergyForWeek'', KText sc, KInt wk]) v ContractStateTtl"

definition weekly_set_totalLockedTokensForWeek :: "'c cache_service \<Rightarrow> string \<Rightarrow> int \<Rightarrow> jval \<Rightarrow> 'c \<Rightarrow> string \<times> 'c" where
  "weekly_set_totalLockedTokensForWeek K sc wk v = setData K (getCacheKey ''weeklyRewards'' [KText ''totalLockedTokensForWeek'', KText sc, KInt wk]) v ContractStateTtl"

definition fees_set_userRewardsForWeek :: "'c cache_service \<Rightarrow> string \<Rightarrow> string \<Rightarrow> int \<Rightarrow> jval \<Rightarrow> 'c \<Rightarrow> string \<times> 'c" where
  "fees_set_userRewardsForWeek K sc userAddress wk v = setData K (getCacheKey ''feesCollector'' [KText sc, KText ''userRewardsForWeek'', KText userAddress, KInt wk]) v ContractBalanceTtl"

definition fees_set_accumulatedFees :: "'c cache_service \<Rightarrow> int \<Rightarrow> string \<Rightarrow> jval \<Rightarrow> 'c \<Rightarrow> string \<times> 'c" where
  "fees_set_accumulatedFees K wk token v = setData K (getCacheKey ''feesCollector'' [KText ''accumulatedFees'', KInt wk, KText token]) v ContractInfoTtl"

section \<open>What the readers return\<close>

lemmas router_raw_defs = router_getPairCreationEnabledRaw_def router_getStateRaw_def router_getOwnerRaw_def router_getPairTemplateAddressRaw_def router_getTemporaryOwnerPeriodRaw_def router_getAllPairsAddressRaw_def router_getPairsMetadataRaw_def router_getAllPairTokensRaw_def fees_getAccumulatedFeesRaw_def fees_getLockedTokenIDRaw_def fees_getLockedTokensPerBlockRaw_def fees_getKnownContractsRaw_def

text \<open>
  On a router and a fees collector that answer as their interface files say, their readers return a value of the kind they promise.
\<close>

theorem router_readers_typed:
  assumes "gatewayAnswers G router_views (configAddress G ''routerAddress'')" "gatewayAnswers G fees_views (configAddress G ''feesCollector'')"
  shows "returns BoolR (router_getPairCreationEnabledRaw G) \<and>
    returns BoolR (router_getStateRaw G) \<and>
    returns TextR (router_getOwnerRaw G) \<and>
    returns TextR (router_getPairTemplateAddressRaw G) \<and>
    returns TextR (router_getTemporaryOwnerPeriodRaw G) \<and>
    returns (ListR TextR) (router_getAllPairsAddressRaw G) \<and>
    returns (ListR ObjectR) (router_getPairsMetadataRaw G) \<and>
    returns (ListR ObjectR) (router_getAllPairTokensRaw G) \<and>
    returns AmountR (fees_getAccumulatedFeesRaw G wk token) \<and>
    returns TextR (fees_getLockedTokenIDRaw G) \<and>
    returns AmountR (fees_getLockedTokensPerBlockRaw G) \<and>
    returns (ListR TextR) (fees_getKnownContractsRaw G)"
  unfolding router_raw_defs
  apply (intro conjI)
  subgoal by (rule readView_returns [OF assms(1)]) (simp add: router_views_def decoding)
  subgoal by (rule readView_returns [OF assms(1)]) (simp add: router_views_def decoding)
  subgoal by (rule readView_returns [OF assms(1)]) (simp add: router_views_def decoding)
  subgoal by (rule readView_returns [OF assms(1)]) (simp add: router_views_def decoding)
  subgoal by (rule readView_returns [OF assms(1)]) (simp add: router_views_def decoding)
  subgoal by (rule readView_returns [OF assms(1)]) (simp add: router_views_def decoding)
  subgoal by (rule readView_returns [OF assms(1)]) (simp add: router_views_def decoding)
  subgoal by (rule readView_returns [OF assms(1)]) (simp add: router_views_def decoding)
  subgoal by (rule readView_returns [OF assms(2)]) (simp add: fees_views_def decoding)
  subgoal by (rule readView_returns [OF assms(2)]) (simp add: fees_views_def decoding)
  subgoal by (rule readView_returns [OF assms(2)]) (simp add: fees_views_def decoding)
  subgoal by (rule readView_returns [OF assms(2)]) (simp add: fees_views_def decoding)
  done

lemmas router_reader_defs = router_pairsAddress_def router_pairsMetadata_def router_totalLockedValueUSD_def router_totalVolumeUSD_def router_totalFeesUSD_def router_pairCount_def weekly_currentClaimProgress_def weekly_userEnergyForWeek_def weekly_lastActiveWeekForUser_def weekly_lastGlobalUpdateWeek_def weekly_totalRewardsForWeek_def weekly_totalEnergyForWeek_def weekly_totalLockedTokensForWeek_def fees_accumulatedFees_def

lemmas router_writer_defs = router_setAllPairsAddress_def router_setPairsMetadata_def router_setTotalLockedValueUSD_def router_setTotalVolumeUSD_def router_setTotalFeesUSD_def router_setPairCount_def weekly_set_currentClaimProgress_def weekly_set_userEnergyForWeek_def weekly_set_lastActiveWeekForUser_def weekly_set_lastGlobalUpdateWeek_def weekly_set_totalRewardsForWeek_def weekly_set_totalEnergyForWeek_def weekly_set_totalLockedTokensForWeek_def fees_set_accumulatedFees_def

text \<open>
  Every writer of the router, the weekly rewards and the fees collector but two reaches the reader of the same name.
\<close>

theorem router_writers_reach_readers:
  assumes "cache_lib K" "historyTimestamp G = None" "storable v"
  shows "reaches (router_setAllPairsAddress K v) (router_pairsAddress K G) v \<and>
    reaches (router_setPairsMetadata K v) (router_pairsMetadata K G) v \<and>
    reaches (router_setTotalLockedValueUSD K v) (router_totalLockedValueUSD K G compute) v \<and>
    reaches (router_setTotalVolumeUSD K tm v) (router_totalVolumeUSD K G compute tm) v \<and>
    reaches (router_setTotalFeesUSD K tm v) (router_totalFeesUSD K G compute tm) v \<and>
    reaches (router_setPairCount K v) (router_pairCount K G compute) v \<and>
    reaches (weekly_set_currentClaimProgress K sc userAddress v) (weekly_currentClaimProgress K G energyOf sc userAddress) v \<and>
    reaches (weekly_set_userEnergyForWeek K sc userAddress wk v) (weekly_userEnergyForWeek K G B energyOf endEpochForWeek progress sc userAddress wk) v \<and>
    reaches (weekly_set_lastActiveWeekForUser K sc userAddress v) (weekly_lastActiveWeekForUser K G sc userAddress) v \<and>
    reaches (weekly_set_lastGlobalUpdateWeek K sc v) (weekly_lastGlobalUpdateWeek K G sc) v \<and>
    reaches (weekly_set_totalRewardsForWeek K sc wk v) (weekly_totalRewardsForWeek K G sc wk) v \<and>
    reaches (weekly_set_totalEnergyForWeek K sc wk v) (weekly_totalEnergyForWeek K G sc wk) v \<and>
    reaches (weekly_set_totalLockedTokensForWeek K sc wk v) (weekly_totalLockedTokensForWeek K G sc wk) v \<and>
    reaches (fees_set_accumulatedFees K wk token v) (fees_accumulatedFees K G wk token) v"
  by ((intro conjI)?; simp only: router_writer_defs router_reader_defs getCacheKey_def assms(2); rule cache_lib.writer_reaches [OF assms(1,3) refl])

text \<open>
  The pairs of tokens are written under a key that no reader has (\<open>pairsTokens\<close>).
\<close>

lemma router_writers_miss_readers:
  assumes "cache_lib K" "historyTimestamp G = None"
  shows "misses (router_setAllPairTokens K v) (router_allPairTokens K G)"
  by ((intro conjI)?; simp only: router_setAllPairTokens_def router_allPairTokens_def getCacheKey_def assms(2); rule cache_lib.writer_misses_uncached [OF assms(1)];
      simp add: generateCacheKeyFromParams_def butlast_append)

text \<open>
  The rewards of a user for a week are written with the contract before the name of the entry and read with the contract after it.
\<close>

lemma fees_user_rewards_miss:
  assumes "cache_lib K" "historyTimestamp G = None" "CHR ''.'' \<notin> set sc" "CHR ''.'' \<notin> set userAddress" "sc \<noteq> ''userRewardsForWeek''"
  shows "misses (fees_set_userRewardsForWeek K sc userAddress wk v) (fees_userRewardsForWeek K G (uncached r) sc userAddress wk)"
proof -
  have other: "getCacheKey ''feesCollector'' [KText sc, KText ''userRewardsForWeek'', KText userAddress, KInt wk] \<noteq>
      generateCacheKeyFromParams [KText ''feesCollector'', KText ''userRewardsForWeek'', KText sc, KText userAddress, KInt wk]"
    (is "getCacheKey _ ?as \<noteq> generateCacheKeyFromParams ?bs")
  proof
    assume "getCacheKey ''feesCollector'' ?as = generateCacheKeyFromParams ?bs"
    then have "map partText (KText ''feesCollector'' # ?as) = map partText ?bs"
      unfolding getCacheKey_def
      by (intro key_determines_parts) (use assms(3,4) dotless_KInt [of wk] in \<open>auto simp: dotless_def\<close>)
    with assms(5) show False by simp
  qed
  show ?thesis
    unfolding fees_set_userRewardsForWeek_def fees_userRewardsForWeek_def assms(2)
    by (rule cache_lib.writer_misses_uncached [OF assms(1) other])
qed

end
