(* ===== verification/GovernanceReaders.thy ===== *)
theory GovernanceReaders
  imports ContractQueries Abi TokenConverters
begin

text \<open>
  Governance contracts: the table of the contracts by type and smoothing function (\<open>src/utils/governance.ts\<close>), the readers of
  the three kinds of contracts (\<open>src/modules/governance/services/governance.abi.service.ts\<close>,
  \<open>governance.old.energy.abi.service.ts\<close>, \<open>governance.abi.factory.ts\<close>), the texts of proposals
  (\<open>governance.description.service.ts\<close>) and the writers of their cache entries (\<open>governance.setter.service.ts\<close>).
  The contract of the first vote, here called the old one, is no longer asked: its readers return constants.
\<close>

section \<open>The table of the contracts\<close>

datatype governance_type = ENERGY | OLD_ENERGY | TOKEN_SNAPSHOT

datatype governance_smoothing = CVADRATIC | LINEAR

definition toTypeEnum :: "string \<Rightarrow> governance_type option" where
  "toTypeEnum ty =
     (if ty = ''energy'' then Some ENERGY else if ty = ''tokenSnapshot'' then Some TOKEN_SNAPSHOT
      else if ty = ''oldEnergy'' then Some OLD_ENERGY else None)"

definition toSmoothingFunctionEnum :: "string \<Rightarrow> governance_smoothing option" where
  "toSmoothingFunctionEnum f =
     (if f = ''cvadratic'' then Some CVADRATIC else if f = ''linear'' then Some LINEAR else None)"

text \<open>The contracts by type and smoothing function, in the order of the configuration file.\<close>

type_synonym governance_config = "(string \<times> (string \<times> string list) list) list"

fun governanceType :: "governance_config \<Rightarrow> string \<Rightarrow> governance_type option" where
  "governanceType [] governanceAddress = None"
| "governanceType ((ty, functions) # types) governanceAddress =
     (if \<exists>(f, addresses)\<in>set functions. governanceAddress \<in> set addresses then toTypeEnum ty
      else governanceType types governanceAddress)"

fun smoothingAmong :: "(string \<times> string list) list \<Rightarrow> string \<Rightarrow> string option" where
  "smoothingAmong [] governanceAddress = None"
| "smoothingAmong ((f, addresses) # functions) governanceAddress =
     (if governanceAddress \<in> set addresses then Some f else smoothingAmong functions governanceAddress)"

fun governanceSmoothingFunction :: "governance_config \<Rightarrow> string \<Rightarrow> governance_smoothing option" where
  "governanceSmoothingFunction [] governanceAddress = None"
| "governanceSmoothingFunction ((ty, functions) # types) governanceAddress =
     (case smoothingAmong functions governanceAddress of
        Some f \<Rightarrow> toSmoothingFunctionEnum f
      | None \<Rightarrow> governanceSmoothingFunction types governanceAddress)"

text \<open>The addresses of the given types, of all types without one; an unknown type throws.\<close>

definition governanceContractsAddresses :: "governance_config \<Rightarrow> string list option \<Rightarrow> string list res" where
  "governanceContractsAddresses cfg types =
     (let ts = (case types of None \<Rightarrow> map fst cfg | Some [] \<Rightarrow> map fst cfg | Some ts \<Rightarrow> ts)
      in res_bind (res_map (\<lambda>t. case map_of cfg t of Some functions \<Rightarrow> Inr (concat (map snd functions)) | None \<Rightarrow> Inl TypeError) ts)
           (\<lambda>xss. Inr (concat xss)))"

definition toGovernanceProposalStatus :: "string \<Rightarrow> jval" where
  "toGovernanceProposalStatus st =
     (if st \<in> {''None'', ''Pending'', ''Active'', ''Defeated'', ''DefeatedWithVeto'', ''Succeeded''} then JText st else JUndefined)"

section \<open>Votes\<close>

datatype vote_type = UpVote | DownVote | DownVetoVote | AbstainVote | NotVoted

primrec voteNumber :: "vote_type \<Rightarrow> int" where
  "voteNumber UpVote = 0"
| "voteNumber DownVote = 1"
| "voteNumber DownVetoVote = 2"
| "voteNumber AbstainVote = 3"
| "voteNumber NotVoted = 4"

text \<open>\<open>GOVERNANCE_EVENTS\<close> of \<open>@multiversx/sdk-exchange\<close>.\<close>

record governance_events =
  evUp :: string
  evDown :: string
  evDownVeto :: string
  evAbstain :: string

definition toVoteType :: "governance_events \<Rightarrow> string \<Rightarrow> vote_type" where
  "toVoteType E ev =
     (if ev = evUp E then UpVote else if ev = evDown E then DownVote
      else if ev = evDownVeto E then DownVetoVote else if ev = evAbstain E then AbstainVote else NotVoted)"

text \<open>\<open>ProposalVotes\<close>; the members of \<open>default ()\<close> lack the total and the percentages.\<close>

record proposal_votes =
  pvUp :: bn
  pvDown :: bn
  pvDownVeto :: bn
  pvAbstain :: bn
  pvQuorum :: bn
  pvTotal :: "bn option"
  pvUpPercentage :: "bn option"
  pvDownPercentage :: "bn option"
  pvAbstainPercentage :: "bn option"
  pvDownVetoPercentage :: "bn option"

definition default_votes :: proposal_votes where
  "default_votes = \<lparr>pvUp = Fin 0, pvDown = Fin 0, pvDownVeto = Fin 0, pvAbstain = Fin 0, pvQuorum = Fin 0, pvTotal = None,
     pvUpPercentage = None, pvDownPercentage = None, pvAbstainPercentage = None, pvDownVetoPercentage = None\<rparr>"

text \<open>The object, and an object read as votes: a missing number is \<open>NaN\<close>.\<close>

fun member :: "string \<Rightarrow> bn option \<Rightarrow> (string \<times> jval) list" where
  "member n None = []"
| "member n (Some x) = [(n, JAmount x)]"

definition votesObject :: "proposal_votes \<Rightarrow> jval" where
  "votesObject p = JObject
     ([(''upVotes'', JAmount (pvUp p)), (''downVotes'', JAmount (pvDown p)), (''downVetoVotes'', JAmount (pvDownVeto p)),
       (''abstainVotes'', JAmount (pvAbstain p)), (''quorum'', JAmount (pvQuorum p))] @
      member ''totalVotes'' (pvTotal p) @ member ''upPercentage'' (pvUpPercentage p) @ member ''downPercentage'' (pvDownPercentage p) @
      member ''abstainPercentage'' (pvAbstainPercentage p) @ member ''downVetoPercentage'' (pvDownVetoPercentage p))"

definition amountMember :: "string \<Rightarrow> (string \<times> jval) list \<Rightarrow> bn option" where
  "amountMember n ms = (case map_of ms n of Some (JAmount x) \<Rightarrow> Some x | _ \<Rightarrow> None)"

definition numberOf :: "bn option \<Rightarrow> bn" where
  "numberOf x = (case x of Some y \<Rightarrow> y | None \<Rightarrow> NotANum)"

lemma numberOf_simps [simp]: "numberOf (Some x) = x" "numberOf None = NotANum"
  by (simp_all add: numberOf_def)

fun votesOf :: "jval \<Rightarrow> proposal_votes res" where
  "votesOf (JObject ms) = Inr
     \<lparr>pvUp = numberOf (amountMember ''upVotes'' ms), pvDown = numberOf (amountMember ''downVotes'' ms),
      pvDownVeto = numberOf (amountMember ''downVetoVotes'' ms), pvAbstain = numberOf (amountMember ''abstainVotes'' ms),
      pvQuorum = numberOf (amountMember ''quorum'' ms), pvTotal = amountMember ''totalVotes'' ms,
      pvUpPercentage = amountMember ''upPercentage'' ms, pvDownPercentage = amountMember ''downPercentage'' ms,
      pvAbstainPercentage = amountMember ''abstainPercentage'' ms, pvDownVetoPercentage = amountMember ''downVetoPercentage'' ms\<rparr>"
| "votesOf j = Inl TypeError"

lemma amountMember_Cons:
  "amountMember n ((m, j) # ms) = (if n = m then (case j of JAmount x \<Rightarrow> Some x | _ \<Rightarrow> None) else amountMember n ms)"
  by (simp add: amountMember_def split: jval.split)

lemma amountMember_member: "amountMember n (member m x @ ms) = (if n = m \<and> x \<noteq> None then x else amountMember n ms)"
  by (cases x) (simp_all add: amountMember_Cons)

lemma amountMember_Nil: "amountMember n [] = None"
  by (simp add: amountMember_def)

text \<open>Votes survive the cache.\<close>

lemma votesOf_votesObject: "votesOf (votesObject p) = Inr p"
  using amountMember_member [of _ _ _ "[]"]
  by (simp add: votesObject_def amountMember_Cons amountMember_member amountMember_Nil)

section \<open>The interfaces\<close>

definition governance_energy_views :: views where
  "governance_energy_views = [
    (''getMinEnergyForPropose'', [], [BigUintT]),
    (''getMinFeeForPropose'', [], [BigUintT]),
    (''getQuorum'', [], [BigUintT]),
    (''getVotingDelayInBlocks'', [], [UintT 64]),
    (''getVotingPeriodInBlocks'', [], [UintT 64]),
    (''getFeeTokenId'', [], [TokenIdentifierT]),
    (''getWithdrawPercentageDefeated'', [], [UintT 64]),
    (''getProposals'', [], [ListT (StructT ''GovernanceProposal'' [(''proposal_id'', UintT 32), (''proposer'', AddressT), (''actions'', ListT (StructT ''GovernanceAction'' [(''gas_limit'', UintT 64), (''dest_address'', AddressT), (''function_name'', BytesT), (''arguments'', ListT BytesT)])), (''description'', BytesT), (''fee_payment'', StructT ''EsdtTokenPayment'' [(''token_identifier'', TokenIdentifierT), (''token_nonce'', UintT 64), (''amount'', BigUintT)]), (''minimum_quorum'', BigUintT), (''voting_delay_in_blocks'', UintT 64), (''voting_period_in_blocks'', UintT 64), (''withdraw_percentage_defeated'', UintT 64), (''total_quorum'', BigUintT), (''proposal_start_block'', UintT 64)])]),
    (''getUserVotedProposals'', [AddressT], [ListT (UintT 32)]),
    (''getProposalVotes'', [UintT 32], [StructT ''ProposalVotes'' [(''up_votes'', BigUintT), (''down_votes'', BigUintT), (''down_veto_votes'', BigUintT), (''abstain_votes'', BigUintT), (''quorum'', BigUintT)]]),
    (''getProposalStatus'', [UintT 32], [EnumT [(''None'', []), (''Pending'', []), (''Active'', []), (''Defeated'', []), (''DefeatedWithVeto'', []), (''Succeeded'', [])]]),
    (''getFeesCollectorAddress'', [], [AddressT]),
    (''getEnergyFactoryAddress'', [], [AddressT]),
    (''getPermissions'', [AddressT], [UintT 32])]"

definition governance_snapshot_views :: views where
  "governance_snapshot_views = [
    (''getMinFeeForPropose'', [], [BigUintT]),
    (''getQuorum'', [], [BigUintT]),
    (''getVotingDelayInBlocks'', [], [UintT 64]),
    (''getVotingPeriodInBlocks'', [], [UintT 64]),
    (''getFeeTokenId'', [], [TokenIdentifierT]),
    (''getWithdrawPercentageDefeated'', [], [UintT 64]),
    (''getProposals'', [], [ListT (StructT ''GovernanceProposal'' [(''proposal_id'', UintT 32), (''proposer'', AddressT), (''actions'', ListT (StructT ''GovernanceAction'' [(''gas_limit'', UintT 64), (''dest_address'', AddressT), (''function_name'', BytesT), (''arguments'', ListT BytesT)])), (''description'', BytesT), (''root_hash'', ListT (UintT 8)), (''fee_payment'', StructT ''EsdtTokenPayment'' [(''token_identifier'', TokenIdentifierT), (''token_nonce'', UintT 64), (''amount'', BigUintT)]), (''minimum_quorum'', BigUintT), (''voting_delay_in_blocks'', UintT 64), (''voting_period_in_blocks'', UintT 64), (''withdraw_percentage_defeated'', UintT 64), (''total_quorum'', BigUintT), (''proposal_start_block'', UintT 64)])]),
    (''getUserVotedProposals'', [AddressT], [ListT (UintT 32)]),
    (''getProposalVotes'', [UintT 32], [StructT ''ProposalVotes'' [(''up_votes'', BigUintT), (''down_votes'', BigUintT), (''down_veto_votes'', BigUintT), (''abstain_votes'', BigUintT), (''quorum'', BigUintT)]]),
    (''getProposalStatus'', [UintT 32], [EnumT [(''None'', []), (''Pending'', []), (''Active'', []), (''Defeated'', []), (''DefeatedWithVeto'', []), (''Succeeded'', [])]]),
    (''getProposalRootHash'', [UintT 32], [OptionT (ListT (UintT 8))])]"

text \<open>\<open>MXProxyService.getGovernanceSmartContract\<close>: there is no interface file for the old contract.\<close>

fun governanceInterface :: "governance_type \<Rightarrow> views option" where
  "governanceInterface ENERGY = Some governance_energy_views"
| "governanceInterface TOKEN_SNAPSHOT = Some governance_snapshot_views"
| "governanceInterface OLD_ENERGY = None"

definition readGovernance ::
  "gateway \<Rightarrow> governance_type \<Rightarrow> string \<Rightarrow> string \<Rightarrow> query_arg list \<Rightarrow> (abi_value \<Rightarrow> 'a res) \<Rightarrow> 'a res" where
  "readGovernance G ty sc f args decode =
     (case governanceInterface ty of None \<Rightarrow> Inl TypeError | Some vw \<Rightarrow> readView G vw sc f args decode)"

section \<open>Decoding proposals\<close>

text \<open>\<open>JSON.parse\<close> is the argument \<open>parseJson\<close>.\<close>

fun jsMember :: "string \<Rightarrow> jval \<Rightarrow> jval res" where
  "jsMember n (JObject ms) = Inr (case map_of ms n of Some j \<Rightarrow> j | None \<Rightarrow> JUndefined)"
| "jsMember n JUndefined = Inl TypeError"
| "jsMember n JNull = Inl TypeError"
| "jsMember n j = Inr JUndefined"

definition getGovernanceDescription :: "(string \<Rightarrow> jval res) \<Rightarrow> string \<Rightarrow> jval res" where
  "getGovernanceDescription parseJson descriptionJson =
     res_bind (parseJson descriptionJson) (\<lambda>description.
       res_bind (jsMember ''version'' description) (\<lambda>version.
         if version = JNumber (JNum 0) \<or> version = JNumber (JNum 1) then Inr description
         else Inl (JsError ''Unknown description version'')))"

definition governanceAction :: "abi_value \<Rightarrow> jval res" where
  "governanceAction = newObject
     [(''arguments'', via ''arguments'' (\<lambda>v. Inr (JList (map JText (split_on (CHR '','') (textOf v)))))),
      (''destAddress'', via ''dest_address'' asBech32),
      (''functionName'', via ''function_name'' asText),
      (''gasLimit'', via ''gas_limit'' asNumber)]"

text \<open>A quorum in hundredths, with two decimals. Payments are decoded by the library (\<open>paymentJson\<close>).\<close>

definition asHundredths :: "bignumber \<Rightarrow> abi_value \<Rightarrow> jval res" where
  "asHundredths B v =
     (case v of VBig n \<Rightarrow> Inr (JAmount (bn_fixed B 2 (bn_div B (bn_of_int n) (bn_number B 100)))) | _ \<Rightarrow> Inl TypeError)"

definition governanceProposal ::
  "bignumber \<Rightarrow> (string \<Rightarrow> jval res) \<Rightarrow> (abi_value \<Rightarrow> jval res) \<Rightarrow> string \<Rightarrow> abi_value \<Rightarrow> jval res" where
  "governanceProposal B parseJson paymentJson sc = newObject
     [(''actions'', via ''actions'' (mapElems governanceAction)),
      (''contractAddress'', always (JText sc)),
      (''proposalId'', via ''proposal_id'' asNumber),
      (''proposer'', via ''proposer'' asBech32),
      (''description'', via ''description'' (\<lambda>v. getGovernanceDescription parseJson (textOf v))),
      (''feePayment'', via ''fee_payment'' paymentJson),
      (''proposalStartBlock'', via ''proposal_start_block'' asNumber),
      (''minimumQuorumPercentage'', via ''minimum_quorum'' (asHundredths B)),
      (''totalQuorum'', via ''total_quorum'' asFixed),
      (''votingDelayInBlocks'', via ''voting_delay_in_blocks'' asNumber),
      (''votingPeriodInBlocks'', via ''voting_period_in_blocks'' asNumber),
      (''withdrawPercentageDefeated'', via ''withdraw_percentage_defeated'' asNumber)]"

definition proposalStatusOf :: "abi_value \<Rightarrow> jval res" where
  "proposalStatusOf v =
     (case v of VEnum n fs \<Rightarrow> Inr (toGovernanceProposalStatus n) | VNull \<Rightarrow> Inl TypeError | _ \<Rightarrow> Inr JUndefined)"

text \<open>The hash is an array of bytes, written in hexadecimal one after the other.\<close>

fun hexByte :: "abi_value \<Rightarrow> string res" where
  "hexByte (VBig n) = Inr (decimalToHex (nat n))"
| "hexByte v = Inl TypeError"

fun rootHashOf :: "abi_value \<Rightarrow> jval res" where
  "rootHashOf (VList vs) = res_bind (res_map hexByte vs) (\<lambda>hs. Inr (JText (concat hs)))"
| "rootHashOf v = Inl TypeError"

section \<open>Readers\<close>

definition gov_getAddressShardID :: "'c cache_service \<Rightarrow> gateway \<Rightarrow> string \<Rightarrow> 'c \<Rightarrow> jval res \<times> 'c" where
  "gov_getAddressShardID K G sc = GetOrSetCache K (historyTimestamp G) ''governance'' ContractStateTtl ''getAddressShardID'' [KText sc]
     (uncached (res_bind (addressShard G sc) (\<lambda>n. Inr (JNumber (jint n)))))"

definition gov_minFeeForProposeRaw :: "gateway \<Rightarrow> governance_type \<Rightarrow> string \<Rightarrow> jval res" where
  "gov_minFeeForProposeRaw G ty sc = readGovernance G ty sc ''getMinFeeForPropose'' [] asFixed"

definition gov_minFeeForPropose :: "'c cache_service \<Rightarrow> gateway \<Rightarrow> governance_type \<Rightarrow> string \<Rightarrow> 'c \<Rightarrow> jval res \<times> 'c" where
  "gov_minFeeForPropose K G ty sc = GetOrSetCache K (historyTimestamp G) ''governance'' ContractStateTtl ''minFeeForPropose'' [KText sc]
     (uncached (gov_minFeeForProposeRaw G ty sc))"

definition gov_quorumRaw :: "gateway \<Rightarrow> governance_type \<Rightarrow> string \<Rightarrow> jval res" where
  "gov_quorumRaw G ty sc = readGovernance G ty sc ''getQuorum'' [] asFixed"

definition gov_quorum :: "'c cache_service \<Rightarrow> gateway \<Rightarrow> governance_type \<Rightarrow> string \<Rightarrow> 'c \<Rightarrow> jval res \<times> 'c" where
  "gov_quorum K G ty sc = GetOrSetCache K (historyTimestamp G) ''governance'' ContractStateTtl ''quorum'' [KText sc]
     (uncached (gov_quorumRaw G ty sc))"

definition gov_votingDelayInBlocksRaw :: "gateway \<Rightarrow> governance_type \<Rightarrow> string \<Rightarrow> jval res" where
  "gov_votingDelayInBlocksRaw G ty sc = readGovernance G ty sc ''getVotingDelayInBlocks'' [] asNumber"

definition gov_votingDelayInBlocks :: "'c cache_service \<Rightarrow> gateway \<Rightarrow> governance_type \<Rightarrow> string \<Rightarrow> 'c \<Rightarrow> jval res \<times> 'c" where
  "gov_votingDelayInBlocks K G ty sc = GetOrSetCache K (historyTimestamp G) ''governance'' ContractStateTtl ''votingDelayInBlocks'' [KText sc]
     (uncached (gov_votingDelayInBlocksRaw G ty sc))"

definition gov_votingPeriodInBlocksRaw :: "gateway \<Rightarrow> governance_type \<Rightarrow> string \<Rightarrow> jval res" where
  "gov_votingPeriodInBlocksRaw G ty sc = readGovernance G ty sc ''getVotingPeriodInBlocks'' [] asNumber"

definition gov_votingPeriodInBlocks :: "'c cache_service \<Rightarrow> gateway \<Rightarrow> governance_type \<Rightarrow> string \<Rightarrow> 'c \<Rightarrow> jval res \<times> 'c" where
  "gov_votingPeriodInBlocks K G ty sc = GetOrSetCache K (historyTimestamp G) ''governance'' ContractStateTtl ''votingPeriodInBlocks'' [KText sc]
     (uncached (gov_votingPeriodInBlocksRaw G ty sc))"

definition gov_feeTokenIdRaw :: "gateway \<Rightarrow> governance_type \<Rightarrow> string \<Rightarrow> jval res" where
  "gov_feeTokenIdRaw G ty sc = readGovernance G ty sc ''getFeeTokenId'' [] asRaw"

definition gov_feeTokenId :: "'c cache_service \<Rightarrow> gateway \<Rightarrow> governance_type \<Rightarrow> string \<Rightarrow> 'c \<Rightarrow> jval res \<times> 'c" where
  "gov_feeTokenId K G ty sc = GetOrSetCache K (historyTimestamp G) ''governance'' ContractStateTtl ''feeTokenId'' [KText sc]
     (uncached (gov_feeTokenIdRaw G ty sc))"

definition gov_withdrawPercentageDefeatedRaw :: "gateway \<Rightarrow> governance_type \<Rightarrow> string \<Rightarrow> jval res" where
  "gov_withdrawPercentageDefeatedRaw G ty sc = readGovernance G ty sc ''getWithdrawPercentageDefeated'' [] asNumber"

definition gov_withdrawPercentageDefeated :: "'c cache_service \<Rightarrow> gateway \<Rightarrow> governance_type \<Rightarrow> string \<Rightarrow> 'c \<Rightarrow> jval res \<times> 'c" where
  "gov_withdrawPercentageDefeated K G ty sc = GetOrSetCache K (historyTimestamp G) ''governance'' ContractStateTtl ''withdrawPercentageDefeated'' [KText sc]
     (uncached (gov_withdrawPercentageDefeatedRaw G ty sc))"

definition gov_proposalsRaw :: "gateway \<Rightarrow> bignumber \<Rightarrow> (string \<Rightarrow> jval res) \<Rightarrow> (abi_value \<Rightarrow> jval res) \<Rightarrow> governance_type \<Rightarrow> string \<Rightarrow> jval res" where
  "gov_proposalsRaw G B parseJson paymentJson ty sc = readGovernance G ty sc ''getProposals'' [] (mapElems (governanceProposal B parseJson paymentJson sc))"

definition gov_proposals :: "'c cache_service \<Rightarrow> gateway \<Rightarrow> bignumber \<Rightarrow> (string \<Rightarrow> jval res) \<Rightarrow> (abi_value \<Rightarrow> jval res) \<Rightarrow> governance_type \<Rightarrow> string \<Rightarrow> 'c \<Rightarrow> jval res \<times> 'c" where
  "gov_proposals K G B parseJson paymentJson ty sc = GetOrSetCache K (historyTimestamp G) ''governance'' ContractStateTtl ''proposals'' [KText sc]
     (uncached (gov_proposalsRaw G B parseJson paymentJson ty sc))"

definition gov_userVotedProposalsRaw :: "gateway \<Rightarrow> governance_type \<Rightarrow> string \<Rightarrow> string \<Rightarrow> jval res" where
  "gov_userVotedProposalsRaw G ty sc userAddress = readGovernance G ty sc ''getUserVotedProposals'' [Typed (AddressV userAddress)] (mapElems asNumber)"

definition gov_userVotedProposals :: "'c cache_service \<Rightarrow> gateway \<Rightarrow> governance_type \<Rightarrow> string \<Rightarrow> string \<Rightarrow> 'c \<Rightarrow> jval res \<times> 'c" where
  "gov_userVotedProposals K G ty sc userAddress = GetOrSetCache K (historyTimestamp G) ''governance'' ContractStateTtl ''userVotedProposals'' [KText sc, KText userAddress]
     (uncached (gov_userVotedProposalsRaw G ty sc userAddress))"

text \<open>A part of the votes in hundredths; no percentage of nothing.\<close>

definition votePercentage :: "bignumber \<Rightarrow> bn \<Rightarrow> bn \<Rightarrow> bn" where
  "votePercentage B part totalVotes = bn_fixed B 2 (bn_times B (bn_div B part totalVotes) (bn_number B 100))"

fun jsPositive :: "bn \<Rightarrow> bool" where
  "jsPositive (Fin x) \<longleftrightarrow> 0 < x"
| "jsPositive PosInf \<longleftrightarrow> True"
| "jsPositive v \<longleftrightarrow> False"

fun bigOf :: "abi_value \<Rightarrow> bn res" where
  "bigOf (VBig n) = Inr (bn_of_int n)"
| "bigOf v = Inl TypeError"

definition votesOfValue :: "bignumber \<Rightarrow> abi_value \<Rightarrow> proposal_votes res" where
  "votesOfValue B v =
     res_bind (via ''up_votes'' bigOf v) (\<lambda>up. res_bind (via ''down_votes'' bigOf v) (\<lambda>dn.
     res_bind (via ''abstain_votes'' bigOf v) (\<lambda>ab. res_bind (via ''down_veto_votes'' bigOf v) (\<lambda>ve.
     res_bind (via ''quorum'' bigOf v) (\<lambda>qu.
       let totalVotes = bn_plus B (bn_plus B (bn_plus B up dn) ab) ve;
           percent = (\<lambda>x. Some (if jsPositive totalVotes then votePercentage B x totalVotes else Fin 0))
       in Inr \<lparr>pvUp = up, pvDown = dn, pvDownVeto = ve, pvAbstain = ab, pvQuorum = qu, pvTotal = Some totalVotes,
            pvUpPercentage = percent up, pvDownPercentage = percent dn, pvAbstainPercentage = percent ab,
            pvDownVetoPercentage = percent ve\<rparr>)))))"

text \<open>A reply without values is the default.\<close>

definition gov_proposalVotesRaw :: "gateway \<Rightarrow> bignumber \<Rightarrow> governance_type \<Rightarrow> string \<Rightarrow> int \<Rightarrow> jval res" where
  "gov_proposalVotesRaw G B ty sc proposalId =
     (case governanceInterface ty of None \<Rightarrow> Inl TypeError
      | Some vw \<Rightarrow> res_bind (getGenericData G vw sc ''getProposalVotes'' [Typed (U32V proposalId)]) (\<lambda>r.
          case replyValues r of [] \<Rightarrow> Inr (votesObject default_votes)
          | v # _ \<Rightarrow> res_bind (votesOfValue B v) (\<lambda>p. Inr (votesObject p))))"

definition gov_proposalVotes :: "'c cache_service \<Rightarrow> gateway \<Rightarrow> bignumber \<Rightarrow> governance_type \<Rightarrow> string \<Rightarrow> int \<Rightarrow> 'c \<Rightarrow> jval res \<times> 'c" where
  "gov_proposalVotes K G B ty sc proposalId = GetOrSetCache K (historyTimestamp G) ''governance'' ContractStateTtl ''proposalVotes'' [KText sc, KInt proposalId]
     (uncached (gov_proposalVotesRaw G B ty sc proposalId))"

definition gov_proposalStatusRaw :: "gateway \<Rightarrow> governance_type \<Rightarrow> string \<Rightarrow> int \<Rightarrow> jval res" where
  "gov_proposalStatusRaw G ty sc proposalId = readGovernance G ty sc ''getProposalStatus'' [Typed (U32V proposalId)] proposalStatusOf"

definition gov_proposalStatus :: "'c cache_service \<Rightarrow> gateway \<Rightarrow> governance_type \<Rightarrow> string \<Rightarrow> int \<Rightarrow> 'c \<Rightarrow> jval res \<times> 'c" where
  "gov_proposalStatus K G ty sc proposalId = GetOrSetCache K (historyTimestamp G) ''governance'' ContractStateTtl ''proposalStatus'' [KText sc, KInt proposalId]
     (uncached (gov_proposalStatusRaw G ty sc proposalId))"

definition gov_proposalRootHashRaw :: "gateway \<Rightarrow> governance_type \<Rightarrow> string \<Rightarrow> int \<Rightarrow> jval res" where
  "gov_proposalRootHashRaw G ty sc proposalId = readGovernance G ty sc ''getProposalRootHash'' [Typed (U32V proposalId)] rootHashOf"

definition gov_proposalRootHash :: "'c cache_service \<Rightarrow> gateway \<Rightarrow> governance_type \<Rightarrow> string \<Rightarrow> int \<Rightarrow> 'c \<Rightarrow> jval res \<times> 'c" where
  "gov_proposalRootHash K G ty sc proposalId = GetOrSetCache K (historyTimestamp G) ''governance'' ContractStateTtl ''proposalRootHash'' [KText sc, KInt proposalId]
     (uncached (gov_proposalRootHashRaw G ty sc proposalId))"

definition gov_minEnergyForProposeRaw :: "gateway \<Rightarrow> governance_type \<Rightarrow> string \<Rightarrow> jval res" where
  "gov_minEnergyForProposeRaw G ty sc = readGovernance G ty sc ''getMinEnergyForPropose'' [] asFixed"

definition gov_minEnergyForPropose :: "'c cache_service \<Rightarrow> gateway \<Rightarrow> governance_type \<Rightarrow> string \<Rightarrow> 'c \<Rightarrow> jval res \<times> 'c" where
  "gov_minEnergyForPropose K G ty sc = GetOrSetCache K (historyTimestamp G) ''governance'' ContractStateTtl ''minEnergyForPropose'' [KText sc]
     (uncached (gov_minEnergyForProposeRaw G ty sc))"

definition gov_feesCollectorAddressRaw :: "gateway \<Rightarrow> governance_type \<Rightarrow> string \<Rightarrow> jval res" where
  "gov_feesCollectorAddressRaw G ty sc = readGovernance G ty sc ''getFeesCollectorAddress'' [] asBech32"

definition gov_feesCollectorAddress :: "'c cache_service \<Rightarrow> gateway \<Rightarrow> governance_type \<Rightarrow> string \<Rightarrow> 'c \<Rightarrow> jval res \<times> 'c" where
  "gov_feesCollectorAddress K G ty sc = GetOrSetCache K (historyTimestamp G) ''governance'' ContractStateTtl ''feesCollectorAddress'' [KText sc]
     (uncached (gov_feesCollectorAddressRaw G ty sc))"

definition gov_energyFactoryAddressRaw :: "gateway \<Rightarrow> governance_type \<Rightarrow> string \<Rightarrow> jval res" where
  "gov_energyFactoryAddressRaw G ty sc = readGovernance G ty sc ''getEnergyFactoryAddress'' [] asBech32"

definition gov_energyFactoryAddress :: "'c cache_service \<Rightarrow> gateway \<Rightarrow> governance_type \<Rightarrow> string \<Rightarrow> 'c \<Rightarrow> jval res \<times> 'c" where
  "gov_energyFactoryAddress K G ty sc = GetOrSetCache K (historyTimestamp G) ''governance'' ContractStateTtl ''energyFactoryAddress'' [KText sc]
     (uncached (gov_energyFactoryAddressRaw G ty sc))"

section \<open>The old contract\<close>

text \<open>\<open>GovernanceLKMEXProposal\<close> (\<open>src/modules/governance/entities/lkmex.proposal.ts\<close>).\<close>

definition lkmexVotes :: proposal_votes where
  "lkmexVotes = \<lparr>pvUp = Fin 3615976209993000000000, pvDown = Fin 210776056445000000000, pvDownVeto = Fin 0,
     pvAbstain = Fin 274849971635000000000, pvQuorum = Fin 4101475400000000000000000000000,
     pvTotal = Some (Fin 4101602238073000000000), pvUpPercentage = Some (Fin (8816 / 100)), pvDownPercentage = Some (Fin (513 / 100)),
     pvAbstainPercentage = Some (Fin (670 / 100)), pvDownVetoPercentage = Some (Fin 0)\<rparr>"

definition lkmexProposal :: "(string \<times> jval) list" where
  "lkmexProposal =
     [(''description'', JObject
        [(''title'', JText ''Maiar DEX to transform Into xExchange with New MEX 2.0 Economic Model''),
         (''shortDescription'', JText ''xExchange (Maiar DEX 2.0) presents a set of significant improvements and benefits, while correcting the most important limitations residing in the previous economics model.''),
         (''strapiId'', JNumber (JNum 2)), (''version'', JNumber (JNum 1))]),
      (''votes'', votesObject lkmexVotes),
      (''status'', JText ''Succeeded''),
      (''proposalId'', JNumber (JNum 1)),
      (''proposer'', JText ''erd1ss6u80ruas2phpmr82r42xnkd6rxy40g9jl69frppl4qez9w2jpsqj8x97''),
      (''actions'', JList []),
      (''rootHash'', JText ''''),
      (''totalQuorum'', JAmount (Fin 6742520471308000000000000000000)),
      (''feePayment'', JObject [(''tokenIdentifier'', JText ''LKMEX-aab910''), (''tokenNonce'', JNumber (JNum 0)), (''amount'', JAmount (Fin 0))]),
      (''minimumQuorumPercentage'', JAmount (Fin 0)),
      (''votingDelayInBlocks'', JNumber (JNum 0)),
      (''votingPeriodInBlocks'', JNumber (JNum 101672)),
      (''withdrawPercentageDefeated'', JNumber (JNum 8999)),
      (''proposalStartBlock'', JNumber (JNum 12247307))]"

text \<open>
  \<open>GovernanceAbiFactory.useAbi\<close>: the readers of the old contract are constants, but for the token of the locked assets
  (\<open>lockedTokenID\<close>); the others are the ones above.
\<close>

definition old_energyFactoryAddress :: "string \<Rightarrow> 'c \<Rightarrow> jval res \<times> 'c" where
  "old_energyFactoryAddress sc = uncached (Inr (JText ''''))"

definition abi_energyFactoryAddress :: "'c cache_service \<Rightarrow> gateway \<Rightarrow> governance_type \<Rightarrow> string \<Rightarrow> 'c \<Rightarrow> jval res \<times> 'c" where
  "abi_energyFactoryAddress K G ty sc = (if ty = OLD_ENERGY then old_energyFactoryAddress sc else gov_energyFactoryAddress K G ty sc)"

definition old_feeTokenId :: "('c \<Rightarrow> jval res \<times> 'c) \<Rightarrow> string \<Rightarrow> 'c \<Rightarrow> jval res \<times> 'c" where
  "old_feeTokenId lockedTokenID sc = lockedTokenID"

definition abi_feeTokenId :: "'c cache_service \<Rightarrow> gateway \<Rightarrow> ('c \<Rightarrow> jval res \<times> 'c) \<Rightarrow> governance_type \<Rightarrow> string \<Rightarrow> 'c \<Rightarrow> jval res \<times> 'c" where
  "abi_feeTokenId K G lockedTokenID ty sc = (if ty = OLD_ENERGY then old_feeTokenId lockedTokenID sc else gov_feeTokenId K G ty sc)"

definition old_feesCollectorAddress :: "string \<Rightarrow> 'c \<Rightarrow> jval res \<times> 'c" where
  "old_feesCollectorAddress sc = uncached (Inr (JText ''''))"

definition abi_feesCollectorAddress :: "'c cache_service \<Rightarrow> gateway \<Rightarrow> governance_type \<Rightarrow> string \<Rightarrow> 'c \<Rightarrow> jval res \<times> 'c" where
  "abi_feesCollectorAddress K G ty sc = (if ty = OLD_ENERGY then old_feesCollectorAddress sc else gov_feesCollectorAddress K G ty sc)"

definition old_getAddressShardID :: "string \<Rightarrow> 'c \<Rightarrow> jval res \<times> 'c" where
  "old_getAddressShardID sc = uncached (Inr (JNumber (JNum 1)))"

definition abi_getAddressShardID :: "'c cache_service \<Rightarrow> gateway \<Rightarrow> governance_type \<Rightarrow> string \<Rightarrow> 'c \<Rightarrow> jval res \<times> 'c" where
  "abi_getAddressShardID K G ty sc = (if ty = OLD_ENERGY then old_getAddressShardID sc else gov_getAddressShardID K G sc)"

definition old_minEnergyForPropose :: "string \<Rightarrow> 'c \<Rightarrow> jval res \<times> 'c" where
  "old_minEnergyForPropose sc = uncached (Inr (JAmount (Fin 0)))"

definition abi_minEnergyForPropose :: "'c cache_service \<Rightarrow> gateway \<Rightarrow> governance_type \<Rightarrow> string \<Rightarrow> 'c \<Rightarrow> jval res \<times> 'c" where
  "abi_minEnergyForPropose K G ty sc = (if ty = OLD_ENERGY then old_minEnergyForPropose sc else gov_minEnergyForPropose K G ty sc)"

definition old_minFeeForPropose :: "string \<Rightarrow> 'c \<Rightarrow> jval res \<times> 'c" where
  "old_minFeeForPropose sc = uncached (Inr (JAmount (Fin 0)))"

definition abi_minFeeForPropose :: "'c cache_service \<Rightarrow> gateway \<Rightarrow> governance_type \<Rightarrow> string \<Rightarrow> 'c \<Rightarrow> jval res \<times> 'c" where
  "abi_minFeeForPropose K G ty sc = (if ty = OLD_ENERGY then old_minFeeForPropose sc else gov_minFeeForPropose K G ty sc)"

definition old_proposalRootHash :: "string \<Rightarrow> int \<Rightarrow> 'c \<Rightarrow> jval res \<times> 'c" where
  "old_proposalRootHash sc proposalId = uncached (Inr (JText ''''))"

definition abi_proposalRootHash :: "'c cache_service \<Rightarrow> gateway \<Rightarrow> governance_type \<Rightarrow> string \<Rightarrow> int \<Rightarrow> 'c \<Rightarrow> jval res \<times> 'c" where
  "abi_proposalRootHash K G ty sc proposalId = (if ty = OLD_ENERGY then old_proposalRootHash sc proposalId else gov_proposalRootHash K G ty sc proposalId)"

definition old_proposalStatus :: "string \<Rightarrow> int \<Rightarrow> 'c \<Rightarrow> jval res \<times> 'c" where
  "old_proposalStatus sc proposalId = uncached (Inr (JText ''Succeeded''))"

definition abi_proposalStatus :: "'c cache_service \<Rightarrow> gateway \<Rightarrow> governance_type \<Rightarrow> string \<Rightarrow> int \<Rightarrow> 'c \<Rightarrow> jval res \<times> 'c" where
  "abi_proposalStatus K G ty sc proposalId = (if ty = OLD_ENERGY then old_proposalStatus sc proposalId else gov_proposalStatus K G ty sc proposalId)"

definition old_proposalVotes :: "string \<Rightarrow> int \<Rightarrow> 'c \<Rightarrow> jval res \<times> 'c" where
  "old_proposalVotes sc proposalId = uncached (Inr (votesObject lkmexVotes))"

definition abi_proposalVotes :: "'c cache_service \<Rightarrow> gateway \<Rightarrow> bignumber \<Rightarrow> governance_type \<Rightarrow> string \<Rightarrow> int \<Rightarrow> 'c \<Rightarrow> jval res \<times> 'c" where
  "abi_proposalVotes K G B ty sc proposalId = (if ty = OLD_ENERGY then old_proposalVotes sc proposalId else gov_proposalVotes K G B ty sc proposalId)"

definition old_proposals :: "string \<Rightarrow> 'c \<Rightarrow> jval res \<times> 'c" where
  "old_proposals sc = uncached (Inr (JList [JObject ((''contractAddress'', JText sc) # lkmexProposal)]))"

definition abi_proposals :: "'c cache_service \<Rightarrow> gateway \<Rightarrow> bignumber \<Rightarrow> (string \<Rightarrow> jval res) \<Rightarrow> (abi_value \<Rightarrow> jval res) \<Rightarrow> governance_type \<Rightarrow> string \<Rightarrow> 'c \<Rightarrow> jval res \<times> 'c" where
  "abi_proposals K G B parseJson paymentJson ty sc = (if ty = OLD_ENERGY then old_proposals sc else gov_proposals K G B parseJson paymentJson ty sc)"

definition old_quorum :: "string \<Rightarrow> 'c \<Rightarrow> jval res \<times> 'c" where
  "old_quorum sc = uncached (Inr (JText ''''))"

definition abi_quorum :: "'c cache_service \<Rightarrow> gateway \<Rightarrow> governance_type \<Rightarrow> string \<Rightarrow> 'c \<Rightarrow> jval res \<times> 'c" where
  "abi_quorum K G ty sc = (if ty = OLD_ENERGY then old_quorum sc else gov_quorum K G ty sc)"

definition old_userVotedProposals :: "string \<Rightarrow> string \<Rightarrow> 'c \<Rightarrow> jval res \<times> 'c" where
  "old_userVotedProposals sc userAddress = uncached (Inr (JList []))"

definition abi_userVotedProposals :: "'c cache_service \<Rightarrow> gateway \<Rightarrow> governance_type \<Rightarrow> string \<Rightarrow> string \<Rightarrow> 'c \<Rightarrow> jval res \<times> 'c" where
  "abi_userVotedProposals K G ty sc userAddress = (if ty = OLD_ENERGY then old_userVotedProposals sc userAddress else gov_userVotedProposals K G ty sc userAddress)"

definition old_votingDelayInBlocks :: "string \<Rightarrow> 'c \<Rightarrow> jval res \<times> 'c" where
  "old_votingDelayInBlocks sc = uncached (Inr (JNumber (JNum 0)))"

definition abi_votingDelayInBlocks :: "'c cache_service \<Rightarrow> gateway \<Rightarrow> governance_type \<Rightarrow> string \<Rightarrow> 'c \<Rightarrow> jval res \<times> 'c" where
  "abi_votingDelayInBlocks K G ty sc = (if ty = OLD_ENERGY then old_votingDelayInBlocks sc else gov_votingDelayInBlocks K G ty sc)"

definition old_votingPeriodInBlocks :: "string \<Rightarrow> 'c \<Rightarrow> jval res \<times> 'c" where
  "old_votingPeriodInBlocks sc = uncached (Inr (JNumber (JNum 0)))"

definition abi_votingPeriodInBlocks :: "'c cache_service \<Rightarrow> gateway \<Rightarrow> governance_type \<Rightarrow> string \<Rightarrow> 'c \<Rightarrow> jval res \<times> 'c" where
  "abi_votingPeriodInBlocks K G ty sc = (if ty = OLD_ENERGY then old_votingPeriodInBlocks sc else gov_votingPeriodInBlocks K G ty sc)"

definition old_withdrawPercentageDefeated :: "string \<Rightarrow> 'c \<Rightarrow> jval res \<times> 'c" where
  "old_withdrawPercentageDefeated sc = uncached (Inr (JNumber (JNum 0)))"

definition abi_withdrawPercentageDefeated :: "'c cache_service \<Rightarrow> gateway \<Rightarrow> governance_type \<Rightarrow> string \<Rightarrow> 'c \<Rightarrow> jval res \<times> 'c" where
  "abi_withdrawPercentageDefeated K G ty sc = (if ty = OLD_ENERGY then old_withdrawPercentageDefeated sc else gov_withdrawPercentageDefeated K G ty sc)"

section \<open>Writers\<close>

definition gov_set_userVotedProposals :: "'c cache_service \<Rightarrow> string \<Rightarrow> string \<Rightarrow> jval \<Rightarrow> 'c \<Rightarrow> string \<times> 'c" where
  "gov_set_userVotedProposals K sc userAddress v = setData K (getCacheKey ''governance'' [KText ''userVotedProposals'', KText sc, KText userAddress]) v ContractStateTtl"

definition gov_set_userVoteTypesForContract :: "'c cache_service \<Rightarrow> string \<Rightarrow> string \<Rightarrow> jval \<Rightarrow> 'c \<Rightarrow> string \<times> 'c" where
  "gov_set_userVoteTypesForContract K sc userAddress v = setData K (getCacheKey ''governance'' [KText ''userVoteTypesForContract'', KText sc, KText userAddress]) v ContractStateTtl"

definition gov_set_proposalVotes :: "'c cache_service \<Rightarrow> string \<Rightarrow> int \<Rightarrow> jval \<Rightarrow> 'c \<Rightarrow> string \<times> 'c" where
  "gov_set_proposalVotes K sc proposalId v = setData K (getCacheKey ''governance'' [KText ''proposalVotes'', KText sc, KInt proposalId]) v ContractStateTtl"

definition gov_set_proposals :: "'c cache_service \<Rightarrow> string \<Rightarrow> jval \<Rightarrow> 'c \<Rightarrow> string \<times> 'c" where
  "gov_set_proposals K sc v = setData K (getCacheKey ''governance'' [KText ''proposals'', KText sc]) v ContractStateTtl"

definition gov_set_proposalStatus :: "'c cache_service \<Rightarrow> string \<Rightarrow> int \<Rightarrow> jval \<Rightarrow> 'c \<Rightarrow> string \<times> 'c" where
  "gov_set_proposalStatus K sc proposalId v = setData K (getCacheKey ''governance'' [KText ''proposalStatus'', KText sc, KInt proposalId]) v ContractStateTtl"

section \<open>What the readers return\<close>

definition interfaceAnswers :: "gateway \<Rightarrow> governance_type \<Rightarrow> string \<Rightarrow> bool" where
  "interfaceAnswers G ty sc \<longleftrightarrow> (case governanceInterface ty of None \<Rightarrow> False | Some vw \<Rightarrow> gatewayAnswers G vw sc)"

definition bothTypes :: "string \<Rightarrow> query_arg list \<Rightarrow> (abi_value \<Rightarrow> jval res) \<Rightarrow> jkind \<Rightarrow> bool" where
  "bothTypes f args dec k \<longleftrightarrow> list_all (\<lambda>vw. case map_of vw f of
       Some (ins, t # ts) \<Rightarrow> list_all2 argMatches ins args \<and> decodes t dec k | _ \<Rightarrow> False)
     [governance_energy_views, governance_snapshot_views]"

lemma readGovernance_returns:
  assumes "interfaceAnswers G ty sc" "bothTypes f args dec k"
  shows "returns k (readGovernance G ty sc f args dec)"
  using assms by (cases ty) (auto simp: readGovernance_def interfaceAnswers_def bothTypes_def intro!: readView_returns)

lemma proposalStatusOf_decodes:
  assumes "set (map fst vs) \<subseteq> {''None'', ''Pending'', ''Active'', ''Defeated'', ''DefeatedWithVeto'', ''Succeeded''}"
  shows "decodes (EnumT vs) proposalStatusOf TextR"
proof -
  have "n \<in> set (map fst vs)" if "hasVariant vs n fs" for n fs
    using that by (induction vs) (auto split: if_splits)
  then show ?thesis using assms
    by (auto simp: decodes_def returns_def proposalStatusOf_def toGovernanceProposalStatus_def split: abi_value.splits)
qed

lemmas gov_raw_defs = gov_minFeeForProposeRaw_def gov_quorumRaw_def gov_votingDelayInBlocksRaw_def gov_votingPeriodInBlocksRaw_def
  gov_feeTokenIdRaw_def gov_withdrawPercentageDefeatedRaw_def gov_userVotedProposalsRaw_def gov_proposalStatusRaw_def

text \<open>
  On a contract of either kind that answers as its interface file says, the readers of a governance contract return a value of
  the kind they promise.
\<close>

theorem gov_readers_typed:
  assumes "interfaceAnswers G ty sc"
  shows "returns AmountR (gov_minFeeForProposeRaw G ty sc) \<and>
    returns AmountR (gov_quorumRaw G ty sc) \<and>
    returns NumberR (gov_votingDelayInBlocksRaw G ty sc) \<and>
    returns NumberR (gov_votingPeriodInBlocksRaw G ty sc) \<and>
    returns TextR (gov_feeTokenIdRaw G ty sc) \<and>
    returns NumberR (gov_withdrawPercentageDefeatedRaw G ty sc) \<and>
    returns (ListR NumberR) (gov_userVotedProposalsRaw G ty sc userAddress) \<and>
    returns TextR (gov_proposalStatusRaw G ty sc proposalId)"
  unfolding gov_raw_defs
  by (intro conjI readGovernance_returns [OF assms];
      simp add: bothTypes_def governance_energy_views_def governance_snapshot_views_def decoding proposalStatusOf_decodes)

text \<open>A contract of the energy kind has no root hash.\<close>

lemma energy_root_hash_lacking: "gov_proposalRootHashRaw G ENERGY sc proposalId = Inl TypeError"
  by (simp add: gov_proposalRootHashRaw_def readGovernance_def readView_lacking governance_energy_views_def)

text \<open>
  Every writer of a governance contract reaches the reader of the same name.
\<close>

theorem gov_writers_reach_readers:
  assumes "cache_lib K" "historyTimestamp G = None" "storable v"
  shows "reaches (gov_set_userVotedProposals K sc userAddress v) (gov_userVotedProposals K G ty sc userAddress) v \<and>
    reaches (gov_set_proposalVotes K sc proposalId v) (gov_proposalVotes K G B ty sc proposalId) v \<and>
    reaches (gov_set_proposals K sc v) (gov_proposals K G B parseJson paymentJson ty sc) v \<and>
    reaches (gov_set_proposalStatus K sc proposalId v) (gov_proposalStatus K G ty sc proposalId) v"
  by (intro conjI; simp only: gov_set_userVotedProposals_def gov_set_proposalVotes_def gov_set_proposals_def gov_set_proposalStatus_def
      gov_userVotedProposals_def gov_proposalVotes_def gov_proposals_def gov_proposalStatus_def getCacheKey_def assms(2);
      rule cache_lib.writer_reaches [OF assms(1,3) refl])

end
