(* ===== verification/Governance.thy ===== *)
theory Governance
  imports GovernanceReaders Listing LockReaders Energy
begin

text \<open>
  Votes on proposals (\<open>src/modules/governance\<close>): the snapshots of balances and their Merkle trees
  (\<open>src/utils/merkle-tree/markle-tree.utils.ts\<close>, \<open>governance.token.snapshot.merkle.service.ts\<close>), the transaction of a vote, the
  voting power and the votes of a user (\<open>governance.service.ts\<close>, \<open>governance.compute.service.ts\<close>, \<open>governance.quorum.service.ts\<close>),
  the event of a vote (\<open>src/modules/rabbitmq/handlers/governance.handler.service.ts\<close>) and the queries (\<open>resolvers\<close>).
\<close>

section \<open>Snapshots\<close>

record power_leaf =
  lfAddress :: string
  lfBalance :: nat

text \<open>Addresses and hashes are libraries: the bytes of an address, SHA-256 of bytes, and the tree of \<open>merkletreejs\<close>, in hexadecimal.\<close>

record merkle_lib =
  addressHex :: "string \<Rightarrow> string res"
  sha256 :: "string \<Rightarrow> string"
  treeRoot :: "string list \<Rightarrow> string"
  treeProof :: "string list \<Rightarrow> string \<Rightarrow> string list"

record merkle_tree =
  mtHashes :: "string list"
  mtLeaves :: "power_leaf list"

definition encodeLeaf :: "merkle_lib \<Rightarrow> power_leaf \<Rightarrow> string res" where
  "encodeLeaf M x = res_bind (addressHex M (lfAddress x)) (\<lambda>h.
     Inr (sha256 M (h @ (if lfBalance x = 0 then [] else decimalToHex (lfBalance x)))))"

definition newMerkleTree :: "merkle_lib \<Rightarrow> power_leaf list \<Rightarrow> merkle_tree res" where
  "newMerkleTree M leaves =
     res_bind (res_map (encodeLeaf M) leaves) (\<lambda>hashes. Inr \<lparr>mtHashes = hashes, mtLeaves = leaves\<rparr>)"

definition getUserLeaf :: "merkle_tree \<Rightarrow> string \<Rightarrow> power_leaf option" where
  "getUserLeaf t addr = find (\<lambda>x. lfAddress x = addr) (mtLeaves t)"

definition getRootHash :: "merkle_lib \<Rightarrow> merkle_tree \<Rightarrow> string" where
  "getRootHash M t = treeRoot M (mtHashes t)"

definition getTotalBalance :: "bignumber \<Rightarrow> merkle_tree \<Rightarrow> bn" where
  "getTotalBalance B t = foldl (\<lambda>total leaf. bn_plus B total (bn_of_int (int (lfBalance leaf)))) (Fin 0) (mtLeaves t)"

definition concatProof :: "string list \<Rightarrow> string" where
  "concatProof proof = foldl (\<lambda>s node. s @ drop 2 node) [] proof"

definition getProof :: "merkle_lib \<Rightarrow> merkle_tree \<Rightarrow> power_leaf \<Rightarrow> string list res" where
  "getProof M t leaf = res_bind (encodeLeaf M leaf) (\<lambda>h. Inr (treeProof M (mtHashes t) h))"

definition getProofBuffer :: "merkle_lib \<Rightarrow> merkle_tree \<Rightarrow> power_leaf \<Rightarrow> string res" where
  "getProofBuffer M t leaf = res_bind (getProof M t leaf) (\<lambda>proof. Inr (concatProof proof))"

text \<open>The trees built so far are kept by root hash; \<open>readSnapshot\<close> is the parsed file of a snapshot.\<close>

type_synonym merkle_trees = "string \<rightharpoonup> merkle_tree"

definition createMerkleTree ::
  "merkle_lib \<Rightarrow> (string \<Rightarrow> power_leaf list res) \<Rightarrow> string \<Rightarrow> merkle_trees \<Rightarrow> merkle_tree res \<times> merkle_trees" where
  "createMerkleTree M readSnapshot rootHash trees =
     (case res_bind (readSnapshot rootHash) (newMerkleTree M) of
        Inl e \<Rightarrow> (Inl e, trees)
      | Inr newMT \<Rightarrow>
          if getRootHash M newMT \<noteq> ''0x'' @ rootHash
          then (Inl (JsError ''Computed root hash doesn't match the provided root hash.''), trees)
          else (Inr newMT, trees(rootHash \<mapsto> newMT)))"

definition getMerkleTree ::
  "merkle_lib \<Rightarrow> (string \<Rightarrow> power_leaf list res) \<Rightarrow> string \<Rightarrow> merkle_trees \<Rightarrow> merkle_tree res \<times> merkle_trees" where
  "getMerkleTree M readSnapshot rootHash trees =
     (case trees rootHash of Some t \<Rightarrow> (Inr t, trees) | None \<Rightarrow> createMerkleTree M readSnapshot rootHash trees)"

definition getAddressBalance ::
  "merkle_lib \<Rightarrow> (string \<Rightarrow> power_leaf list res) \<Rightarrow> string \<Rightarrow> string \<Rightarrow> merkle_trees \<Rightarrow> jval res \<times> merkle_trees" where
  "getAddressBalance M readSnapshot rootHash addr trees =
     (case getMerkleTree M readSnapshot rootHash trees of
        (Inl e, trees') \<Rightarrow> (Inl e, trees')
      | (Inr t, trees') \<Rightarrow> (Inr (JAmount (case getUserLeaf t addr of Some leaf \<Rightarrow> bn_of_int (int (lfBalance leaf)) | None \<Rightarrow> Fin 0)), trees'))"

text \<open>Every tree kept was built from the file of its root hash and has that root.\<close>

definition trees_ok :: "merkle_lib \<Rightarrow> (string \<Rightarrow> power_leaf list res) \<Rightarrow> merkle_trees \<Rightarrow> bool" where
  "trees_ok M readSnapshot trees \<longleftrightarrow> (\<forall>r t. trees r = Some t \<longrightarrow>
     res_bind (readSnapshot r) (newMerkleTree M) = Inr t \<and> getRootHash M t = ''0x'' @ r)"

lemma trees_ok_empty: "trees_ok M readSnapshot Map.empty"
  by (simp add: trees_ok_def)

lemma getMerkleTree_ok:
  assumes "trees_ok M readSnapshot trees" "getMerkleTree M readSnapshot r trees = (x, trees')"
  shows "trees_ok M readSnapshot trees' \<and>
    (\<forall>t. x = Inr t \<longrightarrow> res_bind (readSnapshot r) (newMerkleTree M) = Inr t \<and> getRootHash M t = ''0x'' @ r)"
  using assms
  by (auto simp: trees_ok_def getMerkleTree_def createMerkleTree_def split: option.splits sum.splits if_splits)

text \<open>The trees kept do not change what is answered.\<close>

lemma getMerkleTree_memo:
  assumes "trees_ok M readSnapshot trees"
  shows "fst (getMerkleTree M readSnapshot r trees) = fst (getMerkleTree M readSnapshot r Map.empty)"
proof (cases "trees r")
  case None
  obtain y where y: "res_bind (readSnapshot r) (newMerkleTree M) = y" by simp
  show ?thesis unfolding getMerkleTree_def createMerkleTree_def y using None by (cases y) simp_all
next
  case (Some t)
  then have built: "res_bind (readSnapshot r) (newMerkleTree M) = Inr t" and root: "getRootHash M t = ''0x'' @ r"
    using assms by (auto simp only: trees_ok_def)
  show ?thesis unfolding getMerkleTree_def createMerkleTree_def built using Some root by simp
qed

lemma balance_memo:
  assumes "trees_ok M readSnapshot trees"
  shows "fst (getAddressBalance M readSnapshot r addr trees) = fst (getAddressBalance M readSnapshot r addr Map.empty)"
  using getMerkleTree_memo [OF assms, of r]
  by (auto simp: getAddressBalance_def split: prod.splits sum.splits)

section \<open>The transaction of a vote\<close>

record vote_args =
  vaContract :: string
  vaProposal :: int
  vaVote :: vote_type

text \<open>The endpoints that change state; a list of hashes is their bytes one after the other.\<close>

definition governanceEnergyAbi :: abi where
  "governanceEnergyAbi =
    [(''propose'', [One BytesK, Variadic [NumberK, AddressK, BytesK, StructK]], True),
     (''vote'', [One NumberK, One NumberK], False),
     (''cancel'', [One NumberK], False), (''withdrawDeposit'', [One NumberK], False),
     (''changeMinEnergyForProposal'', [One NumberK], False), (''changeMinFeeForProposal'', [One NumberK], False),
     (''changeQuorumPercentage'', [One NumberK], False), (''changeVotingDelayInBlocks'', [One NumberK], False),
     (''changeVotingPeriodInBlocks'', [One NumberK], False), (''setEnergyFactoryAddress'', [One AddressK], False),
     (''addAdmin'', [One AddressK], False), (''removeAdmin'', [One AddressK], False),
     (''updateOwnerOrAdmin'', [One AddressK], False)]"

definition governanceSnapshotAbi :: abi where
  "governanceSnapshotAbi =
    [(''propose'', [One BytesK, One NumberK, One BytesK, Variadic [NumberK, AddressK, BytesK, StructK]], True),
     (''vote'', [One NumberK, One NumberK, One NumberK, One BytesK], False),
     (''cancel'', [One NumberK], False), (''withdrawDeposit'', [One NumberK], False),
     (''changeMinFeeForProposal'', [One NumberK], False), (''changeQuorumPercentage'', [One NumberK], False),
     (''changeVotingDelayInBlocks'', [One NumberK], False), (''changeVotingPeriodInBlocks'', [One NumberK], False)]"

fun rootText :: "jval \<Rightarrow> string" where
  "rootText (JText s) = s"
| "rootText j = []"

text \<open>On a snapshot contract the sender votes with the balance of its leaf; a sender without one has no leaf to read it from.\<close>

definition snapshot_vote ::
  "dex_config \<Rightarrow> 'c cache_service \<Rightarrow> gateway \<Rightarrow> merkle_lib \<Rightarrow> (string \<Rightarrow> power_leaf list res) \<Rightarrow> string \<Rightarrow> vote_args \<Rightarrow>
   'c \<times> merkle_trees \<Rightarrow> transaction res \<times> 'c \<times> merkle_trees" where
  "snapshot_vote cfg K G M readSnapshot sender args s =
     (case gov_proposalRootHash K G TOKEN_SNAPSHOT (vaContract args) (vaProposal args) (fst s) of
        (Inl e, c) \<Rightarrow> (Inl e, c, snd s)
      | (Inr rootHash, c) \<Rightarrow>
          (case getMerkleTree M readSnapshot (rootText rootHash) (snd s) of
             (Inl e, trees) \<Rightarrow> (Inl e, c, trees)
           | (Inr governanceMerkle, trees) \<Rightarrow>
               ((case getUserLeaf governanceMerkle sender of
                   None \<Rightarrow> Inl TypeError
                 | Some addressLeaf \<Rightarrow> res_bind (getProofBuffer M governanceMerkle addressLeaf) (\<lambda>proof.
                     build governanceSnapshotAbi (contract_call cfg (vaContract args) ''vote''
                       [U64V (bn_of_int (vaProposal args)), U64V (bn_of_int (voteNumber (vaVote args))),
                        U64V (bn_of_int (int (lfBalance addressLeaf))), BytesHex proof] (gas cfg ''governance.vote'')))),
                c, trees)))"

definition energy_vote :: "dex_config \<Rightarrow> governance_type \<Rightarrow> vote_args \<Rightarrow> transaction res" where
  "energy_vote cfg ty args =
     (case governanceInterface ty of None \<Rightarrow> Inl TypeError
      | Some vw \<Rightarrow> build governanceEnergyAbi (contract_call cfg (vaContract args) ''vote''
          [U64V (bn_of_int (vaProposal args)), U64V (bn_of_int (voteNumber (vaVote args)))] (gas cfg ''governance.vote'')))"

text \<open>The query \<open>vote\<close>.\<close>

definition governance_vote ::
  "dex_config \<Rightarrow> governance_config \<Rightarrow> 'c cache_service \<Rightarrow> gateway \<Rightarrow> merkle_lib \<Rightarrow> (string \<Rightarrow> power_leaf list res) \<Rightarrow>
   string \<Rightarrow> vote_args \<Rightarrow> 'c \<times> merkle_trees \<Rightarrow> transaction res \<times> 'c \<times> merkle_trees" where
  "governance_vote cfg gcfg K G M readSnapshot sender args s =
     (case governanceType gcfg (vaContract args) of
        None \<Rightarrow> (Inl TypeError, s)
      | Some TOKEN_SNAPSHOT \<Rightarrow> snapshot_vote cfg K G M readSnapshot sender args s
      | Some ty \<Rightarrow> (energy_vote cfg ty args, s))"

section \<open>Voting power\<close>

text \<open>\<open>sqrtB\<close> is the square root of the library.\<close>

definition smoothingFunction :: "governance_config \<Rightarrow> bignumber \<Rightarrow> (bn \<Rightarrow> bn) \<Rightarrow> string \<Rightarrow> bn \<Rightarrow> jval" where
  "smoothingFunction gcfg B sqrtB sc quorum =
     (case governanceSmoothingFunction gcfg sc of
        Some CVADRATIC \<Rightarrow> JAmount (bn_integer B (sqrtB quorum))
      | Some LINEAR \<Rightarrow> JAmount (bn_integer B quorum)
      | None \<Rightarrow> JUndefined)"

text \<open>The reader of a contract by its type; without one there is no service to ask.\<close>

definition useAbi :: "governance_config \<Rightarrow> string \<Rightarrow> (governance_type \<Rightarrow> 'c \<Rightarrow> jval res \<times> 'c) \<Rightarrow> 'c \<Rightarrow> jval res \<times> 'c" where
  "useAbi gcfg contractAddress f =
     (case governanceType gcfg contractAddress of None \<Rightarrow> uncached (Inl TypeError) | Some ty \<Rightarrow> f ty)"

definition gov_feeToken ::
  "governance_config \<Rightarrow> 'c cache_service \<Rightarrow> gateway \<Rightarrow> ('c \<Rightarrow> jval res \<times> 'c) \<Rightarrow> (string \<Rightarrow> 'c \<Rightarrow> jval res \<times> 'c) \<Rightarrow>
   string \<Rightarrow> 'c \<Rightarrow> jval res \<times> 'c" where
  "gov_feeToken gcfg K G lockedTokenID getTokenMetadata contractAddress =
     cache_then (useAbi gcfg contractAddress (\<lambda>ty. abi_feeTokenId K G lockedTokenID ty contractAddress))
       (\<lambda>feeTokenId. getTokenMetadata (rootText feeTokenId))"

text \<open>The text of a whole amount.\<close>

fun amountText :: "bn \<Rightarrow> string" where
  "amountText (Fin x) = showInt \<lfloor>x\<rfloor>"
| "amountText PosInf = ''Infinity''"
| "amountText NegInf = ''-Infinity''"
| "amountText NotANum = ''NaN''"

definition votingPowerDecimalsOf :: "governance_config \<Rightarrow> bignumber \<Rightarrow> (bn \<Rightarrow> bn) \<Rightarrow> string \<Rightarrow> jval \<Rightarrow> jval res" where
  "votingPowerDecimalsOf gcfg B sqrtB sc feeToken =
     res_bind (jsMember ''decimals'' feeToken) (\<lambda>d.
       case d of
         JNumber (JNum x) \<Rightarrow>
           (case smoothingFunction gcfg B sqrtB sc (bn_pow B (Fin 10) (nat \<lfloor>x\<rfloor>)) of
              JAmount smoothedOneUnit \<Rightarrow> Inr (JNumber (jint (int (length (amountText smoothedOneUnit)) - 1)))
            | _ \<Rightarrow> Inl TypeError)
       | _ \<Rightarrow> Inl (JsError ''[BigNumber Error] Exponent not an integer''))"

definition gov_votingPowerDecimals ::
  "governance_config \<Rightarrow> 'c cache_service \<Rightarrow> gateway \<Rightarrow> bignumber \<Rightarrow> (bn \<Rightarrow> bn) \<Rightarrow> ('c \<Rightarrow> jval res \<times> 'c) \<Rightarrow>
   (string \<Rightarrow> 'c \<Rightarrow> jval res \<times> 'c) \<Rightarrow> string \<Rightarrow> 'c \<Rightarrow> jval res \<times> 'c" where
  "gov_votingPowerDecimals gcfg K G B sqrtB lockedTokenID getTokenMetadata sc =
     GetOrSetCache K (historyTimestamp G) ''governance'' ContractStateTtl ''votingPowerDecimals'' [KText sc]
       (cache_then (gov_feeToken gcfg K G lockedTokenID getTokenMetadata sc)
         (\<lambda>feeToken. uncached (votingPowerDecimalsOf gcfg B sqrtB sc feeToken)))"

text \<open>The quorum of a user: the energy, or the balance of the snapshot (\<open>balanceOf\<close>, \<open>getAddressBalance\<close> above).\<close>

definition userQuorum ::
  "governance_config \<Rightarrow> 'c cache_service \<Rightarrow> gateway \<Rightarrow> (string \<Rightarrow> string \<Rightarrow> jval res) \<Rightarrow> string \<Rightarrow> string \<Rightarrow> string \<Rightarrow>
   'c \<Rightarrow> jval res \<times> 'c" where
  "userQuorum gcfg K G balanceOf contractAddress userAddress rootHash =
     (case governanceType gcfg contractAddress of
        Some ENERGY \<Rightarrow> energy_energyAmountForUser K G userAddress
      | Some TOKEN_SNAPSHOT \<Rightarrow> uncached (balanceOf rootHash userAddress)
      | _ \<Rightarrow> uncached (Inr JUndefined))"

fun bigAmount :: "jval \<Rightarrow> bn" where
  "bigAmount (JAmount x) = x"
| "bigAmount j = NotANum"

definition snapshot_userVotingPower ::
  "governance_config \<Rightarrow> 'c cache_service \<Rightarrow> gateway \<Rightarrow> bignumber \<Rightarrow> (bn \<Rightarrow> bn) \<Rightarrow> (string \<Rightarrow> string \<Rightarrow> jval res) \<Rightarrow>
   string \<Rightarrow> int \<Rightarrow> string \<Rightarrow> 'c \<Rightarrow> jval res \<times> 'c" where
  "snapshot_userVotingPower gcfg K G B sqrtB balanceOf contractAddress proposalId userAddress =
     GetOrSetCache K (historyTimestamp G) ''governance'' ContractStateTtl ''userVotingPower''
       [KText contractAddress, KInt proposalId, KText userAddress]
       (cache_then (useAbi gcfg contractAddress (\<lambda>ty. abi_proposalRootHash K G ty contractAddress proposalId)) (\<lambda>rootHash.
        cache_then (userQuorum gcfg K G balanceOf contractAddress userAddress (rootText rootHash)) (\<lambda>quorum.
        uncached (Inr (smoothingFunction gcfg B sqrtB contractAddress (bigAmount quorum))))))"

text \<open>The power of an energy contract: the energy of the user now (\<open>Energy.getUserEnergy\<close>).\<close>

definition energy_userVotingPower ::
  "governance_config \<Rightarrow> 'c cache_service \<Rightarrow> gateway \<Rightarrow> bignumber \<Rightarrow> (bn \<Rightarrow> bn) \<Rightarrow> (string \<Rightarrow> energy_entry) \<Rightarrow> (string \<Rightarrow> energy_entry) \<Rightarrow> int \<Rightarrow>
   string \<Rightarrow> int \<Rightarrow> string \<Rightarrow> 'c \<Rightarrow> jval res \<times> 'c" where
  "energy_userVotingPower gcfg K G B sqrtB entryRaw entryForUser epoch contractAddress proposalId userAddress =
     GetOrSetCache K (historyTimestamp G) ''governance'' ContractStateTtl ''userVotingPower''
       [KText contractAddress, KInt proposalId, KText userAddress]
       (uncached (Inr (smoothingFunction gcfg B sqrtB contractAddress
          (enAmount (getUserEnergy B entryRaw entryForUser epoch userAddress False)))))"

section \<open>The votes of a user\<close>

definition userVoteTypesForContract :: "'c cache_service \<Rightarrow> gateway \<Rightarrow> string \<Rightarrow> string \<Rightarrow> 'c \<Rightarrow> jval res \<times> 'c" where
  "userVoteTypesForContract K G sc userAddress =
     GetOrSetCache K (historyTimestamp G) ''governance'' ContractStateTtl ''userVoteTypesForContract'' [KText sc, KText userAddress]
       (uncached (Inr (JList [])))"

text \<open>An entry of the list: a proposal and a vote.\<close>

definition voteEntry :: "int \<Rightarrow> vote_type \<Rightarrow> jval" where
  "voteEntry proposalId vt = JObject [(''proposalId'', JNumber (jint proposalId)), (''vote'', JNumber (jint (voteNumber vt)))]"

definition isAbout :: "int \<Rightarrow> jval \<Rightarrow> bool" where
  "isAbout proposalId entry \<longleftrightarrow> jsMember ''proposalId'' entry = Inr (JNumber (jint proposalId))"

text \<open>
  The log of a vote is asked of the search index: the events of the logs found, each with its identifier and topics;
  \<open>atob\<close> decodes a topic.
\<close>

definition voteOfLogs :: "governance_events \<Rightarrow> (string \<Rightarrow> string res) \<Rightarrow> (string \<times> string list) list list \<Rightarrow> vote_type res" where
  "voteOfLogs E atob logs =
     (case logs of [] \<Rightarrow> Inr NotVoted
      | events # _ \<Rightarrow>
          (case find (\<lambda>(identifier, topics). identifier = ''vote'') events of
             Some (identifier, topic # topics) \<Rightarrow> res_bind (atob topic) (\<lambda>ev. Inr (toVoteType E ev))
           | _ \<Rightarrow> Inl TypeError))"

definition userVotedProposalsWithVoteType ::
  "'c cache_service \<Rightarrow> gateway \<Rightarrow> governance_events \<Rightarrow> (string \<Rightarrow> string res) \<Rightarrow>
   (string \<Rightarrow> string \<Rightarrow> int \<Rightarrow> (string \<times> string list) list list res) \<Rightarrow> string \<Rightarrow> string \<Rightarrow> int \<Rightarrow> 'c \<Rightarrow> jval res \<times> 'c" where
  "userVotedProposalsWithVoteType K G E atob getVoteLog sc userAddress proposalId c =
     (case userVoteTypesForContract K G sc userAddress c of
        (Inr (JList entries), c1) \<Rightarrow>
          (case find (isAbout proposalId) entries of
             Some entry \<Rightarrow> (jsMember ''vote'' entry, c1)
           | None \<Rightarrow>
               (case res_bind (getVoteLog sc userAddress proposalId) (voteOfLogs E atob) of
                  Inl e \<Rightarrow> (Inl e, c1)
                | Inr vt \<Rightarrow>
                    (Inr (JNumber (jint (voteNumber vt))),
                     snd (gov_set_userVoteTypesForContract K sc userAddress (JList (entries @ [voteEntry proposalId vt])) c1))))
      | (Inr j, c1) \<Rightarrow> (Inl TypeError, c1)
      | (Inl e, c1) \<Rightarrow> (Inl e, c1))"


definition userVote ::
  "'c cache_service \<Rightarrow> gateway \<Rightarrow> governance_events \<Rightarrow> (string \<Rightarrow> string res) \<Rightarrow>
   (string \<Rightarrow> string \<Rightarrow> int \<Rightarrow> (string \<times> string list) list list res) \<Rightarrow> string \<Rightarrow> int \<Rightarrow> string option \<Rightarrow> 'c \<Rightarrow> jval res \<times> 'c" where
  "userVote K G E atob getVoteLog contractAddress proposalId userAddress =
     (case userAddress of
        None \<Rightarrow> uncached (Inr (JNumber (jint (voteNumber NotVoted))))
      | Some [] \<Rightarrow> uncached (Inr (JNumber (jint (voteNumber NotVoted))))
      | Some user \<Rightarrow> userVotedProposalsWithVoteType K G E atob getVoteLog contractAddress user proposalId)"

section \<open>The event of a vote\<close>

record vote_event =
  veAddress :: string
  veVoter :: string
  veProposal :: int
  veVotes :: bn
  veQuorum :: bn

text \<open>The totals and one count grow; a vote with a veto is counted among the votes against.\<close>

definition addVotes :: "governance_events \<Rightarrow> bignumber \<Rightarrow> vote_event \<Rightarrow> string \<Rightarrow> proposal_votes \<Rightarrow> proposal_votes" where
  "addVotes E B event voteType p =
     (let totalVotes = bn_plus B (numberOf (pvTotal p)) (veVotes event);
          p1 = p\<lparr>pvTotal := Some totalVotes, pvQuorum := bn_plus B (pvQuorum p) (veQuorum event)\<rparr>;
          p2 = (if voteType = evUp E then p1\<lparr>pvUp := bn_plus B (pvUp p1) (veVotes event)\<rparr>
                else if voteType = evDown E then p1\<lparr>pvDown := bn_plus B (pvDown p1) (veVotes event)\<rparr>
                else if voteType = evAbstain E then p1\<lparr>pvAbstain := bn_plus B (pvAbstain p1) (veVotes event)\<rparr>
                else if voteType = evDownVeto E then p1\<lparr>pvDown := bn_plus B (pvDown p1) (veVotes event)\<rparr>
                else p1)
      in p2\<lparr>pvUpPercentage := Some (votePercentage B (pvUp p2) totalVotes),
            pvDownPercentage := Some (votePercentage B (pvDown p2) totalVotes),
            pvAbstainPercentage := Some (votePercentage B (pvAbstain p2) totalVotes)\<rparr>)"





section \<open>What a vote changes\<close>









abbreviation votedKey :: "string \<Rightarrow> string \<Rightarrow> string" where
  "votedKey sc userAddress \<equiv> generateCacheKeyFromParams [KText ''governance'', KText ''userVotedProposals'', KText sc, KText userAddress]"


abbreviation votesKey :: "string \<Rightarrow> int \<Rightarrow> string" where
  "votesKey sc proposalId \<equiv> generateCacheKeyFromParams [KText ''governance'', KText ''proposalVotes'', KText sc, KInt proposalId]"





text \<open>
  C40. An event adds its votes to the total and to one count, so that the counts keep adding up to the total, but a vote with a
  veto is counted among the plain votes against: the vetoes and their percentage never change.
\<close>

theorem votes_add_up:
  assumes "bignumber_lib B" "distinct [evUp E, evDown E, evDownVeto E, evAbstain E]"
    and "p = \<lparr>pvUp = Fin u, pvDown = Fin d, pvDownVeto = Fin v, pvAbstain = Fin a, pvQuorum = Fin q, pvTotal = Some (Fin (u + d + v + a)),
      pvUpPercentage = pu, pvDownPercentage = pd, pvAbstainPercentage = pa, pvDownVetoPercentage = pv\<rparr>"
    and "veVotes event = Fin n" "veQuorum event = Fin m" "0 \<le> u + d + v + a" "0 < n"
    and "voteType \<in> {evUp E, evDown E, evDownVeto E, evAbstain E}"
  shows "\<exists>u' d' a'. addVotes E B event voteType p =
      p\<lparr>pvUp := Fin u', pvDown := Fin d', pvAbstain := Fin a', pvQuorum := Fin (q + m), pvTotal := Some (Fin (u' + d' + v + a')),
        pvUpPercentage := Some (Fin (round_dp 2 (round_dp 20 (u' / (u' + d' + v + a')) * 100))),
        pvDownPercentage := Some (Fin (round_dp 2 (round_dp 20 (d' / (u' + d' + v + a')) * 100))),
        pvAbstainPercentage := Some (Fin (round_dp 2 (round_dp 20 (a' / (u' + d' + v + a')) * 100)))\<rparr> \<and>
    u' + d' + v + a' = u + d + v + a + n \<and>
    u' = (if voteType = evUp E then u + n else u) \<and>
    d' = (if voteType \<in> {evDown E, evDownVeto E} then d + n else d) \<and>
    a' = (if voteType = evAbstain E then a + n else a)"
proof -
  define u' d' a' where new: "u' = (if voteType = evUp E then u + n else u)"
    "d' = (if voteType \<in> {evDown E, evDownVeto E} then d + n else d)" "a' = (if voteType = evAbstain E then a + n else a)"
  have total: "u' + d' + v + a' = u + d + v + a + n" using assms(2,8) by (auto simp: new)
  then have nonzero: "u' + d' + v + a' \<noteq> 0" using assms(6,7) by simp
  have hundred: "bn_number B 100 = Fin 100" using bignumber_lib.number_numeral [OF assms(1), of "num.Bit0 (num.Bit0 (num.Bit1 (num.Bit0 (num.Bit0 (num.Bit1 num.One)))))"] by simp
  note fin = bignumber_lib.plus_fin [OF assms(1)] bignumber_lib.times_fin [OF assms(1)] bignumber_lib.fixed_fin [OF assms(1)]
  have pct: "votePercentage B (Fin x) (Fin (u + d + v + a + n)) = Fin (round_dp 2 (round_dp 20 (x / (u + d + v + a + n)) * 100))" for x
    using bignumber_lib.div_fin [OF assms(1), of "u + d + v + a + n" x] nonzero unfolding total
    by (simp add: votePercentage_def hundred fin)
  have "addVotes E B event voteType p =
      p\<lparr>pvUp := Fin u', pvDown := Fin d', pvAbstain := Fin a', pvQuorum := Fin (q + m), pvTotal := Some (Fin (u + d + v + a + n)),
        pvUpPercentage := Some (votePercentage B (Fin u') (Fin (u + d + v + a + n))),
        pvDownPercentage := Some (votePercentage B (Fin d') (Fin (u + d + v + a + n))),
        pvAbstainPercentage := Some (votePercentage B (Fin a') (Fin (u + d + v + a + n)))\<rparr>"
    using assms(2,8) by (auto simp: addVotes_def assms(3-5) new fin Let_def)
  then show ?thesis unfolding pct
    by (intro exI [of _ u'] exI [of _ d'] exI [of _ a']) (simp only: total new [symmetric] simp_thms)
qed

text \<open>Votes that start from the default have no total, so it is no number, and neither are the percentages.\<close>

lemma default_votes_no_number:
  assumes "\<And>x. bn_plus B NotANum x = NotANum" "\<And>x. bn_div B x NotANum = NotANum" "\<And>x. bn_times B NotANum x = NotANum" "bn_fixed B 2 NotANum = NotANum"
  shows "pvTotal (addVotes E B event voteType default_votes) = Some NotANum"
    "pvUpPercentage (addVotes E B event voteType default_votes) = Some NotANum"
  by (simp_all add: addVotes_def default_votes_def Let_def votePercentage_def assms)

text \<open>
  C39. A vote on a snapshot contract is served only to a sender in the snapshot: with the balance and the proof of the first leaf
  of the sender in the tree with the root hash of the proposal. One on an energy contract always is, one on the old
  contract never. The transaction is one call to the contract that its interface takes.
\<close>

theorem vote_served:
  assumes "trees_ok M readSnapshot trees"
    and "governance_vote cfg gcfg K G M readSnapshot sender args (c, trees) = (r, c', trees')"
  shows "trees_ok M readSnapshot trees' \<and>
    (case governanceType gcfg (vaContract args) of
       Some ENERGY \<Rightarrow> \<exists>t. r = Inr t \<and> fits governanceEnergyAbi t \<and> receiver t = vaContract args \<and> endpoint t = ''vote'' \<and>
         endpointArgs t = [U64V (bn_of_int (vaProposal args)), U64V (bn_of_int (voteNumber (vaVote args)))]
     | Some TOKEN_SNAPSHOT \<Rightarrow> \<forall>t. r = Inr t \<longrightarrow> (\<exists>root tree leaf proof.
         fst (gov_proposalRootHash K G TOKEN_SNAPSHOT (vaContract args) (vaProposal args) c) = Inr root \<and>
         getRootHash M tree = ''0x'' @ rootText root \<and> getUserLeaf tree sender = Some leaf \<and> lfAddress leaf = sender \<and>
         getProofBuffer M tree leaf = Inr proof \<and> fits governanceSnapshotAbi t \<and> receiver t = vaContract args \<and> endpoint t = ''vote'' \<and>
         endpointArgs t = [U64V (bn_of_int (vaProposal args)), U64V (bn_of_int (voteNumber (vaVote args))),
           U64V (bn_of_int (int (lfBalance leaf))), BytesHex proof])
     | _ \<Rightarrow> r = Inl TypeError)"
proof (cases "governanceType gcfg (vaContract args)")
  case None
  then show ?thesis using assms by (auto simp: governance_vote_def)
next
  case (Some ty)
  show ?thesis
  proof (cases ty)
    case ENERGY
    then show ?thesis using assms Some
      by (auto simp: governance_vote_def energy_vote_def build_def governanceEnergyAbi_def fits_def)
  next
    case OLD_ENERGY
    then show ?thesis using assms Some by (auto simp: governance_vote_def energy_vote_def)
  next
    case TOKEN_SNAPSHOT
    have served: "snapshot_vote cfg K G M readSnapshot sender args (c, trees) = (r, c', trees')"
      using assms(2) Some TOKEN_SNAPSHOT by (simp add: governance_vote_def)
    obtain r1 c1 where root: "gov_proposalRootHash K G TOKEN_SNAPSHOT (vaContract args) (vaProposal args) c = (r1, c1)"
      by fastforce
    show ?thesis
    proof (cases r1)
      case (Inl e)
      then show ?thesis using served assms(1) Some TOKEN_SNAPSHOT by (auto simp: snapshot_vote_def root)
    next
      case (Inr rt)
      obtain x trees1 where tree: "getMerkleTree M readSnapshot (rootText rt) trees = (x, trees1)" by fastforce
      note ok = getMerkleTree_ok [OF assms(1) tree]
      show ?thesis
      proof (cases x)
        case (Inl e)
        then show ?thesis using served ok Some TOKEN_SNAPSHOT by (auto simp: snapshot_vote_def root Inr tree)
      next
        case (Inr mt)
        then have "getRootHash M mt = ''0x'' @ rootText rt" using ok by simp
        then show ?thesis using served ok Some TOKEN_SNAPSHOT \<open>r1 = Inr rt\<close>
          by (auto simp: snapshot_vote_def root tree Inr build_def governanceSnapshotAbi_def fits_def getUserLeaf_def
              dest: find_Some_set split: option.splits intro!: exI [of _ mt])
      qed
    qed
  qed
qed

section \<open>Queries\<close>

text \<open>\<open>getGovernanceContracts\<close>: the contracts of the table that pass the filters; the old contract is shown as an energy contract.\<close>

datatype governance_contract = GovernanceEnergyContract string | GovernanceTokenSnapshotContract string

fun contractOf :: "governance_type \<Rightarrow> string \<Rightarrow> governance_contract" where
  "contractOf ENERGY addr = GovernanceEnergyContract addr"
| "contractOf TOKEN_SNAPSHOT addr = GovernanceTokenSnapshotContract addr"
| "contractOf OLD_ENERGY addr = GovernanceEnergyContract addr"

definition getGovernanceContracts ::
  "governance_config \<Rightarrow> string list option \<Rightarrow> governance_type option \<Rightarrow> governance_contract list res" where
  "getGovernanceContracts gcfg contractsFilter typeFilter =
     res_bind (governanceContractsAddresses gcfg None) (\<lambda>all.
       let governanceAddresses = (case contractsFilter of Some cs \<Rightarrow> filter (\<lambda>addr. addr \<in> set cs) all | None \<Rightarrow> all)
       in Inr (List.map_filter (\<lambda>addr.
            case governanceType gcfg addr of None \<Rightarrow> None
            | Some ty \<Rightarrow> if typeFilter \<noteq> None \<and> typeFilter \<noteq> Some ty then None else Some (contractOf ty addr))
            governanceAddresses))"

text \<open>A proposal number of zero is no filter.\<close>

definition contract_proposals ::
  "governance_config \<Rightarrow> 'c cache_service \<Rightarrow> gateway \<Rightarrow> bignumber \<Rightarrow> (string \<Rightarrow> jval res) \<Rightarrow> (abi_value \<Rightarrow> jval res) \<Rightarrow> string \<Rightarrow>
   int option \<Rightarrow> 'c \<Rightarrow> jval res \<times> 'c" where
  "contract_proposals gcfg K G B parseJson paymentJson contractAddress proposalId =
     cache_then (useAbi gcfg contractAddress (\<lambda>ty. abi_proposals K G B parseJson paymentJson ty contractAddress)) (\<lambda>proposals.
       uncached (case proposalId of
           None \<Rightarrow> Inr proposals
         | Some n \<Rightarrow> if n = 0 then Inr proposals
             else (case proposals of JList ps \<Rightarrow> Inr (JList (filter (isAbout n) ps)) | _ \<Rightarrow> Inl TypeError)))"

text \<open>\<open>GovernanceServiceFactory.userService\<close>: which service answers for a contract.\<close>

definition userService :: "governance_config \<Rightarrow> string \<Rightarrow> ('c \<Rightarrow> jval res \<times> 'c) \<Rightarrow> ('c \<Rightarrow> jval res \<times> 'c) \<Rightarrow> 'c \<Rightarrow> jval res \<times> 'c" where
  "userService gcfg contractAddress energyService snapshotService =
     (case governanceType gcfg contractAddress of
        None \<Rightarrow> uncached (Inl TypeError)
      | Some TOKEN_SNAPSHOT \<Rightarrow> snapshotService
      | Some ty \<Rightarrow> energyService)"

definition proposal_hasVoted ::
  "governance_config \<Rightarrow> 'c cache_service \<Rightarrow> gateway \<Rightarrow> governance_events \<Rightarrow> (string \<Rightarrow> string res) \<Rightarrow>
   (string \<Rightarrow> string \<Rightarrow> int \<Rightarrow> (string \<times> string list) list list res) \<Rightarrow> string \<Rightarrow> int \<Rightarrow> string option \<Rightarrow> 'c \<Rightarrow> jval res \<times> 'c" where
  "proposal_hasVoted gcfg K G E atob getVoteLog contractAddress proposalId user =
     (let vote = userVote K G E atob getVoteLog contractAddress proposalId user
      in cache_then (userService gcfg contractAddress vote vote)
           (\<lambda>userVoteType. uncached (Inr (JBool (userVoteType \<noteq> JNumber (jint (voteNumber NotVoted)))))))"

text \<open>On a linear contract a user votes with whole units of the token, on the others with their square root: decimals are kept, or are those of the root
  of a unit.\<close>

lemma power_of_ten_text: "length (amountText (Fin (10 ^ k))) = k + 1"
proof -
  have "length (digits (10 ^ k)) = k + 1" for k
  proof (induction k)
    case 0
    show ?case by (simp add: digits.simps)
  next
    case (Suc k)
    have "digits (10 ^ Suc k) = digits (10 ^ k) @ [char_of (48 + (10::nat) ^ Suc k mod 10)]"
      by (subst digits.simps) simp
    with Suc show ?case by simp
  qed
  moreover have "\<lfloor>(10::rat) ^ k\<rfloor> = int (10 ^ k)"
    by (metis floor_of_int of_int_of_nat_eq of_nat_numeral of_nat_power)
  ultimately show ?thesis by (simp add: showInt_def nat_power_eq)
qed

lemma voting_power_decimals:
  assumes "bignumber_lib B" "jsMember ''decimals'' feeToken = Inr (JNumber (jint (int d)))"
  shows "governanceSmoothingFunction gcfg sc = Some LINEAR \<Longrightarrow>
      votingPowerDecimalsOf gcfg B sqrtB sc feeToken = Inr (JNumber (jint (int d)))"
    and "governanceSmoothingFunction gcfg sc = Some CVADRATIC \<Longrightarrow> sqrtB (Fin (10 ^ d)) = Fin (10 ^ k) \<Longrightarrow>
      votingPowerDecimalsOf gcfg B sqrtB sc feeToken = Inr (JNumber (jint (int k)))"
proof -
  have whole: "bn_integer B (Fin (10 ^ j)) = Fin (10 ^ j)" for j :: nat
    using bignumber_lib.integer_fin [OF assms(1), of "10 ^ j"] half_up_of_int [of "10 ^ j"] by simp
  have pow: "bn_pow B (Fin 10) d = Fin (10 ^ d)" by (rule bignumber_lib.pow_fin [OF assms(1)])
  show "governanceSmoothingFunction gcfg sc = Some LINEAR \<Longrightarrow>
      votingPowerDecimalsOf gcfg B sqrtB sc feeToken = Inr (JNumber (jint (int d)))"
    using power_of_ten_text [of d] by (simp add: votingPowerDecimalsOf_def assms(2) smoothingFunction_def pow whole)
  have decimals: "votingPowerDecimalsOf gcfg B sqrtB sc feeToken =
      (case smoothingFunction gcfg B sqrtB sc (Fin (10 ^ d)) of
         JAmount u \<Rightarrow> Inr (JNumber (jint (int (length (amountText u)) - 1))) | _ \<Rightarrow> Inl TypeError)"
    by (simp add: votingPowerDecimalsOf_def assms(2) pow)
  assume "governanceSmoothingFunction gcfg sc = Some CVADRATIC" and "sqrtB (Fin (10 ^ d)) = Fin (10 ^ k)"
  then show "votingPowerDecimalsOf gcfg B sqrtB sc feeToken = Inr (JNumber (jint (int k)))"
    using power_of_ten_text [of k] unfolding decimals by (simp add: smoothingFunction_def whole)
qed

section \<open>The hypotheses hold on an instance\<close>

definition demo_events :: governance_events where
  "demo_events = \<lparr>evUp = ''upVote'', evDown = ''downVote'', evDownVeto = ''downVetoVote'', evAbstain = ''abstainVote''\<rparr>"

definition demo_governance :: governance_config where
  "demo_governance = [(''tokenSnapshot'', [(''linear'', [''erd1gov''])])]"

definition demo_vote :: vote_event where
  "demo_vote = \<lparr>veAddress = ''erd1gov'', veVoter = ''erd1voter'', veProposal = 1, veVotes = Fin 5, veQuorum = Fin 5\<rparr>"

definition demo_cache :: "string \<rightharpoonup> jval" where
  "demo_cache = [votedKey ''erd1gov'' ''erd1voter'' \<mapsto> JList [], votesKey ''erd1gov'' 1 \<mapsto> votesObject lkmexVotes,
     generateCacheKeyFromParams [KText ''governance'', KText ''proposalRootHash'', KText ''erd1gov'', KInt 1] \<mapsto> JText ''ab'']"



theorem votes_add_up_witness:
  "pvDown (addVotes demo_events bn_js demo_vote ''downVetoVote'' lkmexVotes) = Fin 210776056445000000005"
proof -
  have p: "lkmexVotes = \<lparr>pvUp = Fin 3615976209993000000000, pvDown = Fin 210776056445000000000, pvDownVeto = Fin 0,
     pvAbstain = Fin 274849971635000000000, pvQuorum = Fin 4101475400000000000000000000000,
     pvTotal = Some (Fin (3615976209993000000000 + 210776056445000000000 + 0 + 274849971635000000000)), pvUpPercentage = Some (Fin (8816 / 100)), pvDownPercentage = Some (Fin (513 / 100)),
     pvAbstainPercentage = Some (Fin (670 / 100)), pvDownVetoPercentage = Some (Fin 0)\<rparr>"
    by (simp add: lkmexVotes_def)
  show ?thesis
    using votes_add_up [OF js.bignumber_lib_axioms _ p, of demo_events demo_vote 5 5 "''downVetoVote''"]
    by (force simp: demo_events_def demo_vote_def)
qed

definition demo_merkle :: merkle_lib where
  "demo_merkle = \<lparr>addressHex = Inr, sha256 = id, treeRoot = (\<lambda>hs. ''0xab''), treeProof = (\<lambda>hs h. [''0xcd''])\<rparr>"

theorem vote_served_witness:
  "\<exists>t s. governance_vote demo_cfg demo_governance map_cache (typicalGateway [] []) demo_merkle (\<lambda>_. Inr [\<lparr>lfAddress = ''erd1voter'', lfBalance = 7\<rparr>])
     ''erd1voter'' \<lparr>vaContract = ''erd1gov'', vaProposal = 1, vaVote = UpVote\<rparr> (demo_cache, Map.empty) = (Inr t, s) \<and>
   fits governanceSnapshotAbi t"
proof -
  let ?v = "governance_vote demo_cfg demo_governance map_cache (typicalGateway [] []) demo_merkle (\<lambda>_. Inr [\<lparr>lfAddress = ''erd1voter'', lfBalance = 7\<rparr>])
     ''erd1voter'' \<lparr>vaContract = ''erd1gov'', vaProposal = 1, vaVote = UpVote\<rparr> (demo_cache, Map.empty)"
  have "demo_cache (generateCacheKeyFromParams [KText ''governance'', KText ''proposalRootHash'', KText ''erd1gov'', KInt 1]) = Some (JText ''ab'')"
    by (simp add: demo_cache_def)
  then have "\<exists>t s. ?v = (Inr t, s)"
    by (simp add: governance_vote_def demo_governance_def toTypeEnum_def snapshot_vote_def gov_proposalRootHash_def GetOrSetCache_def map_cache_def
        getMerkleTree_def createMerkleTree_def newMerkleTree_def encodeLeaf_def demo_merkle_def getRootHash_def getUserLeaf_def
        getProofBuffer_def getProof_def build_def governanceSnapshotAbi_def)
  then obtain t c' trees' where v: "?v = (Inr t, c', trees')" by auto
  from vote_served [OF trees_ok_empty v, THEN conjunct2] have "fits governanceSnapshotAbi t"
    by (auto simp: demo_governance_def toTypeEnum_def)
  with v show ?thesis by blast
qed

end
