(* ===== verification/Spec2Isabelle.thy ===== *)
theory Spec2Isabelle
  imports UserEnergy FarmService TransactionProcessor LogsProcessor PendingExecutor Abi LockedTokens EnergyTransactions Escrow LockedAssets StakingProxy ProxyTransactions PriceDiscoveryReaders PairReaders FarmReaders StakingReaders LockReaders RouterReaders Governance
begin

text \<open>
  The MultiversX exchange service (\<open>src/src\<close>) is a GraphQL server in TypeScript in front of the
  contracts of a decentralised exchange. It keeps no ledger: its services read contract state
  through readers (\<open>*.abi.service.ts\<close>), compute prices, yields and rewards, and answer queries of users with
  unsigned transactions. Scheduled jobs (\<open>services/crons\<close>) and handlers of chain events
  (\<open>modules/rabbitmq\<close>) keep caches and time series up to date. The development models the logic between
  these two borders: the functions of the services, the transactions they build and the jobs with state.

  Reading the model.
  A service method is a function of the same name (with a prefix or a version suffix where two
  services use one name). What it reads from contracts, caches, the API and configuration comes in as records
  of functions (\<open>chain_view\<close>, \<open>farm_view\<close>, \<open>week_view\<close>, \<open>stake_view\<close>, \<open>simple_lock_view\<close>,
  \<open>escrow_chain\<close>, \<open>proxy_view\<close>, \<open>pd_view\<close>, \<open>dex_config\<close>): one field per reader. State that outlives a call, such as the
  cache of routes, the cached lists of the escrow, the saved timestamp of a job or the pending executions, is passed
  explicitly or is the state of a step relation. A thrown exception is the left side of \<open>'a res\<close>
  (\<open>DexPrelude\<close>); \<open>undefined\<close> is \<open>None\<close>, or \<open>TypeError\<close> where the code reads a property of it.
  A transaction is the call described to the builder of \<open>@multiversx/sdk-core\<close>: receiver, endpoint, typed
  arguments, payments, native value, sender, gas limit and chain.

  Numbers.
  JavaScript numbers are rationals rounded to doubles by \<open>fl64\<close> (\<open>JsNumber\<close>), or \<open>jsnum\<close> where NaN and the
  infinities matter. Amounts are values of \<open>bignumber.js\<close>, a third-party library: the
  type \<open>bn\<close> and the operations of a record \<open>bignumber\<close>, which every definition that computes with amounts
  takes as its argument \<open>B\<close>. The locale \<open>bignumber_lib\<close> (\<open>BigNumber\<close>) lists the documented laws of these operations:
  exact sums and products, quotients to 20 decimal places, rounding half up; it is interpreted on the executable \<open>bn_js\<close>,
  on which the witnesses compute.

  Theories.
    \<^item> \<open>DexPrelude\<close>, \<open>JsNumber\<close>, \<open>BigNumber\<close>, \<open>DexModels\<close>: results, list lemmas, decimal and
      binary rounding with their error bounds, amounts, tokens, pairs, transactions.
    \<^item> \<open>GraphService\<close>, \<open>AutoRouterCompute\<close>, \<open>AutoRouterService\<close> (\<open>modules/auto-router\<close>): the graph of pairs and the search
      of all simple routes, the amounts along a route and the best one, quotes and router transactions. The locale
      \<open>best_scan\<close> states what one left-to-right scan needs of its comparison; the searches for the largest
      output and the smallest input are two \<open>sublocale\<close>s of \<open>bignumber_lib\<close>.
    \<^item> \<open>PairUtils\<close>, \<open>PairService\<close>, \<open>TokenPrice\<close>, \<open>PairCompute\<close>, \<open>PairTransactions\<close>, \<open>Listing\<close> (\<open>modules/pair\<close>,
      \<open>modules/tokens\<close>, \<open>modules/router\<close>): constant-product quotes, positions, recursive prices, locked values, the transactions
      on pairs, and the filtered, sorted and paged lists.
    \<^item> \<open>TokenConverters\<close>: identifiers and denominated amounts.
    \<^item> \<open>Energy\<close>, \<open>WeekTimekeeping\<close>, \<open>WeeklyRewards\<close>, \<open>FeesCollector\<close>, \<open>UserEnergy\<close> (\<open>modules/energy\<close>, \<open>submodules\<close>,
      \<open>modules/fees-collector\<close>, \<open>modules/user\<close>): penalties, weeks, distributions, shares of the fees, and which contracts hold
      outdated energy of a user.
    \<^item> \<open>FarmUtils\<close>, \<open>FarmCompute\<close>, \<open>FarmService\<close>, \<open>FarmTransactions\<close>, \<open>StakingCompute\<close>, \<open>StakingTransactions\<close>,
      \<open>StakingProxy\<close> (\<open>modules/farm\<close>, \<open>modules/staking\<close>, \<open>modules/staking-proxy\<close>): rewards, reserves and yields of the farm versions
      1.2, 1.3 and 2 and of staking, positions staked through a proxy, and their transactions.
    \<^item> \<open>RouterTransactions\<close>, \<open>AdminResolvers\<close>: the administrative queries. The locale \<open>owner_guarded\<close> states the contract of
      a guarded resolver and is interpreted for the farms, the staking contracts, the pairs, the router and all of them together.
    \<^item> \<open>ContractCalls\<close>, \<open>Abi\<close>: the shapes of calls, the interface files under \<open>src/abis\<close>, and when a
      transaction fits one.
    \<^item> \<open>LockedTokens\<close>, \<open>EnergyTransactions\<close>, \<open>LockedAssets\<close>, \<open>ProxyTransactions\<close>, \<open>Escrow\<close>, \<open>PriceDiscovery\<close>: the
      transactions on locked tokens, energy, fees, locked assets, proxied positions, escrowed tokens and price discovery,
      with the validation pipes in front of them; the escrow with its event handler and caches as a step relation.
    \<^item> \<open>TransactionProcessor\<close>, \<open>LogsProcessor\<close>, \<open>PendingExecutor\<close> (\<open>services/crons\<close>, \<open>utils/pending.executor.ts\<close>): the two
      measuring jobs and the sharing of pending executions, as step relations over interleaved invocations.

  What the theorems show.
  Searches: the routes found are exactly the simple routes, a chosen route is a best one, the recursive price search
  ends. Arithmetic: bounds and error terms of every quote, penalty, reward and share in terms of exact
  rational arithmetic. Transactions: which inputs are refused, what the served transactions pay and to whom, that
  minimums lie between zero and the quoted amounts, and which calls the interface files take. State: invariants of
  the caches and jobs over all reachable states. The code is modelled as it is: where it does
  not do what it means to, a lemma shows the input (a stale graph, an interface without the endpoint called, a cache read under
  another key than it is written).

  Termination and fuel.
  Recursive searches that mark what they visited take fuel: \<open>getAllPathsUtil\<close> one more than
  the keys of the graph, \<open>derivedEGLD\<close> one more than the pairs of the router. Each call deeper leaves one
  key or pair fewer to visit, so this fuel is enough, and the theorems on them state that a result is
  returned. Loops over lists are structural.

  Not modelled.
  The readers of contracts and the writers of cache entries, clients of the API, the gateway and the databases, guards and the GraphQL
  layer are input and output without logic of their own. Decoders of token attributes belong to
  \<open>@multiversx/sdk-exchange\<close> and are fields of the views. Concurrency is modelled for the jobs and
  caches named above; elsewhere the reads of one query are taken to see one state of the chain. Governance, the
  values of a user's assets, the event handlers other than the escrow's and the analytics are planned or left out;
  the components of the manifest say which.
\<close>

end
